(* ===== verification/Verity_Prelude.thy ===== *)
theory Verity_Prelude
  imports Main "HOL-Library.State_Monad" "HOL-Library.Multiset" "HOL-Library.Char_ord" "HOL-Library.List_Lexorder"
begin

text \<open>
  The vocabulary every component of the Verity backend shares: the exceptions the NestJS
  services throw, the string and number operations of JavaScript that the services use,
  rows selected and updated in a list, and the rewriting of programs written in the state
  monad (the collection \<open>run\<close>).

  Strings are lists of UTF-16 code units in the range 0 to 255 (Isabelle's \<open>string\<close>).
  Times and counters are mathematical integers: every number the modelled code computes
  with stays below \<open>2 ^ 53\<close>, where a JavaScript number is exact.
\<close>

named_theorems run \<open>execution of a program of the state monad, step by step\<close>

section \<open>Exceptions\<close>

text \<open>
  The exception classes of \<open>@nestjs/common\<close> that the services throw, a plain
  JavaScript error, and the two request errors of Prisma that the services look at
  (\<open>P2002\<close>, unique constraint; \<open>P2025\<close>, record not found).
\<close>

datatype exn =
    BadRequest string
  | Unauthorized string
  | Forbidden string
  | NotFound string
  | Conflict string
  | InternalServerError string
  | JsError string
  | PrismaP2002
  | PrismaP2025

type_synonym ('w, 'a) prog = "('w, 'a) state"
type_synonym ('w, 'a) fprog = "('w, exn + 'a) state"

abbreviation ret :: "'a \<Rightarrow> ('w, 'a) prog" where
  "ret \<equiv> State_Monad.return"

definition throw :: "exn \<Rightarrow> ('w, 'a) fprog" where
  "throw e = ret (Inl e)"

definition ok :: "'a \<Rightarrow> ('w, 'a) fprog" where
  "ok a = ret (Inr a)"

text \<open>Sequencing that stops at the first exception: \<open>const x = await m; ...\<close>.\<close>

definition andThen :: "('w, 'a) fprog \<Rightarrow> ('a \<Rightarrow> ('w, 'b) fprog) \<Rightarrow> ('w, 'b) fprog" where
  "andThen m f = State (\<lambda>w. case run_state m w of
      (Inl e, w') \<Rightarrow> (Inl e, w')
    | (Inr a, w') \<Rightarrow> run_state (f a) w')"

text \<open>The same for code that only computes: a value or the exception it throws.\<close>

definition bind_sum :: "exn + 'a \<Rightarrow> ('a \<Rightarrow> exn + 'b) \<Rightarrow> exn + 'b" where
  "bind_sum x f = (case x of Inl e \<Rightarrow> Inl e | Inr a \<Rightarrow> f a)"

lemma bind_sum_simps [simp]: "bind_sum (Inl e) f = Inl e" "bind_sum (Inr a) f = f a"
  by (simp_all add: bind_sum_def)

lemma bind_sum_Inr_iff: "bind_sum x f = Inr b \<longleftrightarrow> (\<exists>a. x = Inr a \<and> f a = Inr b)"
  by (cases x) auto

text \<open>\<open>for (const x of xs) await body(x)\<close> for a body that does not throw.\<close>

fun forEach :: "'a list \<Rightarrow> ('a \<Rightarrow> ('w, unit) prog) \<Rightarrow> ('w, unit) prog" where
  "forEach [] f = ret ()"
| "forEach (x # xs) f = do { f x; forEach xs f }"

lemma run_throw [simp]: "run_state (throw e) w = (Inl e, w)"
  by (simp add: throw_def)

lemma run_ok [simp]: "run_state (ok a) w = (Inr a, w)"
  by (simp add: ok_def)

lemma run_andThen [run]:
  "run_state (andThen m f) w = (case run_state m w of
      (Inl e, w') \<Rightarrow> (Inl e, w') | (Inr a, w') \<Rightarrow> run_state (f a) w')"
  by (simp add: andThen_def)

lemma run_if [run]:
  "run_state (if b then m else n) w = (if b then run_state m w else run_state n w)"
  by simp

lemma run_case_option [run]:
  "run_state (case x of None \<Rightarrow> m | Some a \<Rightarrow> n a) w =
     (case x of None \<Rightarrow> run_state m w | Some a \<Rightarrow> run_state (n a) w)"
  by (simp split: option.split)

lemma run_case_sum [run]:
  "run_state (case x of Inl e \<Rightarrow> m e | Inr a \<Rightarrow> n a) w =
     (case x of Inl e \<Rightarrow> run_state (m e) w | Inr a \<Rightarrow> run_state (n a) w)"
  by (simp split: sum.split)

lemma run_case_prod [run]:
  "run_state (case x of (a, b) \<Rightarrow> m a b) w = (case x of (a, b) \<Rightarrow> run_state (m a b) w)"
  by (simp split: prod.split)

lemma run_Let [run]: "run_state (let x = a in m x) w = (let x = a in run_state (m x) w)"
  by (simp add: Let_def)

lemma run_case_list [run]:
  "run_state (case x of [] \<Rightarrow> m | a # as \<Rightarrow> n a as) w =
     (case x of [] \<Rightarrow> run_state m w | a # as \<Rightarrow> run_state (n a as) w)"
  by (simp split: list.split)

lemma forEach_invariant:
  assumes "P w" and "\<And>x v. x \<in> set xs \<Longrightarrow> P v \<Longrightarrow> P (snd (run_state (f x) v))"
  shows "P (snd (run_state (forEach xs f) w))"
  using assms
proof (induction xs arbitrary: w)
  case Nil
  then show ?case by simp
next
  case (Cons x xs)
  have "P (snd (run_state (f x) w))"
    using Cons.prems by simp
  then have "P (snd (run_state (forEach xs f) (snd (run_state (f x) w))))"
    using Cons.IH Cons.prems by simp
  then show ?case
    by (simp add: case_prod_beta)
qed

section \<open>JavaScript strings\<close>

text \<open>The white space that \<open>trim\<close> removes, within the code units 0 to 255.\<close>

definition js_space :: "char \<Rightarrow> bool" where
  "js_space c \<longleftrightarrow> (let n = of_char c :: nat in 9 \<le> n \<and> n \<le> 13 \<or> n = 32 \<or> n = 160)"

definition trim :: "string \<Rightarrow> string" where
  "trim s = rev (dropWhile js_space (rev (dropWhile js_space s)))"

definition lower_char :: "char \<Rightarrow> char" where
  "lower_char c = (let n = of_char c :: nat in
     if 65 \<le> n \<and> n \<le> 90 \<or> 192 \<le> n \<and> n \<le> 222 \<and> n \<noteq> 215 then char_of (n + 32) else c)"

definition toLowerCase :: "string \<Rightarrow> string" where
  "toLowerCase s = map lower_char s"

text \<open>Within the code units 0 to 255; the three letters whose capital is not there are left.\<close>

definition toUpperCase :: "string \<Rightarrow> string" where
  "toUpperCase s = map (\<lambda>c. let n = of_char c :: nat in
     if 97 \<le> n \<and> n \<le> 122 \<or> 224 \<le> n \<and> n \<le> 254 \<and> n \<noteq> 247 then char_of (n - 32) else c) s"

definition startsWith :: "string \<Rightarrow> string \<Rightarrow> bool" where
  "startsWith s p \<longleftrightarrow> take (length p) s = p"

text \<open>\<open>s.split(c)\<close> for a one-character separator: never the empty list.\<close>

fun split_on :: "char \<Rightarrow> string \<Rightarrow> string list" where
  "split_on c [] = [[]]"
| "split_on c (x # xs) =
     (if x = c then [] # split_on c xs
      else (case split_on c xs of [] \<Rightarrow> [[x]] | y # ys \<Rightarrow> (x # y) # ys))"

lemma split_on_nonempty [simp]: "split_on c s \<noteq> []"
  by (induction s) (auto split: list.splits)

lemma split_on_append:
  "c \<notin> set a \<Longrightarrow> split_on c (a @ c # b) = a # split_on c b"
  by (induction a) (auto split: list.splits)

lemma length_dropWhile_le': "length (dropWhile P xs) \<le> length xs"
  by (induction xs) auto

lemma length_trim_le: "length (trim s) \<le> length s"
proof -
  have "length (dropWhile js_space (rev (dropWhile js_space s))) \<le> length (dropWhile js_space s)"
    by (metis length_dropWhile_le' length_rev)
  then show ?thesis
    unfolding trim_def using length_dropWhile_le' [of js_space s] by simp
qed

lemma dropWhile_js_space_idem [simp]:
  "dropWhile js_space (dropWhile js_space s) = dropWhile js_space s"
  by (induction s) auto

lemma dropWhile_rev_trim:
  "dropWhile js_space (rev (dropWhile js_space (rev (dropWhile js_space s)))) =
   rev (dropWhile js_space (rev (dropWhile js_space s)))"
proof (cases "rev (dropWhile js_space (rev (dropWhile js_space s)))")
  case Nil
  show ?thesis unfolding Nil by simp
next
  case (Cons c cs)
  let ?d = "dropWhile js_space s"
  have split: "?d = rev (dropWhile js_space (rev ?d)) @ rev (takeWhile js_space (rev ?d))"
    by (metis rev_append rev_rev_ident takeWhile_dropWhile_id)
  then have "hd ?d = c" and "?d \<noteq> []"
    using Cons by (metis append_Cons list.sel(1)) (metis Cons split append_is_Nil_conv list.distinct(1))
  then have "\<not> js_space c"
    by (metis hd_dropWhile)
  then show ?thesis unfolding Cons by simp
qed

lemma trim_idem [simp]: "trim (trim s) = trim s"
  unfolding trim_def by (simp add: dropWhile_rev_trim)

section \<open>JavaScript numbers\<close>

text \<open>
  What \<open>Number.parseInt\<close>, \<open>Number\<close> and the query parameters can be, as far as the
  code distinguishes them: a finite (integral) number or one of the values that
  \<open>Number.isFinite\<close> refuses.
\<close>

datatype jsnum = Fin int | PosInf | NegInf | NaN

fun isFinite :: "jsnum \<Rightarrow> bool" where
  "isFinite (Fin _) = True"
| "isFinite _ = False"

fun fin_value :: "jsnum \<Rightarrow> int" where
  "fin_value (Fin n) = n"
| "fin_value _ = 0"

definition digit_char :: "nat \<Rightarrow> char" where
  "digit_char d = char_of (48 + d)"

definition is_digit :: "char \<Rightarrow> bool" where
  "is_digit c \<longleftrightarrow> 48 \<le> (of_char c :: nat) \<and> (of_char c :: nat) \<le> 57"

definition digit_value :: "char \<Rightarrow> nat" where
  "digit_value c = of_char c - 48"

fun show_nat :: "nat \<Rightarrow> string" where
  "show_nat n = (if n < 10 then [digit_char n] else show_nat (n div 10) @ [digit_char (n mod 10)])"

declare show_nat.simps [simp del]

definition show_int :: "int \<Rightarrow> string" where
  "show_int i = (if i < 0 then CHR ''-'' # show_nat (nat (- i)) else show_nat (nat i))"

definition digits_value :: "string \<Rightarrow> nat" where
  "digits_value s = foldl (\<lambda>a c. 10 * a + digit_value c) 0 s"

text \<open>\<open>Number.parseInt(s, 10)\<close>: white space, an optional sign, the longest run of digits;
  \<open>NaN\<close> when there is no digit.\<close>

definition parseInt :: "string \<Rightarrow> jsnum" where
  "parseInt s =
    (let t = dropWhile js_space s;
         neg = (t \<noteq> [] \<and> hd t = CHR ''-'');
         u = (if t \<noteq> [] \<and> (hd t = CHR ''-'' \<or> hd t = CHR ''+'') then tl t else t);
         ds = takeWhile is_digit u
     in if ds = [] then NaN
        else Fin (if neg then - int (digits_value ds) else int (digits_value ds)))"

text \<open>
  \<open>Number(s)\<close> on the strings the code applies it to: decimal integers (a Redis score, a
  time stamp that matches \<open>\d{10,16}\<close>). Every other string that is not blank is \<open>NaN\<close>
  here.
\<close>

definition js_Number :: "string \<Rightarrow> jsnum" where
  "js_Number s =
    (let t = trim s;
         u = (if t \<noteq> [] \<and> hd t = CHR ''-'' then tl t else t)
     in if t = [] then Fin 0
        else if u = [] \<or> \<not> list_all is_digit u then NaN
        else Fin (if hd t = CHR ''-'' then - int (digits_value u) else int (digits_value u)))"

text \<open>\<open>Math.round(ms / 1000)\<close>: the nearest integer, halves upwards.\<close>

definition round_seconds :: "int \<Rightarrow> int" where
  "round_seconds ms = (ms + 500) div 1000"

lemma of_char_digit [simp]: "d < 10 \<Longrightarrow> (of_char (digit_char d) :: nat) = 48 + d"
  by (simp add: digit_char_def)

lemma is_digit_digit_char [simp]: "d < 10 \<Longrightarrow> is_digit (digit_char d)"
  by (simp add: is_digit_def)

lemma digit_value_digit_char [simp]: "d < 10 \<Longrightarrow> digit_value (digit_char d) = d"
  by (simp add: digit_value_def)

lemma show_nat_digits: "list_all is_digit (show_nat n)"
proof (induction n rule: show_nat.induct)
  case (1 n)
  then show ?case by (subst show_nat.simps) auto
qed

lemma show_nat_nonempty [simp]: "show_nat n \<noteq> []"
  by (subst show_nat.simps) simp

lemma digits_value_snoc: "digits_value (s @ [c]) = 10 * digits_value s + digit_value c"
  by (simp add: digits_value_def)

lemma digits_value_show_nat [simp]: "digits_value (show_nat n) = n"
proof (induction n rule: show_nat.induct)
  case (1 n)
  show ?case
  proof (cases "n < 10")
    case True
    then show ?thesis by (subst show_nat.simps) (simp add: digits_value_def)
  next
    case False
    with 1 show ?thesis by (subst show_nat.simps) (simp add: digits_value_snoc)
  qed
qed

lemma is_digit_not_space: "is_digit c \<Longrightarrow> \<not> js_space c"
  by (auto simp: is_digit_def js_space_def)

lemma is_digit_not_sign: "is_digit c \<Longrightarrow> c \<noteq> CHR ''-'' \<and> c \<noteq> CHR ''+''"
  by (auto simp: is_digit_def)

lemma trim_no_space: "\<forall>c \<in> set s. \<not> js_space c \<Longrightarrow> trim s = s"
proof -
  assume a: "\<forall>c \<in> set s. \<not> js_space c"
  have d: "dropWhile js_space t = t" if "\<forall>c \<in> set t. \<not> js_space c" for t
    using that by (cases t) auto
  show ?thesis using a by (simp add: trim_def d)
qed

lemma hd_show_nat: "is_digit (hd (show_nat n))"
  using show_nat_digits [of n] by (cases "show_nat n") auto

lemma show_int_no_space: "\<forall>c \<in> set (show_int i). \<not> js_space c"
proof -
  have "\<not> js_space c" if "c \<in> set (show_nat n)" for c n
    using that show_nat_digits [of n] is_digit_not_space by (auto simp: list_all_iff)
  then show ?thesis by (auto simp: show_int_def js_space_def)
qed

lemma takeWhile_show_nat [simp]: "takeWhile is_digit (show_nat n) = show_nat n"
  using show_nat_digits [of n] by (simp add: list_all_iff takeWhile_eq_all_conv)

lemma js_Number_show_int [simp]: "js_Number (show_int i) = Fin i"
proof -
  have t: "trim (show_int i) = show_int i"
    using show_int_no_space by (rule trim_no_space)
  have h: "hd (show_nat n) \<noteq> CHR ''-''" for n
    using hd_show_nat [of n] is_digit_not_sign by blast
  show ?thesis
    unfolding js_Number_def t Let_def
    by (simp add: show_int_def show_nat_digits h)
qed

lemma parseInt_show_int [simp]: "parseInt (show_int i) = Fin i"
proof -
  have d: "dropWhile js_space (show_int i) = show_int i"
    using show_int_no_space [of i] by (cases "show_int i") auto
  have h: "hd (show_nat n) \<noteq> CHR ''-'' \<and> hd (show_nat n) \<noteq> CHR ''+''" for n
    using hd_show_nat [of n] is_digit_not_sign by blast
  show ?thesis
    unfolding parseInt_def d Let_def
    by (simp add: show_int_def h)
qed

lemma show_int_inject [simp]: "show_int i = show_int j \<longleftrightarrow> i = j"
  by (metis js_Number_show_int jsnum.inject)

section \<open>Rows of a table\<close>

text \<open>\<open>updateMany\<close> on a list of rows: every row that satisfies the condition is changed.\<close>

definition update_rows :: "('r \<Rightarrow> bool) \<Rightarrow> ('r \<Rightarrow> 'r) \<Rightarrow> 'r list \<Rightarrow> 'r list" where
  "update_rows p f rs = map (\<lambda>r. if p r then f r else r) rs"

definition count_rows :: "('r \<Rightarrow> bool) \<Rightarrow> 'r list \<Rightarrow> nat" where
  "count_rows p rs = length (filter p rs)"

lemma length_update_rows [simp]: "length (update_rows p f rs) = length rs"
  by (simp add: update_rows_def)

lemma update_rows_Nil [simp]: "update_rows p f [] = []"
  by (simp add: update_rows_def)

lemma update_rows_Cons [simp]:
  "update_rows p f (r # rs) = (if p r then f r else r) # update_rows p f rs"
  by (simp add: update_rows_def)

lemma set_update_rows: "set (update_rows p f rs) = (\<lambda>r. if p r then f r else r) ` set rs"
  by (simp add: update_rows_def)

lemma count_rows_Nil [simp]: "count_rows p [] = 0"
  by (simp add: count_rows_def)

lemma count_rows_Cons [simp]:
  "count_rows p (r # rs) = (if p r then 1 else 0) + count_rows p rs"
  by (simp add: count_rows_def)

lemma count_rows_append [simp]:
  "count_rows p (rs @ ss) = count_rows p rs + count_rows p ss"
  by (simp add: count_rows_def)

lemma count_rows_0: "count_rows p rs = 0 \<longleftrightarrow> (\<forall>r \<in> set rs. \<not> p r)"
  by (induction rs) auto

lemma update_rows_none: "\<forall>r \<in> set rs. \<not> p r \<Longrightarrow> update_rows p f rs = rs"
  by (induction rs) auto

lemma filter_key: "distinct (map f xs) \<Longrightarrow> r \<in> set xs \<Longrightarrow> filter (\<lambda>x. f x = f r) xs = [r]"
  by (induction xs) (auto simp: filter_empty_conv image_iff)

lemma distinct_key: "distinct (map f xs) \<Longrightarrow> x \<in> set xs \<Longrightarrow> y \<in> set xs \<Longrightarrow> f x = f y \<Longrightarrow> x = y"
  by (metis distinct_map inj_onD)

lemma count_rows_update_le:
  "(\<And>r. r \<in> set rs \<Longrightarrow> p r \<Longrightarrow> q (f r) \<Longrightarrow> q r) \<Longrightarrow> count_rows q (update_rows p f rs) \<le> count_rows q rs"
  by (induction rs) (auto simp: count_rows_def le_SucI)

lemma count_rows_filter_le: "count_rows q (filter p rs) \<le> count_rows q rs"
  by (induction rs) (auto simp: count_rows_def)

lemma count_rows_le: "(\<And>r. r \<in> set rs \<Longrightarrow> p r \<Longrightarrow> q r) \<Longrightarrow> count_rows p rs \<le> count_rows q rs"
  by (induction rs) (auto simp: count_rows_def le_SucI)

lemma one_row: "count_rows p rs \<le> 1 \<Longrightarrow> a \<in> set rs \<Longrightarrow> b \<in> set rs \<Longrightarrow> p a \<Longrightarrow> p b \<Longrightarrow> a = b"
  by (induction rs) (auto simp: count_rows_def filter_empty_conv split: if_splits)

lemma map_update_rows: "(\<And>r. p r \<Longrightarrow> g (f r) = g r) \<Longrightarrow> map g (update_rows p f rs) = map g rs"
  by (induction rs) auto

lemma find_update_rows:
  assumes "\<And>r. p r \<Longrightarrow> q (f r) = q r"
  shows "find q (update_rows p f rs) =
    map_option (\<lambda>r. if p r then f r else r) (find q rs)"
  using assms by (induction rs) auto

lemma find_Some_mem: "find p rs = Some r \<Longrightarrow> r \<in> set rs \<and> p r"
  by (auto simp: find_Some_iff)

end
