(* ===== verification/JsDate.thy ===== *)
theory JsDate
  imports Verity_Prelude
begin

text \<open>
  The two conversions of JavaScript's \<open>Date\<close> that the services use: \<open>toISOString\<close> and
  \<open>new Date(s).getTime()\<close> on a string of that format (any other string is the invalid
  date, \<open>None\<close>). A date is the number of milliseconds since 1970-01-01T00:00:00Z. The
  string has four digits for the year, so the round trip holds for the times
  \<open>valid_time\<close>, up to some day of the year 9987.
\<close>

section \<open>Calendar\<close>

definition leap :: "nat \<Rightarrow> bool" where
  "leap y \<longleftrightarrow> y mod 4 = 0 \<and> y mod 100 \<noteq> 0 \<or> y mod 400 = 0"

definition year_days :: "nat \<Rightarrow> nat" where
  "year_days y = (if leap y then 366 else 365)"

definition month_lengths :: "nat \<Rightarrow> nat list" where
  "month_lengths y = [31, if leap y then 29 else 28, 31, 30, 31, 30, 31, 31, 30, 31, 30, 31]"

lemma year_days_bounds: "365 \<le> year_days y" "0 < year_days y"
  by (simp_all add: year_days_def)

text \<open>The year and the day of the year of the \<open>n\<close>-th day from the first day of the year \<open>y\<close>.\<close>

function civil_year :: "nat \<Rightarrow> nat \<Rightarrow> nat \<times> nat" where
  "civil_year y n = (if n < year_days y then (y, n) else civil_year (Suc y) (n - year_days y))"
  by auto
termination
proof (relation "measure snd")
  fix y n
  assume "\<not> n < year_days y"
  then show "((Suc y, n - year_days y), y, n) \<in> measure snd"
    using year_days_bounds(2) [of y] by simp
qed simp

declare civil_year.simps [simp del]

text \<open>The month (from 0) and the day (from 0) of a day of the year.\<close>

fun civil_month :: "nat list \<Rightarrow> nat \<Rightarrow> nat \<times> nat" where
  "civil_month [] n = (0, n)"
| "civil_month (l # ls) n =
    (if n < l then (0, n) else (let (m, d) = civil_month ls (n - l) in (Suc m, d)))"

definition days_to_year :: "nat \<Rightarrow> int" where
  "days_to_year y = int (sum_list (map year_days [1970..<y])) - int (sum_list (map year_days [y..<1970]))"

definition epoch_day :: "nat \<Rightarrow> nat \<Rightarrow> nat \<Rightarrow> int" where
  "epoch_day y m d = days_to_year y + int (sum_list (take m (month_lengths y))) + int d"

lemma civil_year_split:
  "civil_year y n = (y', n') \<Longrightarrow>
   y \<le> y' \<and> n' < year_days y' \<and> n = sum_list (map year_days [y..<y']) + n'"
proof (induction y n rule: civil_year.induct)
  case (1 y n)
  show ?case
  proof (cases "n < year_days y")
    case True
    then show ?thesis using "1.prems" by (simp add: civil_year.simps)
  next
    case False
    then have r: "civil_year (Suc y) (n - year_days y) = (y', n')"
      using "1.prems" by (subst (asm) civil_year.simps) simp
    have "Suc y \<le> y' \<and> n' < year_days y' \<and> n - year_days y = sum_list (map year_days [Suc y..<y']) + n'"
      by (rule "1.IH" [OF False r])
    moreover from this have "[y..<y'] = y # [Suc y..<y']"
      by (simp add: upt_rec)
    ultimately show ?thesis using False by (simp del: upt_Suc) linarith
  qed
qed

lemma sum_year_days_ge: "365 * length ys \<le> sum_list (map year_days ys)"
  using year_days_bounds(1) by (induction ys) (auto intro: add_mono)

lemma civil_month_split:
  "civil_month ls n = (m, d) \<Longrightarrow> n < sum_list ls \<Longrightarrow>
   m < length ls \<and> d < ls ! m \<and> n = sum_list (take m ls) + d"
proof (induction ls n arbitrary: m rule: civil_month.induct)
  case (1 n)
  then show ?case by simp
next
  case (2 l ls n)
  show ?case
  proof (cases "n < l")
    case True
    then show ?thesis using "2.prems" by auto
  next
    case False
    obtain m' d' where r: "civil_month ls (n - l) = (m', d')" by (cases "civil_month ls (n - l)")
    then have m: "m = Suc m'" "d = d'" using "2.prems" False by auto
    have "m' < length ls \<and> d < ls ! m' \<and> n - l = sum_list (take m' ls) + d"
      using "2.IH" [OF False] r m "2.prems" False by auto
    then show ?thesis using m False by auto
  qed
qed

lemma sum_month_lengths: "sum_list (month_lengths y) = year_days y"
  by (simp add: month_lengths_def year_days_def)

lemma month_length_le: "m < 12 \<Longrightarrow> month_lengths y ! m \<le> 31"
proof -
  have "list_all (\<lambda>l. l \<le> 31) (month_lengths y)"
    by (simp add: month_lengths_def)
  moreover have "length (month_lengths y) = 12"
    by (simp add: month_lengths_def)
  ultimately show "m < 12 \<Longrightarrow> month_lengths y ! m \<le> 31"
    by (simp add: list_all_length)
qed

section \<open>The ISO format\<close>

definition pad2 :: "nat \<Rightarrow> string" where
  "pad2 n = [digit_char (n div 10), digit_char (n mod 10)]"

definition pad3 :: "nat \<Rightarrow> string" where
  "pad3 n = digit_char (n div 100) # pad2 (n mod 100)"

definition pad4 :: "nat \<Rightarrow> string" where
  "pad4 n = digit_char (n div 1000) # pad3 (n mod 1000)"

definition date_iso :: "int \<Rightarrow> string" where
  "date_iso t =
    (let days = nat t div 86400000;
         ms = nat t mod 86400000;
         (y, yd) = civil_year 1970 days;
         (m, d) = civil_month (month_lengths y) yd
     in pad4 y @ ''-'' @ pad2 (m + 1) @ ''-'' @ pad2 (d + 1) @ ''T'' @
        pad2 (ms div 3600000) @ '':'' @ pad2 (ms div 60000 mod 60) @ '':'' @
        pad2 (ms div 1000 mod 60) @ ''.'' @ pad3 (ms mod 1000) @ ''Z'')"

definition iso_shape :: "string \<Rightarrow> bool" where
  "iso_shape s \<longleftrightarrow> length s = 24 \<and>
     s ! 4 = CHR ''-'' \<and> s ! 7 = CHR ''-'' \<and> s ! 10 = CHR ''T'' \<and> s ! 13 = CHR '':'' \<and>
     s ! 16 = CHR '':'' \<and> s ! 19 = CHR ''.'' \<and> s ! 23 = CHR ''Z'' \<and>
     list_all (\<lambda>i. is_digit (s ! i)) [0, 1, 2, 3, 5, 6, 8, 9, 11, 12, 14, 15, 17, 18, 20, 21, 22]"

definition num_at :: "nat \<Rightarrow> nat \<Rightarrow> string \<Rightarrow> nat" where
  "num_at i n s = digits_value (take n (drop i s))"

definition date_parse :: "string \<Rightarrow> int option" where
  "date_parse s =
    (if \<not> iso_shape s then None
     else (let y = num_at 0 4 s; mo = num_at 5 2 s; d = num_at 8 2 s;
               h = num_at 11 2 s; mi = num_at 14 2 s; sec = num_at 17 2 s; ms = num_at 20 3 s
           in if 1 \<le> mo \<and> mo \<le> 12 \<and> 1 \<le> d \<and> d \<le> 31 \<and>
                 (h < 24 \<or> h = 24 \<and> mi = 0 \<and> sec = 0 \<and> ms = 0) \<and> mi < 60 \<and> sec < 60
              then Some (epoch_day y (mo - 1) (d - 1) * 86400000 +
                     int (h * 3600000 + mi * 60000 + sec * 1000 + ms))
              else None))"

definition valid_time :: "int \<Rightarrow> bool" where
  "valid_time t \<longleftrightarrow> 0 \<le> t \<and> t < 253000000000000"

lemma digits_value_pad:
  "n < 100 \<Longrightarrow> digits_value (pad2 n) = n"
  "n < 1000 \<Longrightarrow> digits_value (pad3 n) = n"
  "n < 10000 \<Longrightarrow> digits_value (pad4 n) = n"
proof -
  show "n < 100 \<Longrightarrow> digits_value (pad2 n) = n"
    by (simp add: pad2_def digits_value_def)
  show "n < 1000 \<Longrightarrow> digits_value (pad3 n) = n"
    by (simp add: pad2_def pad3_def digits_value_def)
  show "n < 10000 \<Longrightarrow> digits_value (pad4 n) = n"
    by (simp add: pad2_def pad3_def pad4_def digits_value_def)
qed

text \<open>The text of seven fields and what \<open>date_parse\<close> reads in it.\<close>

definition iso_text :: "nat \<Rightarrow> nat \<Rightarrow> nat \<Rightarrow> nat \<Rightarrow> nat \<Rightarrow> nat \<Rightarrow> nat \<Rightarrow> string" where
  "iso_text y mo d h mi sec ms = pad4 y @ ''-'' @ pad2 mo @ ''-'' @ pad2 d @ ''T'' @
     pad2 h @ '':'' @ pad2 mi @ '':'' @ pad2 sec @ ''.'' @ pad3 ms @ ''Z''"

lemmas pad_defs = pad2_def pad3_def pad4_def

lemma iso_text_shape:
  assumes "y < 10000" and "mo < 100" "d < 100" "h < 100" "mi < 100" "sec < 100" "ms < 1000"
  shows "iso_shape (iso_text y mo d h mi sec ms)"
  using assms by (simp add: iso_shape_def iso_text_def pad_defs)

lemma iso_text_fields:
  "take 4 (drop 0 (iso_text y mo d h mi sec ms)) = pad4 y"
  "take 2 (drop 5 (iso_text y mo d h mi sec ms)) = pad2 mo"
  "take 2 (drop 8 (iso_text y mo d h mi sec ms)) = pad2 d"
  "take 2 (drop 11 (iso_text y mo d h mi sec ms)) = pad2 h"
  "take 2 (drop 14 (iso_text y mo d h mi sec ms)) = pad2 mi"
  "take 2 (drop 17 (iso_text y mo d h mi sec ms)) = pad2 sec"
  "take 3 (drop 20 (iso_text y mo d h mi sec ms)) = pad3 ms"
  by (simp_all add: iso_text_def pad_defs)

lemma date_parse_iso_text:
  assumes "y < 10000" and "1 \<le> mo" "mo \<le> 12" "1 \<le> d" "d \<le> 31" "h < 24" "mi < 60" "sec < 60" "ms < 1000"
  shows "date_parse (iso_text y mo d h mi sec ms) =
    Some (epoch_day y (mo - 1) (d - 1) * 86400000 + int (h * 3600000 + mi * 60000 + sec * 1000 + ms))"
  using assms iso_text_shape [of y mo d h mi sec ms]
  by (simp add: date_parse_def num_at_def iso_text_fields digits_value_pad del: drop0)

lemma ms_of_day:
  "ms div 3600000 * 3600000 + ms div 60000 mod 60 * 60000 + ms div 1000 mod 60 * 1000 + ms mod 1000 = (ms :: nat)"
proof -
  have "ms div 60000 = ms div 1000 div 60" "ms div 3600000 = ms div 1000 div 60 div 60"
    by (simp_all flip: div_mult2_eq)
  then show ?thesis
    using div_mult_mod_eq [of "ms div 1000 div 60" 60] div_mult_mod_eq [of "ms div 1000" 60]
      div_mult_mod_eq [of ms 1000] by (simp only:)
qed

theorem date_parse_iso [simp]:
  assumes "valid_time t"
  shows "date_parse (date_iso t) = Some t"
proof -
  define n where "n = nat t"
  define days where "days = n div 86400000"
  define ms where "ms = n mod 86400000"
  obtain y yd where y: "civil_year 1970 days = (y, yd)" by (cases "civil_year 1970 days")
  obtain m d where m: "civil_month (month_lengths y) yd = (m, d)" by (cases "civil_month (month_lengths y) yd")
  have n: "int n = t" "n < 253000000000000"
    using assms by (auto simp: n_def valid_time_def)
  note ys = civil_year_split [OF y]
  have md: "m < 12 \<and> d < month_lengths y ! m \<and> yd = sum_list (take m (month_lengths y)) + d"
    using civil_month_split [OF m] ys by (simp add: sum_month_lengths) (simp add: month_lengths_def)
  have "365 * (y - 1970) \<le> days"
    using sum_year_days_ge [of "[1970..<y]"] ys by simp
  then have y4: "y < 10000"
    using n unfolding days_def by simp
  have d31: "d < 31"
    using md month_length_le [of m y] by simp
  have iso: "date_iso t =
    iso_text y (m + 1) (d + 1) (ms div 3600000) (ms div 60000 mod 60) (ms div 1000 mod 60) (ms mod 1000)"
    by (simp only: date_iso_def iso_text_def Let_def flip: n_def)
      (simp only: y m prod.case flip: days_def ms_def)
  have ms: "ms < 86400000" by (simp add: ms_def)
  then have h: "ms div 3600000 < 24" by simp
  have e: "epoch_day y m d = int days"
    using ys md by (simp add: epoch_day_def days_to_year_def)
  have "date_parse (date_iso t) = Some (int days * 86400000 + int ms)"
    using md d31 y4 h ms_of_day [of ms] e unfolding iso
    by (subst date_parse_iso_text) simp_all
  also have "int days * 86400000 + int ms = t"
    unfolding n(1) [symmetric] days_def ms_def using div_mult_mod_eq [of n 86400000]
    by (metis of_nat_add of_nat_mult of_nat_numeral)
  finally show ?thesis .
qed

lemma date_iso_nonempty [simp]: "date_iso t \<noteq> []"
  by (simp add: date_iso_def Let_def pad4_def split: prod.split)

lemma date_iso_inject: "valid_time t \<Longrightarrow> valid_time u \<Longrightarrow> date_iso t = date_iso u \<longleftrightarrow> t = u"
  by (metis date_parse_iso option.inject)

end
