(* ===== verification/Redis_Client.thy ===== *)
theory Redis_Client
  imports Verity_Prelude
begin

text \<open>
  The Redis client the services receive under \<open>REDIS_CLIENT\<close>
  (\<open>src/src/common/redis.provider.ts\<close>). Redis is not part of the repository, so it is a
  parameter: a record of the commands the code issues, over an unspecified server state
  \<open>'r\<close>. Every command takes the time of the server in milliseconds. The locale
  \<open>redis_client\<close> states what the code relies on of the documented commands; the
  in-memory client of the repository's tests is shown to keep these laws in the theory
  \<open>InMemoryRedis\<close>.
\<close>

section \<open>The commands\<close>

datatype redis_command =
    CZadd string "(int \<times> string) list"
  | CSet string string "int option"
  | CSadd string "string list"
  | CDel "string list"

record 'r redis =
  rd_get :: "'r \<Rightarrow> int \<Rightarrow> string \<Rightarrow> string option"
  rd_mget :: "'r \<Rightarrow> int \<Rightarrow> string list \<Rightarrow> string option list"
  \<comment> \<open>\<open>set key value [PX ttl] [NX]\<close>; the flag says that the reply was \<open>OK\<close>\<close>
  rd_set :: "'r \<Rightarrow> int \<Rightarrow> string \<Rightarrow> string \<Rightarrow> int option \<Rightarrow> bool \<Rightarrow> bool \<times> 'r"
  rd_del :: "'r \<Rightarrow> int \<Rightarrow> string list \<Rightarrow> nat \<times> 'r"
  rd_hget :: "'r \<Rightarrow> int \<Rightarrow> string \<Rightarrow> string \<Rightarrow> string option"
  rd_hmget :: "'r \<Rightarrow> int \<Rightarrow> string \<Rightarrow> string list \<Rightarrow> string option list"
  rd_hset :: "'r \<Rightarrow> int \<Rightarrow> string \<Rightarrow> string \<Rightarrow> string \<Rightarrow> nat \<times> 'r"
  rd_pexpire :: "'r \<Rightarrow> int \<Rightarrow> string \<Rightarrow> int \<Rightarrow> nat \<times> 'r"
  rd_zadd :: "'r \<Rightarrow> int \<Rightarrow> string \<Rightarrow> (int \<times> string) list \<Rightarrow> nat \<times> 'r"
  rd_zrank :: "'r \<Rightarrow> int \<Rightarrow> string \<Rightarrow> string \<Rightarrow> nat option"
  rd_zrem :: "'r \<Rightarrow> int \<Rightarrow> string \<Rightarrow> string \<Rightarrow> nat \<times> 'r"
  rd_zcard :: "'r \<Rightarrow> int \<Rightarrow> string \<Rightarrow> nat"
  rd_zrange :: "'r \<Rightarrow> int \<Rightarrow> string \<Rightarrow> int \<Rightarrow> int \<Rightarrow> string list"
  \<comment> \<open>\<open>zpopmin key count\<close> replies member, score, member, score, ...\<close>
  rd_zpopmin :: "'r \<Rightarrow> int \<Rightarrow> string \<Rightarrow> nat \<Rightarrow> string list \<times> 'r"
  rd_sadd :: "'r \<Rightarrow> int \<Rightarrow> string \<Rightarrow> string list \<Rightarrow> nat \<times> 'r"
  rd_srem :: "'r \<Rightarrow> int \<Rightarrow> string \<Rightarrow> string list \<Rightarrow> nat \<times> 'r"
  rd_smembers :: "'r \<Rightarrow> int \<Rightarrow> string \<Rightarrow> string list"
  \<comment> \<open>\<open>scan cursor MATCH pattern COUNT n\<close>\<close>
  rd_scan :: "'r \<Rightarrow> int \<Rightarrow> string \<Rightarrow> string \<Rightarrow> nat \<Rightarrow> string \<times> string list"
  \<comment> \<open>\<open>eval script 1 key argument\<close>\<close>
  rd_eval :: "'r \<Rightarrow> int \<Rightarrow> string \<Rightarrow> string \<Rightarrow> string \<Rightarrow> nat \<times> 'r"
  \<comment> \<open>\<open>multi() ... exec()\<close>; the flag is \<open>False\<close> when \<open>exec\<close> replies \<open>null\<close>\<close>
  rd_exec :: "'r \<Rightarrow> int \<Rightarrow> redis_command list \<Rightarrow> bool \<times> 'r"

definition run_command :: "'r redis \<Rightarrow> int \<Rightarrow> 'r \<Rightarrow> redis_command \<Rightarrow> 'r" where
  "run_command R t r c = (case c of
      CZadd k ps \<Rightarrow> snd (rd_zadd R r t k ps)
    | CSet k v px \<Rightarrow> snd (rd_set R r t k v px False)
    | CSadd k ms \<Rightarrow> snd (rd_sadd R r t k ms)
    | CDel ks \<Rightarrow> snd (rd_del R r t ks))"

text \<open>The script of \<open>releaseLock\<close> in \<open>queue.service.ts\<close>: compare and delete.\<close>

definition unlock_script :: string where
  "unlock_script = ''if redis.call('' @ [CHR 0x22] @ ''get'' @ [CHR 0x22] @
     '', KEYS[1]) == ARGV[1] then return redis.call('' @ [CHR 0x22] @ ''del'' @ [CHR 0x22] @
     '', KEYS[1]) else return 0 end''"

section \<open>What the services rely on\<close>

text \<open>
  The members of a sorted set with their scores, after one \<open>ZADD\<close> (a member that is
  there gets the new score).
\<close>

fun zadd_scores :: "(string \<rightharpoonup> int) \<Rightarrow> (int \<times> string) list \<Rightarrow> (string \<rightharpoonup> int)" where
  "zadd_scores m [] = m"
| "zadd_scores m ((s, x) # ps) = zadd_scores (m(x \<mapsto> s)) ps"

lemma dom_zadd_scores: "dom (zadd_scores m ps) = dom m \<union> set (map snd ps)"
proof (induction ps arbitrary: m)
  case Nil
  then show ?case by simp
next
  case (Cons p ps)
  obtain s x where p: "p = (s, x)" by (cases p)
  have "dom (zadd_scores m (p # ps)) = dom (m(x \<mapsto> s)) \<union> set (map snd ps)"
    unfolding p zadd_scores.simps by (rule Cons.IH)
  then show ?case by (auto simp: p)
qed

definition rank_of :: "string list \<Rightarrow> string \<Rightarrow> nat option" where
  "rank_of xs x = (if x \<in> set xs then Some (length (takeWhile (\<lambda>y. y \<noteq> x) xs)) else None)"

definition pop_reply :: "(string \<times> int) list \<Rightarrow> string list" where
  "pop_reply ps = concat (map (\<lambda>(m, s). [m, show_int s]) ps)"

text \<open>
  The observers of a server state: \<open>rd_get\<close> and \<open>rd_hget\<close> of the client itself, the
  ordered members \<open>zv\<close> of a sorted set, the members \<open>sv\<close> of a set, and \<open>other r k\<close>,
  that the key \<open>k\<close> may hold a value that is not a string. A command on some keys leaves the
  others alone from then on (\<open>unch\<close>).
\<close>

definition unch ::
  "'r redis \<Rightarrow> ('r \<Rightarrow> int \<Rightarrow> string \<Rightarrow> (string \<times> int) list) \<Rightarrow> ('r \<Rightarrow> int \<Rightarrow> string \<Rightarrow> string set) \<Rightarrow>
   ('r \<Rightarrow> string \<Rightarrow> bool) \<Rightarrow> int \<Rightarrow> string set \<Rightarrow> 'r \<Rightarrow> 'r \<Rightarrow> bool" where
  "unch R zv sv other t K r r' \<longleftrightarrow> (\<forall>k. k \<notin> K \<longrightarrow>
     (\<forall>t' \<ge> t. rd_get R r' t' k = rd_get R r t' k \<and> (\<forall>f. rd_hget R r' t' k f = rd_hget R r t' k f) \<and>
       zv r' t' k = zv r t' k \<and> sv r' t' k = sv r t' k) \<and> (other r' k \<longrightarrow> other r k))"

locale redis_client =
  fixes R :: "'r redis"
    and zv :: "'r \<Rightarrow> int \<Rightarrow> string \<Rightarrow> (string \<times> int) list"
    and sv :: "'r \<Rightarrow> int \<Rightarrow> string \<Rightarrow> string set"
    and other :: "'r \<Rightarrow> string \<Rightarrow> bool"
  assumes get_expires: "t \<le> t' \<Longrightarrow> rd_get R r t' k = Some v \<Longrightarrow> rd_get R r t k = Some v"
    and mget: "rd_mget R r t ks = map (rd_get R r t) ks"
    and set_taken: "\<not> other r k \<Longrightarrow> rd_get R r t k = Some u \<Longrightarrow> rd_set R r t k v px True = (False, r)"
    and set_reply: "nx \<longrightarrow> rd_get R r t k = None \<and> \<not> other r k \<Longrightarrow> fst (rd_set R r t k v px nx)"
    and set_get: "nx \<longrightarrow> rd_get R r t k = None \<and> \<not> other r k \<Longrightarrow> t \<le> t' \<Longrightarrow>
      (\<forall>p. px = Some p \<longrightarrow> 0 < p \<and> t' < t + p) \<Longrightarrow> rd_get R (snd (rd_set R r t k v px nx)) t' k = Some v"
    and set_expired: "nx \<longrightarrow> rd_get R r t k = None \<and> \<not> other r k \<Longrightarrow> 0 < p \<Longrightarrow> t + p < t' \<Longrightarrow>
      rd_get R (snd (rd_set R r t k v (Some p) nx)) t' k = None"
    and set_unch: "unch R zv sv other t {k} r (snd (rd_set R r t k v px nx))"
    and set_other: "\<not> other r k \<Longrightarrow> \<not> other (snd (rd_set R r t k v px nx)) k"
    and del_get: "k \<in> set ks \<Longrightarrow> rd_get R (snd (rd_del R r t ks)) t' k = None"
    and del_other: "k \<in> set ks \<Longrightarrow> \<not> other (snd (rd_del R r t ks)) k"
    and del_unch: "unch R zv sv other t (set ks) r (snd (rd_del R r t ks))"
    and hmget: "rd_hmget R r t k fs = map (rd_hget R r t k) fs"
    and hset_hget: "rd_hget R (snd (rd_hset R r t k f v)) t k g = (if g = f then Some v else rd_hget R r t k g)"
    and hset_unch: "unch R zv sv other t {k} r (snd (rd_hset R r t k f v))"
    and pexpire_hget: "0 < ttl \<Longrightarrow> t \<le> t' \<Longrightarrow> t' < t + ttl \<Longrightarrow>
      rd_hget R (snd (rd_pexpire R r t k ttl)) t' k f = rd_hget R r t k f"
    and pexpire_unch: "unch R zv sv other t {k} r (snd (rd_pexpire R r t k ttl))"
    and zv_wf: "distinct (map fst (zv r t k)) \<and> sorted (map snd (zv r t k))"
    and zadd_zv: "map_of (zv (snd (rd_zadd R r t k ps)) t k) = zadd_scores (map_of (zv r t k)) ps"
    and zadd_unch: "unch R zv sv other t {k} r (snd (rd_zadd R r t k ps))"
    and zrank: "rd_zrank R r t k m = rank_of (map fst (zv r t k)) m"
    and zrem_reply: "fst (rd_zrem R r t k m) = (if m \<in> set (map fst (zv r t k)) then 1 else 0)"
    and zrem_zv: "zv (snd (rd_zrem R r t k m)) t k = filter (\<lambda>p. fst p \<noteq> m) (zv r t k)"
    and zrem_unch: "unch R zv sv other t {k} r (snd (rd_zrem R r t k m))"
    and zcard: "rd_zcard R r t k = length (zv r t k)"
    and zrange_all: "rd_zrange R r t k 0 (-1) = map fst (zv r t k)"
    and zpopmin_reply: "fst (rd_zpopmin R r t k n) = pop_reply (take n (zv r t k))"
    and zpopmin_zv: "zv (snd (rd_zpopmin R r t k n)) t k = drop n (zv r t k)"
    and zpopmin_unch: "unch R zv sv other t {k} r (snd (rd_zpopmin R r t k n))"
    and sadd_sv: "sv (snd (rd_sadd R r t k ms)) t k = sv r t k \<union> set ms"
    and sadd_unch: "unch R zv sv other t {k} r (snd (rd_sadd R r t k ms))"
    and srem_sv: "sv (snd (rd_srem R r t k ms)) t k = sv r t k - set ms"
    and srem_unch: "unch R zv sv other t {k} r (snd (rd_srem R r t k ms))"
    and smembers: "set (rd_smembers R r t k) = sv r t k \<and> distinct (rd_smembers R r t k)"
    and eval_hit: "rd_get R r t k = Some a \<Longrightarrow>
      snd (rd_eval R r t unlock_script k a) = snd (rd_del R r t [k])"
    and eval_miss: "rd_get R r t k \<noteq> Some a \<Longrightarrow>
      unch R zv sv other t {} r (snd (rd_eval R r t unlock_script k a))"
    and exec_fail: "\<not> fst (rd_exec R r t cs) \<Longrightarrow> unch R zv sv other t {} r (snd (rd_exec R r t cs))"
    and exec_ok: "fst (rd_exec R r t cs) \<Longrightarrow> snd (rd_exec R r t cs) = foldl (run_command R t) r cs"
begin

text \<open>Rewriting of the observers of the keys that a command does not write.\<close>

lemma unchD:
  assumes "unch R zv sv other t K r r'" and "k \<notin> K"
  shows "t \<le> t' \<Longrightarrow> rd_get R r' t' k = rd_get R r t' k" "t \<le> t' \<Longrightarrow> rd_hget R r' t' k f = rd_hget R r t' k f"
    "t \<le> t' \<Longrightarrow> zv r' t' k = zv r t' k" "t \<le> t' \<Longrightarrow> sv r' t' k = sv r t' k" "\<not> other r k \<Longrightarrow> \<not> other r' k"
  using assms by (auto simp: unch_def)

lemmas unch_get =
  unchD(1) [OF set_unch]
  unchD(1) [OF del_unch]
  unchD(1) [OF hset_unch]
  unchD(1) [OF pexpire_unch]
  unchD(1) [OF zadd_unch]
  unchD(1) [OF zrem_unch]
  unchD(1) [OF zpopmin_unch]
  unchD(1) [OF sadd_unch]
  unchD(1) [OF srem_unch]

lemmas unch_hget =
  unchD(2) [OF set_unch]
  unchD(2) [OF del_unch]
  unchD(2) [OF hset_unch]
  unchD(2) [OF pexpire_unch]
  unchD(2) [OF zadd_unch]
  unchD(2) [OF zrem_unch]
  unchD(2) [OF zpopmin_unch]
  unchD(2) [OF sadd_unch]
  unchD(2) [OF srem_unch]

lemmas unch_zv =
  unchD(3) [OF set_unch]
  unchD(3) [OF del_unch]
  unchD(3) [OF hset_unch]
  unchD(3) [OF pexpire_unch]
  unchD(3) [OF zadd_unch]
  unchD(3) [OF zrem_unch]
  unchD(3) [OF zpopmin_unch]
  unchD(3) [OF sadd_unch]
  unchD(3) [OF srem_unch]

lemmas unch_sv =
  unchD(4) [OF set_unch]
  unchD(4) [OF del_unch]
  unchD(4) [OF hset_unch]
  unchD(4) [OF pexpire_unch]
  unchD(4) [OF zadd_unch]
  unchD(4) [OF zrem_unch]
  unchD(4) [OF zpopmin_unch]
  unchD(4) [OF sadd_unch]
  unchD(4) [OF srem_unch]

lemmas unch_other =
  unchD(5) [OF set_unch]
  unchD(5) [OF del_unch]
  unchD(5) [OF hset_unch]
  unchD(5) [OF pexpire_unch]
  unchD(5) [OF zadd_unch]
  unchD(5) [OF zrem_unch]
  unchD(5) [OF zpopmin_unch]
  unchD(5) [OF sadd_unch]
  unchD(5) [OF srem_unch]

lemmas unch_simps = unch_get unch_hget unch_zv unch_sv unch_other

text \<open>Writing and reading back at the same instant.\<close>

lemma set_get_now:
  "nx \<longrightarrow> rd_get R r t k = None \<and> \<not> other r k \<Longrightarrow> (\<forall>p. px = Some p \<longrightarrow> 0 < p) \<Longrightarrow>
   rd_get R (snd (rd_set R r t k v px nx)) t k = Some v"
  by (rule set_get) auto

lemma set_nx_cases:
  assumes "\<not> other r k"
  shows "rd_set R r t k v px True =
    (if rd_get R r t k = None then (True, snd (rd_set R r t k v px True)) else (False, r))"
  using assms set_taken [of r k t _ v px] set_reply [of True r t k v px]
  by (cases "rd_get R r t k") (auto simp: prod_eq_iff)

lemma plain_set_now:
  "(\<forall>p. px = Some p \<longrightarrow> 0 < p) \<Longrightarrow> rd_get R (snd (rd_set R r t k v px False)) t k = Some v"
  by (rule set_get_now) auto

lemma zadd_members:
  "set (map fst (zv (snd (rd_zadd R r t k ps)) t k)) = set (map fst (zv r t k)) \<union> set (map snd ps)"
proof -
  have "dom (map_of (zv (snd (rd_zadd R r t k ps)) t k)) = dom (map_of (zv r t k)) \<union> set (map snd ps)"
    by (simp only: zadd_zv dom_zadd_scores)
  then show ?thesis by (simp add: dom_map_of_conv_image_fst)
qed

text \<open>SET with NX on a key that may only hold a string.\<close>

lemma nx_reply: "\<not> other r k \<Longrightarrow> fst (rd_set R r t k v px True) \<longleftrightarrow> rd_get R r t k = None"
  using set_nx_cases [of r k t v px] by (metis fst_conv)

lemma nx_taken: "\<not> other r k \<Longrightarrow> rd_get R r t k = Some u \<Longrightarrow> snd (rd_set R r t k v px True) = r"
  by (simp add: set_taken)

lemma nx_get:
  assumes "\<not> other r k" and "rd_get R r t k = None" and "t \<le> t'" and "\<forall>p. px = Some p \<longrightarrow> 0 < p \<and> t' < t + p"
  shows "rd_get R (snd (rd_set R r t k v px True)) t' k = Some v"
  using assms by (intro set_get) auto

lemma del_get_simp: "rd_get R (snd (rd_del R r t ks)) t' k = (if k \<in> set ks then None else if t \<le> t' then rd_get R r t' k else rd_get R (snd (rd_del R r t ks)) t' k)"
  using del_get unchD(1) [OF del_unch] by auto

end

end
