(* ===== verification/InMemoryRedis.thy ===== *)
theory InMemoryRedis
  imports Redis_Client "HOL-Library.DAList"
begin

text \<open>
  The in-memory Redis client that the repository's unit tests run the services on:
  \<open>InMemoryRedis\<close> and \<open>InMemoryMulti\<close> of \<open>src/test/mocks/redis.mock.ts\<close>. A JavaScript
  \<open>Map\<close> is an association list in insertion order (\<open>AList.update\<close> keeps the position of
  a key that is there, as \<open>Map.set\<close> does), a \<open>Set\<close> a list
  without repetitions; the inner map of a sorted set carries the distinctness of its members in
  its type (\<open>alist\<close> of \<open>DAList\<close>). The mock
  deletes an expired key when it next looks at it (\<open>isExpired\<close>). Ties between equal scores
  are broken by the order of the members' code units, which is what \<open>localeCompare\<close> gives on
  the lower-case identifiers of the tests. The last part shows that this client keeps the
  laws of \<open>redis_client\<close>. The mock has no \<open>smembers\<close>; the client record reads the set's
  members in insertion order.
\<close>

record inmem =
  store :: "(string \<times> string) list"
  hashes :: "(string \<times> (string \<times> string) list) list"
  zsets :: "(string \<times> (string, int) alist) list"
  sets :: "(string \<times> string list) list"
  expiries :: "(string \<times> int) list"
  failExec :: bool

definition im_empty :: inmem where
  "im_empty = \<lparr>store = [], hashes = [], zsets = [], sets = [], expiries = [], failExec = False\<rparr>"

definition im_deleteKey :: "string \<Rightarrow> inmem \<Rightarrow> inmem" where
  "im_deleteKey k r = r\<lparr>
     store := AList.delete k (store r),
     hashes := AList.delete k (hashes r),
     zsets := AList.delete k (zsets r),
     sets := AList.delete k (sets r),
     expiries := AList.delete k (expiries r)\<rparr>"

definition im_isExpired :: "inmem \<Rightarrow> int \<Rightarrow> string \<Rightarrow> bool \<times> inmem" where
  "im_isExpired r t k =
    (case map_of (expiries r) k of
       Some expiresAt \<Rightarrow> if expiresAt \<le> t then (True, im_deleteKey k r) else (False, r)
     | None \<Rightarrow> (False, r))"

definition im_has :: "inmem \<Rightarrow> string \<Rightarrow> bool" where
  "im_has r k \<longleftrightarrow> map_of (store r) k \<noteq> None \<or> map_of (hashes r) k \<noteq> None \<or>
     map_of (zsets r) k \<noteq> None \<or> map_of (sets r) k \<noteq> None"

definition im_hasKey :: "inmem \<Rightarrow> int \<Rightarrow> string \<Rightarrow> bool \<times> inmem" where
  "im_hasKey r t k =
    (case im_isExpired r t k of (True, r1) \<Rightarrow> (False, r1) | (False, r1) \<Rightarrow> (im_has r1 k, r1))"

definition im_get :: "inmem \<Rightarrow> int \<Rightarrow> string \<Rightarrow> string option \<times> inmem" where
  "im_get r t k =
    (case im_isExpired r t k of (True, r1) \<Rightarrow> (None, r1) | (False, r1) \<Rightarrow> (map_of (store r1) k, r1))"

definition im_set :: "inmem \<Rightarrow> int \<Rightarrow> string \<Rightarrow> string \<Rightarrow> int option \<Rightarrow> bool \<Rightarrow> bool \<times> inmem" where
  "im_set r t k v px nx =
    (let (taken, r1) = (if nx then im_hasKey r t k else (False, r))
     in if taken then (False, r1)
        else (True, r1\<lparr>store := AList.update k v (store r1),
               expiries := (case px of
                  Some ttl \<Rightarrow> if ttl \<noteq> 0 then AList.update k (t + ttl) (expiries r1)
                              else AList.delete k (expiries r1)
                | None \<Rightarrow> AList.delete k (expiries r1))\<rparr>))"

fun im_del :: "inmem \<Rightarrow> int \<Rightarrow> string list \<Rightarrow> nat \<times> inmem" where
  "im_del r t [] = (0, r)"
| "im_del r t (k # ks) =
    (let (has, r1) = im_hasKey r t k;
         (removed, r2) = im_del (if has then im_deleteKey k r1 else r1) t ks
     in ((if has then 1 else 0) + removed, r2))"

definition im_mget :: "inmem \<Rightarrow> int \<Rightarrow> string list \<Rightarrow> string option list" where
  "im_mget r t ks = map (\<lambda>k. fst (im_get r t k)) ks"

definition im_hget :: "inmem \<Rightarrow> int \<Rightarrow> string \<Rightarrow> string \<Rightarrow> string option \<times> inmem" where
  "im_hget r t k f =
    (case im_isExpired r t k of
       (True, r1) \<Rightarrow> (None, r1)
     | (False, r1) \<Rightarrow> (case map_of (hashes r1) k of None \<Rightarrow> None | Some m \<Rightarrow> map_of m f, r1))"

definition im_hset :: "inmem \<Rightarrow> int \<Rightarrow> string \<Rightarrow> string \<Rightarrow> string \<Rightarrow> nat \<times> inmem" where
  "im_hset r t k f v =
    (let (_, r1) = im_isExpired r t k;
         m = (case map_of (hashes r1) k of None \<Rightarrow> [] | Some m \<Rightarrow> m)
     in (if map_of m f = None then 1 else 0,
         r1\<lparr>hashes := AList.update k (AList.update f v m) (hashes r1)\<rparr>))"

definition im_hmget :: "inmem \<Rightarrow> int \<Rightarrow> string \<Rightarrow> string list \<Rightarrow> string option list" where
  "im_hmget r t k fs = map (\<lambda>f. fst (im_hget r t k f)) fs"

definition im_pexpire :: "inmem \<Rightarrow> int \<Rightarrow> string \<Rightarrow> int \<Rightarrow> nat \<times> inmem" where
  "im_pexpire r t k ttl =
    (case im_hasKey r t k of
       (False, r1) \<Rightarrow> (0, r1)
     | (True, r1) \<Rightarrow> (1, r1\<lparr>expiries := AList.update k (t + ttl) (expiries r1)\<rparr>))"

fun zset_put :: "(string, int) alist \<Rightarrow> (int \<times> string) list \<Rightarrow> (string, int) alist" where
  "zset_put z [] = z"
| "zset_put z ((s, m) # ps) = zset_put (DAList.update m s z) ps"

definition im_zadd :: "inmem \<Rightarrow> int \<Rightarrow> string \<Rightarrow> (int \<times> string) list \<Rightarrow> nat \<times> inmem" where
  "im_zadd r t k ps =
    (let (_, r1) = im_isExpired r t k;
         z = (case map_of (zsets r1) k of None \<Rightarrow> DAList.empty | Some z \<Rightarrow> z)
     in (length (remdups (filter (\<lambda>m. DAList.lookup z m = None) (map snd ps))),
         r1\<lparr>zsets := AList.update k (zset_put z ps) (zsets r1)\<rparr>))"

definition zset_sorted :: "(string, int) alist \<Rightarrow> (string \<times> int) list" where
  "zset_sorted z = sort_key snd (sort_key fst (DAList.impl_of z))"

text \<open>The sorted entries of the zset under a key that is not expired.\<close>

definition im_zentries :: "inmem \<Rightarrow> int \<Rightarrow> string \<Rightarrow> (string \<times> int) list \<times> inmem" where
  "im_zentries r t k =
    (case im_isExpired r t k of
       (True, r1) \<Rightarrow> ([], r1)
     | (False, r1) \<Rightarrow> (case map_of (zsets r1) k of None \<Rightarrow> [] | Some z \<Rightarrow> zset_sorted z, r1))"

definition im_zrank :: "inmem \<Rightarrow> int \<Rightarrow> string \<Rightarrow> string \<Rightarrow> nat option" where
  "im_zrank r t k m = rank_of (map fst (fst (im_zentries r t k))) m"

definition im_zrem :: "inmem \<Rightarrow> int \<Rightarrow> string \<Rightarrow> string \<Rightarrow> nat \<times> inmem" where
  "im_zrem r t k m =
    (case im_isExpired r t k of
       (True, r1) \<Rightarrow> (0, r1)
     | (False, r1) \<Rightarrow>
         (case map_of (zsets r1) k of
            None \<Rightarrow> (0, r1)
          | Some z \<Rightarrow> (if DAList.lookup z m = None then 0 else 1,
              r1\<lparr>zsets := AList.update k (DAList.delete m z) (zsets r1)\<rparr>)))"

definition im_zcard :: "inmem \<Rightarrow> int \<Rightarrow> string \<Rightarrow> nat" where
  "im_zcard r t k =
    (case im_isExpired r t k of
       (True, r1) \<Rightarrow> 0
     | (False, r1) \<Rightarrow> (case map_of (zsets r1) k of None \<Rightarrow> 0 | Some z \<Rightarrow> length (DAList.impl_of z)))"

definition im_zrange :: "inmem \<Rightarrow> int \<Rightarrow> string \<Rightarrow> int \<Rightarrow> int \<Rightarrow> string list" where
  "im_zrange r t k start stop =
    (let sorted = map fst (fst (im_zentries r t k));
         n = int (length sorted);
         s = (if start < 0 then max (n + start) 0 else start);
         e = (if stop < 0 then n + stop else stop)
     in if sorted = [] \<or> s > e \<or> s \<ge> n then []
        else take (nat (e + 1 - s)) (drop (nat s) sorted))"

definition im_zpopmin :: "inmem \<Rightarrow> int \<Rightarrow> string \<Rightarrow> nat \<Rightarrow> string list \<times> inmem" where
  "im_zpopmin r t k n =
    (case im_isExpired r t k of
       (True, r1) \<Rightarrow> ([], r1)
     | (False, r1) \<Rightarrow>
         (case map_of (zsets r1) k of
            None \<Rightarrow> ([], r1)
          | Some z \<Rightarrow>
              (let popped = take n (zset_sorted z)
               in (pop_reply popped,
                   r1\<lparr>zsets := AList.update k (foldl (\<lambda>a m. DAList.delete m a) z (map fst popped)) (zsets r1)\<rparr>))))"

definition im_sadd :: "inmem \<Rightarrow> int \<Rightarrow> string \<Rightarrow> string list \<Rightarrow> nat \<times> inmem" where
  "im_sadd r t k ms =
    (let (_, r1) = im_isExpired r t k;
         s = (case map_of (sets r1) k of None \<Rightarrow> [] | Some s \<Rightarrow> s);
         new = remdups (filter (\<lambda>m. m \<notin> set s) ms)
     in (length new, r1\<lparr>sets := AList.update k (s @ new) (sets r1)\<rparr>))"

definition im_srem :: "inmem \<Rightarrow> int \<Rightarrow> string \<Rightarrow> string list \<Rightarrow> nat \<times> inmem" where
  "im_srem r t k ms =
    (case im_isExpired r t k of
       (True, r1) \<Rightarrow> (0, r1)
     | (False, r1) \<Rightarrow>
         (case map_of (sets r1) k of
            None \<Rightarrow> (0, r1)
          | Some s \<Rightarrow> (length (remdups (filter (\<lambda>m. m \<in> set s) ms)),
              r1\<lparr>sets := AList.update k (filter (\<lambda>m. m \<notin> set ms) s) (sets r1)\<rparr>)))"

definition im_smembers :: "inmem \<Rightarrow> int \<Rightarrow> string \<Rightarrow> string list" where
  "im_smembers r t k =
    (case im_isExpired r t k of
       (True, r1) \<Rightarrow> []
     | (False, r1) \<Rightarrow> (case map_of (sets r1) k of None \<Rightarrow> [] | Some s \<Rightarrow> remdups s))"

text \<open>\<open>eval\<close> ignores the script: it is always compare-and-delete.\<close>

definition im_eval :: "inmem \<Rightarrow> int \<Rightarrow> string \<Rightarrow> string \<Rightarrow> string \<Rightarrow> nat \<times> inmem" where
  "im_eval r t script k a =
    (case im_get r t k of (current, r1) \<Rightarrow>
       if current = Some a then (1, snd (im_del r1 t [k])) else (0, r1))"

text \<open>
  The keys in the order \<open>allKeys\<close> visits them, and the patterns of the code: a prefix
  followed by \<open>*\<close>.
\<close>

definition im_allKeys :: "inmem \<Rightarrow> int \<Rightarrow> string list" where
  "im_allKeys r t =
    remdups (filter (\<lambda>k. \<not> fst (im_isExpired r t k))
      (map fst (store r) @ map fst (hashes r) @ map fst (zsets r) @ map fst (sets r)))"

fun glob_match :: "string \<Rightarrow> string \<Rightarrow> bool" where
  "glob_match [] s = (s = [])"
| "glob_match (p # ps) [] = (p = CHR ''*'' \<and> glob_match ps [])"
| "glob_match (p # ps) (c # s) =
    (if p = CHR ''*'' then glob_match ps (c # s) \<or> glob_match (p # ps) s
     else p = c \<and> glob_match ps s)"

definition im_scan :: "inmem \<Rightarrow> int \<Rightarrow> string \<Rightarrow> string \<Rightarrow> nat \<Rightarrow> string \<times> string list" where
  "im_scan r t cursor pattern n =
    (let current = (case js_Number cursor of Fin c \<Rightarrow> nat (max 0 c) | _ \<Rightarrow> 0);
         all = filter (glob_match pattern) (im_allKeys r t)
     in (if current + n \<ge> length all then ''0'' else show_int (int (current + n)),
         take n (drop current all)))"

text \<open>\<open>InMemoryMulti\<close>: the queued commands run in order, or \<open>exec\<close> fails once.\<close>

definition im_command :: "int \<Rightarrow> inmem \<Rightarrow> redis_command \<Rightarrow> inmem" where
  "im_command t r c = (case c of
      CZadd k ps \<Rightarrow> snd (im_zadd r t k ps)
    | CSet k v px \<Rightarrow> snd (im_set r t k v px False)
    | CSadd k ms \<Rightarrow> snd (im_sadd r t k ms)
    | CDel ks \<Rightarrow> snd (im_del r t ks))"

definition im_exec :: "inmem \<Rightarrow> int \<Rightarrow> redis_command list \<Rightarrow> bool \<times> inmem" where
  "im_exec r t cs =
    (if failExec r then (False, r\<lparr>failExec := False\<rparr>) else (True, foldl (im_command t) r cs))"

definition im_redis :: "inmem redis" where
  "im_redis = \<lparr>
     rd_get = (\<lambda>r t k. fst (im_get r t k)),
     rd_mget = im_mget,
     rd_set = im_set,
     rd_del = im_del,
     rd_hget = (\<lambda>r t k f. fst (im_hget r t k f)),
     rd_hmget = im_hmget,
     rd_hset = im_hset,
     rd_pexpire = im_pexpire,
     rd_zadd = im_zadd,
     rd_zrank = im_zrank,
     rd_zrem = im_zrem,
     rd_zcard = im_zcard,
     rd_zrange = im_zrange,
     rd_zpopmin = im_zpopmin,
     rd_sadd = im_sadd,
     rd_srem = im_srem,
     rd_smembers = im_smembers,
     rd_scan = im_scan,
     rd_eval = im_eval,
     rd_exec = im_exec\<rparr>"

section \<open>The in-memory client keeps the laws\<close>

definition im_zv :: "inmem \<Rightarrow> int \<Rightarrow> string \<Rightarrow> (string \<times> int) list" where
  "im_zv r t k = fst (im_zentries r t k)"

definition im_sv :: "inmem \<Rightarrow> int \<Rightarrow> string \<Rightarrow> string set" where
  "im_sv r t k = set (im_smembers r t k)"

definition im_other :: "inmem \<Rightarrow> string \<Rightarrow> bool" where
  "im_other r k \<longleftrightarrow> map_of (hashes r) k \<noteq> None \<or> map_of (zsets r) k \<noteq> None \<or> map_of (sets r) k \<noteq> None"

lemma im_redis_simps [simp]:
  "rd_get im_redis r t k = fst (im_get r t k)" "rd_mget im_redis = im_mget"
  "rd_set im_redis = im_set" "rd_del im_redis = im_del"
  "rd_hget im_redis r t k f = fst (im_hget r t k f)" "rd_hmget im_redis = im_hmget"
  "rd_hset im_redis = im_hset" "rd_pexpire im_redis = im_pexpire" "rd_zadd im_redis = im_zadd"
  "rd_zrank im_redis = im_zrank" "rd_zrem im_redis = im_zrem" "rd_zcard im_redis = im_zcard"
  "rd_zrange im_redis = im_zrange" "rd_zpopmin im_redis = im_zpopmin" "rd_sadd im_redis = im_sadd"
  "rd_srem im_redis = im_srem" "rd_smembers im_redis = im_smembers" "rd_scan im_redis = im_scan"
  "rd_eval im_redis = im_eval" "rd_exec im_redis = im_exec"
  by (simp_all add: im_redis_def)

text \<open>
  The state under one key, as the operations see it: \<open>alive r t k\<close> says that the key has not
  expired. Every observer is a function of the six look-ups below.
\<close>

definition alive :: "inmem \<Rightarrow> int \<Rightarrow> string \<Rightarrow> bool" where
  "alive r t k \<longleftrightarrow> (\<forall>e. map_of (expiries r) k = Some e \<longrightarrow> t < e)"

lemma isExpired_alive:
  "im_isExpired r t k = (if alive r t k then (False, r) else (True, im_deleteKey k r))"
  by (auto simp: im_isExpired_def alive_def split: option.split)

lemma im_get_eq: "fst (im_get r t k) = (if alive r t k then map_of (store r) k else None)"
  by (simp add: im_get_def isExpired_alive)

lemma im_hget_eq:
  "fst (im_hget r t k f) =
    (if alive r t k then (case map_of (hashes r) k of None \<Rightarrow> None | Some m \<Rightarrow> map_of m f) else None)"
  by (simp add: im_hget_def isExpired_alive)

lemma im_zv_eq:
  "im_zv r t k =
    (if alive r t k then (case map_of (zsets r) k of None \<Rightarrow> [] | Some z \<Rightarrow> zset_sorted z) else [])"
  by (simp add: im_zv_def im_zentries_def isExpired_alive)

lemma im_sv_eq:
  "im_sv r t k = (if alive r t k then (case map_of (sets r) k of None \<Rightarrow> {} | Some s \<Rightarrow> set s) else {})"
  by (auto simp: im_sv_def im_smembers_def isExpired_alive split: option.splits)

definition purged :: "inmem \<Rightarrow> int \<Rightarrow> string \<Rightarrow> inmem" where
  "purged r t k = snd (im_isExpired r t k)"

lemma purged_eq: "purged r t k = (if alive r t k then r else im_deleteKey k r)"
  by (simp add: purged_def isExpired_alive)

lemma deleteKey_lookups [simp]:
  "map_of (store (im_deleteKey k r)) k' = (if k' = k then None else map_of (store r) k')"
  "map_of (hashes (im_deleteKey k r)) k' = (if k' = k then None else map_of (hashes r) k')"
  "map_of (zsets (im_deleteKey k r)) k' = (if k' = k then None else map_of (zsets r) k')"
  "map_of (sets (im_deleteKey k r)) k' = (if k' = k then None else map_of (sets r) k')"
  "map_of (expiries (im_deleteKey k r)) k' = (if k' = k then None else map_of (expiries r) k')"
  by (simp_all add: im_deleteKey_def delete_conv)

lemma alive_deleteKey [simp]: "alive (im_deleteKey k r) t k' \<longleftrightarrow> k' = k \<or> alive r t k'"
  by (simp add: alive_def)

abbreviation same_except :: "string set \<Rightarrow> inmem \<Rightarrow> inmem \<Rightarrow> bool" where
  "same_except K r r' \<equiv> (\<forall>k. k \<notin> K \<longrightarrow>
     map_of (store r') k = map_of (store r) k \<and> map_of (hashes r') k = map_of (hashes r) k \<and>
     map_of (zsets r') k = map_of (zsets r) k \<and> map_of (sets r') k = map_of (sets r) k \<and>
     map_of (expiries r') k = map_of (expiries r) k)"

lemma same_except_unch:
  assumes "same_except K r r'"
  shows "unch im_redis im_zv im_sv im_other t K r r'"
proof -
  have "alive r' t' k = alive r t' k" if "k \<notin> K" for t' k
    using assms that by (simp add: alive_def)
  then show ?thesis
    using assms by (simp add: unch_def im_get_eq im_hget_eq im_zv_eq im_sv_eq im_other_def)
qed

lemma purged_same: "same_except {k} r (purged r t k)"
  by (auto simp: purged_eq)

lemma purge_unch: "unch im_redis im_zv im_sv im_other t {} r (purged r t k)"
proof (cases "alive r t k")
  case True
  then show ?thesis by (simp add: purged_eq unch_def)
next
  case False
  then have "\<not> alive r t' k" if "t \<le> t'" for t'
    using that by (auto simp: alive_def)
  then show ?thesis
    using False by (auto simp: purged_eq unch_def im_get_eq im_hget_eq im_zv_eq im_sv_eq im_other_def)
qed

lemma hasKey_purged: "im_hasKey r t k = (alive r t k \<and> im_has r k, purged r t k)"
  by (simp add: im_hasKey_def isExpired_alive purged_eq)

lemma im_set_snd:
  "snd (im_set r t k v px nx) =
    (if nx \<and> alive r t k \<and> im_has r k then purged r t k
     else (let r1 = (if nx then purged r t k else r) in
       r1\<lparr>store := AList.update k v (store r1),
          expiries := (case px of
             Some ttl \<Rightarrow> if ttl \<noteq> 0 then AList.update k (t + ttl) (expiries r1) else AList.delete k (expiries r1)
           | None \<Rightarrow> AList.delete k (expiries r1))\<rparr>))"
  by (simp add: im_set_def hasKey_purged Let_def)

lemma im_set_fst: "fst (im_set r t k v px nx) = (\<not> (nx \<and> alive r t k \<and> im_has r k))"
  by (simp add: im_set_def hasKey_purged Let_def)

lemma im_set_same: "same_except {k} r (snd (im_set r t k v px nx))"
  using purged_same [of k r t]
  by (auto simp: im_set_snd Let_def update_conv' delete_conv split: option.split)

lemma im_set_free:
  assumes "nx \<longrightarrow> fst (im_get r t k) = None \<and> \<not> im_other r k"
  shows "\<not> (nx \<and> alive r t k \<and> im_has r k)"
  using assms by (auto simp: im_get_eq im_other_def im_has_def)

lemma im_set_lookup:
  assumes "nx \<longrightarrow> fst (im_get r t k) = None \<and> \<not> im_other r k"
  shows "map_of (store (snd (im_set r t k v px nx))) k = Some v"
    and "map_of (expiries (snd (im_set r t k v px nx))) k =
      (case px of Some p \<Rightarrow> if p \<noteq> 0 then Some (t + p) else None | None \<Rightarrow> None)"
  using im_set_free [OF assms] unfolding im_set_snd
  by (simp_all only: if_False simp_thms) (simp_all add: Let_def update_conv' delete_conv split: option.split)

lemma im_set_other: "\<not> im_other r k \<Longrightarrow> \<not> im_other (snd (im_set r t k v px nx)) k"
  by (auto simp: im_other_def im_set_snd Let_def purged_eq)

lemma im_del_same: "same_except (set ks) r (snd (im_del r t ks))"
proof (induction ks arbitrary: r)
  case Nil
  then show ?case by simp
next
  case (Cons k ks)
  let ?r = "if alive r t k \<and> im_has r k then im_deleteKey k (purged r t k) else purged r t k"
  have e: "snd (im_del r t (k # ks)) = snd (im_del ?r t ks)"
    by (simp add: hasKey_purged Let_def case_prod_beta)
  have "same_except {k} r ?r"
    by (auto simp: purged_eq)
  then show ?case
    unfolding e using Cons.IH [of ?r] by simp
qed

lemma im_del_gone:
  assumes "k \<in> set ks \<or> (map_of (store r) k = None \<and> \<not> im_other r k)"
  shows "map_of (store (snd (im_del r t ks))) k = None \<and> \<not> im_other (snd (im_del r t ks)) k"
  using assms
proof (induction ks arbitrary: r)
  case Nil
  then show ?case by simp
next
  case (Cons j ks)
  let ?r = "if alive r t j \<and> im_has r j then im_deleteKey j (purged r t j) else purged r t j"
  have e: "snd (im_del r t (j # ks)) = snd (im_del ?r t ks)"
    by (simp add: hasKey_purged Let_def case_prod_beta)
  have "k \<in> set ks \<or> (map_of (store ?r) k = None \<and> \<not> im_other ?r k)"
    using Cons.prems by (auto simp: purged_eq im_other_def im_has_def)
  then show ?case
    unfolding e by (rule Cons.IH)
qed


lemma alist_lookup_impl [simp]: "map_of (DAList.impl_of z) m = DAList.lookup z m"
  by (simp add: DAList.lookup_def)

lemma distinct_impl: "distinct (map fst (DAList.impl_of z))"
  using DAList.impl_of [of z] by simp

lemma mset_sorted_key: "set (zset_sorted z) = set (DAList.impl_of z)"
  by (simp add: zset_sorted_def)

lemma zset_sorted_wf: "distinct (map fst (zset_sorted z)) \<and> sorted (map snd (zset_sorted z))"
proof
  have "mset (map fst (zset_sorted z)) = mset (map fst (DAList.impl_of z))"
    by (simp add: zset_sorted_def)
  then show "distinct (map fst (zset_sorted z))"
    using distinct_impl [of z] by (metis mset_eq_imp_distinct_iff)
  show "sorted (map snd (zset_sorted z))"
    by (simp add: zset_sorted_def)
qed

lemma length_zset_sorted [simp]: "length (zset_sorted z) = length (DAList.impl_of z)"
  by (simp add: zset_sorted_def)

lemma map_of_zset_sorted: "map_of (zset_sorted z) = DAList.lookup z"
proof
  fix m
  have "map_of (zset_sorted z) m = Some s \<longleftrightarrow> DAList.lookup z m = Some s" for s
  proof -
    have "map_of (zset_sorted z) m = Some s \<longleftrightarrow> map_of (DAList.impl_of z) m = Some s"
      using zset_sorted_wf [of z] distinct_impl [of z] mset_sorted_key [of z]
      by (simp only: map_of_eq_Some_iff)
    then show ?thesis by simp
  qed
  then show "map_of (zset_sorted z) m = DAList.lookup z m"
    by (metis not_None_eq)
qed

lemma lookup_zset_put: "DAList.lookup (zset_put z ps) = zadd_scores (DAList.lookup z) ps"
proof (induction z ps rule: zset_put.induct)
  case (2 z s m ps)
  have "DAList.lookup (DAList.update m s z) = (DAList.lookup z)(m \<mapsto> s)"
    by (simp add: DAList.lookup_update fun_eq_iff)
  with 2 show ?case by (simp only: zset_put.simps zadd_scores.simps)
qed simp

lemma impl_delete: "DAList.impl_of (DAList.delete m z) = filter (\<lambda>p. fst p \<noteq> m) (DAList.impl_of z)"
  by (simp add: DAList.delete.rep_eq AList.delete_eq) (metis (mono_tags, lifting) case_prod_beta')

lemma zset_sorted_delete: "zset_sorted (DAList.delete m z) = filter (\<lambda>p. fst p \<noteq> m) (zset_sorted z)"
  by (simp add: zset_sorted_def impl_delete filter_sort)

lemma zset_sorted_deletes:
  "zset_sorted (foldl (\<lambda>a m. DAList.delete m a) z ms) = filter (\<lambda>p. fst p \<notin> set ms) (zset_sorted z)"
proof (induction ms arbitrary: z)
  case Nil
  then show ?case by simp
next
  case (Cons m ms)
  show ?case
    by (simp add: Cons.IH zset_sorted_delete conj_commute)
qed

lemma filter_not_in_take:
  assumes "distinct (map f xs)"
  shows "filter (\<lambda>p. f p \<notin> set (map f (take n xs))) xs = drop n xs"
proof -
  have d: "set (map f (take n xs)) \<inter> set (map f (drop n xs)) = {}"
    using assms by (metis append_take_drop_id distinct_append map_append)
  let ?P = "\<lambda>p. f p \<notin> set (map f (take n xs))"
  have "filter ?P (take n xs) = []"
    by (simp add: filter_empty_conv)
  moreover have "filter ?P (drop n xs) = drop n xs"
    using d by (intro filter_True) (auto simp: disjoint_iff)
  moreover have "filter ?P xs = filter ?P (take n xs) @ filter ?P (drop n xs)"
    by (metis append_take_drop_id filter_append)
  ultimately show ?thesis by simp
qed


lemma expiry_alive:
  "map_of (expiries r) k = None \<Longrightarrow> alive r t k"
  "map_of (expiries r) k = Some e \<Longrightarrow> alive r t k \<longleftrightarrow> t < e"
  by (simp_all add: alive_def)

lemma alive_mono: "t \<le> t' \<Longrightarrow> alive r t' k \<Longrightarrow> alive r t k"
  by (auto simp: alive_def)

lemma alive_purged [simp]: "alive (purged r t k) t k"
  by (simp add: purged_eq)

lemma im_hset_snd:
  "snd (im_hset r t k f v) = (let r1 = purged r t k;
     m = (case map_of (hashes r1) k of None \<Rightarrow> [] | Some m \<Rightarrow> m)
   in r1\<lparr>hashes := AList.update k (AList.update f v m) (hashes r1)\<rparr>)"
  by (simp add: im_hset_def purged_def Let_def case_prod_beta)

lemma im_zadd_snd:
  "snd (im_zadd r t k ps) = (let r1 = purged r t k;
     z = (case map_of (zsets r1) k of None \<Rightarrow> DAList.empty | Some z \<Rightarrow> z)
   in r1\<lparr>zsets := AList.update k (zset_put z ps) (zsets r1)\<rparr>)"
  by (simp add: im_zadd_def purged_def Let_def case_prod_beta)

lemma im_sadd_snd:
  "snd (im_sadd r t k ms) = (let r1 = purged r t k;
     s = (case map_of (sets r1) k of None \<Rightarrow> [] | Some s \<Rightarrow> s);
     new = remdups (filter (\<lambda>m. m \<notin> set s) ms)
   in r1\<lparr>sets := AList.update k (s @ new) (sets r1)\<rparr>)"
  by (simp add: im_sadd_def purged_def Let_def case_prod_beta)

lemma im_writes_same:
  "same_except {k} r (snd (im_hset r t k f v))"
  "same_except {k} r (snd (im_pexpire r t k ttl))"
  "same_except {k} r (snd (im_zadd r t k ps))"
  "same_except {k} r (snd (im_zrem r t k m))"
  "same_except {k} r (snd (im_zpopmin r t k n))"
  "same_except {k} r (snd (im_sadd r t k ms))"
  "same_except {k} r (snd (im_srem r t k ms))"
  by (auto simp: im_hset_snd im_zadd_snd im_sadd_snd im_pexpire_def hasKey_purged im_zrem_def
      im_zpopmin_def im_srem_def isExpired_alive purged_eq Let_def update_conv' split: option.split bool.split)

lemma im_hset_hget:
  "fst (im_hget (snd (im_hset r t k f v)) t k g) = (if g = f then Some v else fst (im_hget r t k g))"
proof -
  have "alive (snd (im_hset r t k f v)) t k"
    by (simp add: im_hset_snd Let_def alive_def purged_eq)
  then show ?thesis
    by (auto simp: im_hget_eq im_hset_snd Let_def update_conv' purged_eq split: option.split)
qed

lemma im_pexpire_snd:
  "snd (im_pexpire r t k ttl) = (if alive r t k \<and> im_has r k
     then (purged r t k)\<lparr>expiries := AList.update k (t + ttl) (expiries (purged r t k))\<rparr> else purged r t k)"
  by (simp add: im_pexpire_def hasKey_purged split: bool.split)

lemma im_hget_absent: "\<not> im_has r k \<Longrightarrow> fst (im_hget r t k f) = None"
  by (simp add: im_hget_eq im_has_def)

lemma im_hget_dead: "\<not> alive r t k \<Longrightarrow> t \<le> t' \<Longrightarrow> fst (im_hget r t' k f) = None"
  using alive_mono by (auto simp: im_hget_eq)

lemma im_pexpire_hget:
  assumes "0 < ttl" and "t \<le> t'" and "t' < t + ttl"
  shows "fst (im_hget (snd (im_pexpire r t k ttl)) t' k f) = fst (im_hget r t k f)"
proof (cases "alive r t k \<and> im_has r k")
  case True
  then have "alive (snd (im_pexpire r t k ttl)) t' k"
    using assms by (simp add: im_pexpire_snd expiry_alive update_conv')
  with True show ?thesis
    by (simp add: im_hget_eq im_pexpire_snd purged_eq)
next
  case False
  then have "snd (im_pexpire r t k ttl) = purged r t k"
    by (simp only: im_pexpire_snd if_False)
  with False assms show ?thesis
    by (cases "alive r t k") (simp_all add: purged_eq im_hget_absent im_hget_dead im_hget_eq im_has_def)
qed

lemma DAList_lookup_empty: "DAList.lookup DAList.empty = (\<lambda>_. None)"
  by (simp add: fun_eq_iff)

lemma im_zadd_zv: "map_of (im_zv (snd (im_zadd r t k ps)) t k) = zadd_scores (map_of (im_zv r t k)) ps"
proof -
  have "alive (snd (im_zadd r t k ps)) t k"
    by (simp add: im_zadd_snd Let_def alive_def purged_eq)
  then show ?thesis
    by (auto simp: im_zv_eq im_zadd_snd Let_def update_conv' purged_eq map_of_zset_sorted
        lookup_zset_put DAList_lookup_empty split: option.split)
qed

lemma alive_zsets_update [simp]: "alive (r\<lparr>zsets := x\<rparr>) t k = alive r t k"
  "alive (r\<lparr>sets := y\<rparr>) t k = alive r t k"
  by (simp_all add: alive_def)

lemma im_zrem_snd:
  "snd (im_zrem r t k m) = (case map_of (zsets (purged r t k)) k of None \<Rightarrow> purged r t k
     | Some z \<Rightarrow> (purged r t k)\<lparr>zsets := AList.update k (DAList.delete m z) (zsets (purged r t k))\<rparr>)"
  by (cases "alive r t k"; cases "map_of (zsets r) k") (simp_all add: im_zrem_def isExpired_alive purged_eq)

lemma im_zrem_zv: "im_zv (snd (im_zrem r t k m)) t k = filter (\<lambda>p. fst p \<noteq> m) (im_zv r t k)"
proof (cases "map_of (zsets (purged r t k)) k")
  case None
  then show ?thesis
    by (cases "alive r t k") (simp_all add: im_zrem_snd im_zv_eq purged_eq)
next
  case (Some z)
  then have "alive r t k" "map_of (zsets r) k = Some z"
    by (auto simp: purged_eq split: if_splits)
  with Some show ?thesis
    by (simp add: im_zrem_snd im_zv_eq purged_eq zset_sorted_delete update_conv')
qed

lemma zset_sorted_members: "set (map fst (zset_sorted z)) = dom (DAList.lookup z)"
  using dom_map_of_conv_image_fst [of "zset_sorted z"] by (simp add: map_of_zset_sorted)

lemma im_zrem_reply: "fst (im_zrem r t k m) = (if m \<in> set (map fst (im_zv r t k)) then 1 else 0)"
proof (cases "alive r t k")
  case False
  then show ?thesis by (simp add: im_zv_eq im_zrem_def isExpired_alive)
next
  case True
  show ?thesis
  proof (cases "map_of (zsets r) k")
    case None
    with True show ?thesis by (simp add: im_zv_eq im_zrem_def isExpired_alive)
  next
    case (Some z)
    have "(m \<in> set (map fst (zset_sorted z))) = (DAList.lookup z m \<noteq> None)"
      unfolding zset_sorted_members by (simp add: dom_def)
    with True Some show ?thesis
      by (simp add: im_zv_eq im_zrem_def isExpired_alive del: set_map)
  qed
qed

lemma im_zpopmin_reply: "fst (im_zpopmin r t k n) = pop_reply (take n (im_zv r t k))"
  by (cases "map_of (zsets r) k")
    (simp_all add: im_zv_eq im_zpopmin_def isExpired_alive pop_reply_def Let_def)

lemma zset_sorted_pop:
  "zset_sorted (foldl (\<lambda>a m. DAList.delete m a) z (map fst (take n (zset_sorted z)))) = drop n (zset_sorted z)"
  unfolding zset_sorted_deletes using zset_sorted_wf by (intro filter_not_in_take) simp

lemma im_zpopmin_zv: "im_zv (snd (im_zpopmin r t k n)) t k = drop n (im_zv r t k)"
  by (cases "map_of (zsets r) k")
    (simp_all add: im_zv_eq im_zpopmin_def isExpired_alive update_conv' zset_sorted_pop Let_def)

lemma im_sadd_sv: "im_sv (snd (im_sadd r t k ms)) t k = im_sv r t k \<union> set ms"
proof -
  have "alive (snd (im_sadd r t k ms)) t k"
    by (simp add: im_sadd_snd Let_def alive_def purged_eq)
  then show ?thesis
    by (auto simp: im_sv_eq im_sadd_snd Let_def update_conv' purged_eq split: option.splits)
qed

lemma im_srem_sv: "im_sv (snd (im_srem r t k ms)) t k = im_sv r t k - set ms"
  by (cases "map_of (sets r) k") (auto simp: im_sv_eq im_srem_def isExpired_alive update_conv')

lemma im_zcard_zv: "im_zcard r t k = length (im_zv r t k)"
  by (simp add: im_zcard_def im_zv_eq isExpired_alive split: option.split)

lemma im_zrange_zv: "im_zrange r t k 0 (-1) = map fst (im_zv r t k)"
  by (simp add: im_zrange_def im_zv_def Let_def)

lemma im_eval_hit:
  "fst (im_get r t k) = Some a \<Longrightarrow> snd (im_eval r t s k a) = snd (im_del r t [k])"
  by (auto simp: im_eval_def im_get_def isExpired_alive split: if_splits)

lemma im_eval_miss:
  "fst (im_get r t k) \<noteq> Some a \<Longrightarrow> unch im_redis im_zv im_sv im_other t {} r (snd (im_eval r t s k a))"
  using purge_unch [of t r k]
  by (auto simp: im_eval_def im_get_def isExpired_alive purged_eq unch_def split: if_splits)

lemma im_command_eq: "run_command im_redis t r c = im_command t r c"
  by (simp add: run_command_def im_command_def split: redis_command.split)

interpretation im: redis_client im_redis im_zv im_sv im_other
proof (unfold_locales, goal_cases)
  case (1 t t' r k v)
  then show ?case by (auto simp: im_get_eq dest: alive_mono split: if_splits)
next
  case (2 r t ks)
  then show ?case by (simp add: im_mget_def)
next
  case (3 r k t u v px)
  then show ?case
    by (auto simp: im_set_def hasKey_purged im_get_eq im_has_def purged_eq split: if_splits)
next
  case (4 nx r t k v px)
  then show ?case using im_set_free [of nx r t k] by (simp add: im_set_fst)
next
  case (5 nx r t k t' px v)
  then show ?case
    using im_set_lookup [of nx r t k v px] by (auto simp: im_get_eq alive_def split: option.splits)
next
  case (6 nx r t k p t' v)
  then show ?case
    using im_set_lookup [of nx r t k v "Some p"] by (auto simp: im_get_eq alive_def)
next
  case (7 r t k v px nx)
  then show ?case using im_set_same by (simp add: same_except_unch)
next
  case (8 r k t v px nx)
  then show ?case using im_set_other by simp
next
  case (9 k ks r t t')
  then show ?case using im_del_gone [of k ks r t] by (simp add: im_get_eq)
next
  case (10 k ks r t)
  then show ?case using im_del_gone [of k ks r t] by simp
next
  case (11 ks r t)
  then show ?case using im_del_same by (simp add: same_except_unch)
next
  case (12 r t k fs)
  then show ?case by (simp add: im_hmget_def)
next
  case (13 r t k f v g)
  then show ?case by (simp add: im_hset_hget)
next
  case (14 r t k f v)
  then show ?case using im_writes_same(1) by (simp add: same_except_unch)
next
  case (15 ttl t t' r k f)
  then show ?case by (simp add: im_pexpire_hget)
next
  case (16 r t k ttl)
  then show ?case using im_writes_same(2) by (simp add: same_except_unch)
next
  case (17 r t k)
  then show ?case using zset_sorted_wf by (simp add: im_zv_eq split: option.split)
next
  case (18 r t k ps)
  then show ?case by (simp add: im_zadd_zv)
next
  case (19 r t k ps)
  then show ?case using im_writes_same(3) by (simp add: same_except_unch)
next
  case (20 r t k m)
  then show ?case by (simp add: im_zrank_def im_zv_def)
next
  case (21 r t k m)
  then show ?case by (simp add: im_zrem_reply)
next
  case (22 r t k m)
  then show ?case by (simp add: im_zrem_zv)
next
  case (23 r t k m)
  then show ?case using im_writes_same(4) by (simp add: same_except_unch)
next
  case (24 r t k)
  then show ?case by (simp add: im_zcard_zv)
next
  case (25 r t k)
  then show ?case by (simp add: im_zrange_zv)
next
  case (26 r t k n)
  then show ?case by (simp add: im_zpopmin_reply)
next
  case (27 r t k n)
  then show ?case by (simp add: im_zpopmin_zv)
next
  case (28 r t k n)
  then show ?case using im_writes_same(5) by (simp add: same_except_unch)
next
  case (29 r t k ms)
  then show ?case by (simp add: im_sadd_sv)
next
  case (30 r t k ms)
  then show ?case using im_writes_same(6) by (simp add: same_except_unch)
next
  case (31 r t k ms)
  then show ?case by (simp add: im_srem_sv)
next
  case (32 r t k ms)
  then show ?case using im_writes_same(7) by (simp add: same_except_unch)
next
  case (33 r t k)
  then show ?case
    by (simp add: im_sv_def im_smembers_def isExpired_alive split: option.split)
next
  case (34 r t k a)
  then show ?case by (simp add: im_eval_hit)
next
  case (35 r t k a)
  then show ?case by (simp add: im_eval_miss)
next
  case (36 r t cs)
  then show ?case
    by (auto simp: im_exec_def unch_def im_get_eq im_hget_eq im_zv_eq im_sv_eq im_other_def alive_def)
next
  case (37 r t cs)
  then show ?case
    by (auto simp: im_exec_def im_command_eq [abs_def] split: if_splits)
qed

end
