(* ===== verification/Json.thy ===== *)
theory Json
  imports Verity_Prelude
begin

text \<open>
  The JSON values the services store in Redis and put into event payloads, with
  \<open>JSON.stringify\<close> and \<open>JSON.parse\<close> of the ECMAScript standard. Numbers are the
  integral ones (the time stamps, counts and durations of the program); a literal with a
  fraction or an exponent is refused by \<open>json_parse\<close>. The parser carries fuel; the
  length of the text is enough, which is what the round trip shows.
\<close>

datatype json =
    JNull
  | JBool bool
  | JNum int
  | JStr string
  | JArr "json list"
  | JObj "(string \<times> json) list"

section \<open>Printing\<close>

definition hex_digit :: "nat \<Rightarrow> char" where
  "hex_digit d = (if d < 10 then char_of (48 + d) else char_of (87 + d))"

definition escape_char :: "char \<Rightarrow> string" where
  "escape_char c =
    (let n = of_char c :: nat in
     if n = 34 then [CHR 0x5C, CHR 0x22]
     else if n = 92 then [CHR 0x5C, CHR 0x5C]
     else if n = 8 then [CHR 0x5C, CHR ''b'']
     else if n = 9 then [CHR 0x5C, CHR ''t'']
     else if n = 10 then [CHR 0x5C, CHR ''n'']
     else if n = 12 then [CHR 0x5C, CHR ''f'']
     else if n = 13 then [CHR 0x5C, CHR ''r'']
     else if n < 32 then [CHR 0x5C, CHR ''u'', CHR ''0'', CHR ''0'', hex_digit (n div 16), hex_digit (n mod 16)]
     else [c])"

definition quote_string :: "string \<Rightarrow> string" where
  "quote_string s = CHR 0x22 # concat (map escape_char s) @ [CHR 0x22]"

fun join_with :: "string \<Rightarrow> string list \<Rightarrow> string" where
  "join_with sep [] = []"
| "join_with sep [x] = x"
| "join_with sep (x # y # ys) = x @ sep @ join_with sep (y # ys)"

fun json_stringify :: "json \<Rightarrow> string" where
  "json_stringify JNull = ''null''"
| "json_stringify (JBool b) = (if b then ''true'' else ''false'')"
| "json_stringify (JNum i) = show_int i"
| "json_stringify (JStr s) = quote_string s"
| "json_stringify (JArr xs) = CHR ''['' # join_with '','' (map json_stringify xs) @ '']''"
| "json_stringify (JObj kvs) =
     CHR ''{'' # join_with '','' (map (\<lambda>kv. quote_string (fst kv) @ CHR '':'' # json_stringify (snd kv)) kvs) @ ''}''"

section \<open>Parsing\<close>

definition json_space :: "char \<Rightarrow> bool" where
  "json_space c \<longleftrightarrow> c = CHR '' '' \<or> c = CHR 0x09 \<or> c = CHR 0x0A \<or> c = CHR 0x0D"

abbreviation skip :: "string \<Rightarrow> string" where
  "skip s \<equiv> dropWhile json_space s"

definition hex_value :: "char \<Rightarrow> nat option" where
  "hex_value c =
    (let n = of_char c :: nat in
     if 48 \<le> n \<and> n \<le> 57 then Some (n - 48)
     else if 97 \<le> n \<and> n \<le> 102 then Some (n - 87)
     else if 65 \<le> n \<and> n \<le> 70 then Some (n - 55)
     else None)"

definition simple_escape :: "char \<Rightarrow> char option" where
  "simple_escape c =
    (if c = CHR 0x22 then Some (CHR 0x22)
     else if c = CHR 0x5C then Some (CHR 0x5C)
     else if c = CHR ''/'' then Some (CHR ''/'')
     else if c = CHR ''b'' then Some (CHR 0x08)
     else if c = CHR ''t'' then Some (CHR 0x09)
     else if c = CHR ''n'' then Some (CHR 0x0A)
     else if c = CHR ''f'' then Some (CHR 0x0C)
     else if c = CHR ''r'' then Some (CHR 0x0D)
     else None)"

text \<open>\<open>\u00XY\<close>; a code unit above 255 is outside the string model and refused.\<close>

definition unicode_escape :: "char \<Rightarrow> char \<Rightarrow> char \<Rightarrow> char \<Rightarrow> char option" where
  "unicode_escape a b c d =
    (case (hex_value a, hex_value b, hex_value c, hex_value d) of
       (Some 0, Some 0, Some x, Some y) \<Rightarrow> Some (char_of (16 * x + y))
     | _ \<Rightarrow> None)"

abbreviation push_char :: "char \<Rightarrow> (string \<times> string) option \<Rightarrow> (string \<times> string) option" where
  "push_char c r \<equiv> map_option (\<lambda>(s, t). (c # s, t)) r"

fun parse_string_body :: "string \<Rightarrow> (string \<times> string) option" where
  "parse_string_body [] = None"
| "parse_string_body (c # r) =
    (if c = CHR 0x22 then Some ([], r)
     else if c = CHR 0x5C then
       (case r of
          [] \<Rightarrow> None
        | e # r1 \<Rightarrow>
            if e = CHR ''u'' then
              (case r1 of
                 a # b # x # y # r2 \<Rightarrow>
                   (case unicode_escape a b x y of
                      None \<Rightarrow> None
                    | Some ch \<Rightarrow> push_char ch (parse_string_body r2))
               | _ \<Rightarrow> None)
            else
              (case simple_escape e of
                 None \<Rightarrow> None
               | Some ch \<Rightarrow> push_char ch (parse_string_body r1)))
     else if (of_char c :: nat) < 32 then None
     else push_char c (parse_string_body r))"

definition parse_number :: "string \<Rightarrow> (int \<times> string) option" where
  "parse_number s =
    (let neg = (s \<noteq> [] \<and> hd s = CHR ''-'');
         u = (if neg then tl s else s);
         ds = takeWhile is_digit u;
         r = dropWhile is_digit u
     in if ds = [] \<or> (length ds > 1 \<and> hd ds = CHR ''0'') then None
        else Some (if neg then - int (digits_value ds) else int (digits_value ds), r))"

fun parse_value :: "nat \<Rightarrow> string \<Rightarrow> (json \<times> string) option"
and parse_elems :: "nat \<Rightarrow> string \<Rightarrow> (json list \<times> string) option"
and parse_members :: "nat \<Rightarrow> string \<Rightarrow> ((string \<times> json) list \<times> string) option" where
  "parse_value 0 s = None"
| "parse_value (Suc n) s =
    (case skip s of
       [] \<Rightarrow> None
     | c # r \<Rightarrow>
         if c = CHR 0x22 then map_option (\<lambda>(t, r'). (JStr t, r')) (parse_string_body r)
         else if c = CHR ''['' then
           (if skip r \<noteq> [] \<and> hd (skip r) = CHR '']'' then Some (JArr [], tl (skip r))
            else map_option (\<lambda>(xs, r'). (JArr xs, r')) (parse_elems n r))
         else if c = CHR ''{'' then
           (if skip r \<noteq> [] \<and> hd (skip r) = CHR ''}'' then Some (JObj [], tl (skip r))
            else map_option (\<lambda>(kvs, r'). (JObj kvs, r')) (parse_members n r))
         else if c = CHR ''n'' then
           (if startsWith r ''ull'' then Some (JNull, drop 3 r) else None)
         else if c = CHR ''t'' then
           (if startsWith r ''rue'' then Some (JBool True, drop 3 r) else None)
         else if c = CHR ''f'' then
           (if startsWith r ''alse'' then Some (JBool False, drop 4 r) else None)
         else map_option (\<lambda>(i, r'). (JNum i, r')) (parse_number (c # r)))"
| "parse_elems 0 s = None"
| "parse_elems (Suc n) s =
    (case parse_value n s of
       None \<Rightarrow> None
     | Some (x, r) \<Rightarrow>
         (case skip r of
            [] \<Rightarrow> None
          | c # r' \<Rightarrow>
              if c = CHR '']'' then Some ([x], r')
              else if c = CHR '','' then map_option (\<lambda>(xs, r''). (x # xs, r'')) (parse_elems n r')
              else None))"
| "parse_members 0 s = None"
| "parse_members (Suc n) s =
    (case skip s of
       [] \<Rightarrow> None
     | q # t \<Rightarrow>
         if q \<noteq> CHR 0x22 then None
         else
           (case parse_string_body t of
              None \<Rightarrow> None
            | Some (k, r) \<Rightarrow>
                (case skip r of
                   [] \<Rightarrow> None
                 | c # r1 \<Rightarrow>
                     if c \<noteq> CHR '':'' then None
                     else
                       (case parse_value n r1 of
                          None \<Rightarrow> None
                        | Some (v, r2) \<Rightarrow>
                            (case skip r2 of
                               [] \<Rightarrow> None
                             | d # r3 \<Rightarrow>
                                 if d = CHR ''}'' then Some ([(k, v)], r3)
                                 else if d = CHR '','' then
                                   map_option (\<lambda>(kvs, r4). ((k, v) # kvs, r4)) (parse_members n r3)
                                 else None)))))"

text \<open>\<open>JSON.parse\<close>: \<open>None\<close> is the \<open>SyntaxError\<close>.\<close>

definition json_parse :: "string \<Rightarrow> json option" where
  "json_parse s =
    (case parse_value (Suc (length s)) s of
       None \<Rightarrow> None
     | Some (j, r) \<Rightarrow> if skip r = [] then Some j else None)"

text \<open>Property access \<open>o.k\<close>: \<open>None\<close> is \<open>undefined\<close>; with a repeated key the last one counts.\<close>

fun json_get :: "string \<Rightarrow> json \<Rightarrow> json option" where
  "json_get k (JObj kvs) = map_of (rev kvs) k"
| "json_get k _ = None"

text \<open>Property access with the check \<open>typeof v === 'string'\<close>, and the one for numbers.\<close>

definition json_get_str :: "string \<Rightarrow> json \<Rightarrow> string option" where
  "json_get_str k j = (case json_get k j of Some (JStr s) \<Rightarrow> Some s | _ \<Rightarrow> None)"

definition json_get_num :: "string \<Rightarrow> json \<Rightarrow> int option" where
  "json_get_num k j = (case json_get k j of Some (JNum i) \<Rightarrow> Some i | _ \<Rightarrow> None)"

section \<open>Round trip\<close>

lemma hex_value_hex_digit: "d < 16 \<Longrightarrow> hex_value (hex_digit d) = Some d"
  by (auto simp: hex_value_def hex_digit_def Let_def)

lemma control_char_split: "n < 32 \<Longrightarrow> n div 16 < 16 \<and> n mod 16 < (16::nat)"
  by simp

lemma unicode_escape_control:
  assumes "(of_char c :: nat) < 32"
  shows "unicode_escape (CHR ''0'') (CHR ''0'') (hex_digit (of_char c div 16)) (hex_digit (of_char c mod 16)) = Some c"
proof -
  have "hex_value (CHR ''0'') = Some 0"
    by (simp add: hex_value_def)
  moreover have "16 * (of_char c div 16) + of_char c mod 16 = (of_char c :: nat)"
    by simp
  ultimately show ?thesis
    using control_char_split [OF assms] by (simp add: unicode_escape_def hex_value_hex_digit)
qed

lemma char_of_code: "(of_char c :: nat) = n \<Longrightarrow> c = char_of n"
  by (metis char_of_char)

lemma control_chars:
  "char_of (8 :: nat) = CHR 0x08" "char_of (9 :: nat) = CHR 0x09" "char_of (10 :: nat) = CHR 0x0A"
  "char_of (12 :: nat) = CHR 0x0C" "char_of (13 :: nat) = CHR 0x0D"
  "char_of (34 :: nat) = CHR 0x22" "char_of (92 :: nat) = CHR 0x5C"
  by (simp_all add: char_of_def bit_iff_odd)

lemma parse_escape_char:
  "parse_string_body (escape_char c @ t) = push_char c (parse_string_body t)"
proof (cases "(of_char c :: nat) < 32")
  case True
  then show ?thesis
    using unicode_escape_control [OF True]
    by (auto simp: escape_char_def Let_def simple_escape_def control_chars dest!: char_of_code)
next
  case False
  then show ?thesis
    by (auto simp: escape_char_def Let_def simple_escape_def control_chars dest!: char_of_code)
qed

lemma parse_quote_string:
  "parse_string_body (concat (map escape_char s) @ CHR 0x22 # rest) = Some (s, rest)"
  by (induction s) (simp_all add: parse_escape_char)

text \<open>What may follow a value: anything that cannot continue a number.\<close>

definition ends_value :: "string \<Rightarrow> bool" where
  "ends_value r \<longleftrightarrow> r = [] \<or> \<not> is_digit (hd r)"

lemma ends_value_simps [simp]: "ends_value []" "ends_value (c # r) \<longleftrightarrow> \<not> is_digit c"
  by (simp_all add: ends_value_def)

lemma show_nat_no_leading_zero: "length (show_nat n) > 1 \<Longrightarrow> hd (show_nat n) \<noteq> CHR ''0''"
proof (induction n rule: show_nat.induct)
  case (1 n)
  show ?case
  proof (cases "n < 10")
    case True
    then show ?thesis using 1 by (simp add: show_nat.simps)
  next
    case False
    show ?thesis
    proof (cases "n div 10 < 10")
      case True
      have "digit_char (n div 10) \<noteq> CHR ''0''"
      proof
        assume "digit_char (n div 10) = CHR ''0''"
        then have "(of_char (digit_char (n div 10)) :: nat) = 48" by simp
        with False True show False by simp
      qed
      then show ?thesis using True False by (simp add: show_nat.simps)
    next
      case big: False
      then have "length (show_nat (n div 10)) > 1"
        by (subst show_nat.simps) simp
      with "1.IH" False have "hd (show_nat (n div 10)) \<noteq> CHR ''0''" by simp
      then show ?thesis using False by (subst show_nat.simps) simp
    qed
  qed
qed

lemma takeWhile_digits_append:
  "list_all is_digit d \<Longrightarrow> ends_value r \<Longrightarrow> takeWhile is_digit (d @ r) = d \<and> dropWhile is_digit (d @ r) = r"
  by (induction d) (cases r, auto)+

lemma parse_number_show_int:
  assumes "ends_value r"
  shows "parse_number (show_int i @ r) = Some (i, r)"
proof -
  have h: "hd (show_nat n) \<noteq> CHR ''-''" for n
    using hd_show_nat [of n] is_digit_not_sign by blast
  note d = takeWhile_digits_append [OF show_nat_digits assms]
  have nz: "Suc 0 < length (show_nat n) \<Longrightarrow> hd (show_nat n) \<noteq> CHR ''0''" for n
    using show_nat_no_leading_zero [of n] by simp
  show ?thesis
    by (auto simp: parse_number_def show_int_def h d Let_def dest: nz)
qed


lemma json_stringify_hd:
  "json_stringify j \<noteq> [] \<and> \<not> json_space (hd (json_stringify j)) \<and>
   hd (json_stringify j) \<noteq> CHR '']'' \<and> hd (json_stringify j) \<noteq> CHR ''}'' "
proof (cases j)
  case (JNum i)
  have "is_digit c \<Longrightarrow> \<not> json_space c \<and> c \<noteq> CHR '']'' \<and> c \<noteq> CHR ''}''" for c
    by (auto simp: is_digit_def json_space_def)
  then show ?thesis
    using JNum hd_show_nat [of "nat i"] by (simp add: show_int_def json_space_def)
qed (auto simp: quote_string_def json_space_def)

lemma skip_stringify [simp]: "skip (json_stringify j @ r) = json_stringify j @ r"
  using json_stringify_hd [of j] by (cases "json_stringify j") auto

lemma length_join_Cons:
  "xs \<noteq> [] \<Longrightarrow> join_with '','' (x # xs) = x @ CHR '','' # join_with '','' xs"
  by (cases xs) auto

definition member_text :: "string \<times> json \<Rightarrow> string" where
  "member_text kv = quote_string (fst kv) @ CHR '':'' # json_stringify (snd kv)"

lemma json_stringify_JObj:
  "json_stringify (JObj kvs) = CHR ''{'' # join_with '','' (map member_text kvs) @ ''}''"
  by (simp add: member_text_def [abs_def])

definition value_ok :: "json \<Rightarrow> bool" where
  "value_ok j \<longleftrightarrow> (\<forall>n r. length (json_stringify j) \<le> n \<longrightarrow> ends_value r \<longrightarrow>
     parse_value n (json_stringify j @ r) = Some (j, r))"

lemma value_okD:
  "value_ok j \<Longrightarrow> length (json_stringify j) \<le> n \<Longrightarrow> ends_value r \<Longrightarrow>
   parse_value n (json_stringify j @ r) = Some (j, r)"
  by (simp add: value_ok_def)

lemma seps_end_value: "\<not> is_digit CHR '']''" "\<not> is_digit CHR ''}''" "\<not> is_digit CHR '',''"
  by (simp_all add: is_digit_def)

lemma seps_not_space:
  "\<not> json_space CHR '']''" "\<not> json_space CHR ''}''" "\<not> json_space CHR '',''" "\<not> json_space CHR '':''"
  "\<not> json_space CHR 0x22" "\<not> json_space CHR ''[''" "\<not> json_space CHR ''{''"
  by (simp_all add: json_space_def)

lemma parse_elems_join:
  assumes "xs \<noteq> []" and "\<forall>x \<in> set xs. value_ok x"
    and "length (join_with '','' (map json_stringify xs)) < n"
  shows "parse_elems n (join_with '','' (map json_stringify xs) @ CHR '']'' # r) = Some (xs, r)"
  using assms
proof (induction xs arbitrary: n)
  case Nil
  then show ?case by simp
next
  case (Cons x xs)
  then obtain m where n: "n = Suc m" by (cases n) auto
  show ?case
  proof (cases "xs = []")
    case True
    have "parse_value m (json_stringify x @ CHR '']'' # r) = Some (x, CHR '']'' # r)"
      using Cons.prems True n by (intro value_okD) (auto simp: seps_end_value)
    then show ?thesis using True n by (simp add: seps_not_space)
  next
    case False
    let ?t = "join_with '','' (map json_stringify xs) @ CHR '']'' # r"
    have j: "join_with '','' (map json_stringify (x # xs)) = json_stringify x @ CHR '','' # join_with '','' (map json_stringify xs)"
      using False by (simp add: length_join_Cons)
    have "parse_value m (json_stringify x @ CHR '','' # ?t) = Some (x, CHR '','' # ?t)"
      using Cons.prems j n by (intro value_okD) (auto simp: seps_end_value)
    moreover have "parse_elems m ?t = Some (xs, r)"
      using Cons.prems j n False by (intro Cons.IH) auto
    ultimately show ?thesis unfolding j n by (simp add: seps_not_space)
  qed
qed

lemma parse_members_join:
  assumes "kvs \<noteq> []" and "\<forall>kv \<in> set kvs. value_ok (snd kv)"
    and "length (join_with '','' (map member_text kvs)) < n"
  shows "parse_members n (join_with '','' (map member_text kvs) @ CHR ''}'' # r) = Some (kvs, r)"
  using assms
proof (induction kvs arbitrary: n)
  case Nil
  then show ?case by simp
next
  case (Cons kv kvs)
  obtain k v where kv: "kv = (k, v)" by (cases kv)
  from Cons obtain m where n: "n = Suc m" by (cases n) auto
  show ?case
  proof (cases "kvs = []")
    case True
    have "parse_value m (json_stringify v @ CHR ''}'' # r) = Some (v, CHR ''}'' # r)"
      using Cons.prems True n kv by (intro value_okD) (auto simp: seps_end_value member_text_def)
    then show ?thesis
      using True n kv by (simp add: seps_not_space member_text_def quote_string_def parse_quote_string)
  next
    case False
    let ?t = "join_with '','' (map member_text kvs) @ CHR ''}'' # r"
    have j: "join_with '','' (map member_text (kv # kvs)) = member_text kv @ CHR '','' # join_with '','' (map member_text kvs)"
      using False by (simp add: length_join_Cons)
    have len: "length (json_stringify v) \<le> m"
      using Cons.prems(3) unfolding j n by (simp add: kv member_text_def)
    have "parse_value m (json_stringify v @ CHR '','' # ?t) = Some (v, CHR '','' # ?t)"
      using Cons.prems(2) kv len by (intro value_okD) (auto simp: seps_end_value)
    moreover have "parse_members m ?t = Some (kvs, r)"
      using Cons.prems j n False by (intro Cons.IH) auto
    ultimately show ?thesis
      unfolding j n by (simp add: kv seps_not_space member_text_def quote_string_def parse_quote_string)
  qed
qed

lemma value_ok_all: "value_ok j"
proof (induction j)
  case (JArr xs)
  show ?case
    unfolding value_ok_def
  proof (intro allI impI)
    fix n r
    assume n: "length (json_stringify (JArr xs)) \<le> n" and r: "ends_value r"
    then obtain m where m: "n = Suc m" by (cases n) auto
    show "parse_value n (json_stringify (JArr xs) @ r) = Some (JArr xs, r)"
    proof (cases "xs = []")
      case True
      then show ?thesis using m by (simp add: seps_not_space)
    next
      case False
      then obtain y ys where xs: "xs = y # ys" by (cases xs) auto
      have "parse_elems m (join_with '','' (map json_stringify xs) @ CHR '']'' # r) = Some (xs, r)"
        using False n m JArr.IH by (intro parse_elems_join) auto
      moreover have "\<exists>z. join_with '','' (map json_stringify xs) = json_stringify y @ z"
        using xs by (cases ys) auto
      ultimately show ?thesis
        using m json_stringify_hd [of y] by (auto simp: seps_not_space)
    qed
  qed
next
  case (JObj kvs)
  show ?case
    unfolding value_ok_def
  proof (intro allI impI)
    fix n r
    assume n: "length (json_stringify (JObj kvs)) \<le> n" and r: "ends_value r"
    then obtain m where m: "n = Suc m" by (cases n) auto
    show "parse_value n (json_stringify (JObj kvs) @ r) = Some (JObj kvs, r)"
    proof (cases "kvs = []")
      case True
      then show ?thesis using m by (simp add: seps_not_space)
    next
      case False
      then obtain y ys where kvs: "kvs = y # ys" by (cases kvs) auto
      have "parse_members m (join_with '','' (map member_text kvs) @ CHR ''}'' # r) = Some (kvs, r)"
        using False n m JObj.IH unfolding json_stringify_JObj
        by (intro parse_members_join) (auto intro: snds.intros)
      moreover have "\<exists>z. join_with '','' (map member_text kvs) = CHR 0x22 # z"
        using kvs by (cases ys) (auto simp: member_text_def quote_string_def)
      ultimately show ?thesis
        using m unfolding json_stringify_JObj by (auto simp: seps_not_space)
    qed
  qed
next
  case (JNum i)
  have "parse_value (Suc m) (show_int i @ r) = Some (JNum i, r)" if "ends_value r" for m r
  proof -
    have e: "skip (show_int i @ r) = show_int i @ r"
      using skip_stringify [of "JNum i" r] by simp
    obtain c cs where c: "show_int i = c # cs"
      using json_stringify_hd [of "JNum i"] by (cases "show_int i") auto
    have "c = CHR ''-'' \<or> is_digit c"
      using c hd_show_nat [of "nat i"] by (auto simp: show_int_def split: if_splits)
    then have "c \<notin> {CHR 0x22, CHR ''['', CHR ''{'', CHR ''n'', CHR ''t'', CHR ''f''}"
      by (auto simp: is_digit_def)
    then show ?thesis
      using parse_number_show_int [OF that, of i] e c by simp
  qed
  then show ?case
    unfolding value_ok_def using json_stringify_hd [of "JNum i"]
    by (metis json_stringify.simps(3) length_0_conv not0_implies_Suc le_zero_eq)
next
  case (JStr s)
  show ?case
    unfolding value_ok_def
  proof (intro allI impI)
    fix n r
    assume "length (json_stringify (JStr s)) \<le> n"
    then obtain m where "n = Suc m" by (cases n) (auto simp: quote_string_def)
    then show "parse_value n (json_stringify (JStr s) @ r) = Some (JStr s, r)"
      by (simp add: quote_string_def seps_not_space parse_quote_string)
  qed
qed (auto simp: value_ok_def json_space_def startsWith_def dest!: Suc_le_D)

theorem json_parse_stringify [simp]: "json_parse (json_stringify j) = Some j"
  using value_okD [OF value_ok_all, of j "Suc (length (json_stringify j))" "[]"]
  by (simp add: json_parse_def)

end
