(* ===== verification/JsFloat.thy ===== *)
theory JsFloat
  imports Complex_Main Verity_Prelude
begin

text \<open>
  Numbers of JavaScript that are not integers. A double is the rational number it stands for:
  \<open>to_double\<close> rounds a rational number to 53 significant bits, to the nearest, halves to the even neighbour,
  so that \<open>a / b\<close> of the code is \<open>to_double (a / b)\<close>. Overflow and subnormal numbers, which the quotients of
  counters do not reach, are not modelled.
\<close>

fun bit_length :: "nat \<Rightarrow> nat" where
  "bit_length n = (if n = 0 then 0 else Suc (bit_length (n div 2)))"

declare bit_length.simps [simp del]

definition pow2 :: "int \<Rightarrow> rat" where
  "pow2 e = (if 0 \<le> e then 2 ^ nat e else 1 / 2 ^ nat (- e))"

definition round_even :: "rat \<Rightarrow> int" where
  "round_even x = (let k = \<lfloor>x\<rfloor>; f = x - of_int k in
     if f < 1 / 2 then k else if f > 1 / 2 then k + 1 else if even k then k else k + 1)"

definition exponent :: "rat \<Rightarrow> int" where
  "exponent x = (case quotient_of x of (p, q) \<Rightarrow>
     let e = int (bit_length (nat p)) - int (bit_length (nat q)) in if pow2 e \<le> x then e else e - 1)"

definition to_double :: "rat \<Rightarrow> rat" where
  "to_double x =
    (if x = 0 then 0
     else let a = \<bar>x\<bar>; k = 52 - exponent a; r = of_int (round_even (a * pow2 k)) / pow2 k in if x < 0 then - r else r)"

text \<open>\<open>x.toFixed(2)\<close> of a double: the nearest hundredth, the larger one of two.\<close>

definition toFixed2 :: "rat \<Rightarrow> string" where
  "toFixed2 x = (let n = nat \<lfloor>\<bar>x\<bar> * 100 + 1 / 2\<rfloor>;
       s = show_int (int (n div 100)) @ ''.'' @ [digit_char (n div 10 mod 10), digit_char (n mod 10)]
     in if x < 0 then CHR ''-'' # s else s)"

section \<open>Rounding\<close>

lemma pow2_pos: "0 < pow2 e"
  by (simp add: pow2_def)

lemma pow2_add: "pow2 (d + e) = pow2 d * pow2 e"
proof -
  have "pow2 e = 2 powi e" for e by (simp add: pow2_def power_int_def power_one_over inverse_eq_divide)
  then show ?thesis by (simp add: power_int_add)
qed

lemma pow2_mono: "d \<le> e \<Longrightarrow> pow2 d \<le> pow2 e"
proof -
  have "pow2 e = 2 powi e" for e by (simp add: pow2_def power_int_def power_one_over inverse_eq_divide)
  then show "d \<le> e \<Longrightarrow> pow2 d \<le> pow2 e" by (simp add: power_int_increasing)
qed

lemma round_even_bounds: "\<lfloor>x\<rfloor> \<le> round_even x" "round_even x \<le> \<lfloor>x\<rfloor> + 1"
  by (simp_all add: round_even_def Let_def)

lemma round_even_mono:
  assumes "x \<le> y"
  shows "round_even x \<le> round_even y"
proof (cases "\<lfloor>x\<rfloor> = \<lfloor>y\<rfloor>")
  case True
  then show ?thesis using assms by (auto simp: round_even_def Let_def)
next
  case False
  then have "\<lfloor>x\<rfloor> + 1 \<le> \<lfloor>y\<rfloor>" using floor_mono [OF assms] by simp
  then show ?thesis using round_even_bounds(2) [of x] round_even_bounds(1) [of y] by linarith
qed

lemma round_even_of_int [simp]: "round_even (of_int k) = k"
  by (simp add: round_even_def)

lemma bit_length_1: "bit_length (Suc 0) = Suc 0"
  by code_simp

lemma bit_length_bounds: "0 < n \<Longrightarrow> 2 ^ (bit_length n - 1) \<le> n \<and> n < 2 ^ bit_length n \<and> 0 < bit_length n"
proof (induction n rule: bit_length.induct)
  case (1 n)
  show ?case
  proof (cases "n div 2 = 0")
    case True
    then have "n = 1" using 1(2) by simp
    then show ?thesis using bit_length_1 by simp
  next
    case False
    with 1 have "2 ^ (bit_length (n div 2) - 1) \<le> n div 2" "n div 2 < 2 ^ bit_length (n div 2)" "0 < bit_length (n div 2)" by simp_all
    moreover have "bit_length n = Suc (bit_length (n div 2))" using 1(2) by (simp add: bit_length.simps [of n])
    ultimately show ?thesis
      by (cases "bit_length (n div 2)") auto
  qed
qed

lemma pow2_bits:
  assumes "0 < m"
  shows "pow2 (int (bit_length (nat m)) - 1) \<le> of_int m" and "of_int m < pow2 (int (bit_length (nat m)))"
proof -
  define a where "a = bit_length (nat m)"
  have A: "2 ^ (a - 1) \<le> nat m" "nat m < 2 ^ a" "0 < a" using bit_length_bounds [of "nat m"] assms by (auto simp: a_def)
  then have n: "nat (int a - 1) = a - 1" by simp
  have "(2::rat) ^ (a - 1) \<le> of_nat (nat m)" using A(1) by (metis of_nat_le_iff of_nat_numeral of_nat_power)
  then have "pow2 (int a - 1) \<le> of_int m" using assms A(3) n by (simp add: pow2_def)
  then show "pow2 (int (bit_length (nat m)) - 1) \<le> of_int m" by (simp add: a_def)
  have "of_nat (nat m) < (2::rat) ^ a" using A(2) by (metis of_nat_less_iff of_nat_numeral of_nat_power)
  then have "of_int m < pow2 (int a)" using assms by (simp add: pow2_def)
  then show "of_int m < pow2 (int (bit_length (nat m)))" by (simp add: a_def)
qed

lemma exponent_bounds:
  assumes "0 < x"
  shows "pow2 (exponent x) \<le> x" and "x < pow2 (exponent x + 1)"
proof -
  obtain p q where pq: "quotient_of x = (p, q)" by (cases "quotient_of x")
  have x: "x = of_int p / of_int q" "0 < q" using quotient_of_div [OF pq] quotient_of_denom_pos [OF pq] by auto
  have p: "0 < p" using assms x by (simp add: zero_less_divide_iff)
  define a where "a = int (bit_length (nat p))"
  define b where "b = int (bit_length (nat q))"
  note P = pow2_bits [OF p, folded a_def] and Q = pow2_bits [OF x(2), folded b_def]
  have q: "0 < (of_int q :: rat)" using x(2) by simp
  have "pow2 (a - b - 1) * of_int q < pow2 (a - b - 1) * pow2 b" using Q(2) pow2_pos by (simp add: mult_strict_left_mono)
  also have "\<dots> = pow2 (a - 1)" by (simp flip: pow2_add)
  finally have lower: "pow2 (a - b - 1) < x" using P(1) q by (simp add: x(1) pos_less_divide_eq)
  have "of_int p < pow2 (a - b + 1) * pow2 (b - 1)" using P(2) by (simp flip: pow2_add)
  also have "\<dots> \<le> pow2 (a - b + 1) * of_int q" using Q(1) pow2_pos by (intro mult_left_mono) (auto simp: less_imp_le)
  finally have upper: "x < pow2 (a - b + 1)" using q by (simp add: x(1) pos_divide_less_eq)
  have e: "exponent x = (if pow2 (a - b) \<le> x then a - b else a - b - 1)"
    by (simp add: exponent_def pq a_def b_def Let_def)
  show "pow2 (exponent x) \<le> x" using lower by (simp add: e)
  show "x < pow2 (exponent x + 1)" using upper by (simp add: e)
qed

text \<open>Between two powers of two a double stays, so rounding is monotone.\<close>

definition mantissa :: "rat \<Rightarrow> int" where
  "mantissa x = round_even (x * pow2 (52 - exponent x))"

lemma to_double_pos: "0 < x \<Longrightarrow> to_double x = of_int (mantissa x) / pow2 (52 - exponent x)"
  by (simp add: to_double_def mantissa_def Let_def)

lemma to_double_between:
  assumes "0 < x"
  shows "pow2 (exponent x) \<le> to_double x" and "to_double x \<le> pow2 (exponent x + 1)"
proof -
  let ?k = "52 - exponent x"
  have "pow2 52 \<le> x * pow2 ?k"
  proof -
    have "pow2 52 = pow2 (exponent x) * pow2 ?k" by (simp flip: pow2_add)
    also have "\<dots> \<le> x * pow2 ?k" using exponent_bounds(1) [OF assms] pow2_pos by (intro mult_right_mono) (auto simp: less_imp_le)
    finally show ?thesis .
  qed
  moreover have "x * pow2 ?k \<le> pow2 53"
  proof -
    have "x * pow2 ?k \<le> pow2 (exponent x + 1) * pow2 ?k" using exponent_bounds(2) [OF assms] pow2_pos
      by (intro mult_right_mono) (auto simp: less_imp_le)
    also have "\<dots> = pow2 53" by (simp flip: pow2_add)
    finally show ?thesis .
  qed
  ultimately have "round_even (of_int (2 ^ 52)) \<le> mantissa x" "mantissa x \<le> round_even (of_int (2 ^ 53))"
    unfolding mantissa_def by (intro round_even_mono; simp add: pow2_def)+
  then have m: "2 ^ 52 \<le> mantissa x" "mantissa x \<le> 2 ^ 53" by (simp_all only: round_even_of_int)
  have "pow2 (exponent x) * pow2 ?k = of_int (2 ^ 52)" "pow2 (exponent x + 1) * pow2 ?k = of_int (2 ^ 53)"
    by (simp_all flip: pow2_add) (simp_all add: pow2_def)
  with m show "pow2 (exponent x) \<le> to_double x" "to_double x \<le> pow2 (exponent x + 1)"
    using pow2_pos [of ?k] by (simp_all only: to_double_pos [OF assms] pos_le_divide_eq pos_divide_le_eq of_int_le_iff)
qed

lemma to_double_mono:
  assumes "0 < x" and "x \<le> y"
  shows "to_double x \<le> to_double y"
proof (cases "exponent x = exponent y")
  case True
  have "mantissa x \<le> mantissa y"
    unfolding mantissa_def True using assms(2) pow2_pos by (intro round_even_mono mult_right_mono) (auto simp: less_imp_le)
  then show ?thesis
    using assms pow2_pos [of "52 - exponent y"] by (simp add: to_double_pos True divide_right_mono less_imp_le)
next
  case False
  have y: "0 < y" using assms by simp
  have "exponent x < exponent y"
  proof (rule ccontr)
    assume "\<not> exponent x < exponent y"
    then have "exponent y + 1 \<le> exponent x" using False by simp
    then have "pow2 (exponent y + 1) \<le> pow2 (exponent x)" by (rule pow2_mono)
    then show False using exponent_bounds(1) [OF assms(1)] exponent_bounds(2) [OF y] assms(2) by simp
  qed
  then have "pow2 (exponent x + 1) \<le> pow2 (exponent y)" by (intro pow2_mono) simp
  with to_double_between(2) [OF assms(1)] to_double_between(1) [OF y] show ?thesis by simp
qed

end
