(* ===== verification/Prisma_Client.thy ===== *)
theory Prisma_Client
  imports Json JsFloat
begin

text \<open>
  The database the services reach through \<open>PrismaService\<close>
  (\<open>src/src/prisma/prisma.service.ts\<close>). The tables are the models of
  \<open>src/prisma/schema.prisma\<close>, one record per model (the columns \<open>updatedAt\<close>, which no
  code reads, are left out). The Prisma client itself is not part of the repository: it is a
  parameter, a record with one \<open>delegate\<close> per model over an unspecified database state
  \<open>'d\<close>. The locale \<open>delegate\<close> says what its operations do to the rows, and
  \<open>prisma_client\<close> puts the delegates together over a \<open>view\<close> of the database as
  \<open>tables\<close>. A client that keeps plain lists of rows is shown to satisfy the laws at the
  end. Not modelled: the foreign keys (a row that names no user), failures of the connection.
\<close>

section \<open>The models of the schema\<close>

datatype user_role = USER | ADMIN

datatype tx_type = CREDIT | DEBIT

datatype push_platform = WEB | IOS | ANDROID

record user_row =
  us_id :: "string"
  us_createdAt :: "int"
  us_role :: "user_role"
  us_displayName :: "string option"
  us_photos :: "json option"
  us_bio :: "string option"
  us_age :: "int option"
  us_gender :: "string option"
  us_interests :: "string list"
  us_dateOfBirth :: "int option"
  us_ageVerifiedAt :: "int option"
  us_consents :: "json option"
  us_privacyNoticeVersion :: "string option"
  us_tosVersion :: "string option"
  us_phone :: "string option"
  us_email :: "string option"
  us_tokenBalance :: "int"

record flag_row =
  ff_id :: "string"
  ff_createdAt :: "int"
  ff_updatedAt :: "int"
  ff_key :: "string"
  ff_enabled :: "bool"
  ff_variant :: "string option"
  ff_description :: "string option"
  ff_metadata :: "json option"

record refresh_row =
  rt_id :: "string"
  rt_createdAt :: "int"
  rt_userId :: "string"
  rt_tokenHash :: "string"
  rt_familyId :: "string"
  rt_expiresAt :: "int"
  rt_revokedAt :: "int option"
  rt_replacedById :: "string option"
  rt_userAgent :: "string option"
  rt_ipAddress :: "string option"
  rt_lastUsedAt :: "int option"
  rt_sessionName :: "string option"

record session_row =
  se_id :: "string"
  se_createdAt :: "int"
  se_userAId :: "string"
  se_userBId :: "string"
  se_region :: "string option"
  se_queueKey :: "string option"

record match_row =
  ma_id :: "string"
  ma_createdAt :: "int"
  ma_userAId :: "string"
  ma_userBId :: "string"
  ma_userARevealAcknowledgedAt :: "int option"
  ma_userBRevealAcknowledgedAt :: "int option"

record message_row =
  ms_id :: "string"
  ms_createdAt :: "int"
  ms_matchId :: "string"
  ms_senderId :: "string"
  ms_text :: "string"

record tx_row =
  tt_id :: "string"
  tt_createdAt :: "int"
  tt_userId :: "string"
  tt_type :: "tx_type"
  tt_amount :: "int"
  tt_balanceAfter :: "int"
  tt_stripeSessionId :: "string option"
  tt_stripeEventId :: "string option"
  tt_metadata :: "json option"

record modevent_row =
  me_id :: "string"
  me_createdAt :: "int"
  me_userId :: "string"

record report_row =
  rp_id :: "string"
  rp_createdAt :: "int"
  rp_reporterId :: "string"
  rp_reportedUserId :: "string"
  rp_reason :: "string"
  rp_details :: "string option"
  rp_status :: "string"

record appeal_row =
  ap_id :: "string"
  ap_createdAt :: "int"
  ap_userId :: "string"
  ap_moderationReportId :: "string option"
  ap_actionType :: "string"
  ap_reason :: "string option"
  ap_status :: "string"
  ap_resolution :: "string option"
  ap_resolvedAt :: "int option"
  ap_resolverUserId :: "string option"

record event_row =
  ev_id :: "string"
  ev_createdAt :: "int"
  ev_eventSchemaVersion :: "int"
  ev_eventId :: "string"
  ev_eventName :: "string"
  ev_occurredAt :: "int"
  ev_receivedAt :: "int"
  ev_source :: "string"
  ev_platform :: "string"
  ev_appVersion :: "string option"
  ev_buildNumber :: "string option"
  ev_region :: "string option"
  ev_requestId :: "string option"
  ev_userId :: "string option"
  ev_sessionId :: "string option"
  ev_matchId :: "string option"
  ev_queueKey :: "string option"
  ev_properties :: "json"

record hourly_row =
  hr_id :: "string"
  hr_createdAt :: "int"
  hr_hourStart :: "int"
  hr_eventName :: "string"
  hr_acceptedCount :: "int"
  hr_droppedCount :: "int"

record block_row =
  bl_id :: "string"
  bl_createdAt :: "int"
  bl_blockerId :: "string"
  bl_blockedId :: "string"
  bl_liftedAt :: "int option"

record push_row =
  pt_id :: "string"
  pt_createdAt :: "int"
  pt_userId :: "string"
  pt_token :: "string"
  pt_platform :: "push_platform"
  pt_deviceId :: "string option"
  pt_lastSeenAt :: "int"
  pt_revokedAt :: "int option"

text \<open>The columns of type \<open>Float\<close> are doubles.\<close>

record snapshot_row =
  sn_id :: "string"
  sn_createdAt :: "int"
  sn_windowStart :: "int"
  sn_windowEnd :: "int"
  sn_waitP50Seconds :: "rat option"
  sn_waitP90Seconds :: "rat option"
  sn_abandonmentRate :: "rat option"
  sn_completionRate :: "rat option"
  sn_mutualMatchRate :: "rat option"
  sn_chatActivationRate :: "rat option"
  sn_severeIncidentPer10k :: "rat option"
  sn_appealOverturnRate :: "rat option"
  sn_severeActionLatencyP95 :: "rat option"
  sn_stage0Status :: "string"
  sn_stage1Status :: "string"
  sn_stage2Status :: "string"
  sn_autoPauseTriggered :: "bool"
  sn_autoPauseReasons :: "json option"

record tables =
  tb_users :: "user_row list"
  tb_flags :: "flag_row list"
  tb_refreshTokens :: "refresh_row list"
  tb_sessions :: "session_row list"
  tb_matches :: "match_row list"
  tb_messages :: "message_row list"
  tb_transactions :: "tx_row list"
  tb_moderationEvents :: "modevent_row list"
  tb_reports :: "report_row list"
  tb_appeals :: "appeal_row list"
  tb_events :: "event_row list"
  tb_hourly :: "hourly_row list"
  tb_blocks :: "block_row list"
  tb_pushTokens :: "push_row list"
  tb_snapshots :: "snapshot_row list"

text \<open>The unique constraints of the schema, as conflicts between two rows.\<close>

definition same_some :: "'a option \<Rightarrow> 'a option \<Rightarrow> bool" where
  "same_some x y \<longleftrightarrow> x \<noteq> None \<and> x = y"

definition no_unique :: "'r \<Rightarrow> 'r \<Rightarrow> bool" where
  "no_unique r s = False"

definition uq_user :: "user_row \<Rightarrow> user_row \<Rightarrow> bool" where
  "uq_user r s \<longleftrightarrow> same_some (us_phone r) (us_phone s) \<or> same_some (us_email r) (us_email s)"

text \<open>Refresh tokens are created with an id of the service's own.\<close>

definition uq_refresh :: "refresh_row \<Rightarrow> refresh_row \<Rightarrow> bool" where
  "uq_refresh r s \<longleftrightarrow> rt_id r = rt_id s \<or> rt_tokenHash r = rt_tokenHash s"

definition uq_match :: "match_row \<Rightarrow> match_row \<Rightarrow> bool" where
  "uq_match r s \<longleftrightarrow> ma_userAId r = ma_userAId s \<and> ma_userBId r = ma_userBId s"

definition uq_transaction :: "tx_row \<Rightarrow> tx_row \<Rightarrow> bool" where
  "uq_transaction r s \<longleftrightarrow> same_some (tt_stripeSessionId r) (tt_stripeSessionId s) \<or>
     same_some (tt_stripeEventId r) (tt_stripeEventId s)"

definition uq_hourly :: "hourly_row \<Rightarrow> hourly_row \<Rightarrow> bool" where
  "uq_hourly r s \<longleftrightarrow> hr_hourStart r = hr_hourStart s \<and> hr_eventName r = hr_eventName s"

definition uq_block :: "block_row \<Rightarrow> block_row \<Rightarrow> bool" where
  "uq_block r s \<longleftrightarrow> bl_blockerId r = bl_blockerId s \<and> bl_blockedId r = bl_blockedId s"

definition same_on :: "('r \<Rightarrow> 'k) \<Rightarrow> 'r \<Rightarrow> 'r \<Rightarrow> bool" where
  "same_on f r s \<longleftrightarrow> f r = f s"

section \<open>The client\<close>

text \<open>
  The operations of one model. The \<open>where\<close> of a query is a predicate on rows, the
  \<open>data\<close> of an update a function on rows. \<open>create\<close> is given the row up to the identifier
  that the database generates (\<open>dg_cuid\<close>). \<open>findLatest\<close> is \<open>findMany\<close> with
  \<open>orderBy: { createdAt: 'desc' }\<close> and \<open>take\<close>.
\<close>

record ('d, 'r) delegate =
  dg_cuid :: "'d \<Rightarrow> string"
  dg_findFirst :: "'d \<Rightarrow> ('r \<Rightarrow> bool) \<Rightarrow> 'r option"
  dg_findMany :: "'d \<Rightarrow> ('r \<Rightarrow> bool) \<Rightarrow> 'r list"
  dg_findLatest :: "'d \<Rightarrow> ('r \<Rightarrow> bool) \<Rightarrow> nat option \<Rightarrow> 'r list"
  dg_count :: "'d \<Rightarrow> ('r \<Rightarrow> bool) \<Rightarrow> nat"
  dg_create :: "'d \<Rightarrow> (string \<Rightarrow> 'r) \<Rightarrow> (exn + 'r) \<times> 'd"
  dg_update :: "'d \<Rightarrow> ('r \<Rightarrow> bool) \<Rightarrow> ('r \<Rightarrow> 'r) \<Rightarrow> (exn + 'r) \<times> 'd"
  dg_updateMany :: "'d \<Rightarrow> ('r \<Rightarrow> bool) \<Rightarrow> ('r \<Rightarrow> 'r) \<Rightarrow> nat \<times> 'd"
  dg_upsert :: "'d \<Rightarrow> ('r \<Rightarrow> bool) \<Rightarrow> (string \<Rightarrow> 'r) \<Rightarrow> ('r \<Rightarrow> 'r) \<Rightarrow> (exn + 'r) \<times> 'd"
  dg_delete :: "'d \<Rightarrow> ('r \<Rightarrow> bool) \<Rightarrow> (exn + 'r) \<times> 'd"
  dg_deleteMany :: "'d \<Rightarrow> ('r \<Rightarrow> bool) \<Rightarrow> nat \<times> 'd"

text \<open>\<open>pr_rollback before after\<close> is the database when a transaction that began in
  \<open>before\<close> and got to \<open>after\<close> is rolled back.\<close>

record 'd prisma =
  pr_user :: "('d, user_row) delegate"
  pr_featureFlag :: "('d, flag_row) delegate"
  pr_refreshToken :: "('d, refresh_row) delegate"
  pr_session :: "('d, session_row) delegate"
  pr_match :: "('d, match_row) delegate"
  pr_message :: "('d, message_row) delegate"
  pr_tokenTransaction :: "('d, tx_row) delegate"
  pr_moderationEvent :: "('d, modevent_row) delegate"
  pr_moderationReport :: "('d, report_row) delegate"
  pr_moderationAppeal :: "('d, appeal_row) delegate"
  pr_analyticsEvent :: "('d, event_row) delegate"
  pr_analyticsIngestHourly :: "('d, hourly_row) delegate"
  pr_block :: "('d, block_row) delegate"
  pr_pushToken :: "('d, push_row) delegate"
  pr_telemetryGateSnapshot :: "('d, snapshot_row) delegate"
  pr_rollback :: "'d \<Rightarrow> 'd \<Rightarrow> 'd"

text \<open>
  What the services rely on. \<open>get\<close> and \<open>upd\<close> read and change the table of the model in the
  \<open>view\<close> of the database, \<open>conflict\<close> is its unique constraint, \<open>key\<close> its identifier
  and \<open>created\<close> its time of creation. A \<open>where\<close> on a unique key is a predicate that
  at most one row satisfies.
\<close>

locale delegate =
  fixes D :: "('d, 'r) delegate"
    and view :: "'d \<Rightarrow> 't"
    and get :: "'t \<Rightarrow> 'r list"
    and upd :: "('r list \<Rightarrow> 'r list) \<Rightarrow> 't \<Rightarrow> 't"
    and conflict :: "'r \<Rightarrow> 'r \<Rightarrow> bool"
    and key :: "'r \<Rightarrow> string"
    and created :: "'r \<Rightarrow> int"
  assumes cuid_fresh: "dg_cuid D d \<notin> key ` set (get (view d))"
    and cuid_nonempty: "dg_cuid D d \<noteq> []"
    and findFirst_None: "dg_findFirst D d p = None \<longleftrightarrow> (\<forall>r \<in> set (get (view d)). \<not> p r)"
    and findFirst_Some: "dg_findFirst D d p = Some r \<Longrightarrow> r \<in> set (get (view d)) \<and> p r"
    and findMany: "mset (dg_findMany D d p) = mset (filter p (get (view d)))"
    and findLatest: "\<exists>rs. mset rs = mset (filter p (get (view d))) \<and> sorted (map (\<lambda>r. - created r) rs) \<and>
      dg_findLatest D d p n = (case n of None \<Rightarrow> rs | Some k \<Rightarrow> take k rs)"
    and count_rows: "dg_count D d p = count_rows p (get (view d))"
    and create_ok: "\<forall>r \<in> set (get (view d)). \<not> conflict r (mk (dg_cuid D d)) \<Longrightarrow>
      fst (dg_create D d mk) = Inr (mk (dg_cuid D d)) \<and>
      view (snd (dg_create D d mk)) = upd (\<lambda>rs. rs @ [mk (dg_cuid D d)]) (view d)"
    and create_conflict: "\<exists>r \<in> set (get (view d)). conflict r (mk (dg_cuid D d)) \<Longrightarrow>
      fst (dg_create D d mk) = Inl PrismaP2002 \<and> view (snd (dg_create D d mk)) = view d"
    and update_ok: "filter p (get (view d)) = [r] \<Longrightarrow>
      \<forall>x \<in> set (get (view d)). \<not> p x \<longrightarrow> \<not> conflict x (f r) \<Longrightarrow>
      fst (dg_update D d p f) = Inr (f r) \<and> view (snd (dg_update D d p f)) = upd (update_rows p f) (view d)"
    and update_missing: "\<forall>r \<in> set (get (view d)). \<not> p r \<Longrightarrow>
      fst (dg_update D d p f) = Inl PrismaP2025 \<and> view (snd (dg_update D d p f)) = view d"
    and updateMany: "\<forall>r \<in> set (get (view d)). p r \<longrightarrow> (\<forall>x. conflict x (f r) = conflict x r) \<Longrightarrow>
      fst (dg_updateMany D d p f) = count_rows p (get (view d)) \<and>
      view (snd (dg_updateMany D d p f)) = upd (update_rows p f) (view d)"
    and upsert_update: "filter p (get (view d)) = [r] \<Longrightarrow>
      \<forall>x \<in> set (get (view d)). \<not> p x \<longrightarrow> \<not> conflict x (f r) \<Longrightarrow>
      fst (dg_upsert D d p mk f) = Inr (f r) \<and> view (snd (dg_upsert D d p mk f)) = upd (update_rows p f) (view d)"
    and upsert_create: "\<forall>r \<in> set (get (view d)). \<not> p r \<and> \<not> conflict r (mk (dg_cuid D d)) \<Longrightarrow>
      fst (dg_upsert D d p mk f) = Inr (mk (dg_cuid D d)) \<and>
      view (snd (dg_upsert D d p mk f)) = upd (\<lambda>rs. rs @ [mk (dg_cuid D d)]) (view d)"
    and delete_ok: "filter p (get (view d)) = [r] \<Longrightarrow>
      fst (dg_delete D d p) = Inr r \<and> view (snd (dg_delete D d p)) = upd (filter (\<lambda>x. \<not> p x)) (view d)"
    and delete_missing: "\<forall>r \<in> set (get (view d)). \<not> p r \<Longrightarrow>
      fst (dg_delete D d p) = Inl PrismaP2025 \<and> view (snd (dg_delete D d p)) = view d"
    and deleteMany: "fst (dg_deleteMany D d p) = count_rows p (get (view d)) \<and>
      view (snd (dg_deleteMany D d p)) = upd (filter (\<lambda>x. \<not> p x)) (view d)"
begin

text \<open>A look-up by a key that one row has.\<close>

lemma findFirst_unique:
  assumes "filter p (get (view d)) = [r]"
  shows "dg_findFirst D d p = Some r"
proof (cases "dg_findFirst D d p")
  case None
  then have "filter p (get (view d)) = []"
    by (simp add: findFirst_None filter_empty_conv)
  with assms show ?thesis by simp
next
  case (Some s)
  then have "s \<in> set (filter p (get (view d)))"
    using findFirst_Some by auto
  with assms Some show ?thesis by simp
qed

lemma findFirst_exists: "(dg_findFirst D d p \<noteq> None) = (\<exists>r \<in> set (get (view d)). p r)"
  by (simp add: findFirst_None)

lemma set_findMany: "set (dg_findMany D d p) = {r \<in> set (get (view d)). p r}"
  using findMany [of d p] by (metis mset_eq_setD set_filter)

lemma length_findMany: "length (dg_findMany D d p) = count_rows p (get (view d))"
  using findMany [of d p] by (metis count_rows_def mset_eq_length)

lemma set_findLatest: "set (dg_findLatest D d p n) \<subseteq> {r \<in> set (get (view d)). p r}"
proof -
  obtain rs where rs: "mset rs = mset (filter p (get (view d)))"
    and n: "dg_findLatest D d p n = (case n of None \<Rightarrow> rs | Some k \<Rightarrow> take k rs)"
    using findLatest by blast
  have "set rs = {r \<in> set (get (view d)). p r}"
    using rs by (metis mset_eq_setD set_filter)
  then show ?thesis
    using set_take_subset by (auto simp: n split: option.splits dest: in_set_takeD)
qed

lemma set_findLatest_all: "set (dg_findLatest D d p None) = {r \<in> set (get (view d)). p r}"
  using findLatest [of p d None] by (metis mset_eq_setD set_filter option.case(1))

lemma length_findLatest: "length (dg_findLatest D d p (Some k)) = min k (count_rows p (get (view d)))"
proof -
  obtain rs where "mset rs = mset (filter p (get (view d)))" and "dg_findLatest D d p (Some k) = take k rs"
    using findLatest [of p d "Some k"] by auto
  then show ?thesis
    by (metis count_rows_def length_take min.commute mset_eq_length)
qed

lemma findLatest_sorted: "sorted (map (\<lambda>r. - created r) (dg_findLatest D d p n))"
  using findLatest [of p d n] by (auto simp: sorted_wrt_take simp flip: take_map split: option.splits)

end

locale prisma_client =
  user: delegate "pr_user P" view tb_users tb_users_update uq_user us_id us_createdAt +
  featureFlag: delegate "pr_featureFlag P" view tb_flags tb_flags_update "same_on ff_key" ff_id ff_createdAt +
  refreshToken: delegate "pr_refreshToken P" view tb_refreshTokens tb_refreshTokens_update uq_refresh rt_id rt_createdAt +
  session: delegate "pr_session P" view tb_sessions tb_sessions_update no_unique se_id se_createdAt +
  match: delegate "pr_match P" view tb_matches tb_matches_update uq_match ma_id ma_createdAt +
  message: delegate "pr_message P" view tb_messages tb_messages_update no_unique ms_id ms_createdAt +
  tokenTransaction: delegate "pr_tokenTransaction P" view tb_transactions tb_transactions_update uq_transaction tt_id tt_createdAt +
  moderationEvent: delegate "pr_moderationEvent P" view tb_moderationEvents tb_moderationEvents_update no_unique me_id me_createdAt +
  moderationReport: delegate "pr_moderationReport P" view tb_reports tb_reports_update no_unique rp_id rp_createdAt +
  moderationAppeal: delegate "pr_moderationAppeal P" view tb_appeals tb_appeals_update no_unique ap_id ap_createdAt +
  analyticsEvent: delegate "pr_analyticsEvent P" view tb_events tb_events_update "same_on ev_eventId" ev_id ev_createdAt +
  analyticsIngestHourly: delegate "pr_analyticsIngestHourly P" view tb_hourly tb_hourly_update uq_hourly hr_id hr_createdAt +
  block: delegate "pr_block P" view tb_blocks tb_blocks_update uq_block bl_id bl_createdAt +
  pushToken: delegate "pr_pushToken P" view tb_pushTokens tb_pushTokens_update "same_on pt_token" pt_id pt_createdAt +
  telemetryGateSnapshot: delegate "pr_telemetryGateSnapshot P" view tb_snapshots tb_snapshots_update no_unique sn_id sn_createdAt
  for P :: "'d prisma" and view :: "'d \<Rightarrow> tables" +
  assumes rollback: "view (pr_rollback P before after) = view before"

section \<open>A client on lists of rows\<close>

text \<open>
  A new identifier, longer than every identifier of the table. The client applies
  \<open>update\<close> to all rows that satisfy the predicate; on a unique key that is one row.
\<close>

definition fresh_id :: "string list \<Rightarrow> string" where
  "fresh_id ids = replicate (Suc (sum_list (map length ids))) CHR ''c''"

definition list_delegate ::
  "('t \<Rightarrow> 'r list) \<Rightarrow> (('r list \<Rightarrow> 'r list) \<Rightarrow> 't \<Rightarrow> 't) \<Rightarrow> ('r \<Rightarrow> 'r \<Rightarrow> bool) \<Rightarrow>
   ('r \<Rightarrow> string) \<Rightarrow> ('r \<Rightarrow> int) \<Rightarrow> ('t, 'r) delegate" where
  "list_delegate get upd conflict key created =
    (let cuid = (\<lambda>t. fresh_id (map key (get t)));
         create = (\<lambda>t mk. let r = mk (cuid t)
           in if list_ex (\<lambda>x. conflict x r) (get t) then (Inl PrismaP2002, t)
              else (Inr r, upd (\<lambda>rs. rs @ [r]) t));
         update = (\<lambda>t p f. case filter p (get t) of
             [] \<Rightarrow> (Inl PrismaP2025, t)
           | r # _ \<Rightarrow> if list_ex (\<lambda>x. \<not> p x \<and> conflict x (f r)) (get t) then (Inl PrismaP2002, t)
                     else (Inr (f r), upd (update_rows p f) t))
     in \<lparr>dg_cuid = cuid,
         dg_findFirst = (\<lambda>t p. find p (get t)),
         dg_findMany = (\<lambda>t p. filter p (get t)),
         dg_findLatest = (\<lambda>t p n. (let rs = sort_key (\<lambda>r. - created r) (filter p (get t))
           in case n of None \<Rightarrow> rs | Some k \<Rightarrow> take k rs)),
         dg_count = (\<lambda>t p. count_rows p (get t)),
         dg_create = create,
         dg_update = update,
         dg_updateMany = (\<lambda>t p f. (count_rows p (get t), upd (update_rows p f) t)),
         dg_upsert = (\<lambda>t p mk f. if list_ex p (get t) then update t p f else create t mk),
         dg_delete = (\<lambda>t p. case filter p (get t) of
             [] \<Rightarrow> (Inl PrismaP2025, t)
           | r # _ \<Rightarrow> (Inr r, upd (filter (\<lambda>x. \<not> p x)) t)),
         dg_deleteMany = (\<lambda>t p. (count_rows p (get t), upd (filter (\<lambda>x. \<not> p x)) t))\<rparr>)"

lemma fresh_id_fresh: "fresh_id ids \<notin> set ids"
proof
  assume "fresh_id ids \<in> set ids"
  then have "length (fresh_id ids) \<le> sum_list (map length ids)"
    by (intro member_le_sum_list) simp_all
  then show False by (simp add: fresh_id_def)
qed

lemma find_none_iff: "find p xs = None \<longleftrightarrow> (\<forall>x \<in> set xs. \<not> p x)"
  by (induction xs) auto

lemma list_delegate_laws: "delegate (list_delegate get upd conflict key created) (\<lambda>t. t) get upd conflict key created"
proof (unfold_locales, goal_cases)
  case (1 d)
  then show ?case using fresh_id_fresh [of "map key (get d)"] by (simp add: list_delegate_def Let_def)
next
  case (2 d)
  then show ?case by (simp add: list_delegate_def Let_def fresh_id_def)
next
  case (3 d p)
  then show ?case by (simp add: list_delegate_def Let_def find_none_iff)
next
  case (4 d p r)
  then show ?case by (auto simp: list_delegate_def Let_def dest: find_Some_mem)
next
  case (6 p d n)
  then show ?case
    by (intro exI [of _ "sort_key (\<lambda>r. - created r) (filter p (get d))"]) (simp add: list_delegate_def Let_def)
next
  case (10 p d r f)
  then show ?case by (auto simp: list_delegate_def Let_def list_ex_iff)
next
  case (11 d p f)
  then have "filter p (get d) = []" by (simp add: filter_empty_conv)
  then show ?case by (simp add: list_delegate_def Let_def)
next
  case (13 p d r f mk)
  then have "r \<in> set (filter p (get d))" by simp
  then have "list_ex p (get d)" by (auto simp: list_ex_iff)
  with 13 show ?case by (auto simp: list_delegate_def Let_def list_ex_iff)
next
  case (16 d p)
  then have "filter p (get d) = []" by (simp add: filter_empty_conv)
  then show ?case by (simp add: list_delegate_def Let_def)
qed (auto simp: list_delegate_def Let_def list_ex_iff)

definition list_prisma :: "tables prisma" where
  "list_prisma = \<lparr>
     pr_user = list_delegate tb_users tb_users_update uq_user us_id us_createdAt,
     pr_featureFlag = list_delegate tb_flags tb_flags_update (same_on ff_key) ff_id ff_createdAt,
     pr_refreshToken = list_delegate tb_refreshTokens tb_refreshTokens_update uq_refresh rt_id rt_createdAt,
     pr_session = list_delegate tb_sessions tb_sessions_update no_unique se_id se_createdAt,
     pr_match = list_delegate tb_matches tb_matches_update uq_match ma_id ma_createdAt,
     pr_message = list_delegate tb_messages tb_messages_update no_unique ms_id ms_createdAt,
     pr_tokenTransaction = list_delegate tb_transactions tb_transactions_update uq_transaction tt_id tt_createdAt,
     pr_moderationEvent = list_delegate tb_moderationEvents tb_moderationEvents_update no_unique me_id me_createdAt,
     pr_moderationReport = list_delegate tb_reports tb_reports_update no_unique rp_id rp_createdAt,
     pr_moderationAppeal = list_delegate tb_appeals tb_appeals_update no_unique ap_id ap_createdAt,
     pr_analyticsEvent = list_delegate tb_events tb_events_update (same_on ev_eventId) ev_id ev_createdAt,
     pr_analyticsIngestHourly = list_delegate tb_hourly tb_hourly_update uq_hourly hr_id hr_createdAt,
     pr_block = list_delegate tb_blocks tb_blocks_update uq_block bl_id bl_createdAt,
     pr_pushToken = list_delegate tb_pushTokens tb_pushTokens_update (same_on pt_token) pt_id pt_createdAt,
     pr_telemetryGateSnapshot = list_delegate tb_snapshots tb_snapshots_update no_unique sn_id sn_createdAt,
     pr_rollback = (\<lambda>before after. before)\<rparr>"

lemma list_prisma_simps [simp]:
  "pr_user list_prisma = list_delegate tb_users tb_users_update uq_user us_id us_createdAt"
  "pr_featureFlag list_prisma = list_delegate tb_flags tb_flags_update (same_on ff_key) ff_id ff_createdAt"
  "pr_refreshToken list_prisma = list_delegate tb_refreshTokens tb_refreshTokens_update uq_refresh rt_id rt_createdAt"
  "pr_session list_prisma = list_delegate tb_sessions tb_sessions_update no_unique se_id se_createdAt"
  "pr_match list_prisma = list_delegate tb_matches tb_matches_update uq_match ma_id ma_createdAt"
  "pr_message list_prisma = list_delegate tb_messages tb_messages_update no_unique ms_id ms_createdAt"
  "pr_tokenTransaction list_prisma = list_delegate tb_transactions tb_transactions_update uq_transaction tt_id tt_createdAt"
  "pr_moderationEvent list_prisma = list_delegate tb_moderationEvents tb_moderationEvents_update no_unique me_id me_createdAt"
  "pr_moderationReport list_prisma = list_delegate tb_reports tb_reports_update no_unique rp_id rp_createdAt"
  "pr_moderationAppeal list_prisma = list_delegate tb_appeals tb_appeals_update no_unique ap_id ap_createdAt"
  "pr_analyticsEvent list_prisma = list_delegate tb_events tb_events_update (same_on ev_eventId) ev_id ev_createdAt"
  "pr_analyticsIngestHourly list_prisma = list_delegate tb_hourly tb_hourly_update uq_hourly hr_id hr_createdAt"
  "pr_block list_prisma = list_delegate tb_blocks tb_blocks_update uq_block bl_id bl_createdAt"
  "pr_pushToken list_prisma = list_delegate tb_pushTokens tb_pushTokens_update (same_on pt_token) pt_id pt_createdAt"
  "pr_telemetryGateSnapshot list_prisma = list_delegate tb_snapshots tb_snapshots_update no_unique sn_id sn_createdAt"
  "pr_rollback list_prisma = (\<lambda>before after. before)"
  by (simp_all add: list_prisma_def)

interpretation tables: prisma_client list_prisma "\<lambda>t. t"
  by (simp add: prisma_client_def prisma_client_axioms_def list_delegate_laws)

definition no_tables :: tables where
  "no_tables = \<lparr>tb_users = [], tb_flags = [], tb_refreshTokens = [], tb_sessions = [], tb_matches = [], tb_messages = [], tb_transactions = [], tb_moderationEvents = [], tb_reports = [], tb_appeals = [], tb_events = [], tb_hourly = [], tb_blocks = [],
     tb_pushTokens = [], tb_snapshots = []\<rparr>"

end
