(* ===== verification/Backend_Env.thy ===== *)
theory Backend_Env
  imports JsDate InMemoryRedis Prisma_Client "HOL-Library.Word"
begin

text \<open>
  What a handler of the backend runs in. The \<open>world\<close> is the state it reads and writes: the
  Redis server, the database, the clock, the sockets and analytics events it emitted, and the
  timers the process holds. The \<open>env\<close> holds the parameters of the development: the clients of
  Redis and of the database, the environment variables, the functions of the \<open>crypto\<close> module.
  A handler runs at one instant of the clock: the milliseconds that pass between its first
  and its last command are not modelled, the time between handlers is.
\<close>

section \<open>World and environment\<close>

text \<open>
  \<open>Emit namespace room event payload\<close> is \<open>server.to(room).emit(event, payload)\<close> of a
  gateway; \<open>Track\<close> is \<open>analyticsService.trackServerEvent\<close>, \<open>NotifyUsers\<close> is
  \<open>notificationsService.notifyUsers\<close> and \<open>Monitor\<close> is
  \<open>ModerationService.startStreamMonitoring\<close>: their callers do not wait for them. Nor does the
  caller of \<open>SessionService.handleSessionCreated\<close>: \<open>SessionCreated session\<close> is that call, and what it
  does (\<open>handleSessionCreated\<close> of the theory Session) is a step of its own at some later moment. \<open>Fetch\<close>
  is a POST request with its headers and its JSON body.
\<close>

datatype effect =
    Emit string string string json
  | Track "string option" string "(string \<times> json) list"
  | NotifyUsers "string list" string json
  | Monitor string string string int
  | SessionCreated session_row
  | Fetch string "(string \<times> string) list" json

text \<open>
  A timer of \<open>session.service.ts\<close>: when it fires, the arguments of its callback, and whether
  it is still armed (an entry stays in its map after the timer has fired).
\<close>

record timer =
  tm_armed :: bool
  tm_due :: int
  tm_userA :: string
  tm_userB :: string

record ('r, 'd) world =
  rds :: 'r
  db :: 'd
  clock :: int
  trace :: "effect list"
  uuids :: nat
  endTimers :: "string \<rightharpoonup> timer"
  choiceTimers :: "string \<rightharpoonup> timer"

definition world_of :: "'r \<Rightarrow> 'd \<Rightarrow> int \<Rightarrow> ('r, 'd) world" where
  "world_of r d t = \<lparr>rds = r, db = d, clock = t, trace = [], uuids = 0,
     endTimers = (\<lambda>_. None), choiceTimers = (\<lambda>_. None)\<rparr>"

record ('r, 'd) env =
  rdc :: "'r redis"
  prc :: "'d prisma"
  env_var :: "string \<Rightarrow> string option"
  sha256_hex :: "string \<Rightarrow> string"
  hmac_sha256 :: "string \<Rightarrow> 8 word list \<Rightarrow> 8 word list"
  random_uuid :: "nat \<Rightarrow> string"
  random_salt :: "nat \<Rightarrow> nat"

section \<open>Commands\<close>

definition redis_read :: "('r \<Rightarrow> int \<Rightarrow> 'a) \<Rightarrow> (('r, 'd) world, 'a) prog" where
  "redis_read f = State (\<lambda>w. (f (rds w) (clock w), w))"

definition redis_write :: "('r \<Rightarrow> int \<Rightarrow> 'a \<times> 'r) \<Rightarrow> (('r, 'd) world, 'a) prog" where
  "redis_write f = State (\<lambda>w. (fst (f (rds w) (clock w)), w\<lparr>rds := snd (f (rds w) (clock w))\<rparr>))"

definition redis_get :: "('r, 'd) env \<Rightarrow> string \<Rightarrow> (('r, 'd) world, string option) prog" where
  "redis_get E k = redis_read (\<lambda>r t. rd_get (rdc E) r t k)"

definition redis_mget :: "('r, 'd) env \<Rightarrow> string list \<Rightarrow> (('r, 'd) world, string option list) prog" where
  "redis_mget E ks = redis_read (\<lambda>r t. rd_mget (rdc E) r t ks)"

definition redis_set ::
  "('r, 'd) env \<Rightarrow> string \<Rightarrow> string \<Rightarrow> int option \<Rightarrow> bool \<Rightarrow> (('r, 'd) world, bool) prog" where
  "redis_set E k v px nx = redis_write (\<lambda>r t. rd_set (rdc E) r t k v px nx)"

definition redis_del :: "('r, 'd) env \<Rightarrow> string list \<Rightarrow> (('r, 'd) world, nat) prog" where
  "redis_del E ks = redis_write (\<lambda>r t. rd_del (rdc E) r t ks)"

definition redis_hget :: "('r, 'd) env \<Rightarrow> string \<Rightarrow> string \<Rightarrow> (('r, 'd) world, string option) prog" where
  "redis_hget E k f = redis_read (\<lambda>r t. rd_hget (rdc E) r t k f)"

definition redis_hmget :: "('r, 'd) env \<Rightarrow> string \<Rightarrow> string list \<Rightarrow> (('r, 'd) world, string option list) prog" where
  "redis_hmget E k fs = redis_read (\<lambda>r t. rd_hmget (rdc E) r t k fs)"

definition redis_hset :: "('r, 'd) env \<Rightarrow> string \<Rightarrow> string \<Rightarrow> string \<Rightarrow> (('r, 'd) world, nat) prog" where
  "redis_hset E k f v = redis_write (\<lambda>r t. rd_hset (rdc E) r t k f v)"

definition redis_pexpire :: "('r, 'd) env \<Rightarrow> string \<Rightarrow> int \<Rightarrow> (('r, 'd) world, nat) prog" where
  "redis_pexpire E k ttl = redis_write (\<lambda>r t. rd_pexpire (rdc E) r t k ttl)"

definition redis_zadd :: "('r, 'd) env \<Rightarrow> string \<Rightarrow> (int \<times> string) list \<Rightarrow> (('r, 'd) world, nat) prog" where
  "redis_zadd E k ps = redis_write (\<lambda>r t. rd_zadd (rdc E) r t k ps)"

definition redis_zrank :: "('r, 'd) env \<Rightarrow> string \<Rightarrow> string \<Rightarrow> (('r, 'd) world, nat option) prog" where
  "redis_zrank E k m = redis_read (\<lambda>r t. rd_zrank (rdc E) r t k m)"

definition redis_zrem :: "('r, 'd) env \<Rightarrow> string \<Rightarrow> string \<Rightarrow> (('r, 'd) world, nat) prog" where
  "redis_zrem E k m = redis_write (\<lambda>r t. rd_zrem (rdc E) r t k m)"

definition redis_zcard :: "('r, 'd) env \<Rightarrow> string \<Rightarrow> (('r, 'd) world, nat) prog" where
  "redis_zcard E k = redis_read (\<lambda>r t. rd_zcard (rdc E) r t k)"

definition redis_zrange :: "('r, 'd) env \<Rightarrow> string \<Rightarrow> int \<Rightarrow> int \<Rightarrow> (('r, 'd) world, string list) prog" where
  "redis_zrange E k i j = redis_read (\<lambda>r t. rd_zrange (rdc E) r t k i j)"

definition redis_zpopmin :: "('r, 'd) env \<Rightarrow> string \<Rightarrow> nat \<Rightarrow> (('r, 'd) world, string list) prog" where
  "redis_zpopmin E k n = redis_write (\<lambda>r t. rd_zpopmin (rdc E) r t k n)"

definition redis_srem :: "('r, 'd) env \<Rightarrow> string \<Rightarrow> string list \<Rightarrow> (('r, 'd) world, nat) prog" where
  "redis_srem E k ms = redis_write (\<lambda>r t. rd_srem (rdc E) r t k ms)"

definition redis_smembers :: "('r, 'd) env \<Rightarrow> string \<Rightarrow> (('r, 'd) world, string list) prog" where
  "redis_smembers E k = redis_read (\<lambda>r t. rd_smembers (rdc E) r t k)"

definition redis_scan ::
  "('r, 'd) env \<Rightarrow> string \<Rightarrow> string \<Rightarrow> nat \<Rightarrow> (('r, 'd) world, string \<times> string list) prog" where
  "redis_scan E cursor pattern n = redis_read (\<lambda>r t. rd_scan (rdc E) r t cursor pattern n)"

definition redis_eval ::
  "('r, 'd) env \<Rightarrow> string \<Rightarrow> string \<Rightarrow> string \<Rightarrow> (('r, 'd) world, nat) prog" where
  "redis_eval E script k a = redis_write (\<lambda>r t. rd_eval (rdc E) r t script k a)"

definition redis_exec :: "('r, 'd) env \<Rightarrow> redis_command list \<Rightarrow> (('r, 'd) world, bool) prog" where
  "redis_exec E cs = redis_write (\<lambda>r t. rd_exec (rdc E) r t cs)"

definition query :: "('d \<Rightarrow> 'a) \<Rightarrow> (('r, 'd) world, 'a) prog" where
  "query f = State (\<lambda>w. (f (db w), w))"

definition mutate :: "('d \<Rightarrow> 'a \<times> 'd) \<Rightarrow> (('r, 'd) world, 'a) prog" where
  "mutate f = State (\<lambda>w. (fst (f (db w)), w\<lparr>db := snd (f (db w))\<rparr>))"

text \<open>\<open>prisma.$transaction(async (tx) => body)\<close>.\<close>

definition transaction :: "('r, 'd) env \<Rightarrow> (('r, 'd) world, 'a) fprog \<Rightarrow> (('r, 'd) world, 'a) fprog" where
  "transaction E body = State (\<lambda>w. case run_state body w of
      (Inl e, w') \<Rightarrow> (Inl e, w'\<lparr>db := pr_rollback (prc E) (db w) (db w')\<rparr>)
    | (Inr a, w') \<Rightarrow> (Inr a, w'))"

definition date_now :: "(('r, 'd) world, int) prog" where
  "date_now = State (\<lambda>w. (clock w, w))"

definition emit :: "effect \<Rightarrow> (('r, 'd) world, unit) prog" where
  "emit e = State (\<lambda>w. ((), w\<lparr>trace := trace w @ [e]\<rparr>))"

definition randomUUID :: "('r, 'd) env \<Rightarrow> (('r, 'd) world, string) prog" where
  "randomUUID E = State (\<lambda>w. (random_uuid E (uuids w), w\<lparr>uuids := Suc (uuids w)\<rparr>))"

text \<open>\<open>try { body } finally { cleanup }\<close> and \<open>try { body } catch (e) { handler(e) }\<close>.\<close>

definition try_finally :: "('w, 'a) prog \<Rightarrow> ('w, 'b) prog \<Rightarrow> ('w, 'a) prog" where
  "try_finally body cleanup = do { x \<leftarrow> body; cleanup; ret x }"

definition try_catch :: "('w, 'a) fprog \<Rightarrow> (exn \<Rightarrow> ('w, 'a) fprog) \<Rightarrow> ('w, 'a) fprog" where
  "try_catch body handler = State_Monad.bind body
     (\<lambda>x. case x of Inl e \<Rightarrow> handler e | Inr a \<Rightarrow> ok a)"

text \<open>A string or \<open>null\<close> as a condition: \<open>null\<close> and the empty string are false.\<close>

fun truthy :: "string option \<Rightarrow> bool" where
  "truthy None = False"
| "truthy (Some s) = (s \<noteq> [])"

definition json_opt :: "string option \<Rightarrow> json" where
  "json_opt x = (case x of None \<Rightarrow> JNull | Some s \<Rightarrow> JStr s)"

lemma truthy_iff: "truthy x \<longleftrightarrow> (\<exists>s. x = Some s \<and> s \<noteq> [])"
  by (cases x) auto

section \<open>Running commands\<close>

lemma run_redis [run]:
  "run_state (redis_get E k) w = (rd_get (rdc E) (rds w) (clock w) k, w)"
  "run_state (redis_mget E ks) w = (rd_mget (rdc E) (rds w) (clock w) ks, w)"
  "run_state (redis_set E k v px nx) w =
    (fst (rd_set (rdc E) (rds w) (clock w) k v px nx), w\<lparr>rds := snd (rd_set (rdc E) (rds w) (clock w) k v px nx)\<rparr>)"
  "run_state (redis_del E ks) w =
    (fst (rd_del (rdc E) (rds w) (clock w) ks), w\<lparr>rds := snd (rd_del (rdc E) (rds w) (clock w) ks)\<rparr>)"
  "run_state (redis_hget E k f) w = (rd_hget (rdc E) (rds w) (clock w) k f, w)"
  "run_state (redis_hmget E k fs) w = (rd_hmget (rdc E) (rds w) (clock w) k fs, w)"
  "run_state (redis_hset E k f v) w =
    (fst (rd_hset (rdc E) (rds w) (clock w) k f v), w\<lparr>rds := snd (rd_hset (rdc E) (rds w) (clock w) k f v)\<rparr>)"
  "run_state (redis_pexpire E k ttl) w =
    (fst (rd_pexpire (rdc E) (rds w) (clock w) k ttl), w\<lparr>rds := snd (rd_pexpire (rdc E) (rds w) (clock w) k ttl)\<rparr>)"
  "run_state (redis_zadd E k ps) w =
    (fst (rd_zadd (rdc E) (rds w) (clock w) k ps), w\<lparr>rds := snd (rd_zadd (rdc E) (rds w) (clock w) k ps)\<rparr>)"
  "run_state (redis_zrank E k m) w = (rd_zrank (rdc E) (rds w) (clock w) k m, w)"
  "run_state (redis_zrem E k m) w =
    (fst (rd_zrem (rdc E) (rds w) (clock w) k m), w\<lparr>rds := snd (rd_zrem (rdc E) (rds w) (clock w) k m)\<rparr>)"
  "run_state (redis_zcard E k) w = (rd_zcard (rdc E) (rds w) (clock w) k, w)"
  "run_state (redis_zrange E k i j) w = (rd_zrange (rdc E) (rds w) (clock w) k i j, w)"
  "run_state (redis_zpopmin E k n) w =
    (fst (rd_zpopmin (rdc E) (rds w) (clock w) k n), w\<lparr>rds := snd (rd_zpopmin (rdc E) (rds w) (clock w) k n)\<rparr>)"
  "run_state (redis_srem E k ms) w =
    (fst (rd_srem (rdc E) (rds w) (clock w) k ms), w\<lparr>rds := snd (rd_srem (rdc E) (rds w) (clock w) k ms)\<rparr>)"
  "run_state (redis_smembers E k) w = (rd_smembers (rdc E) (rds w) (clock w) k, w)"
  "run_state (redis_scan E c p n) w = (rd_scan (rdc E) (rds w) (clock w) c p n, w)"
  "run_state (redis_eval E s k a) w =
    (fst (rd_eval (rdc E) (rds w) (clock w) s k a), w\<lparr>rds := snd (rd_eval (rdc E) (rds w) (clock w) s k a)\<rparr>)"
  "run_state (redis_exec E cs) w =
    (fst (rd_exec (rdc E) (rds w) (clock w) cs), w\<lparr>rds := snd (rd_exec (rdc E) (rds w) (clock w) cs)\<rparr>)"
  by (simp_all add: redis_read_def redis_write_def redis_get_def redis_mget_def redis_set_def redis_del_def
      redis_hget_def redis_hmget_def redis_hset_def redis_pexpire_def redis_zadd_def redis_zrank_def
      redis_zrem_def redis_zcard_def redis_zrange_def redis_zpopmin_def redis_srem_def redis_smembers_def
      redis_scan_def redis_eval_def redis_exec_def)

lemma run_commands [run]:
  "run_state (query f) w = (f (db w), w)"
  "run_state (mutate g) w = (fst (g (db w)), w\<lparr>db := snd (g (db w))\<rparr>)"
  "run_state date_now w = (clock w, w)"
  "run_state (emit e) w = ((), w\<lparr>trace := trace w @ [e]\<rparr>)"
  "run_state (randomUUID E) w = (random_uuid E (uuids w), w\<lparr>uuids := Suc (uuids w)\<rparr>)"
  by (simp_all add: query_def mutate_def date_now_def emit_def randomUUID_def)

lemma run_try [run]:
  "run_state (try_finally body cleanup) w =
    (case run_state body w of (x, w1) \<Rightarrow> (x, snd (run_state cleanup w1)))"
  "run_state (try_catch m h) w =
    (case run_state m w of (Inl e, w1) \<Rightarrow> run_state (h e) w1 | (Inr a, w1) \<Rightarrow> (Inr a, w1))"
  by (simp_all add: try_finally_def try_catch_def case_prod_beta run_case_sum split: sum.split)

lemma run_transaction [run]:
  "run_state (transaction E m) w = (case run_state m w of
      (Inl e, w') \<Rightarrow> (Inl e, w'\<lparr>db := pr_rollback (prc E) (db w) (db w')\<rparr>)
    | (Inr a, w') \<Rightarrow> (Inr a, w'))"
  by (simp add: transaction_def)

section \<open>What the handlers rely on\<close>

text \<open>
  The clients keep their laws; \<open>randomUUID\<close> never repeats itself and is not the empty
  string; an HMAC-SHA256 has 32 bytes, a SHA-256 digest 64 hexadecimal digits, and
  \<open>Math.floor(Math.random() * 0xffffffff)\<close> is below \<open>0xffffffff\<close>.
\<close>

locale backend =
  redis: redis_client "rdc E" zv sv other + prisma: prisma_client "prc E" view
  for E :: "('r, 'd) env" and zv sv other and view :: "'d \<Rightarrow> tables" +
  assumes uuid_nonempty: "random_uuid E n \<noteq> []"
    and uuid_inj: "random_uuid E m = random_uuid E n \<Longrightarrow> m = n"
    and hmac_length: "length (hmac_sha256 E key bytes) = 32"
    and sha256_length: "length (sha256_hex E s) = 64"
    and sha256_digits: "list_all (\<lambda>c. hex_value c \<noteq> None) (sha256_hex E s)"
    and salt_bound: "random_salt E n < 4294967295"

section \<open>Frames\<close>

text \<open>
  A program that writes no Redis key outside \<open>K\<close> and does not set the clock. The rules in the
  collection \<open>touch\<close> follow the structure of a program.
\<close>

named_theorems touch \<open>programs that write only the keys of a set\<close>

definition touches :: "('r, 'd) env \<Rightarrow> ('r \<Rightarrow> int \<Rightarrow> string \<Rightarrow> (string \<times> int) list) \<Rightarrow>
  ('r \<Rightarrow> int \<Rightarrow> string \<Rightarrow> string set) \<Rightarrow> ('r \<Rightarrow> string \<Rightarrow> bool) \<Rightarrow> string set \<Rightarrow> (('r, 'd) world, 'a) prog \<Rightarrow> bool" where
  "touches E zv sv other K m \<longleftrightarrow> (\<forall>w. clock (snd (run_state m w)) = clock w \<and>
     unch (rdc E) zv sv other (clock w) K (rds w) (rds (snd (run_state m w))))"

lemma unch_refl: "unch R zv sv other t K r r"
  by (simp add: unch_def)

lemma unch_trans: "unch R zv sv other t K r r' \<Longrightarrow> unch R zv sv other t K r' r'' \<Longrightarrow> unch R zv sv other t K r r''"
  by (simp add: unch_def)

lemma unch_mono: "unch R zv sv other t K r r' \<Longrightarrow> K \<subseteq> L \<Longrightarrow> unch R zv sv other t L r r'"
  unfolding unch_def by blast

lemma touches_pure:
  assumes "\<And>w. rds (snd (run_state m w)) = rds w" and "\<And>w. clock (snd (run_state m w)) = clock w"
  shows "touches E zv sv other K m"
  using assms by (simp add: touches_def unch_refl)

lemma touches_basic [touch]:
  "touches E zv sv other K (ret x)" "touches E zv sv other K (throw e)" "touches E zv sv other K (ok a)"
  "touches E zv sv other K (redis_get E' k)" "touches E zv sv other K (redis_mget E' ks)"
  "touches E zv sv other K (redis_hget E' k f)" "touches E zv sv other K (redis_hmget E' k fs)"
  "touches E zv sv other K (redis_zrank E' k s)" "touches E zv sv other K (redis_zcard E' k)"
  "touches E zv sv other K (redis_zrange E' k i j)" "touches E zv sv other K (redis_smembers E' k)"
  "touches E zv sv other K (redis_scan E' c s n)" "touches E zv sv other K (query q)"
  "touches E zv sv other K (mutate u)" "touches E zv sv other K date_now" "touches E zv sv other K (emit e')"
  "touches E zv sv other K (randomUUID E')"
  by (rule touches_pure; simp add: run)+

lemma touches_bind [touch]:
  assumes "touches E zv sv other K m" and "\<And>x. touches E zv sv other K (f x)"
  shows "touches E zv sv other K (State_Monad.bind m f)"
  unfolding touches_def
proof
  fix w
  obtain a w1 where m: "run_state m w = (a, w1)" by (cases "run_state m w")
  have "clock w1 = clock w \<and> unch (rdc E) zv sv other (clock w) K (rds w) (rds w1)"
    using assms(1) m by (metis snd_conv touches_def)
  moreover have "clock (snd (run_state (f a) w1)) = clock w1 \<and>
      unch (rdc E) zv sv other (clock w1) K (rds w1) (rds (snd (run_state (f a) w1)))"
    using assms(2) by (simp add: touches_def)
  ultimately show "clock (snd (run_state (State_Monad.bind m f) w)) = clock w \<and>
      unch (rdc E) zv sv other (clock w) K (rds w) (rds (snd (run_state (State_Monad.bind m f) w)))"
    using m by (auto intro: unch_trans)
qed

lemma andThen_bind: "andThen m f = State_Monad.bind m (\<lambda>x. case x of Inl e \<Rightarrow> ret (Inl e) | Inr a \<Rightarrow> f a)"
  by (rule state_ext) (simp add: run case_prod_beta split: sum.split)

lemma touches_sum [touch]:
  "(\<And>e. x = Inl e \<Longrightarrow> touches E zv sv other K (m e)) \<Longrightarrow> (\<And>a. x = Inr a \<Longrightarrow> touches E zv sv other K (n a)) \<Longrightarrow>
   touches E zv sv other K (case x of Inl e \<Rightarrow> m e | Inr a \<Rightarrow> n a)"
  by (cases x) simp_all

lemma touches_option [touch]:
  "(x = None \<Longrightarrow> touches E zv sv other K m) \<Longrightarrow> (\<And>a. x = Some a \<Longrightarrow> touches E zv sv other K (n a)) \<Longrightarrow>
   touches E zv sv other K (case x of None \<Rightarrow> m | Some a \<Rightarrow> n a)"
  by (cases x) simp_all

lemma touches_prod [touch]:
  "(\<And>a b. x = (a, b) \<Longrightarrow> touches E zv sv other K (m a b)) \<Longrightarrow> touches E zv sv other K (case x of (a, b) \<Rightarrow> m a b)"
  by (cases x) simp_all

lemma touches_list [touch]:
  "(x = [] \<Longrightarrow> touches E zv sv other K m) \<Longrightarrow> (\<And>a as. x = a # as \<Longrightarrow> touches E zv sv other K (n a as)) \<Longrightarrow>
   touches E zv sv other K (case x of [] \<Rightarrow> m | a # as \<Rightarrow> n a as)"
  by (cases x) simp_all

lemma touches_if [touch]:
  "(b \<Longrightarrow> touches E zv sv other K m) \<Longrightarrow> (\<not> b \<Longrightarrow> touches E zv sv other K n) \<Longrightarrow>
   touches E zv sv other K (if b then m else n)"
  by simp

lemma touches_let [touch]: "touches E zv sv other K (m a) \<Longrightarrow> touches E zv sv other K (let x = a in m x)"
  by (simp add: Let_def)

lemma touches_andThen [touch]:
  "touches E zv sv other K m \<Longrightarrow> (\<And>x. touches E zv sv other K (f x)) \<Longrightarrow> touches E zv sv other K (andThen m f)"
  unfolding andThen_bind by (intro touch)

lemma touches_try [touch]:
  "touches E zv sv other K m \<Longrightarrow> touches E zv sv other K c \<Longrightarrow> touches E zv sv other K (try_finally m c)"
  "touches E zv sv other K m' \<Longrightarrow> (\<And>e. touches E zv sv other K (h e)) \<Longrightarrow> touches E zv sv other K (try_catch m' h)"
  unfolding try_finally_def try_catch_def by (intro touch; assumption)+

lemma touches_transaction [touch]:
  assumes "touches E zv sv other K m"
  shows "touches E zv sv other K (transaction E' m)"
proof -
  have "transaction E' m = do { w \<leftarrow> State_Monad.get; x \<leftarrow> m;
      State (\<lambda>w'. (x, case x of Inl _ \<Rightarrow> w'\<lparr>db := pr_rollback (prc E') (db w) (db w')\<rparr> | Inr _ \<Rightarrow> w')) }"
    by (rule state_ext) (simp add: run case_prod_beta split: sum.split)
  moreover have "touches E zv sv other K State_Monad.get" by (rule touches_pure) simp_all
  moreover have "touches E zv sv other K (State (\<lambda>w'. (x,
      case x of Inl _ \<Rightarrow> w'\<lparr>db := pr_rollback (prc E') (db w) (db w')\<rparr> | Inr _ \<Rightarrow> w')))" for w :: "('a, 'b) world" and x
    by (rule touches_pure) (simp_all split: sum.split)
  ultimately show ?thesis using assms by (auto intro: touches_bind)
qed

lemma touches_forEach [touch]:
  "(\<And>x. x \<in> set xs \<Longrightarrow> touches E zv sv other K (f x)) \<Longrightarrow> touches E zv sv other K (forEach xs f)"
  by (induction xs) (auto intro!: touch)

lemma touchesD:
  assumes "touches E zv sv other K m"
  shows "clock (snd (run_state m w)) = clock w"
    and "unch (rdc E) zv sv other (clock w) K (rds w) (rds (snd (run_state m w)))"
  using assms by (simp_all add: touches_def)

fun command_keys :: "redis_command \<Rightarrow> string set" where
  "command_keys (CZadd k ps) = {k}"
| "command_keys (CSet k v px) = {k}"
| "command_keys (CSadd k ms) = {k}"
| "command_keys (CDel ks) = set ks"

context backend
begin

lemma touches_write:
  assumes "\<And>r t. unch (rdc E) zv sv other t K r (snd (f r t))"
  shows "touches E zv sv other K (redis_write f)"
  using assms by (simp add: touches_def redis_write_def)

lemma touches_set [touch]: "k \<in> K \<Longrightarrow> touches E zv sv other K (redis_set E k v px nx)"
  unfolding redis_set_def by (rule touches_write) (rule unch_mono [OF redis.set_unch], simp)

lemma touches_del [touch]: "set ks \<subseteq> K \<Longrightarrow> touches E zv sv other K (redis_del E ks)"
  unfolding redis_del_def by (rule touches_write) (rule unch_mono [OF redis.del_unch], simp)

lemma touches_hset [touch]: "k \<in> K \<Longrightarrow> touches E zv sv other K (redis_hset E k f v)"
  unfolding redis_hset_def by (rule touches_write) (rule unch_mono [OF redis.hset_unch], simp)

lemma touches_pexpire [touch]: "k \<in> K \<Longrightarrow> touches E zv sv other K (redis_pexpire E k ttl)"
  unfolding redis_pexpire_def by (rule touches_write) (rule unch_mono [OF redis.pexpire_unch], simp)

lemma touches_zadd [touch]: "k \<in> K \<Longrightarrow> touches E zv sv other K (redis_zadd E k ps)"
  unfolding redis_zadd_def by (rule touches_write) (rule unch_mono [OF redis.zadd_unch], simp)

lemma touches_zrem [touch]: "k \<in> K \<Longrightarrow> touches E zv sv other K (redis_zrem E k s)"
  unfolding redis_zrem_def by (rule touches_write) (rule unch_mono [OF redis.zrem_unch], simp)

lemma touches_zpopmin [touch]: "k \<in> K \<Longrightarrow> touches E zv sv other K (redis_zpopmin E k n)"
  unfolding redis_zpopmin_def by (rule touches_write) (rule unch_mono [OF redis.zpopmin_unch], simp)

lemma touches_srem [touch]: "k \<in> K \<Longrightarrow> touches E zv sv other K (redis_srem E k ms)"
  unfolding redis_srem_def by (rule touches_write) (rule unch_mono [OF redis.srem_unch], simp)

lemma touches_eval [touch]:
  assumes "k \<in> K"
  shows "touches E zv sv other K (redis_eval E unlock_script k a)"
  unfolding redis_eval_def
proof (rule touches_write)
  fix r t
  show "unch (rdc E) zv sv other t K r (snd (rd_eval (rdc E) r t unlock_script k a))"
  proof (cases "rd_get (rdc E) r t k = Some a")
    case True
    have "unch (rdc E) zv sv other t K r (snd (rd_del (rdc E) r t [k]))"
      using assms by (intro unch_mono [OF redis.del_unch]) simp
    with True show ?thesis by (simp add: redis.eval_hit)
  next
    case False
    show ?thesis using redis.eval_miss [OF False] by (rule unch_mono) simp
  qed
qed

lemma run_command_unch: "command_keys c \<subseteq> K \<Longrightarrow> unch (rdc E) zv sv other t K r (run_command (rdc E) t r c)"
  by (cases c) (auto simp: run_command_def intro: unch_mono redis.zadd_unch redis.set_unch redis.sadd_unch redis.del_unch)

lemma run_commands_unch:
  "\<forall>c \<in> set cs. command_keys c \<subseteq> K \<Longrightarrow> unch (rdc E) zv sv other t K r (foldl (run_command (rdc E) t) r cs)"
proof (induction cs arbitrary: r)
  case Nil
  then show ?case by (simp add: unch_refl)
next
  case (Cons c cs)
  have "unch (rdc E) zv sv other t K r (run_command (rdc E) t r c)"
    using Cons.prems by (intro run_command_unch) simp
  moreover have "unch (rdc E) zv sv other t K (run_command (rdc E) t r c)
      (foldl (run_command (rdc E) t) (run_command (rdc E) t r c) cs)"
    using Cons.prems by (intro Cons.IH) simp
  ultimately show ?case unfolding foldl_Cons by (rule unch_trans)
qed

lemma touches_exec [touch]:
  assumes "\<forall>c \<in> set cs. command_keys c \<subseteq> K"
  shows "touches E zv sv other K (redis_exec E cs)"
  unfolding redis_exec_def
proof (rule touches_write)
  fix r t
  show "unch (rdc E) zv sv other t K r (snd (rd_exec (rdc E) r t cs))"
  proof (cases "fst (rd_exec (rdc E) r t cs)")
    case True
    then show ?thesis using run_commands_unch [OF assms] by (simp add: redis.exec_ok)
  next
    case False
    show ?thesis using redis.exec_fail [OF False] by (rule unch_mono) simp
  qed
qed

end

section \<open>Programs that leave the database alone\<close>

named_theorems dbfix \<open>programs that do not write the database\<close>

definition keeps_db :: "(('r, 'd) world, 'a) prog \<Rightarrow> bool" where
  "keeps_db m \<longleftrightarrow> (\<forall>w. db (snd (run_state m w)) = db w)"

lemma keeps_dbD: "keeps_db m \<Longrightarrow> db (snd (run_state m w)) = db w"
  by (simp add: keeps_db_def)

lemma keeps_db_basic [dbfix]:
  "keeps_db (ret x)" "keeps_db (throw e)" "keeps_db (ok a)" "keeps_db (redis_get E k)" "keeps_db (redis_mget E ks)"
  "keeps_db (redis_set E k v px nx)" "keeps_db (redis_del E ks)" "keeps_db (redis_hget E k f)" "keeps_db (redis_hmget E k fs)"
  "keeps_db (redis_hset E k f v)" "keeps_db (redis_pexpire E k ttl)" "keeps_db (redis_zadd E k ps)" "keeps_db (redis_zrank E k s)"
  "keeps_db (redis_zrem E k s)" "keeps_db (redis_zcard E k)" "keeps_db (redis_zrange E k i j)" "keeps_db (redis_zpopmin E k n)"
  "keeps_db (redis_srem E k ms)" "keeps_db (redis_smembers E k)" "keeps_db (redis_scan E c s n)" "keeps_db (redis_eval E s k v)"
  "keeps_db (redis_exec E cs)" "keeps_db (query q)" "keeps_db date_now" "keeps_db (emit e')" "keeps_db (randomUUID E)"
  by (simp_all add: keeps_db_def run)

lemma keeps_db_bind [dbfix]:
  "keeps_db m \<Longrightarrow> (\<And>x. keeps_db (f x)) \<Longrightarrow> keeps_db (State_Monad.bind m f)"
  by (simp add: keeps_db_def case_prod_beta)

lemma keeps_db_andThen [dbfix]: "keeps_db m \<Longrightarrow> (\<And>x. keeps_db (f x)) \<Longrightarrow> keeps_db (andThen m f)"
  by (simp add: keeps_db_def run case_prod_beta split: sum.split)

lemma keeps_db_try [dbfix]:
  "keeps_db m \<Longrightarrow> keeps_db c \<Longrightarrow> keeps_db (try_finally m c)"
  "keeps_db m' \<Longrightarrow> (\<And>e. keeps_db (h e)) \<Longrightarrow> keeps_db (try_catch m' h)"
  by (simp_all add: keeps_db_def run case_prod_beta split: sum.split)

lemma keeps_db_cases [dbfix]:
  "(\<And>e. keeps_db (m e)) \<Longrightarrow> (\<And>a. keeps_db (n a)) \<Longrightarrow> keeps_db (case x of Inl e \<Rightarrow> m e | Inr a \<Rightarrow> n a)"
  "keeps_db m' \<Longrightarrow> (\<And>b. keeps_db (n' b)) \<Longrightarrow> keeps_db (case y of None \<Rightarrow> m' | Some b \<Rightarrow> n' b)"
  "(\<And>c d. keeps_db (q c d)) \<Longrightarrow> keeps_db (case z of (c, d) \<Rightarrow> q c d)"
  "keeps_db t \<Longrightarrow> keeps_db e' \<Longrightarrow> keeps_db (if b then t else e')"
  "keeps_db (g v) \<Longrightarrow> keeps_db (let u = v in g u)"
  by (simp_all add: Let_def split: sum.split option.split prod.split)

lemma keeps_db_forEach [dbfix]: "(\<And>x. keeps_db (f x)) \<Longrightarrow> keeps_db (forEach xs f)"
  by (induction xs) (auto intro!: dbfix)

section \<open>Programs that keep an invariant\<close>

named_theorems pres \<open>programs that keep an invariant of the world\<close>

definition preserves :: "('w \<Rightarrow> bool) \<Rightarrow> ('w, 'a) prog \<Rightarrow> bool" where
  "preserves I m \<longleftrightarrow> (\<forall>w. I w \<longrightarrow> I (snd (run_state m w)))"

lemma preservesD: "preserves I m \<Longrightarrow> I w \<Longrightarrow> I (snd (run_state m w))"
  by (simp add: preserves_def)

lemma preserves_basic [pres]: "preserves I (ret x)" "preserves I (throw e)" "preserves I (ok a)" "preserves I (query q)"
  "preserves I date_now" "preserves I (redis_get E k)"
  by (simp_all add: preserves_def run)

lemma preserves_bind [pres]:
  "preserves I m \<Longrightarrow> (\<And>x. preserves I (f x)) \<Longrightarrow> preserves I (State_Monad.bind m f)"
  by (simp add: preserves_def case_prod_beta)

lemma preserves_andThen [pres]: "preserves I m \<Longrightarrow> (\<And>x. preserves I (f x)) \<Longrightarrow> preserves I (andThen m f)"
  by (simp add: preserves_def run case_prod_beta split: sum.split)

lemma preserves_cases [pres]:
  "(\<And>e. preserves I (m e)) \<Longrightarrow> (\<And>a. preserves I (n a)) \<Longrightarrow> preserves I (case x of Inl e \<Rightarrow> m e | Inr a \<Rightarrow> n a)"
  "preserves I m' \<Longrightarrow> (\<And>b. preserves I (n' b)) \<Longrightarrow> preserves I (case y of None \<Rightarrow> m' | Some b \<Rightarrow> n' b)"
  "preserves I t \<Longrightarrow> preserves I e' \<Longrightarrow> preserves I (if b then t else e')"
  "preserves I (g v) \<Longrightarrow> preserves I (let u = v in g u)"
  by (simp_all add: Let_def split: sum.split option.split)

lemma preserves_read [pres]:
  "(\<And>w. I w \<Longrightarrow> I (snd (run_state (f (q (db w))) w))) \<Longrightarrow> preserves I (State_Monad.bind (query q) f)"
  by (simp add: preserves_def run)

text \<open>Updates of different fields of the world, in one order.\<close>

lemma world_order:
  "rds_update f (db_update g w) = db_update g (rds_update f w)" "rds_update f (clock_update h w) = clock_update h (rds_update f w)"
  "rds_update f (trace_update i w) = trace_update i (rds_update f w)" "rds_update f (uuids_update j w) = uuids_update j (rds_update f w)"
  "db_update g (clock_update h w) = clock_update h (db_update g w)" "db_update g (trace_update i w) = trace_update i (db_update g w)"
  "db_update g (uuids_update j w) = uuids_update j (db_update g w)" "clock_update h (trace_update i w) = trace_update i (clock_update h w)"
  "clock_update h (uuids_update j w) = uuids_update j (clock_update h w)" "trace_update i (uuids_update j w) = uuids_update j (trace_update i w)"
  by (cases w; simp)+

section \<open>An instance\<close>

text \<open>
  The environment of the witnesses: the Redis client of the tests, lists of rows, and a
  stand-in for each function of \<open>crypto\<close>.
\<close>

definition hex_text :: "string \<Rightarrow> string" where
  "hex_text s = concat (map (\<lambda>c. [hex_digit (of_char c div 16), hex_digit (of_char c mod 16)]) s)"

definition hex64 :: "string \<Rightarrow> string" where
  "hex64 s = take 64 (hex_text s @ replicate 64 CHR ''0'')"

lemma hex64_length: "length (hex64 s) = 64"
  by (simp add: hex64_def)

lemma hex64_digits: "list_all (\<lambda>c. hex_value c \<noteq> None) (hex64 s)"
proof -
  have "hex_value (CHR ''0'') \<noteq> None"
    by (simp add: hex_value_def)
  moreover have "list_all (\<lambda>c. hex_value c \<noteq> None) (hex_text s)"
  proof (induction s)
    case Nil
    then show ?case by (simp add: hex_text_def)
  next
    case (Cons c s)
    have "(of_char c :: nat) div 16 < 16" "(of_char c :: nat) mod 16 < 16"
      using of_char_of [of "of_char c :: nat"] by (simp_all add: less_mult_imp_div_less)
    with Cons show ?case by (simp add: hex_text_def hex_value_hex_digit)
  qed
  ultimately show ?thesis
    by (auto simp: hex64_def list_all_iff dest!: in_set_takeD)
qed

definition test_vars :: "string \<Rightarrow> string option" where
  "test_vars = (\<lambda>_. None)"

definition test_env_of :: "(string \<Rightarrow> string option) \<Rightarrow> (inmem, tables) env" where
  "test_env_of vars = \<lparr>rdc = im_redis, prc = list_prisma, env_var = vars,
     sha256_hex = hex64, hmac_sha256 = (\<lambda>key bytes. replicate 32 7),
     random_uuid = (\<lambda>n. ''u'' @ show_int (int n)), random_salt = (\<lambda>n. n mod 4294967295)\<rparr>"

definition test_env :: "(inmem, tables) env" where
  "test_env = test_env_of test_vars"

lemma test_env_simps [simp]:
  "rdc (test_env_of v) = im_redis" "prc (test_env_of v) = list_prisma" "env_var (test_env_of v) = v"
  "sha256_hex (test_env_of v) = hex64" "hmac_sha256 (test_env_of v) key bytes = replicate 32 7"
  "random_uuid (test_env_of v) n = ''u'' @ show_int (int n)" "random_salt (test_env_of v) n = n mod 4294967295"
  by (simp_all add: test_env_of_def)

interpretation test: backend "test_env_of v" im_zv im_sv im_other "\<lambda>t. t"
  by (intro backend.intro backend_axioms.intro)
    (use hex64_digits in \<open>simp_all add: im.redis_client_axioms tables.prisma_client_axioms hex64_length\<close>)

end
