(* ===== verification/Security_Config.thy ===== *)
theory Security_Config
  imports Backend_Env
begin

text \<open>
  \<open>src/src/common/security-config.ts\<close>: the secrets of the JSON web tokens and the origins
  that may connect, read from the environment. \<open>env_var E\<close> is \<open>process.env\<close>.
\<close>

definition DEV_ACCESS_SECRET :: string where "DEV_ACCESS_SECRET = ''dev_access_secret''"
definition DEV_REFRESH_SECRET :: string where "DEV_REFRESH_SECRET = ''dev_refresh_secret''"

definition readEnvSecret :: "string option \<Rightarrow> string option" where
  "readEnvSecret value =
    (if \<not> truthy value then None
     else (let trimmed = trim (the value) in if length trimmed > 0 then Some trimmed else None))"

definition isProductionEnv :: "('r, 'd) env \<Rightarrow> bool" where
  "isProductionEnv E \<longleftrightarrow> env_var E ''NODE_ENV'' = Some ''production''"

definition parseBooleanEnv :: "string option \<Rightarrow> bool" where
  "parseBooleanEnv value \<longleftrightarrow> truthy value \<and>
     toLowerCase (trim (the value)) \<in> {''1'', ''true'', ''yes'', ''on''}"

definition allowInsecureDevSecrets :: "('r, 'd) env \<Rightarrow> bool" where
  "allowInsecureDevSecrets E \<longleftrightarrow> \<not> isProductionEnv E \<and> parseBooleanEnv (env_var E ''ALLOW_INSECURE_DEV_SECRETS'')"

definition missingSecretError :: "string \<Rightarrow> exn" where
  "missingSecretError secretName = JsError (''Missing '' @ secretName @ '' (or JWT_SECRET). Set '' @ secretName @
     '' or JWT_SECRET. '' @ ''To use insecure dev fallback secrets, set '' @
     ''ALLOW_INSECURE_DEV_SECRETS=true in non-production only.'')"

text \<open>\<open>a ?? b\<close>.\<close>

fun or_else :: "'a option \<Rightarrow> 'a option \<Rightarrow> 'a option" where
  "or_else None y = y"
| "or_else (Some x) y = Some x"

definition getAllowedOrigins :: "('r, 'd) env \<Rightarrow> string list" where
  "getAllowedOrigins E =
    (let rawOrigins = (case or_else (env_var E ''APP_ORIGINS'') (env_var E ''APP_URL'') of None \<Rightarrow> [] | Some s \<Rightarrow> s)
     in filter (\<lambda>origin. length origin > 0) (map trim (split_on CHR '','' rawOrigins)))"

definition isOriginAllowed :: "('r, 'd) env \<Rightarrow> string option \<Rightarrow> bool" where
  "isOriginAllowed E origin =
    (if \<not> truthy origin then True
     else (let allowedOrigins = getAllowedOrigins E
           in if allowedOrigins = [] then True else the origin \<in> set allowedOrigins))"

text \<open>The error and the decision that \<open>corsOriginResolver\<close> passes to its callback.\<close>

definition corsOriginResolver :: "('r, 'd) env \<Rightarrow> string option \<Rightarrow> exn option \<times> bool" where
  "corsOriginResolver E origin = (None, isOriginAllowed E origin)"

definition getAccessTokenSecret :: "('r, 'd) env \<Rightarrow> exn + string" where
  "getAccessTokenSecret E =
    (case or_else (readEnvSecret (env_var E ''JWT_ACCESS_SECRET'')) (readEnvSecret (env_var E ''JWT_SECRET'')) of
       Some accessSecret \<Rightarrow> Inr accessSecret
     | None \<Rightarrow> if allowInsecureDevSecrets E then Inr DEV_ACCESS_SECRET else Inl (missingSecretError ''JWT_ACCESS_SECRET''))"

definition getRefreshTokenSecret :: "('r, 'd) env \<Rightarrow> exn + string" where
  "getRefreshTokenSecret E =
    (case or_else (readEnvSecret (env_var E ''JWT_REFRESH_SECRET'')) (readEnvSecret (env_var E ''JWT_SECRET'')) of
       Some refreshSecret \<Rightarrow> Inr refreshSecret
     | None \<Rightarrow> if allowInsecureDevSecrets E then Inr DEV_REFRESH_SECRET else Inl (missingSecretError ''JWT_REFRESH_SECRET''))"

section \<open>Secrets\<close>

lemma readEnvSecret_nonempty: "readEnvSecret v = Some s \<Longrightarrow> s \<noteq> [] \<and> trim s = s"
  by (auto simp: readEnvSecret_def Let_def split: if_splits)

lemma or_else_Some: "or_else x y = Some z \<Longrightarrow> x = Some z \<or> x = None \<and> y = Some z"
  by (cases x) auto

lemma secret_of_env:
  assumes "or_else (readEnvSecret (env_var E n)) (readEnvSecret (env_var E ''JWT_SECRET'')) = Some s"
  shows "s \<noteq> [] \<and> (\<exists>m v. m \<in> {n, ''JWT_SECRET''} \<and> env_var E m = Some v \<and> s = trim v)"
proof -
  obtain m where m: "m \<in> {n, ''JWT_SECRET''}" "readEnvSecret (env_var E m) = Some s"
    using or_else_Some [OF assms] by auto
  then have "\<exists>v. env_var E m = Some v \<and> s = trim v"
    by (cases "env_var E m") (auto simp: readEnvSecret_def Let_def split: if_splits)
  with m readEnvSecret_nonempty show ?thesis by blast
qed

end
