(* ===== verification/Video.thy ===== *)
theory Video
  imports Backend_Env
begin

text \<open>
  The Agora tokens of \<open>src/src/video/video.service.ts\<close>: the little-endian byte buffer with
  its range errors, the \<open>AccessToken2\<close> layout with its two services, and
  \<open>buildSessionTokens\<close>. The decoder at the end is the specification of the layout: what a
  reader of the token finds in it.
\<close>

type_synonym bytes = "8 word list"

section \<open>Buffers\<close>

text \<open>\<open>Buffer.from(s)\<close>: UTF-8, for the code units 0 to 255.\<close>

definition utf8_char :: "char \<Rightarrow> bytes" where
  "utf8_char c = (let n = of_char c :: nat in
     if n < 128 then [of_nat n] else [of_nat (192 + n div 64), of_nat (128 + n mod 64)])"

definition utf8 :: "string \<Rightarrow> bytes" where
  "utf8 s = concat (map utf8_char s)"

definition u16le :: "nat \<Rightarrow> bytes" where
  "u16le n = [of_nat n, of_nat (n div 256)]"

definition u32le :: "nat \<Rightarrow> bytes" where
  "u32le n = [of_nat n, of_nat (n div 256), of_nat (n div 65536), of_nat (n div 16777216)]"

definition range_error :: exn where
  "range_error = JsError ''ERR_OUT_OF_RANGE''"

text \<open>The methods of \<open>ByteBuf\<close>: \<open>writeUInt16LE\<close> and \<open>writeUInt32LE\<close> throw out of range.\<close>

definition putUint16 :: "int \<Rightarrow> bytes \<Rightarrow> exn + bytes" where
  "putUint16 v buf = (if 0 \<le> v \<and> v < 65536 then Inr (buf @ u16le (nat v)) else Inl range_error)"

definition putUint32 :: "int \<Rightarrow> bytes \<Rightarrow> exn + bytes" where
  "putUint32 v buf = (if 0 \<le> v \<and> v < 4294967296 then Inr (buf @ u32le (nat v)) else Inl range_error)"

definition putBytes :: "bytes \<Rightarrow> bytes \<Rightarrow> exn + bytes" where
  "putBytes bs buf = Inr (buf @ bs)"

definition putString :: "string \<Rightarrow> bytes \<Rightarrow> exn + bytes" where
  "putString s buf = bind_sum (putUint16 (int (length (utf8 s))) buf) (putBytes (utf8 s))"

section \<open>Tokens\<close>

datatype service =
    ServiceRtc (privileges: "(int \<times> int) list") string int
  | ServiceRtm (privileges: "(int \<times> int) list") string

fun serviceType :: "service \<Rightarrow> int" where
  "serviceType (ServiceRtc _ _ _) = 1"
| "serviceType (ServiceRtm _ _) = 2"

fun addPrivilege :: "int \<Rightarrow> int \<Rightarrow> service \<Rightarrow> service" where
  "addPrivilege p e (ServiceRtc ps c u) = ServiceRtc (AList.update p e ps) c u"
| "addPrivilege p e (ServiceRtm ps u) = ServiceRtm (AList.update p e ps) u"

fun packData :: "service \<Rightarrow> bytes \<Rightarrow> exn + bytes" where
  "packData (ServiceRtc _ channelName uid) buf = bind_sum (putString channelName buf) (putString (show_int uid))"
| "packData (ServiceRtm _ userId) buf = putString userId buf"

fun packPrivileges :: "(int \<times> int) list \<Rightarrow> bytes \<Rightarrow> exn + bytes" where
  "packPrivileges [] buf = Inr buf"
| "packPrivileges ((p, e) # ps) buf =
    bind_sum (putUint16 p buf) (\<lambda>b. bind_sum (putUint32 e b) (packPrivileges ps))"

definition service_pack :: "service \<Rightarrow> bytes \<Rightarrow> exn + bytes" where
  "service_pack s buf =
    bind_sum (putUint16 (serviceType s) buf) (\<lambda>b.
    bind_sum (packData s b) (\<lambda>b.
    bind_sum (putUint16 (int (length (privileges s))) b) (packPrivileges (privileges s))))"

fun pack_all :: "service list \<Rightarrow> bytes \<Rightarrow> exn + bytes" where
  "pack_all [] buf = Inr buf"
| "pack_all (s # ss) buf = bind_sum (service_pack s buf) (pack_all ss)"

record access_token =
  tk_appId :: string
  tk_appCertificate :: string
  tk_expire :: int
  tk_issueTs :: int
  tk_salt :: int
  tk_services :: "service list"

text \<open>\<open>services\<close> is a map from the type: a service replaces one of the same type.\<close>

definition addService :: "service \<Rightarrow> access_token \<Rightarrow> access_token" where
  "addService s tok = tok\<lparr>tk_services :=
     (if serviceType s \<in> serviceType ` set (tk_services tok)
      then map (\<lambda>x. if serviceType x = serviceType s then s else x) (tk_services tok)
      else tk_services tok @ [s])\<rparr>"

definition token_head :: "access_token \<Rightarrow> bytes \<Rightarrow> exn + bytes" where
  "token_head tok buf =
    bind_sum (putString (tk_appId tok) buf) (\<lambda>b.
    bind_sum (putUint32 (tk_issueTs tok) b) (\<lambda>b.
    bind_sum (putUint32 (tk_expire tok) b) (putUint32 (tk_salt tok))))"

definition token_services :: "access_token \<Rightarrow> bytes \<Rightarrow> exn + bytes" where
  "token_services tok buf =
    bind_sum (putUint16 (int (length (tk_services tok))) buf) (pack_all (tk_services tok))"

text \<open>\<open>toString('base64')\<close>.\<close>

definition base64_digit :: "nat \<Rightarrow> char" where
  "base64_digit d = char_of (if d < 26 then 65 + d else if d < 52 then 71 + d
     else if d < 62 then d - 4 else if d = 62 then 43 else 47)"

fun base64 :: "bytes \<Rightarrow> string" where
  "base64 [] = []"
| "base64 [a] = (let n = unat a * 65536 in [base64_digit (n div 262144 mod 64), base64_digit (n div 4096 mod 64),
     CHR ''='', CHR ''=''])"
| "base64 [a, b] = (let n = unat a * 65536 + unat b * 256 in [base64_digit (n div 262144 mod 64),
     base64_digit (n div 4096 mod 64), base64_digit (n div 64 mod 64), CHR ''=''])"
| "base64 (a # b # c # bs) = (let n = unat a * 65536 + unat b * 256 + unat c in
     base64_digit (n div 262144 mod 64) # base64_digit (n div 4096 mod 64) #
     base64_digit (n div 64 mod 64) # base64_digit (n mod 64) # base64 bs)"

text \<open>\<open>AccessToken2.build\<close>; \<open>token_content\<close> is its buffer \<open>content\<close>.\<close>

definition token_content :: "('r, 'd) env \<Rightarrow> access_token \<Rightarrow> exn + bytes" where
  "token_content E tok =
    bind_sum (token_head tok []) (\<lambda>head. bind_sum (token_services tok head) (\<lambda>signing.
      let signature = hmac_sha256 E (tk_appCertificate tok) signing
      in bind_sum (token_head tok []) (\<lambda>b. bind_sum (putBytes signature b) (token_services tok))))"

definition token_build :: "('r, 'd) env \<Rightarrow> access_token \<Rightarrow> exn + string" where
  "token_build E tok = bind_sum (token_content E tok) (\<lambda>content. Inr (''007'' @ base64 content))"

text \<open>The constructor takes the time and a random salt.\<close>

definition new_AccessToken2 ::
  "('r, 'd) env \<Rightarrow> string \<Rightarrow> string \<Rightarrow> int \<Rightarrow> (('r, 'd) world, access_token) prog" where
  "new_AccessToken2 E appId appCertificate expire = do {
     now \<leftarrow> date_now;
     salt \<leftarrow> State (\<lambda>w. (random_salt E (uuids w), w\<lparr>uuids := Suc (uuids w)\<rparr>));
     ret \<lparr>tk_appId = appId, tk_appCertificate = appCertificate, tk_expire = expire,
       tk_issueTs = now div 1000, tk_salt = int salt, tk_services = []\<rparr> }"

definition buildRtcToken :: "('r, 'd) env \<Rightarrow> string \<Rightarrow> string \<Rightarrow> string \<Rightarrow> int \<Rightarrow> int \<Rightarrow> int \<Rightarrow>
  (('r, 'd) world, string) fprog" where
  "buildRtcToken E appId appCertificate channelName uid expireTs ttlSeconds = do {
     tok \<leftarrow> new_AccessToken2 E appId appCertificate ttlSeconds;
     ret (token_build E (addService (addPrivilege 1 expireTs (ServiceRtc [] channelName uid)) tok)) }"

definition buildRtmToken :: "('r, 'd) env \<Rightarrow> string \<Rightarrow> string \<Rightarrow> string \<Rightarrow> int \<Rightarrow> int \<Rightarrow>
  (('r, 'd) world, string) fprog" where
  "buildRtmToken E appId appCertificate userId expireTs ttlSeconds = do {
     tok \<leftarrow> new_AccessToken2 E appId appCertificate ttlSeconds;
     ret (token_build E (addService (addPrivilege 1 expireTs (ServiceRtm [] userId)) tok)) }"

section \<open>The service\<close>

record user_tokens =
  ut_rtcToken :: string
  ut_rtmToken :: string
  ut_rtcUid :: int
  ut_rtmUserId :: string

record agora_tokens =
  ag_channelName :: string
  ag_expiresAt :: int
  ag_byUser :: "(string \<times> user_tokens) list"

definition buildChannelName :: "string \<Rightarrow> string" where
  "buildChannelName sessionId = ''session_'' @ sessionId"

definition getRequiredEnv :: "('r, 'd) env \<Rightarrow> string \<Rightarrow> exn + string" where
  "getRequiredEnv E key = (case env_var E key of
      Some v \<Rightarrow> if v = [] then Inl (JsError (key @ '' is required for Agora token generation'')) else Inr v
    | None \<Rightarrow> Inl (JsError (key @ '' is required for Agora token generation'')))"

definition getTokenTtlSeconds :: "('r, 'd) env \<Rightarrow> int" where
  "getTokenTtlSeconds E =
    (case parseInt (case env_var E ''AGORA_TOKEN_TTL_SECONDS'' of None \<Rightarrow> [] | Some v \<Rightarrow> v) of
       Fin value \<Rightarrow> if 0 < value then value else 60
     | _ \<Rightarrow> 60)"

text \<open>\<open>Number.parseInt(hex, 16)\<close> on a string of hexadecimal digits.\<close>

definition parse_hex :: "string \<Rightarrow> int" where
  "parse_hex s = foldl (\<lambda>a c. 16 * a + (case hex_value c of None \<Rightarrow> 0 | Some d \<Rightarrow> int d)) 0 s"

definition hashToUid :: "('r, 'd) env \<Rightarrow> string \<Rightarrow> int" where
  "hashToUid E userId = (let uid = parse_hex (take 8 (sha256_hex E userId)) in if uid = 0 then 1 else uid)"

definition user_entry :: "('r, 'd) env \<Rightarrow> string \<Rightarrow> string \<Rightarrow> string \<Rightarrow> int \<Rightarrow> int \<Rightarrow> string \<Rightarrow>
  (('r, 'd) world, user_tokens) fprog" where
  "user_entry E appId appCertificate channelName expireTs ttlSeconds userId =
    (let rtcUid = hashToUid E userId in
     andThen (buildRtcToken E appId appCertificate channelName rtcUid expireTs ttlSeconds) (\<lambda>rtcToken.
     andThen (buildRtmToken E appId appCertificate userId expireTs ttlSeconds) (\<lambda>rtmToken.
     ok \<lparr>ut_rtcToken = rtcToken, ut_rtmToken = rtmToken, ut_rtcUid = rtcUid, ut_rtmUserId = userId\<rparr>)))"

fun user_entries :: "(string \<Rightarrow> (('r, 'd) world, user_tokens) fprog) \<Rightarrow> string list \<Rightarrow>
  (string \<times> user_tokens) list \<Rightarrow> (('r, 'd) world, (string \<times> user_tokens) list) fprog" where
  "user_entries build [] byUser = ok byUser"
| "user_entries build (u # us) byUser =
    andThen (build u) (\<lambda>t. user_entries build us (AList.update u t byUser))"

text \<open>The first user's stream is watched (\<open>ModerationService.startStreamMonitoring\<close>).\<close>

definition startMonitoring ::
  "string \<Rightarrow> string \<Rightarrow> string list \<Rightarrow> (string \<times> user_tokens) list \<Rightarrow> (('r, 'd) world, unit) prog" where
  "startMonitoring sessionId channelName userIds byUser =
    (case userIds of
       firstUser # _ \<Rightarrow>
         (case map_of byUser firstUser of
            Some t \<Rightarrow> if firstUser \<noteq> []
              then emit (Monitor sessionId channelName (ut_rtcToken t) (ut_rtcUid t)) else ret ()
          | None \<Rightarrow> ret ())
     | [] \<Rightarrow> ret ())"

definition buildSessionTokens ::
  "('r, 'd) env \<Rightarrow> string \<Rightarrow> string list \<Rightarrow> (('r, 'd) world, agora_tokens) fprog" where
  "buildSessionTokens E sessionId userIds =
    andThen (ret (getRequiredEnv E ''AGORA_APP_ID'')) (\<lambda>appId.
    andThen (ret (getRequiredEnv E ''AGORA_APP_CERTIFICATE'')) (\<lambda>appCertificate. do {
      now \<leftarrow> date_now;
      let ttlSeconds = getTokenTtlSeconds E;
      let channelName = buildChannelName sessionId;
      let expiresAt = now + ttlSeconds * 1000;
      let expireTs = expiresAt div 1000;
      andThen (user_entries (user_entry E appId appCertificate channelName expireTs ttlSeconds) userIds [])
        (\<lambda>byUser. do {
          startMonitoring sessionId channelName userIds byUser;
          ok \<lparr>ag_channelName = channelName, ag_expiresAt = expiresAt, ag_byUser = byUser\<rparr> }) }))"

section \<open>The layout\<close>

text \<open>What each method appends, when it does not throw.\<close>

definition enc_string :: "string \<Rightarrow> bytes" where
  "enc_string s = u16le (length (utf8 s)) @ utf8 s"

fun service_data :: "service \<Rightarrow> string list" where
  "service_data (ServiceRtc _ channelName uid) = [channelName, show_int uid]"
| "service_data (ServiceRtm _ userId) = [userId]"

definition enc_service :: "service \<Rightarrow> bytes" where
  "enc_service s = u16le (nat (serviceType s)) @ concat (map enc_string (service_data s)) @
     u16le (length (privileges s)) @ concat (map (\<lambda>(p, e). u16le (nat p) @ u32le (nat e)) (privileges s))"

definition string_fits :: "string \<Rightarrow> bool" where
  "string_fits s \<longleftrightarrow> length (utf8 s) < 65536"

definition service_fits :: "service \<Rightarrow> bool" where
  "service_fits s \<longleftrightarrow> list_all string_fits (service_data s) \<and> length (privileges s) < 65536 \<and>
     list_all (\<lambda>(p, e). 0 \<le> p \<and> p < 65536 \<and> 0 \<le> e \<and> e < 4294967296) (privileges s)"

definition token_fits :: "access_token \<Rightarrow> bool" where
  "token_fits tok \<longleftrightarrow> string_fits (tk_appId tok) \<and> 0 \<le> tk_issueTs tok \<and> tk_issueTs tok < 4294967296 \<and>
     0 \<le> tk_expire tok \<and> tk_expire tok < 4294967296 \<and> 0 \<le> tk_salt tok \<and> tk_salt tok < 4294967296 \<and>
     length (tk_services tok) < 65536 \<and> list_all service_fits (tk_services tok)"

definition enc_head :: "access_token \<Rightarrow> bytes" where
  "enc_head tok = enc_string (tk_appId tok) @ u32le (nat (tk_issueTs tok)) @ u32le (nat (tk_expire tok)) @
     u32le (nat (tk_salt tok))"

definition enc_services :: "access_token \<Rightarrow> bytes" where
  "enc_services tok = u16le (length (tk_services tok)) @ concat (map enc_service (tk_services tok))"

lemma putString_eq:
  "putString s buf = (if string_fits s then Inr (buf @ enc_string s) else Inl range_error)"
  by (simp add: putString_def putUint16_def putBytes_def string_fits_def enc_string_def)

lemma packData_eq:
  "packData s buf = (if list_all string_fits (service_data s)
     then Inr (buf @ concat (map enc_string (service_data s))) else Inl range_error)"
  by (cases s) (simp_all add: putString_eq)

lemma packPrivileges_eq:
  "packPrivileges ps buf = (if list_all (\<lambda>(p, e). 0 \<le> p \<and> p < 65536 \<and> 0 \<le> e \<and> e < 4294967296) ps
     then Inr (buf @ concat (map (\<lambda>(p, e). u16le (nat p) @ u32le (nat e)) ps)) else Inl range_error)"
  by (induction ps arbitrary: buf) (auto simp: putUint16_def putUint32_def split: if_splits)

lemma service_pack_eq:
  "service_pack s buf = (if service_fits s then Inr (buf @ enc_service s) else Inl range_error)"
  by (cases s) (auto simp: service_pack_def packData_eq packPrivileges_eq putUint16_def service_fits_def enc_service_def)

lemma pack_all_eq:
  "pack_all ss buf = (if list_all service_fits ss then Inr (buf @ concat (map enc_service ss)) else Inl range_error)"
  by (induction ss arbitrary: buf) (auto simp: service_pack_eq)

lemma token_content_eq:
  "token_content E tok = (if token_fits tok
     then Inr (enc_head tok @ hmac_sha256 E (tk_appCertificate tok) (enc_head tok @ enc_services tok) @ enc_services tok)
     else Inl range_error)"
  by (auto simp: token_content_def token_head_def token_services_def putString_eq putUint32_def putUint16_def
      pack_all_eq putBytes_def token_fits_def enc_head_def enc_services_def Let_def)

section \<open>A reader of the layout\<close>

fun get16 :: "bytes \<Rightarrow> (nat \<times> bytes) option" where
  "get16 (a # b # bs) = Some (unat a + 256 * unat b, bs)"
| "get16 _ = None"

fun get32 :: "bytes \<Rightarrow> (nat \<times> bytes) option" where
  "get32 (a # b # c # d # bs) = Some (unat a + 256 * unat b + 65536 * unat c + 16777216 * unat d, bs)"
| "get32 _ = None"

definition get_bytes :: "nat \<Rightarrow> bytes \<Rightarrow> (bytes \<times> bytes) option" where
  "get_bytes n bs = (if n \<le> length bs then Some (take n bs, drop n bs) else None)"

definition get_string :: "bytes \<Rightarrow> (bytes \<times> bytes) option" where
  "get_string bs = do { (n, bs) \<leftarrow> get16 bs; get_bytes n bs }"

fun get_many :: "(bytes \<Rightarrow> ('a \<times> bytes) option) \<Rightarrow> nat \<Rightarrow> bytes \<Rightarrow> ('a list \<times> bytes) option" where
  "get_many g 0 bs = Some ([], bs)"
| "get_many g (Suc n) bs = do { (x, bs) \<leftarrow> g bs; (xs, bs) \<leftarrow> get_many g n bs; Some (x # xs, bs) }"

definition get_privilege :: "bytes \<Rightarrow> ((nat \<times> nat) \<times> bytes) option" where
  "get_privilege bs = do { (p, bs) \<leftarrow> get16 bs; (e, bs) \<leftarrow> get32 bs; Some ((p, e), bs) }"

text \<open>Type, data strings (two for RTC, one for RTM), privileges.\<close>

definition get_service :: "bytes \<Rightarrow> ((nat \<times> bytes list \<times> (nat \<times> nat) list) \<times> bytes) option" where
  "get_service bs = do {
     (ty, bs) \<leftarrow> get16 bs;
     (ds, bs) \<leftarrow> get_many get_string (if ty = 1 then 2 else 1) bs;
     (n, bs) \<leftarrow> get16 bs;
     (ps, bs) \<leftarrow> get_many get_privilege n bs;
     Some ((ty, ds, ps), bs) }"

record decoded_token =
  dt_appId :: bytes
  dt_issueTs :: nat
  dt_expire :: nat
  dt_salt :: nat
  dt_signature :: bytes
  dt_services :: "(nat \<times> bytes list \<times> (nat \<times> nat) list) list"

definition decode_content :: "bytes \<Rightarrow> decoded_token option" where
  "decode_content bs = do {
     (appId, bs) \<leftarrow> get_string bs;
     (issueTs, bs) \<leftarrow> get32 bs;
     (expire, bs) \<leftarrow> get32 bs;
     (salt, bs) \<leftarrow> get32 bs;
     (signature, bs) \<leftarrow> get_bytes 32 bs;
     (n, bs) \<leftarrow> get16 bs;
     (services, bs) \<leftarrow> get_many get_service n bs;
     if bs = [] then Some \<lparr>dt_appId = appId, dt_issueTs = issueTs, dt_expire = expire, dt_salt = salt,
       dt_signature = signature, dt_services = services\<rparr> else None }"

lemma unat_byte: "unat (of_nat n :: 8 word) = n mod 256"
  by (simp add: unat_of_nat)

lemma get16_u16le [simp]:
  assumes "n < 65536"
  shows "get16 (u16le n @ bs) = Some (n, bs)"
proof -
  have "n div 256 mod 256 = n div 256"
    using assms by simp
  then show ?thesis
    using div_mult_mod_eq [of n 256] by (simp add: u16le_def unat_byte)
qed

lemma get32_u32le [simp]:
  assumes "n < 4294967296"
  shows "get32 (u32le n @ bs) = Some (n, bs)"
proof -
  have "n div 65536 = n div 256 div 256" "n div 16777216 = n div 256 div 256 div 256"
    by (simp_all flip: div_mult2_eq)
  moreover have "n div 256 div 256 div 256 mod 256 = n div 256 div 256 div 256"
    using assms by simp
  moreover have "n = 256 * a + r0 \<Longrightarrow> a = 256 * b + r1 \<Longrightarrow> b = 256 * c + r2 \<Longrightarrow>
      r0 + 256 * r1 + 65536 * r2 + 16777216 * c = n" for a b c r0 r1 r2
    by simp
  from this [of "n div 256" "n mod 256" "n div 256 div 256" "n div 256 mod 256"
      "n div 256 div 256 div 256" "n div 256 div 256 mod 256"]
  have "n mod 256 + 256 * (n div 256 mod 256) + 65536 * (n div 256 div 256 mod 256) +
      16777216 * (n div 256 div 256 div 256) = n"
    by simp
  ultimately show ?thesis
    by (simp only: u32le_def unat_byte get32.simps append_Cons append_Nil)
qed

lemma get_string_enc [simp]: "string_fits s \<Longrightarrow> get_string (enc_string s @ bs) = Some (utf8 s, bs)"
  by (simp add: get_string_def enc_string_def string_fits_def get_bytes_def)

lemma get_many_concat:
  assumes "\<And>x bs. x \<in> set xs \<Longrightarrow> g (enc x @ bs) = Some (dec x, bs)"
  shows "get_many g (length xs) (concat (map enc xs) @ bs) = Some (map dec xs, bs)"
  using assms by (induction xs) auto

definition dec_service :: "service \<Rightarrow> nat \<times> bytes list \<times> (nat \<times> nat) list" where
  "dec_service s = (nat (serviceType s), map utf8 (service_data s), map (\<lambda>(p, e). (nat p, nat e)) (privileges s))"

lemma get_privileges:
  assumes "list_all (\<lambda>(p, e). 0 \<le> p \<and> p < 65536 \<and> 0 \<le> e \<and> e < (4294967296 :: int)) ps"
  shows "get_many get_privilege (length ps) (concat (map (\<lambda>(p, e). u16le (nat p) @ u32le (nat e)) ps) @ bs) =
    Some (map (\<lambda>(p, e). (nat p, nat e)) ps, bs)"
  using assms by (intro get_many_concat) (auto simp: get_privilege_def list_all_iff)

lemma get_service_enc [simp]:
  assumes "service_fits s"
  shows "get_service (enc_service s @ bs) = Some (dec_service s, bs)"
proof -
  have ty: "nat (serviceType s) < 65536" "length (service_data s) = (if nat (serviceType s) = 1 then 2 else 1)"
    by (cases s; simp)+
  have d: "get_many get_string (length (service_data s)) (concat (map enc_string (service_data s)) @ c) =
    Some (map utf8 (service_data s), c)" for c
    using assms by (intro get_many_concat) (simp add: service_fits_def list_all_iff)
  show ?thesis
    using assms ty(1) d unfolding ty(2)
    by (simp add: get_service_def enc_service_def service_fits_def dec_service_def get_privileges)
qed

text \<open>
  A reader of the content finds the fields of the token, and a signature of everything else
  in it.
\<close>

lemma decode_token_content:
  assumes "token_content E tok = Inr content" and "\<And>k m. length (hmac_sha256 E k m) = 32"
  shows "\<exists>head services. content = head @ hmac_sha256 E (tk_appCertificate tok) (head @ services) @ services \<and>
    decode_content content = Some \<lparr>dt_appId = utf8 (tk_appId tok), dt_issueTs = nat (tk_issueTs tok),
      dt_expire = nat (tk_expire tok), dt_salt = nat (tk_salt tok),
      dt_signature = hmac_sha256 E (tk_appCertificate tok) (head @ services),
      dt_services = map dec_service (tk_services tok)\<rparr>"
proof -
  have fits: "token_fits tok" and c: "content = enc_head tok @
      hmac_sha256 E (tk_appCertificate tok) (enc_head tok @ enc_services tok) @ enc_services tok"
    using assms(1) by (auto simp: token_content_eq split: if_splits)
  have svs: "get_many get_service (length (tk_services tok)) (concat (map enc_service (tk_services tok))) =
      Some (map dec_service (tk_services tok), [])"
    using fits get_many_concat [of "tk_services tok" get_service enc_service dec_service "[]"]
    by (simp add: token_fits_def list_all_iff)
  have "get_bytes 32 (hmac_sha256 E k m @ r) = Some (hmac_sha256 E k m, r)" for k m r
    by (simp add: get_bytes_def assms(2))
  then have "decode_content content = Some \<lparr>dt_appId = utf8 (tk_appId tok), dt_issueTs = nat (tk_issueTs tok),
      dt_expire = nat (tk_expire tok), dt_salt = nat (tk_salt tok),
      dt_signature = hmac_sha256 E (tk_appCertificate tok) (enc_head tok @ enc_services tok),
      dt_services = map dec_service (tk_services tok)\<rparr>"
    using fits svs unfolding c
    by (simp add: decode_content_def enc_head_def enc_services_def token_fits_def nat_less_iff)
  with c show ?thesis by blast
qed

section \<open>What \<open>buildSessionTokens\<close> returns\<close>

text \<open>A handler that reads the clock and the random source and emits effects, and leaves the
  stores and the timers alone.\<close>

definition same_stores :: "('r, 'd) world \<Rightarrow> ('r, 'd) world \<Rightarrow> bool" where
  "same_stores w w' \<longleftrightarrow> rds w' = rds w \<and> db w' = db w \<and> clock w' = clock w \<and>
     endTimers w' = endTimers w \<and> choiceTimers w' = choiceTimers w"

lemma same_stores_refl [simp]: "same_stores w w"
  by (simp add: same_stores_def)

lemma same_stores_trans: "same_stores w v \<Longrightarrow> same_stores v u \<Longrightarrow> same_stores w u"
  by (simp add: same_stores_def)

lemma same_stores_D:
  assumes "same_stores w w'"
  shows "rds w' = rds w" "db w' = db w" "clock w' = clock w" "endTimers w' = endTimers w"
    "choiceTimers w' = choiceTimers w"
  using assms by (simp_all add: same_stores_def)

lemma run_startMonitoring:
  "same_stores w (snd (run_state (startMonitoring sid ch us byUser) w))"
  by (auto simp: startMonitoring_def run same_stores_def split: list.splits option.splits)

lemma parse_hex_bounds:
  assumes "list_all (\<lambda>c. hex_value c \<noteq> None) s"
  shows "0 \<le> parse_hex s \<and> parse_hex s < 16 ^ length s"
  using assms
proof (induction s rule: rev_induct)
  case Nil
  then show ?case by (simp add: parse_hex_def)
next
  case (snoc c s)
  then obtain d where d: "hex_value c = Some d" by auto
  then have "d < 16"
    by (auto simp: hex_value_def Let_def split: if_splits)
  with snoc d show ?case
    by (auto simp: parse_hex_def)
qed

text \<open>The token of one service: version, then a content that the reader above understands.\<close>

definition token_of :: "('r, 'd) env \<Rightarrow> string \<Rightarrow> string \<Rightarrow> int \<Rightarrow> int \<Rightarrow> int \<Rightarrow> service \<Rightarrow> access_token" where
  "token_of E appId cert expire issueTs salt s =
    \<lparr>tk_appId = appId, tk_appCertificate = cert, tk_expire = expire, tk_issueTs = issueTs,
      tk_salt = salt, tk_services = [s]\<rparr>"

definition rtc_service :: "string \<Rightarrow> int \<Rightarrow> int \<Rightarrow> service" where
  "rtc_service channelName uid expireTs = ServiceRtc [(1, expireTs)] channelName uid"

definition rtm_service :: "string \<Rightarrow> int \<Rightarrow> service" where
  "rtm_service userId expireTs = ServiceRtm [(1, expireTs)] userId"

lemma run_buildRtcToken [run]:
  "run_state (buildRtcToken E appId cert channelName uid expireTs ttl) w =
    (token_build E (token_of E appId cert ttl (clock w div 1000) (int (random_salt E (uuids w)))
       (rtc_service channelName uid expireTs)), w\<lparr>uuids := Suc (uuids w)\<rparr>)"
  by (simp add: buildRtcToken_def new_AccessToken2_def run addService_def token_of_def rtc_service_def)

lemma run_buildRtmToken [run]:
  "run_state (buildRtmToken E appId cert userId expireTs ttl) w =
    (token_build E (token_of E appId cert ttl (clock w div 1000) (int (random_salt E (uuids w)))
       (rtm_service userId expireTs)), w\<lparr>uuids := Suc (uuids w)\<rparr>)"
  by (simp add: buildRtmToken_def new_AccessToken2_def run addService_def token_of_def rtm_service_def)

definition entry_ok :: "('r, 'd) env \<Rightarrow> string \<Rightarrow> string \<Rightarrow> string \<Rightarrow> int \<Rightarrow> int \<Rightarrow> int \<Rightarrow> string \<Rightarrow> user_tokens \<Rightarrow> bool" where
  "entry_ok E appId cert channelName now expireTs ttl userId t \<longleftrightarrow>
     ut_rtmUserId t = userId \<and> ut_rtcUid t = hashToUid E userId \<and>
     (\<exists>m n. token_build E (token_of E appId cert ttl (now div 1000) (int (random_salt E m))
          (rtc_service channelName (hashToUid E userId) expireTs)) = Inr (ut_rtcToken t) \<and>
       token_build E (token_of E appId cert ttl (now div 1000) (int (random_salt E n))
          (rtm_service userId expireTs)) = Inr (ut_rtmToken t))"

lemma user_entry_run:
  assumes "run_state (user_entry E appId cert channelName expireTs ttl userId) w = (x, w')"
  shows "same_stores w w' \<and> trace w' = trace w \<and>
    (\<forall>t. x = Inr t \<longrightarrow> entry_ok E appId cert channelName (clock w) expireTs ttl userId t)"
  using assms
  by (auto simp: user_entry_def run Let_def entry_ok_def same_stores_def split: sum.splits prod.splits)

lemma user_entries_run:
  assumes "run_state (user_entries (user_entry E appId cert channelName expireTs ttl) us acc) w = (x, w')"
    and "\<forall>(u, t) \<in> set acc. entry_ok E appId cert channelName (clock w) expireTs ttl u t"
    and "distinct (map fst acc)"
  shows "same_stores w w' \<and> trace w' = trace w \<and>
    (\<forall>byUser. x = Inr byUser \<longrightarrow> distinct (map fst byUser) \<and> fst ` set byUser = fst ` set acc \<union> set us \<and>
      (\<forall>(u, t) \<in> set byUser. entry_ok E appId cert channelName (clock w) expireTs ttl u t))"
  using assms
proof (induction us arbitrary: acc w)
  case Nil
  then show ?case by (auto simp: run)
next
  case (Cons u us)
  let ?build = "user_entry E appId cert channelName expireTs ttl"
  obtain y w1 where y: "run_state (?build u) w = (y, w1)" by (cases "run_state (?build u) w")
  note u = user_entry_run [OF y]
  show ?case
  proof (cases y)
    case (Inl e)
    then show ?thesis using Cons.prems(1) y u by (auto simp: run)
  next
    case (Inr t)
    have "clock w1 = clock w" using u by (simp add: same_stores_def)
    moreover have "\<forall>(v, s) \<in> set (AList.update u t acc). entry_ok E appId cert channelName (clock w) expireTs ttl v s"
    proof -
      have "set (AList.update u t acc) \<subseteq> insert (u, t) (set acc)"
        by (induction acc) auto
      then show ?thesis using Cons.prems(2) u Inr by auto
    qed
    moreover have "distinct (map fst (AList.update u t acc))"
      using Cons.prems(3) by (simp add: distinct_update)
    moreover have "run_state (user_entries ?build us (AList.update u t acc)) w1 = (x, w')"
      using Cons.prems(1) y Inr by (simp add: run)
    ultimately have "same_stores w1 w' \<and> trace w' = trace w1 \<and>
      (\<forall>byUser. x = Inr byUser \<longrightarrow> distinct (map fst byUser) \<and>
        fst ` set byUser = fst ` set (AList.update u t acc) \<union> set us \<and>
        (\<forall>(v, s) \<in> set byUser. entry_ok E appId cert channelName (clock w) expireTs ttl v s))"
      using Cons.IH [of "AList.update u t acc" w1] by simp
    moreover have "fst ` set (AList.update u t acc) = insert u (fst ` set acc)"
      using dom_update [of u t acc] by simp
    ultimately show ?thesis
      using u same_stores_trans by auto
  qed
qed

lemma buildSessionTokens_run:
  assumes "run_state (buildSessionTokens E sid us) w = (x, w')"
  shows "same_stores w w'"
    and "x = Inr tokens \<Longrightarrow> \<exists>appId cert.
      env_var E ''AGORA_APP_ID'' = Some appId \<and> env_var E ''AGORA_APP_CERTIFICATE'' = Some cert \<and>
      ag_channelName tokens = ''session_'' @ sid \<and>
      ag_expiresAt tokens = clock w + getTokenTtlSeconds E * 1000 \<and>
      distinct (map fst (ag_byUser tokens)) \<and> fst ` set (ag_byUser tokens) = set us \<and>
      (\<forall>(u, t) \<in> set (ag_byUser tokens). entry_ok E appId cert (''session_'' @ sid) (clock w)
         ((clock w + getTokenTtlSeconds E * 1000) div 1000) (getTokenTtlSeconds E) u t)"
proof -
  let ?ttl = "getTokenTtlSeconds E"
  let ?exp = "(clock w + ?ttl * 1000) div 1000"
  have "same_stores w w' \<and> (\<forall>tokens. x = Inr tokens \<longrightarrow> (\<exists>appId cert.
      env_var E ''AGORA_APP_ID'' = Some appId \<and> env_var E ''AGORA_APP_CERTIFICATE'' = Some cert \<and>
      ag_channelName tokens = ''session_'' @ sid \<and>
      ag_expiresAt tokens = clock w + ?ttl * 1000 \<and>
      distinct (map fst (ag_byUser tokens)) \<and> fst ` set (ag_byUser tokens) = set us \<and>
      (\<forall>(u, t) \<in> set (ag_byUser tokens). entry_ok E appId cert (''session_'' @ sid) (clock w) ?exp ?ttl u t)))"
  proof (cases "getRequiredEnv E ''AGORA_APP_ID''")
    case (Inl e)
    then show ?thesis using assms by (auto simp: buildSessionTokens_def run)
  next
    case appId: (Inr appId)
    show ?thesis
    proof (cases "getRequiredEnv E ''AGORA_APP_CERTIFICATE''")
      case (Inl e)
      then show ?thesis using assms appId by (auto simp: buildSessionTokens_def run)
    next
      case cert: (Inr cert)
      have vars: "env_var E ''AGORA_APP_ID'' = Some appId" "env_var E ''AGORA_APP_CERTIFICATE'' = Some cert"
        using appId cert by (auto simp: getRequiredEnv_def split: option.splits if_splits)
      obtain y w1 where y: "run_state (user_entries (user_entry E appId cert (''session_'' @ sid) ?exp ?ttl) us []) w = (y, w1)"
        by (cases "run_state (user_entries (user_entry E appId cert (''session_'' @ sid) ?exp ?ttl) us []) w")
      note us = user_entries_run [OF y]
      show ?thesis
      proof (cases y)
        case (Inl e)
        then show ?thesis using assms appId cert y us by (auto simp: buildSessionTokens_def run buildChannelName_def)
      next
        case (Inr byUser)
        have "same_stores w1 w' \<and> x = Inr \<lparr>ag_channelName = ''session_'' @ sid,
            ag_expiresAt = clock w + ?ttl * 1000, ag_byUser = byUser\<rparr>"
          using assms appId cert y Inr run_startMonitoring [of w1]
          by (auto simp: buildSessionTokens_def run buildChannelName_def Let_def case_prod_beta)
        then show ?thesis using us Inr vars same_stores_trans by auto
      qed
    qed
  qed
  then show "same_stores w w'"
    and "x = Inr tokens \<Longrightarrow> \<exists>appId cert.
      env_var E ''AGORA_APP_ID'' = Some appId \<and> env_var E ''AGORA_APP_CERTIFICATE'' = Some cert \<and>
      ag_channelName tokens = ''session_'' @ sid \<and>
      ag_expiresAt tokens = clock w + getTokenTtlSeconds E * 1000 \<and>
      distinct (map fst (ag_byUser tokens)) \<and> fst ` set (ag_byUser tokens) = set us \<and>
      (\<forall>(u, t) \<in> set (ag_byUser tokens). entry_ok E appId cert (''session_'' @ sid) (clock w)
         ((clock w + getTokenTtlSeconds E * 1000) div 1000) (getTokenTtlSeconds E) u t)"
    by blast+
qed

context backend
begin

lemma hashToUid_bounds: "1 \<le> hashToUid E u \<and> hashToUid E u < 4294967296"
proof -
  have "list_all (\<lambda>c. hex_value c \<noteq> None) (take 8 (sha256_hex E u))"
    using sha256_digits [of u] by (metis append_take_drop_id list_all_append)
  then have "0 \<le> parse_hex (take 8 (sha256_hex E u)) \<and> parse_hex (take 8 (sha256_hex E u)) < 16 ^ 8"
    using parse_hex_bounds [of "take 8 (sha256_hex E u)"] by (simp add: sha256_length)
  then show ?thesis by (auto simp: hashToUid_def Let_def)
qed

end

section \<open>Properties\<close>

lemma token_build_decode:
  assumes "token_build E tok = Inr s" and "\<And>k m. length (hmac_sha256 E k m) = 32"
  shows "\<exists>content head services. s = ''007'' @ base64 content \<and>
    content = head @ hmac_sha256 E (tk_appCertificate tok) (head @ services) @ services \<and>
    decode_content content = Some \<lparr>dt_appId = utf8 (tk_appId tok), dt_issueTs = nat (tk_issueTs tok),
      dt_expire = nat (tk_expire tok), dt_salt = nat (tk_salt tok),
      dt_signature = hmac_sha256 E (tk_appCertificate tok) (head @ services),
      dt_services = map dec_service (tk_services tok)\<rparr>"
proof -
  obtain content where c: "token_content E tok = Inr content" and s: "s = ''007'' @ base64 content"
    using assms(1) by (auto simp: token_build_def bind_sum_Inr_iff)
  show ?thesis
    using decode_token_content [OF c assms(2)] s by blast
qed

text \<open>
  When \<open>buildSessionTokens\<close> succeeds, every user of the session gets an RTC token whose
  content decodes to the application, the token lifetime, the user's own non-zero 32-bit uid in
  the channel of this session, and the one privilege (join) that expires when the session's
  tokens do, with an HMAC under the application certificate of everything else in the content.
\<close>

theorem session_rtc_token_decodes:
  assumes "backend E zv sv other view"
    and "run_state (buildSessionTokens E sid users) w = (Inr tokens, w')"
    and "u \<in> set users"
  shows "\<exists>t appId cert content head services d.
    map_of (ag_byUser tokens) u = Some t \<and> 1 \<le> ut_rtcUid t \<and> ut_rtcUid t < 2 ^ 32 \<and>
    env_var E ''AGORA_APP_ID'' = Some appId \<and> env_var E ''AGORA_APP_CERTIFICATE'' = Some cert \<and>
    ut_rtcToken t = ''007'' @ base64 content \<and>
    content = head @ hmac_sha256 E cert (head @ services) @ services \<and>
    decode_content content = Some d \<and> dt_appId d = utf8 appId \<and>
    dt_expire d = nat (getTokenTtlSeconds E) \<and>
    dt_services d = [(1, [utf8 (''session_'' @ sid), utf8 (show_int (ut_rtcUid t))],
      [(1, nat (ag_expiresAt tokens div 1000))])]"
proof -
  let ?exp = "(clock w + getTokenTtlSeconds E * 1000) div 1000"
  obtain appId cert where run:
    "env_var E ''AGORA_APP_ID'' = Some appId" "env_var E ''AGORA_APP_CERTIFICATE'' = Some cert"
    "ag_expiresAt tokens = clock w + getTokenTtlSeconds E * 1000"
    "distinct (map fst (ag_byUser tokens))" "fst ` set (ag_byUser tokens) = set users"
    "\<forall>(v, s) \<in> set (ag_byUser tokens). entry_ok E appId cert (''session_'' @ sid) (clock w) ?exp
       (getTokenTtlSeconds E) v s"
    using buildSessionTokens_run(2) [OF assms(2) refl] by blast
  obtain t where t: "(u, t) \<in> set (ag_byUser tokens)"
    using run(5) assms(3) by force
  then have ok: "entry_ok E appId cert (''session_'' @ sid) (clock w) ?exp (getTokenTtlSeconds E) u t"
    using run(6) by auto
  then obtain m where uid: "ut_rtcUid t = hashToUid E u" and
    build: "token_build E (token_of E appId cert (getTokenTtlSeconds E) (clock w div 1000) (int (random_salt E m))
        (rtc_service (''session_'' @ sid) (hashToUid E u) ?exp)) = Inr (ut_rtcToken t)"
    by (auto simp: entry_ok_def)
  obtain content head services where dec:
    "ut_rtcToken t = ''007'' @ base64 content"
    "content = head @ hmac_sha256 E cert (head @ services) @ services"
    "decode_content content = Some \<lparr>dt_appId = utf8 appId, dt_issueTs = nat (clock w div 1000),
       dt_expire = nat (getTokenTtlSeconds E), dt_salt = nat (int (random_salt E m)),
       dt_signature = hmac_sha256 E cert (head @ services),
       dt_services = [dec_service (rtc_service (''session_'' @ sid) (hashToUid E u) ?exp)]\<rparr>"
    using token_build_decode [OF build backend.hmac_length [OF assms(1)]] by (auto simp: token_of_def)
  have "map_of (ag_byUser tokens) u = Some t"
    using t run(4) by simp
  moreover have "1 \<le> ut_rtcUid t \<and> ut_rtcUid t < 2 ^ 32"
    using backend.hashToUid_bounds [OF assms(1), of u] by (simp add: uid)
  moreover obtain d where "decode_content content = Some d" "dt_appId d = utf8 appId"
    "dt_expire d = nat (getTokenTtlSeconds E)"
    "dt_services d = [(1, [utf8 (''session_'' @ sid), utf8 (show_int (ut_rtcUid t))],
      [(1, nat (ag_expiresAt tokens div 1000))])]"
    using dec(3) by (simp add: dec_service_def rtc_service_def uid run(3))
  ultimately show ?thesis
    using dec(1,2) run(1,2) by blast
qed

lemma small_string_fits: "length s < 32768 \<Longrightarrow> string_fits s"
proof -
  have "length (utf8 s) \<le> 2 * length s"
    by (induction s) (auto simp: utf8_def utf8_char_def Let_def)
  then show "length s < 32768 \<Longrightarrow> string_fits s"
    by (simp add: string_fits_def)
qed

lemma length_show_nat: "n < 10 ^ Suc k \<Longrightarrow> length (show_nat n) \<le> Suc k"
proof (induction k arbitrary: n)
  case 0
  then show ?case by (simp add: show_nat.simps)
next
  case (Suc k)
  show ?case
  proof (cases "n < 10")
    case True
    then show ?thesis by (simp add: show_nat.simps)
  next
    case False
    have "n div 10 < 10 ^ Suc k"
      using Suc.prems by (simp add: less_mult_imp_div_less)
    then have "length (show_nat (n div 10)) \<le> Suc k" by (rule Suc.IH)
    then show ?thesis using False by (subst show_nat.simps) simp
  qed
qed

lemma uid_fits: "0 \<le> u \<Longrightarrow> u < 4294967296 \<Longrightarrow> string_fits (show_int u)"
  using length_show_nat [of "nat u" 9] by (intro small_string_fits) (simp add: show_int_def nat_less_iff)

lemma token_build_fits: "token_fits tok \<Longrightarrow> \<exists>s. token_build E tok = Inr s"
  by (simp add: token_build_def token_content_eq)

lemma user_entry_succeeds:
  assumes "\<And>m. token_fits (token_of E appId cert ttl (clock v div 1000) (int (random_salt E m))
      (rtc_service channelName (hashToUid E u) expireTs))"
    and "\<And>m. token_fits (token_of E appId cert ttl (clock v div 1000) (int (random_salt E m)) (rtm_service u expireTs))"
  shows "\<exists>t v'. run_state (user_entry E appId cert channelName expireTs ttl u) v = (Inr t, v') \<and> clock v' = clock v"
proof -
  obtain s where "token_build E (token_of E appId cert ttl (clock v div 1000) (int (random_salt E (uuids v)))
      (rtc_service channelName (hashToUid E u) expireTs)) = Inr s"
    using token_build_fits [OF assms(1)] by blast
  moreover obtain s' where "token_build E (token_of E appId cert ttl (clock v div 1000)
      (int (random_salt E (Suc (uuids v)))) (rtm_service u expireTs)) = Inr s'"
    using token_build_fits [OF assms(2)] by blast
  ultimately show ?thesis by (simp add: user_entry_def run Let_def)
qed

lemma user_entries_succeed:
  assumes "\<And>u v. u \<in> set us \<Longrightarrow> clock v = clock w \<Longrightarrow> \<exists>t v'. run_state (build u) v = (Inr t, v') \<and> clock v' = clock v"
  shows "\<exists>byUser w'. run_state (user_entries build us acc) w = (Inr byUser, w')"
  using assms
proof (induction us arbitrary: acc w)
  case Nil
  then show ?case by (simp add: run)
next
  case (Cons u us)
  obtain t w1 where t: "run_state (build u) w = (Inr t, w1)" "clock w1 = clock w"
    using Cons.prems [of u w] by auto
  have "\<exists>byUser w'. run_state (user_entries build us (AList.update u t acc)) w1 = (Inr byUser, w')"
    using Cons.prems t(2) by (intro Cons.IH) auto
  then show ?case using t by (simp add: run)
qed

lemma session_tokens_exist:
  assumes "backend E zv sv other view"
    and "env_var E ''AGORA_APP_ID'' = Some appId" "appId \<noteq> []" "string_fits appId"
    and "env_var E ''AGORA_APP_CERTIFICATE'' = Some cert" "cert \<noteq> []"
    and "string_fits (''session_'' @ sid)" and "\<forall>u \<in> set users. string_fits u"
    and "0 \<le> clock w" and "clock w div 1000 + getTokenTtlSeconds E < 2 ^ 32"
  shows "\<exists>tokens w'. run_state (buildSessionTokens E sid users) w = (Inr tokens, w') \<and>
    fst ` set (ag_byUser tokens) = set users \<and> ag_expiresAt tokens = clock w + getTokenTtlSeconds E * 1000"
proof -
  let ?ttl = "getTokenTtlSeconds E"
  let ?exp = "(clock w + ?ttl * 1000) div 1000"
  have ttl: "0 < ?ttl" by (auto simp: getTokenTtlSeconds_def split: jsnum.split)
  have exp: "?exp = clock w div 1000 + ?ttl" by simp
  have salt: "int (random_salt E m) < 4294967296" for m
    using backend.salt_bound [OF assms(1), of m] by simp
  have entry: "\<exists>t v'. run_state (user_entry E appId cert (''session_'' @ sid) ?exp ?ttl u) v = (Inr t, v') \<and> clock v' = clock v"
    if "u \<in> set users" "clock v = clock w" for u and v :: "('a, 'b) world"
  proof -
    have "token_fits (token_of E appId cert ?ttl (clock w div 1000) (int (random_salt E m))
        (rtc_service (''session_'' @ sid) (hashToUid E u) ?exp))" for m
      using assms ttl salt [of m] backend.hashToUid_bounds [OF assms(1), of u]
        pos_imp_zdiv_nonneg_iff [of 1000 "clock w"]
      unfolding exp
      by (simp add: token_fits_def token_of_def rtc_service_def service_fits_def uid_fits)
    moreover have "token_fits (token_of E appId cert ?ttl (clock w div 1000) (int (random_salt E m))
        (rtm_service u ?exp))" for m
      using assms ttl salt [of m] that pos_imp_zdiv_nonneg_iff [of 1000 "clock w"]
      unfolding exp
      by (simp add: token_fits_def token_of_def rtm_service_def service_fits_def)
    ultimately show ?thesis
      using that by (intro user_entry_succeeds) simp_all
  qed
  obtain byUser w1 where
    "run_state (user_entries (user_entry E appId cert (''session_'' @ sid) ?exp ?ttl) users []) w = (Inr byUser, w1)"
    using user_entries_succeed [of users w "user_entry E appId cert (''session_'' @ sid) ?exp ?ttl" "[]"] entry by blast
  then obtain tokens w' where "run_state (buildSessionTokens E sid users) w = (Inr tokens, w')"
    using assms by (auto simp: buildSessionTokens_def run getRequiredEnv_def buildChannelName_def Let_def case_prod_beta)
  then show ?thesis
    using buildSessionTokens_run(2) [OF _ refl] by blast
qed

text \<open>
  \<open>buildSessionTokens\<close> does not fail on a configured server: with the two Agora variables
  set, strings below 64 KiB and an expiry that fits 32 bits, the byte buffers stay in range and
  tokens for all users come back.
\<close>

theorem buildSessionTokens_succeeds:
  assumes "backend E zv sv other view"
    and "env_var E ''AGORA_APP_ID'' = Some appId" "appId \<noteq> []" "string_fits appId"
    and "env_var E ''AGORA_APP_CERTIFICATE'' = Some cert" "cert \<noteq> []"
    and "string_fits (''session_'' @ sid)" and "\<forall>u \<in> set users. string_fits u"
    and "0 \<le> clock w" and "clock w div 1000 + getTokenTtlSeconds E < 2 ^ 32"
  shows "\<exists>tokens w'. run_state (buildSessionTokens E sid users) w = (Inr tokens, w') \<and>
    fst ` set (ag_byUser tokens) = set users \<and> ag_expiresAt tokens = clock w + getTokenTtlSeconds E * 1000"
  by (rule session_tokens_exist [OF assms])

text \<open>Witnesses: a session of two users on the in-memory clients.\<close>

definition agora_vars :: "string \<Rightarrow> string option" where
  "agora_vars = [''AGORA_APP_ID'' \<mapsto> ''app'', ''AGORA_APP_CERTIFICATE'' \<mapsto> ''cert'']"

definition agora_env :: "(inmem, tables) env" where
  "agora_env = test_env_of agora_vars"

lemma agora_backend: "backend agora_env im_zv im_sv im_other (\<lambda>t. t)"
  unfolding agora_env_def by (rule test.backend_axioms)

lemma agora_env_vars:
  "env_var agora_env ''AGORA_APP_ID'' = Some ''app''" "env_var agora_env ''AGORA_APP_CERTIFICATE'' = Some ''cert''"
  "getTokenTtlSeconds agora_env = 60"
  by (simp_all add: getTokenTtlSeconds_def agora_env_def agora_vars_def parseInt_def)

definition noon :: int where
  "noon = 1700000000000"

lemma buildSessionTokens_succeeds_witness:
  "\<exists>tokens w'. run_state (buildSessionTokens agora_env ''s1'' [''a'', ''b'']) (world_of im_empty no_tables noon) =
      (Inr tokens, w') \<and> fst ` set (ag_byUser tokens) = {''a'', ''b''} \<and> ag_expiresAt tokens = noon + 60000"
  using buildSessionTokens_succeeds [OF agora_backend agora_env_vars(1) _ _ agora_env_vars(2), of "''s1''" "[''a'', ''b'']"
      "world_of im_empty no_tables noon"]
  by (simp add: small_string_fits agora_env_vars(3) world_of_def noon_def)

lemma session_run_example:
  obtains tokens w' where
    "run_state (buildSessionTokens agora_env ''s1'' [''a'', ''b'']) (world_of im_empty no_tables noon) = (Inr tokens, w')"
  using session_tokens_exist [OF agora_backend agora_env_vars(1) _ _ agora_env_vars(2), of "''s1''" "[''a'', ''b'']"
      "world_of im_empty no_tables noon"]
  by (auto simp: small_string_fits agora_env_vars(3) world_of_def noon_def)

lemma session_rtc_token_decodes_witness:
  "\<exists>tokens w' t content d.
    run_state (buildSessionTokens agora_env ''s1'' [''a'', ''b'']) (world_of im_empty no_tables noon) = (Inr tokens, w') \<and>
    map_of (ag_byUser tokens) ''b'' = Some t \<and> ut_rtcToken t = ''007'' @ base64 content \<and>
    decode_content content = Some d \<and> dt_appId d = utf8 ''app'' \<and> dt_expire d = 60"
proof -
  obtain tokens w' where run:
    "run_state (buildSessionTokens agora_env ''s1'' [''a'', ''b'']) (world_of im_empty no_tables noon) = (Inr tokens, w')"
    by (rule session_run_example)
  show ?thesis
    using session_rtc_token_decodes [OF agora_backend run, of "''b''"] run agora_env_vars
    by (auto simp del: append_Cons)
qed

end
