(* ===== verification/Reveal.thy ===== *)
theory Reveal
  imports Backend_Env
begin

text \<open>
  \<open>src/src/matches/reveal.types.ts\<close>: what a user learns about the partner of a mutual match.
\<close>

definition PARTNER_REVEAL_VERSION :: int where
  "PARTNER_REVEAL_VERSION = 1"

record partner_reveal =
  rv_id :: string
  rv_displayName :: "string option"
  rv_primaryPhotoUrl :: "string option"
  rv_age :: "int option"
  rv_bio :: "string option"

text \<open>The test \<open>/^https?:\/\//i\<close>.\<close>

definition http_url :: "string \<Rightarrow> bool" where
  "http_url s \<longleftrightarrow> startsWith (toLowerCase s) ''http://'' \<or> startsWith (toLowerCase s) ''https://''"

fun first_photo_url :: "json list \<Rightarrow> string option" where
  "first_photo_url [] = None"
| "first_photo_url (JStr entry # rest) =
    (let trimmed = trim entry in if http_url trimmed then Some trimmed else first_photo_url rest)"
| "first_photo_url (_ # rest) = first_photo_url rest"

definition resolvePrimaryPhotoUrl :: "json option \<Rightarrow> string option" where
  "resolvePrimaryPhotoUrl photos = (case photos of Some (JArr xs) \<Rightarrow> first_photo_url xs | _ \<Rightarrow> None)"

definition buildPartnerReveal :: "user_row \<Rightarrow> partner_reveal" where
  "buildPartnerReveal u = \<lparr>rv_id = us_id u, rv_displayName = us_displayName u,
     rv_primaryPhotoUrl = resolvePrimaryPhotoUrl (us_photos u), rv_age = us_age u, rv_bio = us_bio u\<rparr>"

definition reveal_json :: "partner_reveal \<Rightarrow> json" where
  "reveal_json r = JObj [(''id'', JStr (rv_id r)), (''displayName'', json_opt (rv_displayName r)),
     (''primaryPhotoUrl'', json_opt (rv_primaryPhotoUrl r)),
     (''age'', case rv_age r of None \<Rightarrow> JNull | Some a \<Rightarrow> JNum a), (''bio'', json_opt (rv_bio r))]"

lemma first_photo_url_ok: "first_photo_url xs = Some url \<Longrightarrow> http_url url \<and> (\<exists>s. JStr s \<in> set xs \<and> url = trim s)"
  by (induction xs rule: first_photo_url.induct) (auto simp: Let_def split: if_splits)

lemma first_photo_url_None: "first_photo_url xs = None \<longleftrightarrow> (\<forall>s. JStr s \<in> set xs \<longrightarrow> \<not> http_url (trim s))"
  by (induction xs rule: first_photo_url.induct) (auto simp: Let_def split: if_splits)

text \<open>
  The photo that a reveal shows is a web address: it starts with http or https whatever the
  case, is one of the strings of the stored photos with the white space around it removed, and
  it is missing exactly when no stored string is such an address.
\<close>

theorem reveal_photo_is_web_url:
  "case rv_primaryPhotoUrl (buildPartnerReveal u) of
     Some url \<Rightarrow> http_url url \<and> trim url = url \<and> (\<exists>xs s. us_photos u = Some (JArr xs) \<and> JStr s \<in> set xs \<and> url = trim s)
   | None \<Rightarrow> (case us_photos u of Some (JArr xs) \<Rightarrow> list_all (\<lambda>s. \<not> http_url (trim s)) [s. JStr s \<leftarrow> xs] | _ \<Rightarrow> True)"
proof (cases "rv_primaryPhotoUrl (buildPartnerReveal u)")
  case None
  then show ?thesis
    by (auto simp: buildPartnerReveal_def resolvePrimaryPhotoUrl_def first_photo_url_None list_all_iff
        split: option.split json.splits)
next
  case (Some url)
  then obtain xs where "us_photos u = Some (JArr xs)" "first_photo_url xs = Some url"
    by (auto simp: buildPartnerReveal_def resolvePrimaryPhotoUrl_def split: option.splits json.splits)
  then show ?thesis
    using first_photo_url_ok [of xs url] Some by auto
qed

end
