(* ===== verification/Session.thy ===== *)
theory Session
  imports Video Reveal
begin

text \<open>
  \<open>src/src/session/session.service.ts\<close>: a video session of two users, from its start to
  the decision. The state of a session is kept in Redis: the start lock, the session state, the
  active session of each user, the flag that it has ended, the hash of the two choices, the
  deadline for choosing and the decision; the two timers of a session are kept in the process.
  The log messages are left out, and the video gateway is assumed to have its server.
\<close>

section \<open>Constants and keys\<close>

definition SESSION_DURATION_MS :: int where "SESSION_DURATION_MS = 45000"
definition SESSION_STATE_TTL_MS :: int where "SESSION_STATE_TTL_MS = 60 * 60 * 1000"
definition SESSION_LOCK_TTL_MS :: int where "SESSION_LOCK_TTL_MS = 10000"
definition CHOICE_WINDOW_MS :: int where "CHOICE_WINDOW_MS = 60000"
definition CHOICE_STATE_TTL_MS :: int where "CHOICE_STATE_TTL_MS = 2 * 60 * 60 * 1000"
definition SESSION_RETENTION_MS :: int where "SESSION_RETENTION_MS = 24 * 60 * 60 * 1000"
definition RECOVERY_SCAN_COUNT :: nat where "RECOVERY_SCAN_COUNT = 200"
definition RECOVERY_MAX_KEYS :: nat where "RECOVERY_MAX_KEYS = 10000"

lemmas session_times = SESSION_DURATION_MS_def SESSION_STATE_TTL_MS_def SESSION_LOCK_TTL_MS_def
  CHOICE_WINDOW_MS_def CHOICE_STATE_TTL_MS_def SESSION_RETENTION_MS_def

definition sessionStateKey :: "string \<Rightarrow> string" where
  "sessionStateKey sid = ''session:state:'' @ sid"

definition sessionActiveKey :: "string \<Rightarrow> string" where
  "sessionActiveKey uid = ''session:active:'' @ uid"

definition sessionLockKey :: "string \<Rightarrow> string" where
  "sessionLockKey sid = ''session:lock:'' @ sid"

definition sessionEndedKey :: "string \<Rightarrow> string" where
  "sessionEndedKey sid = ''session:ended:'' @ sid"

definition sessionChoiceKey :: "string \<Rightarrow> string" where
  "sessionChoiceKey sid = ''session:choice:'' @ sid"

definition sessionChoiceDeadlineKey :: "string \<Rightarrow> string" where
  "sessionChoiceDeadlineKey sid = ''session:choice:deadline:'' @ sid"

definition sessionDecisionKey :: "string \<Rightarrow> string" where
  "sessionDecisionKey sid = ''session:decision:'' @ sid"

definition userRoom :: "string \<Rightarrow> string" where
  "userRoom uid = ''user:'' @ uid"

lemmas session_keys = sessionStateKey_def sessionActiveKey_def sessionLockKey_def sessionEndedKey_def
  sessionChoiceKey_def sessionChoiceDeadlineKey_def sessionDecisionKey_def

section \<open>Stored values\<close>

text \<open>\<open>ChoiceResult\<close>; a mutual result may carry the reveal of the partner.\<close>

datatype choice_result =
    Pending string
  | Mutual string "partner_reveal option"
  | NonMutual

datatype stored_decision =
    NoDecision
  | InvalidDecision
  | Resolved choice_result
  | PendingUntil choice_result int

record session_state =
  ss_sessionId :: string
  ss_userAId :: string
  ss_userBId :: string
  ss_endAt :: string

definition decision_json :: "choice_result \<Rightarrow> json" where
  "decision_json c = (case c of
      Pending deadline \<Rightarrow> JObj [(''status'', JStr ''pending''), (''deadline'', JStr deadline)]
    | Mutual matchId reveal \<Rightarrow>
        JObj ([(''status'', JStr ''resolved''), (''outcome'', JStr ''mutual''), (''matchId'', JStr matchId)] @
          (case reveal of None \<Rightarrow> []
           | Some r \<Rightarrow> [(''partnerRevealVersion'', JNum PARTNER_REVEAL_VERSION), (''partnerReveal'', reveal_json r)]))
    | NonMutual \<Rightarrow> JObj [(''status'', JStr ''resolved''), (''outcome'', JStr ''non_mutual'')])"

definition parseStoredDecision :: "string option \<Rightarrow> stored_decision" where
  "parseStoredDecision raw =
    (case raw of
       None \<Rightarrow> NoDecision
     | Some s \<Rightarrow>
         if s = [] then NoDecision
         else (case json_parse s of
            None \<Rightarrow> InvalidDecision
          | Some parsed \<Rightarrow>
              if json_get_str ''status'' parsed = Some ''resolved'' \<and> json_get_str ''outcome'' parsed = Some ''mutual'' \<and>
                 json_get_str ''matchId'' parsed \<noteq> None
              then Resolved (Mutual (the (json_get_str ''matchId'' parsed)) None)
              else if json_get_str ''status'' parsed = Some ''resolved'' \<and>
                      json_get_str ''outcome'' parsed = Some ''non_mutual''
              then Resolved NonMutual
              else if json_get_str ''status'' parsed = Some ''pending''
              then (case json_get_str ''deadline'' parsed of
                  None \<Rightarrow> InvalidDecision
                | Some d \<Rightarrow> (case date_parse d of
                    None \<Rightarrow> InvalidDecision
                  | Some t \<Rightarrow> PendingUntil (Pending d) t))
              else InvalidDecision))"

definition parseSessionState :: "string option \<Rightarrow> session_state option" where
  "parseSessionState raw =
    (case raw of
       None \<Rightarrow> None
     | Some s \<Rightarrow>
         if s = [] then None
         else (case json_parse s of
            None \<Rightarrow> None
          | Some parsed \<Rightarrow>
              (case (json_get_str ''sessionId'' parsed, json_get_str ''userAId'' parsed,
                     json_get_str ''userBId'' parsed, json_get_str ''endAt'' parsed) of
                 (Some i, Some a, Some b, Some e) \<Rightarrow>
                   Some \<lparr>ss_sessionId = i, ss_userAId = a, ss_userBId = b, ss_endAt = e\<rparr>
               | _ \<Rightarrow> None)))"

text \<open>The object of \<open>persistSessionState\<close>.\<close>

definition session_state_json :: "session_row \<Rightarrow> string \<Rightarrow> int \<Rightarrow> int \<Rightarrow> json" where
  "session_state_json session channelName startAt endAt =
     JObj [(''sessionId'', JStr (se_id session)), (''userAId'', JStr (se_userAId session)),
       (''userBId'', JStr (se_userBId session)), (''channelName'', JStr channelName),
       (''startAt'', JStr (date_iso startAt)), (''endAt'', JStr (date_iso endAt))]"

definition buildSyntheticSession :: "string \<Rightarrow> string \<Rightarrow> string \<Rightarrow> session_row" where
  "buildSyntheticSession sid a b = \<lparr>se_id = sid, se_createdAt = 0, se_userAId = a, se_userBId = b,
     se_region = None, se_queueKey = None\<rparr>"

section \<open>Timers\<close>

text \<open>
  \<open>scheduleSessionEnd\<close> and \<open>scheduleChoiceTimeout\<close> replace the timer of the session.
  A delay that is not a number counts as one millisecond.
\<close>

definition scheduleSessionEnd :: "string \<Rightarrow> string \<Rightarrow> string \<Rightarrow> int \<Rightarrow> (('r, 'd) world, unit) prog" where
  "scheduleSessionEnd sid a b endAt = State (\<lambda>w. ((), w\<lparr>endTimers := (endTimers w)
     (sid \<mapsto> \<lparr>tm_armed = True, tm_due = clock w + max 0 (endAt - clock w), tm_userA = a, tm_userB = b\<rparr>)\<rparr>))"

definition choice_due :: "int option \<Rightarrow> int \<Rightarrow> int" where
  "choice_due deadline now = now + (case deadline of None \<Rightarrow> 1 | Some t \<Rightarrow> max 0 (t - now))"

definition scheduleChoiceTimeout :: "string \<Rightarrow> string \<Rightarrow> string \<Rightarrow> int option \<Rightarrow> (('r, 'd) world, unit) prog" where
  "scheduleChoiceTimeout sid a b deadline = State (\<lambda>w. ((), w\<lparr>choiceTimers := (choiceTimers w)
     (sid \<mapsto> \<lparr>tm_armed = True, tm_due = choice_due deadline (clock w), tm_userA = a, tm_userB = b\<rparr>)\<rparr>))"

definition clearEndTimer :: "string \<Rightarrow> (('r, 'd) world, unit) prog" where
  "clearEndTimer sid = State (\<lambda>w. ((), w\<lparr>endTimers := (endTimers w)(sid := None)\<rparr>))"

definition clearChoiceTimer :: "string \<Rightarrow> (('r, 'd) world, unit) prog" where
  "clearChoiceTimer sid = State (\<lambda>w. ((), w\<lparr>choiceTimers := (choiceTimers w)(sid := None)\<rparr>))"

lemma run_timers [run]:
  "run_state (scheduleSessionEnd sid a b endAt) w = ((), w\<lparr>endTimers := (endTimers w)
     (sid \<mapsto> \<lparr>tm_armed = True, tm_due = clock w + max 0 (endAt - clock w), tm_userA = a, tm_userB = b\<rparr>)\<rparr>)"
  "run_state (scheduleChoiceTimeout sid a b deadline) w = ((), w\<lparr>choiceTimers := (choiceTimers w)
     (sid \<mapsto> \<lparr>tm_armed = True, tm_due = choice_due deadline (clock w), tm_userA = a, tm_userB = b\<rparr>)\<rparr>)"
  "run_state (clearEndTimer sid) w = ((), w\<lparr>endTimers := (endTimers w)(sid := None)\<rparr>)"
  "run_state (clearChoiceTimer sid) w = ((), w\<lparr>choiceTimers := (choiceTimers w)(sid := None)\<rparr>)"
  by (simp_all add: scheduleSessionEnd_def scheduleChoiceTimeout_def clearEndTimer_def clearChoiceTimer_def)

section \<open>The end of a session\<close>

datatype end_reason = Timeout | Ended | TokenError

fun reason_text :: "end_reason \<Rightarrow> string" where
  "reason_text Timeout = ''timeout''"
| "reason_text Ended = ''ended''"
| "reason_text TokenError = ''token_error''"

fun mapEndedBy :: "end_reason \<Rightarrow> string" where
  "mapEndedBy Timeout = ''timer''"
| "mapEndedBy Ended = ''moderation''"
| "mapEndedBy TokenError = ''error''"

definition emitSessionEnd :: "string \<Rightarrow> json \<Rightarrow> (('r, 'd) world, unit) prog" where
  "emitSessionEnd uid payload = emit (Emit ''/video'' (userRoom uid) ''session:end'' payload)"

definition emitSessionStart :: "string \<Rightarrow> json \<Rightarrow> (('r, 'd) world, unit) prog" where
  "emitSessionStart uid payload = emit (Emit ''/video'' (userRoom uid) ''session:start'' payload)"

text \<open>\<open>ensureChoiceDeadline\<close>: the stored deadline (\<open>None\<close> if it is not a date), or a new one.\<close>

definition ensureChoiceDeadline :: "('r, 'd) env \<Rightarrow> string \<Rightarrow> (('r, 'd) world, int option) prog" where
  "ensureChoiceDeadline E sid = do {
     existing \<leftarrow> redis_get E (sessionChoiceDeadlineKey sid);
     if truthy existing then ret (date_parse (the existing))
     else do {
       now \<leftarrow> date_now;
       let deadline = now + CHOICE_WINDOW_MS;
       redis_set E (sessionChoiceDeadlineKey sid) (date_iso deadline) (Some CHOICE_STATE_TTL_MS) True;
       ret (Some deadline) } }"

definition endSession :: "('r, 'd) env \<Rightarrow> session_row \<Rightarrow> end_reason \<Rightarrow> (('r, 'd) world, unit) prog" where
  "endSession E session reason = do {
     first \<leftarrow> redis_set E (sessionEndedKey (se_id session)) ''1'' (Some SESSION_STATE_TTL_MS) True;
     if \<not> first then ret ()
     else do {
       clearEndTimer (se_id session);
       redis_del E [sessionActiveKey (se_userAId session), sessionActiveKey (se_userBId session)];
       now \<leftarrow> date_now;
       let payload = JObj [(''sessionId'', JStr (se_id session)), (''reason'', JStr (reason_text reason)),
         (''endedAt'', JStr (date_iso now))];
       emitSessionEnd (se_userAId session) payload;
       emitSessionEnd (se_userBId session) payload;
       let durationSeconds = max 0 (round_seconds (now - se_createdAt session));
       let properties = [(''sessionId'', JStr (se_id session)), (''endReason'', JStr (reason_text reason)),
         (''endedBy'', JStr (mapEndedBy reason)), (''durationSeconds'', JNum durationSeconds)];
       emit (Track (Some (se_userAId session)) ''session_ended'' properties);
       emit (Track (Some (se_userBId session)) ''session_ended'' properties);
       deadline \<leftarrow> ensureChoiceDeadline E (se_id session);
       scheduleChoiceTimeout (se_id session) (se_userAId session) (se_userBId session) deadline } }"

text \<open>The callback of the timer of \<open>scheduleSessionEnd\<close>, when the timer is due.\<close>

definition fireEndTimer :: "('r, 'd) env \<Rightarrow> string \<Rightarrow> (('r, 'd) world, unit) prog" where
  "fireEndTimer E sid = do {
     w \<leftarrow> State_Monad.get;
     case endTimers w sid of
       None \<Rightarrow> ret ()
     | Some tm \<Rightarrow>
         if tm_armed tm \<and> tm_due tm \<le> clock w
         then do {
           State_Monad.set (w\<lparr>endTimers := (endTimers w)(sid \<mapsto> tm\<lparr>tm_armed := False\<rparr>)\<rparr>);
           endSession E (buildSyntheticSession sid (tm_userA tm) (tm_userB tm)) Timeout }
         else ret () }"

section \<open>The start of a session\<close>

definition persistSessionState ::
  "('r, 'd) env \<Rightarrow> session_row \<Rightarrow> string \<Rightarrow> int \<Rightarrow> int \<Rightarrow> (('r, 'd) world, unit) prog" where
  "persistSessionState E session channelName startAt endAt = do {
     redis_set E (sessionStateKey (se_id session)) (json_stringify (session_state_json session channelName startAt endAt))
       (Some SESSION_STATE_TTL_MS) False;
     redis_set E (sessionActiveKey (se_userAId session)) (se_id session) (Some SESSION_STATE_TTL_MS) False;
     redis_set E (sessionActiveKey (se_userBId session)) (se_id session) (Some SESSION_STATE_TTL_MS) False;
     ret () }"

definition session_start_payload :: "session_row \<Rightarrow> agora_tokens \<Rightarrow> int \<Rightarrow> int \<Rightarrow> user_tokens \<Rightarrow> json" where
  "session_start_payload session tokens startAt endAt t =
     JObj [(''sessionId'', JStr (se_id session)), (''channelName'', JStr (ag_channelName tokens)),
       (''startAt'', JStr (date_iso startAt)), (''endAt'', JStr (date_iso endAt)),
       (''expiresAt'', JStr (date_iso (ag_expiresAt tokens))),
       (''durationSeconds'', JNum (SESSION_DURATION_MS div 1000)),
       (''rtc'', JObj [(''token'', JStr (ut_rtcToken t)), (''uid'', JNum (ut_rtcUid t))]),
       (''rtm'', JObj [(''token'', JStr (ut_rtmToken t)), (''userId'', JStr (ut_rtmUserId t))])]"

text \<open>The \<open>try\<close> block of \<open>handleSessionCreated\<close>.\<close>

definition startSession :: "('r, 'd) env \<Rightarrow> session_row \<Rightarrow> int \<Rightarrow> int \<Rightarrow> (('r, 'd) world, unit) fprog" where
  "startSession E session startAt endAt =
    andThen (buildSessionTokens E (se_id session) [se_userAId session, se_userBId session]) (\<lambda>tokens. do {
      persistSessionState E session (ag_channelName tokens) startAt endAt;
      (case (map_of (ag_byUser tokens) (se_userAId session), map_of (ag_byUser tokens) (se_userBId session)) of
         (Some userATokens, Some userBTokens) \<Rightarrow> do {
           emitSessionStart (se_userAId session) (session_start_payload session tokens startAt endAt userATokens);
           emitSessionStart (se_userBId session) (session_start_payload session tokens startAt endAt userBTokens);
           let properties = [(''sessionId'', JStr (se_id session)),
             (''durationSeconds'', JNum (SESSION_DURATION_MS div 1000))];
           emit (Track (Some (se_userAId session)) ''session_started'' properties);
           emit (Track (Some (se_userBId session)) ''session_started'' properties);
           scheduleSessionEnd (se_id session) (se_userAId session) (se_userBId session) endAt;
           ok () }
       | _ \<Rightarrow> throw (JsError ''TypeError'')) })"

definition handleSessionCreated :: "('r, 'd) env \<Rightarrow> session_row \<Rightarrow> (('r, 'd) world, unit) prog" where
  "handleSessionCreated E session = do {
     lockAcquired \<leftarrow> redis_set E (sessionLockKey (se_id session)) ''1'' (Some SESSION_LOCK_TTL_MS) True;
     if \<not> lockAcquired then ret ()
     else do {
       startAt \<leftarrow> date_now;
       r \<leftarrow> startSession E session startAt (startAt + SESSION_DURATION_MS);
       case r of
         Inl error \<Rightarrow> endSession E session TokenError
       | Inr _ \<Rightarrow> ret () } }"

section \<open>Running start and end\<close>

lemma key_inject [simp]:
  "sessionStateKey a = sessionStateKey b \<longleftrightarrow> a = b" "sessionActiveKey a = sessionActiveKey b \<longleftrightarrow> a = b"
  "sessionLockKey a = sessionLockKey b \<longleftrightarrow> a = b" "sessionEndedKey a = sessionEndedKey b \<longleftrightarrow> a = b"
  "sessionDecisionKey a = sessionDecisionKey b \<longleftrightarrow> a = b"
  by (simp_all add: session_keys)

lemma key_distinct [simp]:
  "sessionLockKey a \<noteq> sessionStateKey b" "sessionLockKey a \<noteq> sessionActiveKey b" "sessionLockKey a \<noteq> sessionEndedKey b"
  "sessionLockKey a \<noteq> sessionChoiceDeadlineKey b" "sessionStateKey a \<noteq> sessionActiveKey b"
  "sessionEndedKey a \<noteq> sessionActiveKey b" "sessionEndedKey a \<noteq> sessionStateKey b"
  "sessionEndedKey a \<noteq> sessionChoiceDeadlineKey b" "sessionEndedKey a \<noteq> sessionLockKey b"
  "sessionActiveKey a \<noteq> sessionChoiceDeadlineKey b" "sessionActiveKey a \<noteq> sessionStateKey b"
  "sessionActiveKey a \<noteq> sessionEndedKey b" "sessionActiveKey a \<noteq> sessionLockKey b"
  "sessionChoiceDeadlineKey a \<noteq> sessionActiveKey b" "sessionChoiceDeadlineKey a \<noteq> sessionEndedKey b"
  "sessionChoiceDeadlineKey a \<noteq> sessionStateKey b" "sessionChoiceDeadlineKey a \<noteq> sessionLockKey b"
  "sessionDecisionKey a \<noteq> sessionChoiceKey b" "sessionDecisionKey a \<noteq> sessionChoiceDeadlineKey b"
  "sessionDecisionKey a \<noteq> sessionEndedKey b" "sessionDecisionKey a \<noteq> sessionActiveKey b"
  by (simp_all add: session_keys)

text \<open>The deadline that a session gets when it ends: the stored one, or a minute from now.\<close>

definition choice_deadline :: "('r, 'd) env \<Rightarrow> 'r \<Rightarrow> int \<Rightarrow> string \<Rightarrow> int option" where
  "choice_deadline E r t sid =
    (case rd_get (rdc E) r t (sessionChoiceDeadlineKey sid) of
       Some s \<Rightarrow> if s \<noteq> [] then date_parse s else Some (t + CHOICE_WINDOW_MS)
     | None \<Rightarrow> Some (t + CHOICE_WINDOW_MS))"

definition end_payload :: "session_row \<Rightarrow> end_reason \<Rightarrow> int \<Rightarrow> json" where
  "end_payload s reason t = JObj [(''sessionId'', JStr (se_id s)), (''reason'', JStr (reason_text reason)),
     (''endedAt'', JStr (date_iso t))]"

definition end_properties :: "session_row \<Rightarrow> end_reason \<Rightarrow> int \<Rightarrow> (string \<times> json) list" where
  "end_properties s reason t = [(''sessionId'', JStr (se_id s)), (''endReason'', JStr (reason_text reason)),
     (''endedBy'', JStr (mapEndedBy reason)), (''durationSeconds'', JNum (max 0 (round_seconds (t - se_createdAt s))))]"

definition ended_trace :: "session_row \<Rightarrow> end_reason \<Rightarrow> int \<Rightarrow> effect list" where
  "ended_trace s reason t =
    [Emit ''/video'' (userRoom (se_userAId s)) ''session:end'' (end_payload s reason t),
     Emit ''/video'' (userRoom (se_userBId s)) ''session:end'' (end_payload s reason t),
     Track (Some (se_userAId s)) ''session_ended'' (end_properties s reason t),
     Track (Some (se_userBId s)) ''session_ended'' (end_properties s reason t)]"

text \<open>The Redis state after the first end of a session: ended, nobody active, a deadline.\<close>

definition ended_redis :: "('r, 'd) env \<Rightarrow> session_row \<Rightarrow> int \<Rightarrow> 'r \<Rightarrow> 'r" where
  "ended_redis E s t r =
    (let r1 = snd (rd_set (rdc E) r t (sessionEndedKey (se_id s)) ''1'' (Some SESSION_STATE_TTL_MS) True);
         r2 = snd (rd_del (rdc E) r1 t [sessionActiveKey (se_userAId s), sessionActiveKey (se_userBId s)])
     in if truthy (rd_get (rdc E) r2 t (sessionChoiceDeadlineKey (se_id s))) then r2
        else snd (rd_set (rdc E) r2 t (sessionChoiceDeadlineKey (se_id s))
          (date_iso (t + CHOICE_WINDOW_MS)) (Some CHOICE_STATE_TTL_MS) True))"

definition choice_timer :: "session_row \<Rightarrow> int \<Rightarrow> int option \<Rightarrow> timer" where
  "choice_timer s t deadline = \<lparr>tm_armed = True, tm_due = choice_due deadline t, tm_userA = se_userAId s, tm_userB = se_userBId s\<rparr>"

context backend
begin

lemma endSession_again:
  assumes "rd_get (rdc E) (rds w) (clock w) (sessionEndedKey (se_id s)) = Some v" and "\<not> other (rds w) (sessionEndedKey (se_id s))"
  shows "run_state (endSession E s reason) w = ((), w)"
  using assms by (simp add: endSession_def run redis.nx_reply redis.nx_taken)


lemma run_ensureChoiceDeadline [run]:
  "run_state (ensureChoiceDeadline E sid) w = (choice_deadline E (rds w) (clock w) sid,
     if truthy (rd_get (rdc E) (rds w) (clock w) (sessionChoiceDeadlineKey sid)) then w
     else w\<lparr>rds := snd (rd_set (rdc E) (rds w) (clock w) (sessionChoiceDeadlineKey sid)
       (date_iso (clock w + CHOICE_WINDOW_MS)) (Some CHOICE_STATE_TTL_MS) True)\<rparr>)"
  by (auto simp: ensureChoiceDeadline_def choice_deadline_def run Let_def split: option.split)


lemma choice_deadline_frame:
  "rd_get (rdc E) r' t (sessionChoiceDeadlineKey sid) = rd_get (rdc E) r t (sessionChoiceDeadlineKey sid) \<Longrightarrow>
   choice_deadline E r' t sid = choice_deadline E r t sid"
  by (simp add: choice_deadline_def)

lemma endSession_first:
  assumes "rd_get (rdc E) (rds w) (clock w) (sessionEndedKey (se_id s)) = None" and "\<not> other (rds w) (sessionEndedKey (se_id s))"
  shows "run_state (endSession E s reason) w = ((), w\<lparr>rds := ended_redis E s (clock w) (rds w),
     trace := trace w @ ended_trace s reason (clock w), endTimers := (endTimers w)(se_id s := None),
     choiceTimers := (choiceTimers w)(se_id s \<mapsto> choice_timer s (clock w) (choice_deadline E (rds w) (clock w) (se_id s)))\<rparr>)"
proof -
  let ?t = "clock w"
  let ?r1 = "snd (rd_set (rdc E) (rds w) ?t (sessionEndedKey (se_id s)) ''1'' (Some SESSION_STATE_TTL_MS) True)"
  let ?r2 = "snd (rd_del (rdc E) ?r1 ?t [sessionActiveKey (se_userAId s), sessionActiveKey (se_userBId s)])"
  have get2: "rd_get (rdc E) ?r2 ?t (sessionChoiceDeadlineKey (se_id s)) =
      rd_get (rdc E) (rds w) ?t (sessionChoiceDeadlineKey (se_id s))"
    by (simp add: redis.unch_simps)
  then have deadline: "choice_deadline E ?r2 ?t (se_id s) = choice_deadline E (rds w) ?t (se_id s)"
    by (rule choice_deadline_frame)
  show ?thesis
    using assms deadline get2
    by (cases "truthy (rd_get (rdc E) (rds w) ?t (sessionChoiceDeadlineKey (se_id s)))"; cases w)
      (simp_all add: endSession_def run Let_def redis.nx_reply ended_trace_def end_payload_def
        end_properties_def emitSessionEnd_def ended_redis_def choice_timer_def)
qed

lemma ended_redis_ended:
  assumes "rd_get (rdc E) r t (sessionEndedKey (se_id s)) = None" and "\<not> other r (sessionEndedKey (se_id s))"
  shows "t \<le> t' \<Longrightarrow> t' < t + SESSION_STATE_TTL_MS \<Longrightarrow>
      rd_get (rdc E) (ended_redis E s t r) t' (sessionEndedKey (se_id s)) = Some ''1''"
    and "\<not> other (ended_redis E s t r) (sessionEndedKey (se_id s))"
  using assms
  by (simp_all add: ended_redis_def Let_def redis.unch_simps redis.nx_get redis.set_other session_times)

lemma ended_redis_active:
  "u \<in> {se_userAId s, se_userBId s} \<Longrightarrow> rd_get (rdc E) (ended_redis E s t r) t (sessionActiveKey u) = None"
  by (auto simp add: ended_redis_def Let_def redis.unch_simps redis.del_get)

lemma ended_redis_deadline:
  assumes "valid_time (t + CHOICE_WINDOW_MS)" and "\<not> other r (sessionChoiceDeadlineKey (se_id s))"
    and "rd_get (rdc E) r t (sessionChoiceDeadlineKey (se_id s)) \<noteq> Some []"
  shows "choice_deadline E (ended_redis E s t r) t (se_id s) = choice_deadline E r t (se_id s)"
  using assms
  by (cases "rd_get (rdc E) r t (sessionChoiceDeadlineKey (se_id s))")
    (simp_all add: ended_redis_def Let_def redis.unch_simps choice_deadline_def redis.nx_get session_times)

end

text \<open>The Redis state and the trace of a successful start.\<close>

definition started_redis :: "('r, 'd) env \<Rightarrow> session_row \<Rightarrow> string \<Rightarrow> int \<Rightarrow> 'r \<Rightarrow> 'r" where
  "started_redis E s channelName t r =
    (let r1 = snd (rd_set (rdc E) r t (sessionStateKey (se_id s))
           (json_stringify (session_state_json s channelName t (t + SESSION_DURATION_MS))) (Some SESSION_STATE_TTL_MS) False);
         r2 = snd (rd_set (rdc E) r1 t (sessionActiveKey (se_userAId s)) (se_id s) (Some SESSION_STATE_TTL_MS) False)
     in snd (rd_set (rdc E) r2 t (sessionActiveKey (se_userBId s)) (se_id s) (Some SESSION_STATE_TTL_MS) False))"

definition started_trace :: "session_row \<Rightarrow> agora_tokens \<Rightarrow> int \<Rightarrow> user_tokens \<Rightarrow> user_tokens \<Rightarrow> effect list" where
  "started_trace s tokens t ta tb =
    (let properties = [(''sessionId'', JStr (se_id s)), (''durationSeconds'', JNum (SESSION_DURATION_MS div 1000))]
     in [Emit ''/video'' (userRoom (se_userAId s)) ''session:start''
           (session_start_payload s tokens t (t + SESSION_DURATION_MS) ta),
         Emit ''/video'' (userRoom (se_userBId s)) ''session:start''
           (session_start_payload s tokens t (t + SESSION_DURATION_MS) tb),
         Track (Some (se_userAId s)) ''session_started'' properties,
         Track (Some (se_userBId s)) ''session_started'' properties])"

lemma parseSessionState_json [simp]:
  "parseSessionState (Some (json_stringify (session_state_json s ch a b))) =
    Some \<lparr>ss_sessionId = se_id s, ss_userAId = se_userAId s, ss_userBId = se_userBId s, ss_endAt = date_iso b\<rparr>"
  using json_stringify_hd [of "session_state_json s ch a b"]
  by (simp add: parseSessionState_def) (simp add: session_state_json_def json_get_str_def)

context backend
begin

lemma startSession_ok:
  assumes "run_state (buildSessionTokens E (se_id s) [se_userAId s, se_userBId s]) w = (Inr tokens, w1)"
  shows "\<exists>ta tb. run_state (startSession E s (clock w) (clock w + SESSION_DURATION_MS)) w =
    (Inr (), w1\<lparr>rds := started_redis E s (''session_'' @ se_id s) (clock w) (rds w),
       trace := trace w1 @ started_trace s tokens (clock w) ta tb,
       endTimers := (endTimers w)(se_id s \<mapsto> \<lparr>tm_armed = True, tm_due = clock w + SESSION_DURATION_MS,
         tm_userA = se_userAId s, tm_userB = se_userBId s\<rparr>)\<rparr>) \<and>
    map_of (ag_byUser tokens) (se_userAId s) = Some ta \<and> map_of (ag_byUser tokens) (se_userBId s) = Some tb"
proof -
  have w1: "rds w1 = rds w" "clock w1 = clock w" "endTimers w1 = endTimers w"
    using buildSessionTokens_run(1) [OF assms] by (simp_all add: same_stores_def)
  have tok: "ag_channelName tokens = ''session_'' @ se_id s"
    "fst ` set (ag_byUser tokens) = {se_userAId s, se_userBId s}"
    using buildSessionTokens_run(2) [OF assms refl] by auto
  obtain ta tb where t: "map_of (ag_byUser tokens) (se_userAId s) = Some ta" "map_of (ag_byUser tokens) (se_userBId s) = Some tb"
    using tok(2) by (metis insertI1 insert_commute map_of_eq_None_iff not_None_eq)
  show ?thesis
    using assms w1 tok(1) t
    by (intro exI [of _ ta] exI [of _ tb])
      (cases w1, simp add: startSession_def run persistSessionState_def emitSessionStart_def
        started_redis_def started_trace_def Let_def session_times)
qed

lemma startSession_fail:
  assumes "run_state (buildSessionTokens E (se_id s) [se_userAId s, se_userBId s]) w = (Inl e, w1)"
  shows "run_state (startSession E s t u) w = (Inl e, w1)"
  using assms by (simp add: startSession_def run)

lemma started_redis_get:
  assumes "t \<le> t'" and "t' < t + SESSION_STATE_TTL_MS"
  shows "parseSessionState (rd_get (rdc E) (started_redis E s ch t r) t' (sessionStateKey (se_id s))) =
      Some \<lparr>ss_sessionId = se_id s, ss_userAId = se_userAId s, ss_userBId = se_userBId s,
        ss_endAt = date_iso (t + SESSION_DURATION_MS)\<rparr>"
    and "u \<in> {se_userAId s, se_userBId s} \<Longrightarrow>
      rd_get (rdc E) (started_redis E s ch t r) t' (sessionActiveKey u) = Some (se_id s)"
    and "k \<notin> {sessionStateKey (se_id s), sessionActiveKey (se_userAId s), sessionActiveKey (se_userBId s)} \<Longrightarrow>
      rd_get (rdc E) (started_redis E s ch t r) t' k = rd_get (rdc E) r t' k"
proof -
  have set_now: "rd_get (rdc E) (snd (rd_set (rdc E) r t k v (Some SESSION_STATE_TTL_MS) False)) t' k = Some v" for r k v
    using assms by (intro redis.set_get) (simp_all add: session_times)
  note defs = started_redis_def Let_def redis.unch_simps assms set_now
  show "parseSessionState (rd_get (rdc E) (started_redis E s ch t r) t' (sessionStateKey (se_id s))) =
      Some \<lparr>ss_sessionId = se_id s, ss_userAId = se_userAId s, ss_userBId = se_userBId s,
        ss_endAt = date_iso (t + SESSION_DURATION_MS)\<rparr>"
    by (simp add: defs)
  show "u \<in> {se_userAId s, se_userBId s} \<Longrightarrow>
      rd_get (rdc E) (started_redis E s ch t r) t' (sessionActiveKey u) = Some (se_id s)"
    by (cases "se_userAId s = se_userBId s") (auto simp: defs)
  show "k \<notin> {sessionStateKey (se_id s), sessionActiveKey (se_userAId s), sessionActiveKey (se_userBId s)} \<Longrightarrow>
      rd_get (rdc E) (started_redis E s ch t r) t' k = rd_get (rdc E) r t' k"
    by (simp add: defs)
qed

lemma started_redis_other:
  "k \<notin> {sessionStateKey (se_id s), sessionActiveKey (se_userAId s), sessionActiveKey (se_userBId s)} \<Longrightarrow>
   \<not> other r k \<Longrightarrow> \<not> other (started_redis E s ch t r) k"
  by (simp add: started_redis_def Let_def redis.unch_simps)

end

section \<open>Start and end: properties\<close>

text \<open>The server is configured for video, and the strings of the session fit the token layout.\<close>

definition video_ready :: "('r, 'd) env \<Rightarrow> session_row \<Rightarrow> int \<Rightarrow> bool" where
  "video_ready E s t \<longleftrightarrow>
     (case (env_var E ''AGORA_APP_ID'', env_var E ''AGORA_APP_CERTIFICATE'') of
        (Some appId, Some cert) \<Rightarrow> appId \<noteq> [] \<and> string_fits appId \<and> cert \<noteq> []
      | _ \<Rightarrow> False) \<and>
     string_fits (''session_'' @ se_id s) \<and> string_fits (se_userAId s) \<and> string_fits (se_userBId s) \<and>
     0 \<le> t \<and> t div 1000 + getTokenTtlSeconds E < 2 ^ 32"

definition startable :: "('r, 'd) env \<Rightarrow> ('r \<Rightarrow> string \<Rightarrow> bool) \<Rightarrow> session_row \<Rightarrow> ('r, 'd) world \<Rightarrow> bool" where
  "startable E other s w \<longleftrightarrow>
     rd_get (rdc E) (rds w) (clock w) (sessionLockKey (se_id s)) = None \<and> \<not> other (rds w) (sessionLockKey (se_id s))"

definition endable :: "('r, 'd) env \<Rightarrow> ('r \<Rightarrow> string \<Rightarrow> bool) \<Rightarrow> session_row \<Rightarrow> ('r, 'd) world \<Rightarrow> bool" where
  "endable E other s w \<longleftrightarrow>
     rd_get (rdc E) (rds w) (clock w) (sessionEndedKey (se_id s)) = None \<and> \<not> other (rds w) (sessionEndedKey (se_id s))"

context backend
begin

lemma video_ready_tokens:
  assumes "video_ready E s (clock w)"
  obtains tokens w1 where "run_state (buildSessionTokens E (se_id s) [se_userAId s, se_userBId s]) w = (Inr tokens, w1)"
proof -
  obtain appId cert where "env_var E ''AGORA_APP_ID'' = Some appId" "env_var E ''AGORA_APP_CERTIFICATE'' = Some cert"
    "appId \<noteq> []" "string_fits appId" "cert \<noteq> []"
    using assms by (auto simp: video_ready_def split: option.splits)
  then show thesis
    using session_tokens_exist [OF backend_axioms, of appId cert "se_id s" "[se_userAId s, se_userBId s]" w] assms that
    by (auto simp: video_ready_def)
qed

lemma handleSessionCreated_ok:
  assumes "startable E other s w" and "video_ready E s (clock w)"
  shows "\<exists>w1 tokens ta tb. same_stores w w1 \<and>
    snd (run_state (handleSessionCreated E s) w) = w1\<lparr>
       rds := started_redis E s (''session_'' @ se_id s) (clock w)
         (snd (rd_set (rdc E) (rds w) (clock w) (sessionLockKey (se_id s)) ''1'' (Some SESSION_LOCK_TTL_MS) True)),
       trace := trace w1 @ started_trace s tokens (clock w) ta tb,
       endTimers := (endTimers w)(se_id s \<mapsto> \<lparr>tm_armed = True, tm_due = clock w + SESSION_DURATION_MS,
         tm_userA = se_userAId s, tm_userB = se_userBId s\<rparr>)\<rparr>"
proof -
  let ?w = "w\<lparr>rds := snd (rd_set (rdc E) (rds w) (clock w) (sessionLockKey (se_id s)) ''1'' (Some SESSION_LOCK_TTL_MS) True)\<rparr>"
  have lock: "fst (rd_set (rdc E) (rds w) (clock w) (sessionLockKey (se_id s)) ''1'' (Some SESSION_LOCK_TTL_MS) True)"
    using assms(1) by (simp add: startable_def redis.nx_reply)
  obtain tokens w1 where tok:
    "run_state (buildSessionTokens E (se_id s) [se_userAId s, se_userBId s]) ?w = (Inr tokens, w1)"
    using video_ready_tokens [of s ?w] assms(2) by auto
  have same: "same_stores ?w w1" by (rule buildSessionTokens_run(1) [OF tok])
  obtain ta tb where start: "run_state (startSession E s (clock w) (clock w + SESSION_DURATION_MS)) ?w =
    (Inr (), w1\<lparr>rds := started_redis E s (''session_'' @ se_id s) (clock w) (rds ?w),
       trace := trace w1 @ started_trace s tokens (clock w) ta tb,
       endTimers := (endTimers w)(se_id s \<mapsto> \<lparr>tm_armed = True, tm_due = clock w + SESSION_DURATION_MS,
         tm_userA = se_userAId s, tm_userB = se_userBId s\<rparr>)\<rparr>)"
    using startSession_ok [OF tok] by auto
  have "same_stores w (w1\<lparr>rds := rds w\<rparr>)"
    using same by (simp add: same_stores_def)
  moreover have "snd (run_state (handleSessionCreated E s) w) = (w1\<lparr>rds := rds w\<rparr>)\<lparr>
       rds := started_redis E s (''session_'' @ se_id s) (clock w) (rds ?w),
       trace := trace (w1\<lparr>rds := rds w\<rparr>) @ started_trace s tokens (clock w) ta tb,
       endTimers := (endTimers w)(se_id s \<mapsto> \<lparr>tm_armed = True, tm_due = clock w + SESSION_DURATION_MS,
         tm_userA = se_userAId s, tm_userB = se_userBId s\<rparr>)\<rparr>"
    using lock start by (simp add: handleSessionCreated_def run)
  ultimately show ?thesis
    by (intro exI [of _ "w1\<lparr>rds := rds w\<rparr>"]) (simp, blast)
qed

lemma session_start:
  assumes "startable E other s w" and "video_ready E s (clock w)"
    and "clock w \<le> t" and "t < clock w + SESSION_STATE_TTL_MS"
  defines "w' \<equiv> snd (run_state (handleSessionCreated E s) w)"
  shows "parseSessionState (rd_get (rdc E) (rds w') t (sessionStateKey (se_id s))) =
      Some \<lparr>ss_sessionId = se_id s, ss_userAId = se_userAId s, ss_userBId = se_userBId s,
        ss_endAt = date_iso (clock w + 45000)\<rparr> \<and>
    rd_get (rdc E) (rds w') t (sessionActiveKey (se_userAId s)) = Some (se_id s) \<and>
    rd_get (rdc E) (rds w') t (sessionActiveKey (se_userBId s)) = Some (se_id s) \<and>
    rd_get (rdc E) (rds w') t (sessionEndedKey (se_id s)) = rd_get (rdc E) (rds w) t (sessionEndedKey (se_id s)) \<and>
    endTimers w' = (endTimers w)(se_id s \<mapsto> \<lparr>tm_armed = True, tm_due = clock w + 45000,
      tm_userA = se_userAId s, tm_userB = se_userBId s\<rparr>) \<and>
    choiceTimers w' = choiceTimers w \<and> db w' = db w"
proof -
  obtain w1 tokens ta tb where w1: "same_stores w w1" and w': "w' = w1\<lparr>
       rds := started_redis E s (''session_'' @ se_id s) (clock w)
         (snd (rd_set (rdc E) (rds w) (clock w) (sessionLockKey (se_id s)) ''1'' (Some SESSION_LOCK_TTL_MS) True)),
       trace := trace w1 @ started_trace s tokens (clock w) ta tb,
       endTimers := (endTimers w)(se_id s \<mapsto> \<lparr>tm_armed = True, tm_due = clock w + SESSION_DURATION_MS,
         tm_userA = se_userAId s, tm_userB = se_userBId s\<rparr>)\<rparr>"
    unfolding w'_def using handleSessionCreated_ok [OF assms(1,2)] by blast
  show ?thesis
    using assms(3,4) same_stores_D [OF w1]
    by (simp add: w' started_redis_get redis.unch_simps) (simp add: session_times)
qed

lemma session_start_again:
  assumes "startable E other s w" and "video_ready E s (clock w)"
    and "clock w \<le> t" and "t < clock w + 10000"
  defines "w' \<equiv> (snd (run_state (handleSessionCreated E s) w))\<lparr>clock := t\<rparr>"
  shows "run_state (handleSessionCreated E s) w' = ((), w')"
proof -
  obtain w1 tokens ta tb where w1: "same_stores w w1" and w': "w' = w1\<lparr>
       rds := started_redis E s (''session_'' @ se_id s) (clock w)
         (snd (rd_set (rdc E) (rds w) (clock w) (sessionLockKey (se_id s)) ''1'' (Some SESSION_LOCK_TTL_MS) True)),
       trace := trace w1 @ started_trace s tokens (clock w) ta tb,
       endTimers := (endTimers w)(se_id s \<mapsto> \<lparr>tm_armed = True, tm_due = clock w + SESSION_DURATION_MS,
         tm_userA = se_userAId s, tm_userB = se_userBId s\<rparr>), clock := t\<rparr>"
    unfolding w'_def using handleSessionCreated_ok [OF assms(1,2)] by auto
  have "rd_get (rdc E) (rds w') t (sessionLockKey (se_id s)) = Some ''1''"
    using assms(1,3,4) by (simp add: w' started_redis_get startable_def redis.nx_get session_times)
  moreover have "\<not> other (rds w') (sessionLockKey (se_id s))"
    using assms(1) by (simp add: w' started_redis_other startable_def redis.set_other)
  moreover have "clock w' = t" by (simp add: w')
  ultimately show ?thesis
    by (simp add: handleSessionCreated_def run redis.nx_reply redis.nx_taken)
qed

lemma session_end_once:
  fixes reason
  assumes "endable E other s w" and "clock w \<le> t" and "t < clock w + 3600000"
  defines "w' \<equiv> (snd (run_state (endSession E s reason) w))\<lparr>clock := t\<rparr>"
  shows "trace w' = trace w @ ended_trace s reason (clock w) \<and> run_state (endSession E s reason') w' = ((), w')"
  using assms(1-3) endSession_again [of w' s "''1''" reason'] endSession_first [of w s reason]
  by (simp add: endable_def w'_def ended_redis_ended session_times)

end

context backend
begin

lemma session_token_error:
  assumes "startable E other s w" and "endable E other s w"
    and "getRequiredEnv E ''AGORA_APP_ID'' = Inl e \<or> getRequiredEnv E ''AGORA_APP_CERTIFICATE'' = Inl e"
    and "clock w \<le> t" and "t < clock w + 3600000"
  shows "trace (snd (run_state (handleSessionCreated E s) w)) = trace w @ ended_trace s TokenError (clock w) \<and>
    rd_get (rdc E) (rds (snd (run_state (handleSessionCreated E s) w))) t (sessionEndedKey (se_id s)) = Some ''1'' \<and>
    endTimers (snd (run_state (handleSessionCreated E s) w)) = (endTimers w)(se_id s := None)"
proof -
  let ?w = "w\<lparr>rds := snd (rd_set (rdc E) (rds w) (clock w) (sessionLockKey (se_id s)) ''1'' (Some SESSION_LOCK_TTL_MS) True)\<rparr>"
  have lock: "fst (rd_set (rdc E) (rds w) (clock w) (sessionLockKey (se_id s)) ''1'' (Some SESSION_LOCK_TTL_MS) True)"
    using assms(1) by (simp add: startable_def redis.nx_reply)
  obtain e' where "run_state (buildSessionTokens E (se_id s) [se_userAId s, se_userBId s]) ?w = (Inl e', ?w)"
    using assms(3) by (cases "getRequiredEnv E ''AGORA_APP_ID''") (auto simp: buildSessionTokens_def run)
  then have run: "run_state (handleSessionCreated E s) w = run_state (endSession E s TokenError) ?w"
    using lock by (simp add: handleSessionCreated_def run startSession_fail)
  have ended: "rd_get (rdc E) (rds ?w) (clock w) (sessionEndedKey (se_id s)) = None" "\<not> other (rds ?w) (sessionEndedKey (se_id s))"
    using assms(2) by (simp_all add: endable_def redis.unch_simps)
  show ?thesis
    using endSession_first [of ?w s TokenError] ended ended_redis_ended(1) [OF ended, of t] assms(4,5)
    by (simp add: run session_times)
qed

lemma session_timeout:
  fixes t
  assumes "startable E other s w" and "endable E other s w" and "video_ready E s (clock w)"
    and "\<not> other (rds w) (sessionChoiceDeadlineKey (se_id s))"
    and "rd_get (rdc E) (rds w) (clock w + 45000) (sessionChoiceDeadlineKey (se_id s)) = None"
  defines "w1 \<equiv> (snd (run_state (handleSessionCreated E s) w))\<lparr>clock := clock w + 45000\<rparr>"
  defines "w2 \<equiv> snd (run_state (fireEndTimer E (se_id s)) w1)"
  shows "trace w2 = trace w1 @ ended_trace (buildSyntheticSession (se_id s) (se_userAId s) (se_userBId s)) Timeout (clock w + 45000) \<and>
    rd_get (rdc E) (rds w2) (clock w + 45000) (sessionActiveKey (se_userAId s)) = None \<and>
    rd_get (rdc E) (rds w2) (clock w + 45000) (sessionActiveKey (se_userBId s)) = None \<and>
    endTimers w2 (se_id s) = None \<and>
    choiceTimers w2 (se_id s) = Some \<lparr>tm_armed = True, tm_due = clock w + 45000 + 60000,
      tm_userA = se_userAId s, tm_userB = se_userBId s\<rparr>"
proof -
  let ?s = "buildSyntheticSession (se_id s) (se_userAId s) (se_userBId s)"
  have s: "se_id ?s = se_id s" "se_userAId ?s = se_userAId s" "se_userBId ?s = se_userBId s"
    by (simp_all add: buildSyntheticSession_def)
  obtain v tokens ta tb where v: "same_stores w v" and w1: "w1 = v\<lparr>
       rds := started_redis E s (''session_'' @ se_id s) (clock w)
         (snd (rd_set (rdc E) (rds w) (clock w) (sessionLockKey (se_id s)) ''1'' (Some SESSION_LOCK_TTL_MS) True)),
       trace := trace v @ started_trace s tokens (clock w) ta tb,
       endTimers := (endTimers w)(se_id s \<mapsto> \<lparr>tm_armed = True, tm_due = clock w + SESSION_DURATION_MS,
         tm_userA = se_userAId s, tm_userB = se_userBId s\<rparr>), clock := clock w + 45000\<rparr>"
    unfolding w1_def using handleSessionCreated_ok [OF assms(1,3)] by auto
  let ?w1 = "w1\<lparr>endTimers := (endTimers w1)(se_id s \<mapsto> \<lparr>tm_armed = False, tm_due = clock w + 45000,
         tm_userA = se_userAId s, tm_userB = se_userBId s\<rparr>)\<rparr>"
  have now: "rd_get (rdc E) (rds w) (clock w + 45000) (sessionEndedKey (se_id s)) = None"
    using assms(2) redis.get_expires [of "clock w" "clock w + 45000" "rds w" "sessionEndedKey (se_id s)"]
    by (cases "rd_get (rdc E) (rds w) (clock w + 45000) (sessionEndedKey (se_id s))") (auto simp: endable_def)
  have ended: "rd_get (rdc E) (rds ?w1) (clock ?w1) (sessionEndedKey (se_id ?s)) = None" "\<not> other (rds ?w1) (sessionEndedKey (se_id ?s))"
    using assms(2) now
    by (simp_all add: s w1 started_redis_get started_redis_other redis.unch_simps endable_def session_times)
  have dl: "rd_get (rdc E) (rds ?w1) (clock w + 45000) (sessionChoiceDeadlineKey (se_id s)) = None"
    using assms(5) by (simp add: w1 started_redis_get redis.unch_simps session_times)
  have "w2 = snd (run_state (endSession E ?s Timeout) ?w1)"
    unfolding w2_def by (simp add: fireEndTimer_def run w1 session_times)
  then show ?thesis
    using endSession_first [OF ended] dl
    by (simp add: s w1 ended_redis_active [of _ ?s, simplified s] choice_timer_def choice_due_def choice_deadline_def
        session_times)
qed

end

end
