(* ===== verification/Session_Choice.thy ===== *)
theory Session_Choice
  imports Session
begin

text \<open>
  The second half of \<open>src/src/session/session.service.ts\<close>: the choices of the two users
  after the session, the decision, the clean-up of old sessions and the recovery of the timers
  when the server starts.
\<close>

section \<open>The decision\<close>

definition canonicalPair :: "string \<Rightarrow> string \<Rightarrow> string \<times> string" where
  "canonicalPair a b = (if a < b then (a, b) else (b, a))"

definition partnerOf :: "session_row \<Rightarrow> string \<Rightarrow> string option" where
  "partnerOf session uid =
    (if se_userAId session = uid then Some (se_userBId session)
     else if se_userBId session = uid then Some (se_userAId session) else None)"

definition buildPartnerRevealForUser ::
  "('r, 'd) env \<Rightarrow> session_row \<Rightarrow> string \<Rightarrow> (('r, 'd) world, partner_reveal option) prog" where
  "buildPartnerRevealForUser E session uid =
    (case partnerOf session uid of
       None \<Rightarrow> ret None
     | Some partnerId \<Rightarrow>
         if partnerId = [] then ret None
         else do {
           partner \<leftarrow> query (\<lambda>d. dg_findFirst (pr_user (prc E)) d (\<lambda>u. us_id u = partnerId));
           ret (map_option buildPartnerReveal partner) })"

definition enrichChoiceResultForUser ::
  "('r, 'd) env \<Rightarrow> choice_result \<Rightarrow> session_row \<Rightarrow> string \<Rightarrow> (('r, 'd) world, choice_result) prog" where
  "enrichChoiceResultForUser E result session uid =
    (case result of
       Mutual matchId old \<Rightarrow> do {
         partnerReveal \<leftarrow> buildPartnerRevealForUser E session uid;
         (case partnerReveal of
            None \<Rightarrow> ret result
          | Some r \<Rightarrow> ret (Mutual matchId (Some r))) }
     | _ \<Rightarrow> ret result)"

definition readStoredDecision :: "('r, 'd) env \<Rightarrow> string \<Rightarrow> (('r, 'd) world, stored_decision) prog" where
  "readStoredDecision E sid = do {
     raw \<leftarrow> redis_get E (sessionDecisionKey sid);
     ret (parseStoredDecision raw) }"

definition getDecision ::
  "('r, 'd) env \<Rightarrow> string \<Rightarrow> session_row \<Rightarrow> string \<Rightarrow> (('r, 'd) world, choice_result option) prog" where
  "getDecision E sid session uid = do {
     parsed \<leftarrow> readStoredDecision E sid;
     (case parsed of
        Resolved value \<Rightarrow> do { r \<leftarrow> enrichChoiceResultForUser E value session uid; ret (Some r) }
      | PendingUntil value deadline \<Rightarrow> do { r \<leftarrow> enrichChoiceResultForUser E value session uid; ret (Some r) }
      | _ \<Rightarrow> ret None) }"

definition emitToUser :: "string \<Rightarrow> string \<Rightarrow> json \<Rightarrow> (('r, 'd) world, unit) prog" where
  "emitToUser uid event payload = emit (Emit ''/video'' (userRoom uid) event payload)"

definition mutual_payload :: "session_row \<Rightarrow> string \<Rightarrow> partner_reveal option \<Rightarrow> json" where
  "mutual_payload session matchId reveal =
     JObj ([(''sessionId'', JStr (se_id session)), (''matchId'', JStr matchId)] @
       (case reveal of None \<Rightarrow> []
        | Some r \<Rightarrow> [(''partnerRevealVersion'', JNum PARTNER_REVEAL_VERSION), (''partnerReveal'', reveal_json r)]))"

definition emitMatchMutual :: "('r, 'd) env \<Rightarrow> session_row \<Rightarrow> string \<Rightarrow> (('r, 'd) world, unit) prog" where
  "emitMatchMutual E session matchId = do {
     revealForUserA \<leftarrow> buildPartnerRevealForUser E session (se_userAId session);
     revealForUserB \<leftarrow> buildPartnerRevealForUser E session (se_userBId session);
     emitToUser (se_userAId session) ''match:mutual'' (mutual_payload session matchId revealForUserA);
     emitToUser (se_userBId session) ''match:mutual'' (mutual_payload session matchId revealForUserB) }"

definition emitMatchNonMutual :: "session_row \<Rightarrow> (('r, 'd) world, unit) prog" where
  "emitMatchNonMutual session = do {
     let payload = JObj [(''sessionId'', JStr (se_id session)), (''outcome'', JStr ''pass'')];
     emitToUser (se_userAId session) ''match:non_mutual'' payload;
     emitToUser (se_userBId session) ''match:non_mutual'' payload }"

text \<open>
  \<open>match.upsert\<close> on the pair of users, with an empty update; a new row has no reveal
  acknowledged yet.
\<close>

definition new_match :: "string \<Rightarrow> string \<Rightarrow> int \<Rightarrow> string \<Rightarrow> match_row" where
  "new_match low high now i = \<lparr>ma_id = i, ma_createdAt = now, ma_userAId = low, ma_userBId = high,
     ma_userARevealAcknowledgedAt = None, ma_userBRevealAcknowledgedAt = None\<rparr>"

definition upsertMatch :: "('r, 'd) env \<Rightarrow> session_row \<Rightarrow> (('r, 'd) world, match_row) fprog" where
  "upsertMatch E session = do {
     now \<leftarrow> date_now;
     let (userLow, userHigh) = canonicalPair (se_userAId session) (se_userBId session);
     mutate (\<lambda>d. dg_upsert (pr_match (prc E)) d
       (\<lambda>m. ma_userAId m = userLow \<and> ma_userBId m = userHigh) (new_match userLow userHigh now) (\<lambda>m. m)) }"

definition choice_MATCH :: string where "choice_MATCH = ''MATCH''"
definition choice_PASS :: string where "choice_PASS = ''PASS''"

text \<open>\<open>finalizeDecision\<close> after its first read and its upsert: store, announce, stop the timer.\<close>

definition storeDecision ::
  "('r, 'd) env \<Rightarrow> session_row \<Rightarrow> stored_decision \<Rightarrow> choice_result \<Rightarrow> (('r, 'd) world, choice_result option) prog" where
  "storeDecision E session existing payload = do {
     let decisionKey = sessionDecisionKey (se_id session);
     stored \<leftarrow> redis_set E decisionKey (json_stringify (decision_json payload)) (Some CHOICE_STATE_TTL_MS)
       (case existing of PendingUntil _ _ \<Rightarrow> False | _ \<Rightarrow> True);
     if stored then ret None
     else do {
       cached \<leftarrow> readStoredDecision E (se_id session);
       (case cached of
          Resolved value \<Rightarrow> ret (Some value)
        | PendingUntil _ _ \<Rightarrow> do {
            redis_set E decisionKey (json_stringify (decision_json payload)) (Some CHOICE_STATE_TTL_MS) False;
            ret None }
        | _ \<Rightarrow> ret None) } }"

definition announceDecision ::
  "('r, 'd) env \<Rightarrow> session_row \<Rightarrow> string \<Rightarrow> string \<Rightarrow> string option \<Rightarrow> (('r, 'd) world, unit) prog" where
  "announceDecision E session choiceA choiceB matchId = do {
     let outcome = (if matchId = None then ''non_mutual'' else ''mutual'');
     let result = (if matchId = None then ''non_mutual'' else ''mutual_match'');
     let hasMatch = JBool (truthy matchId);
     let bothPassed = JBool (choiceA = choice_PASS \<and> choiceB = choice_PASS);
     let resolvedProps = [(''sessionId'', JStr (se_id session)), (''outcome'', JStr outcome), (''hasMatch'', hasMatch)];
     let resultProps = [(''sessionId'', JStr (se_id session)), (''result'', JStr result),
       (''bothPassed'', bothPassed), (''hasMatch'', hasMatch)];
     emit (Track (Some (se_userAId session)) ''session_choice_resolved'' resolvedProps);
     emit (Track (Some (se_userAId session)) ''session_result'' resultProps);
     emit (Track (Some (se_userBId session)) ''session_choice_resolved'' resolvedProps);
     emit (Track (Some (se_userBId session)) ''session_result'' resultProps);
     (case matchId of
        Some m \<Rightarrow> do {
          emitMatchMutual E session m;
          emit (NotifyUsers [se_userAId session, se_userBId session] ''match_mutual''
            (JObj [(''sessionId'', JStr (se_id session)), (''matchId'', JStr m)])) }
      | None \<Rightarrow> emitMatchNonMutual session);
     clearChoiceTimer (se_id session) }"

text \<open>
  \<open>finalizeDecision\<close> from the value \<open>existing\<close> that its first read found. A match without
  an identifier is the error the code throws for it.
\<close>

definition finalizeFrom ::
  "('r, 'd) env \<Rightarrow> session_row \<Rightarrow> string \<Rightarrow> string \<Rightarrow> stored_decision \<Rightarrow> (('r, 'd) world, choice_result) fprog" where
  "finalizeFrom E session choiceA choiceB existing =
    (case existing of
       Resolved value \<Rightarrow> ok value
     | _ \<Rightarrow>
         andThen
           (if choiceA = choice_MATCH \<and> choiceB = choice_MATCH
            then andThen (upsertMatch E session) (\<lambda>m.
              if ma_id m = [] then throw (JsError (''Mutual decision missing matchId for session '' @ se_id session))
              else ok (Some (ma_id m)))
            else ok None)
           (\<lambda>matchId. do {
             let payload = (case matchId of Some m \<Rightarrow> Mutual m None | None \<Rightarrow> NonMutual);
             other \<leftarrow> storeDecision E session existing payload;
             (case other of
                Some value \<Rightarrow> ok value
              | None \<Rightarrow> do {
                  announceDecision E session choiceA choiceB matchId;
                  ok payload }) }))"

definition finalizeDecision ::
  "('r, 'd) env \<Rightarrow> session_row \<Rightarrow> string \<Rightarrow> string \<Rightarrow> (('r, 'd) world, choice_result) fprog" where
  "finalizeDecision E session choiceA choiceB = do {
     existing \<leftarrow> readStoredDecision E (se_id session);
     finalizeFrom E session choiceA choiceB existing }"

section \<open>Choices\<close>

definition orPass :: "string option \<Rightarrow> string" where
  "orPass c = (case c of None \<Rightarrow> choice_PASS | Some s \<Rightarrow> s)"

definition evaluateChoices ::
  "('r, 'd) env \<Rightarrow> session_row \<Rightarrow> int option \<Rightarrow> (('r, 'd) world, choice_result) fprog" where
  "evaluateChoices E session deadline = do {
     choices \<leftarrow> redis_hmget E (sessionChoiceKey (se_id session)) [se_userAId session, se_userBId session];
     now \<leftarrow> date_now;
     let choiceA = choices ! 0;
     let choiceB = choices ! 1;
     if choiceA = Some choice_PASS \<or> choiceB = Some choice_PASS
     then finalizeDecision E session (orPass choiceA) (orPass choiceB)
     else if choiceA = Some choice_MATCH \<and> choiceB = Some choice_MATCH
     then finalizeDecision E session choice_MATCH choice_MATCH
     else (case deadline of
         None \<Rightarrow> throw (JsError ''Invalid time value'')
       | Some d \<Rightarrow>
           if d \<le> now then finalizeDecision E session (orPass choiceA) (orPass choiceB)
           else ok (Pending (date_iso d))) }"

text \<open>\<open>PEXPIRE\<close> with a time that is not a number is an error of the server.\<close>

definition recordChoice ::
  "('r, 'd) env \<Rightarrow> string \<Rightarrow> string \<Rightarrow> string \<Rightarrow> int option \<Rightarrow> (('r, 'd) world, unit) fprog" where
  "recordChoice E sid uid choice deadline = do {
     redis_hset E (sessionChoiceKey sid) uid choice;
     now \<leftarrow> date_now;
     case deadline of
       None \<Rightarrow> throw (JsError ''ERR value is not an integer or out of range'')
     | Some d \<Rightarrow> do {
         redis_pexpire E (sessionChoiceKey sid) (max 1 (d - now));
         emit (Track (Some uid) ''session_choice_submitted'' [(''sessionId'', JStr sid), (''choice'', JStr choice)]);
         ok () } }"

definition evaluateFor ::
  "('r, 'd) env \<Rightarrow> session_row \<Rightarrow> string \<Rightarrow> int option \<Rightarrow> (('r, 'd) world, choice_result) fprog" where
  "evaluateFor E session uid deadline =
    andThen (evaluateChoices E session deadline) (\<lambda>evaluated. do {
      r \<leftarrow> enrichChoiceResultForUser E evaluated session uid;
      ok r })"

definition submitChoice ::
  "('r, 'd) env \<Rightarrow> string \<Rightarrow> string \<Rightarrow> string \<Rightarrow> (('r, 'd) world, choice_result) fprog" where
  "submitChoice E sid uid choice = do {
     found \<leftarrow> query (\<lambda>d. dg_findFirst (pr_session (prc E)) d (\<lambda>s. se_id s = sid));
     case found of
       None \<Rightarrow> throw (NotFound ''Session not found'')
     | Some session \<Rightarrow>
         if se_userAId session \<noteq> uid \<and> se_userBId session \<noteq> uid
         then throw (Forbidden ''Not a session participant'')
         else do {
           ended \<leftarrow> redis_get E (sessionEndedKey sid);
           if \<not> truthy ended then throw (BadRequest ''Session has not ended'')
           else do {
             storedDecision \<leftarrow> getDecision E sid session uid;
             case storedDecision of
               Some r \<Rightarrow> ok r
             | None \<Rightarrow> do {
                 deadline \<leftarrow> ensureChoiceDeadline E sid;
                 existingChoice \<leftarrow> redis_hget E (sessionChoiceKey sid) uid;
                 if truthy existingChoice then evaluateFor E session uid deadline
                 else andThen (recordChoice E sid uid choice deadline) (\<lambda>_.
                   evaluateFor E session uid deadline) } } } }"

text \<open>The callback of the timer of \<open>scheduleChoiceTimeout\<close>, when the timer is due.\<close>

definition fireChoiceTimer :: "('r, 'd) env \<Rightarrow> string \<Rightarrow> (('r, 'd) world, unit) prog" where
  "fireChoiceTimer E sid = do {
     w \<leftarrow> State_Monad.get;
     case choiceTimers w sid of
       None \<Rightarrow> ret ()
     | Some tm \<Rightarrow>
         if tm_armed tm \<and> tm_due tm \<le> clock w
         then do {
           State_Monad.set (w\<lparr>choiceTimers := (choiceTimers w)(sid \<mapsto> tm\<lparr>tm_armed := False\<rparr>)\<rparr>);
           finalizeDecision E (buildSyntheticSession sid (tm_userA tm) (tm_userB tm)) choice_PASS choice_PASS;
           ret () }
         else ret () }"

section \<open>Clean-up and recovery\<close>

definition cleanupExpiredSessions :: "('r, 'd) env \<Rightarrow> (('r, 'd) world, unit) prog" where
  "cleanupExpiredSessions E = do {
     now \<leftarrow> date_now;
     let cutoff = now - SESSION_RETENTION_MS;
     mutate (\<lambda>d. dg_deleteMany (pr_session (prc E)) d (\<lambda>s. se_createdAt s < cutoff));
     ret () }"

definition resolveSessionParticipants ::
  "('r, 'd) env \<Rightarrow> string \<Rightarrow> (('r, 'd) world, (string \<times> string) option) prog" where
  "resolveSessionParticipants E sid = do {
     raw \<leftarrow> redis_get E (sessionStateKey sid);
     case parseSessionState raw of
       Some state \<Rightarrow> ret (Some (ss_userAId state, ss_userBId state))
     | None \<Rightarrow> do {
         session \<leftarrow> query (\<lambda>d. dg_findFirst (pr_session (prc E)) d (\<lambda>s. se_id s = sid));
         ret (map_option (\<lambda>s. (se_userAId s, se_userBId s)) session) } }"

text \<open>
  \<open>scanKeys\<close>: \<open>pages\<close> is the number of pages that can be read before the time limit
  \<open>RECOVERY_MAX_DURATION_MS\<close>; at the limit, or at \<open>RECOVERY_MAX_KEYS\<close> keys, the scan
  is truncated.
\<close>

fun add_keys :: "string list \<Rightarrow> string list \<Rightarrow> string list \<times> bool" where
  "add_keys [] keys = (keys, False)"
| "add_keys (k # ks) keys =
    (if length keys \<ge> RECOVERY_MAX_KEYS then (keys, True)
     else add_keys ks (if k \<in> set keys then keys else keys @ [k]))"

fun scanPages :: "('r, 'd) env \<Rightarrow> nat \<Rightarrow> string \<Rightarrow> string \<Rightarrow> string list \<Rightarrow>
  (('r, 'd) world, string list \<times> bool) prog" where
  "scanPages E 0 pattern cursor keys = ret (keys, True)"
| "scanPages E (Suc pages) pattern cursor keys = do {
     (nextCursor, pageKeys) \<leftarrow> redis_scan E cursor pattern RECOVERY_SCAN_COUNT;
     let (keys, truncated) = add_keys pageKeys keys;
     if truncated then ret (keys, True)
     else if nextCursor = ''0'' then ret (keys, False)
     else scanPages E pages pattern nextCursor keys }"

definition scanKeys :: "('r, 'd) env \<Rightarrow> nat \<Rightarrow> string \<Rightarrow> (('r, 'd) world, string list \<times> bool) prog" where
  "scanKeys E pages pattern = scanPages E pages pattern ''0'' []"

text \<open>
  The two recoveries of \<open>onModuleInit\<close>. \<open>limit\<close> is the number of keys that can be handled
  before the time limit.
\<close>

definition recoverSessionEnd :: "('r, 'd) env \<Rightarrow> string \<Rightarrow> (('r, 'd) world, unit) prog" where
  "recoverSessionEnd E key = do {
     raw \<leftarrow> redis_get E key;
     case parseSessionState raw of
       None \<Rightarrow> ret ()
     | Some state \<Rightarrow> do {
         ended \<leftarrow> redis_get E (sessionEndedKey (ss_sessionId state));
         if truthy ended then ret ()
         else (case date_parse (ss_endAt state) of
             None \<Rightarrow> ret ()
           | Some endAt \<Rightarrow> do {
               now \<leftarrow> date_now;
               if endAt \<le> now
               then endSession E (buildSyntheticSession (ss_sessionId state) (ss_userAId state) (ss_userBId state)) Timeout
               else scheduleSessionEnd (ss_sessionId state) (ss_userAId state) (ss_userBId state) endAt }) } }"

definition recoverSessionEndTimers :: "('r, 'd) env \<Rightarrow> nat \<Rightarrow> nat \<Rightarrow> (('r, 'd) world, unit) prog" where
  "recoverSessionEndTimers E pages limit = do {
     (keys, truncated) \<leftarrow> scanKeys E pages ''session:state:*'';
     forEach (take limit keys) (recoverSessionEnd E) }"

text \<open>\<open>s.replace(p, '')\<close> for a string \<open>p\<close>: the first occurrence is removed.\<close>

fun remove_first :: "string \<Rightarrow> string \<Rightarrow> string" where
  "remove_first p [] = []"
| "remove_first p (c # s) = (if startsWith (c # s) p then drop (length p) (c # s) else c # remove_first p s)"

definition recoverChoiceTimeout :: "('r, 'd) env \<Rightarrow> string \<Rightarrow> (('r, 'd) world, unit) fprog" where
  "recoverChoiceTimeout E key =
    (let sid = remove_first ''session:choice:deadline:'' key in
     if sid = [] then ok ()
     else do {
       parsedDecision \<leftarrow> readStoredDecision E sid;
       rawDeadline \<leftarrow> redis_get E key;
       let deadline = (case parsedDecision of
           PendingUntil _ t \<Rightarrow> Some t
         | _ \<Rightarrow> if truthy rawDeadline then date_parse (the rawDeadline) else None);
       (case (parsedDecision, deadline) of
          (Resolved _, _) \<Rightarrow> ok ()
        | (_, None) \<Rightarrow> ok ()
        | (_, Some d) \<Rightarrow> do {
            participants \<leftarrow> resolveSessionParticipants E sid;
            case participants of
              None \<Rightarrow> ok ()
            | Some (a, b) \<Rightarrow> do {
                now \<leftarrow> date_now;
                if d \<le> now
                then andThen (finalizeDecision E (buildSyntheticSession sid a b) choice_PASS choice_PASS) (\<lambda>_. ok ())
                else do { scheduleChoiceTimeout sid a b (Some d); ok () } } }) })"

fun recoverChoices :: "('r, 'd) env \<Rightarrow> string list \<Rightarrow> (('r, 'd) world, unit) fprog" where
  "recoverChoices E [] = ok ()"
| "recoverChoices E (key # keys) = andThen (recoverChoiceTimeout E key) (\<lambda>_. recoverChoices E keys)"

definition recoverChoiceTimeouts :: "('r, 'd) env \<Rightarrow> nat \<Rightarrow> nat \<Rightarrow> (('r, 'd) world, unit) fprog" where
  "recoverChoiceTimeouts E pages limit = do {
     (keys, truncated) \<leftarrow> scanKeys E pages ''session:choice:deadline:*'';
     recoverChoices E (take limit keys) }"

definition onModuleInit :: "('r, 'd) env \<Rightarrow> nat \<Rightarrow> nat \<Rightarrow> (('r, 'd) world, unit) fprog" where
  "onModuleInit E pages limit = do {
     recoverSessionEndTimers E pages limit;
     recoverChoiceTimeouts E pages limit }"

definition onModuleDestroy :: "(('r, 'd) world, unit) prog" where
  "onModuleDestroy = State (\<lambda>w. ((), w\<lparr>endTimers := (\<lambda>_. None), choiceTimers := (\<lambda>_. None)\<rparr>))"

section \<open>Running the decision\<close>

lemma choice_keys [simp]:
  "sessionChoiceKey a \<noteq> sessionDecisionKey b" "sessionChoiceKey a \<noteq> sessionEndedKey b"
  "sessionChoiceDeadlineKey a \<noteq> sessionDecisionKey b" "sessionEndedKey a \<noteq> sessionDecisionKey b"
  "sessionActiveKey a \<noteq> sessionDecisionKey b" "sessionLockKey a \<noteq> sessionDecisionKey b"
  "sessionStateKey a \<noteq> sessionDecisionKey b" "sessionEndedKey a \<noteq> sessionChoiceKey b"
  "sessionDecisionKey a \<noteq> sessionStateKey b" "sessionDecisionKey a \<noteq> sessionLockKey b"
  by (simp_all add: session_keys)

text \<open>
  The key of the deadline of \<open>x\<close> is also the key of the choices of \<open>deadline:x\<close>; a session
  identifier, which Prisma generates, has no colon.
\<close>

lemma choice_deadline_key:
  "CHR '':'' \<notin> set sid \<Longrightarrow> sessionChoiceKey sid \<noteq> sessionChoiceDeadlineKey sid'"
  by (auto simp: session_keys)

lemma new_match_simps [simp]:
  "ma_id (new_match low high t i) = i" "ma_userAId (new_match low high t i) = low" "ma_userBId (new_match low high t i) = high"
  by (simp_all add: new_match_def)

definition reveal_of :: "('r, 'd) env \<Rightarrow> session_row \<Rightarrow> string \<Rightarrow> 'd \<Rightarrow> partner_reveal option" where
  "reveal_of E s uid d =
    (case partnerOf s uid of
       None \<Rightarrow> None
     | Some p \<Rightarrow> if p = [] then None
         else map_option buildPartnerReveal (dg_findFirst (pr_user (prc E)) d (\<lambda>u. us_id u = p)))"

definition enriched :: "('r, 'd) env \<Rightarrow> session_row \<Rightarrow> string \<Rightarrow> 'd \<Rightarrow> choice_result \<Rightarrow> choice_result" where
  "enriched E s uid d c = (case c of
     Mutual m old \<Rightarrow> (case reveal_of E s uid d of None \<Rightarrow> c | Some r \<Rightarrow> Mutual m (Some r))
   | _ \<Rightarrow> c)"

lemma run_reveal [run]:
  "run_state (buildPartnerRevealForUser E s uid) w = (reveal_of E s uid (db w), w)"
  by (simp add: buildPartnerRevealForUser_def reveal_of_def run split: option.split)

lemma run_enrich [run]:
  "run_state (enrichChoiceResultForUser E c s uid) w = (enriched E s uid (db w) c, w)"
  by (simp add: enrichChoiceResultForUser_def enriched_def run split: option.split choice_result.split)

lemma run_readStoredDecision [run]:
  "run_state (readStoredDecision E sid) w = (parseStoredDecision (rd_get (rdc E) (rds w) (clock w) (sessionDecisionKey sid)), w)"
  by (simp add: readStoredDecision_def run)

definition announcement :: "('r, 'd) env \<Rightarrow> session_row \<Rightarrow> string \<Rightarrow> string \<Rightarrow> string option \<Rightarrow> 'd \<Rightarrow> effect list" where
  "announcement E s choiceA choiceB matchId d =
    (let outcome = (if matchId = None then ''non_mutual'' else ''mutual'');
         result = (if matchId = None then ''non_mutual'' else ''mutual_match'');
         hasMatch = JBool (truthy matchId);
         bothPassed = JBool (choiceA = choice_PASS \<and> choiceB = choice_PASS);
         resolvedProps = [(''sessionId'', JStr (se_id s)), (''outcome'', JStr outcome), (''hasMatch'', hasMatch)];
         resultProps = [(''sessionId'', JStr (se_id s)), (''result'', JStr result),
           (''bothPassed'', bothPassed), (''hasMatch'', hasMatch)]
     in [Track (Some (se_userAId s)) ''session_choice_resolved'' resolvedProps,
         Track (Some (se_userAId s)) ''session_result'' resultProps,
         Track (Some (se_userBId s)) ''session_choice_resolved'' resolvedProps,
         Track (Some (se_userBId s)) ''session_result'' resultProps] @
        (case matchId of
           Some m \<Rightarrow>
             [Emit ''/video'' (userRoom (se_userAId s)) ''match:mutual'' (mutual_payload s m (reveal_of E s (se_userAId s) d)),
              Emit ''/video'' (userRoom (se_userBId s)) ''match:mutual'' (mutual_payload s m (reveal_of E s (se_userBId s) d)),
              NotifyUsers [se_userAId s, se_userBId s] ''match_mutual''
                (JObj [(''sessionId'', JStr (se_id s)), (''matchId'', JStr m)])]
         | None \<Rightarrow>
             [Emit ''/video'' (userRoom (se_userAId s)) ''match:non_mutual''
                (JObj [(''sessionId'', JStr (se_id s)), (''outcome'', JStr ''pass'')]),
              Emit ''/video'' (userRoom (se_userBId s)) ''match:non_mutual''
                (JObj [(''sessionId'', JStr (se_id s)), (''outcome'', JStr ''pass'')])]))"

lemma run_announce [run]:
  "run_state (announceDecision E s a b matchId) w = ((), w\<lparr>trace := trace w @ announcement E s a b matchId (db w),
     choiceTimers := (choiceTimers w)(se_id s := None)\<rparr>)"
  by (cases matchId) (simp_all add: announceDecision_def announcement_def run Let_def emitMatchMutual_def
      emitMatchNonMutual_def emitToUser_def)

text \<open>What is stored can be read back; a reveal is never stored.\<close>

fun without_reveal :: "choice_result \<Rightarrow> choice_result" where
  "without_reveal (Mutual m _) = Mutual m None"
| "without_reveal c = c"

lemma parse_decision_json:
  assumes "c = Mutual m r \<or> c = NonMutual"
  shows "parseStoredDecision (Some (json_stringify (decision_json c))) = Resolved (without_reveal c)"
  using assms json_stringify_hd [of "decision_json c"]
  by (auto simp: parseStoredDecision_def) (auto simp: decision_json_def json_get_str_def split: option.splits)

lemma parse_pending_json:
  "valid_time t \<Longrightarrow> parseStoredDecision (Some (json_stringify (decision_json (Pending (date_iso t))))) =
     PendingUntil (Pending (date_iso t)) t"
  using json_stringify_hd [of "decision_json (Pending (date_iso t))"]
  by (simp add: parseStoredDecision_def) (simp add: decision_json_def json_get_str_def)

text \<open>The matches are consistent: one row for a pair, and every row has an identifier.\<close>

definition matches_ok :: "session_row \<Rightarrow> tables \<Rightarrow> bool" where
  "matches_ok s T \<longleftrightarrow> count_rows (\<lambda>m. (ma_userAId m, ma_userBId m) = canonicalPair (se_userAId s) (se_userBId s))
      (tb_matches T) \<le> 1 \<and> (\<forall>m \<in> set (tb_matches T). ma_id m \<noteq> [])"

lemma one_match:
  assumes "matches_ok s T"
  shows "count_rows (\<lambda>m. (ma_userAId m, ma_userBId m) = canonicalPair (se_userAId s) (se_userBId s)) (tb_matches T) \<le> 1"
    and "\<forall>m \<in> set (tb_matches T). ma_id m \<noteq> []"
  using assms by (simp_all add: matches_ok_def)

context backend
begin

lemma upsertMatch_run:
  fixes s
  assumes "count_rows (\<lambda>m. (ma_userAId m, ma_userBId m) = canonicalPair (se_userAId s) (se_userBId s))
      (tb_matches (view (db w))) \<le> 1"
    and "\<forall>m \<in> set (tb_matches (view (db w))). ma_id m \<noteq> []"
  obtains m d' where "run_state (upsertMatch E s) w = (Inr m, w\<lparr>db := d'\<rparr>)"
    and "ma_id m \<noteq> []" and "(ma_userAId m, ma_userBId m) = canonicalPair (se_userAId s) (se_userBId s)"
    and "m \<in> set (tb_matches (view d'))"
    and "view d' = (if m \<in> set (tb_matches (view (db w))) then view (db w)
      else tb_matches_update (\<lambda>ms. ms @ [m]) (view (db w)))"
    and "matches_ok s (view d')"
proof -
  obtain low high where lh: "canonicalPair (se_userAId s) (se_userBId s) = (low, high)"
    by (cases "canonicalPair (se_userAId s) (se_userBId s)")
  let ?p = "\<lambda>m :: match_row. ma_userAId m = low \<and> ma_userBId m = high"
  let ?mk = "new_match low high (clock w)"
  let ?D = "pr_match (prc E)"
  let ?ms = "tb_matches (view (db w))"
  have run: "run_state (upsertMatch E s) w =
    (fst (dg_upsert ?D (db w) ?p ?mk (\<lambda>m. m)), w\<lparr>db := snd (dg_upsert ?D (db w) ?p ?mk (\<lambda>m. m))\<rparr>)"
    by (simp add: upsertMatch_def run lh)
  let ?d = "snd (dg_upsert ?D (db w) ?p ?mk (\<lambda>m. m))"
  show thesis
  proof (cases "filter ?p ?ms")
    case Nil
    then have none: "\<forall>m \<in> set ?ms. \<not> ?p m" by (simp add: filter_empty_conv)
    let ?m = "?mk (dg_cuid ?D (db w))"
    have c: "fst (dg_upsert ?D (db w) ?p ?mk (\<lambda>m. m)) = Inr ?m \<and>
        view (snd (dg_upsert ?D (db w) ?p ?mk (\<lambda>m. m))) = tb_matches_update (\<lambda>ms. ms @ [?m]) (view (db w))"
      using none by (intro prisma.match.upsert_create) (auto simp: uq_match_def)
    have "count_rows ?p ?ms = 0" using none by (simp add: count_rows_0)
    moreover have "?m \<notin> set ?ms"
      using prisma.match.cuid_fresh [of "db w"] by (metis imageI new_match_simps(1))
    ultimately show thesis
      using c assms(2) prisma.match.cuid_nonempty [of "db w"]
      by (intro that [of ?m ?d]) (simp_all add: run lh matches_ok_def)
  next
    case (Cons m ms)
    then have one: "filter ?p ?ms = [m]"
      using assms(1) by (simp add: count_rows_def lh)
    then have "m \<in> set (filter ?p ?ms)" by simp
    then have m: "m \<in> set ?ms" "?p m" by auto
    have "fst (dg_upsert ?D (db w) ?p ?mk (\<lambda>m. m)) = Inr m \<and>
        view (snd (dg_upsert ?D (db w) ?p ?mk (\<lambda>m. m))) = tb_matches_update (update_rows ?p (\<lambda>m. m)) (view (db w))"
      using one m by (intro prisma.match.upsert_update) (auto simp: uq_match_def)
    moreover have "update_rows ?p (\<lambda>m. m) = (\<lambda>ms. ms)"
      by (simp add: update_rows_def fun_eq_iff map_idI)
    moreover have "tb_matches_update (\<lambda>ms. ms) T = T" for T :: tables by (cases T) simp
    ultimately show thesis
      using m assms(2) using assms(1) by (intro that [of m ?d]) (simp_all add: run lh matches_ok_def)
  qed
qed

lemma storeDecision_run:
  fixes s
  assumes "\<not> other (rds w) (sessionDecisionKey (se_id s))"
    and "rd_get (rdc E) (rds w) (clock w) (sessionDecisionKey (se_id s)) = None"
  shows "run_state (storeDecision E s existing payload) w = (None,
    w\<lparr>rds := snd (rd_set (rdc E) (rds w) (clock w) (sessionDecisionKey (se_id s))
       (json_stringify (decision_json payload)) (Some CHOICE_STATE_TTL_MS)
       (case existing of PendingUntil _ _ \<Rightarrow> False | _ \<Rightarrow> True))\<rparr>)"
  using assms redis.set_reply [of False]
  by (cases existing) (simp_all add: storeDecision_def run Let_def redis.nx_reply)


end

definition decided_redis :: "('r, 'd) env \<Rightarrow> string \<Rightarrow> int \<Rightarrow> choice_result \<Rightarrow> 'r \<Rightarrow> 'r" where
  "decided_redis E sid t payload r = snd (rd_set (rdc E) r t (sessionDecisionKey sid)
     (json_stringify (decision_json payload)) (Some CHOICE_STATE_TTL_MS) True)"

text \<open>No decision is stored yet.\<close>

definition undecided :: "('r, 'd) env \<Rightarrow> ('r \<Rightarrow> string \<Rightarrow> bool) \<Rightarrow> string \<Rightarrow> ('r, 'd) world \<Rightarrow> bool" where
  "undecided E other sid w \<longleftrightarrow> rd_get (rdc E) (rds w) (clock w) (sessionDecisionKey sid) = None \<and>
     \<not> other (rds w) (sessionDecisionKey sid)"

definition decided :: "('r, 'd) env \<Rightarrow> session_row \<Rightarrow> string \<Rightarrow> string \<Rightarrow> string option \<Rightarrow> choice_result \<Rightarrow>
  ('r, 'd) world \<Rightarrow> ('r, 'd) world" where
  "decided E s a b matchId payload w = w\<lparr>rds := decided_redis E (se_id s) (clock w) payload (rds w),
     trace := trace w @ announcement E s a b matchId (db w), choiceTimers := (choiceTimers w)(se_id s := None)\<rparr>"

context backend
begin

lemma decided_redis_get:
  assumes "rd_get (rdc E) r t (sessionDecisionKey sid) = None" and "\<not> other r (sessionDecisionKey sid)"
    and "t \<le> t'" and "t' < t + 7200000" and "payload = Mutual m x \<or> payload = NonMutual"
  shows "parseStoredDecision (rd_get (rdc E) (decided_redis E sid t payload r) t' (sessionDecisionKey sid)) =
    Resolved (without_reveal payload)"
  using assms by (simp add: decided_redis_def redis.nx_get session_times parse_decision_json)

lemma finalizeFrom_resolved: "run_state (finalizeFrom E s a b (Resolved v)) w = (Inr v, w)"
  by (simp add: finalizeFrom_def)

lemma finalizeFrom_pass:
  assumes "undecided E other (se_id s) w" and "existing = NoDecision \<or> existing = InvalidDecision"
    and "\<not> (a = choice_MATCH \<and> b = choice_MATCH)"
  shows "run_state (finalizeFrom E s a b existing) w = (Inr NonMutual, decided E s a b None NonMutual w)"
proof -
  have "run_state (storeDecision E s existing NonMutual) w = (None, w\<lparr>rds := decided_redis E (se_id s) (clock w) NonMutual (rds w)\<rparr>)"
    using assms(1,2) by (auto simp: storeDecision_run undecided_def decided_redis_def)
  then show ?thesis
    using assms(2,3) by (auto simp: finalizeFrom_def run decided_def)
qed

lemma finalizeFrom_match:
  assumes "undecided E other (se_id s) w" and "existing = NoDecision \<or> existing = InvalidDecision"
    and "matches_ok s (view (db w))"
  obtains m d' where
    "run_state (finalizeFrom E s choice_MATCH choice_MATCH existing) w =
       (Inr (Mutual (ma_id m) None), decided E s choice_MATCH choice_MATCH (Some (ma_id m)) (Mutual (ma_id m) None) (w\<lparr>db := d'\<rparr>))"
    and "ma_id m \<noteq> []" and "(ma_userAId m, ma_userBId m) = canonicalPair (se_userAId s) (se_userBId s)"
    and "m \<in> set (tb_matches (view d'))"
    and "view d' = (if m \<in> set (tb_matches (view (db w))) then view (db w)
      else tb_matches_update (\<lambda>ms. ms @ [m]) (view (db w)))"
    and "matches_ok s (view d')"
proof -
  obtain m d' where m: "run_state (upsertMatch E s) w = (Inr m, w\<lparr>db := d'\<rparr>)" "ma_id m \<noteq> []"
    "(ma_userAId m, ma_userBId m) = canonicalPair (se_userAId s) (se_userBId s)" "m \<in> set (tb_matches (view d'))"
    "view d' = (if m \<in> set (tb_matches (view (db w))) then view (db w)
      else tb_matches_update (\<lambda>ms. ms @ [m]) (view (db w)))" "matches_ok s (view d')"
    using upsertMatch_run [OF one_match [OF assms(3)]] by metis
  have "run_state (storeDecision E s existing (Mutual (ma_id m) None)) (w\<lparr>db := d'\<rparr>) =
    (None, w\<lparr>db := d', rds := decided_redis E (se_id s) (clock w) (Mutual (ma_id m) None) (rds w)\<rparr>)"
    using assms(1,2) by (auto simp: storeDecision_run undecided_def decided_redis_def)
  then have "run_state (finalizeFrom E s choice_MATCH choice_MATCH existing) w =
       (Inr (Mutual (ma_id m) None), decided E s choice_MATCH choice_MATCH (Some (ma_id m)) (Mutual (ma_id m) None) (w\<lparr>db := d'\<rparr>))"
    using m(1,2) assms(2) by (cases w) (auto simp: finalizeFrom_def run decided_def Let_def)
  then show thesis using m by (intro that)
qed

text \<open>A finalizer whose first read was too early finds what the other one stored.\<close>

lemma storeDecision_late:
  fixes s
  assumes "\<not> other (rds w) (sessionDecisionKey (se_id s))"
    and "parseStoredDecision (rd_get (rdc E) (rds w) (clock w) (sessionDecisionKey (se_id s))) = Resolved v"
    and "existing = NoDecision \<or> existing = InvalidDecision"
  shows "run_state (storeDecision E s existing payload) w = (Some v, w)"
proof -
  obtain raw where raw: "rd_get (rdc E) (rds w) (clock w) (sessionDecisionKey (se_id s)) = Some raw"
    using assms(2) by (cases "rd_get (rdc E) (rds w) (clock w) (sessionDecisionKey (se_id s))")
      (auto simp: parseStoredDecision_def)
  have "run_state (storeDecision E s existing payload) w =
      run_state (do { cached \<leftarrow> readStoredDecision E (se_id s);
       (case cached of
          Resolved value \<Rightarrow> ret (Some value)
        | PendingUntil _ _ \<Rightarrow> do {
            redis_set E (sessionDecisionKey (se_id s)) (json_stringify (decision_json payload)) (Some CHOICE_STATE_TTL_MS) False;
            ret None }
        | _ \<Rightarrow> ret None) }) w"
    using assms(1,3) raw by (auto simp: storeDecision_def run Let_def redis.nx_reply redis.nx_taken)
  then show ?thesis using assms(2) by (simp add: run)
qed

lemma finalizeFrom_late:
  assumes "\<not> other (rds w) (sessionDecisionKey (se_id s))"
    and "parseStoredDecision (rd_get (rdc E) (rds w) (clock w) (sessionDecisionKey (se_id s))) = Resolved v"
    and "existing = NoDecision \<or> existing = InvalidDecision" and "matches_ok s (view (db w))"
  obtains d' where "run_state (finalizeFrom E s a b existing) w = (Inr v, w\<lparr>db := d'\<rparr>)"
    and "\<not> (a = choice_MATCH \<and> b = choice_MATCH) \<Longrightarrow> d' = db w"
    and "a = choice_MATCH \<Longrightarrow> b = choice_MATCH \<Longrightarrow> \<exists>m \<in> set (tb_matches (view d')).
      (ma_userAId m, ma_userBId m) = canonicalPair (se_userAId s) (se_userBId s)"
proof (cases "a = choice_MATCH \<and> b = choice_MATCH")
  case True
  obtain m d' where m: "run_state (upsertMatch E s) w = (Inr m, w\<lparr>db := d'\<rparr>)" "ma_id m \<noteq> []"
    "(ma_userAId m, ma_userBId m) = canonicalPair (se_userAId s) (se_userBId s)" "m \<in> set (tb_matches (view d'))"
    using upsertMatch_run [OF one_match [OF assms(4)]] by metis
  have "run_state (storeDecision E s existing (Mutual (ma_id m) None)) (w\<lparr>db := d'\<rparr>) = (Some v, w\<lparr>db := d'\<rparr>)"
    using assms by (intro storeDecision_late) simp_all
  then have "run_state (finalizeFrom E s a b existing) w = (Inr v, w\<lparr>db := d'\<rparr>)"
    using True m(1,2) assms(3) by (auto simp: finalizeFrom_def run)
  then show thesis using m(3,4) True by (intro that) auto
next
  case False
  have "run_state (storeDecision E s existing NonMutual) w = (Some v, w)"
    using assms by (intro storeDecision_late) simp_all
  then have "run_state (finalizeFrom E s a b existing) w = (Inr v, w\<lparr>db := db w\<rparr>)"
    using False assms(3) by (auto simp: finalizeFrom_def run)
  then show thesis using False by (intro that) auto
qed


text \<open>Two finalizers, both of which read that nothing was decided; the second runs at \<open>t\<close>.\<close>

lemma finalize_first:
  assumes "undecided E other (se_id s) w" and "matches_ok s (view (db w))"
  obtains v w1 where "run_state (finalizeFrom E s a b NoDecision) w = (Inr v, w1)"
    and "clock w1 = clock w" and "matches_ok s (view (db w1))" and "\<not> other (rds w1) (sessionDecisionKey (se_id s))"
    and "\<And>t. clock w \<le> t \<Longrightarrow> t < clock w + 7200000 \<Longrightarrow>
      parseStoredDecision (rd_get (rdc E) (rds w1) t (sessionDecisionKey (se_id s))) = Resolved v"
    and "a = choice_MATCH \<and> b = choice_MATCH \<longleftrightarrow> v \<noteq> NonMutual"
proof -
  have dec: "rd_get (rdc E) (rds w) (clock w) (sessionDecisionKey (se_id s)) = None" "\<not> other (rds w) (sessionDecisionKey (se_id s))"
    using assms(1) by (simp_all add: undecided_def)
  have other: "\<not> other (decided_redis E (se_id s) (clock w) c (rds w)) (sessionDecisionKey (se_id s))" for c
    using dec by (simp add: decided_redis_def redis.set_other)
  show thesis
  proof (cases "a = choice_MATCH \<and> b = choice_MATCH")
    case True
    obtain m :: match_row and d' where m: "run_state (finalizeFrom E s choice_MATCH choice_MATCH NoDecision) w =
       (Inr (Mutual (ma_id m) None), decided E s choice_MATCH choice_MATCH (Some (ma_id m)) (Mutual (ma_id m) None) (w\<lparr>db := d'\<rparr>))"
      "matches_ok s (view d')"
      by (rule finalizeFrom_match [OF assms(1) disjI1 [OF refl] assms(2)]) blast
    show thesis
    proof (rule that)
      show "run_state (finalizeFrom E s a b NoDecision) w = (Inr (Mutual (ma_id m) None),
          decided E s choice_MATCH choice_MATCH (Some (ma_id m)) (Mutual (ma_id m) None) (w\<lparr>db := d'\<rparr>))"
        using m(1) True by simp
    qed (use m(2) True other decided_redis_get [OF dec, of _ "Mutual (ma_id m) None"] in \<open>simp_all add: decided_def\<close>)
  next
    case False
    show thesis
    proof (rule that)
      show "run_state (finalizeFrom E s a b NoDecision) w = (Inr NonMutual, decided E s a b None NonMutual w)"
        by (rule finalizeFrom_pass [OF assms(1) _ False]) simp
    qed (use assms(2) False other decided_redis_get [OF dec, of _ NonMutual] in \<open>simp_all add: decided_def\<close>)
  qed
qed

lemma finalize_race:
  assumes "undecided E other (se_id s) w" and "matches_ok s (view (db w))"
    and "clock w \<le> t" and "t < clock w + 7200000"
  shows "\<exists>v w1 w2. run_state (finalizeFrom E s a b NoDecision) w = (Inr v, w1) \<and>
    run_state (finalizeFrom E s a' b' NoDecision) (w1\<lparr>clock := t\<rparr>) = (Inr v, w2) \<and>
    rds w2 = rds w1 \<and> trace w2 = trace w1 \<and> choiceTimers w2 = choiceTimers w1"
proof -
  obtain v w1 where 1: "run_state (finalizeFrom E s a b NoDecision) w = (Inr v, w1)"
    "clock w1 = clock w" "matches_ok s (view (db w1))" "\<not> other (rds w1) (sessionDecisionKey (se_id s))"
    "parseStoredDecision (rd_get (rdc E) (rds w1) t (sessionDecisionKey (se_id s))) = Resolved v"
    using finalize_first [OF assms(1,2)] assms(3,4) by metis
  obtain d' where "run_state (finalizeFrom E s a' b' NoDecision) (w1\<lparr>clock := t\<rparr>) = (Inr v, (w1\<lparr>clock := t\<rparr>)\<lparr>db := d'\<rparr>)"
    by (rule finalizeFrom_late [of "w1\<lparr>clock := t\<rparr>" s v NoDecision a' b']) (use 1 in simp_all)
  with 1(1) show ?thesis by auto
qed

lemma finalize_race_match_row:
  assumes "undecided E other (se_id s) w" and "matches_ok s (view (db w))"
    and "clock w \<le> t" and "t < clock w + 7200000"
  shows "\<exists>w1 w2. run_state (finalizeFrom E s choice_PASS choice_PASS NoDecision) w = (Inr NonMutual, w1) \<and>
    run_state (finalizeFrom E s choice_MATCH choice_MATCH NoDecision) (w1\<lparr>clock := t\<rparr>) = (Inr NonMutual, w2) \<and>
    (\<exists>m \<in> set (tb_matches (view (db w2))). (ma_userAId m, ma_userBId m) = canonicalPair (se_userAId s) (se_userBId s))"
proof -
  obtain v w1 where 1: "run_state (finalizeFrom E s choice_PASS choice_PASS NoDecision) w = (Inr v, w1)"
    "clock w1 = clock w" "matches_ok s (view (db w1))" "\<not> other (rds w1) (sessionDecisionKey (se_id s))"
    "parseStoredDecision (rd_get (rdc E) (rds w1) t (sessionDecisionKey (se_id s))) = Resolved v"
    "choice_PASS = choice_MATCH \<longleftrightarrow> v \<noteq> NonMutual"
    using finalize_first [OF assms(1,2), of choice_PASS choice_PASS] assms(3,4) by metis
  then have v: "v = NonMutual" by (simp add: choice_PASS_def choice_MATCH_def)
  obtain d' where "run_state (finalizeFrom E s choice_MATCH choice_MATCH NoDecision) (w1\<lparr>clock := t\<rparr>) =
      (Inr v, (w1\<lparr>clock := t\<rparr>)\<lparr>db := d'\<rparr>)"
    "\<exists>m \<in> set (tb_matches (view d')). (ma_userAId m, ma_userBId m) = canonicalPair (se_userAId s) (se_userBId s)"
    by (rule finalizeFrom_late [of "w1\<lparr>clock := t\<rparr>" s v NoDecision choice_MATCH choice_MATCH]) (use 1 in simp_all)
  with 1(1) v show ?thesis by auto
qed

end

section \<open>Running a choice\<close>

text \<open>
  A session that has ended, whose participants may choose until \<open>d\<close> and have not decided.
\<close>

definition choosing :: "('r, 'd) env \<Rightarrow> ('r \<Rightarrow> string \<Rightarrow> bool) \<Rightarrow> ('d \<Rightarrow> tables) \<Rightarrow> session_row \<Rightarrow> int \<Rightarrow>
  ('r, 'd) world \<Rightarrow> bool" where
  "choosing E other view s d w \<longleftrightarrow>
     filter (\<lambda>x. se_id x = se_id s) (tb_sessions (view (db w))) = [s] \<and> se_userAId s \<noteq> se_userBId s \<and>
     CHR '':'' \<notin> set (se_id s) \<and> truthy (rd_get (rdc E) (rds w) (clock w) (sessionEndedKey (se_id s))) \<and>
     undecided E other (se_id s) w \<and> \<not> other (rds w) (sessionChoiceDeadlineKey (se_id s)) \<and>
     rd_get (rdc E) (rds w) (clock w) (sessionChoiceDeadlineKey (se_id s)) \<noteq> Some [] \<and>
     choice_deadline E (rds w) (clock w) (se_id s) = Some d \<and> clock w < d \<and> valid_time d \<and>
     matches_ok s (view (db w))"

text \<open>The state when the choice \<open>c\<close> of \<open>uid\<close> has been recorded.\<close>

definition recorded_redis :: "('r, 'd) env \<Rightarrow> string \<Rightarrow> string \<Rightarrow> string \<Rightarrow> int \<Rightarrow> int \<Rightarrow> 'r \<Rightarrow> 'r" where
  "recorded_redis E sid uid c d t r =
    (let r1 = (if truthy (rd_get (rdc E) r t (sessionChoiceDeadlineKey sid)) then r
               else snd (rd_set (rdc E) r t (sessionChoiceDeadlineKey sid) (date_iso (t + CHOICE_WINDOW_MS))
                 (Some CHOICE_STATE_TTL_MS) True));
         r2 = snd (rd_hset (rdc E) r1 t (sessionChoiceKey sid) uid c)
     in snd (rd_pexpire (rdc E) r2 t (sessionChoiceKey sid) (max 1 (d - t))))"

definition recorded :: "('r, 'd) env \<Rightarrow> string \<Rightarrow> string \<Rightarrow> string \<Rightarrow> int \<Rightarrow> ('r, 'd) world \<Rightarrow> ('r, 'd) world" where
  "recorded E sid uid c d w = w\<lparr>rds := recorded_redis E sid uid c d (clock w) (rds w),
     trace := trace w @ [Track (Some uid) ''session_choice_submitted'' [(''sessionId'', JStr sid), (''choice'', JStr c)]]\<rparr>"

lemma recorded_simps [simp]:
  "clock (recorded E sid uid c d w) = clock w" "db (recorded E sid uid c d w) = db w"
  "rds (recorded E sid uid c d w) = recorded_redis E sid uid c d (clock w) (rds w)"
  "choiceTimers (recorded E sid uid c d w) = choiceTimers w" "endTimers (recorded E sid uid c d w) = endTimers w"
  by (simp_all add: recorded_def)

context backend
begin

lemma recorded_get:
  assumes "CHR '':'' \<notin> set sid" and "t \<le> t'" and "k \<noteq> sessionChoiceKey sid" and "k \<noteq> sessionChoiceDeadlineKey sid"
  shows "rd_get (rdc E) (recorded_redis E sid uid c d t r) t' k = rd_get (rdc E) r t' k"
    and "\<not> other r k \<Longrightarrow> \<not> other (recorded_redis E sid uid c d t r) k"
  using assms by (simp_all add: recorded_redis_def Let_def redis.unch_simps)

lemma recorded_hget:
  assumes "CHR '':'' \<notin> set sid"
  shows "rd_hget (rdc E) (recorded_redis E sid uid c d t r) t (sessionChoiceKey sid) f =
    (if f = uid then Some c else rd_hget (rdc E) r t (sessionChoiceKey sid) f)"
  using assms choice_deadline_key [OF assms]
  by (simp add: recorded_redis_def Let_def redis.unch_simps redis.pexpire_hget redis.hset_hget)

lemma recorded_deadline:
  assumes "CHR '':'' \<notin> set sid" and "choice_deadline E r t sid = Some d" and "t < d" and "valid_time d"
    and "\<not> other r (sessionChoiceDeadlineKey sid)"
    and "rd_get (rdc E) r t (sessionChoiceDeadlineKey sid) \<noteq> Some []"
  shows "choice_deadline E (recorded_redis E sid uid c d' t r) t sid = Some d"
proof -
  have k: "sessionChoiceDeadlineKey sid \<noteq> sessionChoiceKey sid"
    using choice_deadline_key [OF assms(1)] by metis
  show ?thesis
    using assms(2-6) k
    by (cases "rd_get (rdc E) r t (sessionChoiceDeadlineKey sid)")
      (simp_all add: choice_deadline_def recorded_redis_def Let_def redis.unch_simps redis.nx_get session_times)
qed

lemma submitChoice_recorded:
  assumes "choosing E other view s d w" and "uid \<in> {se_userAId s, se_userBId s}"
    and "\<not> truthy (rd_hget (rdc E) (rds w) (clock w) (sessionChoiceKey (se_id s)) uid)"
  shows "run_state (submitChoice E (se_id s) uid c) w = run_state (evaluateFor E s uid (Some d)) (recorded E (se_id s) uid c d w)"
proof -
  have k: "sessionChoiceKey (se_id s) \<noteq> sessionChoiceDeadlineKey (se_id s)"
    using assms(1) choice_deadline_key by (auto simp: choosing_def)
  have found: "dg_findFirst (pr_session (prc E)) (db w) (\<lambda>x. se_id x = se_id s) = Some s"
    using assms(1) by (intro prisma.session.findFirst_unique) (simp add: choosing_def)
  have none: "parseStoredDecision (rd_get (rdc E) (rds w) (clock w) (sessionDecisionKey (se_id s))) = NoDecision"
    using assms(1) by (simp add: choosing_def undecided_def parseStoredDecision_def)
  have dl: "choice_deadline E (rds w) (clock w) (se_id s) = Some d" and ended: "truthy (rd_get (rdc E) (rds w) (clock w) (sessionEndedKey (se_id s)))"
    using assms(1) by (simp_all add: choosing_def)
  show ?thesis
    using assms(2,3) found none dl ended k
    by (cases "truthy (rd_get (rdc E) (rds w) (clock w) (sessionChoiceDeadlineKey (se_id s)))")
      (auto simp: submitChoice_def run getDecision_def recordChoice_def recorded_def recorded_redis_def Let_def
        redis.unch_simps)
qed

lemma evaluate_recorded:
  fixes c
  assumes "choosing E other view s d w" and "uid \<in> {se_userAId s, se_userBId s}" and "partnerOf s uid = Some p"
  defines "w1 \<equiv> recorded E (se_id s) uid c d w"
  defines "theirs \<equiv> rd_hget (rdc E) (rds w) (clock w) (sessionChoiceKey (se_id s)) p"
  shows "undecided E other (se_id s) w1" and "matches_ok s (view (db w1))"
    and "rd_hmget (rdc E) (rds w1) (clock w1) (sessionChoiceKey (se_id s)) [se_userAId s, se_userBId s] =
      (if uid = se_userAId s then [Some c, theirs] else [theirs, Some c])"
proof -
  have nc: "CHR '':'' \<notin> set (se_id s)" "se_userAId s \<noteq> se_userBId s"
    using assms(1) by (simp_all add: choosing_def)
  show "undecided E other (se_id s) w1"
    using assms(1) nc recorded_get [OF nc(1), of "clock w" "clock w"]
    by (simp add: choosing_def undecided_def w1_def session_keys)
  show "matches_ok s (view (db w1))"
    using assms(1) by (simp add: choosing_def w1_def)
  show "rd_hmget (rdc E) (rds w1) (clock w1) (sessionChoiceKey (se_id s)) [se_userAId s, se_userBId s] =
      (if uid = se_userAId s then [Some c, theirs] else [theirs, Some c])"
    using assms(2,3) nc
    by (auto simp: w1_def theirs_def redis.hmget recorded_hget partnerOf_def split: if_splits)
qed


lemma submitChoice_pass:
  assumes "choosing E other view s d w" and "uid \<in> {se_userAId s, se_userBId s}" and "partnerOf s uid = Some p"
    and "\<not> truthy (rd_hget (rdc E) (rds w) (clock w) (sessionChoiceKey (se_id s)) uid)"
    and "c \<in> {choice_MATCH, choice_PASS}"
    and "c = choice_PASS \<or> rd_hget (rdc E) (rds w) (clock w) (sessionChoiceKey (se_id s)) p = Some choice_PASS"
  shows "\<exists>a b. run_state (submitChoice E (se_id s) uid c) w =
    (Inr NonMutual, decided E s a b None NonMutual (recorded E (se_id s) uid c d w))"
proof -
  let ?w1 = "recorded E (se_id s) uid c d w"
  note w1 = evaluate_recorded [OF assms(1-3), of c]
  have none: "parseStoredDecision (rd_get (rdc E) (rds ?w1) (clock ?w1) (sessionDecisionKey (se_id s))) = NoDecision"
    using w1(1) by (simp add: undecided_def parseStoredDecision_def)
  have ne: "choice_PASS \<noteq> choice_MATCH" by (simp add: choice_PASS_def choice_MATCH_def)
  let ?cs = "rd_hmget (rdc E) (rds ?w1) (clock ?w1) (sessionChoiceKey (se_id s)) [se_userAId s, se_userBId s]"
  have pass: "?cs ! 0 = Some choice_PASS \<or> ?cs ! 1 = Some choice_PASS"
    unfolding w1(3) using assms(6) by auto
  then have "\<not> (orPass (?cs ! 0) = choice_MATCH \<and> orPass (?cs ! 1) = choice_MATCH)"
    using ne by (auto simp: orPass_def)
  then have fin: "run_state (finalizeFrom E s (orPass (?cs ! 0)) (orPass (?cs ! 1)) NoDecision) ?w1 =
      (Inr NonMutual, decided E s (orPass (?cs ! 0)) (orPass (?cs ! 1)) None NonMutual ?w1)"
    by (intro finalizeFrom_pass [OF w1(1)]) simp_all
  have "run_state (evaluateChoices E s (Some d)) ?w1 =
      (Inr NonMutual, decided E s (orPass (?cs ! 0)) (orPass (?cs ! 1)) None NonMutual ?w1)"
    using pass fin none by (simp add: evaluateChoices_def run finalizeDecision_def Let_def)
  then show ?thesis
    unfolding submitChoice_recorded [OF assms(1,2,4)] by (auto simp: evaluateFor_def run enriched_def)
qed

lemma submitChoice_match:
  assumes "choosing E other view s d w" and "uid \<in> {se_userAId s, se_userBId s}" and "partnerOf s uid = Some p"
    and "\<not> truthy (rd_hget (rdc E) (rds w) (clock w) (sessionChoiceKey (se_id s)) uid)"
    and "rd_hget (rdc E) (rds w) (clock w) (sessionChoiceKey (se_id s)) p = Some choice_MATCH"
  shows "\<exists>m d'. run_state (submitChoice E (se_id s) uid choice_MATCH) w =
      (Inr (enriched E s uid d' (Mutual (ma_id m) None)),
       decided E s choice_MATCH choice_MATCH (Some (ma_id m)) (Mutual (ma_id m) None)
         ((recorded E (se_id s) uid choice_MATCH d w)\<lparr>db := d'\<rparr>)) \<and>
    m \<in> set (tb_matches (view d')) \<and> (ma_userAId m, ma_userBId m) = canonicalPair (se_userAId s) (se_userBId s) \<and>
    view d' = (if m \<in> set (tb_matches (view (db w))) then view (db w)
      else tb_matches_update (\<lambda>ms. ms @ [m]) (view (db w)))"
proof -
  let ?w1 = "recorded E (se_id s) uid choice_MATCH d w"
  note w1 = evaluate_recorded [OF assms(1-3), of choice_MATCH]
  have none: "parseStoredDecision (rd_get (rdc E) (rds ?w1) (clock ?w1) (sessionDecisionKey (se_id s))) = NoDecision"
    using w1(1) by (simp add: undecided_def parseStoredDecision_def)
  have ne: "choice_PASS \<noteq> choice_MATCH" by (simp add: choice_PASS_def choice_MATCH_def)
  let ?cs = "rd_hmget (rdc E) (rds ?w1) (clock ?w1) (sessionChoiceKey (se_id s)) [se_userAId s, se_userBId s]"
  have both: "?cs ! 0 = Some choice_MATCH" "?cs ! 1 = Some choice_MATCH"
    unfolding w1(3) using assms(5) by auto
  obtain m :: match_row and d' where m: "run_state (finalizeFrom E s choice_MATCH choice_MATCH NoDecision) ?w1 =
      (Inr (Mutual (ma_id m) None), decided E s choice_MATCH choice_MATCH (Some (ma_id m)) (Mutual (ma_id m) None) (?w1\<lparr>db := d'\<rparr>))"
    "(ma_userAId m, ma_userBId m) = canonicalPair (se_userAId s) (se_userBId s)" "m \<in> set (tb_matches (view d'))"
    "view d' = (if m \<in> set (tb_matches (view (db ?w1))) then view (db ?w1)
      else tb_matches_update (\<lambda>ms. ms @ [m]) (view (db ?w1)))"
    by (rule finalizeFrom_match [OF w1(1) disjI1 [OF refl] w1(2)]) blast
  have "run_state (evaluateChoices E s (Some d)) ?w1 =
      (Inr (Mutual (ma_id m) None), decided E s choice_MATCH choice_MATCH (Some (ma_id m)) (Mutual (ma_id m) None) (?w1\<lparr>db := d'\<rparr>))"
    using both m(1) none ne by (simp add: evaluateChoices_def run finalizeDecision_def Let_def)
  then show ?thesis
    unfolding submitChoice_recorded [OF assms(1,2,4)] using m(2-4)
    by (intro exI [of _ m] exI [of _ d']) (simp add: evaluateFor_def run decided_def)
qed

lemma submitChoice_pending:
  assumes "choosing E other view s d w" and "uid \<in> {se_userAId s, se_userBId s}" and "partnerOf s uid = Some p"
    and "\<not> truthy (rd_hget (rdc E) (rds w) (clock w) (sessionChoiceKey (se_id s)) uid)"
    and "rd_hget (rdc E) (rds w) (clock w) (sessionChoiceKey (se_id s)) p = None"
  shows "run_state (submitChoice E (se_id s) uid choice_MATCH) w =
      (Inr (Pending (date_iso d)), recorded E (se_id s) uid choice_MATCH d w)"
proof -
  let ?w1 = "recorded E (se_id s) uid choice_MATCH d w"
  note w1 = evaluate_recorded [OF assms(1-3), of choice_MATCH]
  have "clock w < d" using assms(1) by (simp add: choosing_def)
  then have "run_state (evaluateChoices E s (Some d)) ?w1 = (Inr (Pending (date_iso d)), ?w1)"
    using w1(3) assms(5) by (simp add: evaluateChoices_def run Let_def choice_PASS_def choice_MATCH_def)
  then show ?thesis
    unfolding submitChoice_recorded [OF assms(1,2,4)] by (simp add: evaluateFor_def run enriched_def)
qed

lemma choosing_recorded:
  assumes "choosing E other view s d w"
  shows "choosing E other view s d (recorded E (se_id s) uid c d w)"
proof -
  let ?k = "sessionChoiceDeadlineKey (se_id s)"
  have nc: "CHR '':'' \<notin> set (se_id s)" using assms by (simp add: choosing_def)
  have k: "?k \<noteq> sessionChoiceKey (se_id s)"
    using choice_deadline_key [OF nc] by metis
  have "\<not> other (recorded_redis E (se_id s) uid c d (clock w) (rds w)) ?k"
    using assms k by (simp add: choosing_def recorded_redis_def Let_def redis.unch_simps redis.set_other)
  moreover have "choice_deadline E (recorded_redis E (se_id s) uid c d (clock w) (rds w)) (clock w) (se_id s) = Some d"
    using assms by (intro recorded_deadline) (simp_all add: choosing_def)
  moreover have "rd_get (rdc E) (recorded_redis E (se_id s) uid c d (clock w) (rds w)) (clock w) ?k \<noteq> Some []"
    using assms k
    by (cases "rd_get (rdc E) (rds w) (clock w) ?k")
      (simp_all add: choosing_def recorded_redis_def Let_def redis.unch_simps redis.nx_get session_times)
  ultimately show ?thesis
    using assms recorded_get [OF nc, of "clock w" "clock w"] by (simp add: choosing_def undecided_def session_keys)
qed

text \<open>Once a decision is stored, it is what every later choice gets.\<close>

lemma submitChoice_decided:
  assumes "filter (\<lambda>x. se_id x = se_id s) (tb_sessions (view (db w))) = [s]" and "uid \<in> {se_userAId s, se_userBId s}"
    and "truthy (rd_get (rdc E) (rds w) (clock w) (sessionEndedKey (se_id s)))"
    and "parseStoredDecision (rd_get (rdc E) (rds w) (clock w) (sessionDecisionKey (se_id s))) = Resolved v"
  shows "run_state (submitChoice E (se_id s) uid c) w = (Inr (enriched E s uid (db w) v), w)"
proof -
  have "dg_findFirst (pr_session (prc E)) (db w) (\<lambda>x. se_id x = se_id s) = Some s"
    using assms(1) by (intro prisma.session.findFirst_unique) simp
  then show ?thesis
    using assms(2-4) by (auto simp: submitChoice_def run getDecision_def)
qed

lemma decided_stored:
  assumes "undecided E other (se_id s) w" and "clock w \<le> t" and "t < clock w + 7200000"
    and "payload = Mutual m None \<or> payload = NonMutual"
  shows "parseStoredDecision (rd_get (rdc E) (rds (decided E s a b matchId payload w)) t (sessionDecisionKey (se_id s))) =
    Resolved payload"
  using assms decided_redis_get [of "rds w" "clock w" "se_id s" t payload m None]
  by (auto simp: undecided_def decided_def)

lemma decided_ended:
  "clock w \<le> t \<Longrightarrow> rd_get (rdc E) (rds (decided E s a b matchId payload w)) t (sessionEndedKey sid) =
     rd_get (rdc E) (rds w) t (sessionEndedKey sid)"
  by (simp add: decided_def decided_redis_def redis.unch_simps)

lemma decided_simps [simp]:
  "clock (decided E s a b matchId payload w) = clock w" "db (decided E s a b matchId payload w) = db w"
  by (simp_all add: decided_def)

text \<open>
  The second of two choices: after a PASS, a PASS after a MATCH, two MATCHes. \<open>uid\<close> chose
  first, \<open>p\<close> is the partner.
\<close>

lemma partner_swap:
  assumes "choosing E other view s d w" and "uid \<in> {se_userAId s, se_userBId s}" and "partnerOf s uid = Some p"
  shows "p \<in> {se_userAId s, se_userBId s}" and "partnerOf s p = Some uid" and "p \<noteq> uid"
  using assms by (auto simp: partnerOf_def choosing_def split: if_splits)

lemma after_pass:
  assumes "choosing E other view s d w" and "uid \<in> {se_userAId s, se_userBId s}" and "partnerOf s uid = Some p"
  shows "run_state (submitChoice E (se_id s) p c') (decided E s a b None NonMutual (recorded E (se_id s) uid c d w)) =
      (Inr NonMutual, decided E s a b None NonMutual (recorded E (se_id s) uid c d w))"
    and "parseStoredDecision (rd_get (rdc E) (rds (decided E s a b None NonMutual (recorded E (se_id s) uid c d w)))
      (clock w) (sessionDecisionKey (se_id s))) = Resolved NonMutual"
proof -
  let ?w1 = "recorded E (se_id s) uid c d w"
  let ?w2 = "decided E s a b None NonMutual ?w1"
  have ch: "choosing E other view s d ?w1" by (rule choosing_recorded [OF assms(1)])
  then show dec: "parseStoredDecision (rd_get (rdc E) (rds ?w2) (clock w) (sessionDecisionKey (se_id s))) = Resolved NonMutual"
    using decided_stored [of s ?w1 "clock w"] by (simp add: choosing_def)
  have ended: "rd_get (rdc E) (rds ?w2) (clock ?w2) (sessionEndedKey (se_id s)) = rd_get (rdc E) (rds ?w1) (clock ?w1) (sessionEndedKey (se_id s))"
    using decided_ended [of ?w1 "clock ?w1"] by simp
  have "truthy (rd_get (rdc E) (rds ?w2) (clock ?w2) (sessionEndedKey (se_id s)))"
    unfolding ended using ch by (simp add: choosing_def)
  moreover have "filter (\<lambda>x. se_id x = se_id s) (tb_sessions (view (db ?w2))) = [s]"
    using assms(1) by (simp add: choosing_def)
  ultimately have "run_state (submitChoice E (se_id s) p c') ?w2 = (Inr (enriched E s p (db ?w2) NonMutual), ?w2)"
    using partner_swap(1) [OF assms] dec by (intro submitChoice_decided) simp_all
  then show "run_state (submitChoice E (se_id s) p c') ?w2 = (Inr NonMutual, ?w2)"
    by (simp add: enriched_def)
qed

lemma match_then_pass:
  assumes "choosing E other view s d w" and "uid \<in> {se_userAId s, se_userBId s}" and "partnerOf s uid = Some p"
    and "rd_hget (rdc E) (rds w) (clock w) (sessionChoiceKey (se_id s)) p = None"
  defines "w1 \<equiv> recorded E (se_id s) uid choice_MATCH d w"
  shows "\<exists>w2. run_state (submitChoice E (se_id s) p choice_PASS) w1 = (Inr NonMutual, w2) \<and> db w2 = db w \<and>
    parseStoredDecision (rd_get (rdc E) (rds w2) (clock w) (sessionDecisionKey (se_id s))) = Resolved NonMutual"
proof -
  have ch1: "choosing E other view s d w1" unfolding w1_def by (rule choosing_recorded [OF assms(1)])
  have nc: "CHR '':'' \<notin> set (se_id s)" using assms(1) by (simp add: choosing_def)
  note p = partner_swap [OF assms(1-3)]
  have "rd_hget (rdc E) (rds w1) (clock w1) (sessionChoiceKey (se_id s)) p = None"
    using assms(4) p(3) by (simp add: w1_def recorded_hget [OF nc])
  then obtain a b where 2: "run_state (submitChoice E (se_id s) p choice_PASS) w1 =
      (Inr NonMutual, decided E s a b None NonMutual (recorded E (se_id s) p choice_PASS d w1))"
    using submitChoice_pass [OF ch1 p(1,2), of choice_PASS] by auto
  show ?thesis
    using 2 after_pass(2) [OF ch1 p(1,2), of a b choice_PASS] by (simp add: w1_def)
qed

lemma match_then_match:
  assumes "choosing E other view s d w" and "uid \<in> {se_userAId s, se_userBId s}" and "partnerOf s uid = Some p"
    and "rd_hget (rdc E) (rds w) (clock w) (sessionChoiceKey (se_id s)) p = None"
  defines "w1 \<equiv> recorded E (se_id s) uid choice_MATCH d w"
  shows "\<exists>m w2. run_state (submitChoice E (se_id s) p choice_MATCH) w1 =
      (Inr (enriched E s p (db w2) (Mutual (ma_id m) None)), w2) \<and>
    m \<in> set (tb_matches (view (db w2))) \<and> (ma_userAId m, ma_userBId m) = canonicalPair (se_userAId s) (se_userBId s) \<and>
    parseStoredDecision (rd_get (rdc E) (rds w2) (clock w) (sessionDecisionKey (se_id s))) = Resolved (Mutual (ma_id m) None)"
proof -
  have ch1: "choosing E other view s d w1" unfolding w1_def by (rule choosing_recorded [OF assms(1)])
  have nc: "CHR '':'' \<notin> set (se_id s)" using assms(1) by (simp add: choosing_def)
  note p = partner_swap [OF assms(1-3)]
  let ?w2 = "recorded E (se_id s) p choice_MATCH d w1"
  have h: "rd_hget (rdc E) (rds w1) (clock w1) (sessionChoiceKey (se_id s)) p = None"
    "rd_hget (rdc E) (rds w1) (clock w1) (sessionChoiceKey (se_id s)) uid = Some choice_MATCH"
    using assms(4) p(3) by (simp_all add: w1_def recorded_hget [OF nc])
  obtain m :: match_row and d' where 2: "run_state (submitChoice E (se_id s) p choice_MATCH) w1 =
      (Inr (enriched E s p d' (Mutual (ma_id m) None)),
       decided E s choice_MATCH choice_MATCH (Some (ma_id m)) (Mutual (ma_id m) None) (?w2\<lparr>db := d'\<rparr>))"
    "m \<in> set (tb_matches (view d'))" "(ma_userAId m, ma_userBId m) = canonicalPair (se_userAId s) (se_userBId s)"
    using submitChoice_match [OF ch1 p(1,2) _ h(2)] h(1) by auto
  have "undecided E other (se_id s) (?w2\<lparr>db := d'\<rparr>)"
    using choosing_recorded [OF ch1] by (simp add: choosing_def undecided_def)
  then have "parseStoredDecision (rd_get (rdc E) (rds (decided E s choice_MATCH choice_MATCH (Some (ma_id m))
      (Mutual (ma_id m) None) (?w2\<lparr>db := d'\<rparr>))) (clock w) (sessionDecisionKey (se_id s))) = Resolved (Mutual (ma_id m) None)"
    using decided_stored [of s "?w2\<lparr>db := d'\<rparr>" "clock w"] by (simp add: w1_def)
  with 2 show ?thesis
    by (intro exI [of _ m] exI [of _ "decided E s choice_MATCH choice_MATCH (Some (ma_id m)) (Mutual (ma_id m) None) (?w2\<lparr>db := d'\<rparr>)"])
      simp
qed

text \<open>
  Both participants choose, one after the other: the second one is told the common outcome, and
  it is mutual exactly when both chose MATCH.
\<close>

lemma two_choices:
  assumes "choosing E other view s d w" and "uid \<in> {se_userAId s, se_userBId s}" and "partnerOf s uid = Some p"
    and "rd_hget (rdc E) (rds w) (clock w) (sessionChoiceKey (se_id s)) uid = None"
    and "rd_hget (rdc E) (rds w) (clock w) (sessionChoiceKey (se_id s)) p = None"
    and "c \<in> {choice_MATCH, choice_PASS}" and "c' \<in> {choice_MATCH, choice_PASS}"
  shows "\<exists>r1 w1 w2 v. run_state (submitChoice E (se_id s) uid c) w = (Inr r1, w1) \<and>
    run_state (submitChoice E (se_id s) p c') w1 = (Inr (enriched E s p (db w2) v), w2) \<and>
    r1 = (if c = choice_PASS then NonMutual else Pending (date_iso d)) \<and>
    parseStoredDecision (rd_get (rdc E) (rds w2) (clock w) (sessionDecisionKey (se_id s))) = Resolved v \<and>
    (if c = choice_MATCH \<and> c' = choice_MATCH
     then (\<exists>m \<in> set (tb_matches (view (db w2))). v = Mutual (ma_id m) None \<and>
       (ma_userAId m, ma_userBId m) = canonicalPair (se_userAId s) (se_userBId s))
     else v = NonMutual \<and> db w2 = db w)"
proof (cases "c = choice_PASS")
  case True
  obtain a b where "run_state (submitChoice E (se_id s) uid c) w =
      (Inr NonMutual, decided E s a b None NonMutual (recorded E (se_id s) uid c d w))"
    using submitChoice_pass [OF assms(1-3) _ assms(6)] assms(4) True by auto
  with True after_pass(1) [OF assms(1-3), of c' a b c] after_pass(2) [OF assms(1-3), of a b c] show ?thesis
    by (intro exI [of _ NonMutual] exI [of _ "decided E s a b None NonMutual (recorded E (se_id s) uid c d w)"])
      (simp add: enriched_def choice_PASS_def choice_MATCH_def)
next
  case False
  then have c: "c = choice_MATCH" using assms(6) by simp
  have 1: "run_state (submitChoice E (se_id s) uid c) w = (Inr (Pending (date_iso d)), recorded E (se_id s) uid c d w)"
    using submitChoice_pending [OF assms(1-3) _ assms(5)] assms(4) c by simp
  show ?thesis
  proof (cases "c' = choice_PASS")
    case True
    with 1 c match_then_pass [OF assms(1-3,5)] show ?thesis
      by (auto simp: enriched_def choice_PASS_def choice_MATCH_def)
  next
    case False
    then have "c' = choice_MATCH" using assms(7) by simp
    with 1 c match_then_match [OF assms(1-3,5)] show ?thesis
      by (auto simp: choice_PASS_def choice_MATCH_def)
  qed
qed

end

end
