(* ===== verification/Session_Steps.thy ===== *)
theory Session_Steps
  imports Session_Choice
begin

text \<open>
  The sessions as a transition system (the handlers of \<open>src/src/session/session.service.ts\<close>
  in any order, with time passing in between), the recovery after a restart, and the
  properties of the session service with their witnesses.
\<close>

section \<open>The life of a session as steps\<close>

text \<open>
  What can happen to the sessions of the server, in any order and for any session: a session
  is created, it is ended, a user submits a choice, a timer fires, a key is recovered at the
  start of a server, time passes.
\<close>

inductive session_step :: "('r, 'd) env \<Rightarrow> ('r, 'd) world \<Rightarrow> ('r, 'd) world \<Rightarrow> bool" for E where
  created: "session_step E w (snd (run_state (handleSessionCreated E s) w))"
| ended: "session_step E w (snd (run_state (endSession E s reason) w))"
| chosen: "session_step E w (snd (run_state (submitChoice E sid uid c) w))"
| end_timer: "session_step E w (snd (run_state (fireEndTimer E sid) w))"
| choice_timer: "session_step E w (snd (run_state (fireChoiceTimer E sid) w))"
| recover_end: "session_step E w (snd (run_state (recoverSessionEnd E key) w))"
| recover_choice: "session_step E w (snd (run_state (recoverChoiceTimeout E key) w))"
| passed: "0 \<le> dt \<Longrightarrow> session_step E w (w\<lparr>clock := clock w + dt\<rparr>)"

inductive session_steps :: "('r, 'd) env \<Rightarrow> ('r, 'd) world \<Rightarrow> ('r, 'd) world \<Rightarrow> bool" for E where
  no_step: "session_steps E w w"
| step: "session_steps E w w' \<Longrightarrow> session_step E w' w'' \<Longrightarrow> session_steps E w w''"

inductive_cases session_stepE: "session_step E w w'"

text \<open>Until the time \<open>T\<close>, the decision of \<open>sid\<close> is \<open>v\<close>.\<close>

definition decision_until :: "('r, 'd) env \<Rightarrow> ('r \<Rightarrow> string \<Rightarrow> bool) \<Rightarrow> string \<Rightarrow> choice_result \<Rightarrow> int \<Rightarrow>
  ('r, 'd) world \<Rightarrow> bool" where
  "decision_until E other sid v T w \<longleftrightarrow> (clock w < T \<longrightarrow> \<not> other (rds w) (sessionDecisionKey sid) \<and>
     (\<forall>t. clock w \<le> t \<longrightarrow> t < T \<longrightarrow> parseStoredDecision (rd_get (rdc E) (rds w) t (sessionDecisionKey sid)) = Resolved v))"

lemma touches_timers [touch]:
  "touches E zv sv other K (scheduleSessionEnd sid a b e)" "touches E zv sv other K (scheduleChoiceTimeout sid a b d)"
  "touches E zv sv other K (clearEndTimer sid)" "touches E zv sv other K (clearChoiceTimer sid)"
  "touches E zv sv other K (emitSessionStart uid j)" "touches E zv sv other K (emitSessionEnd uid j)"
  "touches E zv sv other K (emitToUser uid ev j)"
  by (rule touches_pure; simp add: run emitSessionStart_def emitSessionEnd_def emitToUser_def)+

lemma touches_tokens [touch]: "touches E zv sv other K (buildSessionTokens E' sid us)"
proof (rule touches_pure)
  fix w
  obtain x w' where "run_state (buildSessionTokens E' sid us) w = (x, w')" by (cases "run_state (buildSessionTokens E' sid us) w")
  then show "rds (snd (run_state (buildSessionTokens E' sid us) w)) = rds w"
    and "clock (snd (run_state (buildSessionTokens E' sid us) w)) = clock w"
    using buildSessionTokens_run(1) [of E' sid us w x w'] by (simp_all add: same_stores_def)
qed

lemma touches_reveals [touch]:
  "touches E zv sv other K (buildPartnerRevealForUser E' s uid)" "touches E zv sv other K (enrichChoiceResultForUser E' c s uid)"
  "touches E zv sv other K (readStoredDecision E' sid)"
  by (rule touches_pure; simp add: run)+

lemma touches_decision_case [touch]:
  "(\<And>v. x = Resolved v \<Longrightarrow> touches E zv sv other K (f v)) \<Longrightarrow>
   (\<And>v t. x = PendingUntil v t \<Longrightarrow> touches E zv sv other K (g v t)) \<Longrightarrow>
   touches E zv sv other K m \<Longrightarrow> touches E zv sv other K n \<Longrightarrow>
   touches E zv sv other K (case x of NoDecision \<Rightarrow> m | InvalidDecision \<Rightarrow> n | Resolved v \<Rightarrow> f v | PendingUntil v t \<Rightarrow> g v t)"
  by (cases x) simp_all

lemma touches_query_bind:
  "(\<And>d. touches E zv sv other K (f (q d))) \<Longrightarrow> touches E zv sv other K (State_Monad.bind (query q) f)"
  by (simp add: touches_def run)

context backend
begin

lemma endSession_touches:
  "{sessionEndedKey (se_id s), sessionActiveKey (se_userAId s), sessionActiveKey (se_userBId s),
    sessionChoiceDeadlineKey (se_id s)} \<subseteq> K \<Longrightarrow> touches E zv sv other K (endSession E s reason)"
  unfolding endSession_def ensureChoiceDeadline_def by (intro touch) auto

lemma handleSessionCreated_touches:
  "{sessionLockKey (se_id s), sessionStateKey (se_id s), sessionEndedKey (se_id s), sessionActiveKey (se_userAId s),
    sessionActiveKey (se_userBId s), sessionChoiceDeadlineKey (se_id s)} \<subseteq> K \<Longrightarrow>
   touches E zv sv other K (handleSessionCreated E s)"
  unfolding handleSessionCreated_def startSession_def persistSessionState_def
  by (intro touch endSession_touches) auto

lemma finalizeDecision_touches:
  "sessionDecisionKey (se_id s) \<in> K \<Longrightarrow> touches E zv sv other K (finalizeDecision E s a b)"
  unfolding finalizeDecision_def finalizeFrom_def storeDecision_def announceDecision_def upsertMatch_def
    emitMatchMutual_def emitMatchNonMutual_def
  by (intro touch) auto

lemma submitChoice_touches:
  assumes "{sessionDecisionKey sid, sessionChoiceKey sid, sessionChoiceDeadlineKey sid} \<subseteq> K"
  shows "touches E zv sv other K (submitChoice E sid uid c)"
  unfolding submitChoice_def
proof (rule touches_query_bind, goal_cases)
  case (1 d)
  have id: "dg_findFirst (pr_session (prc E)) d (\<lambda>s. se_id s = sid) = Some s \<Longrightarrow> se_id s = sid" for s
    using prisma.session.findFirst_Some [of d "\<lambda>s. se_id s = sid" s] by simp
  show ?case
    using assms unfolding getDecision_def ensureChoiceDeadline_def evaluateFor_def evaluateChoices_def recordChoice_def
    by (intro touch finalizeDecision_touches) (auto dest: id)
qed

lemma recoverSessionEnd_touches:
  "range sessionEndedKey \<union> range sessionActiveKey \<union> range sessionChoiceDeadlineKey \<subseteq> K \<Longrightarrow> touches E zv sv other K (recoverSessionEnd E key)"
  unfolding recoverSessionEnd_def by (intro touch endSession_touches) auto

lemma decision_kept:
  assumes "touches E zv sv other K m" and "sessionDecisionKey sid \<notin> K" and "decision_until E other sid v T w"
  shows "decision_until E other sid v T (snd (run_state m w))"
  using touchesD [OF assms(1), of w] assms(2,3)
  by (auto simp: decision_until_def unch_def)


lemma finalizeDecision_keeps:
  assumes "decision_until E other sid v T w"
  shows "decision_until E other sid v T (snd (run_state (finalizeDecision E s a b) w))"
proof (cases "se_id s = sid")
  case False
  have "touches E zv sv other {sessionDecisionKey (se_id s)} (finalizeDecision E s a b)"
    by (rule finalizeDecision_touches) simp
  then show ?thesis by (rule decision_kept) (use False assms in simp_all)
next
  case same: True
  show ?thesis
  proof (cases "clock w < T")
    case True
    then have "parseStoredDecision (rd_get (rdc E) (rds w) (clock w) (sessionDecisionKey (se_id s))) = Resolved v"
      using assms same by (simp add: decision_until_def)
    then have "snd (run_state (finalizeDecision E s a b) w) = w"
      by (simp add: finalizeDecision_def run finalizeFrom_resolved)
    with assms show ?thesis by simp
  next
    case False
    have "touches E zv sv other {sessionDecisionKey (se_id s)} (finalizeDecision E s a b)"
      by (rule finalizeDecision_touches) simp
    with False show ?thesis by (simp add: decision_until_def touches_def)
  qed
qed

lemma submitChoice_keeps:
  assumes "decision_until E other sid v T w"
  shows "decision_until E other sid v T (snd (run_state (submitChoice E sid' uid c) w))"
proof (cases "sid' = sid \<and> clock w < T")
  case False
  have t: "touches E zv sv other {sessionDecisionKey sid', sessionChoiceKey sid', sessionChoiceDeadlineKey sid'}
      (submitChoice E sid' uid c)"
    by (rule submitChoice_touches) simp
  show ?thesis
  proof (cases "sid' = sid")
    case True
    with False t show ?thesis by (simp add: decision_until_def touches_def)
  next
    case other: False
    show ?thesis using t by (rule decision_kept) (use other assms in simp_all)
  qed
next
  case True
  then have "parseStoredDecision (rd_get (rdc E) (rds w) (clock w) (sessionDecisionKey sid')) = Resolved v"
    using assms by (simp add: decision_until_def)
  then have "snd (run_state (submitChoice E sid' uid c) w) = w"
    by (simp add: submitChoice_def run getDecision_def split: option.split)
  with assms show ?thesis by simp
qed

lemma decision_until_timers:
  "decision_until E other sid v T (w\<lparr>endTimers := x\<rparr>) = decision_until E other sid v T w"
  "decision_until E other sid v T (w\<lparr>choiceTimers := y\<rparr>) = decision_until E other sid v T w"
  by (simp_all add: decision_until_def)

lemma endSession_keeps:
  "decision_until E other sid v T w \<Longrightarrow> decision_until E other sid v T (snd (run_state (endSession E s reason) w))"
  by (rule decision_kept [OF endSession_touches [OF subset_refl]]) simp_all

lemma recoverChoice_keeps:
  assumes "decision_until E other sid v T w"
  shows "decision_until E other sid v T (snd (run_state (recoverChoiceTimeout E key) w))"
  using assms finalizeDecision_keeps [OF assms]
  by (auto simp: recoverChoiceTimeout_def Let_def run resolveSessionParticipants_def decision_until_timers
      case_prod_beta split: stored_decision.splits option.splits sum.split)

lemma session_step_keeps:
  assumes "session_step E w w'" and "decision_until E other sid v T w"
  shows "decision_until E other sid v T w'"
  using assms
proof cases
  case (created s)
  then show ?thesis
    using decision_kept [OF handleSessionCreated_touches [OF subset_refl]] assms(2) by simp
next
  case (ended s reason)
  then show ?thesis using endSession_keeps assms(2) by simp
next
  case (chosen sid' uid c)
  then show ?thesis using submitChoice_keeps assms(2) by simp
next
  case (end_timer sid')
  then show ?thesis
    using endSession_keeps assms(2) by (auto simp: fireEndTimer_def run decision_until_timers split: option.split)
next
  case (choice_timer sid')
  then show ?thesis
    using finalizeDecision_keeps assms(2)
    by (auto simp: fireChoiceTimer_def run decision_until_timers case_prod_beta split: option.split)
next
  case (recover_end key)
  then show ?thesis
    using decision_kept [OF recoverSessionEnd_touches [OF subset_refl]] assms(2) by (auto simp: image_iff)
next
  case (recover_choice key)
  then show ?thesis using recoverChoice_keeps assms(2) by simp
next
  case (passed dt)
  then show ?thesis using assms(2) by (auto simp: decision_until_def)
qed

lemma session_steps_keep:
  "session_steps E w w' \<Longrightarrow> decision_until E other sid v T w \<Longrightarrow> decision_until E other sid v T w'"
  by (induction rule: session_steps.induct) (auto intro: session_step_keeps)

end

section \<open>Recovery\<close>

context backend
begin

lemma recoverSessionEnd_running:
  assumes "parseSessionState (rd_get (rdc E) (rds w) (clock w) key) =
      Some \<lparr>ss_sessionId = sid, ss_userAId = a, ss_userBId = b, ss_endAt = date_iso e\<rparr>"
    and "\<not> truthy (rd_get (rdc E) (rds w) (clock w) (sessionEndedKey sid))" and "valid_time e" and "clock w < e"
  shows "run_state (recoverSessionEnd E key) w = ((), w\<lparr>endTimers := (endTimers w)(sid \<mapsto>
    \<lparr>tm_armed = True, tm_due = e, tm_userA = a, tm_userB = b\<rparr>)\<rparr>)"
  using assms by (simp add: recoverSessionEnd_def run)

lemma recoverSessionEnd_overdue:
  assumes "parseSessionState (rd_get (rdc E) (rds w) (clock w) key) =
      Some \<lparr>ss_sessionId = sid, ss_userAId = a, ss_userBId = b, ss_endAt = date_iso e\<rparr>"
    and "\<not> truthy (rd_get (rdc E) (rds w) (clock w) (sessionEndedKey sid))" and "valid_time e" and "e \<le> clock w"
  shows "run_state (recoverSessionEnd E key) w = run_state (endSession E (buildSyntheticSession sid a b) Timeout) w"
  using assms by (simp add: recoverSessionEnd_def run)

lemma session_recovered:
  assumes "startable E other s w" and "video_ready E s (clock w)"
    and "clock w \<le> t" and "t < clock w + 45000" and "valid_time (clock w + 45000)"
    and "rd_get (rdc E) (rds w) (clock w) (sessionEndedKey (se_id s)) = None"
  defines "w1 \<equiv> snd (run_state (handleSessionCreated E s) w)"
  defines "w2 \<equiv> (snd (run_state onModuleDestroy w1))\<lparr>clock := t\<rparr>"
  shows "endTimers (snd (run_state (recoverSessionEnd E (sessionStateKey (se_id s))) w2)) (se_id s) = endTimers w1 (se_id s)"
proof -
  have "rd_get (rdc E) (rds w) t (sessionEndedKey (se_id s)) = None"
    using assms(3,6) redis.get_expires [of "clock w" t "rds w" "sessionEndedKey (se_id s)"]
    by (cases "rd_get (rdc E) (rds w) t (sessionEndedKey (se_id s))") auto
  then have start: "parseSessionState (rd_get (rdc E) (rds w1) t (sessionStateKey (se_id s))) =
      Some \<lparr>ss_sessionId = se_id s, ss_userAId = se_userAId s, ss_userBId = se_userBId s, ss_endAt = date_iso (clock w + 45000)\<rparr>"
    "rd_get (rdc E) (rds w1) t (sessionEndedKey (se_id s)) = None"
    "endTimers w1 (se_id s) = Some \<lparr>tm_armed = True, tm_due = clock w + 45000, tm_userA = se_userAId s, tm_userB = se_userBId s\<rparr>"
    using session_start [OF assms(1-3)] assms(4) unfolding w1_def by (simp_all add: session_times)
  show ?thesis
    using start assms(4,5) recoverSessionEnd_running [of w2 "sessionStateKey (se_id s)"]
    by (simp add: w2_def onModuleDestroy_def)
qed

lemma submitChoice_guards:
  "((\<forall>s \<in> set (tb_sessions (view (db w))). se_id s \<noteq> sid) \<longrightarrow>
      run_state (submitChoice E sid uid c) w = (Inl (NotFound ''Session not found''), w)) \<and>
   (\<forall>s. filter (\<lambda>x. se_id x = sid) (tb_sessions (view (db w))) = [s] \<longrightarrow> uid \<notin> {se_userAId s, se_userBId s} \<longrightarrow>
      run_state (submitChoice E sid uid c) w = (Inl (Forbidden ''Not a session participant''), w)) \<and>
   (\<forall>s. filter (\<lambda>x. se_id x = sid) (tb_sessions (view (db w))) = [s] \<longrightarrow> uid \<in> {se_userAId s, se_userBId s} \<longrightarrow>
      rd_get (rdc E) (rds w) (clock w) (sessionEndedKey sid) = None \<longrightarrow>
      run_state (submitChoice E sid uid c) w = (Inl (BadRequest ''Session has not ended''), w))"
proof (intro conjI impI allI)
  assume "\<forall>s \<in> set (tb_sessions (view (db w))). se_id s \<noteq> sid"
  then have "dg_findFirst (pr_session (prc E)) (db w) (\<lambda>s. se_id s = sid) = None"
    by (simp add: prisma.session.findFirst_None)
  then show "run_state (submitChoice E sid uid c) w = (Inl (NotFound ''Session not found''), w)"
    by (simp add: submitChoice_def run)
next
  fix s
  assume s: "filter (\<lambda>x. se_id x = sid) (tb_sessions (view (db w))) = [s]" and u: "uid \<notin> {se_userAId s, se_userBId s}"
  show "run_state (submitChoice E sid uid c) w = (Inl (Forbidden ''Not a session participant''), w)"
    using prisma.session.findFirst_unique [OF s] u by (auto simp: submitChoice_def run)
next
  fix s
  assume s: "filter (\<lambda>x. se_id x = sid) (tb_sessions (view (db w))) = [s]" and u: "uid \<in> {se_userAId s, se_userBId s}"
    and e: "rd_get (rdc E) (rds w) (clock w) (sessionEndedKey sid) = None"
  show "run_state (submitChoice E sid uid c) w = (Inl (BadRequest ''Session has not ended''), w)"
    using prisma.session.findFirst_unique [OF s] u e by (auto simp: submitChoice_def run)
qed

lemma fireChoiceTimer_decides:
  assumes "choiceTimers w sid = Some tm" and "tm_armed tm" and "tm_due tm \<le> clock w" and "undecided E other sid w"
    and "clock w \<le> t" and "t < clock w + 7200000"
  defines "w' \<equiv> snd (run_state (fireChoiceTimer E sid) w)"
  shows "parseStoredDecision (rd_get (rdc E) (rds w') t (sessionDecisionKey sid)) = Resolved NonMutual \<and>
    choiceTimers w' sid = None \<and> db w' = db w \<and>
    Emit ''/video'' (userRoom (tm_userA tm)) ''match:non_mutual'' (JObj [(''sessionId'', JStr sid), (''outcome'', JStr ''pass'')]) \<in> set (trace w') \<and>
    Emit ''/video'' (userRoom (tm_userB tm)) ''match:non_mutual'' (JObj [(''sessionId'', JStr sid), (''outcome'', JStr ''pass'')]) \<in> set (trace w')"
proof -
  let ?s = "buildSyntheticSession sid (tm_userA tm) (tm_userB tm)"
  let ?w = "w\<lparr>choiceTimers := (choiceTimers w)(sid \<mapsto> tm\<lparr>tm_armed := False\<rparr>)\<rparr>"
  have s: "se_id ?s = sid" "se_userAId ?s = tm_userA tm" "se_userBId ?s = tm_userB tm"
    by (simp_all add: buildSyntheticSession_def)
  have u: "undecided E other (se_id ?s) ?w" using assms(4) s by (simp add: undecided_def)
  have none: "parseStoredDecision (rd_get (rdc E) (rds w) (clock w) (sessionDecisionKey sid)) = NoDecision"
    using assms(4) by (simp add: undecided_def parseStoredDecision_def)
  have "run_state (finalizeDecision E ?s choice_PASS choice_PASS) ?w =
      (Inr NonMutual, decided E ?s choice_PASS choice_PASS None NonMutual ?w)"
    using finalizeFrom_pass [OF u, of NoDecision choice_PASS choice_PASS] none s
    by (simp add: finalizeDecision_def run choice_PASS_def choice_MATCH_def)
  then have w': "w' = decided E ?s choice_PASS choice_PASS None NonMutual ?w"
    using assms(1-3) by (simp add: w'_def fireChoiceTimer_def run)
  have "parseStoredDecision (rd_get (rdc E) (rds w') t (sessionDecisionKey sid)) = Resolved NonMutual"
    using decided_stored [OF u, of t NonMutual] assms(5,6) s unfolding w' by simp
  then show ?thesis
    unfolding w' by (simp add: decided_def announcement_def s Let_def)
qed

end

section \<open>Properties\<close>

text \<open>
  C7: Starting a session whose start lock is free, on a configured server, stores a session state
  that parses back to this session with its end 45 seconds ahead, makes it the active session of
  both users for an hour, arms its end timer for that moment and changes nothing in the database.
\<close>

theorem session_start_state:
  assumes "backend E zv sv other view" and "startable E other s w" and "video_ready E s (clock w)"
    and "clock w \<le> t" and "t < clock w + SESSION_STATE_TTL_MS"
  shows "let w' = snd (run_state (handleSessionCreated E s) w) in
    parseSessionState (rd_get (rdc E) (rds w') t (sessionStateKey (se_id s))) =
      Some \<lparr>ss_sessionId = se_id s, ss_userAId = se_userAId s, ss_userBId = se_userBId s,
        ss_endAt = date_iso (clock w + 45000)\<rparr> \<and>
    rd_get (rdc E) (rds w') t (sessionActiveKey (se_userAId s)) = Some (se_id s) \<and>
    rd_get (rdc E) (rds w') t (sessionActiveKey (se_userBId s)) = Some (se_id s) \<and>
    rd_get (rdc E) (rds w') t (sessionEndedKey (se_id s)) = rd_get (rdc E) (rds w) t (sessionEndedKey (se_id s)) \<and>
    endTimers w' = (endTimers w)(se_id s \<mapsto> \<lparr>tm_armed = True, tm_due = clock w + 45000,
      tm_userA = se_userAId s, tm_userB = se_userBId s\<rparr>) \<and>
    choiceTimers w' = choiceTimers w \<and> db w' = db w"
  unfolding Let_def by (rule backend.session_start [OF assms])

text \<open>
  A second creation of the same session within the ten seconds of the start lock does nothing
  at all, so a session is started once.
\<close>

theorem session_started_once:
  assumes "backend E zv sv other view" and "startable E other s w" and "video_ready E s (clock w)"
    and "clock w \<le> t" and "t < clock w + 10000"
  shows "let w' = (snd (run_state (handleSessionCreated E s) w))\<lparr>clock := t\<rparr>
    in run_state (handleSessionCreated E s) w' = ((), w')"
  unfolding Let_def by (rule backend.session_start_again [OF assms])

text \<open>
  C9: Ending a session emits the end to both users and records it in analytics exactly once: any
  further end of the session within the hour, for whatever reason, leaves the world as it is.
\<close>

theorem session_ended_once:
  assumes "backend E zv sv other view" and "endable E other s w" and "clock w \<le> t" and "t < clock w + 3600000"
  shows "let w' = (snd (run_state (endSession E s reason) w))\<lparr>clock := t\<rparr>
    in trace w' = trace w @ ended_trace s reason (clock w) \<and> run_state (endSession E s reason') w' = ((), w')"
  unfolding Let_def by (rule backend.session_end_once [OF assms])

text \<open>
  If the video tokens cannot be built, the session is ended at once with the reason
  \<open>token_error\<close>: both users are told, the end flag is stored and no end timer is left.
\<close>

theorem session_token_error_ends:
  assumes "backend E zv sv other view" and "startable E other s w" and "endable E other s w"
    and "getRequiredEnv E ''AGORA_APP_ID'' = Inl e \<or> getRequiredEnv E ''AGORA_APP_CERTIFICATE'' = Inl e"
    and "clock w \<le> t" and "t < clock w + 3600000"
  shows "let w' = snd (run_state (handleSessionCreated E s) w) in
    trace w' = trace w @ ended_trace s TokenError (clock w) \<and>
    rd_get (rdc E) (rds w') t (sessionEndedKey (se_id s)) = Some ''1'' \<and> endTimers w' = (endTimers w)(se_id s := None)"
  unfolding Let_def by (rule backend.session_token_error [OF assms])

text \<open>
  C8: A started session ends by itself: when its timer fires 45 seconds after the start, both
  users are told that it timed out, neither has an active session any more, the end timer is gone
  and the choice timer is armed for one minute later.
\<close>

theorem session_times_out:
  assumes "backend E zv sv other view" and "startable E other s w" and "endable E other s w" and "video_ready E s (clock w)"
    and "\<not> other (rds w) (sessionChoiceDeadlineKey (se_id s))"
    and "rd_get (rdc E) (rds w) (clock w + 45000) (sessionChoiceDeadlineKey (se_id s)) = None"
  shows "let w1 = (snd (run_state (handleSessionCreated E s) w))\<lparr>clock := clock w + 45000\<rparr>;
             w2 = snd (run_state (fireEndTimer E (se_id s)) w1) in
    trace w2 = trace w1 @ ended_trace (buildSyntheticSession (se_id s) (se_userAId s) (se_userBId s)) Timeout (clock w + 45000) \<and>
    rd_get (rdc E) (rds w2) (clock w + 45000) (sessionActiveKey (se_userAId s)) = None \<and>
    rd_get (rdc E) (rds w2) (clock w + 45000) (sessionActiveKey (se_userBId s)) = None \<and>
    endTimers w2 (se_id s) = None \<and>
    choiceTimers w2 (se_id s) = Some \<lparr>tm_armed = True, tm_due = clock w + 45000 + 60000,
      tm_userA = se_userAId s, tm_userB = se_userBId s\<rparr>"
  unfolding Let_def by (rule backend.session_timeout [OF assms])

text \<open>
  A server that restarts while a session runs, and so loses its timers, arms the same end
  timer again from the stored state.
\<close>

theorem session_timer_recovered:
  assumes "backend E zv sv other view" and "startable E other s w" and "video_ready E s (clock w)"
    and "clock w \<le> t" and "t < clock w + 45000" and "valid_time (clock w + 45000)"
    and "rd_get (rdc E) (rds w) (clock w) (sessionEndedKey (se_id s)) = None"
  shows "let w1 = snd (run_state (handleSessionCreated E s) w);
             w2 = (snd (run_state onModuleDestroy w1))\<lparr>clock := t\<rparr>
    in endTimers (snd (run_state (recoverSessionEnd E (sessionStateKey (se_id s))) w2)) (se_id s) = endTimers w1 (se_id s)"
  unfolding Let_def by (rule backend.session_recovered [OF assms])

text \<open>
  C3: The two participants of an ended session choose one after the other. The first one is told
  that the decision is pending, or that it is not mutual if the choice is PASS; the second one
  is told the decision that is then stored, which is mutual exactly when both chose MATCH, and
  then there is a match row of the two users whose identifier it carries.
\<close>

theorem mutual_iff_both_match:
  assumes "backend E zv sv other view" and "choosing E other view s d w"
    and "uid \<in> {se_userAId s, se_userBId s}" and "partnerOf s uid = Some p"
    and "rd_hget (rdc E) (rds w) (clock w) (sessionChoiceKey (se_id s)) uid = None"
    and "rd_hget (rdc E) (rds w) (clock w) (sessionChoiceKey (se_id s)) p = None"
    and "c \<in> {choice_MATCH, choice_PASS}" and "c' \<in> {choice_MATCH, choice_PASS}"
  shows "\<exists>r1 w1 w2 v. run_state (submitChoice E (se_id s) uid c) w = (Inr r1, w1) \<and>
    run_state (submitChoice E (se_id s) p c') w1 = (Inr (enriched E s p (db w2) v), w2) \<and>
    r1 = (if c = choice_PASS then NonMutual else Pending (date_iso d)) \<and>
    parseStoredDecision (rd_get (rdc E) (rds w2) (clock w) (sessionDecisionKey (se_id s))) = Resolved v \<and>
    (if c = choice_MATCH \<and> c' = choice_MATCH
     then (\<exists>m \<in> set (tb_matches (view (db w2))). v = Mutual (ma_id m) None \<and>
       (ma_userAId m, ma_userBId m) = canonicalPair (se_userAId s) (se_userBId s))
     else v = NonMutual \<and> db w2 = db w)"
  by (rule backend.two_choices [OF assms])

text \<open>
  C4: A stored decision is final while it lives: whatever the handlers of the session service do
  for any sessions, in whatever order and with whatever delays, until its time \<open>T\<close> the decision
  read back is the same.
\<close>

theorem decision_is_final:
  assumes "backend E zv sv other view" and "session_steps E w w'" and "decision_until E other sid v T w"
  shows "decision_until E other sid v T w'"
  by (rule backend.session_steps_keep [OF assms])

text \<open>
  C6: Two finalizers that both read that nothing was decided (a choice and the choice timer, or
  two servers) agree: the second returns the decision of the first, whatever choices it was given,
  and announces nothing.
\<close>

theorem racing_finalizers_agree:
  assumes "backend E zv sv other view" and "undecided E other (se_id s) w" and "matches_ok s (view (db w))"
    and "clock w \<le> t" and "t < clock w + 7200000"
  shows "\<exists>v w1 w2. run_state (finalizeFrom E s a b NoDecision) w = (Inr v, w1) \<and>
    run_state (finalizeFrom E s a' b' NoDecision) (w1\<lparr>clock := t\<rparr>) = (Inr v, w2) \<and>
    rds w2 = rds w1 \<and> trace w2 = trace w1 \<and> choiceTimers w2 = choiceTimers w1"
  by (rule backend.finalize_race [OF assms])

text \<open>
  The match row is created before the decision is stored, so a finalizer that saw two MATCH
  choices but loses the race against the timer leaves a match of the two users behind although
  the stored decision, and its own reply, is that there is none.
\<close>

theorem lost_race_leaves_match:
  assumes "backend E zv sv other view" and "undecided E other (se_id s) w" and "matches_ok s (view (db w))"
    and "clock w \<le> t" and "t < clock w + 7200000"
  shows "\<exists>w1 w2. run_state (finalizeFrom E s choice_PASS choice_PASS NoDecision) w = (Inr NonMutual, w1) \<and>
    run_state (finalizeFrom E s choice_MATCH choice_MATCH NoDecision) (w1\<lparr>clock := t\<rparr>) = (Inr NonMutual, w2) \<and>
    (\<exists>m \<in> set (tb_matches (view (db w2))). (ma_userAId m, ma_userBId m) = canonicalPair (se_userAId s) (se_userBId s))"
  by (rule backend.finalize_race_match_row [OF assms])

text \<open>
  \<open>submitChoice\<close> refuses an unknown session, a user who is not one of its two participants
  and a session that has not ended, each with its own error and without changing anything.
\<close>

theorem submitChoice_refuses:
  assumes "backend E zv sv other view"
  shows "((\<forall>s \<in> set (tb_sessions (view (db w))). se_id s \<noteq> sid) \<longrightarrow>
      run_state (submitChoice E sid uid c) w = (Inl (NotFound ''Session not found''), w)) \<and>
   (\<forall>s. filter (\<lambda>x. se_id x = sid) (tb_sessions (view (db w))) = [s] \<longrightarrow> uid \<notin> {se_userAId s, se_userBId s} \<longrightarrow>
      run_state (submitChoice E sid uid c) w = (Inl (Forbidden ''Not a session participant''), w)) \<and>
   (\<forall>s. filter (\<lambda>x. se_id x = sid) (tb_sessions (view (db w))) = [s] \<longrightarrow> uid \<in> {se_userAId s, se_userBId s} \<longrightarrow>
      rd_get (rdc E) (rds w) (clock w) (sessionEndedKey sid) = None \<longrightarrow>
      run_state (submitChoice E sid uid c) w = (Inl (BadRequest ''Session has not ended''), w))"
  by (rule backend.submitChoice_guards [OF assms])

text \<open>
  C39: A session whose participants do not both choose is decided by its timer: when the choice
  timer is due and nothing is decided, the decision becomes not mutual, both users are told, no
  match is made and no timer is left.
\<close>

theorem choice_timer_decides:
  assumes "backend E zv sv other view" and "choiceTimers w sid = Some tm" and "tm_armed tm" and "tm_due tm \<le> clock w"
    and "undecided E other sid w" and "clock w \<le> t" and "t < clock w + 7200000"
  shows "let w' = snd (run_state (fireChoiceTimer E sid) w) in
    parseStoredDecision (rd_get (rdc E) (rds w') t (sessionDecisionKey sid)) = Resolved NonMutual \<and>
    choiceTimers w' sid = None \<and> db w' = db w \<and>
    Emit ''/video'' (userRoom (tm_userA tm)) ''match:non_mutual'' (JObj [(''sessionId'', JStr sid), (''outcome'', JStr ''pass'')]) \<in> set (trace w') \<and>
    Emit ''/video'' (userRoom (tm_userB tm)) ''match:non_mutual'' (JObj [(''sessionId'', JStr sid), (''outcome'', JStr ''pass'')]) \<in> set (trace w')"
  unfolding Let_def by (rule backend.fireChoiceTimer_decides [OF assms])


section \<open>Witnesses\<close>

definition s1 :: session_row where
  "s1 = \<lparr>se_id = ''s1'', se_createdAt = noon, se_userAId = ''a'', se_userBId = ''b'', se_region = None, se_queueKey = None\<rparr>"

definition start_world :: "(inmem, tables) world" where
  "start_world = world_of im_empty no_tables noon"

definition choice_world :: "(inmem, tables) world" where
  "choice_world = world_of (im_empty\<lparr>store := [(sessionEndedKey ''s1'', ''1'')]\<rparr>) (no_tables\<lparr>tb_sessions := [s1]\<rparr>) noon"

lemma s1_simps [simp]: "se_id s1 = ''s1''" "se_userAId s1 = ''a''" "se_userBId s1 = ''b''"
  by (simp_all add: s1_def)

lemma world_simps [simp]:
  "clock start_world = noon" "rds start_world = im_empty" "db start_world = no_tables"
  "clock choice_world = noon" "rds choice_world = im_empty\<lparr>store := [(sessionEndedKey ''s1'', ''1'')]\<rparr>"
  "db choice_world = no_tables\<lparr>tb_sessions := [s1]\<rparr>"
  by (simp_all add: start_world_def choice_world_def world_of_def)

lemma agora_env_clients [simp]: "rdc agora_env = im_redis" "prc agora_env = list_prisma"
  by (simp_all add: agora_env_def)

lemma empty_redis [simp]:
  "fst (im_get im_empty t k) = None" "\<not> im_other im_empty k" "fst (im_hget im_empty t k f) = None"
  by (simp_all add: im_get_eq im_hget_eq im_other_def im_empty_def)

lemma noon_valid: "valid_time (noon + 45000)" "valid_time (noon + 60000)" "valid_time noon"
  by (simp_all add: valid_time_def noon_def)

lemma start_ok:
  "startable agora_env im_other s1 start_world" "endable agora_env im_other s1 start_world"
  "video_ready agora_env s1 (clock start_world)"
  by (simp_all add: startable_def endable_def video_ready_def agora_env_vars small_string_fits) (simp add: noon_def)

lemma choosing_ok: "choosing agora_env im_other (\<lambda>t. t) s1 (noon + 60000) choice_world"
  by (simp add: choosing_def undecided_def im_get_eq im_other_def im_empty_def alive_def sessionEndedKey_def
      sessionDecisionKey_def sessionChoiceDeadlineKey_def choice_deadline_def session_times noon_valid matches_ok_def
      no_tables_def)

lemma session_start_state_witness:
  "parseSessionState (fst (im_get (rds (snd (run_state (handleSessionCreated agora_env s1) start_world))) (noon + 5)
     (sessionStateKey ''s1''))) =
   Some \<lparr>ss_sessionId = ''s1'', ss_userAId = ''a'', ss_userBId = ''b'', ss_endAt = date_iso (noon + 45000)\<rparr>"
  using session_start_state [OF agora_backend start_ok(1,3), of "noon + 5"] by (simp add: Let_def session_times)

lemma session_started_once_witness:
  "run_state (handleSessionCreated agora_env s1)
     ((snd (run_state (handleSessionCreated agora_env s1) start_world))\<lparr>clock := noon + 9999\<rparr>) =
   ((), (snd (run_state (handleSessionCreated agora_env s1) start_world))\<lparr>clock := noon + 9999\<rparr>)"
  using session_started_once [OF agora_backend start_ok(1,3), of "noon + 9999"] by (simp add: Let_def)

lemma session_ended_once_witness:
  "trace (snd (run_state (endSession agora_env s1 Ended) start_world)) = ended_trace s1 Ended noon \<and>
   run_state (endSession agora_env s1 Timeout) ((snd (run_state (endSession agora_env s1 Ended) start_world))\<lparr>clock := noon + 7\<rparr>) =
     ((), (snd (run_state (endSession agora_env s1 Ended) start_world))\<lparr>clock := noon + 7\<rparr>)"
  using session_ended_once [OF agora_backend start_ok(2), of "noon + 7" Ended Timeout]
  by (simp add: Let_def) (simp add: start_world_def world_of_def)

definition bare_env :: "(inmem, tables) env" where
  "bare_env = test_env_of (\<lambda>_. None)"

lemma bare_backend: "backend bare_env im_zv im_sv im_other (\<lambda>t. t)"
  unfolding bare_env_def by (rule test.backend_axioms)

lemma session_token_error_ends_witness:
  "trace (snd (run_state (handleSessionCreated bare_env s1) start_world)) = ended_trace s1 TokenError noon"
proof -
  have "startable bare_env im_other s1 start_world" "endable bare_env im_other s1 start_world"
    by (simp_all add: startable_def endable_def bare_env_def)
  moreover have "getRequiredEnv bare_env ''AGORA_APP_ID'' = Inl (JsError ''AGORA_APP_ID is required for Agora token generation'')"
    by (simp add: getRequiredEnv_def bare_env_def)
  ultimately show ?thesis
    using session_token_error_ends [OF bare_backend _ _ disjI1, of s1 start_world _ noon]
    by (simp add: Let_def) (simp add: start_world_def world_of_def)
qed

lemma session_times_out_witness:
  "endTimers (snd (run_state (fireEndTimer agora_env ''s1'')
     ((snd (run_state (handleSessionCreated agora_env s1) start_world))\<lparr>clock := noon + 45000\<rparr>))) ''s1'' = None"
  using session_times_out [OF agora_backend start_ok] by (simp add: Let_def)

lemma session_timer_recovered_witness:
  "endTimers (snd (run_state (recoverSessionEnd agora_env (sessionStateKey ''s1''))
     ((snd (run_state onModuleDestroy (snd (run_state (handleSessionCreated agora_env s1) start_world))))\<lparr>clock := noon + 100\<rparr>))) ''s1'' =
   endTimers (snd (run_state (handleSessionCreated agora_env s1) start_world)) ''s1''"
  using session_timer_recovered [OF agora_backend start_ok(1,3), of "noon + 100"] by (simp add: Let_def noon_valid)

lemma mutual_iff_both_match_witness:
  "\<exists>r1 w1 r2 w2. run_state (submitChoice agora_env ''s1'' ''a'' choice_MATCH) choice_world = (Inr r1, w1) \<and>
     run_state (submitChoice agora_env ''s1'' ''b'' choice_MATCH) w1 = (Inr r2, w2) \<and>
     r1 = Pending (date_iso (noon + 60000)) \<and> (\<exists>m \<in> set (tb_matches (db w2)). (ma_userAId m, ma_userBId m) = (''a'', ''b''))"
proof -
  have h: "rd_hget (rdc agora_env) (rds choice_world) (clock choice_world) k u = None" for k u
    by (simp add: im_hget_eq im_empty_def)
  have c: "canonicalPair ''a'' ''b'' = (''a'', ''b'')"
    by (simp add: canonicalPair_def)
  show ?thesis
    using mutual_iff_both_match [OF agora_backend choosing_ok, of "''a''" "''b''" choice_MATCH choice_MATCH] h
    by (simp add: partnerOf_def c) (auto simp: choice_PASS_def choice_MATCH_def)
qed

lemma choice_undecided: "undecided agora_env im_other (se_id s1) choice_world" "matches_ok s1 (db choice_world)"
  using choosing_ok by (simp_all add: choosing_def)

lemma racing_finalizers_agree_witness:
  "\<exists>v w1 w2. run_state (finalizeFrom agora_env s1 choice_PASS choice_MATCH NoDecision) choice_world = (Inr v, w1) \<and>
     run_state (finalizeFrom agora_env s1 choice_MATCH choice_MATCH NoDecision) (w1\<lparr>clock := noon + 50\<rparr>) = (Inr v, w2) \<and>
     trace w2 = trace w1"
  using racing_finalizers_agree [OF agora_backend choice_undecided, of "noon + 50" choice_PASS choice_MATCH choice_MATCH choice_MATCH]
  by auto

lemma lost_race_leaves_match_witness:
  "\<exists>w1 w2. run_state (finalizeFrom agora_env s1 choice_PASS choice_PASS NoDecision) choice_world = (Inr NonMutual, w1) \<and>
     run_state (finalizeFrom agora_env s1 choice_MATCH choice_MATCH NoDecision) (w1\<lparr>clock := noon + 50\<rparr>) = (Inr NonMutual, w2) \<and>
     tb_matches (db w2) \<noteq> []"
  using lost_race_leaves_match [OF agora_backend choice_undecided, of "noon + 50"] by fastforce

definition decided_world :: "(inmem, tables) world" where
  "decided_world = world_of (im_empty\<lparr>store := [(sessionDecisionKey ''s1'', json_stringify (decision_json NonMutual))]\<rparr>)
     no_tables noon"

lemma decision_is_final_witness:
  "decision_until agora_env im_other ''s1'' NonMutual (noon + 1000)
     (snd (run_state (submitChoice agora_env ''s1'' ''a'' choice_MATCH) (snd (run_state (endSession agora_env s1 Ended) decided_world))))"
proof -
  have "parseStoredDecision (Some (json_stringify (decision_json NonMutual))) = Resolved NonMutual"
    using parse_decision_json [of NonMutual] by simp
  then have "decision_until agora_env im_other ''s1'' NonMutual (noon + 1000) decided_world"
    by (simp add: decision_until_def decided_world_def world_of_def im_get_eq im_other_def im_empty_def alive_def)
  moreover have "session_steps agora_env decided_world
      (snd (run_state (submitChoice agora_env ''s1'' ''a'' choice_MATCH) (snd (run_state (endSession agora_env s1 Ended) decided_world))))"
    by (rule session_steps.step [OF session_steps.step [OF session_steps.no_step session_step.ended] session_step.chosen])
  ultimately show ?thesis
    using decision_is_final [OF agora_backend] by blast
qed

lemma submitChoice_refuses_witness:
  "run_state (submitChoice agora_env ''s1'' ''c'' choice_PASS) choice_world = (Inl (Forbidden ''Not a session participant''), choice_world) \<and>
   run_state (submitChoice agora_env ''s2'' ''a'' choice_PASS) choice_world = (Inl (NotFound ''Session not found''), choice_world)"
  using submitChoice_refuses [OF agora_backend, of choice_world "''s1''" "''c''" choice_PASS]
    submitChoice_refuses [OF agora_backend, of choice_world "''s2''" "''a''" choice_PASS]
  by simp

lemma choice_timer_decides_witness:
  "choiceTimers (snd (run_state (fireChoiceTimer agora_env ''s1'')
     (choice_world\<lparr>choiceTimers := [''s1'' \<mapsto> \<lparr>tm_armed = True, tm_due = noon, tm_userA = ''a'', tm_userB = ''b''\<rparr>]\<rparr>))) ''s1'' = None"
  using choice_timer_decides [OF agora_backend, of "choice_world\<lparr>choiceTimers := [''s1'' \<mapsto>
      \<lparr>tm_armed = True, tm_due = noon, tm_userA = ''a'', tm_userB = ''b''\<rparr>]\<rparr>" "''s1''" _ noon] choice_undecided(1)
  by (simp add: Let_def undecided_def)

end
