(* ===== verification/Queue.thy ===== *)
theory Queue
  imports Session_Steps
begin

text \<open>
  \<open>src/src/queue/queue.service.ts\<close>: joining and leaving a queue for one token, under a lock
  per user, and the operations the matching worker uses on the queues. A queue is a sorted set
  of users by the time they joined; a user in a queue has an entry with the queue's key. Bodies of
  requests are JSON values; an absent field is \<open>None\<close>.
\<close>

section \<open>Keys\<close>

definition QUEUE_KEYS_SET :: string where "QUEUE_KEYS_SET = ''queue:keys''"
definition LOCK_TTL_MS :: int where "LOCK_TTL_MS = 3000"
definition MATCHED_TTL_MS :: int where "MATCHED_TTL_MS = 60 * 60 * 1000"
definition DEFAULT_QUEUE_CITY :: string where "DEFAULT_QUEUE_CITY = ''canberra''"

definition queueZsetKey :: "string \<Rightarrow> string" where
  "queueZsetKey queueKey = ''queue:zset:'' @ queueKey"

definition userQueueKey :: "string \<Rightarrow> string" where
  "userQueueKey userId = ''queue:user:'' @ userId"

definition userLockKey :: "string \<Rightarrow> string" where
  "userLockKey userId = ''queue:lock:'' @ userId"

definition userMatchedKey :: "string \<Rightarrow> string" where
  "userMatchedKey userId = ''queue:matched:'' @ userId"

definition userBanKey :: "string \<Rightarrow> string" where
  "userBanKey userId = ''moderation:ban:'' @ userId"

section \<open>Cities and preferences\<close>

text \<open>\<open>value.trim().toLowerCase().replace(/[^a-z0-9]+/g, '-').replace(/^-+|-+$/g, '')\<close>.\<close>

definition slug_char :: "char \<Rightarrow> bool" where
  "slug_char c \<longleftrightarrow> (let n = of_char c :: nat in 97 \<le> n \<and> n \<le> 122 \<or> 48 \<le> n \<and> n \<le> 57)"

fun dash_runs :: "bool \<Rightarrow> string \<Rightarrow> string" where
  "dash_runs after [] = []"
| "dash_runs after (c # s) =
    (if slug_char c then c # dash_runs False s
     else if after then dash_runs True s else CHR ''-'' # dash_runs True s)"

definition strip_dashes :: "string \<Rightarrow> string" where
  "strip_dashes s = rev (dropWhile (\<lambda>c. c = CHR ''-'') (rev (dropWhile (\<lambda>c. c = CHR ''-'') s)))"

definition normalizeQueueCity :: "json option \<Rightarrow> string option" where
  "normalizeQueueCity value =
    (case value of
       Some (JStr s) \<Rightarrow>
         (let normalized = strip_dashes (dash_runs False (toLowerCase (trim s)))
          in if length normalized > 0 then Some normalized else None)
     | _ \<Rightarrow> None)"

record queue_join_input =
  qi_city :: "json option"
  qi_region :: "json option"
  qi_preferences :: "(string \<times> json) list option"

definition resolveQueueCity :: "queue_join_input \<Rightarrow> exn + string" where
  "resolveQueueCity input =
    (case qi_city input of
       Some city \<Rightarrow>
         (case normalizeQueueCity (Some city) of
            None \<Rightarrow> Inl (BadRequest ''City must be a non-empty string when provided'')
          | Some c \<Rightarrow> Inr c)
     | None \<Rightarrow>
         (case normalizeQueueCity (qi_region input) of
            None \<Rightarrow> Inr DEFAULT_QUEUE_CITY
          | Some legacyRegion \<Rightarrow> Inr (if legacyRegion = ''au'' then DEFAULT_QUEUE_CITY else legacyRegion)))"

text \<open>
  \<open>stableStringify\<close>: \<open>JSON.stringify\<close> with the keys of an object in order. With a repeated
  key the last value counts; the keys are not escaped.
\<close>

fun stableStringify :: "json \<Rightarrow> string" where
  "stableStringify (JArr items) = ''['' @ join_with '','' (map stableStringify items) @ '']''"
| "stableStringify (JObj kvs) =
    (let texts = map (\<lambda>(k, v). (k, stableStringify v)) kvs;
         keys = sort (remdups (map fst kvs));
         entries = map (\<lambda>k. [CHR 0x22] @ k @ [CHR 0x22] @ '':'' @
           (case map_of (rev texts) k of Some t \<Rightarrow> t | None \<Rightarrow> [])) keys
     in ''{'' @ join_with '','' entries @ ''}'')"
| "stableStringify value = json_stringify value"

definition buildQueueKey :: "('r, 'd) env \<Rightarrow> string \<Rightarrow> (string \<times> json) list option \<Rightarrow> exn + string" where
  "buildQueueKey E cityRaw preferences =
    (case normalizeQueueCity (Some (JStr cityRaw)) of
       None \<Rightarrow> Inl (BadRequest ''City is required'')
     | Some city \<Rightarrow>
         (let stable = stableStringify (JObj (case preferences of None \<Rightarrow> [] | Some p \<Rightarrow> p));
              hash = take 12 (sha256_hex E stable)
          in Inr (city @ '':'' @ hash)))"

section \<open>Queue entries\<close>

record queue_entry =
  qe_queueKey :: string
  qe_joinedAt :: int

definition queue_entry_json :: "string \<Rightarrow> int \<Rightarrow> json" where
  "queue_entry_json queueKey joinedAt = JObj [(''queueKey'', JStr queueKey), (''joinedAt'', JNum joinedAt)]"

definition parseQueueEntryState :: "string option \<Rightarrow> queue_entry option" where
  "parseQueueEntryState raw =
    (case raw of
       None \<Rightarrow> None
     | Some s \<Rightarrow>
         if s = [] then None
         else (case json_parse s of
            None \<Rightarrow> None
          | Some parsed \<Rightarrow>
              (case (json_get_str ''queueKey'' parsed, json_get_num ''joinedAt'' parsed) of
                 (Some k, Some t) \<Rightarrow> if length k = 0 then None else Some \<lparr>qe_queueKey = k, qe_joinedAt = t\<rparr>
               | _ \<Rightarrow> None)))"

section \<open>Locks\<close>

definition acquireLock :: "('r, 'd) env \<Rightarrow> string \<Rightarrow> (('r, 'd) world, string option) prog" where
  "acquireLock E userId = do {
     lockValue \<leftarrow> randomUUID E;
     acquired \<leftarrow> redis_set E (userLockKey userId) lockValue (Some LOCK_TTL_MS) True;
     ret (if acquired then Some lockValue else None) }"

definition releaseLock :: "('r, 'd) env \<Rightarrow> string \<Rightarrow> string \<Rightarrow> (('r, 'd) world, unit) prog" where
  "releaseLock E lockKey lockValue = do {
     redis_eval E unlock_script lockKey lockValue;
     ret () }"

definition withUserLock ::
  "('r, 'd) env \<Rightarrow> string \<Rightarrow> (('r, 'd) world, 'a) fprog \<Rightarrow> (('r, 'd) world, 'a) fprog" where
  "withUserLock E userId fn = do {
     lockValue \<leftarrow> acquireLock E userId;
     case lockValue of
       None \<Rightarrow> throw (Conflict ''Queue operation in progress'')
     | Some v \<Rightarrow> try_finally fn (releaseLock E (userLockKey userId) v) }"

definition releaseUserLocks :: "('r, 'd) env \<Rightarrow> (string \<times> string) list \<Rightarrow> (('r, 'd) world, unit) prog" where
  "releaseUserLocks E locks = forEach locks (\<lambda>(userId, lockValue). releaseLock E (userLockKey userId) lockValue)"

fun lockUsersFrom :: "('r, 'd) env \<Rightarrow> string list \<Rightarrow> (string \<times> string) list \<Rightarrow>
  (('r, 'd) world, (string \<times> string) list option) prog" where
  "lockUsersFrom E [] locks = ret (Some locks)"
| "lockUsersFrom E (userId # us) locks = do {
     lockValue \<leftarrow> acquireLock E userId;
     case lockValue of
       None \<Rightarrow> do { releaseUserLocks E locks; ret None }
     | Some v \<Rightarrow> lockUsersFrom E us (AList.update userId v locks) }"

definition lockUsers :: "('r, 'd) env \<Rightarrow> string list \<Rightarrow> (('r, 'd) world, (string \<times> string) list option) prog" where
  "lockUsers E userIds = lockUsersFrom E userIds []"

section \<open>Joining\<close>

datatype join_status = Queued | AlreadyQueued

record join_result =
  jr_status :: join_status
  jr_queueKey :: string
  jr_position :: "nat option"

text \<open>The reply to a user who has an entry, if the entry can be read.\<close>

definition alreadyQueued :: "('r, 'd) env \<Rightarrow> string \<Rightarrow> (('r, 'd) world, join_result option) prog" where
  "alreadyQueued E userId = do {
     existing \<leftarrow> redis_get E (userQueueKey userId);
     case parseQueueEntryState existing of
       None \<Rightarrow> ret None
     | Some state \<Rightarrow> do {
         position \<leftarrow> redis_zrank E (queueZsetKey (qe_queueKey state)) userId;
         ret (Some \<lparr>jr_status = AlreadyQueued, jr_queueKey = qe_queueKey state, jr_position = position\<rparr>) } }"

definition debitToken :: "('r, 'd) env \<Rightarrow> string \<Rightarrow> (('r, 'd) world, nat) prog" where
  "debitToken E userId = mutate (\<lambda>d. dg_updateMany (pr_user (prc E)) d
     (\<lambda>u. us_id u = userId \<and> us_tokenBalance u \<ge> 1) (\<lambda>u. u\<lparr>us_tokenBalance := us_tokenBalance u - 1\<rparr>))"

definition creditToken :: "('r, 'd) env \<Rightarrow> string \<Rightarrow> (('r, 'd) world, user_row) fprog" where
  "creditToken E userId = mutate (\<lambda>d. dg_update (pr_user (prc E)) d
     (\<lambda>u. us_id u = userId) (\<lambda>u. u\<lparr>us_tokenBalance := us_tokenBalance u + 1\<rparr>))"

text \<open>The transaction on Redis; if it fails, the token is given back before the error goes on.\<close>

definition enqueue :: "('r, 'd) env \<Rightarrow> string \<Rightarrow> string \<Rightarrow> int \<Rightarrow> (('r, 'd) world, unit) fprog" where
  "enqueue E userId queueKey joinedAt =
    try_catch
      (do { results \<leftarrow> redis_exec E
              [CZadd (queueZsetKey queueKey) [(joinedAt, userId)],
               CSet (userQueueKey userId) (json_stringify (queue_entry_json queueKey joinedAt)) None,
               CSadd QUEUE_KEYS_SET [queueKey]];
            if \<not> results then throw (JsError ''Redis transaction failed'') else ok () })
      (\<lambda>error. andThen (creditToken E userId) (\<lambda>_. throw error))"

definition joinLocked ::
  "('r, 'd) env \<Rightarrow> string \<Rightarrow> string \<Rightarrow> string \<Rightarrow> (('r, 'd) world, join_result) fprog" where
  "joinLocked E userId queueCity queueKey = do {
     existing \<leftarrow> alreadyQueued E userId;
     case existing of
       Some r \<Rightarrow> ok r
     | None \<Rightarrow> do {
         updated \<leftarrow> debitToken E userId;
         if updated \<noteq> 1 then throw (BadRequest ''Insufficient token balance'')
         else do {
           joinedAt \<leftarrow> date_now;
           andThen (enqueue E userId queueKey joinedAt) (\<lambda>_. do {
             position \<leftarrow> redis_zrank E (queueZsetKey queueKey) userId;
             emit (Track (Some userId) ''queue_joined'' [(''city'', JStr queueCity), (''queueKey'', JStr queueKey),
               (''status'', JStr ''queued''), (''position'', JNum (case position of None \<Rightarrow> -1 | Some p \<Rightarrow> int p))]);
             emit (Track (Some userId) ''token_spent'' [(''spendReason'', JStr ''queue_entry''), (''amount'', JNum 1),
               (''queueKey'', JStr queueKey)]);
             ok \<lparr>jr_status = Queued, jr_queueKey = queueKey, jr_position = position\<rparr> }) } } }"

definition joinQueue ::
  "('r, 'd) env \<Rightarrow> string \<Rightarrow> queue_join_input \<Rightarrow> (('r, 'd) world, join_result) fprog" where
  "joinQueue E userId input = do {
     banned \<leftarrow> redis_get E (userBanKey userId);
     if truthy banned then throw (Unauthorized ''Account is temporarily suspended'')
     else andThen (ret (resolveQueueCity input)) (\<lambda>queueCity.
       andThen (ret (buildQueueKey E queueCity (qi_preferences input))) (\<lambda>queueKey. do {
         lockValue \<leftarrow> acquireLock E userId;
         case lockValue of
           None \<Rightarrow> do {
             existing \<leftarrow> alreadyQueued E userId;
             case existing of
               Some r \<Rightarrow> ok r
             | None \<Rightarrow> throw (Conflict ''Queue operation in progress'') }
         | Some v \<Rightarrow> try_finally (joinLocked E userId queueCity queueKey)
             (releaseLock E (userLockKey userId) v) })) }"

section \<open>Leaving\<close>

datatype leave_status = Left | NotQueued | AlreadyMatched

record leave_result =
  lr_status :: leave_status
  lr_refunded :: bool
  lr_queueKey :: "string option"

fun leave_status_text :: "leave_status \<Rightarrow> string" where
  "leave_status_text Left = ''left''"
| "leave_status_text NotQueued = ''not_queued''"
| "leave_status_text AlreadyMatched = ''already_matched''"

definition mapQueueLeftReason :: "leave_result \<Rightarrow> string" where
  "mapQueueLeftReason result =
    (if lr_status result = AlreadyMatched then ''matched''
     else if lr_status result = NotQueued then ''system''
     else if lr_refunded result then ''manual'' else ''system'')"

definition trackQueueLeft :: "string \<Rightarrow> leave_result \<Rightarrow> (('r, 'd) world, unit) prog" where
  "trackQueueLeft userId result = emit (Track (Some userId) ''queue_left''
     [(''queueKey'', json_opt (lr_queueKey result)), (''reason'', JStr (mapQueueLeftReason result)),
      (''status'', JStr (leave_status_text (lr_status result))), (''refunded'', JBool (lr_refunded result))])"

definition left_with :: "string \<Rightarrow> leave_result \<Rightarrow> (('r, 'd) world, leave_result) fprog" where
  "left_with userId result = do { trackQueueLeft userId result; ok result }"

definition cleanupQueueKey :: "('r, 'd) env \<Rightarrow> string \<Rightarrow> (('r, 'd) world, unit) prog" where
  "cleanupQueueKey E queueKey = do {
     remaining \<leftarrow> redis_zcard E (queueZsetKey queueKey);
     if remaining = 0 then do { redis_srem E QUEUE_KEYS_SET [queueKey]; ret () } else ret () }"

definition leaveLocked :: "('r, 'd) env \<Rightarrow> string \<Rightarrow> (('r, 'd) world, leave_result) fprog" where
  "leaveLocked E userId = do {
     stateRaw \<leftarrow> redis_get E (userQueueKey userId);
     if \<not> truthy stateRaw then left_with userId \<lparr>lr_status = NotQueued, lr_refunded = False, lr_queueKey = None\<rparr>
     else (case parseQueueEntryState stateRaw of
         None \<Rightarrow> do {
           redis_del E [userQueueKey userId];
           left_with userId \<lparr>lr_status = NotQueued, lr_refunded = False, lr_queueKey = None\<rparr> }
       | Some state \<Rightarrow> do {
           matched \<leftarrow> redis_get E (userMatchedKey userId);
           removed \<leftarrow> redis_zrem E (queueZsetKey (qe_queueKey state)) userId;
           redis_del E [userQueueKey userId];
           cleanupQueueKey E (qe_queueKey state);
           if removed = 1 \<and> \<not> truthy matched
           then andThen (creditToken E userId) (\<lambda>_. do {
             emit (Track (Some userId) ''queue_cancel'' [(''status'', JStr ''refunded'')]);
             left_with userId \<lparr>lr_status = Left, lr_refunded = True, lr_queueKey = Some (qe_queueKey state)\<rparr> })
           else do {
             emit (Track (Some userId) ''queue_cancel''
               [(''status'', JStr (if truthy matched then ''matched_concurrently'' else ''not_refunded''))]);
             left_with userId \<lparr>lr_status = (if truthy matched then AlreadyMatched else Left), lr_refunded = False,
               lr_queueKey = Some (qe_queueKey state)\<rparr> } }) }"

definition leaveQueue :: "('r, 'd) env \<Rightarrow> string \<Rightarrow> (('r, 'd) world, leave_result) fprog" where
  "leaveQueue E userId = withUserLock E userId (leaveLocked E userId)"

section \<open>For the gateway and the worker\<close>

definition getQueuedUserIds :: "('r, 'd) env \<Rightarrow> string \<Rightarrow> (('r, 'd) world, string list) prog" where
  "getQueuedUserIds E queueKey = (if queueKey = [] then ret [] else redis_zrange E (queueZsetKey queueKey) 0 (-1))"

definition getQueueSize :: "('r, 'd) env \<Rightarrow> string \<Rightarrow> (('r, 'd) world, nat) prog" where
  "getQueueSize E queueKey = (if queueKey = [] then ret 0 else redis_zcard E (queueZsetKey queueKey))"

fun countSearching :: "('r, 'd) env \<Rightarrow> string list \<Rightarrow> nat \<Rightarrow> (('r, 'd) world, nat) prog" where
  "countSearching E [] n = ret n"
| "countSearching E (queueKey # ks) n = do {
     k \<leftarrow> redis_zcard E (queueZsetKey queueKey);
     countSearching E ks (n + k) }"

text \<open>The number of users searching, and the placeholder 0 for the active matches.\<close>

definition getGlobalSearchStats :: "('r, 'd) env \<Rightarrow> (('r, 'd) world, nat \<times> nat) prog" where
  "getGlobalSearchStats E = do {
     queueKeys \<leftarrow> redis_smembers E QUEUE_KEYS_SET;
     usersSearching \<leftarrow> countSearching E queueKeys 0;
     ret (usersSearching, 0) }"

record queue_pair =
  qp_userA :: string
  qp_userB :: string
  qp_scoreA :: int
  qp_scoreB :: int

text \<open>The members with a finite score of a reply of \<open>ZPOPMIN\<close>.\<close>

fun requeue_args :: "string list \<Rightarrow> (int \<times> string) list" where
  "requeue_args (member # score # rest) =
    (case js_Number score of Fin s \<Rightarrow> (s, member) # requeue_args rest | _ \<Rightarrow> requeue_args rest)"
| "requeue_args _ = []"

definition popPair :: "('r, 'd) env \<Rightarrow> string \<Rightarrow> (('r, 'd) world, queue_pair option) prog" where
  "popPair E queueKey = do {
     popped \<leftarrow> redis_zpopmin E (queueZsetKey queueKey) 2;
     if length popped < 4
     then (let requeueArgs = requeue_args popped in
       if length popped > 0 \<and> requeueArgs \<noteq> []
       then do { redis_zadd E (queueZsetKey queueKey) requeueArgs; ret None }
       else ret None)
     else ret (Some \<lparr>qp_userA = popped ! 0, qp_userB = popped ! 2,
       qp_scoreA = fin_value (js_Number (popped ! 1)), qp_scoreB = fin_value (js_Number (popped ! 3))\<rparr>) }"

definition isPairBlocked :: "('r, 'd) env \<Rightarrow> string \<Rightarrow> string \<Rightarrow> (('r, 'd) world, bool) prog" where
  "isPairBlocked E a b = do {
     block \<leftarrow> query (\<lambda>d. dg_findFirst (pr_block (prc E)) d (\<lambda>x. bl_liftedAt x = None \<and>
       (bl_blockerId x = a \<and> bl_blockedId x = b \<or> bl_blockerId x = b \<and> bl_blockedId x = a)));
     ret (block \<noteq> None) }"

definition deferBlockedPair :: "('r, 'd) env \<Rightarrow> string \<Rightarrow> queue_pair \<Rightarrow> (('r, 'd) world, unit) prog" where
  "deferBlockedPair E queueKey pair = do {
     now \<leftarrow> date_now;
     let scoreBase = now + 5000;
     redis_zadd E (queueZsetKey queueKey) [(scoreBase, qp_userA pair), (scoreBase + 1, qp_userB pair)];
     ret () }"

definition validatePair ::
  "('r, 'd) env \<Rightarrow> string \<Rightarrow> queue_pair \<Rightarrow> (('r, 'd) world, (string \<times> string) option) prog" where
  "validatePair E queueKey pair = do {
     raws \<leftarrow> redis_mget E [userQueueKey (qp_userA pair), userQueueKey (qp_userB pair)];
     let userAInQueue = (map_option qe_queueKey (parseQueueEntryState (raws ! 0)) = Some queueKey);
     let userBInQueue = (map_option qe_queueKey (parseQueueEntryState (raws ! 1)) = Some queueKey);
     if \<not> userAInQueue \<and> \<not> userBInQueue then ret None
     else if \<not> userAInQueue
     then do { redis_zadd E (queueZsetKey queueKey) [(qp_scoreB pair, qp_userB pair)]; ret None }
     else if \<not> userBInQueue
     then do { redis_zadd E (queueZsetKey queueKey) [(qp_scoreA pair, qp_userA pair)]; ret None }
     else do {
       blocked \<leftarrow> isPairBlocked E (qp_userA pair) (qp_userB pair);
       if blocked then do { deferBlockedPair E queueKey pair; ret None }
       else ret (Some (qp_userA pair, qp_userB pair)) } }"

definition new_session :: "string \<Rightarrow> string \<Rightarrow> string \<Rightarrow> int \<Rightarrow> string \<Rightarrow> session_row" where
  "new_session a b queueKey now i = \<lparr>se_id = i, se_createdAt = now, se_userAId = a, se_userBId = b,
     se_region = Some (hd (split_on CHR '':'' queueKey)), se_queueKey = Some queueKey\<rparr>"

text \<open>The start of the session is not awaited: the call is an effect.\<close>

definition createSession ::
  "('r, 'd) env \<Rightarrow> string \<Rightarrow> string \<Rightarrow> string \<Rightarrow> (('r, 'd) world, session_row) fprog" where
  "createSession E userAId userBId queueKey = do {
     now \<leftarrow> date_now;
     andThen (mutate (\<lambda>d. dg_create (pr_session (prc E)) d (new_session userAId userBId queueKey now)))
       (\<lambda>session. do {
         emit (SessionCreated session);
         ok session }) }"

definition markMatched :: "('r, 'd) env \<Rightarrow> string \<Rightarrow> string \<Rightarrow> string \<Rightarrow> (('r, 'd) world, unit) prog" where
  "markMatched E userAId userBId sessionId = do {
     redis_exec E [CDel [userQueueKey userAId, userQueueKey userBId],
       CSet (userMatchedKey userAId) sessionId (Some MATCHED_TTL_MS),
       CSet (userMatchedKey userBId) sessionId (Some MATCHED_TTL_MS)];
     ret () }"

definition requeuePair :: "('r, 'd) env \<Rightarrow> string \<Rightarrow> queue_pair \<Rightarrow> (('r, 'd) world, unit) prog" where
  "requeuePair E queueKey pair = do {
     redis_zadd E (queueZsetKey queueKey) [(qp_scoreA pair, qp_userA pair), (qp_scoreB pair, qp_userB pair)];
     ret () }"

end
