(* ===== verification/Gateways.thy ===== *)
theory Gateways
  imports Security_Config Queue
begin

text \<open>
  The sockets: who may connect (the same code in \<open>src/src/queue/queue.gateway.ts\<close>,
  \<open>src/src/chat/chat.gateway.ts\<close> and \<open>src/src/video/video.gateway.ts\<close>) and what the gateway
  of the queue tells the users. \<open>verify token secret\<close> is the verification of the JWT
  package: the payload, or \<open>None\<close> when it throws.
\<close>

section \<open>Connecting\<close>

text \<open>The header \<open>authorization\<close> and the field \<open>auth.token\<close> of a handshake.\<close>

record handshake =
  hs_authorization :: "json option"
  hs_token :: "json option"

definition extractToken :: "handshake \<Rightarrow> string option" where
  "extractToken handshake =
    (case hs_authorization handshake of
       Some (JStr h) \<Rightarrow>
         if startsWith h ''Bearer '' then Some (drop 7 h)
         else (case hs_token handshake of Some (JStr t) \<Rightarrow> Some t | _ \<Rightarrow> None)
     | _ \<Rightarrow> (case hs_token handshake of Some (JStr t) \<Rightarrow> Some t | _ \<Rightarrow> None))"

text \<open>A socket is disconnected, or it belongs to a user and has joined the room of the user.\<close>

datatype connection = Disconnected | Connected string string

definition handleConnection ::
  "('r, 'd) env \<Rightarrow> (string \<Rightarrow> string \<Rightarrow> json option) \<Rightarrow> handshake \<Rightarrow> connection" where
  "handleConnection E verify client =
    (let token = extractToken client
     in if \<not> truthy token then Disconnected
        else (case getAccessTokenSecret E of
            Inl error \<Rightarrow> Disconnected
          | Inr secret \<Rightarrow>
              (case verify (the token) secret of
                 None \<Rightarrow> Disconnected
               | Some payload \<Rightarrow>
                   (case json_get ''sub'' payload of
                      Some (JStr sub) \<Rightarrow> if sub = [] then Disconnected else Connected sub (userRoom sub)
                    | _ \<Rightarrow> Disconnected))))"

section \<open>The gateway of the queue\<close>

definition buildPartnerAnonymousId :: "('r, 'd) env \<Rightarrow> string \<Rightarrow> string \<Rightarrow> string" where
  "buildPartnerAnonymousId E sessionId userId = ''anon_'' @ take 12 (sha256_hex E (sessionId @ '':'' @ userId))"

definition match_payload :: "session_row \<Rightarrow> string \<Rightarrow> json" where
  "match_payload session anonId = JObj [(''sessionId'', JStr (se_id session)), (''partnerAnonymousId'', JStr anonId),
     (''queueKey'', json_opt (se_queueKey session)), (''matchedAt'', JStr (date_iso (se_createdAt session)))]"

definition emitMatch :: "('r, 'd) env \<Rightarrow> string \<Rightarrow> string \<Rightarrow> session_row \<Rightarrow> (('r, 'd) world, unit) prog" where
  "emitMatch E userAId userBId session = do {
     let partnerAnonIdForA = buildPartnerAnonymousId E (se_id session) userBId;
     let partnerAnonIdForB = buildPartnerAnonymousId E (se_id session) userAId;
     emit (Emit ''/queue'' (userRoom userAId) ''match'' (match_payload session partnerAnonIdForA));
     emit (Emit ''/queue'' (userRoom userBId) ''match'' (match_payload session partnerAnonIdForB)) }"

definition emitQueueStatus :: "('r, 'd) env \<Rightarrow> string \<Rightarrow> (('r, 'd) world, unit) prog" where
  "emitQueueStatus E queueKey =
    (if queueKey = [] then ret ()
     else do {
       userIds \<leftarrow> getQueuedUserIds E queueKey;
       if userIds = [] then ret ()
       else do {
         usersSearching \<leftarrow> getQueueSize E queueKey;
         forEach userIds (\<lambda>userId. emit (Emit ''/queue'' (userRoom userId) ''queue:status''
           (JObj [(''usersSearching'', JNum (int usersSearching))]))) } })"

text \<open>
  \<open>handleDisconnect\<close> of the queue: the user of the socket, if it has one, and the number of
  sockets left in the room of the user. An error of \<open>leaveQueue\<close> is logged and dropped.
\<close>

definition handleDisconnect ::
  "('r, 'd) env \<Rightarrow> string option \<Rightarrow> nat \<Rightarrow> (('r, 'd) world, unit) prog" where
  "handleDisconnect E userId remainingConnections =
    (if \<not> truthy userId then ret ()
     else if remainingConnections > 0 then ret ()
     else do {
       result \<leftarrow> leaveQueue E (the userId);
       case result of
         Inl error \<Rightarrow> ret ()
       | Inr r \<Rightarrow> if truthy (lr_queueKey r) then emitQueueStatus E (the (lr_queueKey r)) else ret () })"

end
