(* ===== verification/Queue_Laws.thy ===== *)
theory Queue_Laws
  imports Queue
begin

text \<open>
  The laws of the operations of \<open>src/src/queue/queue.service.ts\<close>: locks, the balance of the
  user, joining and leaving, and the pairs the worker takes.
\<close>

section \<open>Keys\<close>

lemma queue_key_inject [simp]:
  "queueZsetKey a = queueZsetKey b \<longleftrightarrow> a = b" "userQueueKey a = userQueueKey b \<longleftrightarrow> a = b"
  "userLockKey a = userLockKey b \<longleftrightarrow> a = b" "userMatchedKey a = userMatchedKey b \<longleftrightarrow> a = b"
  "userBanKey a = userBanKey b \<longleftrightarrow> a = b"
  by (simp_all add: queueZsetKey_def userQueueKey_def userLockKey_def userMatchedKey_def userBanKey_def)

lemma queue_key_distinct [simp]:
  "queueZsetKey a \<noteq> userQueueKey b" "queueZsetKey a \<noteq> userLockKey b" "queueZsetKey a \<noteq> userMatchedKey b"
  "queueZsetKey a \<noteq> userBanKey b" "queueZsetKey a \<noteq> QUEUE_KEYS_SET"
  "userQueueKey a \<noteq> queueZsetKey b" "userQueueKey a \<noteq> userLockKey b" "userQueueKey a \<noteq> userMatchedKey b"
  "userQueueKey a \<noteq> userBanKey b" "userQueueKey a \<noteq> QUEUE_KEYS_SET"
  "userLockKey a \<noteq> queueZsetKey b" "userLockKey a \<noteq> userQueueKey b" "userLockKey a \<noteq> userMatchedKey b"
  "userLockKey a \<noteq> userBanKey b" "userLockKey a \<noteq> QUEUE_KEYS_SET"
  "userMatchedKey a \<noteq> queueZsetKey b" "userMatchedKey a \<noteq> userQueueKey b" "userMatchedKey a \<noteq> userLockKey b"
  "userMatchedKey a \<noteq> userBanKey b" "userMatchedKey a \<noteq> QUEUE_KEYS_SET"
  "userBanKey a \<noteq> queueZsetKey b" "userBanKey a \<noteq> userQueueKey b" "userBanKey a \<noteq> userLockKey b"
  "userBanKey a \<noteq> userMatchedKey b" "userBanKey a \<noteq> QUEUE_KEYS_SET"
  "QUEUE_KEYS_SET \<noteq> queueZsetKey a" "QUEUE_KEYS_SET \<noteq> userQueueKey a" "QUEUE_KEYS_SET \<noteq> userLockKey a"
  "QUEUE_KEYS_SET \<noteq> userMatchedKey a" "QUEUE_KEYS_SET \<noteq> userBanKey a"
  by (simp_all add: queueZsetKey_def userQueueKey_def userLockKey_def userMatchedKey_def userBanKey_def QUEUE_KEYS_SET_def)

section \<open>Locks and the balance of a user\<close>

text \<open>The user \<open>uid\<close> has the row \<open>u\<close>, and no other user has its phone or email.\<close>

definition account :: "string \<Rightarrow> user_row \<Rightarrow> tables \<Rightarrow> bool" where
  "account uid u d \<longleftrightarrow> filter (\<lambda>x. us_id x = uid) (tb_users d) = [u] \<and>
     (\<forall>x \<in> set (tb_users d). us_id x \<noteq> uid \<longrightarrow> \<not> uq_user x u)"

definition add_tokens :: "int \<Rightarrow> user_row \<Rightarrow> user_row" where
  "add_tokens n u = u\<lparr>us_tokenBalance := us_tokenBalance u + n\<rparr>"

text \<open>The database after \<open>n\<close> tokens were added to the balance of \<open>uid\<close>.\<close>

definition paid :: "string \<Rightarrow> int \<Rightarrow> tables \<Rightarrow> tables" where
  "paid uid n d = tb_users_update (update_rows (\<lambda>u. us_id u = uid) (add_tokens n)) d"

lemma add_tokens_simps [simp]:
  "us_id (add_tokens n u) = us_id u" "us_tokenBalance (add_tokens n u) = us_tokenBalance u + n"
  "us_phone (add_tokens n u) = us_phone u" "us_email (add_tokens n u) = us_email u"
  "add_tokens m (add_tokens n u) = add_tokens (n + m) u" "add_tokens 0 u = u"
  by (simp_all add: add_tokens_def)

lemma uq_add_tokens [simp]: "uq_user x (add_tokens n u) = uq_user x u" "uq_user (add_tokens n x) u = uq_user x u"
  "uq_user x (u\<lparr>us_tokenBalance := k\<rparr>) = uq_user x u"
  by (simp_all add: uq_user_def)

lemma paid_paid [simp]: "paid uid m (paid uid n d) = paid uid (n + m) d"
  by (simp add: paid_def update_rows_def comp_def cong: if_cong)

lemma paid_0 [simp]: "paid uid 0 d = d"
proof -
  have "update_rows (\<lambda>u. us_id u = uid) (add_tokens 0) = (\<lambda>us. us)"
    by (simp add: fun_eq_iff update_rows_def cong: if_cong)
  then show ?thesis by (simp add: paid_def)
qed

lemma filter_update_rows:
  "(\<And>r. p r \<Longrightarrow> q (f r) = q r) \<Longrightarrow> filter q (update_rows p f rs) = update_rows p f (filter q rs)"
  by (induction rs) auto

lemma account_paid: "account uid u d \<Longrightarrow> account uid (add_tokens n u) (paid uid n d)"
  by (auto simp: account_def paid_def filter_update_rows set_update_rows)
    (metis (mono_tags, lifting) filter_eq_Cons_iff list.set_intros(1) mem_Collect_eq)

lemma accountD: "account uid u d \<Longrightarrow> us_id u = uid \<and> u \<in> set (tb_users d)"
proof -
  assume "account uid u d"
  then have "u \<in> set (filter (\<lambda>x. us_id x = uid) (tb_users d))" by (simp add: account_def)
  then show ?thesis by simp
qed

lemma filter_single_conj:
  "filter p xs = [r] \<Longrightarrow> filter (\<lambda>x. p x \<and> q x) xs = (if q r then [r] else [])"
  by (metis filter.simps filter_filter)

definition lock_redis :: "('r, 'd) env \<Rightarrow> string \<Rightarrow> ('r, 'd) world \<Rightarrow> 'r" where
  "lock_redis E uid w = snd (rd_set (rdc E) (rds w) (clock w) (userLockKey uid) (random_uuid E (uuids w)) (Some LOCK_TTL_MS) True)"

context backend
begin

lemma creditToken_run:
  assumes "account uid u (view (db w))"
  shows "\<exists>d. run_state (creditToken E uid) w = (Inr (add_tokens 1 u), w\<lparr>db := d\<rparr>) \<and> view d = paid uid 1 (view (db w))"
proof -
  let ?f = "\<lambda>u. u\<lparr>us_tokenBalance := us_tokenBalance u + 1\<rparr>"
  have f: "?f = add_tokens 1" by (simp add: fun_eq_iff add_tokens_def)
  have "fst (dg_update (pr_user (prc E)) (db w) (\<lambda>x. us_id x = uid) ?f) = Inr (?f u) \<and>
      view (snd (dg_update (pr_user (prc E)) (db w) (\<lambda>x. us_id x = uid) ?f)) =
      tb_users_update (update_rows (\<lambda>x. us_id x = uid) ?f) (view (db w))"
    using assms by (intro prisma.user.update_ok) (auto simp: account_def f)
  then show ?thesis by (auto simp: creditToken_def run paid_def f) (simp add: add_tokens_def)
qed

lemma debitToken_run:
  assumes "account uid u (view (db w))"
  shows "\<exists>d. run_state (debitToken E uid) w = (if 1 \<le> us_tokenBalance u then 1 else 0, w\<lparr>db := d\<rparr>) \<and>
    view d = (if 1 \<le> us_tokenBalance u then paid uid (-1) (view (db w)) else view (db w))"
proof -
  let ?f = "\<lambda>u. u\<lparr>us_tokenBalance := us_tokenBalance u - 1\<rparr>"
  let ?p = "\<lambda>u. us_id u = uid \<and> us_tokenBalance u \<ge> 1"
  let ?D = "pr_user (prc E)" and ?us = "tb_users (view (db w))"
  have f: "?f = add_tokens (-1)" by (simp add: fun_eq_iff add_tokens_def)
  have one: "filter (\<lambda>x. us_id x = uid) ?us = [u]" using assms by (simp add: account_def)
  have "fst (dg_updateMany ?D (db w) ?p ?f) = count_rows ?p ?us \<and>
      view (snd (dg_updateMany ?D (db w) ?p ?f)) = tb_users_update (update_rows ?p ?f) (view (db w))"
    by (rule prisma.user.updateMany) (simp add: f)
  moreover have "count_rows ?p ?us = (if 1 \<le> us_tokenBalance u then 1 else 0)"
    by (simp add: count_rows_def filter_single_conj [OF one])
  moreover have "update_rows ?p ?f ?us = (if 1 \<le> us_tokenBalance u then update_rows (\<lambda>x. us_id x = uid) ?f ?us else ?us)"
  proof -
    have "us_id x = uid \<Longrightarrow> x \<in> set ?us \<Longrightarrow> x = u" for x
    proof -
      assume "us_id x = uid" "x \<in> set ?us"
      then have "x \<in> set (filter (\<lambda>x. us_id x = uid) ?us)" by simp
      then show "x = u" unfolding one by simp
    qed
    then show ?thesis by (auto simp: update_rows_def intro!: map_idI)
  qed
  ultimately show ?thesis
    by (cases "view (db w)") (auto simp: debitToken_def run paid_def f)
qed


text \<open>The Redis state with the lock of \<open>uid\<close> taken, and with a lock given back.\<close>

lemma acquireLock_run:
  assumes "\<not> other (rds w) (userLockKey uid)"
  defines "v \<equiv> random_uuid E (uuids w)"
  shows "run_state (acquireLock E uid) w = (case rd_get (rdc E) (rds w) (clock w) (userLockKey uid) of
      None \<Rightarrow> (Some v, w\<lparr>rds := lock_redis E uid w, uuids := Suc (uuids w)\<rparr>)
    | Some _ \<Rightarrow> (None, w\<lparr>uuids := Suc (uuids w)\<rparr>))"
  using assms(1) redis.nx_taken [of "rds w" "userLockKey uid" "clock w"]
  by (auto simp: acquireLock_def run v_def lock_redis_def redis.nx_reply split: option.split)

lemma lock_redis_facts:
  assumes "\<not> other (rds w) (userLockKey uid)" and "rd_get (rdc E) (rds w) (clock w) (userLockKey uid) = None"
  shows "rd_get (rdc E) (lock_redis E uid w) (clock w) (userLockKey uid) = Some (random_uuid E (uuids w))"
    and "\<not> other (lock_redis E uid w) (userLockKey uid)"
    and "unch (rdc E) zv sv other (clock w) {userLockKey uid} (rds w) (lock_redis E uid w)"
  using assms redis.nx_get [of "rds w" "userLockKey uid" "clock w"] redis.set_other redis.set_unch
  by (auto simp: lock_redis_def LOCK_TTL_MS_def)

lemma releaseLock_holder:
  assumes "rd_get (rdc E) (rds w) (clock w) (userLockKey uid) = Some v"
  shows "run_state (releaseLock E (userLockKey uid) v) w = ((), w\<lparr>rds := snd (rd_del (rdc E) (rds w) (clock w) [userLockKey uid])\<rparr>)"
  using assms by (simp add: releaseLock_def run redis.eval_hit)

end

section \<open>Joining\<close>

definition join_commands :: "string \<Rightarrow> string \<Rightarrow> int \<Rightarrow> redis_command list" where
  "join_commands uid key t = [CZadd (queueZsetKey key) [(t, uid)],
     CSet (userQueueKey uid) (json_stringify (queue_entry_json key t)) None, CSadd QUEUE_KEYS_SET [key]]"

lemma parse_queue_entry_json [simp]:
  "key \<noteq> [] \<Longrightarrow> parseQueueEntryState (Some (json_stringify (queue_entry_json key t))) = Some \<lparr>qe_queueKey = key, qe_joinedAt = t\<rparr>"
  using json_stringify_hd [of "queue_entry_json key t"]
  by (auto simp: parseQueueEntryState_def) (simp add: queue_entry_json_def json_get_str_def json_get_num_def)

lemma parse_entry_truthy: "parseQueueEntryState x = Some s \<Longrightarrow> truthy x"
  by (cases x) (auto simp: parseQueueEntryState_def)

text \<open>The user \<open>uid\<close> waits in the queue \<open>key\<close> since \<open>j\<close>.\<close>

definition waiting :: "('r, 'd) env \<Rightarrow> ('r \<Rightarrow> int \<Rightarrow> string \<Rightarrow> (string \<times> int) list) \<Rightarrow>
  string \<Rightarrow> string \<Rightarrow> int \<Rightarrow> 'r \<Rightarrow> int \<Rightarrow> bool" where
  "waiting E zv uid key j r t \<longleftrightarrow> map_of (zv r t (queueZsetKey key)) uid = Some j \<and>
     (\<forall>t' \<ge> t. parseQueueEntryState (rd_get (rdc E) r t' (userQueueKey uid)) = Some \<lparr>qe_queueKey = key, qe_joinedAt = j\<rparr>)"

context backend
begin

lemma joined_redis:
  assumes "fst (rd_exec (rdc E) r t (join_commands uid key t))" and "key \<noteq> []"
  defines "r' \<equiv> snd (rd_exec (rdc E) r t (join_commands uid key t))"
  shows "waiting E zv uid key t r' t"
    and "map_of (zv r' t (queueZsetKey key)) = (map_of (zv r t (queueZsetKey key)))(uid \<mapsto> t)"
    and "sv r' t QUEUE_KEYS_SET = sv r t QUEUE_KEYS_SET \<union> {key}"
    and "unch (rdc E) zv sv other t {queueZsetKey key, userQueueKey uid, QUEUE_KEYS_SET} r r'"
proof -
  have r': "r' = foldl (run_command (rdc E) t) r (join_commands uid key t)"
    using assms(1) unfolding r'_def by (rule redis.exec_ok)
  show zv: "map_of (zv r' t (queueZsetKey key)) = (map_of (zv r t (queueZsetKey key)))(uid \<mapsto> t)"
    by (simp add: r' join_commands_def run_command_def redis.unch_zv redis.zadd_zv)
  have "rd_get (rdc E) r' t' (userQueueKey uid) = Some (json_stringify (queue_entry_json key t))" if "t \<le> t'" for t'
    using that by (simp add: r' join_commands_def run_command_def redis.unch_get redis.set_get)
  with zv assms(2) show "waiting E zv uid key t r' t" by (simp add: waiting_def)
  show "sv r' t QUEUE_KEYS_SET = sv r t QUEUE_KEYS_SET \<union> {key}"
    by (simp add: r' join_commands_def run_command_def redis.unch_sv redis.sadd_sv)
  show "unch (rdc E) zv sv other t {queueZsetKey key, userQueueKey uid, QUEUE_KEYS_SET} r r'"
    unfolding r' by (rule run_commands_unch) (simp add: join_commands_def)
qed


lemma alreadyQueued_none:
  "parseQueueEntryState (rd_get (rdc E) (rds w) (clock w) (userQueueKey uid)) = None \<Longrightarrow>
   run_state (alreadyQueued E uid) w = (None, w)"
  by (simp add: alreadyQueued_def run)

lemma alreadyQueued_some:
  "parseQueueEntryState (rd_get (rdc E) (rds w) (clock w) (userQueueKey uid)) = Some s \<Longrightarrow>
   run_state (alreadyQueued E uid) w = (Some \<lparr>jr_status = AlreadyQueued, jr_queueKey = qe_queueKey s,
     jr_position = rank_of (map fst (zv (rds w) (clock w) (queueZsetKey (qe_queueKey s)))) uid\<rparr>, w)"
  by (simp add: alreadyQueued_def run redis.zrank)

lemma waiting_rank:
  "waiting E zv uid key j r t \<Longrightarrow> rank_of (map fst (zv r t (queueZsetKey key))) uid \<noteq> None"
  by (auto simp: waiting_def rank_of_def dest!: map_of_SomeD intro!: rev_image_eqI)

lemma joinLocked_queued:
  assumes "parseQueueEntryState (rd_get (rdc E) (rds w) (clock w) (userQueueKey uid)) = None"
    and "account uid u (view (db w))" and "1 \<le> us_tokenBalance u" and "key \<noteq> []"
    and "fst (rd_exec (rdc E) (rds w) (clock w) (join_commands uid key (clock w)))"
  defines "r' \<equiv> snd (rd_exec (rdc E) (rds w) (clock w) (join_commands uid key (clock w)))"
  shows "\<exists>d tr. run_state (joinLocked E uid city key) w =
      (Inr \<lparr>jr_status = Queued, jr_queueKey = key, jr_position = rank_of (map fst (zv r' (clock w) (queueZsetKey key))) uid\<rparr>,
       w\<lparr>rds := r', db := d, trace := trace w @ tr\<rparr>) \<and>
    view d = paid uid (-1) (view (db w))"
proof -
  obtain d where d: "run_state (debitToken E uid) w = (1, w\<lparr>db := d\<rparr>)" "view d = paid uid (-1) (view (db w))"
    using debitToken_run [OF assms(2)] assms(3) by auto
  show ?thesis
    using assms(5) by (simp add: joinLocked_def run alreadyQueued_none [OF assms(1)] d enqueue_def
        join_commands_def [symmetric] r'_def redis.zrank world_order)
      (intro exI conjI, rule refl, rule d(2))
qed

lemma joinLocked_exec_fails:
  assumes "parseQueueEntryState (rd_get (rdc E) (rds w) (clock w) (userQueueKey uid)) = None"
    and "account uid u (view (db w))" and "1 \<le> us_tokenBalance u"
    and "\<not> fst (rd_exec (rdc E) (rds w) (clock w) (join_commands uid key (clock w)))"
  defines "r' \<equiv> snd (rd_exec (rdc E) (rds w) (clock w) (join_commands uid key (clock w)))"
  shows "\<exists>d. run_state (joinLocked E uid city key) w = (Inl (JsError ''Redis transaction failed''), w\<lparr>rds := r', db := d\<rparr>) \<and>
    view d = view (db w)"
proof -
  obtain d where d: "run_state (debitToken E uid) w = (1, w\<lparr>db := d\<rparr>)" "view d = paid uid (-1) (view (db w))"
    using debitToken_run [OF assms(2)] assms(3) by auto
  have "account uid (add_tokens (-1) u) (view (db (w\<lparr>rds := r', db := d\<rparr>)))"
    using account_paid [OF assms(2)] d(2) by simp
  from creditToken_run [OF this] obtain d' where
    d': "run_state (creditToken E uid) (w\<lparr>rds := r', db := d\<rparr>) = (Inr u, w\<lparr>rds := r', db := d'\<rparr>)" "view d' = view (db w)"
    using d(2) by auto
  show ?thesis
    using assms(4) d'(1) by (simp add: world_order joinLocked_def run alreadyQueued_none [OF assms(1)] d enqueue_def
        join_commands_def [symmetric] r'_def [symmetric]) (intro exI conjI, rule refl, rule d'(2))
qed

lemma joinLocked_poor:
  assumes "parseQueueEntryState (rd_get (rdc E) (rds w) (clock w) (userQueueKey uid)) = None"
    and "account uid u (view (db w))" and "us_tokenBalance u < 1"
  shows "\<exists>d. run_state (joinLocked E uid city key) w = (Inl (BadRequest ''Insufficient token balance''), w\<lparr>db := d\<rparr>) \<and>
    view d = view (db w)"
  using debitToken_run [OF assms(2)] assms(3)
  by (auto simp: joinLocked_def run alreadyQueued_none [OF assms(1)])


text \<open>What \<open>joinQueue\<close> expects of its caller: not banned, a city, a free lock, no entry yet.\<close>

end

definition may_join :: "('r, 'd) env \<Rightarrow> ('r \<Rightarrow> string \<Rightarrow> bool) \<Rightarrow> string \<Rightarrow> queue_join_input \<Rightarrow> string \<Rightarrow> string \<Rightarrow>
  ('r, 'd) world \<Rightarrow> bool" where
  "may_join E other uid input city key w \<longleftrightarrow> \<not> truthy (rd_get (rdc E) (rds w) (clock w) (userBanKey uid)) \<and>
     resolveQueueCity input = Inr city \<and> buildQueueKey E city (qi_preferences input) = Inr key \<and>
     \<not> other (rds w) (userLockKey uid) \<and> rd_get (rdc E) (rds w) (clock w) (userLockKey uid) = None \<and>
     parseQueueEntryState (rd_get (rdc E) (rds w) (clock w) (userQueueKey uid)) = None"

lemma buildQueueKey_nonempty: "buildQueueKey E city prefs = Inr key \<Longrightarrow> key \<noteq> []"
  by (auto simp: buildQueueKey_def Let_def split: option.splits)

text \<open>The state in which the work of a lock holder starts, and the one it leaves behind.\<close>

definition locked :: "('r, 'd) env \<Rightarrow> string \<Rightarrow> ('r, 'd) world \<Rightarrow> ('r, 'd) world" where
  "locked E uid w = w\<lparr>rds := lock_redis E uid w, uuids := Suc (uuids w)\<rparr>"

lemma locked_simps [simp]:
  "rds (locked E uid w) = lock_redis E uid w" "db (locked E uid w) = db w" "clock (locked E uid w) = clock w"
  "trace (locked E uid w) = trace w"
  by (simp_all add: locked_def)

context backend
begin

lemma joinQueue_locks:
  assumes "may_join E other uid input city key w"
  shows "run_state (joinQueue E uid input) w = (case run_state (joinLocked E uid city key) (locked E uid w) of
    (x, w1) \<Rightarrow> (x, snd (run_state (releaseLock E (userLockKey uid) (random_uuid E (uuids w))) w1)))"
  using assms acquireLock_run [of w uid]
  by (simp add: may_join_def joinQueue_def run locked_def)

lemma may_join_locked:
  assumes "may_join E other uid input city key w"
  shows "parseQueueEntryState (rd_get (rdc E) (lock_redis E uid w) (clock w) (userQueueKey uid)) = None"
    and "unch (rdc E) zv sv other (clock w) {userLockKey uid} (rds w) (lock_redis E uid w)"
    and "rd_get (rdc E) (lock_redis E uid w) (clock w) (userLockKey uid) = Some (random_uuid E (uuids w))"
    and "\<not> other (lock_redis E uid w) (userLockKey uid)"
proof -
  have f: "\<not> other (rds w) (userLockKey uid)" "rd_get (rdc E) (rds w) (clock w) (userLockKey uid) = None"
    using assms by (simp_all add: may_join_def)
  note l = lock_redis_facts [OF f]
  show "unch (rdc E) zv sv other (clock w) {userLockKey uid} (rds w) (lock_redis E uid w)"
    "rd_get (rdc E) (lock_redis E uid w) (clock w) (userLockKey uid) = Some (random_uuid E (uuids w))"
    "\<not> other (lock_redis E uid w) (userLockKey uid)"
    using l by simp_all
  show "parseQueueEntryState (rd_get (rdc E) (lock_redis E uid w) (clock w) (userQueueKey uid)) = None"
    using assms redis.unchD(1) [OF l(3)] by (simp add: may_join_def)
qed

lemma unlocked:
  assumes "rd_get (rdc E) r t (userLockKey uid) = Some v"
  defines "r' \<equiv> snd (rd_del (rdc E) r t [userLockKey uid])"
  shows "rd_get (rdc E) r' t' (userLockKey uid) = None" "\<not> other r' (userLockKey uid)"
    and "unch (rdc E) zv sv other t {userLockKey uid} r r'"
  using redis.del_get redis.del_other redis.del_unch [of t "[userLockKey uid]" r] by (simp_all add: r'_def)


lemma join_queued:
  assumes j: "may_join E other uid input city key w" and a: "account uid u (view (db w))" "1 \<le> us_tokenBalance u"
    and x: "fst (rd_exec (rdc E) (lock_redis E uid w) (clock w) (join_commands uid key (clock w)))"
  shows "\<exists>p w'. run_state (joinQueue E uid input) w =
      (Inr \<lparr>jr_status = Queued, jr_queueKey = key, jr_position = Some p\<rparr>, w') \<and>
    clock w' = clock w \<and> view (db w') = paid uid (-1) (view (db w)) \<and>
    rank_of (map fst (zv (rds w') (clock w) (queueZsetKey key))) uid = Some p \<and>
    waiting E zv uid key (clock w) (rds w') (clock w) \<and> key \<in> sv (rds w') (clock w) QUEUE_KEYS_SET \<and>
    (\<forall>t. rd_get (rdc E) (rds w') t (userLockKey uid) = None) \<and> \<not> other (rds w') (userLockKey uid) \<and>
    map_of (zv (rds w') (clock w) (queueZsetKey key)) = (map_of (zv (rds w) (clock w) (queueZsetKey key)))(uid \<mapsto> clock w) \<and>
    unch (rdc E) zv sv other (clock w) {queueZsetKey key, userQueueKey uid, QUEUE_KEYS_SET, userLockKey uid} (rds w) (rds w')"
proof -
  note l = may_join_locked [OF j]
  define v where "v = random_uuid E (uuids w)"
  define r where "r = snd (rd_exec (rdc E) (lock_redis E uid w) (clock w) (join_commands uid key (clock w)))"
  have key: "key \<noteq> []" using j buildQueueKey_nonempty by (auto simp: may_join_def)
  note e = joined_redis [OF x key, folded r_def]
  obtain d tr where run: "run_state (joinLocked E uid city key) (locked E uid w) =
      (Inr \<lparr>jr_status = Queued, jr_queueKey = key, jr_position = rank_of (map fst (zv r (clock w) (queueZsetKey key))) uid\<rparr>,
       locked E uid w\<lparr>rds := r, db := d, trace := trace w @ tr\<rparr>)" and d: "view d = paid uid (-1) (view (db w))"
    using joinLocked_queued [of "locked E uid w" uid u key city] l(1) a x key by (auto simp: r_def)
  have lk: "rd_get (rdc E) r (clock w) (userLockKey uid) = Some v"
    using redis.unchD(1) [OF e(4)] l(3) by (simp add: v_def)
  define r' where "r' = snd (rd_del (rdc E) r (clock w) [userLockKey uid])"
  note k = unlocked [OF lk, folded r'_def]
  obtain p where p: "rank_of (map fst (zv r (clock w) (queueZsetKey key))) uid = Some p"
    using waiting_rank [OF e(1)] by blast
  have final: "run_state (joinQueue E uid input) w = (Inr \<lparr>jr_status = Queued, jr_queueKey = key, jr_position = Some p\<rparr>,
      locked E uid w\<lparr>rds := r', db := d, trace := trace w @ tr\<rparr>)"
    using releaseLock_holder [of "locked E uid w\<lparr>rds := r, db := d, trace := trace w @ tr\<rparr>" uid v] lk
    by (simp add: joinQueue_locks [OF j] run p v_def r'_def world_order)
  have z: "zv r' (clock w) (queueZsetKey key) = zv r (clock w) (queueZsetKey key)"
    using redis.unchD(3) [OF k(3)] by simp
  have "unch (rdc E) zv sv other (clock w) {queueZsetKey key, userQueueKey uid, QUEUE_KEYS_SET, userLockKey uid} (rds w) r'"
    by (rule unch_trans [OF unch_mono [OF l(2)] unch_trans [OF unch_mono [OF e(4)] unch_mono [OF k(3)]]]) simp_all
  moreover have "waiting E zv uid key (clock w) r' (clock w)"
    using e(1) redis.unchD(1,3) [OF k(3)] by (simp add: waiting_def)
  moreover have "key \<in> sv r' (clock w) QUEUE_KEYS_SET"
    using e(3) redis.unchD(4) [OF k(3)] by simp
  moreover have "map_of (zv r' (clock w) (queueZsetKey key)) = (map_of (zv (rds w) (clock w) (queueZsetKey key)))(uid \<mapsto> clock w)"
    using e(2) redis.unchD(3) [OF l(2)] by (simp add: z)
  ultimately show ?thesis
    unfolding final using d p k(1,2) z by - (intro exI conjI, rule refl, simp_all)
qed


lemma join_refunded:
  assumes j: "may_join E other uid input city key w" and a: "account uid u (view (db w))" "1 \<le> us_tokenBalance u"
    and x: "\<not> fst (rd_exec (rdc E) (lock_redis E uid w) (clock w) (join_commands uid key (clock w)))"
  shows "\<exists>w'. run_state (joinQueue E uid input) w = (Inl (JsError ''Redis transaction failed''), w') \<and>
    clock w' = clock w \<and> view (db w') = view (db w) \<and> trace w' = trace w \<and>
    rd_get (rdc E) (rds w') (clock w) (userLockKey uid) = None \<and>
    unch (rdc E) zv sv other (clock w) {userLockKey uid} (rds w) (rds w')"
proof -
  note l = may_join_locked [OF j]
  define v where "v = random_uuid E (uuids w)"
  define r where "r = snd (rd_exec (rdc E) (lock_redis E uid w) (clock w) (join_commands uid key (clock w)))"
  have u: "unch (rdc E) zv sv other (clock w) {} (lock_redis E uid w) r"
    using redis.exec_fail [OF x] by (simp add: r_def)
  have lk: "rd_get (rdc E) r (clock w) (userLockKey uid) = Some v"
    using redis.unchD(1) [OF u] l(3) by (simp add: v_def)
  define r' where "r' = snd (rd_del (rdc E) r (clock w) [userLockKey uid])"
  note k = unlocked [OF lk, folded r'_def]
  obtain d where run: "run_state (joinLocked E uid city key) (locked E uid w) =
      (Inl (JsError ''Redis transaction failed''), locked E uid w\<lparr>rds := r, db := d\<rparr>)" and d: "view d = view (db w)"
    using joinLocked_exec_fails [of "locked E uid w" uid u key city] l(1) a x by (auto simp: r_def)
  have final: "run_state (joinQueue E uid input) w = (Inl (JsError ''Redis transaction failed''), locked E uid w\<lparr>rds := r', db := d\<rparr>)"
    using releaseLock_holder [of "locked E uid w\<lparr>rds := r, db := d\<rparr>" uid v] lk
    by (simp add: joinQueue_locks [OF j] run v_def r'_def world_order)
  have "unch (rdc E) zv sv other (clock w) {userLockKey uid} (rds w) r'"
    by (rule unch_trans [OF unch_mono [OF l(2)] unch_trans [OF unch_mono [OF u] unch_mono [OF k(3)]]]) simp_all
  then show ?thesis
    unfolding final using d k(1) by - (intro exI conjI, rule refl, simp_all)
qed

lemma join_poor:
  assumes j: "may_join E other uid input city key w" and a: "account uid u (view (db w))" "us_tokenBalance u < 1"
  shows "\<exists>w'. run_state (joinQueue E uid input) w = (Inl (BadRequest ''Insufficient token balance''), w') \<and>
    view (db w') = view (db w) \<and> trace w' = trace w \<and> unch (rdc E) zv sv other (clock w) {userLockKey uid} (rds w) (rds w')"
proof -
  note l = may_join_locked [OF j]
  define v where "v = random_uuid E (uuids w)"
  have lk: "rd_get (rdc E) (lock_redis E uid w) (clock w) (userLockKey uid) = Some v"
    using l(3) by (simp add: v_def)
  define r' where "r' = snd (rd_del (rdc E) (lock_redis E uid w) (clock w) [userLockKey uid])"
  note k = unlocked [OF lk, folded r'_def]
  obtain d where run: "run_state (joinLocked E uid city key) (locked E uid w) =
      (Inl (BadRequest ''Insufficient token balance''), locked E uid w\<lparr>db := d\<rparr>)" and d: "view d = view (db w)"
    using joinLocked_poor [of "locked E uid w" uid u city key] l(1) a by auto
  have final: "run_state (joinQueue E uid input) w =
      (Inl (BadRequest ''Insufficient token balance''), locked E uid w\<lparr>rds := r', db := d\<rparr>)"
    using releaseLock_holder [of "locked E uid w\<lparr>db := d\<rparr>" uid v] lk
    by (simp add: joinQueue_locks [OF j] run v_def r'_def world_order)
  have "unch (rdc E) zv sv other (clock w) {userLockKey uid} (rds w) r'"
    by (rule unch_trans [OF l(2) k(3)])
  then show ?thesis
    unfolding final using d by - (intro exI conjI, rule refl, simp_all)
qed

lemma join_refused:
  "truthy (rd_get (rdc E) (rds w) (clock w) (userBanKey uid)) \<Longrightarrow>
     run_state (joinQueue E uid input) w = (Inl (Unauthorized ''Account is temporarily suspended''), w)"
  "\<not> truthy (rd_get (rdc E) (rds w) (clock w) (userBanKey uid)) \<Longrightarrow> resolveQueueCity input = Inl e \<Longrightarrow>
     run_state (joinQueue E uid input) w = (Inl e, w)"
  "\<not> truthy (rd_get (rdc E) (rds w) (clock w) (userBanKey uid)) \<Longrightarrow> resolveQueueCity input = Inr city \<Longrightarrow>
     buildQueueKey E city (qi_preferences input) = Inr key \<Longrightarrow> \<not> other (rds w) (userLockKey uid) \<Longrightarrow>
     rd_get (rdc E) (rds w) (clock w) (userLockKey uid) = Some v \<Longrightarrow>
     parseQueueEntryState (rd_get (rdc E) (rds w) (clock w) (userQueueKey uid)) = None \<Longrightarrow>
     run_state (joinQueue E uid input) w = (Inl (Conflict ''Queue operation in progress''), w\<lparr>uuids := Suc (uuids w)\<rparr>)"
  using acquireLock_run [of w uid] by (simp_all add: joinQueue_def run alreadyQueued_none)

text \<open>A user who waits already is told so, whoever holds the lock, and pays nothing.\<close>

lemma join_again:
  assumes s: "parseQueueEntryState (rd_get (rdc E) (rds w) (clock w) (userQueueKey uid)) = Some \<lparr>qe_queueKey = key, qe_joinedAt = j\<rparr>" and "\<not> truthy (rd_get (rdc E) (rds w) (clock w) (userBanKey uid))"
    and "resolveQueueCity input = Inr city" and "buildQueueKey E city (qi_preferences input) = Inr key'"
    and "\<not> other (rds w) (userLockKey uid)"
  shows "\<exists>w'. run_state (joinQueue E uid input) w = (Inr \<lparr>jr_status = AlreadyQueued, jr_queueKey = key,
      jr_position = rank_of (map fst (zv (rds w) (clock w) (queueZsetKey key))) uid\<rparr>, w') \<and>
    db w' = db w \<and> trace w' = trace w \<and> clock w' = clock w \<and>
    unch (rdc E) zv sv other (clock w) {userLockKey uid} (rds w) (rds w')"
proof -
  define v where "v = random_uuid E (uuids w)"
  let ?s = "\<lparr>qe_queueKey = key, qe_joinedAt = j\<rparr>"
  show ?thesis
  proof (cases "rd_get (rdc E) (rds w) (clock w) (userLockKey uid)")
    case (Some x)
    have "parseQueueEntryState (rd_get (rdc E) (rds (w\<lparr>uuids := n\<rparr>)) (clock (w\<lparr>uuids := n\<rparr>)) (userQueueKey uid)) = Some ?s" for n
      using s by simp
    from alreadyQueued_some [OF this] show ?thesis
      using assms(2-) Some acquireLock_run [of w uid] by (simp add: joinQueue_def run unch_refl)
  next
    case None
    note l = lock_redis_facts [OF assms(5) None]
    have s': "parseQueueEntryState (rd_get (rdc E) (rds (locked E uid w)) (clock (locked E uid w)) (userQueueKey uid)) = Some ?s"
      using s redis.unchD(1) [OF l(3)] by simp
    have z: "zv (lock_redis E uid w) (clock w) (queueZsetKey key) = zv (rds w) (clock w) (queueZsetKey key)"
      using redis.unchD(3) [OF l(3)] by simp
    define r' where "r' = snd (rd_del (rdc E) (lock_redis E uid w) (clock w) [userLockKey uid])"
    note k = unlocked [OF l(1), folded r'_def]
    have "run_state (joinQueue E uid input) w = (Inr \<lparr>jr_status = AlreadyQueued, jr_queueKey = key,
        jr_position = rank_of (map fst (zv (rds w) (clock w) (queueZsetKey key))) uid\<rparr>, locked E uid w\<lparr>rds := r'\<rparr>)"
      using assms(2-) None acquireLock_run [of w uid] alreadyQueued_some [OF s'] releaseLock_holder [of "locked E uid w" uid] l(1)
      by (simp add: joinQueue_def joinLocked_def run locked_def [symmetric] r'_def z)
    then show ?thesis
      using unch_trans [OF l(3) k(3)] by - (intro exI conjI, assumption, simp_all)
  qed
qed

end


section \<open>Leaving\<close>

text \<open>The Redis state when \<open>uid\<close> was taken out of the queue \<open>key\<close>.\<close>

definition left_redis :: "('r, 'd) env \<Rightarrow> string \<Rightarrow> string \<Rightarrow> int \<Rightarrow> 'r \<Rightarrow> 'r" where
  "left_redis E uid key t r =
    (let r2 = snd (rd_zrem (rdc E) r t (queueZsetKey key) uid);
         r3 = snd (rd_del (rdc E) r2 t [userQueueKey uid])
     in if rd_zcard (rdc E) r3 t (queueZsetKey key) = 0 then snd (rd_srem (rdc E) r3 t QUEUE_KEYS_SET [key]) else r3)"

context backend
begin

lemma left_redis_facts:
  defines "K uid key \<equiv> {queueZsetKey key, userQueueKey uid, QUEUE_KEYS_SET}"
  shows "zv (left_redis E uid key t r) t (queueZsetKey key) = filter (\<lambda>p. fst p \<noteq> uid) (zv r t (queueZsetKey key))"
    and "t \<le> t' \<Longrightarrow> rd_get (rdc E) (left_redis E uid key t r) t' (userQueueKey uid) = None"
    and "unch (rdc E) zv sv other t (K uid key) r (left_redis E uid key t r)"
proof -
  define r2 where "r2 = snd (rd_zrem (rdc E) r t (queueZsetKey key) uid)"
  define r3 where "r3 = snd (rd_del (rdc E) r2 t [userQueueKey uid])"
  let ?r4 = "snd (rd_srem (rdc E) r3 t QUEUE_KEYS_SET [key])"
  have l: "left_redis E uid key t r = (if rd_zcard (rdc E) r3 t (queueZsetKey key) = 0 then ?r4 else r3)"
    by (simp add: left_redis_def r2_def r3_def Let_def)
  have u: "unch (rdc E) zv sv other t (K uid key) r r2" "unch (rdc E) zv sv other t (K uid key) r2 r3"
    "unch (rdc E) zv sv other t (K uid key) r3 ?r4"
    unfolding r2_def r3_def K_def
    by (rule unch_mono [OF redis.zrem_unch] unch_mono [OF redis.del_unch] unch_mono [OF redis.srem_unch], simp)+
  show "unch (rdc E) zv sv other t (K uid key) r (left_redis E uid key t r)"
    unfolding l using unch_trans [OF u(1,2)] unch_trans [OF unch_trans [OF u(1,2)] u(3)] by simp
  have s: "unch (rdc E) zv sv other t {QUEUE_KEYS_SET} r3 (left_redis E uid key t r)"
    unfolding l using redis.srem_unch by (simp add: unch_refl)
  have "zv r3 t (queueZsetKey key) = zv r2 t (queueZsetKey key)"
    unfolding r3_def by (simp add: redis.unch_zv)
  then show "zv (left_redis E uid key t r) t (queueZsetKey key) = filter (\<lambda>p. fst p \<noteq> uid) (zv r t (queueZsetKey key))"
    using redis.unchD(3) [OF s] by (simp add: r2_def redis.zrem_zv)
  show "t \<le> t' \<Longrightarrow> rd_get (rdc E) (left_redis E uid key t r) t' (userQueueKey uid) = None"
    using redis.unchD(1) [OF s] redis.del_get [of "userQueueKey uid" "[userQueueKey uid]" r2 t t'] by (simp add: r3_def)
qed

lemma cleanupQueueKey_run:
  "run_state (cleanupQueueKey E key) w = ((), w\<lparr>rds :=
    if rd_zcard (rdc E) (rds w) (clock w) (queueZsetKey key) = 0 then snd (rd_srem (rdc E) (rds w) (clock w) QUEUE_KEYS_SET [key]) else rds w\<rparr>)"
  by (simp add: cleanupQueueKey_def run)

lemma leaveLocked_run:
  assumes "parseQueueEntryState (rd_get (rdc E) (rds w) (clock w) (userQueueKey uid)) = Some \<lparr>qe_queueKey = key, qe_joinedAt = j\<rparr>"
    and "account uid u (view (db w))"
  defines "m \<equiv> truthy (rd_get (rdc E) (rds w) (clock w) (userMatchedKey uid))"
  defines "refund \<equiv> uid \<in> set (map fst (zv (rds w) (clock w) (queueZsetKey key))) \<and> \<not> m"
  shows "\<exists>d tr. run_state (leaveLocked E uid) w = (Inr \<lparr>lr_status = (if m then AlreadyMatched else Left),
      lr_refunded = refund, lr_queueKey = Some key\<rparr>,
      w\<lparr>rds := left_redis E uid key (clock w) (rds w), db := d, trace := trace w @ tr\<rparr>) \<and>
    view d = (if refund then paid uid 1 (view (db w)) else view (db w))"
proof -
  let ?r = "left_redis E uid key (clock w) (rds w)"
  have t: "truthy (rd_get (rdc E) (rds w) (clock w) (userQueueKey uid))"
    using assms(1) by (rule parse_entry_truthy)
  have c: "run_state (cleanupQueueKey E key) (w\<lparr>rds := snd (rd_del (rdc E) (snd (rd_zrem (rdc E) (rds w) (clock w)
      (queueZsetKey key) uid)) (clock w) [userQueueKey uid])\<rparr>) = ((), w\<lparr>rds := ?r\<rparr>)"
    by (simp add: cleanupQueueKey_run left_redis_def)
  obtain d where d: "run_state (creditToken E uid) (w\<lparr>rds := ?r\<rparr>) = (Inr (add_tokens 1 u), w\<lparr>rds := ?r, db := d\<rparr>)"
    "view d = paid uid 1 (view (db w))"
    using creditToken_run [of uid u "w\<lparr>rds := ?r\<rparr>"] assms(2) by auto
  show ?thesis
  proof (cases refund)
    case True
    then have "fst (rd_zrem (rdc E) (rds w) (clock w) (queueZsetKey key) uid) = 1" "\<not> m"
      by (auto simp: refund_def redis.zrem_reply)
    with True show ?thesis
      using t d by (simp add: leaveLocked_def run assms(1) c m_def left_with_def trackQueueLeft_def)
        (intro exI conjI, rule refl, rule d(2))
  next
    case False
    then have "fst (rd_zrem (rdc E) (rds w) (clock w) (queueZsetKey key) uid) \<noteq> 1 \<or> m"
      by (auto simp: refund_def redis.zrem_reply)
    with False show ?thesis
      using t by (intro exI [of _ "db w"]) (auto simp: leaveLocked_def run assms(1) c m_def left_with_def trackQueueLeft_def)
  qed
qed


lemma leaveQueue_locks:
  assumes "\<not> other (rds w) (userLockKey uid)" and "rd_get (rdc E) (rds w) (clock w) (userLockKey uid) = None"
  shows "run_state (leaveQueue E uid) w = (case run_state (leaveLocked E uid) (locked E uid w) of
    (x, w1) \<Rightarrow> (x, snd (run_state (releaseLock E (userLockKey uid) (random_uuid E (uuids w))) w1)))"
  using assms acquireLock_run [of w uid] by (simp add: leaveQueue_def withUserLock_def run locked_def)

lemma leave_busy:
  "\<not> other (rds w) (userLockKey uid) \<Longrightarrow> rd_get (rdc E) (rds w) (clock w) (userLockKey uid) = Some v \<Longrightarrow>
   run_state (leaveQueue E uid) w = (Inl (Conflict ''Queue operation in progress''), w\<lparr>uuids := Suc (uuids w)\<rparr>)"
  using acquireLock_run [of w uid] by (simp add: leaveQueue_def withUserLock_def run)

text \<open>
  Leaving with an entry: the user is out of the queue and has no entry; the token comes back
  if the user was still in the queue and is not marked as matched.
\<close>

lemma leave_entry:
  assumes f: "\<not> other (rds w) (userLockKey uid)" "rd_get (rdc E) (rds w) (clock w) (userLockKey uid) = None"
    and p: "parseQueueEntryState (rd_get (rdc E) (rds w) (clock w) (userQueueKey uid)) = Some \<lparr>qe_queueKey = key, qe_joinedAt = j\<rparr>"
    and a: "account uid u (view (db w))"
  defines "m \<equiv> truthy (rd_get (rdc E) (rds w) (clock w) (userMatchedKey uid))"
  defines "refund \<equiv> uid \<in> set (map fst (zv (rds w) (clock w) (queueZsetKey key))) \<and> \<not> m"
  shows "\<exists>w'. run_state (leaveQueue E uid) w = (Inr \<lparr>lr_status = (if m then AlreadyMatched else Left),
      lr_refunded = refund, lr_queueKey = Some key\<rparr>, w') \<and> clock w' = clock w \<and>
    view (db w') = (if refund then paid uid 1 (view (db w)) else view (db w)) \<and>
    zv (rds w') (clock w) (queueZsetKey key) = filter (\<lambda>p. fst p \<noteq> uid) (zv (rds w) (clock w) (queueZsetKey key)) \<and>
    (\<forall>t \<ge> clock w. rd_get (rdc E) (rds w') t (userQueueKey uid) = None) \<and>
    (\<forall>t. rd_get (rdc E) (rds w') t (userLockKey uid) = None) \<and> \<not> other (rds w') (userLockKey uid) \<and>
    unch (rdc E) zv sv other (clock w) {queueZsetKey key, userQueueKey uid, QUEUE_KEYS_SET, userLockKey uid} (rds w) (rds w')"
proof -
  note l = lock_redis_facts [OF f]
  define v where "v = random_uuid E (uuids w)"
  define r where "r = left_redis E uid key (clock w) (lock_redis E uid w)"
  have e: "zv r (clock w) (queueZsetKey key) = filter (\<lambda>p. fst p \<noteq> uid) (zv (lock_redis E uid w) (clock w) (queueZsetKey key))"
    "\<And>t. clock w \<le> t \<Longrightarrow> rd_get (rdc E) r t (userQueueKey uid) = None"
    "unch (rdc E) zv sv other (clock w) {queueZsetKey key, userQueueKey uid, QUEUE_KEYS_SET} (lock_redis E uid w) r"
    unfolding r_def by (simp_all add: left_redis_facts)
  have same: "rd_get (rdc E) (lock_redis E uid w) (clock w) (userMatchedKey uid) = rd_get (rdc E) (rds w) (clock w) (userMatchedKey uid)"
    "zv (lock_redis E uid w) (clock w) (queueZsetKey key) = zv (rds w) (clock w) (queueZsetKey key)"
    using redis.unchD(1,3) [OF l(3)] by simp_all
  have p': "parseQueueEntryState (rd_get (rdc E) (rds (locked E uid w)) (clock (locked E uid w)) (userQueueKey uid)) =
      Some \<lparr>qe_queueKey = key, qe_joinedAt = j\<rparr>"
    using p redis.unchD(1) [OF l(3)] by simp
  obtain d tr where run: "run_state (leaveLocked E uid) (locked E uid w) = (Inr \<lparr>lr_status = (if m then AlreadyMatched else Left),
      lr_refunded = refund, lr_queueKey = Some key\<rparr>, locked E uid w\<lparr>rds := r, db := d, trace := trace w @ tr\<rparr>)"
    and d: "view d = (if refund then paid uid 1 (view (db w)) else view (db w))"
    using leaveLocked_run [OF p', of u] a by (auto simp: same m_def refund_def r_def)
  have lk: "rd_get (rdc E) r (clock w) (userLockKey uid) = Some v"
    using redis.unchD(1) [OF e(3)] l(1) by (simp add: v_def)
  define r' where "r' = snd (rd_del (rdc E) r (clock w) [userLockKey uid])"
  note k = unlocked [OF lk, folded r'_def]
  have final: "run_state (leaveQueue E uid) w = (Inr \<lparr>lr_status = (if m then AlreadyMatched else Left),
      lr_refunded = refund, lr_queueKey = Some key\<rparr>, locked E uid w\<lparr>rds := r', db := d, trace := trace w @ tr\<rparr>)"
    using releaseLock_holder [of "locked E uid w\<lparr>rds := r, db := d, trace := trace w @ tr\<rparr>" uid v] lk
    by (simp add: leaveQueue_locks [OF f] run v_def r'_def world_order)
  have "unch (rdc E) zv sv other (clock w) {queueZsetKey key, userQueueKey uid, QUEUE_KEYS_SET, userLockKey uid} (rds w) r'"
    by (rule unch_trans [OF unch_mono [OF l(3)] unch_trans [OF unch_mono [OF e(3)] unch_mono [OF k(3)]]]) simp_all
  moreover have "zv r' (clock w) (queueZsetKey key) = filter (\<lambda>p. fst p \<noteq> uid) (zv (rds w) (clock w) (queueZsetKey key))"
    using e(1) redis.unchD(3) [OF k(3)] by (simp add: same)
  moreover have "rd_get (rdc E) r' t (userQueueKey uid) = None" if "clock w \<le> t" for t
    using e(2) redis.unchD(1) [OF k(3)] that by simp
  ultimately show ?thesis
    unfolding final using d k(1,2) by - (intro exI conjI, rule refl, simp_all)
qed

lemma leave_no_entry:
  assumes f: "\<not> other (rds w) (userLockKey uid)" "rd_get (rdc E) (rds w) (clock w) (userLockKey uid) = None"
    and p: "\<not> truthy (rd_get (rdc E) (rds w) (clock w) (userQueueKey uid))"
  shows "\<exists>w'. run_state (leaveQueue E uid) w = (Inr \<lparr>lr_status = NotQueued, lr_refunded = False, lr_queueKey = None\<rparr>, w') \<and>
    db w' = db w \<and> unch (rdc E) zv sv other (clock w) {userLockKey uid} (rds w) (rds w')"
proof -
  note l = lock_redis_facts [OF f]
  have e: "rd_get (rdc E) (lock_redis E uid w) (clock w) (userQueueKey uid) = rd_get (rdc E) (rds w) (clock w) (userQueueKey uid)"
    using redis.unchD(1) [OF l(3)] by simp
  have "touches E zv sv other {userLockKey uid} (releaseLock E (userLockKey uid) v)" for v
    unfolding releaseLock_def by (intro touch) simp
  from touchesD(2) [OF this]
  have "unch (rdc E) zv sv other (clock w) {userLockKey uid} (lock_redis E uid w)
      (rds (snd (run_state (releaseLock E (userLockKey uid) v) (locked E uid w\<lparr>trace := tr\<rparr>))))" for v tr
    by (metis locked_simps(1,3) world.select_convs(1,3) world.surjective world.update_convs(4))
  from unch_trans [OF l(3) this] show ?thesis
    using p by (simp add: leaveQueue_locks [OF f] leaveLocked_def run e left_with_def trackQueueLeft_def releaseLock_def)
qed

end


section \<open>Pairs\<close>

lemma pop_reply_simps [simp]: "pop_reply [] = []" "pop_reply ((m, s) # ps) = m # show_int s # pop_reply ps"
  by (simp_all add: pop_reply_def)

lemma requeue_pop_reply: "requeue_args (pop_reply ps) = map (\<lambda>(m, s). (s, m)) ps"
  by (induction ps) auto

lemma sorted_scores_unique:
  assumes "sorted (map snd xs)" and "distinct (map fst xs)" and "map_of xs = [a \<mapsto> s, b \<mapsto> u]" and "a \<noteq> b" and "s < u"
  shows "xs = [(a, s), (b, u)]"
proof -
  have s: "set xs = {(a, s), (b, u)}"
  proof -
    have "(x, y) \<in> set xs \<longleftrightarrow> map_of xs x = Some y" for x y
      using assms(2) by simp
    then show ?thesis using assms(3,4) by (auto split: if_splits)
  qed
  have d: "distinct xs" using assms(2) by (simp add: distinct_map)
  then have "length xs = 2"
    using s assms(4) by (metis card_2_iff distinct_card prod.inject)
  then obtain p q where "xs = [p, q]" by (metis (no_types, opaque_lifting) One_nat_def Suc_1 length_0_conv length_Suc_conv)
  with s d assms(1,5) show ?thesis by (auto simp: doubleton_eq_iff)
qed

lemma single_entry: "distinct (map fst xs) \<Longrightarrow> map_of xs = [a \<mapsto> s] \<Longrightarrow> xs = [(a, s)]"
proof -
  assume d: "distinct (map fst xs)" and m: "map_of xs = [a \<mapsto> s]"
  have "(x, y) \<in> set xs \<longleftrightarrow> map_of xs x = Some y" for x y
    using d by simp
  then have s: "set xs = {(a, s)}" using m by (auto split: if_splits)
  have "distinct xs" using d by (simp add: distinct_map)
  with s have "length xs = 1" by (metis card.empty card_insert_disjoint distinct_card empty_iff finite.emptyI One_nat_def)
  with s show "xs = [(a, s)]" by (cases xs) auto
qed

text \<open>The user \<open>a\<close> blocks the user \<open>b\<close>.\<close>

definition blocks :: "tables \<Rightarrow> string \<Rightarrow> string \<Rightarrow> bool" where
  "blocks d a b \<longleftrightarrow> (\<exists>x \<in> set (tb_blocks d). bl_liftedAt x = None \<and> bl_blockerId x = a \<and> bl_blockedId x = b)"

context backend
begin

text \<open>\<open>popPair\<close> takes the two users who joined first, or puts a single user back.\<close>

lemma popPair_two:
  assumes "zv (rds w) (clock w) (queueZsetKey key) = (a, s) # (b, u) # rest"
  shows "\<exists>r'. run_state (popPair E key) w = (Some \<lparr>qp_userA = a, qp_userB = b, qp_scoreA = s, qp_scoreB = u\<rparr>, w\<lparr>rds := r'\<rparr>) \<and>
    zv r' (clock w) (queueZsetKey key) = rest \<and> unch (rdc E) zv sv other (clock w) {queueZsetKey key} (rds w) r'"
  using assms redis.zpopmin_zv [of "rds w" "clock w" "queueZsetKey key" 2] redis.zpopmin_unch [of "clock w" "queueZsetKey key" "rds w" 2]
  by (auto simp: popPair_def run redis.zpopmin_reply numeral_2_eq_2)

lemma popPair_few:
  assumes "length (zv (rds w) (clock w) (queueZsetKey key)) < 2"
  shows "\<exists>r'. run_state (popPair E key) w = (None, w\<lparr>rds := r'\<rparr>) \<and>
    zv r' (clock w) (queueZsetKey key) = zv (rds w) (clock w) (queueZsetKey key) \<and>
    unch (rdc E) zv sv other (clock w) {queueZsetKey key} (rds w) r'"
proof (cases "zv (rds w) (clock w) (queueZsetKey key)")
  case Nil
  then show ?thesis
    using redis.zpopmin_zv [of "rds w" "clock w" "queueZsetKey key" 2] redis.zpopmin_unch [of "clock w" "queueZsetKey key" "rds w" 2]
    by (auto simp: popPair_def run redis.zpopmin_reply)
next
  case (Cons p ps)
  with assms obtain a s where one: "zv (rds w) (clock w) (queueZsetKey key) = [(a, s)]" by (cases p) auto
  let ?k = "queueZsetKey key"
  define r1 where "r1 = snd (rd_zpopmin (rdc E) (rds w) (clock w) ?k 2)"
  define r2 where "r2 = snd (rd_zadd (rdc E) r1 (clock w) ?k [(s, a)])"
  have "zv r1 (clock w) ?k = []" using one by (simp add: r1_def redis.zpopmin_zv)
  then have "map_of (zv r2 (clock w) ?k) = [a \<mapsto> s]" by (simp add: r2_def redis.zadd_zv)
  then have z: "zv r2 (clock w) ?k = [(a, s)]" using redis.zv_wf [of r2 "clock w" ?k] by (intro single_entry) simp_all
  have "unch (rdc E) zv sv other (clock w) {?k} (rds w) r2"
    unfolding r2_def r1_def by (rule unch_trans [OF redis.zpopmin_unch redis.zadd_unch])
  moreover have "run_state (popPair E key) w = (None, w\<lparr>rds := r2\<rparr>)"
    using one by (simp add: popPair_def run redis.zpopmin_reply r1_def r2_def Let_def)
  ultimately show ?thesis using one z by - (intro exI conjI, assumption, simp_all)
qed


lemma isPairBlocked_run:
  "run_state (isPairBlocked E a b) w = (blocks (view (db w)) a b \<or> blocks (view (db w)) b a, w)"
  by (simp add: isPairBlocked_def run prisma.block.findFirst_exists del: not_None_eq) (auto simp: blocks_def)

lemma validatePair_Some:
  assumes "run_state (validatePair E key pair) w = (Some (a, b), w')"
  shows "w' = w \<and> a = qp_userA pair \<and> b = qp_userB pair \<and>
    map_option qe_queueKey (parseQueueEntryState (rd_get (rdc E) (rds w) (clock w) (userQueueKey a))) = Some key \<and>
    map_option qe_queueKey (parseQueueEntryState (rd_get (rdc E) (rds w) (clock w) (userQueueKey b))) = Some key \<and>
    \<not> blocks (view (db w)) a b \<and> \<not> blocks (view (db w)) b a"
  using assms by (auto simp: validatePair_def run redis.mget isPairBlocked_run case_prod_beta split: if_splits)

lemma validatePair_ok:
  assumes "map_option qe_queueKey (parseQueueEntryState (rd_get (rdc E) (rds w) (clock w) (userQueueKey (qp_userA pair)))) = Some key"
    and "map_option qe_queueKey (parseQueueEntryState (rd_get (rdc E) (rds w) (clock w) (userQueueKey (qp_userB pair)))) = Some key"
    and "\<not> blocks (view (db w)) (qp_userA pair) (qp_userB pair)" and "\<not> blocks (view (db w)) (qp_userB pair) (qp_userA pair)"
  shows "run_state (validatePair E key pair) w = (Some (qp_userA pair, qp_userB pair), w)"
  using assms by (simp add: validatePair_def run redis.mget isPairBlocked_run)

lemma validatePair_blocked:
  assumes "map_option qe_queueKey (parseQueueEntryState (rd_get (rdc E) (rds w) (clock w) (userQueueKey (qp_userA pair)))) = Some key"
    and "map_option qe_queueKey (parseQueueEntryState (rd_get (rdc E) (rds w) (clock w) (userQueueKey (qp_userB pair)))) = Some key"
    and "blocks (view (db w)) (qp_userA pair) (qp_userB pair) \<or> blocks (view (db w)) (qp_userB pair) (qp_userA pair)"
  shows "run_state (validatePair E key pair) w = (None, w\<lparr>rds := snd (rd_zadd (rdc E) (rds w) (clock w) (queueZsetKey key)
    [(clock w + 5000, qp_userA pair), (clock w + 5001, qp_userB pair)])\<rparr>)"
  using assms by (auto simp: validatePair_def run redis.mget isPairBlocked_run deferBlockedPair_def add.assoc)

text \<open>A blocked pair that is alone in the queue comes back from the next \<open>popPair\<close>.\<close>

lemma blocked_pair_again:
  assumes "zv (rds w) (clock w) (queueZsetKey key) = [(a, s), (b, u)]"
    and "map_option qe_queueKey (parseQueueEntryState (rd_get (rdc E) (rds w) (clock w) (userQueueKey a))) = Some key"
    and "map_option qe_queueKey (parseQueueEntryState (rd_get (rdc E) (rds w) (clock w) (userQueueKey b))) = Some key"
    and "blocks (view (db w)) a b \<or> blocks (view (db w)) b a"
  shows "\<exists>pair w1 w2 w3. run_state (popPair E key) w = (Some pair, w1) \<and>
    run_state (validatePair E key pair) w1 = (None, w2) \<and>
    run_state (popPair E key) w2 = (Some \<lparr>qp_userA = a, qp_userB = b, qp_scoreA = clock w + 5000, qp_scoreB = clock w + 5001\<rparr>, w3) \<and>
    clock w2 = clock w"
proof -
  let ?pair = "\<lparr>qp_userA = a, qp_userB = b, qp_scoreA = s, qp_scoreB = u\<rparr>" and ?k = "queueZsetKey key"
  have ab: "a \<noteq> b" using redis.zv_wf [of "rds w" "clock w" ?k] assms(1) by simp
  obtain r1 where r1: "run_state (popPair E key) w = (Some ?pair, w\<lparr>rds := r1\<rparr>)" "zv r1 (clock w) ?k = []"
    "unch (rdc E) zv sv other (clock w) {?k} (rds w) r1"
    using popPair_two [OF assms(1)] by blast
  define r2 where "r2 = snd (rd_zadd (rdc E) r1 (clock w) ?k [(clock w + 5000, a), (clock w + 5001, b)])"
  have v: "run_state (validatePair E key ?pair) (w\<lparr>rds := r1\<rparr>) = (None, w\<lparr>rds := r2\<rparr>)"
    using validatePair_blocked [of "w\<lparr>rds := r1\<rparr>" ?pair key] assms(2-4) redis.unchD(1) [OF r1(3)] by (simp add: r2_def)
  have "map_of (zv r2 (clock w) ?k) = [a \<mapsto> clock w + 5000, b \<mapsto> clock w + 5001]"
    by (simp add: r2_def redis.zadd_zv r1(2))
  then have "zv r2 (clock w) ?k = [(a, clock w + 5000), (b, clock w + 5001)]"
    using redis.zv_wf [of r2 "clock w" ?k] ab by (intro sorted_scores_unique) simp_all
  then obtain r3 where "run_state (popPair E key) (w\<lparr>rds := r2\<rparr>) =
      (Some \<lparr>qp_userA = a, qp_userB = b, qp_scoreA = clock w + 5000, qp_scoreB = clock w + 5001\<rparr>, w\<lparr>rds := r2, rds := r3\<rparr>)"
    using popPair_two [of "w\<lparr>rds := r2\<rparr>" key a "clock w + 5000" b "clock w + 5001" "[]"] by auto
  with r1(1) v show ?thesis by - (intro exI conjI, assumption+, simp)
qed

end

end
