(* ===== verification/Matching_Worker.thy ===== *)
theory Matching_Worker
  imports Gateways Queue_Laws
begin

text \<open>
  \<open>src/src/queue/matching.worker.ts\<close>: every half second the worker takes pairs of users out
  of the queues, at most ten per queue, and gives each pair a session. The record \<open>worker\<close>
  is the state of the object: whether its interval timer runs, whether a tick is running, and
  the time of the last clean-up of old sessions.
\<close>

definition TICK_INTERVAL_MS :: int where "TICK_INTERVAL_MS = 500"
definition MAX_MATCHES_PER_KEY :: nat where "MAX_MATCHES_PER_KEY = 10"
definition CLEANUP_INTERVAL_MS :: int where "CLEANUP_INTERVAL_MS = 10 * 60 * 1000"

record worker =
  wk_timer :: bool
  wk_running :: bool
  wk_lastCleanupAt :: int

definition new_worker :: worker where
  "new_worker = \<lparr>wk_timer = False, wk_running = False, wk_lastCleanupAt = 0\<rparr>"

definition isWorkerEnabled :: "('r, 'd) env \<Rightarrow> bool" where
  "isWorkerEnabled E =
    (case env_var E ''ENABLE_MATCHING_WORKER'' of
       None \<Rightarrow> True
     | Some raw \<Rightarrow> toLowerCase (trim raw) \<in> {''1'', ''true'', ''yes'', ''on''})"

definition worker_onModuleInit :: "('r, 'd) env \<Rightarrow> worker \<Rightarrow> worker" where
  "worker_onModuleInit E wk = (if \<not> isWorkerEnabled E then wk else wk\<lparr>wk_timer := True\<rparr>)"

definition worker_onModuleDestroy :: "worker \<Rightarrow> worker" where
  "worker_onModuleDestroy wk = wk\<lparr>wk_timer := False\<rparr>"

definition computeWaitSeconds :: "int \<Rightarrow> (('r, 'd) world, int) prog" where
  "computeWaitSeconds joinedAtMs = do {
     now \<leftarrow> date_now;
     let elapsedMs = now - joinedAtMs;
     ret (if elapsedMs \<le> 0 then 0 else round_seconds elapsedMs) }"

text \<open>What happens to a valid pair while the worker holds the locks of both users.\<close>

definition match_found :: "session_row \<Rightarrow> string \<Rightarrow> int \<Rightarrow> (string \<times> json) list" where
  "match_found session partner waitSeconds = [(''sessionId'', JStr (se_id session)),
     (''queueKey'', JStr (case se_queueKey session of None \<Rightarrow> [] | Some k \<Rightarrow> k)),
     (''partnerId'', JStr partner), (''waitSeconds'', JNum waitSeconds)]"

text \<open>What follows once the session is there: the start of the session can run before, between or after these commands.\<close>

definition announceMatch :: "('r, 'd) env \<Rightarrow> string \<Rightarrow> string \<Rightarrow> int \<Rightarrow> int \<Rightarrow> session_row \<Rightarrow> (('r, 'd) world, unit) fprog" where
  "announceMatch E userA userB waitSecondsA waitSecondsB session = do {
     markMatched E userA userB (se_id session);
     emit (Track (Some userA) ''queue_match_found'' (match_found session userB waitSecondsA));
     emit (Track (Some userB) ''queue_match_found'' (match_found session userA waitSecondsB));
     emitMatch E userA userB session;
     emit (NotifyUsers [userA, userB] ''queue_match_found''
       (JObj [(''sessionId'', JStr (se_id session)), (''queueKey'', json_opt (se_queueKey session))]));
     ok () }"

definition matchPair ::
  "('r, 'd) env \<Rightarrow> string \<Rightarrow> queue_pair \<Rightarrow> string \<Rightarrow> string \<Rightarrow> (('r, 'd) world, unit) fprog" where
  "matchPair E queueKey pair userA userB = do {
     waitSecondsA \<leftarrow> computeWaitSeconds (qp_scoreA pair);
     waitSecondsB \<leftarrow> computeWaitSeconds (qp_scoreB pair);
     andThen (createSession E userA userB queueKey) (announceMatch E userA userB waitSecondsA waitSecondsB) }"

text \<open>The loop of \<open>processQueueKey\<close>: \<open>n\<close> rounds are left.\<close>

fun matchRounds :: "('r, 'd) env \<Rightarrow> string \<Rightarrow> nat \<Rightarrow> (('r, 'd) world, unit) fprog" where
  "matchRounds E queueKey 0 = ok ()"
| "matchRounds E queueKey (Suc n) = do {
     popped \<leftarrow> popPair E queueKey;
     case popped of
       None \<Rightarrow> ok ()
     | Some pair \<Rightarrow> do {
         valid \<leftarrow> validatePair E queueKey pair;
         case valid of
           None \<Rightarrow> matchRounds E queueKey n
         | Some v \<Rightarrow> do {
             locks \<leftarrow> lockUsers E [fst v, snd v];
             case locks of
               None \<Rightarrow> do { requeuePair E queueKey pair; matchRounds E queueKey n }
             | Some ls \<Rightarrow>
                 andThen (try_finally (matchPair E queueKey pair (fst v) (snd v)) (releaseUserLocks E ls))
                   (\<lambda>_. matchRounds E queueKey n) } } }"

definition processQueueKey :: "('r, 'd) env \<Rightarrow> string \<Rightarrow> (('r, 'd) world, unit) fprog" where
  "processQueueKey E queueKey = do {
     sizeBefore \<leftarrow> getQueueSize E queueKey;
     andThen (matchRounds E queueKey MAX_MATCHES_PER_KEY) (\<lambda>_. do {
       cleanupQueueKey E queueKey;
       sizeAfter \<leftarrow> getQueueSize E queueKey;
       if sizeAfter \<noteq> sizeBefore then do { emitQueueStatus E queueKey; ok () } else ok () }) }"

fun processKeys :: "('r, 'd) env \<Rightarrow> string list \<Rightarrow> (('r, 'd) world, unit) fprog" where
  "processKeys E [] = ok ()"
| "processKeys E (k # ks) = andThen (processQueueKey E k) (\<lambda>_. processKeys E ks)"

text \<open>\<open>tick\<close>; an error is logged, and \<open>running\<close> is false again at the end.\<close>

definition tick :: "('r, 'd) env \<Rightarrow> worker \<Rightarrow> (('r, 'd) world, worker) prog" where
  "tick E wk =
    (if wk_running wk then ret wk
     else do {
       keys \<leftarrow> redis_smembers E QUEUE_KEYS_SET;
       done \<leftarrow> processKeys E keys;
       case done of
         Inl error \<Rightarrow> ret (wk\<lparr>wk_running := False\<rparr>)
       | Inr _ \<Rightarrow> do {
           now \<leftarrow> date_now;
           if now - wk_lastCleanupAt wk > CLEANUP_INTERVAL_MS
           then do { cleanupExpiredSessions E; ret (wk\<lparr>wk_running := False, wk_lastCleanupAt := now\<rparr>) }
           else ret (wk\<lparr>wk_running := False\<rparr>) } })"

end
