(* ===== verification/Worker_Laws.thy ===== *)
theory Worker_Laws
  imports Matching_Worker Session_Steps
begin

text \<open>
  The laws of the matching worker: what one round of the loop of \<open>processQueueKey\<close> does, and
  what all rounds together do to the users who wait.
\<close>

section \<open>Locks of a pair\<close>

context backend
begin

lemma releaseUserLocks_touches:
  "\<forall>u \<in> fst ` set ls. userLockKey u \<in> K \<Longrightarrow> touches E zv sv other K (releaseUserLocks E ls)"
  unfolding releaseUserLocks_def releaseLock_def by (intro touch) (auto simp: image_iff)

lemma lockUsers_touches:
  "\<forall>u \<in> set us \<union> fst ` set ls. userLockKey u \<in> K \<Longrightarrow> touches E zv sv other K (lockUsersFrom E us ls)"
proof (induction us arbitrary: ls)
  case Nil
  then show ?case by (simp add: touch)
next
  case (Cons u us)
  have "fst ` set (AList.update u v ls) = insert u (fst ` set ls)" for v
    by (simp add: dom_update)
  with Cons have rest: "touches E zv sv other K (lockUsersFrom E us (AList.update u v ls))" for v
    by simp
  have "touches E zv sv other K (acquireLock E u)"
    unfolding acquireLock_def by (intro touch) (use Cons.prems in simp)
  moreover have "touches E zv sv other K (releaseUserLocks E ls)"
    using Cons.prems by (intro releaseUserLocks_touches) simp
  ultimately show ?case
    unfolding lockUsersFrom.simps
    by (intro touches_bind touches_option touches_basic(1) rest)
qed

end

lemma lockUsers_keeps_db: "keeps_db (lockUsersFrom E us ls)"
  by (induction us arbitrary: ls) (auto simp: acquireLock_def releaseUserLocks_def releaseLock_def intro!: dbfix)

lemma releaseUserLocks_keeps_db: "keeps_db (releaseUserLocks E ls)"
  unfolding releaseUserLocks_def releaseLock_def by (intro dbfix)

lemma buildSessionTokens_keeps_db: "keeps_db (buildSessionTokens E' sid us)"
proof -
  have "db (snd (run_state (buildSessionTokens E' sid us) w)) = db w" for w
    by (cases "run_state (buildSessionTokens E' sid us) w") (use buildSessionTokens_run(1) [of E' sid us w] in \<open>simp add: same_stores_def\<close>)
  then show ?thesis by (simp add: keeps_db_def)
qed

lemma timers_keep_db [dbfix]:
  "keeps_db (scheduleSessionEnd sid a b e)" "keeps_db (scheduleChoiceTimeout sid a b d)" "keeps_db (clearEndTimer sid)"
  "keeps_db (clearChoiceTimer sid)" "keeps_db (emitSessionStart uid j)" "keeps_db (emitSessionEnd uid j)"
  by (simp_all add: keeps_db_def run emitSessionStart_def emitSessionEnd_def)

text \<open>The start of a session runs beside the worker: it changes no row, and (\<open>handleSessionCreated_touches\<close>) no key of a queue.\<close>

lemma handleSessionCreated_keeps_db: "keeps_db (handleSessionCreated E s)"
  unfolding handleSessionCreated_def startSession_def persistSessionState_def endSession_def ensureChoiceDeadline_def
  by (intro dbfix buildSessionTokens_keeps_db)


lemma lockUsers_result:
  "run_state (lockUsersFrom E us ls) w = (Some ls', w') \<Longrightarrow> fst ` set ls' = set us \<union> fst ` set ls"
proof (induction us arbitrary: ls w)
  case Nil
  then show ?case by simp
next
  case (Cons u us)
  obtain l w1 where l: "run_state (acquireLock E u) w = (l, w1)" by (cases "run_state (acquireLock E u) w")
  with Cons.prems have "l \<noteq> None"
    by (cases l) (auto simp: run case_prod_beta)
  then obtain v where "l = Some v" by blast
  with Cons.prems l have "run_state (lockUsersFrom E us (AList.update u v ls)) w1 = (Some ls', w')"
    by simp
  from Cons.IH [OF this] show ?case by (auto simp: dom_update)
qed

lemma lock_space [simp]: "queueZsetKey key \<notin> range userLockKey" "userQueueKey u \<notin> range userLockKey"
  by auto

section \<open>The session of a pair\<close>

text \<open>The keys that belong to sessions.\<close>

definition session_space :: "string set" where
  "session_space = {k. \<exists>x. k = ''session:'' @ x}"

lemma session_space [simp]:
  "sessionStateKey x \<in> session_space" "sessionActiveKey x \<in> session_space" "sessionLockKey x \<in> session_space"
  "sessionEndedKey x \<in> session_space" "sessionChoiceDeadlineKey x \<in> session_space"
  "userQueueKey x \<notin> session_space" "queueZsetKey x \<notin> session_space" "userLockKey x \<notin> session_space"
  "userMatchedKey x \<notin> session_space" "userBanKey x \<notin> session_space" "QUEUE_KEYS_SET \<notin> session_space"
  by (simp_all add: session_space_def session_keys userQueueKey_def queueZsetKey_def userLockKey_def userMatchedKey_def
      userBanKey_def QUEUE_KEYS_SET_def)

definition match_commands :: "string \<Rightarrow> string \<Rightarrow> string \<Rightarrow> redis_command list" where
  "match_commands a b sid = [CDel [userQueueKey a, userQueueKey b], CSet (userMatchedKey a) sid (Some MATCHED_TTL_MS),
     CSet (userMatchedKey b) sid (Some MATCHED_TTL_MS)]"

definition pair_keys :: "string \<Rightarrow> string \<Rightarrow> string set" where
  "pair_keys a b = {userQueueKey a, userQueueKey b, userMatchedKey a, userMatchedKey b}"

context backend
begin

lemma createSession_run:
  "\<exists>s w'. run_state (createSession E a b key) w = (Inr s, w') \<and> clock w' = clock w \<and>
     s = new_session a b key (clock w) (se_id s) \<and> view (db w') = tb_sessions_update (\<lambda>ss. ss @ [s]) (view (db w)) \<and>
     unch (rdc E) zv sv other (clock w) session_space (rds w) (rds w')"
proof -
  let ?D = "pr_session (prc E)" and ?mk = "new_session a b key (clock w)"
  define s where "s = ?mk (dg_cuid ?D (db w))"
  define d where "d = snd (dg_create ?D (db w) ?mk)"
  have c: "fst (dg_create ?D (db w) ?mk) = Inr s" "view d = tb_sessions_update (\<lambda>ss. ss @ [s]) (view (db w))"
    using prisma.session.create_ok [of "db w" ?mk] by (simp_all add: s_def d_def no_unique_def)
  have "run_state (createSession E a b key) w = (Inr s, w\<lparr>db := d, trace := trace w @ [SessionCreated s]\<rparr>)"
    using c(1) by (simp add: createSession_def run d_def case_prod_beta)
  moreover have "s = new_session a b key (clock w) (se_id s)"
    by (simp add: s_def new_session_def)
  ultimately show ?thesis using c(2) by (simp add: unch_refl)
qed

lemma markMatched_touches: "pair_keys a b \<subseteq> K \<Longrightarrow> touches E zv sv other K (markMatched E a b sid)"
  unfolding markMatched_def by (intro touch) (auto simp: pair_keys_def)

lemma matched_redis:
  assumes "fst (rd_exec (rdc E) r t (match_commands a b sid))"
  defines "r' \<equiv> snd (rd_exec (rdc E) r t (match_commands a b sid))"
  shows "t \<le> t' \<Longrightarrow> u \<in> {a, b} \<Longrightarrow> rd_get (rdc E) r' t' (userQueueKey u) = None"
    and "t \<le> t' \<Longrightarrow> t' < t + MATCHED_TTL_MS \<Longrightarrow> u \<in> {a, b} \<Longrightarrow> rd_get (rdc E) r' t' (userMatchedKey u) = Some sid"
    and "unch (rdc E) zv sv other t (pair_keys a b) r r'"
proof -
  have r': "r' = foldl (run_command (rdc E) t) r (match_commands a b sid)"
    using assms(1) unfolding r'_def by (rule redis.exec_ok)
  show "t \<le> t' \<Longrightarrow> u \<in> {a, b} \<Longrightarrow> rd_get (rdc E) r' t' (userQueueKey u) = None"
    by (auto simp: r' match_commands_def run_command_def redis.unch_get redis.del_get)
  show "t \<le> t' \<Longrightarrow> t' < t + MATCHED_TTL_MS \<Longrightarrow> u \<in> {a, b} \<Longrightarrow> rd_get (rdc E) r' t' (userMatchedKey u) = Some sid"
    unfolding r' by (cases "u = b") (auto simp add: match_commands_def run_command_def redis.unch_get redis.set_get MATCHED_TTL_MS_def)
  show "unch (rdc E) zv sv other t (pair_keys a b) r r'"
    unfolding r' by (rule run_commands_unch) (auto simp: match_commands_def pair_keys_def)
qed

lemma computeWaitSeconds_run [run]:
  "run_state (computeWaitSeconds j) w = (if clock w \<le> j then 0 else round_seconds (clock w - j), w)"
  by (simp add: computeWaitSeconds_def run)

lemma matchPair_run:
  "\<exists>s w'. run_state (matchPair E key p a b) w = (Inr (), w') \<and> clock w' = clock w \<and>
     s = new_session a b key (clock w) (se_id s) \<and> view (db w') = tb_sessions_update (\<lambda>ss. ss @ [s]) (view (db w)) \<and>
     unch (rdc E) zv sv other (clock w) (session_space \<union> pair_keys a b) (rds w) (rds w')"
proof -
  obtain s w1 where c: "run_state (createSession E a b key) w = (Inr s, w1)" "clock w1 = clock w"
    "s = new_session a b key (clock w) (se_id s)" "view (db w1) = tb_sessions_update (\<lambda>ss. ss @ [s]) (view (db w))"
    "unch (rdc E) zv sv other (clock w) session_space (rds w) (rds w1)"
    using createSession_run [of a b key w] by (elim exE conjE) (rule that)
  define w2 where "w2 = snd (run_state (markMatched E a b (se_id s)) w1)"
  have "touches E zv sv other (pair_keys a b) (markMatched E a b (se_id s))"
    by (rule markMatched_touches) simp
  note t = touchesD [OF this, of w1, folded w2_def]
  have "db w2 = db w1" by (simp add: w2_def markMatched_def run)
  moreover obtain tr where "run_state (matchPair E key p a b) w = (Inr (), w2\<lparr>trace := trace w2 @ tr\<rparr>)"
    by (simp add: matchPair_def announceMatch_def run c(1) w2_def case_prod_beta emitMatch_def)
  moreover have "unch (rdc E) zv sv other (clock w) (session_space \<union> pair_keys a b) (rds w) (rds w2)"
    by (rule unch_trans [OF unch_mono [OF c(5)]]) (use unch_mono [OF t(2)] c(2) in auto)
  ultimately show ?thesis using t(1) c(2-4) by - (intro exI conjI, assumption, simp_all)
qed

end


section \<open>Rounds\<close>

text \<open>
  The abstract state of a queue: the users who are in its sorted set and whose entry names it.
\<close>

definition members :: "('r \<Rightarrow> int \<Rightarrow> string \<Rightarrow> (string \<times> int) list) \<Rightarrow> string \<Rightarrow> ('r, 'd) world \<Rightarrow> string set" where
  "members zv key w = set (map fst (zv (rds w) (clock w) (queueZsetKey key)))"

definition entered :: "('r, 'd) env \<Rightarrow> string \<Rightarrow> ('r, 'd) world \<Rightarrow> string set" where
  "entered E key w = {u. map_option qe_queueKey (parseQueueEntryState (rd_get (rdc E) (rds w) (clock w) (userQueueKey u))) = Some key}"

definition waiters :: "('r, 'd) env \<Rightarrow> ('r \<Rightarrow> int \<Rightarrow> string \<Rightarrow> (string \<times> int) list) \<Rightarrow> string \<Rightarrow> ('r, 'd) world \<Rightarrow> string set" where
  "waiters E zv key w = members zv key w \<inter> entered E key w"

text \<open>A session of the queue \<open>key\<close> between two users of whom neither blocks the other.\<close>

definition fair_session :: "string \<Rightarrow> tables \<Rightarrow> session_row \<Rightarrow> bool" where
  "fair_session key d s \<longleftrightarrow> se_queueKey s = Some key \<and> \<not> blocks d (se_userAId s) (se_userBId s) \<and>
     \<not> blocks d (se_userBId s) (se_userAId s)"

definition served :: "session_row list \<Rightarrow> string list" where
  "served ss = concat (map (\<lambda>s. [se_userAId s, se_userBId s]) ss)"

lemma served_simps [simp]: "served [] = []" "served (s # ss) = se_userAId s # se_userBId s # served ss"
  by (simp_all add: served_def)

text \<open>
  What the rounds promise: at most \<open>n\<close> new sessions, each fair; every user who waited is in
  exactly one of them or still waits, and nothing else in the database changes.
\<close>

definition rounds_ok :: "('r, 'd) env \<Rightarrow> ('r \<Rightarrow> int \<Rightarrow> string \<Rightarrow> (string \<times> int) list) \<Rightarrow> ('d \<Rightarrow> tables) \<Rightarrow>
  string \<Rightarrow> nat \<Rightarrow> ('r, 'd) world \<Rightarrow> ('r, 'd) world \<Rightarrow> bool" where
  "rounds_ok E zv view key n w w' \<longleftrightarrow> clock w' = clock w \<and>
    (\<exists>new. view (db w') = tb_sessions_update (\<lambda>ss. ss @ new) (view (db w)) \<and> length new \<le> n \<and>
       (\<forall>s \<in> set new. fair_session key (view (db w)) s) \<and> distinct (served new) \<and>
       waiters E zv key w' \<inter> set (served new) = {} \<and> waiters E zv key w = waiters E zv key w' \<union> set (served new))"

lemma sessions_append [simp]:
  "tb_sessions_update (\<lambda>ss. ss @ b) (tb_sessions_update (\<lambda>ss. ss @ a) d) = tb_sessions_update (\<lambda>ss. ss @ a @ b) d"
  "tb_sessions_update (\<lambda>ss. ss @ []) d = d" "blocks (tb_sessions_update f d) x y = blocks d x y"
  "fair_session key (tb_sessions_update f d) s = fair_session key d s"
  by (simp_all add: comp_def blocks_def fair_session_def)

lemma rounds_ok_same:
  "clock w' = clock w \<Longrightarrow> db w' = db w \<Longrightarrow> waiters E zv key w' = waiters E zv key w \<Longrightarrow> rounds_ok E zv view key n w w'"
  unfolding rounds_ok_def by (intro conjI exI [of _ "[]"]) simp_all

lemma rounds_ok_none:
  assumes "clock w1 = clock w" and "db w1 = db w" and "waiters E zv key w1 = waiters E zv key w"
    and "rounds_ok E zv view key n w1 w'"
  shows "rounds_ok E zv view key (Suc n) w w'"
  using assms unfolding rounds_ok_def by (auto intro: le_SucI)

lemma rounds_ok_match:
  assumes "clock w1 = clock w" and "view (db w1) = tb_sessions_update (\<lambda>ss. ss @ [s]) (view (db w))"
    and "waiters E zv key w = waiters E zv key w1 \<union> {se_userAId s, se_userBId s}" and "fair_session key (view (db w)) s"
    and "se_userAId s \<noteq> se_userBId s" and "se_userAId s \<notin> waiters E zv key w1" and "se_userBId s \<notin> waiters E zv key w1"
    and "rounds_ok E zv view key n w1 w'"
  shows "rounds_ok E zv view key (Suc n) w w'"
proof -
  obtain new where n: "view (db w') = tb_sessions_update (\<lambda>ss. ss @ new) (view (db w1))" "length new \<le> n"
    "\<forall>s \<in> set new. fair_session key (view (db w1)) s" "distinct (served new)"
    "waiters E zv key w' \<inter> set (served new) = {}" "waiters E zv key w1 = waiters E zv key w' \<union> set (served new)" "clock w' = clock w1"
    using assms(8) by (auto simp: rounds_ok_def)
  show ?thesis
    unfolding rounds_ok_def using assms(1-7) n by (intro conjI exI [of _ "s # new"]) auto
qed

context backend
begin

lemma zadd_world:
  fixes w :: "('r, 'd) world" and key :: string and ps :: "(int \<times> string) list"
  defines "w' \<equiv> w\<lparr>rds := snd (rd_zadd (rdc E) (rds w) (clock w) (queueZsetKey key) ps)\<rparr>"
  shows "members zv key w' = members zv key w \<union> set (map snd ps)" and "entered E key w' = entered E key w"
  using redis.zadd_members [of "rds w" "clock w" "queueZsetKey key" ps]
  by (simp_all add: w'_def members_def entered_def redis.unch_get)

lemma touched_world:
  assumes "unch (rdc E) zv sv other (clock w) K (rds w) (rds w')" and "clock w' = clock w"
  shows "queueZsetKey key \<notin> K \<Longrightarrow> members zv key w' = members zv key w"
    and "userQueueKey u \<notin> K \<Longrightarrow> u \<in> entered E key w' \<longleftrightarrow> u \<in> entered E key w"
  using redis.unchD(1,3) [OF assms(1)] assms(2) by (simp_all add: members_def entered_def)

lemma validatePair_None:
  assumes "run_state (validatePair E key p) w = (None, w')"
  shows "clock w' = clock w" and "db w' = db w"
    and "waiters E zv key w' = (members zv key w \<union> {qp_userA p, qp_userB p}) \<inter> entered E key w"
proof -
  have e: "map_option qe_queueKey (parseQueueEntryState (rd_get (rdc E) (rds w) (clock w) (userQueueKey u))) = Some key \<longleftrightarrow>
      u \<in> entered E key w" for u
    by (simp add: entered_def)
  have "clock w' = clock w \<and> db w' = db w \<and>
      waiters E zv key w' = (members zv key w \<union> {qp_userA p, qp_userB p}) \<inter> entered E key w"
    using assms
    by (auto simp: validatePair_def run Let_def redis.mget isPairBlocked_run deferBlockedPair_def e waiters_def zadd_world
        simp del: map_option_eq_Some split: if_splits)
  then show "clock w' = clock w" "db w' = db w"
    "waiters E zv key w' = (members zv key w \<union> {qp_userA p, qp_userB p}) \<inter> entered E key w" by simp_all
qed


lemma popped_waiters:
  assumes "zv (rds w) (clock w) (queueZsetKey key) = (a, sa) # (b, sb) # rest"
    and "zv (rds w1) (clock w) (queueZsetKey key) = rest" and "clock w1 = clock w"
    and "unch (rdc E) zv sv other (clock w) {queueZsetKey key} (rds w) (rds w1)"
  shows "members zv key w = members zv key w1 \<union> {a, b}" and "a \<noteq> b" and "a \<notin> members zv key w1" and "b \<notin> members zv key w1"
    and "entered E key w1 = entered E key w"
proof -
  have "distinct (a # b # map fst rest)"
    using redis.zv_wf [of "rds w" "clock w" "queueZsetKey key"] by (simp add: assms(1))
  then show "members zv key w = members zv key w1 \<union> {a, b}" "a \<noteq> b" "a \<notin> members zv key w1" "b \<notin> members zv key w1"
    by (auto simp: members_def assms(1-3))
  show "entered E key w1 = entered E key w"
    using touched_world(2) [OF assms(4,3)] by auto
qed

lemma locked_waiters:
  assumes "run_state (lockUsers E us) w = (x, w')"
  shows "clock w' = clock w" "db w' = db w" "members zv key w' = members zv key w" "entered E key w' = entered E key w"
proof -
  have "touches E zv sv other (range userLockKey) (lockUsers E us)"
    unfolding lockUsers_def by (rule lockUsers_touches) simp
  from touchesD [OF this, of w] have t: "clock w' = clock w"
    "unch (rdc E) zv sv other (clock w) (range userLockKey) (rds w) (rds w')" using assms by simp_all
  then show "clock w' = clock w" "members zv key w' = members zv key w" "entered E key w' = entered E key w"
    using touched_world [OF t(2,1)] by auto
  show "db w' = db w" using keeps_dbD [OF lockUsers_keeps_db [of E us "[]"], of w] assms by (simp add: lockUsers_def)
qed

text \<open>The session of a pair, with the locks given back.\<close>

lemma match_round:
  assumes "members zv key w1 = M" and "a \<notin> M" and "b \<notin> M" and "a \<in> entered E key w" and "b \<in> entered E key w"
    and "entered E key w1 = entered E key w" and "fst ` set ls = {a, b}"
  obtains s w2 where
    "run_state (try_finally (matchPair E key p a b) (releaseUserLocks E ls)) w1 = (Inr (), w2)" "clock w2 = clock w1"
    "s = new_session a b key (clock w1) (se_id s)" "view (db w2) = tb_sessions_update (\<lambda>ss. ss @ [s]) (view (db w1))"
    "waiters E zv key w2 = M \<inter> entered E key w"
proof -
  obtain s v where m: "run_state (matchPair E key p a b) w1 = (Inr (), v)" "clock v = clock w1"
    "s = new_session a b key (clock w1) (se_id s)" "view (db v) = tb_sessions_update (\<lambda>ss. ss @ [s]) (view (db w1))"
    "unch (rdc E) zv sv other (clock w1) (session_space \<union> pair_keys a b) (rds w1) (rds v)"
    using matchPair_run [of key p a b w1] by (elim exE conjE) (rule that)
  define w2 where "w2 = snd (run_state (releaseUserLocks E ls) v)"
  have "touches E zv sv other (range userLockKey) (releaseUserLocks E ls)"
    by (rule releaseUserLocks_touches) simp
  note t = touchesD [OF this, of v, folded w2_def]
  have "db w2 = db v" using keeps_dbD [OF releaseUserLocks_keeps_db [of E ls], of v] by (simp add: w2_def)
  moreover have mem: "members zv key w2 = M"
    using touched_world(1) [OF t(2,1)] touched_world(1) [OF m(5,2)] assms(1) by (auto simp: pair_keys_def)
  have e: "u \<in> entered E key w2 \<longleftrightarrow> u \<in> entered E key w" if "u \<notin> {a, b}" for u
    using touched_world(2) [OF t(2,1)] touched_world(2) [OF m(5,2)] assms(6) that by (auto simp: pair_keys_def)
  have "waiters E zv key w2 = M \<inter> entered E key w"
    unfolding waiters_def mem
  proof (rule set_eqI)
    fix x
    show "x \<in> M \<inter> entered E key w2 \<longleftrightarrow> x \<in> M \<inter> entered E key w"
      using e [of x] assms(2,3) by (cases "x \<in> {a, b}") auto
  qed
  moreover have "run_state (try_finally (matchPair E key p a b) (releaseUserLocks E ls)) w1 = (Inr (), w2)"
    by (simp add: run m(1) w2_def)
  ultimately show thesis
    using m(2-4) t(1) by (intro that [of w2 s]) simp_all
qed

lemma matchRounds_valid:
  assumes IH: "\<And>w. \<exists>w'. run_state (matchRounds E key n) w = (Inr (), w') \<and> rounds_ok E zv view key n w w'"
    and w1: "run_state (popPair E key) w = (Some p, w1)" "clock w1 = clock w" "db w1 = db w"
    and v: "run_state (validatePair E key p) w1 = (Some (a, b), w1)" "\<not> blocks (view (db w)) a b \<and> \<not> blocks (view (db w)) b a"
    and pw: "members zv key w = members zv key w1 \<union> {a, b}" "a \<noteq> b" "a \<notin> members zv key w1" "b \<notin> members zv key w1"
      "entered E key w1 = entered E key w"
    and e: "qp_userA p = a" "qp_userB p = b" "a \<in> entered E key w" "b \<in> entered E key w"
  shows "\<exists>w'. run_state (matchRounds E key (Suc n)) w = (Inr (), w') \<and> rounds_ok E zv view key (Suc n) w w'"
proof -
  obtain l w2 where l: "run_state (lockUsers E [a, b]) w1 = (l, w2)" by (cases "run_state (lockUsers E [a, b]) w1")
  note lw = locked_waiters [OF l]
  show ?thesis
  proof (cases l)
    case None
    define w3 where "w3 = w2\<lparr>rds := snd (rd_zadd (rdc E) (rds w2) (clock w2) (queueZsetKey key) [(qp_scoreA p, a), (qp_scoreB p, b)])\<rparr>"
    have "waiters E zv key w3 = waiters E zv key w"
      using zadd_world [where w = w2 and key = key] lw pw by (simp add: w3_def waiters_def)
    moreover obtain w' where "run_state (matchRounds E key n) w3 = (Inr (), w')" "rounds_ok E zv view key n w3 w'"
      using IH by blast
    moreover have "clock w3 = clock w" "db w3 = db w" using lw w1 by (simp_all add: w3_def)
    ultimately show ?thesis
      using w1 v l None e(1,2) rounds_ok_none [of w3 w E zv key view n w']
      by (intro exI [of _ w']) (simp add: requeuePair_def run w3_def)
  next
    case (Some ls)
    have ls: "fst ` set ls = {a, b}" using lockUsers_result [of E "[a, b]" "[]" w1 ls w2] l Some by (simp add: lockUsers_def)
    obtain s w3 where m: "run_state (try_finally (matchPair E key p a b) (releaseUserLocks E ls)) w2 = (Inr (), w3)" "clock w3 = clock w2"
      "s = new_session a b key (clock w2) (se_id s)" "view (db w3) = tb_sessions_update (\<lambda>ss. ss @ [s]) (view (db w2))"
      "waiters E zv key w3 = members zv key w1 \<inter> entered E key w"
      by (rule match_round [OF lw(3) pw(3,4) e(3,4) trans [OF lw(4) pw(5)] ls])
    have s: "se_userAId s = a" "se_userBId s = b" "se_queueKey s = Some key"
      using m(3) by (metis new_session_def session_row.select_convs(3,4,6))+
    obtain w' where w': "run_state (matchRounds E key n) w3 = (Inr (), w')" "rounds_ok E zv view key n w3 w'"
      using IH by blast
    have "rounds_ok E zv view key (Suc n) w w'"
      by (rule rounds_ok_match [OF _ _ _ _ _ _ _ w'(2), of w s])
        (use m(2,4,5) lw w1 v(2) pw e s in \<open>auto simp: fair_session_def waiters_def\<close>)
    then show ?thesis
      using w1 v(1) l Some m(1) w'(1) by (intro exI [of _ w']) (simp add: run)
  qed
qed

lemma matchRounds_run:
  "\<exists>w'. run_state (matchRounds E key n) w = (Inr (), w') \<and> rounds_ok E zv view key n w w'"
proof (induction n arbitrary: w)
  case 0
  show ?case using rounds_ok_same by fastforce
next
  case (Suc n)
  consider (few) "length (zv (rds w) (clock w) (queueZsetKey key)) < 2"
    | (two) a sa b sb rest where "zv (rds w) (clock w) (queueZsetKey key) = (a, sa) # (b, sb) # rest"
    by (cases "zv (rds w) (clock w) (queueZsetKey key)" rule: remdups_adj.cases) auto
  then show ?case
  proof cases
    case few
    obtain r' where p: "run_state (popPair E key) w = (None, w\<lparr>rds := r'\<rparr>)"
      "zv r' (clock w) (queueZsetKey key) = zv (rds w) (clock w) (queueZsetKey key)"
      "unch (rdc E) zv sv other (clock w) {queueZsetKey key} (rds w) r'"
      using popPair_few [OF few] by blast
    have "entered E key (w\<lparr>rds := r'\<rparr>) = entered E key w" using touched_world(2) [of w _ "w\<lparr>rds := r'\<rparr>"] p(3) by auto
    then have "waiters E zv key (w\<lparr>rds := r'\<rparr>) = waiters E zv key w" using p(2) by (simp add: waiters_def members_def)
    with p(1) show ?thesis by (auto intro!: rounds_ok_same)
  next
    case two
    obtain r' where p: "run_state (popPair E key) w = (Some \<lparr>qp_userA = a, qp_userB = b, qp_scoreA = sa, qp_scoreB = sb\<rparr>, w\<lparr>rds := r'\<rparr>)"
      "zv r' (clock w) (queueZsetKey key) = rest" "unch (rdc E) zv sv other (clock w) {queueZsetKey key} (rds w) r'"
      using popPair_two [OF two] by blast
    let ?p = "\<lparr>qp_userA = a, qp_userB = b, qp_scoreA = sa, qp_scoreB = sb\<rparr>"
    define w1 where "w1 = w\<lparr>rds := r'\<rparr>"
    have w1: "run_state (popPair E key) w = (Some ?p, w1)" "clock w1 = clock w" "db w1 = db w"
      using p(1) by (simp_all add: w1_def)
    have pw: "members zv key w = members zv key w1 \<union> {a, b}" "a \<noteq> b" "a \<notin> members zv key w1" "b \<notin> members zv key w1"
      "entered E key w1 = entered E key w"
      using popped_waiters [OF two, of w1] p(2,3) by (simp_all add: w1_def)
    obtain v w2 where v: "run_state (validatePair E key ?p) w1 = (v, w2)" by (cases "run_state (validatePair E key ?p) w1")
    show ?thesis
    proof (cases v)
      case None
      note n = validatePair_None [OF v [unfolded None]]
      have same: "waiters E zv key w2 = waiters E zv key w"
        using n(3) pw by (simp add: waiters_def)
      obtain w' where "run_state (matchRounds E key n) w2 = (Inr (), w')" "rounds_ok E zv view key n w2 w'"
        using Suc.IH by blast
      then show ?thesis
        using rounds_ok_none [OF _ _ same] n(1,2) w1 v None by (intro exI [of _ w']) simp
    next
      case (Some xy)
      then obtain x y where xy: "run_state (validatePair E key ?p) w1 = (Some (x, y), w2)" using v by (cases xy) simp
      have ok: "w2 = w1" "x = a" "y = b" "a \<in> entered E key w1" "b \<in> entered E key w1" "\<not> blocks (view (db w1)) a b \<and> \<not> blocks (view (db w1)) b a"
        using validatePair_Some [OF xy] by (auto simp: entered_def)
      show ?thesis
        by (rule matchRounds_valid [OF Suc.IH w1 _ _ pw]) (use ok xy w1(3) pw(5) in simp_all)
    qed
  qed
qed


lemma rounds_ok_after:
  assumes "rounds_ok E zv view key n w w1" and "clock w2 = clock w1" and "db w2 = db w1" and "waiters E zv key w2 = waiters E zv key w1"
  shows "rounds_ok E zv view key n w w2"
  using assms by (simp add: rounds_ok_def)

lemma emitQueueStatus_run: "\<exists>tr. run_state (emitQueueStatus E key) w = ((), w\<lparr>trace := trace w @ tr\<rparr>)"
proof -
  have each: "\<exists>tr. run_state (forEach us (\<lambda>u. emit (f u))) w = ((), w\<lparr>trace := trace w @ tr\<rparr>)"
    for us :: "string list" and f and w :: "('r, 'd) world"
  proof (induction us arbitrary: w)
    case Nil
    show ?case by (rule exI [of _ "[]"]) simp
  next
    case (Cons u us)
    from Cons [of "w\<lparr>trace := trace w @ [f u]\<rparr>"] show ?case by (auto simp: run)
  qed
  have "\<exists>tr. w = w\<lparr>trace := trace w @ tr\<rparr>" by (rule exI [of _ "[]"]) simp
  then show ?thesis
    using each by (simp add: emitQueueStatus_def getQueuedUserIds_def getQueueSize_def run)
qed

lemma getQueueSize_run: "run_state (getQueueSize E key) w = (if key = [] then 0 else rd_zcard (rdc E) (rds w) (clock w) (queueZsetKey key), w)"
  by (simp add: getQueueSize_def run)

lemma processQueueKey_tail:
  "\<exists>w'. snd (run_state (do { cleanupQueueKey E key; n \<leftarrow> getQueueSize E key;
     if n \<noteq> m then do { emitQueueStatus E key; ok () } else ok () }) w) = w' \<and>
    fst (run_state (do { cleanupQueueKey E key; n \<leftarrow> getQueueSize E key;
     if n \<noteq> m then do { emitQueueStatus E key; ok () } else ok () }) w) = Inr () \<and>
    clock w' = clock w \<and> db w' = db w \<and> waiters E zv key w' = waiters E zv key w"
proof -
  define w1 where "w1 = snd (run_state (cleanupQueueKey E key) w)"
  have "touches E zv sv other {QUEUE_KEYS_SET} (cleanupQueueKey E key)"
    unfolding cleanupQueueKey_def by (intro touch) simp
  note t = touchesD [OF this, of w, folded w1_def]
  have "db w1 = db w" by (simp add: w1_def cleanupQueueKey_run)
  moreover have "waiters E zv key w1 = waiters E zv key w"
    using touched_world [OF t(2,1)] by (auto simp: waiters_def)
  moreover obtain tr where "run_state (emitQueueStatus E key) w1 = ((), w1\<lparr>trace := trace w1 @ tr\<rparr>)"
    using emitQueueStatus_run by blast
  moreover have "waiters E zv key (w1\<lparr>trace := tr\<rparr>) = waiters E zv key w1" for tr
    by (simp add: waiters_def members_def entered_def)
  moreover have "run_state (cleanupQueueKey E key) w = ((), w1)" by (simp add: w1_def cleanupQueueKey_run)
  ultimately show ?thesis using t(1) by (simp add: getQueueSize_run run)
qed

lemma processQueueKey_run:
  "\<exists>w'. run_state (processQueueKey E key) w = (Inr (), w') \<and> rounds_ok E zv view key MAX_MATCHES_PER_KEY w w'"
proof -
  obtain n where n: "run_state (getQueueSize E key) w = (n, w)" by (simp add: getQueueSize_run)
  obtain w1 where w1: "run_state (matchRounds E key MAX_MATCHES_PER_KEY) w = (Inr (), w1)"
    "rounds_ok E zv view key MAX_MATCHES_PER_KEY w w1"
    using matchRounds_run by blast
  obtain w2 where w2: "run_state (do { cleanupQueueKey E key; k \<leftarrow> getQueueSize E key;
      if k \<noteq> n then do { emitQueueStatus E key; ok () } else ok () }) w1 = (Inr (), w2)"
    "clock w2 = clock w1" "db w2 = db w1" "waiters E zv key w2 = waiters E zv key w1"
    using processQueueKey_tail [of key n w1] by (metis prod.collapse)
  have "run_state (processQueueKey E key) w = (Inr (), w2)"
    unfolding processQueueKey_def using n w1(1) w2(1) by (simp add: run del: bind_assoc)
  with rounds_ok_after [OF w1(2) w2(2-4)] show ?thesis by blast
qed


text \<open>The first two users of a queue, if their locks are free and neither blocks the other.\<close>

lemma lockUsers_free:
  assumes "\<not> other (rds w) (userLockKey a)" "rd_get (rdc E) (rds w) (clock w) (userLockKey a) = None"
    and "\<not> other (rds w) (userLockKey b)" "rd_get (rdc E) (rds w) (clock w) (userLockKey b) = None" and "a \<noteq> b"
  shows "\<exists>ls w'. run_state (lockUsers E [a, b]) w = (Some ls, w')"
proof -
  define w1 where "w1 = locked E a w"
  note l = lock_redis_facts [OF assms(1,2)]
  have "\<not> other (rds w1) (userLockKey b)" "rd_get (rdc E) (rds w1) (clock w1) (userLockKey b) = None"
    using assms(3-5) redis.unchD(1,5) [OF l(3)] by (simp_all add: w1_def)
  then show ?thesis
    using acquireLock_run [of w a] acquireLock_run [of w1 b] assms(1,2)
    by (simp add: lockUsers_def w1_def locked_def)
qed

lemma first_pair_round:
  assumes z: "zv (rds w) (clock w) (queueZsetKey key) = (a, sa) # (b, sb) # rest"
    and e: "a \<in> entered E key w" "b \<in> entered E key w" and bl: "\<not> blocks (view (db w)) a b" "\<not> blocks (view (db w)) b a"
    and f: "\<not> other (rds w) (userLockKey a)" "rd_get (rdc E) (rds w) (clock w) (userLockKey a) = None"
      "\<not> other (rds w) (userLockKey b)" "rd_get (rdc E) (rds w) (clock w) (userLockKey b) = None"
  shows "\<exists>s w'. run_state (matchRounds E key (Suc n)) w = run_state (matchRounds E key n) w' \<and>
    s = new_session a b key (clock w) (se_id s) \<and> view (db w') = tb_sessions_update (\<lambda>ss. ss @ [s]) (view (db w))"
proof -
  let ?p = "\<lparr>qp_userA = a, qp_userB = b, qp_scoreA = sa, qp_scoreB = sb\<rparr>"
  obtain r' where p: "run_state (popPair E key) w = (Some ?p, w\<lparr>rds := r'\<rparr>)"
    "zv r' (clock w) (queueZsetKey key) = rest" "unch (rdc E) zv sv other (clock w) {queueZsetKey key} (rds w) r'"
    using popPair_two [OF z] by blast
  define w1 where "w1 = w\<lparr>rds := r'\<rparr>"
  have pw: "a \<noteq> b" "a \<notin> members zv key w1" "b \<notin> members zv key w1" "entered E key w1 = entered E key w"
    using popped_waiters [OF z, of w1] p(2,3) by (simp_all add: w1_def)
  have v: "run_state (validatePair E key ?p) w1 = (Some (a, b), w1)"
    using validatePair_ok [of w1 ?p key] e bl pw(4) by (simp add: entered_def w1_def set_eq_iff)
  have "\<not> other (rds w1) (userLockKey a)" "rd_get (rdc E) (rds w1) (clock w1) (userLockKey a) = None"
    "\<not> other (rds w1) (userLockKey b)" "rd_get (rdc E) (rds w1) (clock w1) (userLockKey b) = None"
    using f redis.unchD(1,5) [OF p(3)] by (simp_all add: w1_def)
  from lockUsers_free [OF this pw(1)] obtain ls w2 where l: "run_state (lockUsers E [a, b]) w1 = (Some ls, w2)" by blast
  note lw = locked_waiters [OF l]
  have ls: "fst ` set ls = {a, b}" using lockUsers_result [of E "[a, b]" "[]" w1 ls w2] l by (simp add: lockUsers_def)
  obtain s w3 where m: "run_state (try_finally (matchPair E key ?p a b) (releaseUserLocks E ls)) w2 = (Inr (), w3)"
    "s = new_session a b key (clock w2) (se_id s)" "view (db w3) = tb_sessions_update (\<lambda>ss. ss @ [s]) (view (db w2))"
    by (rule match_round [OF lw(3) pw(2,3) e trans [OF lw(4) pw(4)] ls])
  have "run_state (matchRounds E key (Suc n)) w = run_state (matchRounds E key n) w3"
    using p(1) v l m(1) by (simp add: run w1_def)
  with m(2,3) lw(1,2) show ?thesis by - (intro exI conjI, assumption, simp_all add: w1_def)
qed

lemma first_pair_served:
  assumes z: "zv (rds w) (clock w) (queueZsetKey key) = (a, sa) # (b, sb) # rest"
    and e: "a \<in> entered E key w" "b \<in> entered E key w" and bl: "\<not> blocks (view (db w)) a b" "\<not> blocks (view (db w)) b a"
    and f: "\<not> other (rds w) (userLockKey a)" "rd_get (rdc E) (rds w) (clock w) (userLockKey a) = None"
      "\<not> other (rds w) (userLockKey b)" "rd_get (rdc E) (rds w) (clock w) (userLockKey b) = None"
  shows "\<exists>s w'. run_state (processQueueKey E key) w = (Inr (), w') \<and>
    s = new_session a b key (clock w) (se_id s) \<and> s \<in> set (tb_sessions (view (db w')))"
proof -
  obtain s w1 where s: "run_state (matchRounds E key (Suc 9)) w = run_state (matchRounds E key 9) w1"
    "s = new_session a b key (clock w) (se_id s)" "view (db w1) = tb_sessions_update (\<lambda>ss. ss @ [s]) (view (db w))"
    using first_pair_round [OF assms, of 9] by (elim exE conjE) (rule that)
  obtain w2 where w2: "run_state (matchRounds E key 9) w1 = (Inr (), w2)" "rounds_ok E zv view key 9 w1 w2"
    using matchRounds_run by blast
  from w2(2) s(3) have mem: "s \<in> set (tb_sessions (view (db w2)))" by (auto simp: rounds_ok_def)
  obtain m where m: "run_state (getQueueSize E key) w = (m, w)" by (simp add: getQueueSize_run)
  obtain w3 where w3: "run_state (do { cleanupQueueKey E key; k \<leftarrow> getQueueSize E key;
      if k \<noteq> m then do { emitQueueStatus E key; ok () } else ok () }) w2 = (Inr (), w3)" "db w3 = db w2"
    using processQueueKey_tail [of key m w2] by (metis prod.collapse)
  have "MAX_MATCHES_PER_KEY = Suc 9" by (simp add: MAX_MATCHES_PER_KEY_def)
  then have "run_state (processQueueKey E key) w = (Inr (), w3)"
    unfolding processQueueKey_def using m s(1) w2(1) w3(1) by (simp add: run del: bind_assoc)
  with s(2) mem w3(2) show ?thesis by - (intro exI conjI, assumption, simp_all)
qed

end

end
