(* ===== verification/Queue_Keys.thy ===== *)
theory Queue_Keys
  imports Queue_Laws
begin

text \<open>
  How users are put into queues (\<open>normalizeQueueCity\<close>, \<open>stableStringify\<close> and
  \<open>buildQueueKey\<close> of \<open>src/src/queue/queue.service.ts\<close>): the normal form of a city, and the
  independence of the key from the order in which preferences are written.
\<close>

section \<open>Cities\<close>

fun no_double_dash :: "string \<Rightarrow> bool" where
  "no_double_dash (a # b # s) \<longleftrightarrow> \<not> (a = CHR ''-'' \<and> b = CHR ''-'') \<and> no_double_dash (b # s)"
| "no_double_dash _ = True"

definition slug :: "string \<Rightarrow> bool" where
  "slug s \<longleftrightarrow> s \<noteq> [] \<and> list_all (\<lambda>c. slug_char c \<or> c = CHR ''-'') s \<and> no_double_dash s \<and>
     hd s \<noteq> CHR ''-'' \<and> last s \<noteq> CHR ''-''"

lemma slug_char_dash [simp]: "\<not> slug_char CHR ''-''"
  by (simp add: slug_char_def)

lemma no_double_dash_Cons: "no_double_dash (a # s) \<longleftrightarrow> (a = CHR ''-'' \<longrightarrow> s = [] \<or> hd s \<noteq> CHR ''-'') \<and> no_double_dash s"
  by (cases s) auto

lemma dash_runs_slug:
  "list_all (\<lambda>c. slug_char c \<or> c = CHR ''-'') (dash_runs after s) \<and> no_double_dash (dash_runs after s) \<and>
   (after \<longrightarrow> dash_runs after s = [] \<or> hd (dash_runs after s) \<noteq> CHR ''-'')"
  by (induction after s rule: dash_runs.induct) (auto simp: no_double_dash_Cons)

lemma no_double_dash_append1: "no_double_dash (s @ t) \<Longrightarrow> no_double_dash s \<and> no_double_dash t"
  by (induction s) (auto simp: no_double_dash_Cons hd_append split: if_splits)

lemma strip_dashes_split: "\<exists>a b. s = a @ strip_dashes s @ b"
proof -
  let ?P = "\<lambda>c. c = CHR ''-''"
  let ?d = "dropWhile ?P s"
  have "s = takeWhile ?P s @ ?d" by simp
  moreover have "?d = strip_dashes s @ rev (takeWhile ?P (rev ?d))"
    unfolding strip_dashes_def by (metis rev_append rev_rev_ident takeWhile_dropWhile_id)
  ultimately show ?thesis by metis
qed

lemma strip_dashes_ends:
  assumes "strip_dashes s \<noteq> []"
  shows "hd (strip_dashes s) \<noteq> CHR ''-''" and "last (strip_dashes s) \<noteq> CHR ''-''"
proof -
  let ?P = "\<lambda>c. c = CHR ''-''"
  let ?d = "dropWhile ?P s"
  have r: "dropWhile ?P (rev ?d) \<noteq> []" using assms by (simp add: strip_dashes_def)
  then show "last (strip_dashes s) \<noteq> CHR ''-''"
    using hd_dropWhile [OF r] by (simp add: strip_dashes_def last_rev)
  define t where "t = rev (takeWhile ?P (rev ?d))"
  have d: "?d = strip_dashes s @ t"
    unfolding strip_dashes_def t_def by (metis rev_append rev_rev_ident takeWhile_dropWhile_id)
  then have "?d \<noteq> []" and "hd ?d = hd (strip_dashes s)"
    using assms by (simp_all only: hd_append2 append_is_Nil_conv simp_thms)
  then show "hd (strip_dashes s) \<noteq> CHR ''-''"
    using hd_dropWhile [of ?P s] by simp
qed

lemma normalizeQueueCity_slug: "normalizeQueueCity v = Some c \<Longrightarrow> slug c"
proof -
  assume n: "normalizeQueueCity v = Some c"
  then obtain s where c: "c = strip_dashes (dash_runs False (toLowerCase (trim s)))" "c \<noteq> []"
    by (auto simp: normalizeQueueCity_def Let_def split: option.splits json.splits if_splits)
  let ?t = "dash_runs False (toLowerCase (trim s))"
  obtain a b where "?t = a @ strip_dashes ?t @ b" using strip_dashes_split [of ?t] by blast
  then have t: "?t = a @ c @ b" by (simp only: c(1))
  have "list_all (\<lambda>c. slug_char c \<or> c = CHR ''-'') c \<and> no_double_dash c"
    using dash_runs_slug [of False "toLowerCase (trim s)"] no_double_dash_append1 [of a "c @ b"] no_double_dash_append1 [of c b]
    by (simp add: t)
  with c strip_dashes_ends [of ?t] show "slug c" by (simp add: slug_def)
qed

lemma slug_char_plain: "slug_char c \<or> c = CHR ''-'' \<Longrightarrow> \<not> js_space c \<and> lower_char c = c"
  by (auto simp: slug_char_def js_space_def lower_char_def Let_def)

lemma dash_runs_fix:
  "list_all (\<lambda>c. slug_char c \<or> c = CHR ''-'') s \<Longrightarrow> no_double_dash s \<Longrightarrow> (after \<longrightarrow> s = [] \<or> hd s \<noteq> CHR ''-'') \<Longrightarrow>
   dash_runs after s = s"
  by (induction after s rule: dash_runs.induct) (auto simp: no_double_dash_Cons)

lemma normalizeQueueCity_fix:
  assumes "slug c"
  shows "normalizeQueueCity (Some (JStr c)) = Some c"
proof -
  have chars: "\<forall>x \<in> set c. \<not> js_space x \<and> lower_char x = x"
    using assms slug_char_plain by (auto simp: slug_def list_all_iff)
  then have "trim c = c" "toLowerCase c = c"
    by (simp_all add: trim_no_space toLowerCase_def map_idI)
  moreover have "dash_runs False c = c"
    using assms by (intro dash_runs_fix) (simp_all add: slug_def)
  moreover have "strip_dashes c = c"
  proof -
    have "dropWhile (\<lambda>x. x = CHR ''-'') c = c" "dropWhile (\<lambda>x. x = CHR ''-'') (rev c) = rev c"
      using assms by (cases c; simp add: slug_def) (cases "rev c"; use assms in \<open>simp add: slug_def flip: hd_rev\<close>)
    then show ?thesis by (simp add: strip_dashes_def)
  qed
  ultimately show ?thesis
    using assms by (simp add: normalizeQueueCity_def slug_def)
qed

lemma resolveQueueCity_slug: "resolveQueueCity input = Inr c \<Longrightarrow> slug c"
proof -
  have d: "slug DEFAULT_QUEUE_CITY" by (simp add: slug_def DEFAULT_QUEUE_CITY_def slug_char_def)
  show "resolveQueueCity input = Inr c \<Longrightarrow> slug c"
    by (auto simp: resolveQueueCity_def d dest: normalizeQueueCity_slug split: option.splits if_splits)
qed

section \<open>Preferences\<close>

text \<open>Equal up to the order of the keys of objects, at any depth.\<close>

inductive json_same :: "json \<Rightarrow> json \<Rightarrow> bool" where
  same_value: "json_same j j"
| same_items: "length xs = length ys \<Longrightarrow> (\<And>i. i < length xs \<Longrightarrow> json_same (xs ! i) (ys ! i)) \<Longrightarrow> json_same (JArr xs) (JArr ys)"
| same_members: "distinct (map fst kvs) \<Longrightarrow> distinct (map fst kvs') \<Longrightarrow> set (map fst kvs) = set (map fst kvs') \<Longrightarrow>
    (\<And>k v v'. map_of kvs k = Some v \<Longrightarrow> map_of kvs' k = Some v' \<Longrightarrow> json_same v v') \<Longrightarrow> json_same (JObj kvs) (JObj kvs')"

lemma map_of_rev_distinct: "distinct (map fst xs) \<Longrightarrow> map_of (rev xs) = map_of xs"
  by (rule map_of_inject_set [THEN iffD2]) (simp_all add: rev_map [symmetric])

lemma stable_entry:
  assumes "distinct (map fst kvs)"
  shows "map_of (rev (map (\<lambda>(k, v). (k, stableStringify v)) kvs)) k = map_option stableStringify (map_of kvs k)"
proof -
  have "distinct (map fst (map (\<lambda>(k, v). (k, stableStringify v)) kvs))"
    using assms by (simp add: case_prod_beta comp_def)
  then show ?thesis by (simp add: map_of_rev_distinct map_of_map)
qed

lemma stableStringify_same: "json_same j j' \<Longrightarrow> stableStringify j = stableStringify j'"
proof (induction rule: json_same.induct)
  case (same_items xs ys)
  then have "map stableStringify xs = map stableStringify ys"
    by (intro nth_equalityI) simp_all
  then show ?case by simp
next
  case (same_members kvs kvs')
  have keys: "sort (remdups (map fst kvs)) = sort (remdups (map fst kvs'))"
    using same_members.hyps(3) by (simp only: sorted_list_of_set_sort_remdups [symmetric])
  have texts: "map_option stableStringify (map_of kvs k) = map_option stableStringify (map_of kvs' k)" for k
  proof (cases "map_of kvs k")
    case None
    then have "map_of kvs' k = None" using same_members.hyps(3) by (simp add: map_of_eq_None_iff)
    with None show ?thesis by simp
  next
    case (Some v)
    then have "k \<in> set (map fst kvs')" using same_members.hyps(3) by (metis domI dom_map_of_conv_image_fst list.set_map)
    then obtain v' where "map_of kvs' k = Some v'" by (metis list.set_map map_of_eq_None_iff not_None_eq)
    with Some same_members.IH show ?thesis by simp
  qed
  show ?case
    by (simp only: stableStringify.simps Let_def stable_entry [OF same_members.hyps(1)] stable_entry [OF same_members.hyps(2)]
        texts map_map comp_def case_prod_beta fst_conv keys)
qed simp

end
