(* ===== verification/Queue_Props.thy ===== *)
theory Queue_Props
  imports Worker_Laws Queue_Keys
begin

text \<open>
  The properties of the queue (\<open>src/src/queue/queue.service.ts\<close>) and of the matching worker
  (\<open>src/src/queue/matching.worker.ts\<close>), with their witnesses.
\<close>

context backend
begin

text \<open>Facts that survive until a later time.\<close>

lemma still_None: "rd_get (rdc E) r t k = None \<Longrightarrow> t \<le> t' \<Longrightarrow> rd_get (rdc E) r t' k = None"
  using redis.get_expires by (metis not_None_eq)

lemma still_not_truthy: "\<not> truthy (rd_get (rdc E) r t k) \<Longrightarrow> t \<le> t' \<Longrightarrow> \<not> truthy (rd_get (rdc E) r t' k)"
  using redis.get_expires by (metis truthy_iff)

text \<open>A join that returns has charged one token.\<close>

lemma joined:
  assumes j: "may_join E other uid input city key w" and a: "account uid u (view (db w))"
    and run: "run_state (joinQueue E uid input) w = (Inr r, w1)"
  shows "jr_status r = Queued" "jr_queueKey r = key" "clock w1 = clock w" "view (db w1) = paid uid (-1) (view (db w))"
    "jr_position r \<noteq> None" "jr_position r = rank_of (map fst (zv (rds w1) (clock w) (queueZsetKey key))) uid"
    "waiting E zv uid key (clock w) (rds w1) (clock w)" "key \<in> sv (rds w1) (clock w) QUEUE_KEYS_SET"
    "\<And>t. rd_get (rdc E) (rds w1) t (userLockKey uid) = None" "\<not> other (rds w1) (userLockKey uid)"
    "unch (rdc E) zv sv other (clock w) {queueZsetKey key, userQueueKey uid, QUEUE_KEYS_SET, userLockKey uid} (rds w) (rds w1)"
    "1 \<le> us_tokenBalance u"
proof -
  show b: "1 \<le> us_tokenBalance u" using join_poor [OF j a] run by fastforce
  have x: "fst (rd_exec (rdc E) (lock_redis E uid w) (clock w) (join_commands uid key (clock w)))"
    using join_refunded [OF j a b] run by fastforce
  obtain p where p: "r = \<lparr>jr_status = Queued, jr_queueKey = key, jr_position = Some p\<rparr>"
    "rank_of (map fst (zv (rds w1) (clock w) (queueZsetKey key))) uid = Some p"
    and q: "clock w1 = clock w" "view (db w1) = paid uid (-1) (view (db w))"
    "waiting E zv uid key (clock w) (rds w1) (clock w)" "key \<in> sv (rds w1) (clock w) QUEUE_KEYS_SET"
    "\<And>t. rd_get (rdc E) (rds w1) t (userLockKey uid) = None" "\<not> other (rds w1) (userLockKey uid)"
    "unch (rdc E) zv sv other (clock w) {queueZsetKey key, userQueueKey uid, QUEUE_KEYS_SET, userLockKey uid} (rds w) (rds w1)"
    using join_queued [OF j a b x] run by auto
  show "jr_status r = Queued" "jr_queueKey r = key" "jr_position r \<noteq> None"
    "jr_position r = rank_of (map fst (zv (rds w1) (clock w) (queueZsetKey key))) uid"
    using p by simp_all
  show "clock w1 = clock w" "view (db w1) = paid uid (-1) (view (db w))"
    "waiting E zv uid key (clock w) (rds w1) (clock w)" "key \<in> sv (rds w1) (clock w) QUEUE_KEYS_SET"
    "\<And>t. rd_get (rdc E) (rds w1) t (userLockKey uid) = None" "\<not> other (rds w1) (userLockKey uid)"
    "unch (rdc E) zv sv other (clock w) {queueZsetKey key, userQueueKey uid, QUEUE_KEYS_SET, userLockKey uid} (rds w) (rds w1)"
    using q by simp_all
qed

lemma join_outcome:
  assumes j: "may_join E other uid input city key w" and a: "account uid u (view (db w))" "1 \<le> us_tokenBalance u"
    and run: "run_state (joinQueue E uid input) w = (x, w1)"
  shows "case x of
      Inr r \<Rightarrow> jr_status r = Queued \<and> jr_queueKey r = key \<and> view (db w1) = paid uid (-1) (view (db w)) \<and>
        jr_position r \<noteq> None \<and> jr_position r = rank_of (map fst (zv (rds w1) (clock w) (queueZsetKey key))) uid \<and>
        waiting E zv uid key (clock w) (rds w1) (clock w) \<and> key \<in> sv (rds w1) (clock w) QUEUE_KEYS_SET
    | Inl e \<Rightarrow> e = JsError ''Redis transaction failed'' \<and> view (db w1) = view (db w) \<and>
        unch (rdc E) zv sv other (clock w) {userLockKey uid} (rds w) (rds w1)"
proof (cases x)
  case (Inr r)
  from joined [OF j a(1) run [unfolded Inr]] Inr show ?thesis by simp
next
  case (Inl e)
  have "\<not> fst (rd_exec (rdc E) (lock_redis E uid w) (clock w) (join_commands uid key (clock w)))"
    using join_queued [OF j a] run Inl by fastforce
  from join_refunded [OF j a this] run Inl show ?thesis by auto
qed

lemma join_then_join:
  assumes j: "may_join E other uid input city key w" and a: "account uid u (view (db w))"
    and run: "run_state (joinQueue E uid input) w = (Inr r, w1)" and t: "clock w \<le> t"
  shows "\<exists>p w2. run_state (joinQueue E uid input) (w1\<lparr>clock := t\<rparr>) =
      (Inr \<lparr>jr_status = AlreadyQueued, jr_queueKey = key, jr_position = p\<rparr>, w2) \<and> db w2 = db w1"
proof -
  note q = joined [OF j a run]
  have "\<not> truthy (rd_get (rdc E) (rds w1) t (userBanKey uid))"
    using still_not_truthy [of "rds w" "clock w" "userBanKey uid" t] redis.unchD(1) [OF q(11)] t j by (simp add: may_join_def)
  moreover have "parseQueueEntryState (rd_get (rdc E) (rds w1) t (userQueueKey uid)) = Some \<lparr>qe_queueKey = key, qe_joinedAt = clock w\<rparr>"
    using q(7) t by (simp add: waiting_def)
  ultimately show ?thesis
    using join_again [of "w1\<lparr>clock := t\<rparr>" uid key "clock w" input city key] q(10) j
    by (auto simp: may_join_def)
qed

text \<open>Leaving after joining, when a marker of a match is there or not.\<close>

lemma join_then_leave:
  assumes j: "may_join E other uid input city key w" and a: "account uid u (view (db w))"
    and run: "run_state (joinQueue E uid input) w = (Inr r, w1)" and t: "clock w \<le> t"
    and in_queue: "uid \<in> set (map fst (zv (rds w1) t (queueZsetKey key)))"
  defines "m \<equiv> truthy (rd_get (rdc E) (rds w) t (userMatchedKey uid))"
  shows "\<exists>w2. run_state (leaveQueue E uid) (w1\<lparr>clock := t\<rparr>) = (Inr \<lparr>lr_status = (if m then AlreadyMatched else Left),
      lr_refunded = (\<not> m), lr_queueKey = Some key\<rparr>, w2) \<and>
    view (db w2) = (if m then paid uid (-1) (view (db w)) else view (db w)) \<and>
    uid \<notin> set (map fst (zv (rds w2) t (queueZsetKey key))) \<and> rd_get (rdc E) (rds w2) t (userQueueKey uid) = None"
proof -
  note q = joined [OF j a run]
  have m: "m = truthy (rd_get (rdc E) (rds w1) t (userMatchedKey uid))"
    using redis.unchD(1) [OF q(11)] t by (simp add: m_def)
  have "parseQueueEntryState (rd_get (rdc E) (rds w1) t (userQueueKey uid)) = Some \<lparr>qe_queueKey = key, qe_joinedAt = clock w\<rparr>"
    using q(7) t by (simp add: waiting_def)
  moreover have "account uid (add_tokens (-1) u) (view (db w1))"
    using account_paid [OF a] q(4) by simp
  ultimately show ?thesis
    using leave_entry [of "w1\<lparr>clock := t\<rparr>" uid key "clock w" "add_tokens (-1) u"] q(9,10,4) in_queue
    by (cases m) (fastforce simp: m)+
qed

text \<open>The user \<open>a\<close> leaves between \<open>popPair\<close> and \<open>validatePair\<close>.\<close>

lemma leave_while_popped:
  assumes z: "zv (rds w) (clock w) (queueZsetKey key) = (a, sa) # (b, sb) # rest"
    and e: "parseQueueEntryState (rd_get (rdc E) (rds w) (clock w) (userQueueKey a)) = Some \<lparr>qe_queueKey = key, qe_joinedAt = j\<rparr>"
    and f: "\<not> other (rds w) (userLockKey a)" "rd_get (rdc E) (rds w) (clock w) (userLockKey a) = None"
    and m: "\<not> truthy (rd_get (rdc E) (rds w) (clock w) (userMatchedKey a))" and u: "account a u (view (db w))"
  shows "\<exists>pair w1 w2 w3. run_state (popPair E key) w = (Some pair, w1) \<and> qp_userA pair = a \<and>
    run_state (leaveQueue E a) w1 = (Inr \<lparr>lr_status = Left, lr_refunded = False, lr_queueKey = Some key\<rparr>, w2) \<and>
    view (db w2) = view (db w) \<and> run_state (validatePair E key pair) w2 = (None, w3) \<and> view (db w3) = view (db w)"
proof -
  obtain r' where p: "run_state (popPair E key) w = (Some \<lparr>qp_userA = a, qp_userB = b, qp_scoreA = sa, qp_scoreB = sb\<rparr>, w\<lparr>rds := r'\<rparr>)"
    "zv r' (clock w) (queueZsetKey key) = rest" "unch (rdc E) zv sv other (clock w) {queueZsetKey key} (rds w) r'"
    using popPair_two [OF z] by blast
  have "a \<notin> fst ` set rest" using redis.zv_wf [of "rds w" "clock w" "queueZsetKey key"] by (simp add: z)
  then obtain w2 where l: "run_state (leaveQueue E a) (w\<lparr>rds := r'\<rparr>) = (Inr \<lparr>lr_status = Left, lr_refunded = False, lr_queueKey = Some key\<rparr>, w2)"
    "clock w2 = clock w" "view (db w2) = view (db w)" "rd_get (rdc E) (rds w2) (clock w) (userQueueKey a) = None"
    using leave_entry [of "w\<lparr>rds := r'\<rparr>" a key j u] e f m u p(2) redis.unchD(1,5) [OF p(3)] by auto
  obtain v w3 where v: "run_state (validatePair E key \<lparr>qp_userA = a, qp_userB = b, qp_scoreA = sa, qp_scoreB = sb\<rparr>) w2 = (v, w3)"
    by (cases "run_state (validatePair E key \<lparr>qp_userA = a, qp_userB = b, qp_scoreA = sa, qp_scoreB = sb\<rparr>) w2")
  have "v = None"
  proof (cases v)
    case (Some xy)
    obtain x y where "xy = (x, y)" by (cases xy)
    from validatePair_Some [OF v [unfolded Some this]] l(2,4) show ?thesis by (auto simp: parseQueueEntryState_def)
  qed simp
  with validatePair_None(2) v have "db w3 = db w2" by blast
  then show ?thesis
    by - (intro exI conjI, rule p(1), simp, rule l(1), rule l(3), rule v [unfolded \<open>v = None\<close>], simp add: l(3))
qed


text \<open>A user who was matched joins another queue and leaves it while the marker lives.\<close>

lemma rejoin_then_leave:
  assumes x: "fst (rd_exec (rdc E) (rds w0) (clock w0) (match_commands a b sid))" and s: "sid \<noteq> []" "uid \<in> {a, b}"
    and w: "w = (snd (run_state (markMatched E a b sid) w0))\<lparr>clock := t\<rparr>" and t: "clock w0 \<le> t" "t \<le> t'" "t' < clock w0 + MATCHED_TTL_MS"
    and j: "may_join E other uid input city key w" and a: "account uid u (view (db w))"
    and jr: "run_state (joinQueue E uid input) w = (Inr r, w1)"
    and in_queue: "uid \<in> set (map fst (zv (rds w1) t' (queueZsetKey key)))"
  shows "\<exists>w2. run_state (leaveQueue E uid) (w1\<lparr>clock := t'\<rparr>) = (Inr \<lparr>lr_status = AlreadyMatched,
      lr_refunded = False, lr_queueKey = Some key\<rparr>, w2) \<and> view (db w2) = paid uid (-1) (view (db w))"
proof -
  have "rds w = snd (rd_exec (rdc E) (rds w0) (clock w0) (match_commands a b sid))"
    by (simp add: w markMatched_def run match_commands_def)
  then have "rd_get (rdc E) (rds w) t' (userMatchedKey uid) = Some sid"
    using matched_redis(2) [OF x, of t' uid] s(2) t by simp
  moreover have "clock w \<le> t'" using t by (simp add: w)
  ultimately show ?thesis
    using join_then_leave [OF j a jr _ in_queue] s(1) by auto
qed

section \<open>Locks exclude each other\<close>

lemma releaseLock_other:
  assumes "rd_get (rdc E) (rds w) (clock w) (userLockKey uid) \<noteq> Some v"
  shows "\<exists>r'. run_state (releaseLock E (userLockKey uid) v) w = ((), w\<lparr>rds := r'\<rparr>) \<and>
    unch (rdc E) zv sv other (clock w) {} (rds w) r'"
  using redis.eval_miss [OF assms] by (simp add: releaseLock_def run) (intro exI conjI, rule refl)

lemma lock_excludes:
  assumes f: "\<not> other (rds w) (userLockKey uid)" and l: "run_state (acquireLock E uid) w = (Some v, w1)"
    and t: "clock w \<le> t" "t < clock w + LOCK_TTL_MS" and v': "v' \<noteq> v"
  shows "fst (run_state (acquireLock E uid) (w1\<lparr>clock := t\<rparr>)) = None"
    and "fst (run_state (acquireLock E uid) (snd (run_state (releaseLock E (userLockKey uid) v') (w1\<lparr>clock := t\<rparr>)))) = None"
    and "fst (run_state (acquireLock E uid) (snd (run_state (releaseLock E (userLockKey uid) v) (w1\<lparr>clock := t\<rparr>)))) \<noteq> None"
proof -
  have n: "rd_get (rdc E) (rds w) (clock w) (userLockKey uid) = None" and w1: "w1 = locked E uid w" "v = random_uuid E (uuids w)"
    using l acquireLock_run [of w uid] f by (auto simp: locked_def split: option.splits)
  have held: "rd_get (rdc E) (rds w1) t (userLockKey uid) = Some v"
    using redis.nx_get [OF f n t(1)] t(2) by (simp add: w1 lock_redis_def LOCK_TTL_MS_def)
  have no: "\<not> other (rds w1) (userLockKey uid)" using lock_redis_facts(2) [OF f n] by (simp add: w1)
  show "fst (run_state (acquireLock E uid) (w1\<lparr>clock := t\<rparr>)) = None"
    using acquireLock_run [of "w1\<lparr>clock := t\<rparr>" uid] held no by simp
  obtain r' where r': "run_state (releaseLock E (userLockKey uid) v') (w1\<lparr>clock := t\<rparr>) = ((), w1\<lparr>clock := t, rds := r'\<rparr>)"
    "unch (rdc E) zv sv other t {} (rds w1) r'"
    using releaseLock_other [of "w1\<lparr>clock := t\<rparr>" uid v'] held v' by auto
  have "rd_get (rdc E) r' t (userLockKey uid) = Some v" "\<not> other r' (userLockKey uid)"
    using redis.unchD(1,5) [OF r'(2)] held no by simp_all
  then show "fst (run_state (acquireLock E uid) (snd (run_state (releaseLock E (userLockKey uid) v') (w1\<lparr>clock := t\<rparr>)))) = None"
    using acquireLock_run [of "w1\<lparr>clock := t, rds := r'\<rparr>" uid] by (simp add: r'(1))
  define r2 where "r2 = snd (rd_del (rdc E) (rds w1) t [userLockKey uid])"
  have rel: "run_state (releaseLock E (userLockKey uid) v) (w1\<lparr>clock := t\<rparr>) = ((), w1\<lparr>clock := t, rds := r2\<rparr>)"
    using releaseLock_holder [of "w1\<lparr>clock := t\<rparr>" uid v] held by (simp add: r2_def)
  have "rd_get (rdc E) r2 t (userLockKey uid) = None" "\<not> other r2 (userLockKey uid)"
    using unlocked [OF held] by (simp_all add: r2_def)
  then show "fst (run_state (acquireLock E uid) (snd (run_state (releaseLock E (userLockKey uid) v) (w1\<lparr>clock := t\<rparr>)))) \<noteq> None"
    using acquireLock_run [of "w1\<lparr>clock := t, rds := r2\<rparr>" uid] by (simp add: rel)
qed

end

section \<open>Properties\<close>

text \<open>
  C1: Joining a queue costs exactly one token, and only if the user is queued: \<open>joinQueue\<close> of a
  user who may join and has a token either takes one token and leaves the user in the queue with
  an entry and the rank it returns, or reports the failed transaction with every balance as before.
\<close>

theorem join_charges_one_token:
  assumes "backend E zv sv other view" and "may_join E other uid input city key w"
    and "account uid u (view (db w))" and "1 \<le> us_tokenBalance u"
    and "run_state (joinQueue E uid input) w = (x, w1)"
  shows "case x of
      Inr r \<Rightarrow> jr_status r = Queued \<and> jr_queueKey r = key \<and> view (db w1) = paid uid (-1) (view (db w)) \<and>
        jr_position r \<noteq> None \<and> jr_position r = rank_of (map fst (zv (rds w1) (clock w) (queueZsetKey key))) uid \<and>
        waiting E zv uid key (clock w) (rds w1) (clock w) \<and> key \<in> sv (rds w1) (clock w) QUEUE_KEYS_SET
    | Inl e \<Rightarrow> e = JsError ''Redis transaction failed'' \<and> view (db w1) = view (db w) \<and>
        unch (rdc E) zv sv other (clock w) {userLockKey uid} (rds w) (rds w1)"
  by (rule backend.join_outcome [OF assms])

text \<open>
  Joining is idempotent: a second \<open>joinQueue\<close>, at any later time, of a user who has just been
  queued answers \<open>already_queued\<close> with the same queue and charges nothing.
\<close>

theorem join_twice_pays_once:
  assumes "backend E zv sv other view" and "may_join E other uid input city key w" and "account uid u (view (db w))"
    and "run_state (joinQueue E uid input) w = (Inr r, w1)" and "clock w \<le> t"
  shows "\<exists>p w2. run_state (joinQueue E uid input) (w1\<lparr>clock := t\<rparr>) =
      (Inr \<lparr>jr_status = AlreadyQueued, jr_queueKey = key, jr_position = p\<rparr>, w2) \<and> db w2 = db w1"
  by (rule backend.join_then_join [OF assms])

text \<open>
  C5: A user who joins and leaves again before being matched gets the token back: the database
  reads as before the join, and the user is out of the queue and has no entry.
\<close>

theorem join_then_leave_refunds:
  assumes "backend E zv sv other view" and "may_join E other uid input city key w" and "account uid u (view (db w))"
    and "run_state (joinQueue E uid input) w = (Inr r, w1)" and "clock w \<le> t"
    and "uid \<in> set (map fst (zv (rds w1) t (queueZsetKey key)))"
    and "\<not> truthy (rd_get (rdc E) (rds w) t (userMatchedKey uid))"
  shows "\<exists>w2. run_state (leaveQueue E uid) (w1\<lparr>clock := t\<rparr>) =
      (Inr \<lparr>lr_status = Left, lr_refunded = True, lr_queueKey = Some key\<rparr>, w2) \<and> view (db w2) = view (db w) \<and>
    uid \<notin> set (map fst (zv (rds w2) t (queueZsetKey key))) \<and> rd_get (rdc E) (rds w2) t (userQueueKey uid) = None"
  using backend.join_then_leave [OF assms(1-6)] assms(7) by simp

text \<open>
  The marker of an earlier match outlives that match: for an hour after \<open>markMatched\<close>, a user
  who joins a queue again and leaves it while waiting is told \<open>already_matched\<close> and loses the
  token, because \<open>joinQueue\<close> does not clear the marker that \<open>leaveQueue\<close> reads.
\<close>

theorem stale_match_marker_costs_token:
  assumes "backend E zv sv other view" and "fst (rd_exec (rdc E) (rds w0) (clock w0) (match_commands a b sid))"
    and "sid \<noteq> []" and "uid \<in> {a, b}" and "w = (snd (run_state (markMatched E a b sid) w0))\<lparr>clock := t\<rparr>"
    and "clock w0 \<le> t" and "t \<le> t'" and "t' < clock w0 + MATCHED_TTL_MS"
    and "may_join E other uid input city key w" and "account uid u (view (db w))"
    and "run_state (joinQueue E uid input) w = (Inr r, w1)"
    and "uid \<in> set (map fst (zv (rds w1) t' (queueZsetKey key)))"
  shows "\<exists>w2. run_state (leaveQueue E uid) (w1\<lparr>clock := t'\<rparr>) =
      (Inr \<lparr>lr_status = AlreadyMatched, lr_refunded = False, lr_queueKey = Some key\<rparr>, w2) \<and>
    view (db w2) = paid uid (-1) (view (db w))"
  by (rule backend.rejoin_then_leave [OF assms])

text \<open>
  A user who leaves after the worker has popped the pair and before it has validated it is out
  of the queue, is not matched, and does not get the token back.
\<close>

theorem leave_while_popped_costs_token:
  assumes "backend E zv sv other view" and "zv (rds w) (clock w) (queueZsetKey key) = (a, sa) # (b, sb) # rest"
    and "parseQueueEntryState (rd_get (rdc E) (rds w) (clock w) (userQueueKey a)) = Some \<lparr>qe_queueKey = key, qe_joinedAt = j\<rparr>"
    and "\<not> other (rds w) (userLockKey a)" and "rd_get (rdc E) (rds w) (clock w) (userLockKey a) = None"
    and "\<not> truthy (rd_get (rdc E) (rds w) (clock w) (userMatchedKey a))" and "account a u (view (db w))"
  shows "\<exists>pair w1 w2 w3. run_state (popPair E key) w = (Some pair, w1) \<and> qp_userA pair = a \<and>
    run_state (leaveQueue E a) w1 = (Inr \<lparr>lr_status = Left, lr_refunded = False, lr_queueKey = Some key\<rparr>, w2) \<and>
    view (db w2) = view (db w) \<and> run_state (validatePair E key pair) w2 = (None, w3) \<and> view (db w3) = view (db w)"
  by (rule backend.leave_while_popped [OF assms])

text \<open>
  C11: While a lock is held, and for at most its three seconds, nobody else gets it: another
  \<open>acquireLock\<close> fails, also after a release with a value that is not the holder's; after the
  holder's release it succeeds.
\<close>

theorem user_lock_excludes:
  assumes "backend E zv sv other view" and "\<not> other (rds w) (userLockKey uid)"
    and "run_state (acquireLock E uid) w = (Some v, w1)" and "clock w \<le> t" and "t < clock w + LOCK_TTL_MS" and "v' \<noteq> v"
  shows "fst (run_state (acquireLock E uid) (w1\<lparr>clock := t\<rparr>)) = None \<and>
    fst (run_state (acquireLock E uid) (snd (run_state (releaseLock E (userLockKey uid) v') (w1\<lparr>clock := t\<rparr>)))) = None \<and>
    fst (run_state (acquireLock E uid) (snd (run_state (releaseLock E (userLockKey uid) v) (w1\<lparr>clock := t\<rparr>)))) \<noteq> None"
  using backend.lock_excludes [OF assms] by blast

text \<open>
  C2: One pass of the worker over a queue refines the abstract matching: it returns, it adds at most
  ten sessions to the database and changes nothing else, no session joins users of whom one blocks
  the other, and every user who waited is in exactly one new session or waits still.
\<close>

theorem worker_serves_or_keeps:
  assumes "backend E zv sv other view"
  shows "\<exists>w' new. run_state (processQueueKey E key) w = (Inr (), w') \<and> clock w' = clock w \<and>
    view (db w') = tb_sessions_update (\<lambda>ss. ss @ new) (view (db w)) \<and> length new \<le> 10 \<and>
    (\<forall>s \<in> set new. fair_session key (view (db w)) s) \<and> distinct (served new) \<and>
    waiters E zv key w' \<inter> set (served new) = {} \<and> waiters E zv key w = waiters E zv key w' \<union> set (served new)"
  using backend.processQueueKey_run [OF assms, of key w] unfolding rounds_ok_def MAX_MATCHES_PER_KEY_def by blast

text \<open>
  C10: The first two users of a queue are served: if both wait, neither blocks the other and their
  locks are free, one pass of the worker creates their session.
\<close>

theorem first_pair_gets_session:
  assumes "backend E zv sv other view" and "zv (rds w) (clock w) (queueZsetKey key) = (a, sa) # (b, sb) # rest"
    and "a \<in> entered E key w" and "b \<in> entered E key w" and "\<not> blocks (view (db w)) a b" and "\<not> blocks (view (db w)) b a"
    and "\<not> other (rds w) (userLockKey a)" and "rd_get (rdc E) (rds w) (clock w) (userLockKey a) = None"
    and "\<not> other (rds w) (userLockKey b)" and "rd_get (rdc E) (rds w) (clock w) (userLockKey b) = None"
  shows "\<exists>s w'. run_state (processQueueKey E key) w = (Inr (), w') \<and>
    s = new_session a b key (clock w) (se_id s) \<and> s \<in> set (tb_sessions (view (db w')))"
  by (rule backend.first_pair_served [OF assms])

text \<open>
  A blocked pair is deferred to five seconds later, but \<open>popPair\<close> does not look at the time: if
  nobody else waits, the next round takes the same pair again at once.
\<close>

theorem deferred_pair_popped_at_once:
  assumes "backend E zv sv other view" and "zv (rds w) (clock w) (queueZsetKey key) = [(a, s), (b, u)]"
    and "map_option qe_queueKey (parseQueueEntryState (rd_get (rdc E) (rds w) (clock w) (userQueueKey a))) = Some key"
    and "map_option qe_queueKey (parseQueueEntryState (rd_get (rdc E) (rds w) (clock w) (userQueueKey b))) = Some key"
    and "blocks (view (db w)) a b \<or> blocks (view (db w)) b a"
  shows "\<exists>pair w1 w2 w3. run_state (popPair E key) w = (Some pair, w1) \<and>
    run_state (validatePair E key pair) w1 = (None, w2) \<and>
    run_state (popPair E key) w2 = (Some \<lparr>qp_userA = a, qp_userB = b, qp_scoreA = clock w + 5000, qp_scoreB = clock w + 5001\<rparr>, w3) \<and>
    clock w2 = clock w"
  by (rule backend.blocked_pair_again [OF assms])

text \<open>
  The queue of a user depends on what the user prefers and not on how it is written: preferences
  that differ only in the order of the keys of objects, at any depth, give the same queue.
\<close>

theorem queue_key_ignores_key_order:
  assumes "json_same (JObj p) (JObj q)"
  shows "buildQueueKey E city (Some p) = buildQueueKey E city (Some q)"
  using stableStringify_same [OF assms] by (simp add: buildQueueKey_def split: option.split)

text \<open>
  A city is brought into a normal form: what \<open>resolveQueueCity\<close> returns is a non-empty string
  of letters, digits and single dashes inside, normalising it again changes nothing, and
  \<open>buildQueueKey\<close> accepts it and begins the queue's key with it.
\<close>

theorem city_normal_form:
  assumes "resolveQueueCity input = Inr c"
  shows "slug c \<and> normalizeQueueCity (Some (JStr c)) = Some c \<and> (\<exists>h. buildQueueKey E c prefs = Inr (c @ '':'' @ h))"
  using resolveQueueCity_slug [OF assms] normalizeQueueCity_fix by (simp add: buildQueueKey_def Let_def)

section \<open>Witnesses\<close>

definition user_with :: "string \<Rightarrow> int \<Rightarrow> user_row" where
  "user_with uid n = \<lparr>us_id = uid, us_createdAt = 0, us_role = USER, us_displayName = None, us_photos = None, us_bio = None,
     us_age = None, us_gender = None, us_interests = [], us_dateOfBirth = None, us_ageVerifiedAt = None, us_consents = None,
     us_privacyNoticeVersion = None, us_tosVersion = None, us_phone = None, us_email = None, us_tokenBalance = n\<rparr>"

definition sydney :: queue_join_input where
  "sydney = \<lparr>qi_city = Some (JStr ''Sydney''), qi_region = None, qi_preferences = None\<rparr>"

definition sydney_key :: string where
  "sydney_key = ''sydney:'' @ take 12 (hex64 ''{}'')"

text \<open>Three tokens, an empty Redis (whose transactions may be made to fail).\<close>

definition queue_world :: "bool \<Rightarrow> (inmem, tables) world" where
  "queue_world fails = world_of (im_empty\<lparr>failExec := fails\<rparr>) (no_tables\<lparr>tb_users := [user_with ''a'' 3]\<rparr>) noon"

lemma queue_world_simps [simp]:
  "clock (queue_world f) = noon" "rds (queue_world f) = im_empty\<lparr>failExec := f\<rparr>"
  "db (queue_world f) = no_tables\<lparr>tb_users := [user_with ''a'' 3]\<rparr>"
  by (simp_all add: queue_world_def world_of_def)

lemma user_with_simps [simp]: "us_id (user_with uid n) = uid" "us_tokenBalance (user_with uid n) = n"
  by (simp_all add: user_with_def)

lemma user_with_unique [simp]: "\<not> uq_user (user_with u n) (user_with v m)"
  by (simp add: uq_user_def user_with_def same_some_def)

lemma bare_env_simps [simp]: "rdc bare_env = im_redis" "prc bare_env = list_prisma" "sha256_hex bare_env = hex64"
  by (simp_all add: bare_env_def)

lemma failing_redis [simp]:
  "fst (im_get (im_empty\<lparr>failExec := f\<rparr>) t k) = None" "\<not> im_other (im_empty\<lparr>failExec := f\<rparr>) k"
  by (simp_all add: im_get_eq im_other_def im_empty_def)

lemma sydney_city: "resolveQueueCity sydney = Inr ''sydney''"
  by code_simp

lemma sydney_key: "buildQueueKey bare_env ''sydney'' (qi_preferences sydney) = Inr sydney_key"
  using normalizeQueueCity_fix [OF resolveQueueCity_slug [OF sydney_city]]
  by (simp add: buildQueueKey_def sydney_def sydney_key_def)

lemma parse_no_entry [simp]: "parseQueueEntryState None = None"
  by (simp add: parseQueueEntryState_def)

lemma queue_world_ok: "may_join bare_env im_other ''a'' sydney ''sydney'' sydney_key (queue_world f)"
  "account ''a'' (user_with ''a'' 3) (db (queue_world f))" "1 \<le> us_tokenBalance (user_with ''a'' 3)"
  by (simp_all add: may_join_def sydney_city sydney_key account_def no_tables_def)

lemma join_charges_one_token_witness:
  "(case run_state (joinQueue bare_env ''a'' sydney) (queue_world True) of
      (Inr r, w1) \<Rightarrow> jr_queueKey r = sydney_key
    | (Inl e, w1) \<Rightarrow> e = JsError ''Redis transaction failed'' \<and> db w1 = db (queue_world True))"
  using join_charges_one_token [OF bare_backend queue_world_ok, of True]
  by (cases "run_state (joinQueue bare_env ''a'' sydney) (queue_world True)") (auto split: sum.split)

lemma queue_world_joined:
  "\<exists>r w1. run_state (joinQueue bare_env ''a'' sydney) (queue_world False) = (Inr r, w1) \<and>
     ''a'' \<in> set (map fst (im_zv (rds w1) noon (queueZsetKey sydney_key)))"
proof -
  have "fst (rd_exec (rdc bare_env) (lock_redis bare_env ''a'' (queue_world False)) noon (join_commands ''a'' sydney_key noon))"
    by (simp add: im_exec_def lock_redis_def im_set_snd purged_eq im_empty_def Let_def LOCK_TTL_MS_def im_deleteKey_def)
  from backend.join_queued [OF bare_backend queue_world_ok, of False] this obtain p w1 where
    j: "run_state (joinQueue bare_env ''a'' sydney) (queue_world False) =
      (Inr \<lparr>jr_status = Queued, jr_queueKey = sydney_key, jr_position = Some p\<rparr>, w1)"
    "waiting bare_env im_zv ''a'' sydney_key noon (rds w1) noon" by auto
  then have "map_of (im_zv (rds w1) noon (queueZsetKey sydney_key)) ''a'' = Some noon" by (simp add: waiting_def)
  then have "''a'' \<in> set (map fst (im_zv (rds w1) noon (queueZsetKey sydney_key)))"
    by (metis domI dom_map_of_conv_image_fst list.set_map)
  with j(1) show ?thesis by blast
qed

lemma join_twice_pays_once_witness:
  "\<exists>r w1 p w2. run_state (joinQueue bare_env ''a'' sydney) (queue_world False) = (Inr r, w1) \<and>
     run_state (joinQueue bare_env ''a'' sydney) (w1\<lparr>clock := noon + 60000\<rparr>) =
       (Inr \<lparr>jr_status = AlreadyQueued, jr_queueKey = sydney_key, jr_position = p\<rparr>, w2) \<and> db w2 = db w1"
proof -
  obtain r w1 where r: "run_state (joinQueue bare_env ''a'' sydney) (queue_world False) = (Inr r, w1)"
    using queue_world_joined by blast
  from join_twice_pays_once [OF bare_backend queue_world_ok(1,2) r, of "noon + 60000"] r show ?thesis by auto
qed

lemma join_then_leave_refunds_witness:
  "\<exists>r w1 w2. run_state (joinQueue bare_env ''a'' sydney) (queue_world False) = (Inr r, w1) \<and>
     run_state (leaveQueue bare_env ''a'') (w1\<lparr>clock := noon\<rparr>) =
       (Inr \<lparr>lr_status = Left, lr_refunded = True, lr_queueKey = Some sydney_key\<rparr>, w2) \<and> db w2 = db (queue_world False)"
proof -
  obtain r w1 where r: "run_state (joinQueue bare_env ''a'' sydney) (queue_world False) = (Inr r, w1)"
    "''a'' \<in> set (map fst (im_zv (rds w1) noon (queueZsetKey sydney_key)))"
    using queue_world_joined by blast
  from join_then_leave_refunds [OF bare_backend queue_world_ok(1,2) r(1) _ r(2)] r(1) show ?thesis by auto
qed


text \<open>After a match of \<open>a\<close> and \<open>b\<close> an hour's marker is left.\<close>

lemma stale_match_marker_costs_token_witness:
  "\<exists>w w1 r w2. w = (snd (run_state (markMatched bare_env ''a'' ''b'' ''s9'') (queue_world False)))\<lparr>clock := noon + 1000\<rparr> \<and>
     run_state (joinQueue bare_env ''a'' sydney) w = (Inr r, w1) \<and>
     run_state (leaveQueue bare_env ''a'') (w1\<lparr>clock := noon + 1000\<rparr>) =
       (Inr \<lparr>lr_status = AlreadyMatched, lr_refunded = False, lr_queueKey = Some sydney_key\<rparr>, w2) \<and>
     db w2 = paid ''a'' (-1) (db w)"
proof -
  let ?w0 = "queue_world False"
  define w where "w = (snd (run_state (markMatched bare_env ''a'' ''b'' ''s9'') ?w0))\<lparr>clock := noon + 1000\<rparr>"
  have x: "fst (rd_exec (rdc bare_env) (rds ?w0) (clock ?w0) (match_commands ''a'' ''b'' ''s9''))"
    by (simp add: im_exec_def im_empty_def)
  define r' where "r' = snd (rd_exec (rdc bare_env) (rds ?w0) (clock ?w0) (match_commands ''a'' ''b'' ''s9''))"
  have w: "rds w = r'" "clock w = noon + 1000" "db w = db ?w0"
    by (simp_all add: w_def markMatched_def run match_commands_def r'_def)
  have u: "unch im_redis im_zv im_sv im_other noon (pair_keys ''a'' ''b'') (rds ?w0) r'"
    using backend.matched_redis(3) [OF bare_backend x] by (simp add: r'_def)
  note ud = im.unchD [OF u]
  have e: "rd_get im_redis r' (noon + 1000) (userQueueKey ''a'') = None"
    using backend.matched_redis(1) [OF bare_backend x, of "noon + 1000" "''a''"] by (simp add: r'_def)
  have ok: "may_join bare_env im_other ''a'' sydney ''sydney'' sydney_key w"
    using ud(1) [of _ "noon + 1000"] ud(5) e by (simp add: may_join_def sydney_city sydney_key w pair_keys_def)
  have "\<not> failExec r'" by (simp add: r'_def im_exec_def match_commands_def im_command_def im_set_snd im_empty_def Let_def hasKey_purged purged_eq im_deleteKey_def)
  then have "fst (rd_exec (rdc bare_env) (lock_redis bare_env ''a'' w) (clock w) (join_commands ''a'' sydney_key (clock w)))"
    by (simp add: im_exec_def lock_redis_def im_set_snd purged_eq w Let_def LOCK_TTL_MS_def im_deleteKey_def)
  from backend.join_queued [OF bare_backend ok _ queue_world_ok(3) this] queue_world_ok(2) obtain p w1 where
    j: "run_state (joinQueue bare_env ''a'' sydney) w = (Inr \<lparr>jr_status = Queued, jr_queueKey = sydney_key, jr_position = Some p\<rparr>, w1)"
    "waiting bare_env im_zv ''a'' sydney_key (noon + 1000) (rds w1) (noon + 1000)" by (auto simp: w)
  then have "map_of (im_zv (rds w1) (noon + 1000) (queueZsetKey sydney_key)) ''a'' = Some (noon + 1000)" by (simp add: waiting_def)
  then have q: "''a'' \<in> set (map fst (im_zv (rds w1) (noon + 1000) (queueZsetKey sydney_key)))"
    by (metis domI dom_map_of_conv_image_fst list.set_map)
  have acc: "account ''a'' (user_with ''a'' 3) (db w)" using queue_world_ok(2) w(3) by simp
  have "\<exists>w2. run_state (leaveQueue bare_env ''a'') (w1\<lparr>clock := noon + 1000\<rparr>) =
      (Inr \<lparr>lr_status = AlreadyMatched, lr_refunded = False, lr_queueKey = Some sydney_key\<rparr>, w2) \<and> db w2 = paid ''a'' (-1) (db w)"
    by (rule stale_match_marker_costs_token [OF bare_backend x _ _ w_def _ _ _ ok acc j(1) q]) (simp_all add: MATCHED_TTL_MS_def)
  with w_def j(1) show ?thesis by blast
qed

text \<open>Two users who wait in the queue \<open>q\<close>.\<close>

definition pair_redis :: inmem where
  "pair_redis = im_empty\<lparr>zsets := [(queueZsetKey ''q'', DAList.update ''a'' 1 (DAList.update ''b'' 2 DAList.empty))],
     store := [(userQueueKey ''a'', json_stringify (queue_entry_json ''q'' 1)), (userQueueKey ''b'', json_stringify (queue_entry_json ''q'' 2))]\<rparr>"

definition pair_world :: "block_row list \<Rightarrow> (inmem, tables) world" where
  "pair_world bs = world_of pair_redis (no_tables\<lparr>tb_users := [user_with ''a'' 0, user_with ''b'' 0], tb_blocks := bs\<rparr>) noon"

lemma pair_world_simps [simp]:
  "clock (pair_world bs) = noon" "rds (pair_world bs) = pair_redis"
  "db (pair_world bs) = no_tables\<lparr>tb_users := [user_with ''a'' 0, user_with ''b'' 0], tb_blocks := bs\<rparr>"
  by (simp_all add: pair_world_def world_of_def)

lemma pair_redis_facts:
  "im_zv pair_redis t (queueZsetKey ''q'') = [(''a'', 1), (''b'', 2)]"
  "fst (im_get pair_redis t (userQueueKey ''a'')) = Some (json_stringify (queue_entry_json ''q'' 1))"
  "fst (im_get pair_redis t (userQueueKey ''b'')) = Some (json_stringify (queue_entry_json ''q'' 2))"
  "fst (im_get pair_redis t (userLockKey u)) = None" "\<not> im_other pair_redis (userLockKey u)"
  "fst (im_get pair_redis t (userMatchedKey u)) = None"
  by (simp_all add: im_zv_eq im_get_eq im_other_def pair_redis_def im_empty_def alive_def zset_sorted_def update.rep_eq empty.rep_eq)

lemma leave_while_popped_costs_token_witness:
  "\<exists>pair w1 w2. run_state (popPair bare_env ''q'') (pair_world []) = (Some pair, w1) \<and>
     run_state (leaveQueue bare_env ''a'') w1 = (Inr \<lparr>lr_status = Left, lr_refunded = False, lr_queueKey = Some ''q''\<rparr>, w2)"
  using leave_while_popped_costs_token [OF bare_backend, of "pair_world []" "''q''" "''a''" 1 "''b''" 2 "[]" 1 "user_with ''a'' 0"]
  by (auto simp: pair_redis_facts account_def no_tables_def)

lemma user_lock_excludes_witness:
  "\<exists>v w1. run_state (acquireLock bare_env ''a'') (queue_world False) = (Some v, w1) \<and>
     fst (run_state (acquireLock bare_env ''a'') (w1\<lparr>clock := noon + 2999\<rparr>)) = None"
proof -
  obtain v w1 where l: "run_state (acquireLock bare_env ''a'') (queue_world False) = (Some v, w1)"
    using backend.acquireLock_run [OF bare_backend, of "queue_world False" "''a''"] by auto
  from user_lock_excludes [OF bare_backend _ l, of "noon + 2999" "v @ v @ ''x''"] l show ?thesis
    by (simp add: LOCK_TTL_MS_def)
qed

lemma worker_serves_or_keeps_witness:
  "\<exists>w' new. run_state (processQueueKey bare_env ''q'') (pair_world []) = (Inr (), w') \<and> length new \<le> 10 \<and>
     db w' = tb_sessions_update (\<lambda>ss. ss @ new) (db (pair_world []))"
  using worker_serves_or_keeps [OF bare_backend, of "''q''" "pair_world []"] by blast

lemma pair_entered: "''a'' \<in> entered bare_env ''q'' (pair_world bs)" "''b'' \<in> entered bare_env ''q'' (pair_world bs)"
  by (simp_all add: entered_def pair_redis_facts)

lemma first_pair_gets_session_witness:
  "\<exists>w'. run_state (processQueueKey bare_env ''q'') (pair_world []) = (Inr (), w') \<and> tb_sessions (db w') \<noteq> []"
  using first_pair_gets_session [OF bare_backend, of "pair_world []" "''q''" "''a''" 1 "''b''" 2 "[]"] pair_entered [of "[]"]
  by (force simp: pair_redis_facts blocks_def no_tables_def)

definition a_blocks_b :: block_row where
  "a_blocks_b = \<lparr>bl_id = ''k'', bl_createdAt = 0, bl_blockerId = ''a'', bl_blockedId = ''b'', bl_liftedAt = None\<rparr>"

lemma deferred_pair_popped_at_once_witness:
  "\<exists>pair w1 w2 pair' w3. run_state (popPair bare_env ''q'') (pair_world [a_blocks_b]) = (Some pair, w1) \<and>
     run_state (validatePair bare_env ''q'' pair) w1 = (None, w2) \<and> clock w2 = noon \<and>
     run_state (popPair bare_env ''q'') w2 = (Some pair', w3) \<and> qp_scoreA pair' = noon + 5000"
  using deferred_pair_popped_at_once [OF bare_backend, of "pair_world [a_blocks_b]" "''q''" "''a''" 1 "''b''" 2]
  by (fastforce simp: pair_redis_facts blocks_def a_blocks_b_def no_tables_def)

lemma queue_key_ignores_key_order_witness:
  "buildQueueKey bare_env ''sydney'' (Some [(''lang'', JStr ''en''), (''age'', JNum 30)]) =
   buildQueueKey bare_env ''sydney'' (Some [(''age'', JNum 30), (''lang'', JStr ''en'')])"
  by (rule queue_key_ignores_key_order, rule same_members) (auto intro: same_value split: if_splits)

lemma city_normal_form_witness: "slug ''sydney'' \<and> normalizeQueueCity (Some (JStr ''sydney'')) = Some ''sydney''"
  using city_normal_form [OF sydney_city, of bare_env None] by simp

end
