(* ===== verification/Moderation.thy ===== *)
theory Moderation
  imports Queue_Laws Session_Steps
begin

text \<open>
  \<open>src/src/moderation/moderation.service.ts\<close>: reports and blocks between users, the webhook
  of the content detector Hive, warnings and bans, appeals. The socket server of the video
  gateway is taken to be up. Where the code selects columns of a row, the model returns the row.
\<close>

definition VIOLATION_WINDOW_MS :: int where "VIOLATION_WINDOW_MS = 24 * 60 * 60 * 1000"
definition BAN_THRESHOLD :: nat where "BAN_THRESHOLD = 3"
definition BAN_TTL_MS :: int where "BAN_TTL_MS = 24 * 60 * 60 * 1000"
definition BAN_RATE_LIMIT_MS :: int where "BAN_RATE_LIMIT_MS = 60 * 1000"
definition REPORT_SPAM_WINDOW_MS :: int where "REPORT_SPAM_WINDOW_MS = 24 * 60 * 60 * 1000"
definition MAX_REPORTS_PER_USER_PER_DAY :: nat where "MAX_REPORTS_PER_USER_PER_DAY = 10"
definition REPORT_ESCALATION_TTL_MS :: int where "REPORT_ESCALATION_TTL_MS = 24 * 60 * 60 * 1000"
definition WEBHOOK_REPLAY_TTL_MS :: int where "WEBHOOK_REPLAY_TTL_MS = 10 * 60 * 1000"

definition banKey :: "string \<Rightarrow> string" where "banKey userId = ''moderation:ban:'' @ userId"
definition banCooldownKey :: "string \<Rightarrow> string" where "banCooldownKey userId = ''moderation:ban:cooldown:'' @ userId"

section \<open>Out of the queue\<close>

text \<open>\<open>removeFromQueueIfPresent\<close>; an entry that is not JSON is ignored, and removed as well.\<close>

definition removeFromQueueIfPresent :: "('r, 'd) env \<Rightarrow> string \<Rightarrow> (('r, 'd) world, unit) prog" where
  "removeFromQueueIfPresent E userId = do {
     stateRaw \<leftarrow> redis_get E (''queue:user:'' @ userId);
     if \<not> truthy stateRaw then ret ()
     else try_finally
       (case json_parse (the stateRaw) of
          None \<Rightarrow> ret ()
        | Some parsed \<Rightarrow>
            (case json_get_str ''queueKey'' parsed of
               Some queueKey \<Rightarrow>
                 if queueKey = [] then ret ()
                 else do { redis_zrem E (''queue:zset:'' @ queueKey) userId; ret () }
             | None \<Rightarrow> ret ()))
       (redis_del E [''queue:user:'' @ userId]) }"

definition bumpReportEscalation :: "('r, 'd) env \<Rightarrow> string \<Rightarrow> (('r, 'd) world, unit) prog" where
  "bumpReportEscalation E userId = do {
     let key = ''user:reports:'' @ userId;
     currentRaw \<leftarrow> redis_get E key;
     let current = (if truthy currentRaw then parseInt (the currentRaw) else Fin 0);
     let safeCurrent = (if isFinite current then fin_value current else 0);
     redis_set E key (show_int (safeCurrent + 1)) (Some REPORT_ESCALATION_TTL_MS) False;
     ret () }"

section \<open>Reports\<close>

record report_input =
  ri_reportedUserId :: string
  ri_reason :: string
  ri_details :: "string option"

definition new_report :: "string \<Rightarrow> report_input \<Rightarrow> string option \<Rightarrow> int \<Rightarrow> string \<Rightarrow> report_row" where
  "new_report reporterId input details now i = \<lparr>rp_id = i, rp_createdAt = now, rp_reporterId = reporterId,
     rp_reportedUserId = ri_reportedUserId input, rp_reason = ri_reason input, rp_details = details, rp_status = ''OPEN''\<rparr>"

definition new_block :: "string \<Rightarrow> string \<Rightarrow> int \<Rightarrow> string \<Rightarrow> block_row" where
  "new_block blockerId blockedId now i = \<lparr>bl_id = i, bl_createdAt = now, bl_blockerId = blockerId, bl_blockedId = blockedId,
     bl_liftedAt = None\<rparr>"

definition findBlock :: "('r, 'd) env \<Rightarrow> string \<Rightarrow> string \<Rightarrow> (('r, 'd) world, block_row option) prog" where
  "findBlock E blockerId blockedId = query (\<lambda>d. dg_findFirst (pr_block (prc E)) d
     (\<lambda>b. bl_blockerId b = blockerId \<and> bl_blockedId b = blockedId))"

definition liftBlock :: "('r, 'd) env \<Rightarrow> string \<Rightarrow> int option \<Rightarrow> (('r, 'd) world, block_row) fprog" where
  "liftBlock E blockId liftedAt = mutate (\<lambda>d. dg_update (pr_block (prc E)) d (\<lambda>b. bl_id b = blockId)
     (\<lambda>b. b\<lparr>bl_liftedAt := liftedAt\<rparr>))"

definition insertBlock :: "('r, 'd) env \<Rightarrow> string \<Rightarrow> string \<Rightarrow> (('r, 'd) world, block_row) fprog" where
  "insertBlock E blockerId blockedId = do {
     now \<leftarrow> date_now;
     mutate (\<lambda>d. dg_create (pr_block (prc E)) d (new_block blockerId blockedId now)) }"

text \<open>The body of the transaction of \<open>createReport\<close>.\<close>

definition reportAndBlock ::
  "('r, 'd) env \<Rightarrow> string \<Rightarrow> report_input \<Rightarrow> string option \<Rightarrow> (('r, 'd) world, report_row) fprog" where
  "reportAndBlock E reporterId input details = do {
     now \<leftarrow> date_now;
     andThen (mutate (\<lambda>d. dg_create (pr_moderationReport (prc E)) d (new_report reporterId input details now))) (\<lambda>created. do {
       existingBlock \<leftarrow> findBlock E reporterId (ri_reportedUserId input);
       case existingBlock of
         None \<Rightarrow> andThen (insertBlock E reporterId (ri_reportedUserId input)) (\<lambda>_. ok created)
       | Some b \<Rightarrow> if bl_liftedAt b \<noteq> None then andThen (liftBlock E (bl_id b) None) (\<lambda>_. ok created) else ok created }) }"

definition createReport :: "('r, 'd) env \<Rightarrow> string \<Rightarrow> report_input \<Rightarrow> (('r, 'd) world, report_row) fprog" where
  "createReport E reporterId input =
    (if reporterId = ri_reportedUserId input then throw (BadRequest ''Cannot report yourself'')
     else (let details = map_option trim (ri_details input) in
       if truthy details \<and> length (the details) > 500 then throw (BadRequest ''Report details must be 500 characters or fewer'')
       else do {
         now \<leftarrow> date_now;
         reportCount \<leftarrow> query (\<lambda>d. dg_count (pr_moderationReport (prc E)) d
           (\<lambda>r. rp_reporterId r = reporterId \<and> rp_createdAt r \<ge> now - REPORT_SPAM_WINDOW_MS));
         if reportCount \<ge> MAX_REPORTS_PER_USER_PER_DAY then throw (BadRequest ''Daily report limit reached'')
         else andThen (transaction E (reportAndBlock E reporterId input details)) (\<lambda>report. do {
           bumpReportEscalation E (ri_reportedUserId input);
           removeFromQueueIfPresent E (ri_reportedUserId input);
           emit (Track (Some reporterId) ''safety_report_submitted'' [(''reportId'', JStr (rp_id report)),
             (''reportedUserId'', JStr (ri_reportedUserId input)), (''category'', JStr (ri_reason input)),
             (''hasDetails'', JBool (truthy details))]);
           ok report }) }))"

text \<open>\<open>take\<close> of a list: between 1 and 200, by default \<open>fallback\<close>.\<close>

definition safeLimit :: "jsnum \<Rightarrow> int \<Rightarrow> nat" where
  "safeLimit limit fallback = nat (max 1 (min (if isFinite limit then fin_value limit else fallback) 200))"

definition listReports :: "('r, 'd) env \<Rightarrow> string option \<Rightarrow> jsnum \<Rightarrow> (('r, 'd) world, report_row list) prog" where
  "listReports E status limit = query (\<lambda>d. dg_findLatest (pr_moderationReport (prc E)) d
     (\<lambda>r. truthy status \<longrightarrow> rp_status r = the status) (Some (safeLimit limit 50)))"

section \<open>Blocks\<close>

datatype block_status = Blocked | AlreadyBlocked

definition createBlock ::
  "('r, 'd) env \<Rightarrow> string \<Rightarrow> string \<Rightarrow> (('r, 'd) world, block_status \<times> block_row) fprog" where
  "createBlock E blockerId blockedId =
    (if blockerId = blockedId then throw (BadRequest ''Cannot block yourself'')
     else do {
       existing \<leftarrow> findBlock E blockerId blockedId;
       case existing of
         None \<Rightarrow> andThen (insertBlock E blockerId blockedId) (\<lambda>created. do {
           removeFromQueueIfPresent E blockedId;
           ok (Blocked, created) })
       | Some b \<Rightarrow>
           if bl_liftedAt b = None then ok (AlreadyBlocked, b)
           else andThen (liftBlock E (bl_id b) None) (\<lambda>reopened. do {
             removeFromQueueIfPresent E blockedId;
             ok (Blocked, reopened) }) })"

definition listBlocks :: "('r, 'd) env \<Rightarrow> string \<Rightarrow> jsnum \<Rightarrow> (('r, 'd) world, (string \<times> int \<times> string) list) prog" where
  "listBlocks E userId limit = do {
     blocks \<leftarrow> query (\<lambda>d. dg_findLatest (pr_block (prc E)) d
       (\<lambda>b. bl_blockerId b = userId \<and> bl_liftedAt b = None) (Some (safeLimit limit 100)));
     ret (map (\<lambda>b. (bl_id b, bl_createdAt b, bl_blockedId b)) blocks) }"

definition unblock :: "('r, 'd) env \<Rightarrow> string \<Rightarrow> string \<Rightarrow> (('r, 'd) world, bool) fprog" where
  "unblock E blockerId blockedId = do {
     existing \<leftarrow> findBlock E blockerId blockedId;
     case existing of
       None \<Rightarrow> ok False
     | Some b \<Rightarrow>
         if bl_liftedAt b \<noteq> None then ok False
         else do {
           now \<leftarrow> date_now;
           andThen (liftBlock E (bl_id b) (Some now)) (\<lambda>_. ok True) } }"

definition isBlocked :: "('r, 'd) env \<Rightarrow> string \<Rightarrow> string \<Rightarrow> (('r, 'd) world, bool) prog" where
  "isBlocked E userAId userBId = do {
     block \<leftarrow> query (\<lambda>d. dg_findFirst (pr_block (prc E)) d (\<lambda>x. bl_liftedAt x = None \<and>
       (bl_blockerId x = userAId \<and> bl_blockedId x = userBId \<or> bl_blockerId x = userBId \<and> bl_blockedId x = userAId)));
     ret (block \<noteq> None) }"

section \<open>Watching a stream\<close>

text \<open>\<open>response url\<close> is what \<open>fetch\<close> gives: \<open>response.ok\<close>, or \<open>None\<close> when it throws.\<close>

definition requestScreenshotFallback :: "('r, 'd) env \<Rightarrow> string \<Rightarrow> string \<Rightarrow> (('r, 'd) world, unit) prog" where
  "requestScreenshotFallback E sessionId channelName =
    (let url = env_var E ''HIVE_SCREENSHOT_URL''; apiKey = env_var E ''HIVE_API_KEY'' in
     if \<not> truthy url then ret ()
     else emit (Fetch (the url)
       [(''content-type'', ''application/json''), (''authorization'', if truthy apiKey then ''Bearer '' @ the apiKey else [])]
       (JObj ([(''sessionId'', JStr sessionId), (''channel'', JStr channelName)] @
         (case env_var E ''AGORA_APP_ID'' of None \<Rightarrow> [] | Some appId \<Rightarrow> [(''appId'', JStr appId)])))))"

definition startStreamMonitoring ::
  "('r, 'd) env \<Rightarrow> (string \<Rightarrow> bool option) \<Rightarrow> string \<Rightarrow> string \<Rightarrow> string \<Rightarrow> int \<Rightarrow> (('r, 'd) world, unit) prog" where
  "startStreamMonitoring E response sessionId channelName rtcToken rtcUid =
    (let url = env_var E ''HIVE_STREAM_URL''; apiKey = env_var E ''HIVE_API_KEY'' in
     if \<not> truthy url then ret ()
     else do {
       emit (Fetch (the url)
         ([(''content-type'', ''application/json'')] @ (if truthy apiKey then [(''authorization'', ''Bearer '' @ the apiKey)] else []))
         (JObj ([(''sessionId'', JStr sessionId), (''channel'', JStr channelName), (''rtcToken'', JStr rtcToken),
           (''rtcUid'', JNum rtcUid)] @
           (case env_var E ''AGORA_APP_ID'' of None \<Rightarrow> [] | Some appId \<Rightarrow> [(''appId'', JStr appId)]) @
           [(''noRecording'', JBool True)])));
       if response (the url) = Some True then ret () else requestScreenshotFallback E sessionId channelName })"

section \<open>The webhook\<close>

definition hex_bytes :: "string \<Rightarrow> 8 word list" where
  "hex_bytes s = map (\<lambda>i. word_of_nat (16 * (case hex_value (s ! (2 * i)) of None \<Rightarrow> 0 | Some d \<Rightarrow> d) +
     (case hex_value (s ! (2 * i + 1)) of None \<Rightarrow> 0 | Some d \<Rightarrow> d))) [0..<length s div 2]"

definition rawSignature :: "string \<Rightarrow> string" where
  "rawSignature signature = (if startsWith signature ''sha256='' then drop 7 signature else signature)"

definition verifyWebhookSignature ::
  "('r, 'd) env \<Rightarrow> 8 word list \<Rightarrow> string option \<Rightarrow> string option \<Rightarrow> (('r, 'd) world, unit) fprog" where
  "verifyWebhookSignature E rawBody signature timestamp = do {
     now \<leftarrow> date_now;
     let secret = env_var E ''HIVE_WEBHOOK_SECRET'';
     if \<not> truthy secret then throw (BadRequest ''Hive webhook secret not configured'')
     else if \<not> truthy signature then throw (BadRequest ''Missing Hive signature'')
     else if \<not> truthy timestamp then throw (BadRequest ''Missing Hive webhook timestamp'')
     else if \<not> (list_all is_digit (the timestamp) \<and> 10 \<le> length (the timestamp) \<and> length (the timestamp) \<le> 16)
     then throw (BadRequest ''Invalid Hive webhook timestamp'')
     else (case js_Number (the timestamp) of
         Fin n \<Rightarrow>
           (let ts = (if n < 1000000000000 then n * 1000 else n) in
            if abs (now - ts) > 5 * 60 * 1000 then throw (BadRequest ''Stale Hive webhook timestamp'')
            else (let rawSig = rawSignature (the signature) in
              if \<not> (list_all (\<lambda>c. hex_value c \<noteq> None) rawSig \<and> length rawSig = 64)
              then throw (BadRequest ''Invalid Hive signature'')
              else (let a = hex_bytes rawSig; b = hmac_sha256 E (the secret) rawBody in
                if length a \<noteq> length b \<or> a \<noteq> b then throw (BadRequest ''Invalid Hive signature'') else ok ())))
       | _ \<Rightarrow> throw (BadRequest ''Invalid Hive webhook timestamp'')) }"

record hive_payload =
  hv_sessionId :: "string option"
  hv_userId :: "string option"
  hv_violation :: "bool option"
  hv_action :: "string option"
  hv_event :: "string option"
  hv_labels :: "string list option"
  hv_severity :: "string option"
  hv_reason :: "string option"

fun first_of :: "string option list \<Rightarrow> string \<Rightarrow> string" where
  "first_of [] fallback = fallback"
| "first_of (None # xs) fallback = first_of xs fallback"
| "first_of (Some x # xs) fallback = x"

definition isViolation :: "hive_payload \<Rightarrow> bool" where
  "isViolation payload =
    (if hv_violation payload = Some True then True
     else (let type = (case hv_action payload of None \<Rightarrow> hv_event payload | Some a \<Rightarrow> Some a) in
       if truthy type \<and> toLowerCase (the type) = ''violation'' then True
       else (case hv_labels payload of None \<Rightarrow> False | Some ls \<Rightarrow> length ls > 0)))"

definition reserveWebhookDelivery :: "('r, 'd) env \<Rightarrow> string \<Rightarrow> string \<Rightarrow> (('r, 'd) world, bool) prog" where
  "reserveWebhookDelivery E signature timestamp = do {
     let dedupeHash = sha256_hex E (timestamp @ '':'' @ rawSignature signature);
     redis_set E (''moderation:hive:webhook:'' @ dedupeHash) ''1'' (Some WEBHOOK_REPLAY_TTL_MS) True }"

definition logModerationEvent :: "('r, 'd) env \<Rightarrow> string \<Rightarrow> (('r, 'd) world, modevent_row) fprog" where
  "logModerationEvent E userId = do {
     now \<leftarrow> date_now;
     mutate (\<lambda>d. dg_create (pr_moderationEvent (prc E)) d (\<lambda>i. \<lparr>me_id = i, me_createdAt = now, me_userId = userId\<rparr>)) }"

definition emitModerationAction :: "string \<Rightarrow> string \<Rightarrow> string \<Rightarrow> (('r, 'd) world, unit) prog" where
  "emitModerationAction userId action reason = emit (Emit ''/video'' (userRoom userId) ''moderation:action''
     (JObj [(''action'', JStr action), (''reason'', JStr reason)]))"

definition action_taken :: "string \<Rightarrow> string \<Rightarrow> nat \<Rightarrow> int \<Rightarrow> (string \<times> json) list" where
  "action_taken action policyReason n latency = [(''action'', JStr action), (''policyReason'', JStr policyReason),
     (''automated'', JBool True), (''violationCount24h'', JNum (int n)), (''actionLatencyMs'', JNum (max 0 latency))]"

definition applyModerationAction ::
  "('r, 'd) env \<Rightarrow> string \<Rightarrow> string \<Rightarrow> int \<Rightarrow> (('r, 'd) world, unit) prog" where
  "applyModerationAction E userId policyReason detectedAtMs = do {
     now \<leftarrow> date_now;
     count \<leftarrow> query (\<lambda>d. dg_count (pr_moderationEvent (prc E)) d
       (\<lambda>e. me_userId e = userId \<and> me_createdAt e \<ge> now - VIOLATION_WINDOW_MS));
     if count \<ge> BAN_THRESHOLD
     then do {
       allowed \<leftarrow> redis_set E (banCooldownKey userId) ''1'' (Some BAN_RATE_LIMIT_MS) True;
       if allowed
       then do {
         redis_set E (banKey userId) ''1'' (Some BAN_TTL_MS) False;
         emitModerationAction userId ''ban'' policyReason;
         emit (Track (Some userId) ''safety_action_taken'' (action_taken ''ban'' policyReason count (now - detectedAtMs))) }
       else ret () }
     else do {
       emitModerationAction userId ''warn'' policyReason;
       emit (Track (Some userId) ''safety_action_taken'' (action_taken ''warn'' policyReason count (now - detectedAtMs))) } }"

text \<open>The part of \<open>handleWebhook\<close> behind its guards.\<close>

fun logEvents :: "('r, 'd) env \<Rightarrow> string list \<Rightarrow> (('r, 'd) world, unit) fprog" where
  "logEvents E [] = ok ()"
| "logEvents E (u # us) = andThen (logModerationEvent E u) (\<lambda>_. logEvents E us)"

definition punish :: "('r, 'd) env \<Rightarrow> hive_payload \<Rightarrow> session_row \<Rightarrow> (('r, 'd) world, unit) fprog" where
  "punish E payload session = do {
     let offenderIds = (if truthy (hv_userId payload) then [the (hv_userId payload)] else [se_userAId session, se_userBId session]);
     let policyReason = first_of [hv_reason payload, hv_severity payload] ''violation'';
     let detector = first_of [hv_event payload, hv_action payload] ''hive_webhook'';
     actionStartedAtMs \<leftarrow> date_now;
     andThen (logEvents E offenderIds) (\<lambda>_. do {
       forEach offenderIds (\<lambda>u. emit (Track (Some u) ''safety_violation_detected'' [(''sessionId'', json_opt (hv_sessionId payload)),
         (''detector'', JStr detector), (''policyType'', JStr policyReason),
         (''confidenceBand'', JStr (first_of [hv_severity payload] ''unknown''))]));
       forEach offenderIds (\<lambda>u. applyModerationAction E u policyReason actionStartedAtMs);
       endSession E session Ended;
       ok () }) }"

definition handleWebhook ::
  "('r, 'd) env \<Rightarrow> hive_payload \<Rightarrow> string option \<Rightarrow> string option \<Rightarrow> (('r, 'd) world, unit) fprog" where
  "handleWebhook E payload signature timestamp =
    (if \<not> truthy (hv_sessionId payload) then throw (BadRequest ''Missing sessionId'')
     else do {
       accepted \<leftarrow> (if truthy signature \<and> truthy timestamp
         then reserveWebhookDelivery E (the signature) (the timestamp) else ret True);
       if \<not> accepted then ok ()
       else if \<not> isViolation payload then ok ()
       else do {
         session \<leftarrow> query (\<lambda>d. dg_findFirst (pr_session (prc E)) d (\<lambda>s. se_id s = the (hv_sessionId payload)));
         case session of None \<Rightarrow> ok () | Some s \<Rightarrow> punish E payload s } })"

section \<open>Resolving reports\<close>

datatype report_action = Warn | Ban

fun report_action_text :: "report_action \<Rightarrow> string" where
  "report_action_text Warn = ''warn''"
| "report_action_text Ban = ''ban''"

definition resolveReport ::
  "('r, 'd) env \<Rightarrow> string \<Rightarrow> report_action \<Rightarrow> (('r, 'd) world, string \<times> string \<times> report_action) fprog" where
  "resolveReport E reportId action =
    andThen (mutate (\<lambda>d. dg_update (pr_moderationReport (prc E)) d (\<lambda>r. rp_id r = reportId)
      (\<lambda>r. r\<lparr>rp_status := (if action = Ban then ''BANNED'' else ''WARNED'')\<rparr>))) (\<lambda>report.
    andThen (createBlock E (rp_reporterId report) (rp_reportedUserId report)) (\<lambda>_. do {
      (if action = Ban
       then do { redis_set E (banKey (rp_reportedUserId report)) ''1'' (Some BAN_TTL_MS) False; ret () }
       else ret ());
      emitModerationAction (rp_reportedUserId report) (report_action_text action) (rp_reason report);
      now \<leftarrow> date_now;
      emit (Track (Some (rp_reportedUserId report)) ''safety_action_taken'' [(''action'', JStr (report_action_text action)),
        (''policyReason'', JStr (rp_reason report)), (''automated'', JBool False), (''source'', JStr ''admin_report_resolution''),
        (''actionLatencyMs'', JNum (max 0 (now - rp_createdAt report)))]);
      ok (rp_id report, rp_status report, action) }))"

section \<open>Appeals\<close>

record appeal_input =
  ai_moderationReportId :: "string option"
  ai_actionType :: string
  ai_reason :: "string option"

definition new_appeal :: "string \<Rightarrow> appeal_input \<Rightarrow> string option \<Rightarrow> string option \<Rightarrow> int \<Rightarrow> string \<Rightarrow> appeal_row" where
  "new_appeal userId input reportId reason now i = \<lparr>ap_id = i, ap_createdAt = now, ap_userId = userId,
     ap_moderationReportId = reportId, ap_actionType = ai_actionType input, ap_reason = reason, ap_status = ''OPEN'',
     ap_resolution = None, ap_resolvedAt = None, ap_resolverUserId = None\<rparr>"

text \<open>The report an appeal names, which must be about the user: its id and time.\<close>

definition appealedReport ::
  "('r, 'd) env \<Rightarrow> string \<Rightarrow> string option \<Rightarrow> (('r, 'd) world, (string \<times> int) option) fprog" where
  "appealedReport E userId reportId =
    (if \<not> truthy reportId then ok None
     else do {
       report \<leftarrow> query (\<lambda>d. dg_findFirst (pr_moderationReport (prc E)) d (\<lambda>r. rp_id r = the reportId));
       case report of
         None \<Rightarrow> throw (BadRequest ''Moderation report not found'')
       | Some r \<Rightarrow>
           if rp_reportedUserId r \<noteq> userId then throw (BadRequest ''Only the reported user can appeal this report'')
           else ok (Some (rp_id r, rp_createdAt r)) })"

definition createAppeal :: "('r, 'd) env \<Rightarrow> string \<Rightarrow> appeal_input \<Rightarrow> (('r, 'd) world, appeal_row) fprog" where
  "createAppeal E userId input =
    (let reason = map_option trim (ai_reason input) in
     if truthy reason \<and> length (the reason) > 500 then throw (BadRequest ''Appeal reason must be 500 characters or fewer'')
     else andThen (appealedReport E userId (ai_moderationReportId input)) (\<lambda>report. do {
       now \<leftarrow> date_now;
       andThen (mutate (\<lambda>d. dg_create (pr_moderationAppeal (prc E)) d
         (new_appeal userId input (map_option fst report) reason now))) (\<lambda>appeal. do {
         emit (Track (Some userId) ''safety_appeal_opened'' [(''appealId'', JStr (ap_id appeal)),
           (''moderationReportId'', json_opt (ap_moderationReportId appeal)), (''actionType'', JStr (ap_actionType appeal)),
           (''timeFromActionSec'', case report of None \<Rightarrow> JNull | Some (_, t) \<Rightarrow> JNum (max 0 (round_seconds (now - t))))]);
         ok appeal }) }))"

definition listAppeals :: "('r, 'd) env \<Rightarrow> string option \<Rightarrow> jsnum \<Rightarrow> (('r, 'd) world, appeal_row list) prog" where
  "listAppeals E status limit =
    (let normalizedStatus = map_option (\<lambda>s. toUpperCase (trim s)) status in
     query (\<lambda>d. dg_findLatest (pr_moderationAppeal (prc E)) d
       (\<lambda>a. truthy normalizedStatus \<longrightarrow> ap_status a = the normalizedStatus) (Some (safeLimit limit 50))))"

datatype appeal_resolution = Upheld | Overturned

fun resolution_text :: "appeal_resolution \<Rightarrow> string" where
  "resolution_text Upheld = ''upheld''"
| "resolution_text Overturned = ''overturned''"

definition resolved :: "appeal_resolution \<Rightarrow> int \<Rightarrow> string \<Rightarrow> appeal_row \<Rightarrow> appeal_row" where
  "resolved resolution resolvedAt resolverUserId a = a\<lparr>
     ap_status := (if resolution = Upheld then ''UPHELD'' else ''OVERTURNED''), ap_resolution := Some (resolution_text resolution),
     ap_resolvedAt := Some resolvedAt, ap_resolverUserId := Some resolverUserId\<rparr>"

definition resolveAppeal ::
  "('r, 'd) env \<Rightarrow> string \<Rightarrow> string \<Rightarrow> appeal_resolution \<Rightarrow> (('r, 'd) world, appeal_row) fprog" where
  "resolveAppeal E resolverUserId appealId resolution = do {
     existing \<leftarrow> query (\<lambda>d. dg_findFirst (pr_moderationAppeal (prc E)) d (\<lambda>a. ap_id a = appealId));
     case existing of
       None \<Rightarrow> throw (BadRequest ''Appeal not found'')
     | Some a \<Rightarrow>
         if ap_status a \<noteq> ''OPEN'' then throw (BadRequest ''Appeal is already resolved'')
         else do {
           resolvedAt \<leftarrow> date_now;
           andThen (mutate (\<lambda>d. dg_update (pr_moderationAppeal (prc E)) d (\<lambda>x. ap_id x = ap_id a)
             (resolved resolution resolvedAt resolverUserId))) (\<lambda>updated. do {
             (if resolution = Overturned \<and> ap_actionType a = ''ban''
              then do { redis_del E [banKey (ap_userId a)]; ret () } else ret ());
             emit (Track (Some (ap_userId a)) ''safety_appeal_resolved'' [(''appealId'', JStr (ap_id updated)),
               (''actionType'', JStr (ap_actionType a)), (''resolution'', JStr (resolution_text resolution)),
               (''resolutionLatencySec'', JNum (max 0 (round_seconds (resolvedAt - ap_createdAt a))))]);
             ok updated }) } }"

end
