(* ===== verification/Moderation_Laws.thy ===== *)
theory Moderation_Laws
  imports Moderation Queue_Props
begin

text \<open>
  Lemmas on the moderation (\<open>src/src/moderation/moderation.service.ts\<close>): bans, blocks, reports,
  appeals, and what they leave of the queues.
\<close>

section \<open>Bans\<close>

lemma ban_keys [simp]:
  "banKey u = userBanKey u" "userBanKey u \<noteq> banCooldownKey u" "banCooldownKey u \<noteq> userBanKey u"
  by (simp_all add: banKey_def userBanKey_def banCooldownKey_def)

definition violations :: "string \<Rightarrow> tables \<Rightarrow> int \<Rightarrow> nat" where
  "violations uid d now =
    count_rows (\<lambda>e. me_userId e = uid \<and> now - VIOLATION_WINDOW_MS \<le> me_createdAt e) (tb_moderationEvents d)"

definition webhookKey :: "('r, 'd) env \<Rightarrow> string \<Rightarrow> string \<Rightarrow> string" where
  "webhookKey E signature timestamp = ''moderation:hive:webhook:'' @ sha256_hex E (timestamp @ '':'' @ rawSignature signature)"

text \<open>A delivery that was not seen in the last ten minutes, or that carries no headers.\<close>

definition fresh_delivery :: "('r, 'd) env \<Rightarrow> ('r \<Rightarrow> string \<Rightarrow> bool) \<Rightarrow> string option \<Rightarrow> string option \<Rightarrow> ('r, 'd) world \<Rightarrow> bool" where
  "fresh_delivery E other signature timestamp w \<longleftrightarrow> (truthy signature \<and> truthy timestamp \<longrightarrow>
     (let k = webhookKey E (the signature) (the timestamp)
      in rd_get (rdc E) (rds w) (clock w) k = None \<and> \<not> other (rds w) k))"

lemma webhookKey_distinct [simp]:
  "webhookKey E s t \<noteq> userBanKey u" "userBanKey u \<noteq> webhookKey E s t" "webhookKey E s t \<noteq> banCooldownKey u"
  "banCooldownKey u \<noteq> webhookKey E s t" "webhookKey E s t \<notin> session_space" "banCooldownKey u \<notin> session_space"
  "sessionEndedKey x \<noteq> webhookKey E s t"
  by (simp_all add: session_keys webhookKey_def userBanKey_def banCooldownKey_def session_space_def)

lemma sessionEnded_not_ban [simp]: "sessionEndedKey x \<noteq> userBanKey u" "sessionEndedKey x \<noteq> banCooldownKey u"
  by (simp_all add: session_keys userBanKey_def banCooldownKey_def)

context backend
begin

lemma run_logModerationEvent:
  "\<exists>e d. run_state (logModerationEvent E u) w = (Inr e, w\<lparr>db := d\<rparr>) \<and> me_userId e = u \<and> me_createdAt e = clock w \<and>
     view d = tb_moderationEvents_update (\<lambda>es. es @ [e]) (view (db w))"
proof -
  let ?mk = "\<lambda>i. \<lparr>me_id = i, me_createdAt = clock w, me_userId = u\<rparr>"
  obtain x d where c: "dg_create (pr_moderationEvent (prc E)) (db w) ?mk = (x, d)" by (cases "dg_create (pr_moderationEvent (prc E)) (db w) ?mk")
  then show ?thesis
    using prisma.moderationEvent.create_ok [of "db w" ?mk]
    by (auto simp: logModerationEvent_def run no_unique_def)
qed

lemma applyModerationAction_touches:
  "touches E zv sv other {banCooldownKey u, userBanKey u} (applyModerationAction E u p t0)"
  unfolding applyModerationAction_def emitModerationAction_def by (intro touch) simp_all

lemma applyModerationAction_ban:
  assumes "BAN_THRESHOLD \<le> violations u (view (db w)) (clock w)"
    and "rd_get (rdc E) (rds w) (clock w) (banCooldownKey u) = None" "\<not> other (rds w) (banCooldownKey u)"
  shows "\<exists>w' n. run_state (applyModerationAction E u p t0) w = ((), w') \<and> db w' = db w \<and> clock w' = clock w \<and>
    trace w' = trace w @ [Emit ''/video'' (userRoom u) ''moderation:action'' (JObj [(''action'', JStr ''ban''), (''reason'', JStr p)]), n] \<and>
    (\<forall>t. clock w \<le> t \<and> t < clock w + BAN_TTL_MS \<longrightarrow> rd_get (rdc E) (rds w') t (userBanKey u) = Some ''1'')"
proof -
  have "fst (rd_set (rdc E) (rds w) (clock w) (banCooldownKey u) ''1'' (Some BAN_RATE_LIMIT_MS) True)"
    using assms(2,3) by (simp add: redis.nx_reply)
  moreover have "rd_get (rdc E) (snd (rd_set (rdc E) r (clock w) (userBanKey u) ''1'' (Some BAN_TTL_MS) False)) t (userBanKey u) = Some ''1''"
    if "clock w \<le> t \<and> t < clock w + BAN_TTL_MS" for r t
    using that by (intro redis.set_get) (auto simp: BAN_TTL_MS_def)
  ultimately show ?thesis
    using assms(1)
    by (simp add: applyModerationAction_def run violations_def prisma.moderationEvent.count_rows emitModerationAction_def)
qed

lemma applyModerationAction_warn:
  assumes "violations u (view (db w)) (clock w) < BAN_THRESHOLD"
  shows "\<exists>n. run_state (applyModerationAction E u p t0) w = ((), w\<lparr>trace := trace w @
    [Emit ''/video'' (userRoom u) ''moderation:action'' (JObj [(''action'', JStr ''warn''), (''reason'', JStr p)]), n]\<rparr>)"
  using assms
  by (simp add: applyModerationAction_def run violations_def prisma.moderationEvent.count_rows emitModerationAction_def)
    (rule exI, rule refl)

lemma endSession_keeps_db: "keeps_db (endSession E s reason)"
  unfolding endSession_def ensureChoiceDeadline_def by (intro dbfix)

lemma endSession_frame:
  assumes "\<not> other (rds w) (sessionEndedKey (se_id s))"
  shows "\<exists>w' tr. run_state (endSession E s reason) w = ((), w') \<and> clock w' = clock w \<and> db w' = db w \<and> trace w' = trace w @ tr \<and>
     rd_get (rdc E) (rds w') (clock w) (sessionEndedKey (se_id s)) \<noteq> None \<and>
     unch (rdc E) zv sv other (clock w) session_space (rds w) (rds w')"
proof -
  have t: "touches E zv sv other session_space (endSession E s reason)"
    by (rule endSession_touches) simp
  note f = touchesD [OF t, of w] keeps_dbD [OF endSession_keeps_db [of s reason], of w]
  show ?thesis
  proof (cases "rd_get (rdc E) (rds w) (clock w) (sessionEndedKey (se_id s))")
    case None
    note e = endSession_first [OF None assms, of reason]
    have "0 < SESSION_STATE_TTL_MS" by (simp add: session_times)
    then show ?thesis
      using f ended_redis_ended(1) [OF None assms, of "clock w"] unfolding e by auto
  next
    case (Some v)
    note e = endSession_again [OF Some assms, of reason]
    show ?thesis using f Some unfolding e by auto
  qed
qed


text \<open>Behind the guards: the user \<open>u\<close> is blamed for a violation in the session \<open>s\<close>.\<close>

lemma punish_run:
  assumes u: "hv_userId payload = Some u" "u \<noteq> []" and c: "rd_get (rdc E) (rds w) (clock w) (banCooldownKey u) = None"
    "\<not> other (rds w) (banCooldownKey u)" "\<not> other (rds w) (sessionEndedKey (se_id s))"
  defines "n \<equiv> violations u (view (db w)) (clock w)"
  shows "\<exists>w' p. run_state (punish E payload s) w = (Inr (), w') \<and> clock w' = clock w \<and>
    rd_get (rdc E) (rds w') (clock w) (sessionEndedKey (se_id s)) \<noteq> None \<and>
    Emit ''/video'' (userRoom u) ''moderation:action''
      (JObj [(''action'', JStr (if 2 \<le> n then ''ban'' else ''warn'')), (''reason'', JStr p)]) \<in> set (trace w') \<and>
    (\<forall>t. clock w \<le> t \<and> t < clock w + BAN_TTL_MS \<longrightarrow> rd_get (rdc E) (rds w') t (userBanKey u) =
       (if 2 \<le> n then Some ''1'' else rd_get (rdc E) (rds w) t (userBanKey u)))"
proof -
  obtain e d where e: "run_state (logModerationEvent E u) w = (Inr e, w\<lparr>db := d\<rparr>)" "me_userId e = u" "me_createdAt e = clock w"
    "view d = tb_moderationEvents_update (\<lambda>es. es @ [e]) (view (db w))"
    using run_logModerationEvent [of u w] by (elim exE conjE) (rule that)
  define p where "p = first_of [hv_reason payload, hv_severity payload] ''violation''"
  define tr where "tr = Track (Some u) ''safety_violation_detected'' [(''sessionId'', json_opt (hv_sessionId payload)),
         (''detector'', JStr (first_of [hv_event payload, hv_action payload] ''hive_webhook'')), (''policyType'', JStr p),
         (''confidenceBand'', JStr (first_of [hv_severity payload] ''unknown''))]"
  define w1 where "w1 = w\<lparr>db := d, trace := trace w @ [tr]\<rparr>"
  have w1: "rds w1 = rds w" "clock w1 = clock w" "db w1 = d" by (simp_all add: w1_def)
  have n: "violations u (view (db w1)) (clock w1) = Suc n"
    using e(2,3) by (simp add: violations_def w1 e(4) n_def count_rows_def VIOLATION_WINDOW_MS_def)
  obtain w2 where w2: "run_state (applyModerationAction E u p (clock w)) w1 = ((), w2)" "clock w2 = clock w" "\<exists>x. trace w2 =
      trace w1 @ [Emit ''/video'' (userRoom u) ''moderation:action''
      (JObj [(''action'', JStr (if 2 \<le> n then ''ban'' else ''warn'')), (''reason'', JStr p)]), x]"
    "\<forall>t. clock w \<le> t \<and> t < clock w + BAN_TTL_MS \<longrightarrow> rd_get (rdc E) (rds w2) t (userBanKey u) =
       (if 2 \<le> n then Some ''1'' else rd_get (rdc E) (rds w) t (userBanKey u))"
    "\<not> other (rds w2) (sessionEndedKey (se_id s))"
  proof (cases "2 \<le> n")
    case True
    with n have "BAN_THRESHOLD \<le> violations u (view (db w1)) (clock w1)" by (simp add: BAN_THRESHOLD_def)
    from applyModerationAction_ban [OF this, of p "clock w"] c obtain w2 x where
      "run_state (applyModerationAction E u p (clock w)) w1 = ((), w2)" "clock w2 = clock w1" "trace w2 = trace w1 @
       [Emit ''/video'' (userRoom u) ''moderation:action'' (JObj [(''action'', JStr ''ban''), (''reason'', JStr p)]), x]"
      "\<forall>t. clock w1 \<le> t \<and> t < clock w1 + BAN_TTL_MS \<longrightarrow> rd_get (rdc E) (rds w2) t (userBanKey u) = Some ''1''"
      by (auto simp: w1)
    then show ?thesis
      using True that [of w2] c(3)
        redis.unchD(5) [OF touchesD(2) [OF applyModerationAction_touches [of u p "clock w"], of w1], of "sessionEndedKey (se_id s)"]
      by (auto simp: w1)
  next
    case False
    with n have "violations u (view (db w1)) (clock w1) < BAN_THRESHOLD" by (simp add: BAN_THRESHOLD_def)
    from applyModerationAction_warn [OF this, of p "clock w"] show ?thesis
      using False that c(3) by (auto simp: w1)
  qed
  obtain w3 tr' where w3: "run_state (endSession E s Ended) w2 = ((), w3)" "clock w3 = clock w2" "trace w3 = trace w2 @ tr'"
    "rd_get (rdc E) (rds w3) (clock w2) (sessionEndedKey (se_id s)) \<noteq> None"
    "unch (rdc E) zv sv other (clock w2) session_space (rds w2) (rds w3)"
    using endSession_frame [OF w2(5), of Ended] by (elim exE conjE) (rule that)
  have "run_state (punish E payload s) w = (Inr (), w3)"
    using w2(1) w3(1) u unfolding w1_def by (simp add: punish_def run Let_def e(1) tr_def p_def)
  moreover have "rd_get (rdc E) (rds w3) t (userBanKey u) = rd_get (rdc E) (rds w2) t (userBanKey u)" if "clock w \<le> t" for t
    using redis.unchD(1) [OF w3(5)] that w2(2) by simp
  ultimately show ?thesis using w2 w3 by (intro exI [of _ w3] exI [of _ p]) auto
qed
lemma webhook_run:
  assumes p: "truthy (hv_sessionId payload)" "isViolation payload" "hv_userId payload = Some u" "u \<noteq> []"
    and s: "filter (\<lambda>s. se_id s = the (hv_sessionId payload)) (tb_sessions (view (db w))) = [s]"
    and f: "fresh_delivery E other signature timestamp w"
    and c: "rd_get (rdc E) (rds w) (clock w) (banCooldownKey u) = None"
    "\<not> other (rds w) (banCooldownKey u)" "\<not> other (rds w) (sessionEndedKey (se_id s))"
  defines "n \<equiv> violations u (view (db w)) (clock w)"
  shows "\<exists>w' p. run_state (handleWebhook E payload signature timestamp) w = (Inr (), w') \<and> clock w' = clock w \<and>
    rd_get (rdc E) (rds w') (clock w) (sessionEndedKey (se_id s)) \<noteq> None \<and>
    Emit ''/video'' (userRoom u) ''moderation:action''
      (JObj [(''action'', JStr (if 2 \<le> n then ''ban'' else ''warn'')), (''reason'', JStr p)]) \<in> set (trace w') \<and>
    (\<forall>t. clock w \<le> t \<and> t < clock w + BAN_TTL_MS \<longrightarrow> rd_get (rdc E) (rds w') t (userBanKey u) =
       (if 2 \<le> n then Some ''1'' else rd_get (rdc E) (rds w) t (userBanKey u)))"
proof -
  have q: "dg_findFirst (pr_session (prc E)) (db w) (\<lambda>s. se_id s = the (hv_sessionId payload)) = Some s"
    using s by (rule prisma.session.findFirst_unique)
  show ?thesis
  proof (cases "truthy signature \<and> truthy timestamp")
    case False
    then have "run_state (handleWebhook E payload signature timestamp) w = run_state (punish E payload s) w"
      using p q by (auto simp: handleWebhook_def run)
    then show ?thesis using punish_run [OF p(3,4) c] by (simp add: n_def)
  next
    case True
    define k where "k = webhookKey E (the signature) (the timestamp)"
    define r where "r = snd (rd_set (rdc E) (rds w) (clock w) k ''1'' (Some WEBHOOK_REPLAY_TTL_MS) True)"
    have u: "unch (rdc E) zv sv other (clock w) {k} (rds w) r" unfolding r_def by (rule redis.set_unch)
    have c': "rd_get (rdc E) r (clock w) (banCooldownKey u) = None"
      "\<not> other r (banCooldownKey u)" "\<not> other r (sessionEndedKey (se_id s))"
      "\<And>t. clock w \<le> t \<Longrightarrow> rd_get (rdc E) r t (userBanKey u) = rd_get (rdc E) (rds w) t (userBanKey u)"
      using c redis.unchD(1,5) [OF u] by (auto simp: k_def)
    define w0 where "w0 = w\<lparr>rds := r\<rparr>"
    have w0: "rds w0 = r" "clock w0 = clock w" "db w0 = db w" by (simp_all add: w0_def)
    have "fst (rd_set (rdc E) (rds w) (clock w) k ''1'' (Some WEBHOOK_REPLAY_TTL_MS) True)"
      using f True by (simp add: fresh_delivery_def Let_def redis.nx_reply k_def)
    then have "run_state (handleWebhook E payload signature timestamp) w = run_state (punish E payload s) w0"
      unfolding w0_def using p q True by (simp add: handleWebhook_def reserveWebhookDelivery_def run Let_def k_def webhookKey_def r_def)
    moreover obtain w' p' where "run_state (punish E payload s) w0 = (Inr (), w')" "clock w' = clock w"
      "rd_get (rdc E) (rds w') (clock w) (sessionEndedKey (se_id s)) \<noteq> None"
      "Emit ''/video'' (userRoom u) ''moderation:action''
        (JObj [(''action'', JStr (if 2 \<le> n then ''ban'' else ''warn'')), (''reason'', JStr p')]) \<in> set (trace w')"
      "\<forall>t. clock w \<le> t \<and> t < clock w + BAN_TTL_MS \<longrightarrow> rd_get (rdc E) (rds w') t (userBanKey u) =
         (if 2 \<le> n then Some ''1'' else rd_get (rdc E) (rds w0) t (userBanKey u))"
      using punish_run [OF p(3,4) c'(1-3) [folded w0(1,2)], unfolded w0(2,3), folded n_def] by (elim exE conjE) (rule that)
    ultimately show ?thesis by (intro exI [of _ w'] exI [of _ p'] conjI) (auto simp: w0 c'(4))
  qed
qed

end

section \<open>Blocks\<close>

text \<open>Ids and pairs are unique.\<close>

definition blocks_wf :: "tables \<Rightarrow> bool" where
  "blocks_wf d \<longleftrightarrow> distinct (map bl_id (tb_blocks d)) \<and> distinct (map (\<lambda>b. (bl_blockerId b, bl_blockedId b)) (tb_blocks d))"

definition block_pairs :: "tables \<Rightarrow> (string \<times> string) set" where
  "block_pairs d = {(a, b). blocks d a b}"

text \<open>A row is lifted, or put in force again.\<close>

definition with_lift :: "string \<Rightarrow> int option \<Rightarrow> tables \<Rightarrow> tables" where
  "with_lift i t d = tb_blocks_update (update_rows (\<lambda>b. bl_id b = i) (\<lambda>b. b\<lparr>bl_liftedAt := t\<rparr>)) d"

lemma with_lift_facts:
  assumes "blocks_wf d" and "r \<in> set (tb_blocks d)"
  shows "blocks_wf (with_lift (bl_id r) t d)"
    and "block_pairs (with_lift (bl_id r) t d) = (if t = None then insert (bl_blockerId r, bl_blockedId r) (block_pairs d)
      else block_pairs d - {(bl_blockerId r, bl_blockedId r)})"
proof -
  show "blocks_wf (with_lift (bl_id r) t d)"
    using assms(1) by (simp add: blocks_wf_def with_lift_def map_update_rows)
  have same_id: "bl_id x = bl_id r \<longleftrightarrow> x = r" if "x \<in> set (tb_blocks d)" for x
    using assms that by (auto simp: blocks_wf_def dest: distinct_key)
  have same_pair: "bl_blockerId x = bl_blockerId r \<and> bl_blockedId x = bl_blockedId r \<longleftrightarrow> x = r" if "x \<in> set (tb_blocks d)" for x
    using assms that distinct_key [of "\<lambda>b. (bl_blockerId b, bl_blockedId b)" "tb_blocks d" x r] by (auto simp: blocks_wf_def)
  have set': "set (tb_blocks (with_lift (bl_id r) t d)) = insert (r\<lparr>bl_liftedAt := t\<rparr>) (set (tb_blocks d) - {r})"
    using assms(2) same_id by (auto simp: with_lift_def set_update_rows image_iff)
  have "blocks (with_lift (bl_id r) t d) x y \<longleftrightarrow> (if x = bl_blockerId r \<and> y = bl_blockedId r then t = None else blocks d x y)" for x y
  proof (cases "x = bl_blockerId r \<and> y = bl_blockedId r")
    case True
    then have "\<not> (\<exists>z \<in> set (tb_blocks d) - {r}. bl_blockerId z = x \<and> bl_blockedId z = y)"
      using same_pair by blast
    with True show ?thesis unfolding blocks_def set' by auto
  next
    case False
    then show ?thesis unfolding blocks_def set' by auto
  qed
  then show "block_pairs (with_lift (bl_id r) t d) = (if t = None then insert (bl_blockerId r, bl_blockedId r) (block_pairs d)
      else block_pairs d - {(bl_blockerId r, bl_blockedId r)})"
    by (auto simp: block_pairs_def)
qed

lemma new_block_simps [simp]: "bl_id (new_block a b t i) = i" "bl_blockerId (new_block a b t i) = a" "bl_blockedId (new_block a b t i) = b"
  "bl_liftedAt (new_block a b t i) = None"
  by (simp_all add: new_block_def)

lemma added_block_facts:
  fixes a b i t
  assumes "blocks_wf d" and "\<forall>x \<in> set (tb_blocks d). \<not> (bl_blockerId x = a \<and> bl_blockedId x = b)" and "i \<notin> bl_id ` set (tb_blocks d)"
  defines "d' \<equiv> tb_blocks_update (\<lambda>rs. rs @ [new_block a b t i]) d"
  shows "blocks_wf d'" and "block_pairs d' = insert (a, b) (block_pairs d)"
  using assms by (auto simp: blocks_wf_def block_pairs_def blocks_def)

context backend
begin

lemma findBlock_run:
  assumes "blocks_wf (view (db w))"
  shows "\<exists>x. run_state (findBlock E a b) w = (x, w) \<and>
    (case x of None \<Rightarrow> (\<forall>y \<in> set (tb_blocks (view (db w))). \<not> (bl_blockerId y = a \<and> bl_blockedId y = b))
     | Some r \<Rightarrow> r \<in> set (tb_blocks (view (db w))) \<and> bl_blockerId r = a \<and> bl_blockedId r = b \<and>
         (bl_liftedAt r = None \<longleftrightarrow> blocks (view (db w)) a b))"
proof (cases "dg_findFirst (pr_block (prc E)) (db w) (\<lambda>x. bl_blockerId x = a \<and> bl_blockedId x = b)")
  case None
  then show ?thesis
    using prisma.block.findFirst_None [of "db w" "\<lambda>x. bl_blockerId x = a \<and> bl_blockedId x = b"] by (simp add: findBlock_def run)
next
  case (Some r)
  then have r: "r \<in> set (tb_blocks (view (db w)))" "bl_blockerId r = a" "bl_blockedId r = b"
    using prisma.block.findFirst_Some [of "db w" _ r] by auto
  have "x = r" if "x \<in> set (tb_blocks (view (db w)))" "bl_blockerId x = a" "bl_blockedId x = b" for x
    using assms that r distinct_key [of "\<lambda>b. (bl_blockerId b, bl_blockedId b)" "tb_blocks (view (db w))" x r] by (simp add: blocks_wf_def)
  with r have "bl_liftedAt r = None \<longleftrightarrow> blocks (view (db w)) a b" unfolding blocks_def by blast
  with r Some show ?thesis by (simp add: findBlock_def run)
qed

lemma liftBlock_run:
  assumes "blocks_wf (view (db w))" and "r \<in> set (tb_blocks (view (db w)))"
  shows "\<exists>d. run_state (liftBlock E (bl_id r) t) w = (Inr (r\<lparr>bl_liftedAt := t\<rparr>), w\<lparr>db := d\<rparr>) \<and> view d = with_lift (bl_id r) t (view (db w))"
proof -
  have f: "filter (\<lambda>b. bl_id b = bl_id r) (tb_blocks (view (db w))) = [r]"
    using assms by (intro filter_key) (simp_all add: blocks_wf_def)
  have "\<not> uq_block x (r\<lparr>bl_liftedAt := t\<rparr>)" if "x \<in> set (tb_blocks (view (db w)))" "bl_id x \<noteq> bl_id r" for x
    using assms that distinct_key [of "\<lambda>b. (bl_blockerId b, bl_blockedId b)" "tb_blocks (view (db w))" x r]
    by (auto simp: blocks_wf_def uq_block_def)
  then show ?thesis
    using prisma.block.update_ok [OF f, of "\<lambda>b. b\<lparr>bl_liftedAt := t\<rparr>"] by (auto simp: liftBlock_def run with_lift_def)
qed

lemma insertBlock_run:
  assumes "\<forall>y \<in> set (tb_blocks (view (db w))). \<not> (bl_blockerId y = a \<and> bl_blockedId y = b)"
  shows "\<exists>d i. run_state (insertBlock E a b) w = (Inr (new_block a b (clock w) i), w\<lparr>db := d\<rparr>) \<and>
    i \<notin> bl_id ` set (tb_blocks (view (db w))) \<and>
    view d = tb_blocks_update (\<lambda>rs. rs @ [new_block a b (clock w) i]) (view (db w))"
  using prisma.block.create_ok [of "db w" "new_block a b (clock w)"] prisma.block.cuid_fresh [of "db w"] assms
  by (auto simp: insertBlock_def run uq_block_def)

text \<open>After \<open>removeFromQueueIfPresent\<close>.\<close>

lemma removeFromQueue_frame:
  "\<exists>w'. run_state (removeFromQueueIfPresent E uid) w = ((), w') \<and> db w' = db w \<and> clock w' = clock w \<and> trace w' = trace w"
  by (auto simp: removeFromQueueIfPresent_def run split: option.split)

lemma removeFromQueue_run:
  assumes "parseQueueEntryState (rd_get (rdc E) (rds w) (clock w) (userQueueKey uid)) = Some \<lparr>qe_queueKey = key, qe_joinedAt = j\<rparr>"
  shows "\<exists>r. run_state (removeFromQueueIfPresent E uid) w = ((), w\<lparr>rds := r\<rparr>) \<and>
    uid \<notin> set (map fst (zv r (clock w) (queueZsetKey key))) \<and> (\<forall>t. rd_get (rdc E) r t (userQueueKey uid) = None) \<and>
    unch (rdc E) zv sv other (clock w) {queueZsetKey key, userQueueKey uid} (rds w) r"
proof -
  from assms obtain v p where v: "rd_get (rdc E) (rds w) (clock w) (userQueueKey uid) = Some v" "v \<noteq> []" "json_parse v = Some p"
    "json_get_str ''queueKey'' p = Some key" "key \<noteq> []"
    by (auto simp: parseQueueEntryState_def split: option.splits if_splits)
  define r1 where "r1 = snd (rd_zrem (rdc E) (rds w) (clock w) (queueZsetKey key) uid)"
  define r2 where "r2 = snd (rd_del (rdc E) r1 (clock w) [userQueueKey uid])"
  have "unch (rdc E) zv sv other (clock w) {queueZsetKey key, userQueueKey uid} (rds w) r1"
    unfolding r1_def by (rule unch_mono [OF redis.zrem_unch]) simp
  moreover have "unch (rdc E) zv sv other (clock w) {queueZsetKey key, userQueueKey uid} r1 r2"
    unfolding r2_def by (rule unch_mono [OF redis.del_unch]) simp
  ultimately have u: "unch (rdc E) zv sv other (clock w) {queueZsetKey key, userQueueKey uid} (rds w) r2" by (rule unch_trans)
  have "zv r2 (clock w) (queueZsetKey key) = zv r1 (clock w) (queueZsetKey key)"
    unfolding r2_def by (rule redis.unchD(3) [OF redis.del_unch]) simp_all
  then have "uid \<notin> set (map fst (zv r2 (clock w) (queueZsetKey key)))"
    by (auto simp: r1_def redis.zrem_zv)
  moreover have "rd_get (rdc E) r2 t (userQueueKey uid) = None" for t
    unfolding r2_def by (rule redis.del_get) simp
  moreover have "run_state (removeFromQueueIfPresent E uid) w = ((), w\<lparr>rds := r2\<rparr>)"
    unfolding removeFromQueueIfPresent_def userQueueKey_def [symmetric] queueZsetKey_def [symmetric]
    using v by (simp add: run r1_def r2_def)
  ultimately show ?thesis using u by blast
qed

lemma createBlock_run:
  assumes "blocks_wf (view (db w))" and "a \<noteq> b"
  shows "\<exists>x w1 w'. run_state (createBlock E a b) w = (Inr x, w') \<and>
    blocks_wf (view (db w')) \<and> block_pairs (view (db w')) = insert (a, b) (block_pairs (view (db w))) \<and>
    (\<exists>bs. view (db w') = tb_blocks_update (\<lambda>_. bs) (view (db w))) \<and>
    (fst x = AlreadyBlocked \<longleftrightarrow> blocks (view (db w)) a b) \<and> clock w' = clock w \<and>
    w' = (if blocks (view (db w)) a b then w else snd (run_state (removeFromQueueIfPresent E b) w1)) \<and>
    rds w1 = rds w \<and> clock w1 = clock w"
proof -
  obtain x where x: "run_state (findBlock E a b) w = (x, w)"
    "case x of None \<Rightarrow> (\<forall>y \<in> set (tb_blocks (view (db w))). \<not> (bl_blockerId y = a \<and> bl_blockedId y = b))
     | Some r \<Rightarrow> r \<in> set (tb_blocks (view (db w))) \<and> bl_blockerId r = a \<and> bl_blockedId r = b \<and>
         (bl_liftedAt r = None \<longleftrightarrow> blocks (view (db w)) a b)"
    using findBlock_run [OF assms(1), of a b] by (elim exE conjE) (rule that)
  show ?thesis
  proof (cases x)
    case None
    with x(2) have n: "\<forall>y \<in> set (tb_blocks (view (db w))). \<not> (bl_blockerId y = a \<and> bl_blockedId y = b)" by simp
    then have nb: "\<not> blocks (view (db w)) a b" by (auto simp: blocks_def)
    obtain d i where d: "run_state (insertBlock E a b) w = (Inr (new_block a b (clock w) i), w\<lparr>db := d\<rparr>)"
      "i \<notin> bl_id ` set (tb_blocks (view (db w)))" "view d = tb_blocks_update (\<lambda>rs. rs @ [new_block a b (clock w) i]) (view (db w))"
      using insertBlock_run [OF n] by (elim exE conjE) (rule that)
    obtain w' where w': "run_state (removeFromQueueIfPresent E b) (w\<lparr>db := d\<rparr>) = ((), w')" "db w' = d" "clock w' = clock w"
      using removeFromQueue_frame [of b "w\<lparr>db := d\<rparr>"] by (elim exE conjE) simp
    have c: "run_state (createBlock E a b) w = (Inr (Blocked, new_block a b (clock w) i), w')"
      using assms(2) None x(1) d(1) w'(1) by (simp add: createBlock_def run)
    note f = added_block_facts [OF assms(1) n d(2), of "clock w"]
    have e: "\<exists>bs. tb_blocks_update (\<lambda>rs. rs @ [new_block a b (clock w) i]) (view (db w)) = tb_blocks_update (\<lambda>_. bs) (view (db w))"
      by (rule exI [of _ "tb_blocks (view (db w)) @ [new_block a b (clock w) i]"]) (cases "view (db w)"; simp)
    show ?thesis
      by (rule exI, rule exI [of _ "w\<lparr>db := d\<rparr>"], rule exI [of _ w'], intro conjI, rule c, insert f e nb w' d(3)) simp_all
  next
    case (Some r)
    with x(2) have r: "r \<in> set (tb_blocks (view (db w)))" "bl_blockerId r = a" "bl_blockedId r = b"
      "bl_liftedAt r = None \<longleftrightarrow> blocks (view (db w)) a b" by simp_all
    show ?thesis
    proof (cases "bl_liftedAt r = None")
      case True
      have c: "run_state (createBlock E a b) w = (Inr (AlreadyBlocked, r), w)"
        using assms(2) Some x(1) True by (simp add: createBlock_def run)
      have e: "\<exists>bs. view (db w) = tb_blocks_update (\<lambda>_. bs) (view (db w))"
        by (rule exI [of _ "tb_blocks (view (db w))"]) (cases "view (db w)"; simp)
      show ?thesis
        by (rule exI, rule exI [of _ w], rule exI [of _ w], intro conjI, rule c, insert e True r(4) assms(1)) (auto simp: block_pairs_def)
    next
      case False
      obtain d where d: "run_state (liftBlock E (bl_id r) None) w = (Inr (r\<lparr>bl_liftedAt := None\<rparr>), w\<lparr>db := d\<rparr>)"
        "view d = with_lift (bl_id r) None (view (db w))"
        using liftBlock_run [OF assms(1) r(1), of None] by (elim exE conjE) (rule that)
      obtain w' where w': "run_state (removeFromQueueIfPresent E b) (w\<lparr>db := d\<rparr>) = ((), w')" "db w' = d" "clock w' = clock w"
        using removeFromQueue_frame [of b "w\<lparr>db := d\<rparr>"] by (elim exE conjE) simp
      have c: "run_state (createBlock E a b) w = (Inr (Blocked, r\<lparr>bl_liftedAt := None\<rparr>), w')"
        using assms(2) Some x(1) False d(1) w'(1) by (simp add: createBlock_def run)
      note f = with_lift_facts [OF assms(1) r(1), of None]
      have e: "\<exists>bs. with_lift (bl_id r) None (view (db w)) = tb_blocks_update (\<lambda>_. bs) (view (db w))"
        unfolding with_lift_def
        by (rule exI [of _ "update_rows (\<lambda>b. bl_id b = bl_id r) (\<lambda>b. b\<lparr>bl_liftedAt := None\<rparr>) (tb_blocks (view (db w)))"]) (cases "view (db w)"; simp)
      show ?thesis
        by (rule exI, rule exI [of _ "w\<lparr>db := d\<rparr>"], rule exI [of _ w'], intro conjI, rule c, insert f e False r w' d(2)) simp_all
    qed
  qed
qed

lemma unblock_run:
  assumes "blocks_wf (view (db w))"
  shows "\<exists>d. run_state (unblock E a b) w = (Inr (blocks (view (db w)) a b), w\<lparr>db := d\<rparr>) \<and> blocks_wf (view d) \<and>
    block_pairs (view d) = block_pairs (view (db w)) - {(a, b)}"
proof -
  obtain x where x: "run_state (findBlock E a b) w = (x, w)"
    "case x of None \<Rightarrow> (\<forall>y \<in> set (tb_blocks (view (db w))). \<not> (bl_blockerId y = a \<and> bl_blockedId y = b))
     | Some r \<Rightarrow> r \<in> set (tb_blocks (view (db w))) \<and> bl_blockerId r = a \<and> bl_blockedId r = b \<and>
         (bl_liftedAt r = None \<longleftrightarrow> blocks (view (db w)) a b)"
    using findBlock_run [OF assms(1), of a b] by (elim exE conjE) (rule that)
  show ?thesis
  proof (cases "blocks (view (db w)) a b")
    case False
    then have "run_state (unblock E a b) w = (Inr False, w)"
      using x by (cases x) (auto simp: unblock_def run)
    with False assms show ?thesis by (intro exI [of _ "db w"]) (auto simp: block_pairs_def)
  next
    case True
    with x(2) obtain r where r: "x = Some r" "r \<in> set (tb_blocks (view (db w)))" "bl_blockerId r = a" "bl_blockedId r = b" "bl_liftedAt r = None"
      by (cases x) (auto simp: blocks_def)
    obtain d where d: "run_state (liftBlock E (bl_id r) (Some (clock w))) w = (Inr (r\<lparr>bl_liftedAt := Some (clock w)\<rparr>), w\<lparr>db := d\<rparr>)"
      "view d = with_lift (bl_id r) (Some (clock w)) (view (db w))"
      using liftBlock_run [OF assms r(2), of "Some (clock w)"] by (elim exE conjE) (rule that)
    have "run_state (unblock E a b) w = (Inr True, w\<lparr>db := d\<rparr>)"
      using x(1) r(1,5) d(1) by (simp add: unblock_def run)
    with True with_lift_facts [OF assms r(2), of "Some (clock w)"] r(3,4) d(2) show ?thesis by auto
  qed
qed

lemma isBlocked_run:
  "run_state (isBlocked E a b) w = ((a, b) \<in> block_pairs (view (db w)) \<or> (b, a) \<in> block_pairs (view (db w)), w)"
proof -
  have "(dg_findFirst (pr_block (prc E)) (db w) (\<lambda>x. bl_liftedAt x = None \<and>
       (bl_blockerId x = a \<and> bl_blockedId x = b \<or> bl_blockerId x = b \<and> bl_blockedId x = a)) \<noteq> None) \<longleftrightarrow>
     (a, b) \<in> block_pairs (view (db w)) \<or> (b, a) \<in> block_pairs (view (db w))"
    unfolding prisma.block.findFirst_exists block_pairs_def blocks_def by blast
  then show ?thesis by (simp add: isBlocked_def run del: not_None_eq)
qed

end

end
