(* ===== verification/Moderation_Props.thy ===== *)
theory Moderation_Props
  imports Moderation_Laws
begin

text \<open>
  The properties of the moderation (\<open>src/src/moderation/moderation.service.ts\<close>) and of its
  effect on the queues, with their witnesses.
\<close>

section \<open>Reports\<close>

lemma new_report_simps [simp]:
  "rp_reporterId (new_report u input ds t i) = u" "rp_createdAt (new_report u input ds t i) = t" "rp_id (new_report u input ds t i) = i"
  "rp_reportedUserId (new_report u input ds t i) = ri_reportedUserId input"
  by (simp_all add: new_report_def)

text \<open>No reporter has more than ten reports within 24 hours.\<close>

definition reports_in :: "string \<Rightarrow> int \<Rightarrow> report_row list \<Rightarrow> nat" where
  "reports_in uid t rs = count_rows (\<lambda>r. rp_reporterId r = uid \<and> t \<le> rp_createdAt r \<and> rp_createdAt r \<le> t + REPORT_SPAM_WINDOW_MS) rs"

definition report_quota :: "report_row list \<Rightarrow> bool" where
  "report_quota rs \<longleftrightarrow> (\<forall>uid t. reports_in uid t rs \<le> MAX_REPORTS_PER_USER_PER_DAY)"

lemma quota_kept:
  assumes "report_quota rs" and "\<forall>r \<in> set rs. rp_createdAt r \<le> now" and "rp_createdAt row = now"
    and "count_rows (\<lambda>r. rp_reporterId r = rp_reporterId row \<and> now - REPORT_SPAM_WINDOW_MS \<le> rp_createdAt r) rs < MAX_REPORTS_PER_USER_PER_DAY"
  shows "report_quota (rs @ [row])"
  unfolding report_quota_def
proof (intro allI)
  fix uid t
  show "reports_in uid t (rs @ [row]) \<le> MAX_REPORTS_PER_USER_PER_DAY"
  proof (cases "rp_reporterId row = uid \<and> t \<le> now \<and> now \<le> t + REPORT_SPAM_WINDOW_MS")
    case False
    then have "reports_in uid t (rs @ [row]) = reports_in uid t rs"
      using assms(3) by (auto simp: reports_in_def count_rows_def)
    then show ?thesis using assms(1) by (simp add: report_quota_def)
  next
    case True
    then have "reports_in uid t (rs @ [row]) = Suc (reports_in uid t rs)"
      using assms(3) by (simp add: reports_in_def count_rows_def)
    moreover have "reports_in uid t rs \<le>
        count_rows (\<lambda>r. rp_reporterId r = rp_reporterId row \<and> now - REPORT_SPAM_WINDOW_MS \<le> rp_createdAt r) rs"
      unfolding reports_in_def using True by (intro count_rows_le) auto
    ultimately show ?thesis using assms(4) by simp
  qed
qed

text \<open>The users report each other, at times \<open>t\<close> that do not decrease.\<close>

fun send_reports :: "('r, 'd) env \<Rightarrow> (int \<times> string \<times> report_input) list \<Rightarrow> ('r, 'd) world \<Rightarrow> ('r, 'd) world" where
  "send_reports E [] w = w"
| "send_reports E ((t, uid, input) # rs) w = send_reports E rs (snd (run_state (createReport E uid input) (w\<lparr>clock := t\<rparr>)))"

context backend
begin

lemma bumpReportEscalation_frame:
  "\<exists>w'. run_state (bumpReportEscalation E uid) w = ((), w') \<and> db w' = db w \<and> clock w' = clock w \<and> trace w' = trace w"
  by (simp add: bumpReportEscalation_def run Let_def)

lemma reportAndBlock_run:
  assumes "blocks_wf (view (db w))"
  shows "\<exists>row d. run_state (transaction E (reportAndBlock E uid input ds)) w = (Inr row, w\<lparr>db := d\<rparr>) \<and>
    (\<exists>i. row = new_report uid input ds (clock w) i) \<and> tb_reports (view d) = tb_reports (view (db w)) @ [row] \<and>
    blocks_wf (view d) \<and> block_pairs (view d) = insert (uid, ri_reportedUserId input) (block_pairs (view (db w)))"
proof -
  let ?b = "ri_reportedUserId input"
  obtain i d where d: "run_state (mutate (\<lambda>d. dg_create (pr_moderationReport (prc E)) d (new_report uid input ds (clock w)))) w =
      (Inr (new_report uid input ds (clock w) i), w\<lparr>db := d\<rparr>)"
    "view d = tb_reports_update (\<lambda>rs. rs @ [new_report uid input ds (clock w) i]) (view (db w))"
    using prisma.moderationReport.create_ok [of "db w" "new_report uid input ds (clock w)"]
    by (auto simp: run no_unique_def)
  have wf: "blocks_wf (view (db (w\<lparr>db := d\<rparr>)))" using assms by (simp add: d(2) blocks_wf_def)
  have same: "blocks (view d) x y = blocks (view (db w)) x y" for x y by (simp add: blocks_def d(2))
  have pairs: "block_pairs (view d) = block_pairs (view (db w))" by (simp add: block_pairs_def same)
  obtain x where x: "run_state (findBlock E uid ?b) (w\<lparr>db := d\<rparr>) = (x, w\<lparr>db := d\<rparr>)"
    "case x of None \<Rightarrow> (\<forall>y \<in> set (tb_blocks (view (db (w\<lparr>db := d\<rparr>)))). \<not> (bl_blockerId y = uid \<and> bl_blockedId y = ?b))
     | Some r \<Rightarrow> r \<in> set (tb_blocks (view (db (w\<lparr>db := d\<rparr>)))) \<and> bl_blockerId r = uid \<and> bl_blockedId r = ?b \<and>
         (bl_liftedAt r = None \<longleftrightarrow> blocks (view (db (w\<lparr>db := d\<rparr>))) uid ?b)"
    using findBlock_run [OF wf, of uid ?b] by (elim exE conjE) (rule that)
  obtain d' where "run_state (transaction E (reportAndBlock E uid input ds)) w = (Inr (new_report uid input ds (clock w) i), w\<lparr>db := d'\<rparr>)"
    "tb_reports (view d') = tb_reports (view d)" "blocks_wf (view d')" "block_pairs (view d') = insert (uid, ?b) (block_pairs (view d))"
  proof (cases x)
    case None
    with x(2) have n: "\<forall>y \<in> set (tb_blocks (view (db (w\<lparr>db := d\<rparr>)))). \<not> (bl_blockerId y = uid \<and> bl_blockedId y = ?b)" by simp
    obtain d' j where "run_state (insertBlock E uid ?b) (w\<lparr>db := d\<rparr>) = (Inr (new_block uid ?b (clock w) j), w\<lparr>db := d'\<rparr>)"
      "j \<notin> bl_id ` set (tb_blocks (view d))" "view d' = tb_blocks_update (\<lambda>rs. rs @ [new_block uid ?b (clock w) j]) (view d)"
      using insertBlock_run [OF n] by auto
    then show ?thesis
      using that [of d'] added_block_facts [OF wf n, of j "clock w"] d(1) x(1) None
      by (simp add: reportAndBlock_def run)
  next
    case (Some r)
    with x(2) have r: "r \<in> set (tb_blocks (view d))" "bl_blockerId r = uid" "bl_blockedId r = ?b"
      "bl_liftedAt r = None \<longleftrightarrow> blocks (view d) uid ?b" by simp_all
    show ?thesis
    proof (cases "bl_liftedAt r = None")
      case True
      with r(4) have "(uid, ?b) \<in> block_pairs (view d)" by (simp add: block_pairs_def)
      with True show ?thesis
        using that [of d] wf d(1) x(1) Some by (simp add: reportAndBlock_def run insert_absorb)
    next
      case False
      obtain d' where "run_state (liftBlock E (bl_id r) None) (w\<lparr>db := d\<rparr>) = (Inr (r\<lparr>bl_liftedAt := None\<rparr>), w\<lparr>db := d'\<rparr>)"
        "view d' = with_lift (bl_id r) None (view d)"
        using liftBlock_run [OF wf, of r None] r(1) by auto
      then show ?thesis
        using that [of d'] with_lift_facts [of "view d" r None] wf r d(1) x(1) Some False
        by (auto simp: reportAndBlock_def run with_lift_def)
    qed
  qed
  then show ?thesis
    unfolding pairs by - (intro exI conjI, assumption, rule refl, simp add: d(2), assumption, assumption)
qed

lemma createReport_refused:
  assumes "uid = ri_reportedUserId input \<or> truthy (map_option trim (ri_details input)) \<and> length (the (map_option trim (ri_details input))) > 500 \<or>
    MAX_REPORTS_PER_USER_PER_DAY \<le> count_rows (\<lambda>r. rp_reporterId r = uid \<and> clock w - REPORT_SPAM_WINDOW_MS \<le> rp_createdAt r) (tb_reports (view (db w)))"
  shows "\<exists>e. run_state (createReport E uid input) w = (Inl e, w)"
  using assms by (auto simp: createReport_def run Let_def prisma.moderationReport.count_rows)

lemma createReport_sent:
  assumes "uid \<noteq> ri_reportedUserId input" and "\<not> (truthy (map_option trim (ri_details input)) \<and> length (the (map_option trim (ri_details input))) > 500)"
    and "count_rows (\<lambda>r. rp_reporterId r = uid \<and> clock w - REPORT_SPAM_WINDOW_MS \<le> rp_createdAt r) (tb_reports (view (db w))) < MAX_REPORTS_PER_USER_PER_DAY"
    and "blocks_wf (view (db w))"
  shows "\<exists>row w'. run_state (createReport E uid input) w = (Inr row, w') \<and> clock w' = clock w \<and>
    rp_reporterId row = uid \<and> rp_createdAt row = clock w \<and> tb_reports (view (db w')) = tb_reports (view (db w)) @ [row] \<and>
    blocks_wf (view (db w')) \<and> block_pairs (view (db w')) = insert (uid, ri_reportedUserId input) (block_pairs (view (db w)))"
proof -
  obtain row d where d: "run_state (transaction E (reportAndBlock E uid input (map_option trim (ri_details input)))) w = (Inr row, w\<lparr>db := d\<rparr>)"
    "rp_reporterId row = uid" "rp_createdAt row = clock w" "tb_reports (view d) = tb_reports (view (db w)) @ [row]"
    "blocks_wf (view d)" "block_pairs (view d) = insert (uid, ri_reportedUserId input) (block_pairs (view (db w)))"
    using reportAndBlock_run [OF assms(4), of uid input "map_option trim (ri_details input)"] by auto
  obtain w1 where w1: "run_state (bumpReportEscalation E (ri_reportedUserId input)) (w\<lparr>db := d\<rparr>) = ((), w1)" "db w1 = d" "clock w1 = clock w"
    using bumpReportEscalation_frame [of "ri_reportedUserId input" "w\<lparr>db := d\<rparr>"] by auto
  obtain w2 where w2: "run_state (removeFromQueueIfPresent E (ri_reportedUserId input)) w1 = ((), w2)" "db w2 = d" "clock w2 = clock w"
    using removeFromQueue_frame [of "ri_reportedUserId input" w1] w1 by auto
  have "\<exists>tr. run_state (createReport E uid input) w = (Inr row, w2\<lparr>trace := tr\<rparr>)"
    using assms(1-3) d(1) w1(1) w2(1) by (auto simp: createReport_def run Let_def prisma.moderationReport.count_rows)
  with d w2 show ?thesis by fastforce
qed

lemma send_reports_quota:
  assumes "report_quota (tb_reports (view (db w)))" and "\<forall>r \<in> set (tb_reports (view (db w))). rp_createdAt r \<le> clock w"
    and "blocks_wf (view (db w))" and "sorted (clock w # map fst rs)"
  shows "report_quota (tb_reports (view (db (send_reports E rs w))))"
  using assms
proof (induction rs arbitrary: w)
  case Nil
  then show ?case by simp
next
  case (Cons r rs)
  obtain t uid input where r: "r = (t, uid, input)" by (cases r)
  let ?w = "w\<lparr>clock := t\<rparr>"
  show ?case
  proof (cases "uid = ri_reportedUserId input \<or> truthy (map_option trim (ri_details input)) \<and> length (the (map_option trim (ri_details input))) > 500 \<or>
      MAX_REPORTS_PER_USER_PER_DAY \<le> count_rows (\<lambda>r. rp_reporterId r = uid \<and> clock ?w - REPORT_SPAM_WINDOW_MS \<le> rp_createdAt r) (tb_reports (view (db ?w)))")
    case True
    then obtain e where "run_state (createReport E uid input) ?w = (Inl e, ?w)" using createReport_refused [of uid input ?w] by auto
    moreover have "report_quota (tb_reports (view (db (send_reports E rs ?w))))"
      using Cons.prems r by (intro Cons.IH) force+
    ultimately show ?thesis by (simp add: r)
  next
    case False
    then obtain row w' where w': "run_state (createReport E uid input) ?w = (Inr row, w')" "clock w' = t" "rp_reporterId row = uid"
      "rp_createdAt row = t" "tb_reports (view (db w')) = tb_reports (view (db w)) @ [row]" "blocks_wf (view (db w'))"
      using createReport_sent [of uid input ?w] Cons.prems(3) by auto
    have le: "\<forall>r \<in> set (tb_reports (view (db w))). rp_createdAt r \<le> t" using Cons.prems r by fastforce
    have "report_quota (tb_reports (view (db w')))"
      unfolding w'(5) using False by (intro quota_kept [OF Cons.prems(1) le w'(4)]) (auto simp: w'(3))
    then have "report_quota (tb_reports (view (db (send_reports E rs w'))))"
      using Cons.prems(4) r le w' by (intro Cons.IH) auto
    then show ?thesis by (simp add: r w'(1))
  qed
qed

end

section \<open>Appeals and resolved reports\<close>

lemma resolved_simps [simp]: "ap_id (resolved x t u a) = ap_id a" "ap_userId (resolved x t u a) = ap_userId a"
  "ap_actionType (resolved x t u a) = ap_actionType a" "ap_status (resolved x t u a) \<noteq> ''OPEN''"
  "ap_status (resolved x t u a) = (if x = Upheld then ''UPHELD'' else ''OVERTURNED'')"
  by (simp_all add: resolved_def)

context backend
begin

lemma resolveAppeal_open:
  assumes "filter (\<lambda>a. ap_id a = i) (tb_appeals (view (db w))) = [a]" and "ap_status a = ''OPEN''"
  shows "\<exists>w'. run_state (resolveAppeal E r i x) w = (Inr (resolved x (clock w) r a), w') \<and>
    view (db w') = tb_appeals_update (update_rows (\<lambda>a. ap_id a = i) (resolved x (clock w) r)) (view (db w)) \<and>
    rds w' = (if x = Overturned \<and> ap_actionType a = ''ban'' then snd (rd_del (rdc E) (rds w) (clock w) [userBanKey (ap_userId a)]) else rds w)"
proof -
  have "a \<in> set (filter (\<lambda>a. ap_id a = i) (tb_appeals (view (db w))))" using assms(1) by simp
  then have i: "ap_id a = i" by simp
  have f: "dg_findFirst (pr_moderationAppeal (prc E)) (db w) (\<lambda>a. ap_id a = i) = Some a"
    using assms(1) by (rule prisma.moderationAppeal.findFirst_unique)
  define d where "d = snd (dg_update (pr_moderationAppeal (prc E)) (db w) (\<lambda>a. ap_id a = i) (resolved x (clock w) r))"
  have u: "dg_update (pr_moderationAppeal (prc E)) (db w) (\<lambda>a. ap_id a = i) (resolved x (clock w) r) = (Inr (resolved x (clock w) r a), d)"
    "view d = tb_appeals_update (update_rows (\<lambda>a. ap_id a = i) (resolved x (clock w) r)) (view (db w))"
    using prisma.moderationAppeal.update_ok [OF assms(1), of "resolved x (clock w) r"]
    by (simp_all add: d_def no_unique_def prod_eq_iff)
  show ?thesis
    using f u assms(2) i by (auto simp: resolveAppeal_def run)
qed

lemma resolveAppeal_closed:
  assumes "filter (\<lambda>a. ap_id a = i) (tb_appeals (view (db w))) = [a]" and "ap_status a \<noteq> ''OPEN''"
  shows "run_state (resolveAppeal E r i x) w = (Inl (BadRequest ''Appeal is already resolved''), w)"
  using prisma.moderationAppeal.findFirst_unique [OF assms(1)] assms(2) by (simp add: resolveAppeal_def run)

lemma resolveAppeal_missing:
  assumes "filter (\<lambda>a. ap_id a = i) (tb_appeals (view (db w))) = []"
  shows "run_state (resolveAppeal E r i x) w = (Inl (BadRequest ''Appeal not found''), w)"
  using assms prisma.moderationAppeal.findFirst_None [of "db w" "\<lambda>a. ap_id a = i"]
  by (simp add: resolveAppeal_def run filter_empty_conv)

lemma resolve_twice:
  assumes d: "distinct (map ap_id (tb_appeals (view (db w))))" and r: "run_state (resolveAppeal E r i x) w = (Inr a', w1)"
  shows "ap_status a' = (if x = Upheld then ''UPHELD'' else ''OVERTURNED'') \<and>
    run_state (resolveAppeal E r' i x') (w1\<lparr>clock := t\<rparr>) = (Inl (BadRequest ''Appeal is already resolved''), w1\<lparr>clock := t\<rparr>) \<and>
    (if x = Overturned \<and> ap_actionType a' = ''ban''
     then (\<forall>t. rd_get (rdc E) (rds w1) t (userBanKey (ap_userId a')) = None) else rds w1 = rds w)"
proof -
  obtain a where a: "filter (\<lambda>a. ap_id a = i) (tb_appeals (view (db w))) = [a]"
  proof (cases "filter (\<lambda>a. ap_id a = i) (tb_appeals (view (db w)))")
    case Nil
    from resolveAppeal_missing [OF this] r show ?thesis by simp
  next
    case (Cons b bs)
    then have "b \<in> set (filter (\<lambda>a. ap_id a = i) (tb_appeals (view (db w))))" by simp
    then have "b \<in> set (tb_appeals (view (db w)))" "ap_id b = i" by auto
    from filter_key [OF d this(1)] this(2) that show ?thesis by simp
  qed
  have o: "ap_status a = ''OPEN''"
    using resolveAppeal_closed [OF a, of r x] r by auto
  from resolveAppeal_open [OF a o, of r x] r have w1: "a' = resolved x (clock w) r a"
    "view (db w1) = tb_appeals_update (update_rows (\<lambda>a. ap_id a = i) (resolved x (clock w) r)) (view (db w))"
    "rds w1 = (if x = Overturned \<and> ap_actionType a = ''ban'' then snd (rd_del (rdc E) (rds w) (clock w) [userBanKey (ap_userId a)]) else rds w)"
    by auto
  have "a \<in> set (filter (\<lambda>a. ap_id a = i) (tb_appeals (view (db w))))" using a by simp
  then have "ap_id a = i" by simp
  with a have "filter (\<lambda>a. ap_id a = i) (tb_appeals (view (db (w1\<lparr>clock := t\<rparr>)))) = [a']"
    by (simp add: w1(1,2) filter_update_rows)
  from resolveAppeal_closed [OF this, of r' x'] show ?thesis
    by (simp add: w1(1,3) redis.del_get)
qed

text \<open>An admin bans the reported user, whom the reporter blocks already.\<close>

lemma resolveReport_ban:
  assumes f: "filter (\<lambda>r. rp_id r = i) (tb_reports (view (db w))) = [r]" and wf: "blocks_wf (view (db w))"
    and b: "blocks (view (db w)) (rp_reporterId r) (rp_reportedUserId r)" "rp_reporterId r \<noteq> rp_reportedUserId r"
  shows "\<exists>w'. run_state (resolveReport E i Ban) w = (Inr (i, ''BANNED'', Ban), w') \<and> clock w' = clock w \<and>
    (\<forall>t. clock w \<le> t \<and> t < clock w + BAN_TTL_MS \<longrightarrow> rd_get (rdc E) (rds w') t (userBanKey (rp_reportedUserId r)) = Some ''1'') \<and>
    tb_blocks (view (db w')) = tb_blocks (view (db w)) \<and>
    unch (rdc E) zv sv other (clock w) {userBanKey (rp_reportedUserId r)} (rds w) (rds w')"
proof -
  have "r \<in> set (filter (\<lambda>r. rp_id r = i) (tb_reports (view (db w))))" using f by simp
  then have i: "rp_id r = i" by simp
  let ?f = "\<lambda>r. r\<lparr>rp_status := ''BANNED''\<rparr>"
  define d where "d = snd (dg_update (pr_moderationReport (prc E)) (db w) (\<lambda>r. rp_id r = i) ?f)"
  have u: "dg_update (pr_moderationReport (prc E)) (db w) (\<lambda>r. rp_id r = i) ?f = (Inr (?f r), d)"
    "view d = tb_reports_update (update_rows (\<lambda>r. rp_id r = i) ?f) (view (db w))"
    using prisma.moderationReport.update_ok [OF f, of ?f] by (simp_all add: d_def no_unique_def prod_eq_iff)
  let ?w = "w\<lparr>db := d\<rparr>"
  have wf': "blocks_wf (view (db ?w))" and b': "blocks (view (db ?w)) (rp_reporterId r) (rp_reportedUserId r)"
    using wf b by (simp_all add: u(2) blocks_wf_def blocks_def)
  obtain x where c: "run_state (createBlock E (rp_reporterId r) (rp_reportedUserId r)) ?w = (Inr x, ?w)"
    using createBlock_run [OF wf' b(2)] b' by (elim exE conjE) (simp only: if_True)
  have "rd_get (rdc E) (snd (rd_set (rdc E) (rds w) (clock w) (userBanKey (rp_reportedUserId r)) ''1'' (Some BAN_TTL_MS) False)) t
      (userBanKey (rp_reportedUserId r)) = Some ''1''" if "clock w \<le> t \<and> t < clock w + BAN_TTL_MS" for t
    using that by (intro redis.set_get) (auto simp: BAN_TTL_MS_def)
  moreover have "\<exists>tr. run_state (resolveReport E i Ban) w = (Inr (i, ''BANNED'', Ban), w\<lparr>db := d, trace := tr,
      rds := snd (rd_set (rdc E) (rds w) (clock w) (userBanKey (rp_reportedUserId r)) ''1'' (Some BAN_TTL_MS) False)\<rparr>)"
    using u(1) c i by (simp add: resolveReport_def run emitModerationAction_def world_order) (rule exI, rule refl)
  moreover note redis.set_unch [of "clock w" "userBanKey (rp_reportedUserId r)" "rds w" "''1''" "Some BAN_TTL_MS" False]
  ultimately show ?thesis by (elim exE) (intro exI conjI, assumption, simp_all add: u(2))
qed

end

section \<open>Signatures\<close>

text \<open>A timestamp of the last or next five minutes.\<close>

definition timely :: "int \<Rightarrow> string \<Rightarrow> bool" where
  "timely now ts \<longleftrightarrow> list_all is_digit ts \<and> 10 \<le> length ts \<and> length ts \<le> 16 \<and>
     (case js_Number ts of Fin n \<Rightarrow> abs (now - (if n < 1000000000000 then n * 1000 else n)) \<le> 5 * 60 * 1000 | _ \<Rightarrow> False)"

definition signed :: "('r, 'd) env \<Rightarrow> 8 word list \<Rightarrow> string \<Rightarrow> bool" where
  "signed E body sig \<longleftrightarrow> (\<exists>secret. env_var E ''HIVE_WEBHOOK_SECRET'' = Some secret \<and> secret \<noteq> [] \<and>
     sig \<noteq> [] \<and> list_all (\<lambda>c. hex_value c \<noteq> None) (rawSignature sig) \<and> length (rawSignature sig) = 64 \<and>
     hex_bytes (rawSignature sig) = hmac_sha256 E secret body)"

lemma verify_iff:
  "run_state (verifyWebhookSignature E body sig ts) w = (Inr (), w) \<longleftrightarrow>
     (\<exists>s t. sig = Some s \<and> ts = Some t \<and> signed E body s \<and> timely (clock w) t)"
proof (cases "truthy (env_var E ''HIVE_WEBHOOK_SECRET'') \<and> truthy sig \<and> truthy ts")
  case False
  then show ?thesis
    by (auto simp: verifyWebhookSignature_def run Let_def signed_def timely_def)
next
  case True
  then obtain secret s t where "env_var E ''HIVE_WEBHOOK_SECRET'' = Some secret" "sig = Some s" "ts = Some t" "secret \<noteq> []" "s \<noteq> []" "t \<noteq> []"
    by (auto simp: truthy_iff)
  then show ?thesis
    by (cases "js_Number t") (auto simp add: verifyWebhookSignature_def run Let_def signed_def timely_def)
qed

section \<open>The block list as a set of pairs\<close>

datatype block_op = Block string string | Unblock string string

fun block_step :: "('r, 'd) env \<Rightarrow> block_op \<Rightarrow> ('r, 'd) world \<Rightarrow> ('r, 'd) world" where
  "block_step E (Block a b) w = snd (run_state (createBlock E a b) w)"
| "block_step E (Unblock a b) w = snd (run_state (unblock E a b) w)"

fun block_spec :: "block_op \<Rightarrow> (string \<times> string) set \<Rightarrow> (string \<times> string) set" where
  "block_spec (Block a b) B = (if a = b then B else insert (a, b) B)"
| "block_spec (Unblock a b) B = B - {(a, b)}"

context backend
begin

lemma block_step_refines:
  assumes "blocks_wf (view (db w))"
  shows "blocks_wf (view (db (block_step E f w))) \<and> block_pairs (view (db (block_step E f w))) = block_spec f (block_pairs (view (db w)))"
proof (cases f)
  case (Block a b)
  show ?thesis
  proof (cases "a = b")
    case True
    then show ?thesis using assms by (simp add: Block createBlock_def run)
  next
    case False
    obtain x w' where "run_state (createBlock E a b) w = (Inr x, w')" "blocks_wf (view (db w'))"
      "block_pairs (view (db w')) = insert (a, b) (block_pairs (view (db w)))"
      using createBlock_run [OF assms False] by (elim exE conjE) (rule that)
    with False show ?thesis by (simp add: Block)
  qed
next
  case (Unblock a b)
  obtain d where "run_state (unblock E a b) w = (Inr (blocks (view (db w)) a b), w\<lparr>db := d\<rparr>)" "blocks_wf (view d)"
    "block_pairs (view d) = block_pairs (view (db w)) - {(a, b)}"
    using unblock_run [OF assms, of a b] by (elim exE conjE) (rule that)
  then show ?thesis by (simp add: Unblock)
qed

lemma block_steps_refine:
  assumes "blocks_wf (view (db w))"
  shows "block_pairs (view (db (fold (block_step E) fs w))) = fold block_spec fs (block_pairs (view (db w)))"
  using assms by (induction fs arbitrary: w) (simp_all add: block_step_refines)

text \<open>A user who waits in a queue is blocked by another user.\<close>

lemma block_waiting:
  assumes wf: "blocks_wf (view (db w))" and ab: "a \<noteq> b" "\<not> blocks (view (db w)) a b"
    and p: "parseQueueEntryState (rd_get (rdc E) (rds w) (clock w) (userQueueKey b)) = Some \<lparr>qe_queueKey = key, qe_joinedAt = j\<rparr>"
    and l: "\<not> other (rds w) (userLockKey b)" "rd_get (rdc E) (rds w) (clock w) (userLockKey b) = None"
  shows "\<exists>row w1 w2. run_state (createBlock E a b) w = (Inr (Blocked, row), w1) \<and>
    b \<notin> set (map fst (zv (rds w1) (clock w) (queueZsetKey key))) \<and>
    run_state (leaveQueue E b) w1 = (Inr \<lparr>lr_status = NotQueued, lr_refunded = False, lr_queueKey = None\<rparr>, w2) \<and>
    tb_users (view (db w2)) = tb_users (view (db w))"
proof -
  obtain x w0 w1 bs where c: "run_state (createBlock E a b) w = (Inr x, w1)" "view (db w1) = tb_blocks_update (\<lambda>_. bs) (view (db w))"
    "fst x = AlreadyBlocked \<longleftrightarrow> blocks (view (db w)) a b" "clock w1 = clock w"
    "w1 = (if blocks (view (db w)) a b then w else snd (run_state (removeFromQueueIfPresent E b) w0))" "rds w0 = rds w" "clock w0 = clock w"
    using createBlock_run [OF wf ab(1)] by (elim exE conjE) (rule that)
  have x: "x = (Blocked, snd x)" using c(3) ab(2) by (cases x; cases "fst x") auto
  have p0: "parseQueueEntryState (rd_get (rdc E) (rds w0) (clock w0) (userQueueKey b)) = Some \<lparr>qe_queueKey = key, qe_joinedAt = j\<rparr>"
    using p c(6,7) by simp
  obtain r where r: "run_state (removeFromQueueIfPresent E b) w0 = ((), w0\<lparr>rds := r\<rparr>)"
    "b \<notin> set (map fst (zv r (clock w0) (queueZsetKey key)))" "\<forall>t. rd_get (rdc E) r t (userQueueKey b) = None"
    "unch (rdc E) zv sv other (clock w0) {queueZsetKey key, userQueueKey b} (rds w0) r"
    using removeFromQueue_run [OF p0] by (elim exE conjE) (rule that)
  have w1: "rds w1 = r" using c(5) ab(2) r(1) by simp
  have "\<not> other r (userLockKey b)" "rd_get (rdc E) r (clock w) (userLockKey b) = None"
    using redis.unchD(1,5) [OF r(4)] l c(6,7) by simp_all
  then obtain w2 where "run_state (leaveQueue E b) w1 = (Inr \<lparr>lr_status = NotQueued, lr_refunded = False, lr_queueKey = None\<rparr>, w2)" "db w2 = db w1"
    using leave_no_entry [of w1 b] r(3) w1 c(4) by auto
  moreover have "b \<notin> set (map fst (zv (rds w1) (clock w) (queueZsetKey key)))" using r(2) w1 c(7) by simp
  moreover have "tb_users (view (db w1)) = tb_users (view (db w))" using c(2) by auto
  ultimately show ?thesis using c(1) x by metis
qed

text \<open>A user who is banned while waiting is given a session by the worker.\<close>

lemma banned_user_served:
  assumes f: "filter (\<lambda>r. rp_id r = i) (tb_reports (view (db w))) = [r]" and wf: "blocks_wf (view (db w))"
    and b: "blocks (view (db w)) (rp_reporterId r) (rp_reportedUserId r)" "rp_reporterId r \<noteq> rp_reportedUserId r"
    and z: "zv (rds w) (clock w) (queueZsetKey key) = (rp_reportedUserId r, sa) # (u, sb) # rest"
    and e: "rp_reportedUserId r \<in> entered E key w" "u \<in> entered E key w"
    and bl: "\<not> blocks (view (db w)) (rp_reportedUserId r) u" "\<not> blocks (view (db w)) u (rp_reportedUserId r)"
    and l: "\<not> other (rds w) (userLockKey (rp_reportedUserId r))" "rd_get (rdc E) (rds w) (clock w) (userLockKey (rp_reportedUserId r)) = None"
      "\<not> other (rds w) (userLockKey u)" "rd_get (rdc E) (rds w) (clock w) (userLockKey u) = None"
  shows "\<exists>w1 s w2. run_state (resolveReport E i Ban) w = (Inr (i, ''BANNED'', Ban), w1) \<and>
    fst (run_state (joinQueue E (rp_reportedUserId r) input) w1) = Inl (Unauthorized ''Account is temporarily suspended'') \<and>
    run_state (processQueueKey E key) w1 = (Inr (), w2) \<and>
    s = new_session (rp_reportedUserId r) u key (clock w) (se_id s) \<and> s \<in> set (tb_sessions (view (db w2)))"
proof -
  obtain w1 where w1: "run_state (resolveReport E i Ban) w = (Inr (i, ''BANNED'', Ban), w1)" "clock w1 = clock w"
    "\<forall>t. clock w \<le> t \<and> t < clock w + BAN_TTL_MS \<longrightarrow> rd_get (rdc E) (rds w1) t (userBanKey (rp_reportedUserId r)) = Some ''1''"
    "tb_blocks (view (db w1)) = tb_blocks (view (db w))"
    "unch (rdc E) zv sv other (clock w) {userBanKey (rp_reportedUserId r)} (rds w) (rds w1)"
    using resolveReport_ban [OF f wf b] by (elim exE conjE) (rule that)
  note u = redis.unchD [OF w1(5)]
  have "\<And>x y. blocks (view (db w1)) x y = blocks (view (db w)) x y" by (simp add: blocks_def w1(4))
  moreover have "entered E key w1 = entered E key w" using u(1) w1(2) by (simp add: entered_def)
  ultimately obtain s w2 where "run_state (processQueueKey E key) w1 = (Inr (), w2)"
    "s = new_session (rp_reportedUserId r) u key (clock w1) (se_id s)" "s \<in> set (tb_sessions (view (db w2)))"
    using first_pair_served [of w1 key "rp_reportedUserId r" sa u sb rest] z e bl l u(1,3,5) w1(2) by auto
  moreover have "truthy (rd_get (rdc E) (rds w1) (clock w1) (userBanKey (rp_reportedUserId r)))"
    using w1(2,3) by (simp add: BAN_TTL_MS_def)
  ultimately show ?thesis using w1(1,2) join_refused(1) [of w1 "rp_reportedUserId r" input] by auto
qed

lemma replay_accepted:
  assumes "run_state (verifyWebhookSignature E body (Some sig) (Some ts)) w = (Inr (), w)" and "timely (clock w2) ts2"
    and "rd_get (rdc E) (rds w2) (clock w2) (webhookKey E sig ts2) = None" and "\<not> other (rds w2) (webhookKey E sig ts2)"
  shows "run_state (verifyWebhookSignature E body (Some sig) (Some ts2)) w2 = (Inr (), w2) \<and>
    fst (run_state (reserveWebhookDelivery E sig ts2) w2)"
  using assms by (auto simp: verify_iff reserveWebhookDelivery_def run Let_def webhookKey_def redis.nx_reply)

end

section \<open>Properties\<close>

text \<open>
  C12: The third violation within 24 hours bans. When the detector reports a violation of the user
  \<open>u\<close> in a session, and \<open>u\<close> was not banned in the last minute, the session ends; if \<open>u\<close>
  has at least two violations of the last 24 hours already, \<open>u\<close> is told of the ban and every join of a
  queue within the next 24 hours is refused and changes nothing; otherwise \<open>u\<close> is warned and stays
  as banned or not banned as before.
\<close>

theorem third_violation_bans:
  assumes "backend E zv sv other view"
    and "truthy (hv_sessionId payload)" "isViolation payload" "hv_userId payload = Some u" "u \<noteq> []"
    and "filter (\<lambda>s. se_id s = the (hv_sessionId payload)) (tb_sessions (view (db w))) = [s]"
    and "fresh_delivery E other signature timestamp w"
    and "rd_get (rdc E) (rds w) (clock w) (banCooldownKey u) = None" "\<not> other (rds w) (banCooldownKey u)"
    and "\<not> other (rds w) (sessionEndedKey (se_id s))"
  shows "\<exists>w' p. run_state (handleWebhook E payload signature timestamp) w = (Inr (), w') \<and>
    rd_get (rdc E) (rds w') (clock w) (sessionEndedKey (se_id s)) \<noteq> None \<and>
    (let third = 2 \<le> violations u (view (db w)) (clock w)
     in Emit ''/video'' (userRoom u) ''moderation:action''
          (JObj [(''action'', JStr (if third then ''ban'' else ''warn'')), (''reason'', JStr p)]) \<in> set (trace w') \<and>
        (\<forall>t. clock w \<le> t \<and> t < clock w + BAN_TTL_MS \<longrightarrow>
          (if third then run_state (joinQueue E u input) (w'\<lparr>clock := t\<rparr>) =
             (Inl (Unauthorized ''Account is temporarily suspended''), w'\<lparr>clock := t\<rparr>)
           else rd_get (rdc E) (rds w') t (userBanKey u) = rd_get (rdc E) (rds w) t (userBanKey u))))"
proof -
  obtain w' p where w': "run_state (handleWebhook E payload signature timestamp) w = (Inr (), w')"
    "rd_get (rdc E) (rds w') (clock w) (sessionEndedKey (se_id s)) \<noteq> None"
    "Emit ''/video'' (userRoom u) ''moderation:action''
      (JObj [(''action'', JStr (if 2 \<le> violations u (view (db w)) (clock w) then ''ban'' else ''warn'')), (''reason'', JStr p)]) \<in> set (trace w')"
    "\<forall>t. clock w \<le> t \<and> t < clock w + BAN_TTL_MS \<longrightarrow> rd_get (rdc E) (rds w') t (userBanKey u) =
       (if 2 \<le> violations u (view (db w)) (clock w) then Some ''1'' else rd_get (rdc E) (rds w) t (userBanKey u))"
    using backend.webhook_run [OF assms] by (elim exE conjE) (rule that)
  have "run_state (joinQueue E u input) (w'\<lparr>clock := t\<rparr>) = (Inl (Unauthorized ''Account is temporarily suspended''), w'\<lparr>clock := t\<rparr>)"
    if "rd_get (rdc E) (rds w') t (userBanKey u) = Some ''1''" for t
    using that by (intro backend.join_refused(1) [OF assms(1)]) simp
  with w' show ?thesis unfolding Let_def by (intro exI [of _ w'] exI [of _ p]) simp
qed

text \<open>
  C13: The block list is a set of ordered pairs. On a table with unique ids and pairs, after any
  sequence of \<open>createBlock\<close> and \<open>unblock\<close>, \<open>isBlocked\<close> says of two users whether one of the
  two pairs is in the set that the same sequence of insertions and deletions gives.
\<close>

theorem block_list_refines_set:
  assumes "backend E zv sv other view" and "blocks_wf (view (db w))"
  shows "fst (run_state (isBlocked E a b) (fold (block_step E) fs w)) =
    ((a, b) \<in> fold block_spec fs (block_pairs (view (db w))) \<or> (b, a) \<in> fold block_spec fs (block_pairs (view (db w))))"
  by (simp add: backend.isBlocked_run [OF assms(1)] backend.block_steps_refine [OF assms])

text \<open>
  C14: However users send reports, in an order of time, no 24 hours ever hold more than ten reports
  of one reporter.
\<close>

theorem report_limit_kept:
  assumes "backend E zv sv other view" and "report_quota (tb_reports (view (db w)))"
    and "\<forall>r \<in> set (tb_reports (view (db w))). rp_createdAt r \<le> clock w" and "blocks_wf (view (db w))"
    and "sorted (clock w # map fst rs)"
  shows "report_quota (tb_reports (view (db (send_reports E rs w))))"
  by (rule backend.send_reports_quota [OF assms])

text \<open>
  C21: An appeal is resolved once. After a resolution the appeal has the status that was asked
  for, every later resolution is refused and changes nothing; overturning a ban lifts it, and any
  other resolution leaves Redis as it is.
\<close>

theorem appeal_resolved_once:
  assumes "backend E zv sv other view" and "distinct (map ap_id (tb_appeals (view (db w))))"
    and "run_state (resolveAppeal E r i x) w = (Inr a, w1)"
  shows "ap_status a = (if x = Upheld then ''UPHELD'' else ''OVERTURNED'') \<and>
    run_state (resolveAppeal E r' i x') (w1\<lparr>clock := t\<rparr>) = (Inl (BadRequest ''Appeal is already resolved''), w1\<lparr>clock := t\<rparr>) \<and>
    (if x = Overturned \<and> ap_actionType a = ''ban''
     then (\<forall>t. rd_get (rdc E) (rds w1) t (userBanKey (ap_userId a)) = None) else rds w1 = rds w)"
  by (rule backend.resolve_twice [OF assms])

text \<open>
  Blocking a user who waits in a queue takes the user out of it without giving the token back:
  the user, who paid for joining, is then told not to be in a queue and gets no refund.
\<close>

theorem block_costs_waiting_user_token:
  assumes "backend E zv sv other view" and "blocks_wf (view (db w))" and "a \<noteq> b" "\<not> blocks (view (db w)) a b"
    and "parseQueueEntryState (rd_get (rdc E) (rds w) (clock w) (userQueueKey b)) = Some \<lparr>qe_queueKey = key, qe_joinedAt = j\<rparr>"
    and "\<not> other (rds w) (userLockKey b)" "rd_get (rdc E) (rds w) (clock w) (userLockKey b) = None"
  shows "\<exists>row w1 w2. run_state (createBlock E a b) w = (Inr (Blocked, row), w1) \<and>
    b \<notin> set (map fst (zv (rds w1) (clock w) (queueZsetKey key))) \<and>
    run_state (leaveQueue E b) w1 = (Inr \<lparr>lr_status = NotQueued, lr_refunded = False, lr_queueKey = None\<rparr>, w2) \<and>
    tb_users (view (db w2)) = tb_users (view (db w))"
  by (rule backend.block_waiting [OF assms])

text \<open>
  A ban does not take a waiting user out of the queue. When an admin bans a reported user whom
  the reporter blocks (as \<open>createReport\<close> sees to) and who waits first in a queue, the next pass of the
  worker gives the banned user a session with the next user, although joining is refused.
\<close>

theorem banned_user_still_matched:
  assumes "backend E zv sv other view"
    and "filter (\<lambda>r. rp_id r = i) (tb_reports (view (db w))) = [r]" and "blocks_wf (view (db w))"
    and "blocks (view (db w)) (rp_reporterId r) (rp_reportedUserId r)" "rp_reporterId r \<noteq> rp_reportedUserId r"
    and "zv (rds w) (clock w) (queueZsetKey key) = (rp_reportedUserId r, sa) # (u, sb) # rest"
    and "rp_reportedUserId r \<in> entered E key w" "u \<in> entered E key w"
    and "\<not> blocks (view (db w)) (rp_reportedUserId r) u" "\<not> blocks (view (db w)) u (rp_reportedUserId r)"
    and "\<not> other (rds w) (userLockKey (rp_reportedUserId r))" "rd_get (rdc E) (rds w) (clock w) (userLockKey (rp_reportedUserId r)) = None"
      "\<not> other (rds w) (userLockKey u)" "rd_get (rdc E) (rds w) (clock w) (userLockKey u) = None"
  shows "\<exists>w1 s w2. run_state (resolveReport E i Ban) w = (Inr (i, ''BANNED'', Ban), w1) \<and>
    fst (run_state (joinQueue E (rp_reportedUserId r) input) w1) = Inl (Unauthorized ''Account is temporarily suspended'') \<and>
    run_state (processQueueKey E key) w1 = (Inr (), w2) \<and>
    s = new_session (rp_reportedUserId r) u key (clock w) (se_id s) \<and> s \<in> set (tb_sessions (view (db w2)))"
  by (rule backend.banned_user_served [OF assms])

text \<open>
  The signature of the detector's webhook does not cover its timestamp. A body and signature that
  were accepted once are accepted at any later time with a timestamp of that time, and the guard against
  replays, whose key depends on the timestamp, lets them pass.
\<close>

theorem replayed_webhook_accepted:
  assumes "backend E zv sv other view"
    and "run_state (verifyWebhookSignature E body (Some sig) (Some ts)) w = (Inr (), w)" and "timely (clock w2) ts2"
    and "rd_get (rdc E) (rds w2) (clock w2) (webhookKey E sig ts2) = None" and "\<not> other (rds w2) (webhookKey E sig ts2)"
  shows "run_state (verifyWebhookSignature E body (Some sig) (Some ts2)) w2 = (Inr (), w2) \<and>
    fst (run_state (reserveWebhookDelivery E sig ts2) w2)"
  by (rule backend.replay_accepted [OF assms])

section \<open>Witnesses\<close>

definition violation_of_a :: hive_payload where
  "violation_of_a = \<lparr>hv_sessionId = Some ''s1'', hv_userId = Some ''a'', hv_violation = Some True, hv_action = None,
     hv_event = None, hv_labels = None, hv_severity = None, hv_reason = None\<rparr>"

definition past_event :: "string \<Rightarrow> modevent_row" where
  "past_event i = \<lparr>me_id = i, me_createdAt = noon - 1000, me_userId = ''a''\<rparr>"

definition offence_world :: "(inmem, tables) world" where
  "offence_world = world_of im_empty (no_tables\<lparr>tb_sessions := [s1], tb_moderationEvents := [past_event ''x'', past_event ''y'']\<rparr>) noon"

lemma third_violation_bans_witness:
  "\<exists>w'. run_state (handleWebhook bare_env violation_of_a None None) offence_world = (Inr (), w') \<and>
     fst (run_state (joinQueue bare_env ''a'' sydney) (w'\<lparr>clock := noon + 3600000\<rparr>)) = Inl (Unauthorized ''Account is temporarily suspended'')"
proof -
  have w: "db offence_world = no_tables\<lparr>tb_sessions := [s1], tb_moderationEvents := [past_event ''x'', past_event ''y'']\<rparr>"
    "rds offence_world = im_empty" "clock offence_world = noon"
    by (simp_all add: offence_world_def world_of_def)
  have v: "violations ''a'' (db offence_world) noon = 2"
    by (simp add: violations_def w count_rows_def past_event_def VIOLATION_WINDOW_MS_def)
  obtain w' where w': "run_state (handleWebhook bare_env violation_of_a None None) offence_world = (Inr (), w')"
    "\<forall>t. noon \<le> t \<and> t < noon + BAN_TTL_MS \<longrightarrow> run_state (joinQueue bare_env ''a'' sydney) (w'\<lparr>clock := t\<rparr>) =
      (Inl (Unauthorized ''Account is temporarily suspended''), w'\<lparr>clock := t\<rparr>)"
    using third_violation_bans [OF bare_backend, of violation_of_a "''a''" offence_world s1 None None sydney] v
    by (auto simp: violation_of_a_def isViolation_def fresh_delivery_def w)
  then show ?thesis by (simp add: BAN_TTL_MS_def)
qed

lemma block_list_refines_set_witness:
  "fst (run_state (isBlocked bare_env ''b'' ''a'') (fold (block_step bare_env) [Block ''a'' ''b'', Block ''c'' ''b'', Unblock ''c'' ''b''] start_world)) = True"
  using block_list_refines_set [OF bare_backend, of start_world "''b''" "''a''" "[Block ''a'' ''b'', Block ''c'' ''b'', Unblock ''c'' ''b'']"]
  by (simp add: blocks_wf_def no_tables_def)

definition spam :: "int \<Rightarrow> int \<times> string \<times> report_input" where
  "spam n = (noon + n, ''a'', \<lparr>ri_reportedUserId = ''b'', ri_reason = ''spam'', ri_details = None\<rparr>)"

lemma report_limit_kept_witness:
  "report_quota (tb_reports (db (send_reports bare_env (map spam [1..20]) start_world)))"
  by (rule report_limit_kept [OF bare_backend])
    (simp_all add: no_tables_def report_quota_def reports_in_def blocks_wf_def spam_def upto.simps)

definition ban_appeal :: appeal_row where
  "ban_appeal = \<lparr>ap_id = ''p'', ap_createdAt = 0, ap_userId = ''a'', ap_moderationReportId = None, ap_actionType = ''ban'',
     ap_reason = None, ap_status = ''OPEN'', ap_resolution = None, ap_resolvedAt = None, ap_resolverUserId = None\<rparr>"

definition appeal_world :: "(inmem, tables) world" where
  "appeal_world = world_of (im_empty\<lparr>store := [(userBanKey ''a'', ''1'')]\<rparr>) (no_tables\<lparr>tb_appeals := [ban_appeal]\<rparr>) noon"

lemma appeal_resolved_once_witness:
  "\<exists>a w1. run_state (resolveAppeal bare_env ''admin'' ''p'' Overturned) appeal_world = (Inr a, w1) \<and>
     fst (im_get (rds w1) noon (userBanKey ''a'')) = None"
proof -
  obtain a w1 where r: "run_state (resolveAppeal bare_env ''admin'' ''p'' Overturned) appeal_world = (Inr a, w1)"
    "ap_userId a = ''a''" "ap_actionType a = ''ban''"
    using backend.resolveAppeal_open [OF bare_backend, of "''p''" appeal_world ban_appeal "''admin''" Overturned]
    by (force simp: appeal_world_def world_of_def ban_appeal_def)
  from appeal_resolved_once [OF bare_backend _ r(1)] r show ?thesis
    by (auto simp: appeal_world_def world_of_def)
qed

lemma block_costs_waiting_user_token_witness:
  "\<exists>row w1 w2. run_state (createBlock bare_env ''c'' ''a'') (pair_world []) = (Inr (Blocked, row), w1) \<and>
     run_state (leaveQueue bare_env ''a'') w1 = (Inr \<lparr>lr_status = NotQueued, lr_refunded = False, lr_queueKey = None\<rparr>, w2)"
  using block_costs_waiting_user_token [OF bare_backend, of "pair_world []" "''c''" "''a''" "''q''" 1]
  by (auto simp: pair_redis_facts blocks_wf_def blocks_def no_tables_def)

definition report_of_a :: report_row where
  "report_of_a = \<lparr>rp_id = ''r'', rp_createdAt = 0, rp_reporterId = ''c'', rp_reportedUserId = ''a'', rp_reason = ''spam'',
     rp_details = None, rp_status = ''OPEN''\<rparr>"

definition c_blocks_a :: block_row where
  "c_blocks_a = \<lparr>bl_id = ''k'', bl_createdAt = 0, bl_blockerId = ''c'', bl_blockedId = ''a'', bl_liftedAt = None\<rparr>"

lemma banned_user_still_matched_witness:
  "\<exists>w w1 w2. run_state (resolveReport bare_env ''r'' Ban) w = (Inr (''r'', ''BANNED'', Ban), w1) \<and>
     run_state (processQueueKey bare_env ''q'') w1 = (Inr (), w2) \<and> tb_sessions (db w2) \<noteq> []"
proof -
  define w where "w = (pair_world [c_blocks_a])\<lparr>db := no_tables\<lparr>tb_reports := [report_of_a], tb_blocks := [c_blocks_a]\<rparr>\<rparr>"
  have w: "rds w = pair_redis" "clock w = noon" "db w = no_tables\<lparr>tb_reports := [report_of_a], tb_blocks := [c_blocks_a]\<rparr>"
    by (simp_all add: w_def)
  have r: "rp_id report_of_a = ''r''" "rp_reporterId report_of_a = ''c''" "rp_reportedUserId report_of_a = ''a''"
    by (simp_all add: report_of_a_def)
  have e: "entered bare_env ''q'' w = entered bare_env ''q'' (pair_world [])" by (simp add: entered_def w)
  have wf: "blocks_wf (db w)" by (simp add: w blocks_wf_def)
  have bl: "blocks (db w) x y \<longleftrightarrow> x = ''c'' \<and> y = ''a''" for x y
    by (auto simp: blocks_def w c_blocks_a_def)
  show ?thesis
    using banned_user_still_matched [OF bare_backend, of "''r''" w report_of_a "''q''" 1 "''b''" 2 "[]" sydney]
      pair_entered [of "[]"] wf bl by (force simp: pair_redis_facts r e w)
qed

definition hive_env :: "(inmem, tables) env" where
  "hive_env = test_env_of (\<lambda>k. if k = ''HIVE_WEBHOOK_SECRET'' then Some ''secret'' else None)"

definition hive_signature :: string where
  "hive_signature = ''sha256='' @ concat (replicate 32 ''07'')"

lemma nth_pairs: "i < n \<Longrightarrow> concat (replicate n [a, b]) ! (2 * i) = a \<and> concat (replicate n [a, b]) ! Suc (2 * i) = b"
proof (induction n arbitrary: i)
  case 0
  then show ?case by simp
next
  case (Suc n)
  then show ?case by (cases i) auto
qed

lemma hive_signed: "signed hive_env [1, 2, 3] hive_signature"
proof -
  have raw: "rawSignature hive_signature = concat (replicate 32 ''07'')"
    by (simp add: rawSignature_def hive_signature_def startsWith_def)
  have "hex_bytes (concat (replicate 32 ''07'')) = map (\<lambda>i. 7) [0..<32]"
    unfolding hex_bytes_def using nth_pairs [of _ 32 "CHR ''0''" "CHR ''7''"]
    by (intro map_cong) (simp_all add: length_concat sum_list_replicate hex_value_def)
  then have "hex_bytes (rawSignature hive_signature) = replicate 32 7"
    by (simp add: raw map_replicate_const)
  moreover have "hive_signature \<noteq> [] \<and> list_all (\<lambda>c. hex_value c \<noteq> None) (rawSignature hive_signature) \<and> length (rawSignature hive_signature) = 64"
    by (simp add: raw list_all_iff hex_value_def length_concat sum_list_replicate) (simp add: hive_signature_def)
  ultimately show ?thesis by (auto simp: signed_def hive_env_def)
qed

lemma hive_times: "timely 1700000000000 ''1700000000''" "timely 1800000000000 ''1800000000123''"
  by (simp_all add: timely_def js_Number_def trim_def js_space_def is_digit_def digits_value_def digit_value_def)

lemma replayed_webhook_accepted_witness:
  "fst (run_state (verifyWebhookSignature hive_env [1, 2, 3] (Some hive_signature) (Some ''1800000000123''))
     (world_of im_empty no_tables 1800000000000)) = Inr ()"
proof -
  have b: "backend hive_env im_zv im_sv im_other (\<lambda>t. t)" unfolding hive_env_def by (rule test.backend_axioms)
  have "run_state (verifyWebhookSignature hive_env [1, 2, 3] (Some hive_signature) (Some ''1700000000''))
     (world_of im_empty no_tables 1700000000000) = (Inr (), world_of im_empty no_tables 1700000000000)"
    using hive_signed hive_times(1) by (simp add: verify_iff) (simp add: world_of_def)
  from replayed_webhook_accepted [OF b this, of "world_of im_empty no_tables 1800000000000" "''1800000000123''"] hive_times(2)
  show ?thesis by (simp add: hive_env_def) (simp add: world_of_def)
qed

end
