(* ===== verification/Payments.thy ===== *)
theory Payments
  imports Queue_Laws
begin

text \<open>
  \<open>src/src/payments/payments.service.ts\<close>: the balance of a user, the purchase of tokens at
  Stripe and the webhook that credits them. The Stripe package is a parameter: \<open>checkout\<close> is
  \<open>stripe.checkout.sessions.create\<close>, \<open>constructEvent\<close> the verification of a webhook.
\<close>

definition DEFAULT_SUCCESS_URL :: string where "DEFAULT_SUCCESS_URL = ''https://example.com/success''"
definition DEFAULT_CANCEL_URL :: string where "DEFAULT_CANCEL_URL = ''https://example.com/cancel''"

record token_pack =
  tp_id :: string
  tp_tokens :: int
  tp_priceEnv :: string

definition TOKEN_PACKS :: "token_pack list" where
  "TOKEN_PACKS = [
     \<lparr>tp_id = ''starter'', tp_tokens = 5, tp_priceEnv = ''STRIPE_PRICE_STARTER''\<rparr>,
     \<lparr>tp_id = ''plus'', tp_tokens = 15, tp_priceEnv = ''STRIPE_PRICE_PLUS''\<rparr>,
     \<lparr>tp_id = ''pro'', tp_tokens = 30, tp_priceEnv = ''STRIPE_PRICE_PRO''\<rparr>]"

definition getPack :: "string \<Rightarrow> exn + token_pack" where
  "getPack packId = (case find (\<lambda>item. tp_id item = packId) TOKEN_PACKS of
     None \<Rightarrow> Inl (BadRequest ''Unknown token pack'') | Some pack \<Rightarrow> Inr pack)"

definition getBalance :: "('r, 'd) env \<Rightarrow> string \<Rightarrow> (('r, 'd) world, int) fprog" where
  "getBalance E userId = do {
     user \<leftarrow> query (\<lambda>d. dg_findFirst (pr_user (prc E)) d (\<lambda>u. us_id u = userId));
     case user of
       None \<Rightarrow> throw (NotFound ''User not found'')
     | Some u \<Rightarrow> do {
         emit (Track (Some userId) ''token_balance_viewed'' [(''tokenBalance'', JNum (us_tokenBalance u))]);
         ok (us_tokenBalance u) } }"

section \<open>Checkout\<close>

record checkout_request =
  cr_price :: string
  cr_success_url :: string
  cr_cancel_url :: string
  cr_metadata :: "(string \<times> string) list"

record checkout_reply =
  co_id :: string
  co_url :: "string option"

definition createCheckoutSession ::
  "('r, 'd) env \<Rightarrow> (checkout_request \<Rightarrow> exn + checkout_reply) \<Rightarrow> string \<Rightarrow> string \<Rightarrow> (('r, 'd) world, checkout_reply) fprog" where
  "createCheckoutSession E checkout userId packId =
    andThen (ret (getPack packId)) (\<lambda>pack.
      let successUrl = (case env_var E ''STRIPE_SUCCESS_URL'' of None \<Rightarrow> DEFAULT_SUCCESS_URL | Some u \<Rightarrow> u);
          cancelUrl = (case env_var E ''STRIPE_CANCEL_URL'' of None \<Rightarrow> DEFAULT_CANCEL_URL | Some u \<Rightarrow> u);
          priceId = env_var E (tp_priceEnv pack)
      in if \<not> truthy priceId then throw (BadRequest (''Missing Stripe price ID for '' @ tp_id pack))
         else andThen (ret (checkout \<lparr>cr_price = the priceId, cr_success_url = successUrl, cr_cancel_url = cancelUrl,
             cr_metadata = [(''userId'', userId), (''packId'', tp_id pack), (''tokens'', show_int (tp_tokens pack))]\<rparr>)) (\<lambda>session. do {
           emit (Track (Some userId) ''token_purchase_started'' [(''pack'', JStr (tp_id pack)), (''tokenAmount'', JNum (tp_tokens pack)),
             (''checkoutSessionId'', JStr (co_id session))]);
           ok session }))"

section \<open>The webhook\<close>

record stripe_session =
  sp_id :: string
  sp_payment_status :: string
  sp_metadata :: "(string \<times> string) list option"
  sp_currency :: "string option"

record stripe_event =
  st_id :: string
  st_type :: string
  st_session :: stripe_session

definition verifyStripeSignature ::
  "('r, 'd) env \<Rightarrow> (8 word list \<Rightarrow> string \<Rightarrow> string \<Rightarrow> exn + stripe_event) \<Rightarrow> 8 word list \<Rightarrow> string list option \<Rightarrow> exn + stripe_event" where
  "verifyStripeSignature E constructEvent payload signature =
    (let secret = env_var E ''STRIPE_WEBHOOK_SECRET'';
         sig = (case signature of Some (s # _) \<Rightarrow> Some s | _ \<Rightarrow> None)
     in if \<not> truthy secret then Inl (BadRequest ''Stripe webhook secret not configured'')
        else if \<not> truthy sig then Inl (BadRequest ''Missing Stripe signature'')
        else constructEvent payload (the sig) (the secret))"

text \<open>The user, the pack and the number of tokens that an event pays for, if it pays at all.\<close>

definition purchase_of :: "stripe_event \<Rightarrow> (string \<times> string \<times> int) option" where
  "purchase_of event =
    (if st_type event \<noteq> ''checkout.session.completed'' then None
     else if sp_payment_status (st_session event) \<noteq> ''paid'' then None
     else (let metadata = (case sp_metadata (st_session event) of None \<Rightarrow> [] | Some m \<Rightarrow> m);
               userId = map_of metadata ''userId''; packId = map_of metadata ''packId''; tokensRaw = map_of metadata ''tokens''
       in if \<not> truthy userId \<or> \<not> truthy packId \<or> \<not> truthy tokensRaw then None
          else (case parseInt (the tokensRaw) of
              Fin tokens \<Rightarrow> if tokens \<le> 0 then None else Some (the userId, the packId, tokens)
            | _ \<Rightarrow> None)))"

definition new_credit :: "stripe_event \<Rightarrow> string \<Rightarrow> string \<Rightarrow> int \<Rightarrow> int \<Rightarrow> int \<Rightarrow> string \<Rightarrow> tx_row" where
  "new_credit event userId packId tokens balanceAfter now i = \<lparr>tt_id = i, tt_createdAt = now, tt_userId = userId, tt_type = CREDIT,
     tt_amount = tokens, tt_balanceAfter = balanceAfter, tt_stripeSessionId = Some (sp_id (st_session event)),
     tt_stripeEventId = Some (st_id event), tt_metadata = Some (JObj [(''packId'', JStr packId), (''tokens'', JNum tokens)])\<rparr>"

text \<open>The body of the transaction.\<close>

definition creditPurchase ::
  "('r, 'd) env \<Rightarrow> stripe_event \<Rightarrow> string \<Rightarrow> string \<Rightarrow> int \<Rightarrow> (('r, 'd) world, unit) fprog" where
  "creditPurchase E event userId packId tokens = do {
     now \<leftarrow> date_now;
     existing \<leftarrow> query (\<lambda>d. dg_findFirst (pr_tokenTransaction (prc E)) d (\<lambda>t. tt_stripeEventId t = Some (st_id event)));
     if existing \<noteq> None then ok ()
     else andThen (mutate (\<lambda>d. dg_update (pr_user (prc E)) d (\<lambda>u. us_id u = userId)
         (\<lambda>u. u\<lparr>us_tokenBalance := us_tokenBalance u + tokens\<rparr>))) (\<lambda>user.
       andThen (mutate (\<lambda>d. dg_create (pr_tokenTransaction (prc E)) d
         (new_credit event userId packId tokens (us_tokenBalance user) now))) (\<lambda>_. ok ())) }"

definition handleStripeWebhookEvent :: "('r, 'd) env \<Rightarrow> stripe_event \<Rightarrow> (('r, 'd) world, unit) fprog" where
  "handleStripeWebhookEvent E event =
    (case purchase_of event of
       None \<Rightarrow> ok ()
     | Some (userId, packId, tokens) \<Rightarrow>
         andThen (transaction E (creditPurchase E event userId packId tokens)) (\<lambda>_. do {
           let purchaseProperties = [(''pack'', JStr packId), (''tokenAmount'', JNum tokens),
             (''stripeSessionId'', JStr (sp_id (st_session event))), (''currency'', json_opt (sp_currency (st_session event)))];
           emit (Track (Some userId) ''token_purchase_succeeded'' purchaseProperties);
           emit (Track (Some userId) ''token_purchase_completed'' purchaseProperties);
           ok () }))"

end
