(* ===== verification/Payments_Props.thy ===== *)
theory Payments_Props
  imports Payments Queue_Props
begin

text \<open>
  Lemmas and properties of the payments (\<open>src/src/payments/payments.service.ts\<close>): a purchase is
  credited once, balances agree with the ledger, and what the checkout sends to Stripe is what the
  webhook reads.
\<close>

section \<open>The users and the ledger\<close>

definition users_wf :: "tables \<Rightarrow> bool" where
  "users_wf d \<longleftrightarrow> distinct (map us_id (tb_users d)) \<and>
     (\<forall>x \<in> set (tb_users d). \<forall>y \<in> set (tb_users d). us_id x \<noteq> us_id y \<longrightarrow> \<not> uq_user x y)"

definition ledger :: "string \<Rightarrow> tables \<Rightarrow> int" where
  "ledger uid d = sum_list (map tt_amount (filter (\<lambda>t. tt_userId t = uid) (tb_transactions d)))"

lemma users_wf_account: "users_wf d \<Longrightarrow> u \<in> set (tb_users d) \<Longrightarrow> account (us_id u) u d"
proof -
  assume d: "users_wf d" and u: "u \<in> set (tb_users d)"
  have "filter (\<lambda>x. us_id x = us_id u) xs = [u]" if "distinct (map us_id xs)" "u \<in> set xs" for xs
    using that by (induction xs) (auto simp: filter_empty_conv image_iff)
  with d u show ?thesis by (auto simp: account_def users_wf_def)
qed

lemma users_wf_paid: "users_wf d \<Longrightarrow> users_wf (paid uid n d)"
proof -
  assume d: "users_wf d"
  have m: "map us_id (update_rows (\<lambda>u. us_id u = uid) (add_tokens n) us) = map us_id us" for us
    by (induction us) auto
  from d show ?thesis by (auto simp: users_wf_def paid_def m set_update_rows)
qed

lemma paid_tables [simp]: "tb_transactions (paid uid n d) = tb_transactions d" "paid uid n (tb_transactions_update f d) = tb_transactions_update f (paid uid n d)"
  by (simp_all add: paid_def)

lemma new_credit_simps [simp]: "tt_userId (new_credit e u p n b t i) = u" "tt_amount (new_credit e u p n b t i) = n"
  "tt_stripeEventId (new_credit e u p n b t i) = Some (st_id e)" "tt_stripeSessionId (new_credit e u p n b t i) = Some (sp_id (st_session e))"
  "tt_balanceAfter (new_credit e u p n b t i) = b"
  by (simp_all add: new_credit_def)

definition credited :: "stripe_event \<Rightarrow> string \<Rightarrow> string \<Rightarrow> int \<Rightarrow> int \<Rightarrow> int \<Rightarrow> string \<Rightarrow> tables \<Rightarrow> tables" where
  "credited event uid pack n b now i d = tb_transactions_update (\<lambda>ts. ts @ [new_credit event uid pack n b now i]) (paid uid n d)"

text \<open>An event that the ledger has, and a checkout that another event paid for.\<close>

definition seen_event :: "stripe_event \<Rightarrow> tables \<Rightarrow> bool" where
  "seen_event event d \<longleftrightarrow> (\<exists>t \<in> set (tb_transactions d). tt_stripeEventId t = Some (st_id event))"

definition seen_checkout :: "stripe_event \<Rightarrow> tables \<Rightarrow> bool" where
  "seen_checkout event d \<longleftrightarrow> (\<exists>t \<in> set (tb_transactions d). tt_stripeSessionId t = Some (sp_id (st_session event)))"

lemma credited_seen [simp]: "seen_event event (credited event u p n b t i d)"
  "sp_id (st_session e) = sp_id (st_session event) \<Longrightarrow> seen_checkout e (credited event u p n b t i d)"
  "st_id e \<noteq> st_id event \<Longrightarrow> seen_event e (credited event u p n b t i d) = seen_event e d"
  by (auto simp: seen_event_def seen_checkout_def credited_def)

definition purchase_trace :: "stripe_event \<Rightarrow> string \<Rightarrow> string \<Rightarrow> int \<Rightarrow> effect list" where
  "purchase_trace event uid pack n = (let ps = [(''pack'', JStr pack), (''tokenAmount'', JNum n),
     (''stripeSessionId'', JStr (sp_id (st_session event))), (''currency'', json_opt (sp_currency (st_session event)))]
   in [Track (Some uid) ''token_purchase_succeeded'' ps, Track (Some uid) ''token_purchase_completed'' ps])"

lemma purchase_of_cong: "st_session e = st_session f \<Longrightarrow> st_type e = st_type f \<Longrightarrow> purchase_of e = purchase_of f"
  by (simp only: purchase_of_def)

context backend
begin

lemma existing_iff:
  "(dg_findFirst (pr_tokenTransaction (prc E)) d (\<lambda>t. tt_stripeEventId t = Some (st_id event)) \<noteq> None) = seen_event event (view d)"
  by (simp only: prisma.tokenTransaction.findFirst_exists seen_event_def)

lemma updateUser:
  assumes "account uid u (view d)"
  shows "\<exists>d'. dg_update (pr_user (prc E)) d (\<lambda>u. us_id u = uid) (\<lambda>u. u\<lparr>us_tokenBalance := us_tokenBalance u + n\<rparr>) = (Inr (add_tokens n u), d') \<and>
    view d' = paid uid n (view d)"
proof -
  let ?f = "\<lambda>u. u\<lparr>us_tokenBalance := us_tokenBalance u + n\<rparr>"
  have f: "?f = add_tokens n" by (simp add: add_tokens_def fun_eq_iff)
  have "filter (\<lambda>u. us_id u = uid) (tb_users (view d)) = [u]" using assms by (simp add: account_def)
  from prisma.user.update_ok [OF this, of ?f] assms show ?thesis
    unfolding f by (auto simp: account_def paid_def prod_eq_iff add_tokens_def)
qed

lemma creditPurchase_seen:
  "seen_event event (view (db w)) \<Longrightarrow> run_state (creditPurchase E event uid pack n) w = (Inr (), w)"
  using existing_iff [of "db w" event] by (simp add: creditPurchase_def run)

lemma creditPurchase_no_user:
  assumes "\<not> seen_event event (view (db w))" and "\<forall>u \<in> set (tb_users (view (db w))). us_id u \<noteq> uid"
  shows "\<exists>d. run_state (creditPurchase E event uid pack n) w = (Inl PrismaP2025, w\<lparr>db := d\<rparr>) \<and> view d = view (db w)"
  using assms existing_iff [of "db w" event]
    prisma.user.update_missing [of "db w" "\<lambda>u. us_id u = uid" "\<lambda>u. u\<lparr>us_tokenBalance := us_tokenBalance u + n\<rparr>"]
  by (auto simp: creditPurchase_def run case_prod_beta)

lemma creditPurchase_fresh:
  assumes "\<not> seen_event event (view (db w))" and "\<not> seen_checkout event (view (db w))" and a: "account uid u (view (db w))"
  shows "\<exists>d i. run_state (creditPurchase E event uid pack n) w = (Inr (), w\<lparr>db := d\<rparr>) \<and>
    view d = credited event uid pack n (us_tokenBalance u + n) (clock w) i (view (db w))"
proof -
  obtain d1 where d1: "dg_update (pr_user (prc E)) (db w) (\<lambda>u. us_id u = uid) (\<lambda>u. u\<lparr>us_tokenBalance := us_tokenBalance u + n\<rparr>) =
      (Inr (add_tokens n u), d1)" "view d1 = paid uid n (view (db w))"
    using updateUser [OF a, of n] by (elim exE conjE) (rule that)
  let ?mk = "new_credit event uid pack n (us_tokenBalance u + n) (clock w)"
  have "\<forall>r \<in> set (tb_transactions (view d1)). \<not> uq_transaction r (?mk i)" for i
    using assms(1,2) by (auto simp: d1(2) uq_transaction_def same_some_def seen_event_def seen_checkout_def)
  then show ?thesis
    using d1 existing_iff [of "db w" event] assms(1) prisma.tokenTransaction.create_ok [of d1 ?mk]
    by (auto simp: creditPurchase_def run credited_def)
qed

lemma creditPurchase_conflict:
  assumes "\<not> seen_event event (view (db w))" and "seen_checkout event (view (db w))" and a: "account uid u (view (db w))"
  shows "\<exists>d. run_state (creditPurchase E event uid pack n) w = (Inl PrismaP2002, w\<lparr>db := d\<rparr>)"
proof -
  obtain d1 where d1: "dg_update (pr_user (prc E)) (db w) (\<lambda>u. us_id u = uid) (\<lambda>u. u\<lparr>us_tokenBalance := us_tokenBalance u + n\<rparr>) =
      (Inr (add_tokens n u), d1)" "view d1 = paid uid n (view (db w))"
    using updateUser [OF a, of n] by (elim exE conjE) (rule that)
  let ?mk = "new_credit event uid pack n (us_tokenBalance u + n) (clock w)"
  have "\<exists>r \<in> set (tb_transactions (view d1)). uq_transaction r (?mk i)" for i
    using assms(2) by (auto simp: d1(2) uq_transaction_def same_some_def seen_checkout_def)
  then show ?thesis
    using d1 existing_iff [of "db w" event] assms(1) prisma.tokenTransaction.create_conflict [of d1 ?mk]
    by (auto simp: creditPurchase_def run)
qed

text \<open>The webhook on every branch.\<close>

lemma webhook_other: "purchase_of event = None \<Longrightarrow> run_state (handleStripeWebhookEvent E event) w = (Inr (), w)"
  by (simp add: handleStripeWebhookEvent_def run)

lemma webhook_seen:
  "purchase_of event = Some (uid, pack, n) \<Longrightarrow> seen_event event (view (db w)) \<Longrightarrow>
   run_state (handleStripeWebhookEvent E event) w = (Inr (), w\<lparr>trace := trace w @ purchase_trace event uid pack n\<rparr>)"
  by (simp add: handleStripeWebhookEvent_def run creditPurchase_seen Let_def purchase_trace_def)

lemma webhook_fresh:
  assumes p: "purchase_of event = Some (uid, pack, n)"
    and "\<not> seen_event event (view (db w))" "\<not> seen_checkout event (view (db w))" "account uid u (view (db w))"
  shows "\<exists>d i. run_state (handleStripeWebhookEvent E event) w = (Inr (), w\<lparr>db := d, trace := trace w @ purchase_trace event uid pack n\<rparr>) \<and>
    view d = credited event uid pack n (us_tokenBalance u + n) (clock w) i (view (db w))"
proof -
  obtain d i where d: "run_state (creditPurchase E event uid pack n) w = (Inr (), w\<lparr>db := d\<rparr>)"
    "view d = credited event uid pack n (us_tokenBalance u + n) (clock w) i (view (db w))"
    using creditPurchase_fresh [OF assms(2-), of pack n] by (elim exE conjE) (rule that)
  have "run_state (handleStripeWebhookEvent E event) w = (Inr (), w\<lparr>db := d, trace := trace w @ purchase_trace event uid pack n\<rparr>)"
    using p d(1) by (simp add: handleStripeWebhookEvent_def run Let_def purchase_trace_def)
  with d(2) show ?thesis by blast
qed

lemma webhook_fails:
  assumes p: "purchase_of event = Some (uid, pack, n)" and r: "run_state (creditPurchase E event uid pack n) w = (Inl e, w\<lparr>db := d\<rparr>)"
  shows "\<exists>d. run_state (handleStripeWebhookEvent E event) w = (Inl e, w\<lparr>db := d\<rparr>) \<and> view d = view (db w)"
  by (rule exI [of _ "pr_rollback (prc E) (db w) d"]) (simp add: handleStripeWebhookEvent_def run p r prisma.rollback)

lemma webhook_conflict:
  assumes p: "purchase_of event = Some (uid, pack, n)"
    and "\<not> seen_event event (view (db w))" "seen_checkout event (view (db w))" "account uid u (view (db w))"
  shows "\<exists>d. run_state (handleStripeWebhookEvent E event) w = (Inl PrismaP2002, w\<lparr>db := d\<rparr>) \<and> view d = view (db w)"
  using creditPurchase_conflict [OF assms(2-), of pack n] webhook_fails [OF p] by blast

lemma webhook_no_user:
  assumes p: "purchase_of event = Some (uid, pack, n)"
    and "\<not> seen_event event (view (db w))" "\<forall>u \<in> set (tb_users (view (db w))). us_id u \<noteq> uid"
  shows "\<exists>d. run_state (handleStripeWebhookEvent E event) w = (Inl PrismaP2025, w\<lparr>db := d\<rparr>) \<and> view d = view (db w)"
  using creditPurchase_no_user [OF assms(2-), of pack n] webhook_fails [OF p] by blast

text \<open>What an event can do to the database: nothing, or one credit.\<close>

lemma webhook_outcome:
  assumes "users_wf (view (db w))"
  shows "view (db (snd (run_state (handleStripeWebhookEvent E event) w))) = view (db w) \<or>
    (\<exists>u pack n i. account (us_id u) u (view (db w)) \<and> 0 < n \<and>
       view (db (snd (run_state (handleStripeWebhookEvent E event) w))) =
         credited event (us_id u) pack n (us_tokenBalance u + n) (clock w) i (view (db w)))"
proof (cases "purchase_of event")
  case None
  then show ?thesis by (simp add: webhook_other)
next
  case (Some p)
  obtain uid pack n where p: "purchase_of event = Some (uid, pack, n)" using Some by (cases p) auto
  then have n: "0 < n" by (auto simp: purchase_of_def Let_def split: if_splits jsnum.splits)
  consider (seen) "seen_event event (view (db w))"
    | (user) "\<not> seen_event event (view (db w))" "\<forall>u \<in> set (tb_users (view (db w))). us_id u \<noteq> uid"
    | (ok) u where "\<not> seen_event event (view (db w))" "u \<in> set (tb_users (view (db w)))" "us_id u = uid" by blast
  then show ?thesis
  proof cases
    case seen
    then show ?thesis by (simp add: webhook_seen [OF p])
  next
    case user
    from webhook_no_user [OF p this] show ?thesis by auto
  next
    case (ok u)
    then have a: "account uid u (view (db w))" using users_wf_account [OF assms] by blast
    show ?thesis
    proof (cases "seen_checkout event (view (db w))")
      case True
      from webhook_conflict [OF p ok(1) this a] show ?thesis by auto
    next
      case False
      obtain d i where "run_state (handleStripeWebhookEvent E event) w = (Inr (), w\<lparr>db := d, trace := trace w @ purchase_trace event uid pack n\<rparr>)"
        "view d = credited event uid pack n (us_tokenBalance u + n) (clock w) i (view (db w))"
        using webhook_fresh [OF p ok(1) False a] by (elim exE conjE) (rule that)
      then have "view (db (snd (run_state (handleStripeWebhookEvent E event) w))) =
          credited event (us_id u) pack n (us_tokenBalance u + n) (clock w) i (view (db w))"
        using ok(3) by simp
      moreover have "account (us_id u) u (view (db w))" using a ok(3) by simp
      ultimately show ?thesis using n by blast
    qed
  qed
qed

end

section \<open>Balances and the ledger\<close>

text \<open>The balance of a user is what the ledger credits, above \<open>start\<close>.\<close>

definition balanced :: "(string \<Rightarrow> int) \<Rightarrow> tables \<Rightarrow> bool" where
  "balanced start d \<longleftrightarrow> (\<forall>u \<in> set (tb_users d). us_tokenBalance u = start (us_id u) + ledger (us_id u) d)"

lemma users_wf_transactions [simp]: "users_wf (tb_transactions_update f d) = users_wf d"
  by (simp add: users_wf_def)

lemma credited_balanced:
  assumes "users_wf d" and "balanced start d"
  shows "users_wf (credited event uid pack n b now i d)" "balanced start (credited event uid pack n b now i d)"
proof -
  show "users_wf (credited event uid pack n b now i d)"
    using users_wf_paid [OF assms(1)] by (simp add: credited_def)
  have "ledger u (credited event uid pack n b now i d) = ledger u d + (if u = uid then n else 0)" for u
    by (simp add: ledger_def credited_def)
  then show "balanced start (credited event uid pack n b now i d)"
    using assms(2) by (auto simp: balanced_def credited_def paid_def set_update_rows)
qed

text \<open>Stripe delivers events, at any times, in any order, more than once.\<close>

fun deliver :: "('r, 'd) env \<Rightarrow> (int \<times> stripe_event) list \<Rightarrow> ('r, 'd) world \<Rightarrow> ('r, 'd) world" where
  "deliver E [] w = w"
| "deliver E ((t, event) # es) w = deliver E es (snd (run_state (handleStripeWebhookEvent E event) (w\<lparr>clock := t\<rparr>)))"

context backend
begin

lemma deliver_balanced:
  assumes "users_wf (view (db w))" and "balanced start (view (db w))"
  shows "balanced start (view (db (deliver E es w)))"
  using assms
proof (induction es arbitrary: w)
  case Nil
  then show ?case by simp
next
  case (Cons e es)
  obtain t event where e: "e = (t, event)" by (cases e)
  let ?w = "snd (run_state (handleStripeWebhookEvent E event) (w\<lparr>clock := t\<rparr>))"
  have "users_wf (view (db (w\<lparr>clock := t\<rparr>)))" using Cons.prems by simp
  from webhook_outcome [OF this, of event] have "users_wf (view (db ?w)) \<and> balanced start (view (db ?w))"
    using Cons.prems credited_balanced by auto
  then show ?case using Cons.IH [of ?w] by (simp add: e)
qed

end

section \<open>Properties\<close>

text \<open>
  C15: A purchase is credited exactly once. The first delivery of a paid checkout adds its tokens to
  the user's balance and one row to the ledger; a second delivery of the same event changes nothing in
  the database (although the purchase is tracked again), and another event for the same
  checkout fails on the unique checkout and is rolled back.
\<close>

theorem purchase_credited_once:
  assumes "backend E zv sv other view" and "purchase_of event = Some (uid, pack, n)"
    and "\<not> seen_event event (view (db w))" "\<not> seen_checkout event (view (db w))" "account uid u (view (db w))"
    and "st_id event' \<noteq> st_id event" "st_session event' = st_session event" "st_type event' = st_type event"
    and "\<not> seen_event event' (view (db w))"
  shows "\<exists>i w1 w2 d. run_state (handleStripeWebhookEvent E event) w = (Inr (), w1) \<and>
    view (db w1) = credited event uid pack n (us_tokenBalance u + n) (clock w) i (view (db w)) \<and>
    account uid (add_tokens n u) (view (db w1)) \<and>
    run_state (handleStripeWebhookEvent E event) (w1\<lparr>clock := t\<rparr>) = (Inr (), w2) \<and> db w2 = db w1 \<and>
    trace w2 = trace w1 @ purchase_trace event uid pack n \<and>
    run_state (handleStripeWebhookEvent E event') (w1\<lparr>clock := t\<rparr>) = (Inl PrismaP2002, w1\<lparr>clock := t, db := d\<rparr>) \<and>
    view d = view (db w1)"
proof -
  obtain d1 i where d1: "run_state (handleStripeWebhookEvent E event) w = (Inr (), w\<lparr>db := d1, trace := trace w @ purchase_trace event uid pack n\<rparr>)"
    "view d1 = credited event uid pack n (us_tokenBalance u + n) (clock w) i (view (db w))"
    using backend.webhook_fresh [OF assms(1-5)] by (elim exE conjE) (rule that)
  define w1 where "w1 = w\<lparr>db := d1, trace := trace w @ purchase_trace event uid pack n\<rparr>"
  let ?w = "w1\<lparr>clock := t\<rparr>"
  have v: "view (db w1) = credited event uid pack n (us_tokenBalance u + n) (clock w) i (view (db w))" by (simp add: w1_def d1(2))
  have a: "account uid (add_tokens n u) (view (db ?w))"
    using account_paid [OF assms(5), of n] by (simp add: v credited_def account_def)
  have p: "purchase_of event' = Some (uid, pack, n)" using assms(2) purchase_of_cong [OF assms(7,8)] by simp
  have "seen_event event (view (db ?w))" by (simp add: v)
  note again = backend.webhook_seen [OF assms(1,2) this]
  have "\<not> seen_event event' (view (db ?w))" "seen_checkout event' (view (db ?w))"
    using assms(6,7,9) by (simp_all add: v)
  from backend.webhook_conflict [OF assms(1) p this a] obtain d where
    "run_state (handleStripeWebhookEvent E event') ?w = (Inl PrismaP2002, ?w\<lparr>db := d\<rparr>)" "view d = view (db ?w)"
    by (elim exE conjE) (rule that)
  then show ?thesis
    using d1(1) [folded w1_def] again v a
    by - (intro exI conjI, assumption, simp, simp, assumption, simp, simp, simp, simp)
qed

text \<open>
  C19: Balances agree with the ledger. Whatever events Stripe delivers, at whatever times, in
  whatever order and however often, the balance of every user is what it was above the ledger at the
  start plus what the ledger credits to the user, also after events that fail.
\<close>

theorem ledger_matches_balances:
  assumes "backend E zv sv other view" and "users_wf (view (db w))" and "balanced start (view (db w))"
  shows "balanced start (view (db (deliver E es w)))"
  by (rule backend.deliver_balanced [OF assms])

text \<open>
  What the checkout sends to Stripe is what the webhook reads. When a checkout succeeds, the
  pack is known and Stripe was asked with metadata from which the webhook, once the checkout is paid,
  reads the same user, the same pack and the number of tokens of the pack.
\<close>

theorem checkout_metadata_roundtrip:
  assumes "run_state (createCheckoutSession E checkout uid packId) w = (Inr reply, w')" and "uid \<noteq> []"
  shows "\<exists>pack request. getPack packId = Inr pack \<and> pack \<in> set TOKEN_PACKS \<and> tp_id pack = packId \<and> checkout request = Inr reply \<and>
    Some (cr_price request) = env_var E (tp_priceEnv pack) \<and>
    (\<forall>event. st_type event = ''checkout.session.completed'' \<and> sp_payment_status (st_session event) = ''paid'' \<and>
       sp_metadata (st_session event) = Some (cr_metadata request) \<longrightarrow> purchase_of event = Some (uid, packId, tp_tokens pack))"
proof -
  have "\<exists>pack. getPack packId = Inr pack"
    using assms(1) by (cases "getPack packId") (simp_all add: createCheckoutSession_def run)
  then obtain pack where g: "getPack packId = Inr pack" by blast
  then have f: "find (\<lambda>item. tp_id item = packId) TOKEN_PACKS = Some pack" by (simp add: getPack_def split: option.splits)
  then have pack: "pack \<in> set TOKEN_PACKS" "tp_id pack = packId" by (auto simp: find_Some_iff)
  then have t: "0 < tp_tokens pack" "packId \<noteq> []" by (auto simp: TOKEN_PACKS_def)
  have k: "truthy (env_var E (tp_priceEnv pack))"
    using assms(1) g by (auto simp: createCheckoutSession_def run Let_def split: if_splits)
  then obtain price where price: "env_var E (tp_priceEnv pack) = Some price" "price \<noteq> []" by (auto simp: truthy_iff)
  define request where "request = \<lparr>cr_price = price,
    cr_success_url = (case env_var E ''STRIPE_SUCCESS_URL'' of None \<Rightarrow> DEFAULT_SUCCESS_URL | Some u \<Rightarrow> u),
    cr_cancel_url = (case env_var E ''STRIPE_CANCEL_URL'' of None \<Rightarrow> DEFAULT_CANCEL_URL | Some u \<Rightarrow> u),
    cr_metadata = [(''userId'', uid), (''packId'', packId), (''tokens'', show_int (tp_tokens pack))]\<rparr>"
  have c: "checkout request = Inr reply"
    using assms(1) g price pack(2)
    by (cases "checkout request") (simp_all add: createCheckoutSession_def run Let_def request_def)
  have s: "show_int n \<noteq> []" for n using json_stringify_hd [of "JNum n"] by simp
  have "purchase_of event = Some (uid, packId, tp_tokens pack)"
    if "st_type event = ''checkout.session.completed''" "sp_payment_status (st_session event) = ''paid''"
      "sp_metadata (st_session event) = Some (cr_metadata request)" for event
    using that t assms(2) s by (simp add: purchase_of_def Let_def request_def)
  then show ?thesis using g pack c price(1)
    by (intro exI [of _ pack] exI [of _ request]) (simp add: request_def)
qed

section \<open>Witnesses\<close>

definition paid_event :: "string \<Rightarrow> stripe_event" where
  "paid_event i = \<lparr>st_id = i, st_type = ''checkout.session.completed'', st_session = \<lparr>sp_id = ''cs'', sp_payment_status = ''paid'',
     sp_metadata = Some [(''userId'', ''a''), (''packId'', ''plus''), (''tokens'', ''15'')], sp_currency = Some ''aud''\<rparr>\<rparr>"

lemma paid_event_purchase: "purchase_of (paid_event i) = Some (''a'', ''plus'', 15)"
proof -
  have "parseInt ''15'' = Fin 15" by (simp add: parseInt_def js_space_def is_digit_def digits_value_def digit_value_def)
  then show ?thesis by (simp add: purchase_of_def Let_def paid_event_def)
qed

lemma queue_world_unseen: "\<not> seen_event e (db (queue_world f))" "\<not> seen_checkout e (db (queue_world f))"
  by (simp_all add: seen_event_def seen_checkout_def no_tables_def)

lemma purchase_credited_once_witness:
  "\<exists>w1 w2. run_state (handleStripeWebhookEvent bare_env (paid_event ''e1'')) (queue_world False) = (Inr (), w1) \<and>
     account ''a'' (add_tokens 15 (user_with ''a'' 3)) (db w1) \<and>
     run_state (handleStripeWebhookEvent bare_env (paid_event ''e2'')) (w1\<lparr>clock := noon\<rparr>) = (Inl PrismaP2002, w2) \<and> db w2 = db w1"
proof -
  have "st_id (paid_event ''e2'') \<noteq> st_id (paid_event ''e1'')" "st_session (paid_event ''e2'') = st_session (paid_event ''e1'')"
    "st_type (paid_event ''e2'') = st_type (paid_event ''e1'')"
    by (simp_all add: paid_event_def)
  from purchase_credited_once [OF bare_backend paid_event_purchase queue_world_unseen queue_world_ok(2) this queue_world_unseen(1), of False noon]
  show ?thesis by (elim exE conjE) (intro exI conjI, assumption, assumption, assumption, simp)
qed

lemma ledger_matches_balances_witness:
  "balanced (\<lambda>_. 3) (db (deliver bare_env [(noon, paid_event ''e1''), (noon + 1, paid_event ''e2''), (noon + 2, paid_event ''e1'')] (queue_world False)))"
  by (rule ledger_matches_balances [OF bare_backend]) (simp_all add: users_wf_def balanced_def ledger_def no_tables_def)

definition shop_env :: "(inmem, tables) env" where
  "shop_env = test_env_of (\<lambda>k. if k = ''STRIPE_PRICE_PLUS'' then Some ''price_1'' else None)"

lemma checkout_metadata_roundtrip_witness:
  "\<exists>request :: checkout_request. cr_price request = ''price_1'' \<and>
     (\<forall>event. st_type event = ''checkout.session.completed'' \<and> sp_payment_status (st_session event) = ''paid'' \<and>
       sp_metadata (st_session event) = Some (cr_metadata request) \<longrightarrow> purchase_of event = Some (''a'', ''plus'', 15))"
proof -
  let ?checkout = "\<lambda>r. Inr \<lparr>co_id = cr_price r, co_url = None\<rparr>"
  obtain w' where "run_state (createCheckoutSession shop_env ?checkout ''a'' ''plus'') (queue_world False) =
    (Inr \<lparr>co_id = ''price_1'', co_url = None\<rparr>, w')"
    by (simp add: createCheckoutSession_def run Let_def getPack_def TOKEN_PACKS_def shop_env_def)
  from checkout_metadata_roundtrip [OF this list.distinct(2)] obtain pack and request :: checkout_request where
    p: "pack \<in> set TOKEN_PACKS" "tp_id pack = ''plus''" "Some (cr_price request) = env_var shop_env (tp_priceEnv pack)"
    "\<forall>event. st_type event = ''checkout.session.completed'' \<and> sp_payment_status (st_session event) = ''paid'' \<and>
       sp_metadata (st_session event) = Some (cr_metadata request) \<longrightarrow> purchase_of event = Some (''a'', ''plus'', tp_tokens pack)"
    by (elim exE conjE) (rule that, assumption+)
  then have "tp_tokens pack = 15" "tp_priceEnv pack = ''STRIPE_PRICE_PLUS''" by (auto simp: TOKEN_PACKS_def)
  with p(3,4) show ?thesis by (intro exI [of _ request]) (simp add: shop_env_def)
qed

end
