(* ===== verification/Chat.thy ===== *)
theory Chat
  imports Gateways
begin

text \<open>
  \<open>src/src/chat/chat.service.ts\<close> with the messages of \<open>src/src/chat/chat.gateway.ts\<close>: who may
  read and write the messages of a match. Where the code selects columns of a row, the model returns the row.
\<close>

definition DEFAULT_MESSAGE_LIMIT :: int where "DEFAULT_MESSAGE_LIMIT = 50"
definition REVEAL_ACK_REQUIRED_CODE :: string where "REVEAL_ACK_REQUIRED_CODE = ''REVEAL_ACK_REQUIRED''"

section \<open>Guards\<close>

definition getMatchForUser :: "('r, 'd) env \<Rightarrow> string \<Rightarrow> string \<Rightarrow> (('r, 'd) world, match_row option) fprog" where
  "getMatchForUser E matchId userId = do {
     m \<leftarrow> query (\<lambda>d. dg_findFirst (pr_match (prc E)) d (\<lambda>x. ma_id x = matchId));
     case m of
       None \<Rightarrow> ok None
     | Some x \<Rightarrow> if ma_userAId x \<noteq> userId \<and> ma_userBId x \<noteq> userId then throw (Forbidden ''Not a match participant'') else ok (Some x) }"

definition assertNotBlocked :: "('r, 'd) env \<Rightarrow> string \<Rightarrow> string \<Rightarrow> (('r, 'd) world, unit) fprog" where
  "assertNotBlocked E userAId userBId = do {
     block \<leftarrow> query (\<lambda>d. dg_findFirst (pr_block (prc E)) d (\<lambda>b. bl_liftedAt b = None \<and>
       (bl_blockerId b = userAId \<and> bl_blockedId b = userBId \<or> bl_blockerId b = userBId \<and> bl_blockedId b = userAId)));
     if block \<noteq> None then throw (Forbidden ''Conversation unavailable'') else ok () }"

definition hasRevealAcknowledged :: "match_row \<Rightarrow> string \<Rightarrow> bool" where
  "hasRevealAcknowledged m userId \<longleftrightarrow>
     (if ma_userAId m = userId then ma_userARevealAcknowledgedAt m else ma_userBRevealAcknowledgedAt m) \<noteq> None"

text \<open>The body of this error is its code and a message; the model keeps the code.\<close>

definition assertRevealAcknowledged :: "match_row \<Rightarrow> string \<Rightarrow> exn + unit" where
  "assertRevealAcknowledged m userId =
    (let acknowledgedAt = (if ma_userAId m = userId then ma_userARevealAcknowledgedAt m else ma_userBRevealAcknowledgedAt m)
     in if acknowledgedAt \<noteq> None then Inr () else Inl (Forbidden REVEAL_ACK_REQUIRED_CODE))"

text \<open>\<open>Math.round\<close> of a positive number of milliseconds in seconds.\<close>

definition timeFromMutualMatchSec :: "int \<Rightarrow> int \<Rightarrow> int" where
  "timeFromMutualMatchSec matchCreatedAt now =
    (let elapsedMs = now - matchCreatedAt in if elapsedMs \<le> 0 then 0 else (elapsedMs + 500) div 1000)"

definition getExistingMessageCount :: "('r, 'd) env \<Rightarrow> string \<Rightarrow> (('r, 'd) world, nat) prog" where
  "getExistingMessageCount E matchId = query (\<lambda>d. dg_count (pr_message (prc E)) d (\<lambda>m. ms_matchId m = matchId))"

section \<open>Reading\<close>

definition messageLimit :: "jsnum \<Rightarrow> nat" where
  "messageLimit limit = nat (max 1 (min (if isFinite limit then fin_value limit else DEFAULT_MESSAGE_LIMIT) 100))"

definition listMessages ::
  "('r, 'd) env \<Rightarrow> string \<Rightarrow> string \<Rightarrow> jsnum \<Rightarrow> (('r, 'd) world, message_row list) fprog" where
  "listMessages E matchId userId limit =
    andThen (getMatchForUser E matchId userId) (\<lambda>found.
      case found of
        None \<Rightarrow> throw (NotFound ''Match not found'')
      | Some m \<Rightarrow>
          andThen (assertNotBlocked E (ma_userAId m) (ma_userBId m)) (\<lambda>_.
          andThen (ret (assertRevealAcknowledged m userId)) (\<lambda>_. do {
            messages \<leftarrow> query (\<lambda>d. dg_findLatest (pr_message (prc E)) d (\<lambda>x. ms_matchId x = matchId) (Some (messageLimit limit)));
            now \<leftarrow> date_now;
            emit (Track (Some userId) ''match_chat_opened'' [(''matchId'', JStr matchId), (''messageCount'', JNum (int (length messages))),
              (''timeFromMutualMatchSec'', JNum (timeFromMutualMatchSec (ma_createdAt m) now))]);
            ok (rev messages) })))"

section \<open>Writing\<close>

definition new_message :: "string \<Rightarrow> string \<Rightarrow> string \<Rightarrow> int \<Rightarrow> string \<Rightarrow> message_row" where
  "new_message matchId userId content now i =
    \<lparr>ms_id = i, ms_createdAt = now, ms_matchId = matchId, ms_senderId = userId, ms_text = content\<rparr>"

definition message_payload :: "message_row \<Rightarrow> json" where
  "message_payload x = JObj [(''id'', JStr (ms_id x)), (''matchId'', JStr (ms_matchId x)), (''senderId'', JStr (ms_senderId x)),
     (''text'', JStr (ms_text x)), (''createdAt'', JStr (date_iso (ms_createdAt x)))]"

definition emitMessage :: "string \<Rightarrow> json \<Rightarrow> (('r, 'd) world, unit) prog" where
  "emitMessage userId payload = emit (Emit ''/chat'' (userRoom userId) ''message:new'' payload)"

text \<open>The dash of the text of a notification, as the bytes of its encoding in UTF-8.\<close>

definition em_dash :: string where
  "em_dash = [CHR 0xE2, CHR 0x80, CHR 0x94]"

text \<open>The notification of the recipient: the text of the message is not in it.\<close>

definition senderName :: "('r, 'd) env \<Rightarrow> string \<Rightarrow> (('r, 'd) world, string) prog" where
  "senderName E userId = do {
     sender \<leftarrow> query (\<lambda>d. dg_findFirst (pr_user (prc E)) d (\<lambda>u. us_id u = userId));
     let name = Option.bind sender (\<lambda>u. map_option trim (us_displayName u));
     ret (if truthy name then the name else ''Someone'') }"

definition notification ::
  "('r, 'd) env \<Rightarrow> match_row \<Rightarrow> string \<Rightarrow> message_row \<Rightarrow> string \<Rightarrow> (('r, 'd) world, string \<times> json) prog" where
  "notification E m recipientId x userId =
    (let ids = [(''matchId'', JStr (ms_matchId x)), (''messageId'', JStr (ms_id x)), (''senderId'', JStr (ms_senderId x))]
     in if hasRevealAcknowledged m recipientId
        then do {
          senderDisplayName \<leftarrow> senderName E userId;
          ret (''chat_message_new'', JObj (ids @ [(''title'', JStr ''New message''), (''body'', JStr (''From '' @ senderDisplayName)),
            (''deepLinkTarget'', JStr ''chat'')])) }
        else ret (''chat_reveal_required'', JObj (ids @ [(''title'', JStr ''New match''),
          (''body'', JStr (''A message is waiting '' @ em_dash @ '' reveal to view'')), (''deepLinkTarget'', JStr ''reveal'')])))"

definition sendMessage :: "('r, 'd) env \<Rightarrow> string \<Rightarrow> string \<Rightarrow> string \<Rightarrow> (('r, 'd) world, message_row) fprog" where
  "sendMessage E matchId userId text =
    (let content = trim text in
     if content = [] then throw (BadRequest ''Message text is required'')
     else andThen (getMatchForUser E matchId userId) (\<lambda>found.
       case found of
         None \<Rightarrow> throw (NotFound ''Match not found'')
       | Some m \<Rightarrow>
           andThen (assertNotBlocked E (ma_userAId m) (ma_userBId m)) (\<lambda>_.
           andThen (ret (assertRevealAcknowledged m userId)) (\<lambda>_.
           if ma_userAId m \<noteq> userId \<and> ma_userBId m \<noteq> userId then throw (Forbidden ''Not a match participant'')
           else do {
             existingCount \<leftarrow> getExistingMessageCount E matchId;
             now \<leftarrow> date_now;
             andThen (mutate (\<lambda>d. dg_create (pr_message (prc E)) d (new_message matchId userId content now))) (\<lambda>message. do {
               let payload = message_payload message;
               (if ma_userARevealAcknowledgedAt m \<noteq> None then emitMessage (ma_userAId m) payload else ret ());
               (if ma_userBRevealAcknowledgedAt m \<noteq> None then emitMessage (ma_userBId m) payload else ret ());
               let recipientId = (if ma_userAId m = userId then ma_userBId m else ma_userAId m);
               (event, data) \<leftarrow> notification E m recipientId message userId;
               emit (NotifyUsers [recipientId] event data);
               emit (Track (Some userId) (if existingCount = 0 then ''first_message_sent'' else ''message_sent'')
                 [(''matchId'', JStr matchId), (''messageId'', JStr (ms_id message))]);
               emit (Track (Some userId) ''match_message_sent''
                 [(''matchId'', JStr matchId), (''messageId'', JStr (ms_id message)), (''isFirstMessage'', JBool (existingCount = 0)),
                  (''timeFromMutualMatchSec'', JNum (timeFromMutualMatchSec (ma_createdAt m) now))]);
               ok message }) }))))"

end
