(* ===== verification/Matches.thy ===== *)
theory Matches
  imports Reveal
begin

text \<open>
  \<open>src/src/matches/matches.service.ts\<close>: the matches of a user, the reveal of the partner and its
  acknowledgement. Where the code selects columns of a row, the model reads the row; the two queries that
  run side by side in \<open>listMatches\<close> only read.
\<close>

datatype side = SideA | SideB

definition resolveParticipantSide :: "match_row \<Rightarrow> string \<Rightarrow> exn + side" where
  "resolveParticipantSide m userId =
    (if ma_userAId m = userId then Inr SideA
     else if ma_userBId m = userId then Inr SideB
     else Inl (Forbidden ''Not a match participant''))"

fun acknowledgedAt :: "side \<Rightarrow> match_row \<Rightarrow> int option" where
  "acknowledgedAt SideA m = ma_userARevealAcknowledgedAt m"
| "acknowledgedAt SideB m = ma_userBRevealAcknowledgedAt m"

fun partnerId :: "side \<Rightarrow> match_row \<Rightarrow> string" where
  "partnerId SideA m = ma_userBId m"
| "partnerId SideB m = ma_userAId m"

section \<open>The list of matches\<close>

record match_item =
  mi_matchId :: string
  mi_revealAcknowledged :: bool
  mi_revealAcknowledgedAt :: "string option"
  mi_partnerReveal :: "partner_reveal option"

definition blockedUserIds :: "string \<Rightarrow> block_row list \<Rightarrow> string set" where
  "blockedUserIds userId activeBlocks = set (map (\<lambda>b. if bl_blockerId b = userId then bl_blockedId b else bl_blockerId b) activeBlocks)"

definition side_of :: "string \<Rightarrow> match_row \<Rightarrow> side" where
  "side_of userId m = (if ma_userAId m = userId then SideA else SideB)"

definition listMatches :: "('r, 'd) env \<Rightarrow> string \<Rightarrow> (('r, 'd) world, match_item list) prog" where
  "listMatches E userId = do {
     found \<leftarrow> query (\<lambda>d. dg_findLatest (pr_match (prc E)) d (\<lambda>m. ma_userAId m = userId \<or> ma_userBId m = userId) None);
     activeBlocks \<leftarrow> query (\<lambda>d. dg_findMany (pr_block (prc E)) d (\<lambda>b. bl_liftedAt b = None \<and> (bl_blockerId b = userId \<or> bl_blockedId b = userId)));
     let visibleMatches = filter (\<lambda>(partner, m). partner \<notin> blockedUserIds userId activeBlocks)
       (map (\<lambda>m. (partnerId (side_of userId m) m, m)) found);
     let acknowledgedPartnerIds = remdups (map fst (filter (\<lambda>(partner, m). acknowledgedAt (side_of userId m) m \<noteq> None) visibleMatches));
     partnerRevealById \<leftarrow>
       (if length acknowledgedPartnerIds > 0
        then do {
          partnerProfiles \<leftarrow> query (\<lambda>d. dg_findMany (pr_user (prc E)) d (\<lambda>u. us_id u \<in> set acknowledgedPartnerIds));
          ret (map_of (rev (map (\<lambda>profile. (us_id profile, buildPartnerReveal profile)) partnerProfiles))) }
        else ret (\<lambda>_. None));
     ret (map (\<lambda>(partner, m).
       let acked = acknowledgedAt (side_of userId m) m
       in \<lparr>mi_matchId = ma_id m, mi_revealAcknowledged = (acked \<noteq> None), mi_revealAcknowledgedAt = map_option date_iso acked,
           mi_partnerReveal = (if acked \<noteq> None then partnerRevealById partner else None)\<rparr>) visibleMatches) }"

section \<open>The reveal of a match\<close>

record match_reveal =
  mr_matchId :: string
  mr_partnerReveal :: partner_reveal
  mr_revealAcknowledged :: bool
  mr_revealAcknowledgedAt :: "string option"

text \<open>The partner of a match exists, by the foreign key of the schema; a database without the row makes
  the client throw.\<close>

definition getReveal :: "('r, 'd) env \<Rightarrow> string \<Rightarrow> string \<Rightarrow> (('r, 'd) world, match_reveal) fprog" where
  "getReveal E matchId userId = do {
     found \<leftarrow> query (\<lambda>d. dg_findFirst (pr_match (prc E)) d (\<lambda>m. ma_id m = matchId));
     case found of
       None \<Rightarrow> throw (NotFound ''Match not found'')
     | Some m \<Rightarrow> andThen (ret (resolveParticipantSide m userId)) (\<lambda>side. do {
         partner \<leftarrow> query (\<lambda>d. dg_findFirst (pr_user (prc E)) d (\<lambda>u. us_id u = partnerId side m));
         case partner of
           None \<Rightarrow> throw (JsError ''Inconsistent query result'')
         | Some profile \<Rightarrow> ok \<lparr>mr_matchId = ma_id m, mr_partnerReveal = buildPartnerReveal profile,
             mr_revealAcknowledged = (acknowledgedAt side m \<noteq> None),
             mr_revealAcknowledgedAt = map_option date_iso (acknowledgedAt side m)\<rparr> }) }"

fun acknowledge :: "side \<Rightarrow> int \<Rightarrow> match_row \<Rightarrow> match_row" where
  "acknowledge SideA now m = m\<lparr>ma_userARevealAcknowledgedAt := Some now\<rparr>"
| "acknowledge SideB now m = m\<lparr>ma_userBRevealAcknowledgedAt := Some now\<rparr>"

definition acknowledgeReveal :: "('r, 'd) env \<Rightarrow> string \<Rightarrow> string \<Rightarrow> (('r, 'd) world, match_reveal) fprog" where
  "acknowledgeReveal E matchId userId = do {
     found \<leftarrow> query (\<lambda>d. dg_findFirst (pr_match (prc E)) d (\<lambda>m. ma_id m = matchId));
     case found of
       None \<Rightarrow> throw (NotFound ''Match not found'')
     | Some m \<Rightarrow> andThen (ret (resolveParticipantSide m userId)) (\<lambda>side. do {
         now \<leftarrow> date_now;
         andThen (if acknowledgedAt side m = None
             then andThen (mutate (\<lambda>d. dg_update (pr_match (prc E)) d (\<lambda>x. ma_id x = ma_id m) (acknowledge side now))) (\<lambda>_. ok ())
             else ok ()) (\<lambda>_.
           getReveal E matchId userId) }) }"

definition isRevealAcknowledged :: "('r, 'd) env \<Rightarrow> string \<Rightarrow> string \<Rightarrow> (('r, 'd) world, bool) fprog" where
  "isRevealAcknowledged E matchId userId = do {
     found \<leftarrow> query (\<lambda>d. dg_findFirst (pr_match (prc E)) d (\<lambda>m. ma_id m = matchId));
     case found of
       None \<Rightarrow> throw (NotFound ''Match not found'')
     | Some m \<Rightarrow> andThen (ret (resolveParticipantSide m userId)) (\<lambda>side.
         ok (acknowledgedAt side m \<noteq> None)) }"

end
