(* ===== verification/Chat_Props.thy ===== *)
theory Chat_Props
  imports Chat Matches Queue_Props
begin

text \<open>
  Properties of the chat and of the list of matches: who may write, who gets a message, and what a user
  learns about the others.
\<close>

section \<open>Who may chat\<close>

definition active_block :: "tables \<Rightarrow> string \<Rightarrow> string \<Rightarrow> bool" where
  "active_block d a b \<longleftrightarrow> (\<exists>x \<in> set (tb_blocks d). bl_liftedAt x = None \<and>
     (bl_blockerId x = a \<and> bl_blockedId x = b \<or> bl_blockerId x = b \<and> bl_blockedId x = a))"

text \<open>The participants that acknowledged the reveal.\<close>

definition acknowledged :: "match_row \<Rightarrow> string list" where
  "acknowledged m = (if ma_userARevealAcknowledgedAt m \<noteq> None then [ma_userAId m] else []) @
     (if ma_userBRevealAcknowledgedAt m \<noteq> None then [ma_userBId m] else [])"

definition may_chat :: "tables \<Rightarrow> string \<Rightarrow> match_row \<Rightarrow> bool" where
  "may_chat d u m \<longleftrightarrow> u \<in> {ma_userAId m, ma_userBId m} \<and> hasRevealAcknowledged m u \<and> \<not> active_block d (ma_userAId m) (ma_userBId m)"

text \<open>The effects of a message: the users that get it, the notification of the partner, the events.\<close>

definition delivery :: "message_row \<Rightarrow> match_row \<Rightarrow> string \<Rightarrow> json \<Rightarrow> bool \<Rightarrow> int \<Rightarrow> effect list" where
  "delivery x m u data first now =
    (let r = (if ma_userAId m = u then ma_userBId m else ma_userAId m) in
     map (\<lambda>v. Emit ''/chat'' (userRoom v) ''message:new'' (message_payload x)) (acknowledged m) @
     [NotifyUsers [r] (if hasRevealAcknowledged m r then ''chat_message_new'' else ''chat_reveal_required'') data,
      Track (Some u) (if first then ''first_message_sent'' else ''message_sent'')
        [(''matchId'', JStr (ma_id m)), (''messageId'', JStr (ms_id x))],
      Track (Some u) ''match_message_sent'' [(''matchId'', JStr (ma_id m)), (''messageId'', JStr (ms_id x)), (''isFirstMessage'', JBool first),
        (''timeFromMutualMatchSec'', JNum (timeFromMutualMatchSec (ma_createdAt m) now))]])"

context backend
begin

lemma getMatchForUser_run:
  "run_state (getMatchForUser E i u) w = (case dg_findFirst (pr_match (prc E)) (db w) (\<lambda>x. ma_id x = i) of
      None \<Rightarrow> Inr None
    | Some m \<Rightarrow> if u = ma_userAId m \<or> u = ma_userBId m then Inr (Some m) else Inl (Forbidden ''Not a match participant''), w)"
  by (auto simp: getMatchForUser_def run split: option.split)

lemma assertNotBlocked_run:
  "run_state (assertNotBlocked E a b) w =
    (if active_block (view (db w)) a b then Inl (Forbidden ''Conversation unavailable'') else Inr (), w)"
  unfolding assertNotBlocked_def active_block_def
  by (simp add: run prisma.block.findFirst_exists del: not_None_eq)

lemma notification_run:
  "\<exists>g. \<forall>w. run_state (notification E m r x u) w =
     ((if hasRevealAcknowledged m r then ''chat_message_new'' else ''chat_reveal_required'', g (db w)), w)"
proof (intro exI allI)
  show "run_state (notification E m r x u) w =
     ((if hasRevealAcknowledged m r then ''chat_message_new'' else ''chat_reveal_required'',
       snd (fst (run_state (notification E m r x u) (world_of undefined (db w) 0)))), w)" for w
    by (simp add: notification_def senderName_def Let_def run world_of_def)
qed

lemma create_message_run:
  "run_state (mutate (\<lambda>d. dg_create (pr_message (prc E)) d mk)) w =
      (Inr (mk (dg_cuid (pr_message (prc E)) (db w))), w\<lparr>db := snd (dg_create (pr_message (prc E)) (db w) mk)\<rparr>)"
  "view (snd (dg_create (pr_message (prc E)) (db w) mk)) =
      tb_messages_update (\<lambda>rs. rs @ [mk (dg_cuid (pr_message (prc E)) (db w))]) (view (db w))"
  using prisma.message.create_ok [of "db w" mk] by (simp_all add: run no_unique_def)

lemma sendMessage_not_found:
  assumes "trim text \<noteq> []" and "dg_findFirst (pr_match (prc E)) (db w) (\<lambda>x. ma_id x = i) = None"
  shows "run_state (sendMessage E i u text) w = (Inl (NotFound ''Match not found''), w)"
  using assms by (simp add: sendMessage_def Let_def run getMatchForUser_run)

lemma sendMessage_forbidden:
  assumes "trim text \<noteq> []" and "dg_findFirst (pr_match (prc E)) (db w) (\<lambda>x. ma_id x = i) = Some m" and "\<not> may_chat (view (db w)) u m"
  shows "\<exists>e. run_state (sendMessage E i u text) w = (Inl (Forbidden e), w)"
  using assms
  by (auto simp: sendMessage_def Let_def run getMatchForUser_run assertNotBlocked_run may_chat_def hasRevealAcknowledged_def assertRevealAcknowledged_def)

lemma sendMessage_allowed:
  assumes "trim text \<noteq> []" and "dg_findFirst (pr_match (prc E)) (db w) (\<lambda>x. ma_id x = i) = Some m" and "may_chat (view (db w)) u m"
  shows "\<exists>d data. let x = new_message i u (trim text) (clock w) (dg_cuid (pr_message (prc E)) (db w)) in
    run_state (sendMessage E i u text) w = (Inr x, w\<lparr>db := d,
      trace := trace w @ delivery x m u data (\<forall>y \<in> set (tb_messages (view (db w))). ms_matchId y \<noteq> i) (clock w)\<rparr>) \<and>
    view d = tb_messages_update (\<lambda>ms. ms @ [x]) (view (db w))"
proof -
  let ?mk = "new_message i u (trim text) (clock w)"
  let ?x = "?mk (dg_cuid (pr_message (prc E)) (db w))"
  let ?r = "if ma_userAId m = u then ma_userBId m else ma_userAId m"
  define d where "d = snd (dg_create (pr_message (prc E)) (db w) ?mk)"
  obtain g where n: "\<forall>w. run_state (notification E m ?r ?x u) w =
      ((if hasRevealAcknowledged m ?r then ''chat_message_new'' else ''chat_reveal_required'', g (db w)), w)"
    using notification_run by blast
  have i: "ma_id m = i" using prisma.match.findFirst_Some [OF assms(2)] by simp
  have c: "getExistingMessageCount E i = query (\<lambda>d. dg_count (pr_message (prc E)) d (\<lambda>m. ms_matchId m = i))"
    by (rule getExistingMessageCount_def)
  have f: "dg_count (pr_message (prc E)) (db w) (\<lambda>m. ms_matchId m = i) = 0 \<longleftrightarrow> (\<forall>y \<in> set (tb_messages (view (db w))). ms_matchId y \<noteq> i)"
    by (simp add: prisma.message.count_rows count_rows_0)
  have g': "run_state (getMatchForUser E i u) w = (Inr (Some m), w)" "run_state (assertNotBlocked E (ma_userAId m) (ma_userBId m)) w = (Inr (), w)"
    "assertRevealAcknowledged m u = Inr ()" "\<not> (ma_userAId m \<noteq> u \<and> ma_userBId m \<noteq> u)"
    using assms(2,3) by (auto simp: getMatchForUser_run assertNotBlocked_run may_chat_def assertRevealAcknowledged_def hasRevealAcknowledged_def)
  have m: "fst (dg_create (pr_message (prc E)) (db w) ?mk) = Inr ?x"
    using create_message_run(1) [of ?mk w] by (simp add: run)
  have "run_state (sendMessage E i u text) w = (Inr ?x, w\<lparr>db := d,
      trace := trace w @ delivery ?x m u (g d) (\<forall>y \<in> set (tb_messages (view (db w))). ms_matchId y \<noteq> i) (clock w)\<rparr>)"
    using assms(1) g' m n unfolding sendMessage_def Let_def
    by (simp add: run c f emitMessage_def delivery_def acknowledged_def i world_order Let_def d_def [symmetric])
  then show ?thesis using create_message_run(2) [where mk = ?mk and w = w] by (auto simp: Let_def d_def)
qed

lemma message_outcome:
  assumes "distinct (map ma_id (tb_matches (view (db w))))"
  shows "case run_state (sendMessage E i u text) w of
      (Inl e, w') \<Rightarrow> w' = w \<and> (trim text = [] \<or> (\<forall>m \<in> set (tb_matches (view (db w))). ma_id m = i \<longrightarrow> \<not> may_chat (view (db w)) u m))
    | (Inr x, w') \<Rightarrow> trim text \<noteq> [] \<and> (\<exists>m \<in> set (tb_matches (view (db w))). ma_id m = i \<and> may_chat (view (db w)) u m \<and>
        ms_text x = trim text \<and> ms_senderId x = u \<and> ms_matchId x = i \<and> ms_createdAt x = clock w \<and>
        view (db w') = tb_messages_update (\<lambda>ms. ms @ [x]) (view (db w)) \<and>
        (\<exists>data. trace w' = trace w @ delivery x m u data (\<forall>y \<in> set (tb_messages (view (db w))). ms_matchId y \<noteq> i) (clock w)))"
proof (cases "trim text = []")
  case True
  then show ?thesis by (simp add: sendMessage_def run)
next
  case nonblank: False
  show ?thesis
  proof (cases "dg_findFirst (pr_match (prc E)) (db w) (\<lambda>x. ma_id x = i)")
    case None
    with prisma.match.findFirst_None [of "db w" "\<lambda>x. ma_id x = i"] show ?thesis
      by (simp add: sendMessage_not_found [OF nonblank None])
  next
    case (Some m)
    have m: "m \<in> set (tb_matches (view (db w)))" "ma_id m = i" using prisma.match.findFirst_Some [OF Some] by auto
    show ?thesis
    proof (cases "may_chat (view (db w)) u m")
      case True
      obtain d data where "let x = new_message i u (trim text) (clock w) (dg_cuid (pr_message (prc E)) (db w)) in
          run_state (sendMessage E i u text) w = (Inr x, w\<lparr>db := d,
            trace := trace w @ delivery x m u data (\<forall>y \<in> set (tb_messages (view (db w))). ms_matchId y \<noteq> i) (clock w)\<rparr>) \<and>
          view d = tb_messages_update (\<lambda>ms. ms @ [x]) (view (db w))"
        using sendMessage_allowed [OF nonblank Some True] by (elim exE) (rule that)
      then show ?thesis using nonblank m True by (auto simp: Let_def new_message_def)
    next
      case False
      obtain e where e: "run_state (sendMessage E i u text) w = (Inl (Forbidden e), w)"
        using sendMessage_forbidden [OF nonblank Some False] by blast
      have "x = m" if "x \<in> set (tb_matches (view (db w)))" "ma_id x = i" for x
        using distinct_key [OF assms that(1) m(1)] that(2) m(2) by simp
      with e False show ?thesis by auto
    qed
  qed
qed

end

text \<open>
  C17: a message is sent exactly when its text is not blank and its sender is a participant of the match that acknowledged
  the reveal, with no active block between the two. Then one row with the trimmed text is stored, the participants that
  acknowledged the reveal, and nobody else, get it on their sockets, and the partner is notified: of a message, or,
  when the partner has not acknowledged, to reveal first. Otherwise an error is returned, and nothing is stored, sent or tracked.
\<close>

theorem message_needs_consent:
  assumes "backend E zv sv other view" and "distinct (map ma_id (tb_matches (view (db w))))"
  shows "case run_state (sendMessage E i u text) w of
      (Inl e, w') \<Rightarrow> w' = w \<and> (trim text = [] \<or> (\<forall>m \<in> set (tb_matches (view (db w))). ma_id m = i \<longrightarrow> \<not> may_chat (view (db w)) u m))
    | (Inr x, w') \<Rightarrow> trim text \<noteq> [] \<and> (\<exists>m \<in> set (tb_matches (view (db w))). ma_id m = i \<and> may_chat (view (db w)) u m \<and>
        ms_text x = trim text \<and> ms_senderId x = u \<and> ms_matchId x = i \<and> ms_createdAt x = clock w \<and>
        view (db w') = tb_messages_update (\<lambda>ms. ms @ [x]) (view (db w)) \<and>
        (\<exists>data. trace w' = trace w @ delivery x m u data (\<forall>y \<in> set (tb_messages (view (db w))). ms_matchId y \<noteq> i) (clock w)))"
  by (rule backend.message_outcome [OF assms])

section \<open>What the list of matches shows\<close>

text \<open>The item of a match in the list of a user.\<close>

definition item_of :: "tables \<Rightarrow> string \<Rightarrow> match_row \<Rightarrow> match_item \<Rightarrow> bool" where
  "item_of d u m it \<longleftrightarrow> mi_matchId it = ma_id m \<and> mi_revealAcknowledged it = hasRevealAcknowledged m u \<and>
     (case mi_partnerReveal it of
        None \<Rightarrow> hasRevealAcknowledged m u \<longrightarrow> (\<forall>x \<in> set (tb_users d). us_id x \<noteq> partnerId (side_of u m) m)
      | Some r \<Rightarrow> hasRevealAcknowledged m u \<and> (\<exists>x \<in> set (tb_users d). us_id x = partnerId (side_of u m) m \<and> r = buildPartnerReveal x))"

definition visible :: "tables \<Rightarrow> string \<Rightarrow> match_row \<Rightarrow> bool" where
  "visible d u m \<longleftrightarrow> (ma_userAId m = u \<or> ma_userBId m = u) \<and> \<not> active_block d u (partnerId (side_of u m) m)"

lemma acknowledgedAt_side: "(acknowledgedAt (side_of u m) m \<noteq> None) = hasRevealAcknowledged m u"
  by (simp add: side_of_def hasRevealAcknowledged_def)

lemma map_of_rows:
  "map_of (rev (map (\<lambda>x. (key x, f x)) xs)) k = Some r \<Longrightarrow> \<exists>x \<in> set xs. key x = k \<and> r = f x"
  "map_of (rev (map (\<lambda>x. (key x, f x)) xs)) k = None \<longleftrightarrow> (\<forall>x \<in> set xs. key x \<noteq> k)"
  by (force dest!: map_of_SomeD) (auto simp: map_of_eq_None_iff image_iff)

context backend
begin

lemma blockedUserIds_iff:
  "p \<in> blockedUserIds u (dg_findMany (pr_block (prc E)) (db w) (\<lambda>b. bl_liftedAt b = None \<and> (bl_blockerId b = u \<or> bl_blockedId b = u))) \<longleftrightarrow>
   active_block (view (db w)) u p"
  by (auto simp: blockedUserIds_def active_block_def prisma.block.set_findMany image_iff)

lemma listMatches_run:
  "\<exists>ms. mset ms = mset (filter (visible (view (db w)) u) (tb_matches (view (db w)))) \<and>
     sorted (map (\<lambda>m. - ma_createdAt m) ms) \<and>
     (case run_state (listMatches E u) w of (items, w') \<Rightarrow> w' = w \<and> list_all2 (item_of (view (db w)) u) ms items)"
proof -
  let ?mine = "\<lambda>m. ma_userAId m = u \<or> ma_userBId m = u"
  let ?partner = "\<lambda>m. partnerId (side_of u m) m"
  define blocked where "blocked = blockedUserIds u (dg_findMany (pr_block (prc E)) (db w) (\<lambda>b. bl_liftedAt b = None \<and> (bl_blockerId b = u \<or> bl_blockedId b = u)))"
  obtain rs where rs: "mset rs = mset (filter ?mine (tb_matches (view (db w))))" "sorted (map (\<lambda>m. - ma_createdAt m) rs)"
    "dg_findLatest (pr_match (prc E)) (db w) ?mine None = rs"
    using prisma.match.findLatest [of ?mine "db w" None] by auto
  define ms where "ms = filter (\<lambda>m. ?partner m \<notin> blocked) rs"
  have v: "filter (\<lambda>(partner, m). partner \<notin> blocked) (map (\<lambda>m. (?partner m, m)) rs) = map (\<lambda>m. (?partner m, m)) ms"
    by (simp add: ms_def filter_map comp_def)
  define ids where "ids = remdups (map fst (filter (\<lambda>(partner, m). acknowledgedAt (side_of u m) m \<noteq> None) (map (\<lambda>m. (?partner m, m)) ms)))"
  define reveals where "reveals = (if length ids > 0
    then map_of (rev (map (\<lambda>x. (us_id x, buildPartnerReveal x)) (dg_findMany (pr_user (prc E)) (db w) (\<lambda>x. us_id x \<in> set ids)))) else (\<lambda>_. None))"
  define item where "item m = \<lparr>mi_matchId = ma_id m, mi_revealAcknowledged = (acknowledgedAt (side_of u m) m \<noteq> None),
    mi_revealAcknowledgedAt = map_option date_iso (acknowledgedAt (side_of u m) m),
    mi_partnerReveal = (if acknowledgedAt (side_of u m) m \<noteq> None then reveals (?partner m) else None)\<rparr>" for m
  have run_it: "run_state (listMatches E u) w = (map item ms, w)"
    unfolding listMatches_def Let_def
    by (cases "0 < length ids") (simp_all only: run State_Monad.run_state_bind State_Monad.run_state_return prod.case rs(3) v blocked_def [symmetric] ids_def [symmetric] if_True if_False
      reveals_def map_map comp_def item_def [abs_def])
  have "item_of (view (db w)) u m (item m)" if "m \<in> set ms" for m
  proof (cases "hasRevealAcknowledged m u")
    case False
    then show ?thesis using acknowledgedAt_side [of u m] by (simp add: item_of_def item_def)
  next
    case True
    then have a: "acknowledgedAt (side_of u m) m \<noteq> None" by (simp only: acknowledgedAt_side)
    with that have i: "?partner m \<in> set ids" by (force simp: ids_def)
    then have "length ids > 0" by (cases ids) auto
    then have r: "reveals = map_of (rev (map (\<lambda>x. (us_id x, buildPartnerReveal x)) (dg_findMany (pr_user (prc E)) (db w) (\<lambda>x. us_id x \<in> set ids))))"
      by (simp add: reveals_def)
    show ?thesis
    proof (cases "reveals (?partner m)")
      case None
      then have "us_id x \<noteq> ?partner m" if "x \<in> set (tb_users (view (db w)))" for x
        using that i unfolding r map_of_rows(2) prisma.user.set_findMany by auto
      with None a True show ?thesis by (simp add: item_of_def item_def)
    next
      case (Some x)
      from map_of_rows(1) [OF Some [unfolded r]] a True Some show ?thesis
        by (auto simp: item_of_def item_def prisma.user.set_findMany)
    qed
  qed
  then have "list_all2 (item_of (view (db w)) u) ms (map item ms)"
    by (simp add: list_all2_conv_all_nth)
  moreover have "mset ms = mset (filter (visible (view (db w)) u) (tb_matches (view (db w))))"
  proof -
    have "mset ms = filter_mset (\<lambda>m. ?partner m \<notin> blocked) (mset rs)" by (simp add: ms_def)
    also have "\<dots> = mset (filter (visible (view (db w)) u) (tb_matches (view (db w))))"
      unfolding rs(1) by (simp add: visible_def blocked_def blockedUserIds_iff filter_filter_mset conj_commute)
    finally show ?thesis .
  qed
  moreover have "sorted (map (\<lambda>m. - ma_createdAt m) ms)"
    unfolding ms_def using rs(2) by (simp add: sorted_map sorted_wrt_filter)
  ultimately show ?thesis by (intro exI [of _ ms]) (simp add: run_it)
qed

end

text \<open>
  C20: the list of matches of a user holds, newest first, exactly the matches that the user takes part in and whose other
  participant neither blocks the user nor is blocked. A partner is revealed exactly in the matches whose reveal the user
  acknowledged, and the list changes nothing.
\<close>

theorem matches_reveal_when_acknowledged:
  assumes "backend E zv sv other view"
  shows "\<exists>ms. mset ms = mset (filter (visible (view (db w)) u) (tb_matches (view (db w)))) \<and>
     sorted (map (\<lambda>m. - ma_createdAt m) ms) \<and>
     (case run_state (listMatches E u) w of (items, w') \<Rightarrow> w' = w \<and> list_all2 (item_of (view (db w)) u) ms items)"
  by (rule backend.listMatches_run [OF assms])

section \<open>Witnesses\<close>

definition a_match :: "int option \<Rightarrow> match_row" where
  "a_match t = \<lparr>ma_id = ''m'', ma_createdAt = 0, ma_userAId = ''a'', ma_userBId = ''b'', ma_userARevealAcknowledgedAt = t, ma_userBRevealAcknowledgedAt = None\<rparr>"

definition chat_world :: "int option \<Rightarrow> (inmem, tables) world" where
  "chat_world t = (queue_world False)\<lparr>db := no_tables\<lparr>tb_users := [user_with ''a'' 3, user_with ''b'' 3], tb_matches := [a_match t]\<rparr>\<rparr>"

lemma chat_world_simps: "tb_matches (db (chat_world t)) = [a_match t]" "tb_blocks (db (chat_world t)) = []" "ma_id (a_match t) = ''m''"
  by (simp_all add: chat_world_def a_match_def no_tables_def)

lemma message_needs_consent_witness:
  "\<exists>x w'. run_state (sendMessage bare_env ''m'' ''a'' '' hi '') (chat_world (Some 1)) = (Inr x, w') \<and> ms_text x = ''hi'' \<and>
     tb_messages (db w') = tb_messages (db (chat_world (Some 1))) @ [x]"
proof -
  have t: "trim '' hi '' = ''hi''" by (simp add: trim_def js_space_def)
  have m: "may_chat (db (chat_world (Some 1))) ''a'' (a_match (Some 1))"
    by (simp add: may_chat_def hasRevealAcknowledged_def active_block_def chat_world_simps) (simp add: a_match_def)
  show ?thesis
    using message_needs_consent [OF bare_backend, of "chat_world (Some 1)" "'' hi ''" "''m''" "''a''"] t m
    by (auto simp: chat_world_simps split: prod.splits sum.splits)
qed

lemma matches_reveal_when_acknowledged_witness:
  "\<exists>it w'. run_state (listMatches bare_env ''b'') (chat_world (Some 1)) = ([it], w') \<and> mi_matchId it = ''m'' \<and> mi_partnerReveal it = None"
proof -
  have v: "visible (db (chat_world (Some 1))) ''b'' (a_match (Some 1))"
    by (simp add: visible_def active_block_def chat_world_simps) (simp add: a_match_def)
  have i: "mi_matchId it = ''m'' \<and> mi_partnerReveal it = None" if "item_of d ''b'' (a_match (Some 1)) it" for d it
    using that by (auto simp: item_of_def hasRevealAcknowledged_def a_match_def split: option.splits)
  obtain ms where "mset ms = mset [a_match (Some 1)]" "case run_state (listMatches bare_env ''b'') (chat_world (Some 1)) of
      (items, w') \<Rightarrow> w' = chat_world (Some 1) \<and> list_all2 (item_of (db (chat_world (Some 1))) ''b'') ms items"
    using matches_reveal_when_acknowledged [OF bare_backend, of "chat_world (Some 1)" "''b''"] v by (auto simp: chat_world_simps)
  then show ?thesis using i by (auto simp: list_all2_Cons1 split: prod.splits)
qed

end
