(* ===== verification/Guards.thy ===== *)
theory Guards
  imports Gateways
begin

text \<open>
  The guards of the HTTP routes: \<open>src/src/auth/jwt.strategy.ts\<close>, \<open>src/src/auth/roles.guard.ts\<close> and
  \<open>src/src/auth/request-user.ts\<close>.
\<close>

section \<open>The strategy of the access tokens\<close>

definition jwtFromRequest :: "json option \<Rightarrow> string option" where
  "jwtFromRequest header =
    (case header of Some (JStr h) \<Rightarrow> if startsWith h ''Bearer '' then Some (drop 7 h) else None | _ \<Rightarrow> None)"

record access_payload =
  ac_sub :: "string option"
  ac_typ :: "string option"
  ac_role :: "string option"

record request_user =
  ru_sub :: "string option"
  ru_id :: "string option"
  ru_userId :: "string option"
  ru_role :: "string option"

definition validate :: "access_payload \<Rightarrow> exn + request_user" where
  "validate payload =
    (if \<not> truthy (ac_sub payload) \<or> truthy (ac_typ payload) \<and> ac_typ payload \<noteq> Some ''access''
     then Inl (Unauthorized ''Invalid access token'')
     else Inr \<lparr>ru_sub = ac_sub payload, ru_id = None, ru_userId = None,
       ru_role = Some (if ac_role payload = Some ''ADMIN'' then ''ADMIN'' else ''USER'')\<rparr>)"

section \<open>The user of a request\<close>

definition getRequestUserId :: "request_user option \<Rightarrow> exn + string" where
  "getRequestUserId user =
    (let userId = Option.bind user (\<lambda>u. or_else (ru_sub u) (or_else (ru_id u) (ru_userId u)))
     in if truthy userId then Inr (the userId) else Inl (Unauthorized ''Invalid access token''))"

definition getRequestUserRole :: "request_user option \<Rightarrow> user_role" where
  "getRequestUserRole user = (if Option.bind user ru_role = Some ''ADMIN'' then ADMIN else USER)"

section \<open>Roles\<close>

definition isAdminKeyFallbackAllowed :: "('r, 'd) env \<Rightarrow> bool" where
  "isAdminKeyFallbackAllowed E =
    (let value = env_var E ''MODERATION_ADMIN_KEY_FALLBACK'' in
     truthy value \<and> toLowerCase (trim (the value)) \<in> {''1'', ''true'', ''yes''})"

text \<open>The required roles of a route, the user of the request and its header \<open>x-admin-key\<close>.\<close>

definition canActivate ::
  "('r, 'd) env \<Rightarrow> user_role list option \<Rightarrow> request_user option \<Rightarrow> json option \<Rightarrow> exn + bool" where
  "canActivate E requiredRoles user adminKey =
    (case requiredRoles of
       None \<Rightarrow> Inr True
     | Some roles \<Rightarrow>
         if roles = [] then Inr True
         else if user = None then Inl (Unauthorized ''Authentication required'')
         else if getRequestUserRole user \<in> set roles then Inr True
         else if ADMIN \<in> set roles \<and> isAdminKeyFallbackAllowed E \<and> truthy (env_var E ''MODERATION_ADMIN_KEY'') \<and>
             (case adminKey of Some (JStr provided) \<Rightarrow> provided \<noteq> [] \<and> env_var E ''MODERATION_ADMIN_KEY'' = Some provided | _ \<Rightarrow> False)
         then Inr True
         else Inl (Forbidden ''Insufficient role''))"

text \<open>A route for administrators opens to the role ADMIN, and to the configured key when the fallback is on.\<close>

lemma admin_route:
  "canActivate E (Some [ADMIN]) user adminKey = Inr True \<longleftrightarrow>
    user \<noteq> None \<and> (Option.bind user ru_role = Some ''ADMIN'' \<or>
      isAdminKeyFallbackAllowed E \<and> (\<exists>k. k \<noteq> [] \<and> adminKey = Some (JStr k) \<and> env_var E ''MODERATION_ADMIN_KEY'' = Some k))"
  by (auto simp: canActivate_def getRequestUserRole_def split: option.split json.split if_splits)

lemma validated_role:
  "validate p = Inr u \<Longrightarrow> getRequestUserRole (Some u) = ADMIN \<longleftrightarrow> ac_role p = Some ''ADMIN''"
  by (auto simp: validate_def getRequestUserRole_def split: if_splits)

end
