(* ===== verification/Auth.thy ===== *)
theory Auth
  imports Security_Config Queue_Laws
begin

text \<open>
  \<open>src/src/auth/auth.service.ts\<close>: anonymous signup, the profile, phone and email, and the
  families of refresh tokens with their rotation. The package of the JSON web tokens and
  the verification service (Twilio) are parameters. Where the code selects columns of a row, the
  model returns the row. The cascades of the schema (blocks, appeals, push tokens) are not modelled.
\<close>

definition ACCESS_TOKEN_TTL :: string where "ACCESS_TOKEN_TTL = ''15m''"
definition REFRESH_TOKEN_TTL_DAYS :: int where "REFRESH_TOKEN_TTL_DAYS = 30"
definition REFRESH_COOKIE_NAME :: string where "REFRESH_COOKIE_NAME = ''refresh_token''"

section \<open>JSON web tokens\<close>

text \<open>\<open>signAsync claims { expiresIn, secret, jwtid }\<close> and \<open>verifyAsync token { secret }\<close>
  at a time; the error of a verification is its name.\<close>

record refresh_payload =
  pl_sub :: "string option"
  pl_fid :: "string option"
  pl_typ :: "string option"
  pl_jti :: "string option"

record jwt =
  jw_sign :: "(string \<times> json) list \<Rightarrow> string \<Rightarrow> string \<Rightarrow> string option \<Rightarrow> int \<Rightarrow> string"
  jw_verify :: "string \<Rightarrow> string \<Rightarrow> int \<Rightarrow> string + refresh_payload"

definition isJwtError :: "string \<Rightarrow> bool" where
  "isJwtError name \<longleftrightarrow> name \<in> {''TokenExpiredError'', ''JsonWebTokenError'', ''NotBeforeError''}"

definition hashToken :: "('r, 'd) env \<Rightarrow> string \<Rightarrow> string" where
  "hashToken E token = sha256_hex E token"

definition refreshExpiry :: "int \<Rightarrow> int" where
  "refreshExpiry now = now + REFRESH_TOKEN_TTL_DAYS * 24 * 60 * 60 * 1000"

definition getUserRole :: "('r, 'd) env \<Rightarrow> string \<Rightarrow> (('r, 'd) world, user_role) fprog" where
  "getUserRole E userId = do {
     user \<leftarrow> query (\<lambda>d. dg_findFirst (pr_user (prc E)) d (\<lambda>u. us_id u = userId));
     case user of
       None \<Rightarrow> throw (Unauthorized ''User not found'')
     | Some u \<Rightarrow> ok (us_role u) }"

fun role_text :: "user_role \<Rightarrow> string" where
  "role_text USER = ''USER''"
| "role_text ADMIN = ''ADMIN''"

definition createAccessToken ::
  "('r, 'd) env \<Rightarrow> jwt \<Rightarrow> string \<Rightarrow> user_role option \<Rightarrow> (('r, 'd) world, string) fprog" where
  "createAccessToken E J userId role =
    andThen (case role of None \<Rightarrow> getUserRole E userId | Some r \<Rightarrow> ok r) (\<lambda>resolvedRole.
      andThen (ret (getAccessTokenSecret E)) (\<lambda>secret. do {
        now \<leftarrow> date_now;
        ok (jw_sign J [(''sub'', JStr userId), (''typ'', JStr ''access''), (''role'', JStr (role_text resolvedRole))]
          ACCESS_TOKEN_TTL secret None now) }))"

definition createRefreshToken ::
  "('r, 'd) env \<Rightarrow> jwt \<Rightarrow> string \<Rightarrow> string \<Rightarrow> string \<Rightarrow> (('r, 'd) world, string) fprog" where
  "createRefreshToken E J userId familyId tokenId =
    andThen (ret (getRefreshTokenSecret E)) (\<lambda>secret. do {
      now \<leftarrow> date_now;
      ok (jw_sign J [(''sub'', JStr userId), (''fid'', JStr familyId), (''typ'', JStr ''refresh'')]
        (show_int REFRESH_TOKEN_TTL_DAYS @ ''d'') secret (Some tokenId) now) })"

definition verifyRefreshToken :: "('r, 'd) env \<Rightarrow> jwt \<Rightarrow> string \<Rightarrow> (('r, 'd) world, refresh_payload) fprog" where
  "verifyRefreshToken E J token =
    andThen (ret (getRefreshTokenSecret E)) (\<lambda>secret. do {
      now \<leftarrow> date_now;
      case jw_verify J token secret now of
        Inl name \<Rightarrow> throw (if isJwtError name then Unauthorized ''Invalid or expired refresh token'' else JsError name)
      | Inr payload \<Rightarrow>
          if pl_typ payload \<noteq> Some ''refresh'' \<or> \<not> truthy (pl_sub payload) \<or> \<not> truthy (pl_fid payload) \<or> \<not> truthy (pl_jti payload)
          then throw (Unauthorized ''Invalid refresh token'') else ok payload })"

section \<open>Refresh tokens\<close>

record tokens =
  tk_accessToken :: string
  tk_refreshToken :: string

definition new_refresh ::
  "('r, 'd) env \<Rightarrow> string \<Rightarrow> string \<Rightarrow> string \<Rightarrow> string \<Rightarrow> string option \<Rightarrow> string option \<Rightarrow> int \<Rightarrow> refresh_row" where
  "new_refresh E i userId familyId token userAgent ipAddress now = \<lparr>rt_id = i, rt_createdAt = now, rt_userId = userId,
     rt_tokenHash = hashToken E token, rt_familyId = familyId, rt_expiresAt = refreshExpiry now, rt_revokedAt = None,
     rt_replacedById = None, rt_userAgent = userAgent, rt_ipAddress = ipAddress, rt_lastUsedAt = Some now, rt_sessionName = None\<rparr>"

definition insertRefresh :: "('r, 'd) env \<Rightarrow> refresh_row \<Rightarrow> (('r, 'd) world, refresh_row) fprog" where
  "insertRefresh E row = mutate (\<lambda>d. dg_create (pr_refreshToken (prc E)) d (\<lambda>_. row))"

text \<open>\<open>updateMany\<close> of the rows that are not revoked: what revokes a family, or all tokens of a user.\<close>

definition revokeTokens :: "('r, 'd) env \<Rightarrow> (refresh_row \<Rightarrow> bool) \<Rightarrow> int \<Rightarrow> (('r, 'd) world, nat) prog" where
  "revokeTokens E p now = mutate (\<lambda>d. dg_updateMany (pr_refreshToken (prc E)) d (\<lambda>t. p t \<and> rt_revokedAt t = None)
     (\<lambda>t. t\<lparr>rt_revokedAt := Some now, rt_lastUsedAt := Some now\<rparr>))"

definition issueTokens ::
  "('r, 'd) env \<Rightarrow> jwt \<Rightarrow> string \<Rightarrow> string option \<Rightarrow> string option \<Rightarrow> string option \<Rightarrow> user_role option \<Rightarrow>
   (('r, 'd) world, tokens) fprog" where
  "issueTokens E J userId family userAgent ipAddress role = do {
     now \<leftarrow> date_now;
     familyId \<leftarrow> (case family of None \<Rightarrow> randomUUID E | Some f \<Rightarrow> ret f);
     refreshTokenId \<leftarrow> randomUUID E;
     andThen (createRefreshToken E J userId familyId refreshTokenId) (\<lambda>refreshToken.
     andThen (insertRefresh E (new_refresh E refreshTokenId userId familyId refreshToken userAgent ipAddress now)) (\<lambda>_.
     andThen (createAccessToken E J userId role) (\<lambda>accessToken.
       ok \<lparr>tk_accessToken = accessToken, tk_refreshToken = refreshToken\<rparr>))) }"

text \<open>\<open>RefreshReuseError\<close>, which nothing else in the transaction throws.\<close>

definition refresh_reuse :: exn where "refresh_reuse = JsError ''Refresh token already used''"

text \<open>The body of the transaction of \<open>refreshSession\<close>.\<close>

definition rotate ::
  "('r, 'd) env \<Rightarrow> jwt \<Rightarrow> string \<Rightarrow> string \<Rightarrow> refresh_row \<Rightarrow> string option \<Rightarrow> string option \<Rightarrow> (('r, 'd) world, tokens) fprog" where
  "rotate E J userId familyId stored userAgent ipAddress = do {
     now \<leftarrow> date_now;
     nextTokenId \<leftarrow> randomUUID E;
     andThen (createRefreshToken E J userId familyId nextTokenId) (\<lambda>nextToken. do {
       updated \<leftarrow> mutate (\<lambda>d. dg_updateMany (pr_refreshToken (prc E)) d (\<lambda>t. rt_id t = rt_id stored \<and> rt_revokedAt t = None)
         (\<lambda>t. t\<lparr>rt_revokedAt := Some now, rt_replacedById := Some nextTokenId, rt_lastUsedAt := Some now\<rparr>));
       if updated \<noteq> 1 then throw refresh_reuse
       else andThen (insertRefresh E (new_refresh E nextTokenId userId (rt_familyId stored) nextToken userAgent ipAddress now)) (\<lambda>_.
         andThen (createAccessToken E J userId None) (\<lambda>accessToken.
           ok \<lparr>tk_accessToken = accessToken, tk_refreshToken = nextToken\<rparr>)) }) }"

definition refreshSession ::
  "('r, 'd) env \<Rightarrow> jwt \<Rightarrow> string \<Rightarrow> string option \<Rightarrow> string option \<Rightarrow> (('r, 'd) world, tokens) fprog" where
  "refreshSession E J refreshToken userAgent ipAddress =
    andThen (verifyRefreshToken E J refreshToken) (\<lambda>payload. do {
      let tokenId = the (pl_jti payload);
      let sub = the (pl_sub payload);
      let fid = the (pl_fid payload);
      now \<leftarrow> date_now;
      let tokenHash = hashToken E refreshToken;
      found \<leftarrow> query (\<lambda>d. dg_findFirst (pr_refreshToken (prc E)) d (\<lambda>t. rt_id t = tokenId));
      case found of
        None \<Rightarrow> throw (Unauthorized ''Invalid refresh token'')
      | Some stored \<Rightarrow>
          if rt_userId stored \<noteq> sub \<or> rt_familyId stored \<noteq> fid
          then do {
            (if rt_familyId stored \<noteq> []
             then do { revokeTokens E (\<lambda>t. rt_familyId t = rt_familyId stored) now; ret () } else ret ());
            throw (Unauthorized ''Invalid refresh token'') }
          else if rt_tokenHash stored \<noteq> tokenHash
          then do {
            revokeTokens E (\<lambda>t. rt_familyId t = rt_familyId stored) now;
            throw (Unauthorized ''Invalid refresh token'') }
          else if rt_revokedAt stored \<noteq> None
          then do {
            revokeTokens E (\<lambda>t. rt_familyId t = rt_familyId stored) now;
            throw (Unauthorized ''Refresh token reused'') }
          else if rt_expiresAt stored \<le> now
          then andThen (mutate (\<lambda>d. dg_update (pr_refreshToken (prc E)) d (\<lambda>t. rt_id t = rt_id stored)
              (\<lambda>t. t\<lparr>rt_revokedAt := Some now, rt_lastUsedAt := Some now\<rparr>)))
            (\<lambda>_. throw (Unauthorized ''Refresh token expired''))
          else try_catch (transaction E (rotate E J sub fid stored userAgent ipAddress))
            (\<lambda>error. if error = refresh_reuse
              then do {
                revokeTokens E (\<lambda>t. rt_familyId t = rt_familyId stored) now;
                throw (Unauthorized ''Refresh token already used'') }
              else throw error) })"

definition logoutAll :: "('r, 'd) env \<Rightarrow> string \<Rightarrow> (('r, 'd) world, unit) prog" where
  "logoutAll E userId = do {
     now \<leftarrow> date_now;
     revokeTokens E (\<lambda>t. rt_userId t = userId) now;
     ret () }"

definition revokeFamilyTx :: "('r, 'd) env \<Rightarrow> string \<Rightarrow> int \<Rightarrow> (('r, 'd) world, unit) prog" where
  "revokeFamilyTx E familyId now = do { revokeTokens E (\<lambda>t. rt_familyId t = familyId) now; ret () }"

section \<open>Cookies\<close>

record cookie_options =
  ck_httpOnly :: bool
  ck_secure :: bool
  ck_sameSite :: string
  ck_domain :: "string option"
  ck_path :: string
  ck_maxAge :: int

definition getRefreshCookieOptions :: "('r, 'd) env \<Rightarrow> cookie_options" where
  "getRefreshCookieOptions E =
    (let isProd = (env_var E ''NODE_ENV'' = Some ''production'');
         maxAge = REFRESH_TOKEN_TTL_DAYS * 24 * 60 * 60 * 1000;
         rawSameSite = map_option toLowerCase (env_var E ''REFRESH_COOKIE_SAMESITE'');
         sameSite = (if rawSameSite = Some ''lax'' \<or> rawSameSite = Some ''none'' \<or> rawSameSite = Some ''strict''
           then the rawSameSite else ''strict'');
         domain = map_option trim (env_var E ''REFRESH_COOKIE_DOMAIN'')
     in \<lparr>ck_httpOnly = True, ck_secure = (isProd \<or> sameSite = ''none''), ck_sameSite = sameSite,
         ck_domain = (if truthy domain then domain else None), ck_path = ''/auth/refresh'', ck_maxAge = maxAge\<rparr>)"

text \<open>The name, the value (\<open>None\<close> clears the cookie) and the options given to the response.\<close>

definition setRefreshCookie :: "('r, 'd) env \<Rightarrow> string \<Rightarrow> string \<times> string option \<times> cookie_options" where
  "setRefreshCookie E token = (REFRESH_COOKIE_NAME, Some token, getRefreshCookieOptions E)"

definition clearRefreshCookie :: "('r, 'd) env \<Rightarrow> string \<times> string option \<times> cookie_options" where
  "clearRefreshCookie E = (REFRESH_COOKIE_NAME, None, getRefreshCookieOptions E)"

section \<open>Signup\<close>

text \<open>Year, month (from 0) and day (from 0) of a time, in UTC; a day before 1970 is counted from the
  first day of the year 0.\<close>

definition year_of_day :: "int \<Rightarrow> nat \<times> nat" where
  "year_of_day day =
    (let base = (if day < 0 then 0 else 1970) in
     civil_year base (nat (day - days_to_year base)))"

definition utc_date :: "int \<Rightarrow> nat \<times> nat \<times> nat" where
  "utc_date t = (let (y, n) = year_of_day (t div 86400000); (m, d) = civil_month (month_lengths y) n in (y, m, d))"

definition calculateAge :: "int \<Rightarrow> int \<Rightarrow> int" where
  "calculateAge dateOfBirth now =
    (let (y, m, d) = utc_date now; (by, bm, bd) = utc_date dateOfBirth;
         age = int y - int by; monthDiff = int m - int bm
     in if monthDiff < 0 \<or> monthDiff = 0 \<and> d < bd then age - 1 else age)"

text \<open>\<open>new Date(s)\<close> on the two formats of a birthday: a date, and a date with a time in UTC.\<close>

definition parse_birthday :: "string \<Rightarrow> int option" where
  "parse_birthday s = (if length s = 10 then date_parse (s @ ''T00:00:00.000Z'') else date_parse s)"

record signup_input =
  su_dateOfBirth :: "string option"
  su_consents :: "(string \<times> json) list option"
  su_privacyNoticeVersion :: "string option"
  su_tosVersion :: "string option"

text \<open>The consents of the user with the time of their acceptance.\<close>

definition accepted :: "(string \<times> json) list \<Rightarrow> int \<Rightarrow> json" where
  "accepted consents now =
    (let acceptedAt = (case map_of (rev consents) ''acceptedAt'' of None \<Rightarrow> JStr (date_iso now) | Some JNull \<Rightarrow> JStr (date_iso now)
       | Some j \<Rightarrow> j)
     in JObj (AList.update ''acceptedAt'' acceptedAt consents))"

definition new_user :: "int option \<Rightarrow> int option \<Rightarrow> json option \<Rightarrow> string option \<Rightarrow> string option \<Rightarrow> int \<Rightarrow> string \<Rightarrow> user_row" where
  "new_user dateOfBirth ageVerifiedAt consents privacy tos now i = \<lparr>us_id = i, us_createdAt = now, us_role = USER,
     us_displayName = None, us_photos = None, us_bio = None, us_age = None, us_gender = None, us_interests = [],
     us_dateOfBirth = dateOfBirth, us_ageVerifiedAt = ageVerifiedAt, us_consents = consents,
     us_privacyNoticeVersion = privacy, us_tosVersion = tos, us_phone = None, us_email = None, us_tokenBalance = 0\<rparr>"

text \<open>The check of the birthday: the date and the time of the check, if a date is given.\<close>

definition checkBirthday :: "string option \<Rightarrow> int \<Rightarrow> exn + int option" where
  "checkBirthday input now =
    (if \<not> truthy input then Inr None
     else (case parse_birthday (the input) of
         None \<Rightarrow> Inl (BadRequest ''Invalid date of birth'')
       | Some dob \<Rightarrow> if calculateAge dob now < 18 then Inl (BadRequest ''Must be 18 or older'') else Inr (Some dob)))"

definition signupAnonymous ::
  "('r, 'd) env \<Rightarrow> jwt \<Rightarrow> string option \<Rightarrow> string option \<Rightarrow> signup_input \<Rightarrow> (('r, 'd) world, user_row \<times> tokens) fprog" where
  "signupAnonymous E J userAgent ipAddress input = do {
     now \<leftarrow> date_now;
     andThen (ret (checkBirthday (su_dateOfBirth input) now)) (\<lambda>dateOfBirth.
       let ageVerifiedAt = map_option (\<lambda>_. now) dateOfBirth;
           consents = map_option (\<lambda>c. accepted c now) (su_consents input)
       in andThen (mutate (\<lambda>d. dg_create (pr_user (prc E)) d
            (new_user dateOfBirth ageVerifiedAt consents (su_privacyNoticeVersion input) (su_tosVersion input) now))) (\<lambda>user.
          andThen (issueTokens E J (us_id user) None userAgent ipAddress (Some (us_role user))) (\<lambda>tokens. do {
            emit (Track (Some (us_id user)) ''auth_signup_completed''
              [(''hasDob'', JBool (dateOfBirth \<noteq> None)), (''hasConsents'', JBool (consents \<noteq> None))]);
            ok (user, tokens) }))) }"

section \<open>The user\<close>

definition getCurrentUser :: "('r, 'd) env \<Rightarrow> string \<Rightarrow> (('r, 'd) world, user_row) fprog" where
  "getCurrentUser E userId = do {
     user \<leftarrow> query (\<lambda>d. dg_findFirst (pr_user (prc E)) d (\<lambda>u. us_id u = userId));
     case user of None \<Rightarrow> throw (NotFound ''User not found'') | Some u \<Rightarrow> ok u }"

record user_export =
  ex_user :: user_row
  ex_matches :: "match_row list"
  ex_sessions :: "session_row list"
  ex_messages :: "message_row list"
  ex_tokenTransactions :: "tx_row list"
  ex_reportsMade :: "report_row list"
  ex_reportsReceived :: "report_row list"
  ex_pushTokens :: "push_row list"

definition exportUserData :: "('r, 'd) env \<Rightarrow> string \<Rightarrow> (('r, 'd) world, user_export) fprog" where
  "exportUserData E userId = do {
     user \<leftarrow> query (\<lambda>d. dg_findFirst (pr_user (prc E)) d (\<lambda>u. us_id u = userId));
     case user of
       None \<Rightarrow> throw (NotFound ''User not found'')
     | Some u \<Rightarrow> do {
         matches \<leftarrow> query (\<lambda>d. dg_findMany (pr_match (prc E)) d (\<lambda>m. ma_userAId m = userId \<or> ma_userBId m = userId));
         sessions \<leftarrow> query (\<lambda>d. dg_findMany (pr_session (prc E)) d (\<lambda>s. se_userAId s = userId \<or> se_userBId s = userId));
         messages \<leftarrow> query (\<lambda>d. dg_findMany (pr_message (prc E)) d (\<lambda>m. ms_senderId m = userId));
         txs \<leftarrow> query (\<lambda>d. dg_findMany (pr_tokenTransaction (prc E)) d (\<lambda>t. tt_userId t = userId));
         made \<leftarrow> query (\<lambda>d. dg_findMany (pr_moderationReport (prc E)) d (\<lambda>r. rp_reporterId r = userId));
         received \<leftarrow> query (\<lambda>d. dg_findMany (pr_moderationReport (prc E)) d (\<lambda>r. rp_reportedUserId r = userId));
         push \<leftarrow> query (\<lambda>d. dg_findMany (pr_pushToken (prc E)) d (\<lambda>t. pt_userId t = userId));
         ok \<lparr>ex_user = u, ex_matches = matches, ex_sessions = sessions, ex_messages = messages, ex_tokenTransactions = txs,
           ex_reportsMade = made, ex_reportsReceived = received, ex_pushTokens = push\<rparr> } }"

record profile_input =
  pi_displayName :: "string option"
  pi_age :: "int option option"
  pi_gender :: "string option"
  pi_bio :: "string option"
  pi_interests :: "string list option"
  pi_photos :: "string list option"

definition or_null :: "string \<Rightarrow> string option" where
  "or_null s = (if length s > 0 then Some s else None)"

definition trimmed_entries :: "string list \<Rightarrow> string list" where
  "trimmed_entries xs = filter (\<lambda>v. length v > 0) (map trim xs)"

text \<open>The columns that are given are set, the others stay; the age can be given as \<open>null\<close>.\<close>

definition with_profile :: "profile_input \<Rightarrow> user_row \<Rightarrow> user_row" where
  "with_profile input u = u\<lparr>
     us_displayName := (case pi_displayName input of None \<Rightarrow> us_displayName u | Some s \<Rightarrow> or_null (trim s)),
     us_age := (case pi_age input of None \<Rightarrow> us_age u | Some a \<Rightarrow> a),
     us_gender := (case pi_gender input of None \<Rightarrow> us_gender u | Some s \<Rightarrow> or_null (trim s)),
     us_bio := (case pi_bio input of None \<Rightarrow> us_bio u | Some s \<Rightarrow> or_null (trim s)),
     us_interests := (case pi_interests input of None \<Rightarrow> us_interests u | Some xs \<Rightarrow> trimmed_entries xs),
     us_photos := (case pi_photos input of None \<Rightarrow> us_photos u
       | Some xs \<Rightarrow> let photos = trimmed_entries xs in Some (if length photos > 0 then JArr (map JStr photos) else JNull))\<rparr>"

definition updateCurrentUser :: "('r, 'd) env \<Rightarrow> string \<Rightarrow> profile_input \<Rightarrow> (('r, 'd) world, user_row) fprog" where
  "updateCurrentUser E userId input =
    try_catch (mutate (\<lambda>d. dg_update (pr_user (prc E)) d (\<lambda>u. us_id u = userId) (with_profile input)))
      (\<lambda>error. throw (if error = PrismaP2025 then NotFound ''User not found'' else error))"

definition deleteAccount :: "('r, 'd) env \<Rightarrow> string \<Rightarrow> (('r, 'd) world, unit) fprog" where
  "deleteAccount E userId = transaction E (do {
     mutate (\<lambda>d. dg_deleteMany (pr_refreshToken (prc E)) d (\<lambda>t. rt_userId t = userId));
     mutate (\<lambda>d. dg_deleteMany (pr_pushToken (prc E)) d (\<lambda>t. pt_userId t = userId));
     mutate (\<lambda>d. dg_deleteMany (pr_tokenTransaction (prc E)) d (\<lambda>t. tt_userId t = userId));
     mutate (\<lambda>d. dg_deleteMany (pr_moderationEvent (prc E)) d (\<lambda>e. me_userId e = userId));
     mutate (\<lambda>d. dg_deleteMany (pr_moderationReport (prc E)) d (\<lambda>r. rp_reporterId r = userId \<or> rp_reportedUserId r = userId));
     mutate (\<lambda>d. dg_deleteMany (pr_message (prc E)) d (\<lambda>m. ms_senderId m = userId));
     mutate (\<lambda>d. dg_deleteMany (pr_session (prc E)) d (\<lambda>s. se_userAId s = userId \<or> se_userBId s = userId));
     mutate (\<lambda>d. dg_deleteMany (pr_match (prc E)) d (\<lambda>m. ma_userAId m = userId \<or> ma_userBId m = userId));
     andThen (mutate (\<lambda>d. dg_delete (pr_user (prc E)) d (\<lambda>u. us_id u = userId))) (\<lambda>_. ok ()) })"

section \<open>Phone and email\<close>

definition normalizeEmail :: "string \<Rightarrow> string option" where
  "normalizeEmail value = (let email = toLowerCase (trim value) in if length email > 0 then Some email else None)"

definition normalizePhone :: "string \<Rightarrow> string option" where
  "normalizePhone value = (let cleaned = filter (\<lambda>c. is_digit c \<or> c = CHR ''+'') value
     in if length cleaned \<ge> 8 then Some cleaned else None)"

text \<open>
  The request to the verification service, before its encoding, and its answer:
  \<open>response.ok\<close> and the status of the body.
\<close>

record verification_check =
  vc_serviceSid :: string
  vc_accountSid :: string
  vc_authToken :: string
  vc_to :: string
  vc_code :: string

definition assertVerificationCodeValid ::
  "('r, 'd) env \<Rightarrow> (verification_check \<Rightarrow> exn + bool \<times> string option) \<Rightarrow> string \<Rightarrow> string \<Rightarrow> exn + unit" where
  "assertVerificationCodeValid E twilio identifier code =
    (let trimmedCode = trim code in
     if length trimmedCode = 0 then Inl (BadRequest ''Verification code is required'')
     else (let accountSid = map_option trim (env_var E ''TWILIO_ACCOUNT_SID'');
               authToken = map_option trim (env_var E ''TWILIO_AUTH_TOKEN'');
               serviceSid = map_option trim (env_var E ''TWILIO_VERIFY_SERVICE_SID'')
       in if \<not> truthy accountSid \<or> \<not> truthy authToken \<or> \<not> truthy serviceSid
          then (if env_var E ''NODE_ENV'' = Some ''production''
                then Inl (InternalServerError ''Verification provider is not configured'') else Inr ())
          else (case twilio \<lparr>vc_serviceSid = the serviceSid, vc_accountSid = the accountSid, vc_authToken = the authToken,
                  vc_to = identifier, vc_code = trimmedCode\<rparr> of
                Inl error \<Rightarrow> Inl error
              | Inr (responseOk, status) \<Rightarrow>
                  if \<not> responseOk \<or> status \<noteq> Some ''approved'' then Inl (Unauthorized ''Invalid verification code'') else Inr ())))"

definition verifyPhone ::
  "('r, 'd) env \<Rightarrow> (verification_check \<Rightarrow> exn + bool \<times> string option) \<Rightarrow> string \<Rightarrow> string \<Rightarrow> string \<Rightarrow>
   (('r, 'd) world, user_row) fprog" where
  "verifyPhone E twilio userId phoneRaw code =
    (case normalizePhone phoneRaw of
       None \<Rightarrow> throw (BadRequest ''Invalid phone number'')
     | Some phone \<Rightarrow> andThen (ret (assertVerificationCodeValid E twilio phone code)) (\<lambda>_.
         try_catch (mutate (\<lambda>d. dg_update (pr_user (prc E)) d (\<lambda>u. us_id u = userId) (\<lambda>u. u\<lparr>us_phone := Some phone\<rparr>)))
           (\<lambda>error. throw (if error = PrismaP2002 then Conflict ''Phone already in use'' else error))))"

definition verifyEmail ::
  "('r, 'd) env \<Rightarrow> (verification_check \<Rightarrow> exn + bool \<times> string option) \<Rightarrow> string \<Rightarrow> string \<Rightarrow> string \<Rightarrow>
   (('r, 'd) world, user_row) fprog" where
  "verifyEmail E twilio userId emailRaw code =
    (case normalizeEmail emailRaw of
       None \<Rightarrow> throw (BadRequest ''Invalid email address'')
     | Some email \<Rightarrow> andThen (ret (assertVerificationCodeValid E twilio email code)) (\<lambda>_.
         try_catch (mutate (\<lambda>d. dg_update (pr_user (prc E)) d (\<lambda>u. us_id u = userId) (\<lambda>u. u\<lparr>us_email := Some email\<rparr>)))
           (\<lambda>error. throw (if error = PrismaP2002 then Conflict ''Email already in use'' else error))))"

end
