(* ===== verification/Auth_Laws.thy ===== *)
theory Auth_Laws
  imports Auth
begin

text \<open>
  Lemmas on \<open>src/src/auth/auth.service.ts\<close>: the invariant of the families of refresh tokens and
  the operations that keep it, what a refresh does, and the tables after an account is deleted.
\<close>

section \<open>The tables of tokens\<close>

definition live :: "string \<Rightarrow> tables \<Rightarrow> nat" where
  "live fid d = count_rows (\<lambda>t. rt_familyId t = fid \<and> rt_revokedAt t = None) (tb_refreshTokens d)"

text \<open>
  Ids and hashes are unique, a family has at most one token that is not revoked, and every family has a
  name that \<open>randomUUID\<close> gave.
\<close>

definition families_wf :: "('r, 'd) env \<Rightarrow> nat \<Rightarrow> tables \<Rightarrow> bool" where
  "families_wf E n d \<longleftrightarrow> distinct (map rt_id (tb_refreshTokens d)) \<and> distinct (map rt_tokenHash (tb_refreshTokens d)) \<and> (\<forall>fid. live fid d \<le> 1) \<and>
     (\<forall>t \<in> set (tb_refreshTokens d). \<exists>m < n. rt_familyId t = random_uuid E m)"

text \<open>Revoking, deleting and forgetting keep the families.\<close>

lemma families_updated:
  assumes "families_wf E n d" and "\<And>t. rt_id (f t) = rt_id t \<and> rt_tokenHash (f t) = rt_tokenHash t \<and> rt_familyId (f t) = rt_familyId t \<and> rt_revokedAt (f t) \<noteq> None"
  shows "families_wf E n (tb_refreshTokens_update (update_rows p f) d)"
proof -
  have "live fid (tb_refreshTokens_update (update_rows p f) d) \<le> live fid d" for fid
    unfolding live_def by (simp, intro count_rows_update_le) (metis assms(2))
  then have "live fid (tb_refreshTokens_update (update_rows p f) d) \<le> 1" for fid
    using assms(1) by (meson families_wf_def le_trans)
  then show ?thesis
    using assms by (auto simp: families_wf_def map_update_rows set_update_rows)
qed

lemma families_deleted:
  assumes "families_wf E n d"
  shows "families_wf E n (tb_refreshTokens_update (filter p) d)"
proof -
  have "live fid (tb_refreshTokens_update (filter p) d) \<le> live fid d" for fid
    unfolding live_def by (simp add: count_rows_filter_le)
  then have "live fid (tb_refreshTokens_update (filter p) d) \<le> 1" for fid
    using assms by (meson families_wf_def le_trans)
  then show ?thesis
    using assms by (auto simp: families_wf_def distinct_map inj_on_def)
qed

lemma families_later: "families_wf E n d \<Longrightarrow> n \<le> m \<Longrightarrow> families_wf E m d"
  unfolding families_wf_def by (meson less_le_trans)

lemma families_other:
  "tb_refreshTokens d' = tb_refreshTokens d \<Longrightarrow> families_wf E n d' = families_wf E n d"
  by (simp add: families_wf_def live_def)

text \<open>A new row of a family without a live token.\<close>

definition new_row :: "refresh_row \<Rightarrow> refresh_row list \<Rightarrow> bool" where
  "new_row row rs \<longleftrightarrow> rt_id row \<notin> rt_id ` set rs \<and> rt_tokenHash row \<notin> rt_tokenHash ` set rs"

lemma new_row_updated:
  assumes "\<And>t. rt_id (f t) = rt_id t \<and> rt_tokenHash (f t) = rt_tokenHash t"
  shows "new_row row (update_rows p f rs) = new_row row rs"
proof -
  have "map rt_id (update_rows p f rs) = map rt_id rs" "map rt_tokenHash (update_rows p f rs) = map rt_tokenHash rs"
    using assms by (intro map_update_rows; simp)+
  then have "rt_id ` set (update_rows p f rs) = rt_id ` set rs" "rt_tokenHash ` set (update_rows p f rs) = rt_tokenHash ` set rs"
    by (metis list.set_map)+
  then show ?thesis by (simp only: new_row_def)
qed

lemma families_added:
  assumes "families_wf E n d" and "new_row row (tb_refreshTokens d)" and "live (rt_familyId row) d = 0"
    and "\<exists>m < n. rt_familyId row = random_uuid E m"
  shows "families_wf E n (tb_refreshTokens_update (\<lambda>rs. rs @ [row]) d)"
proof -
  have "live fid (tb_refreshTokens_update (\<lambda>rs. rs @ [row]) d) \<le> 1" for fid
    using assms(1,3) by (cases "fid = rt_familyId row") (auto simp: live_def count_rows_def families_wf_def)
  then show ?thesis using assms by (auto simp: families_wf_def new_row_def)
qed

lemma new_refresh_simps [simp]:
  "rt_id (new_refresh E i u f t ua ip now) = i" "rt_familyId (new_refresh E i u f t ua ip now) = f"
  "rt_userId (new_refresh E i u f t ua ip now) = u" "rt_revokedAt (new_refresh E i u f t ua ip now) = None"
  "rt_tokenHash (new_refresh E i u f t ua ip now) = hashToken E t" "rt_expiresAt (new_refresh E i u f t ua ip now) = refreshExpiry now"
  by (simp_all add: new_refresh_def)

text \<open>A payload that the verification accepts.\<close>

definition valid_payload :: "refresh_payload \<Rightarrow> bool" where
  "valid_payload p \<longleftrightarrow> pl_typ p = Some ''refresh'' \<and> truthy (pl_sub p) \<and> truthy (pl_fid p) \<and> truthy (pl_jti p)"

text \<open>The row of a payload and its token.\<close>

definition row_of :: "('r, 'd) env \<Rightarrow> refresh_payload \<Rightarrow> string \<Rightarrow> refresh_row \<Rightarrow> bool" where
  "row_of E p token t \<longleftrightarrow> pl_jti p = Some (rt_id t) \<and> pl_sub p = Some (rt_userId t) \<and> pl_fid p = Some (rt_familyId t) \<and>
     rt_tokenHash t = hashToken E token"

text \<open>The tables without a user and the rows that \<open>deleteAccount\<close> removes.\<close>

definition forget :: "string \<Rightarrow> tables \<Rightarrow> tables" where
  "forget u d = d\<lparr>tb_users := filter (\<lambda>x. us_id x \<noteq> u) (tb_users d), tb_refreshTokens := filter (\<lambda>t. rt_userId t \<noteq> u) (tb_refreshTokens d),
     tb_sessions := filter (\<lambda>s. se_userAId s \<noteq> u \<and> se_userBId s \<noteq> u) (tb_sessions d),
     tb_matches := filter (\<lambda>m. ma_userAId m \<noteq> u \<and> ma_userBId m \<noteq> u) (tb_matches d),
     tb_messages := filter (\<lambda>m. ms_senderId m \<noteq> u) (tb_messages d), tb_transactions := filter (\<lambda>t. tt_userId t \<noteq> u) (tb_transactions d),
     tb_moderationEvents := filter (\<lambda>e. me_userId e \<noteq> u) (tb_moderationEvents d),
     tb_reports := filter (\<lambda>r. rp_reporterId r \<noteq> u \<and> rp_reportedUserId r \<noteq> u) (tb_reports d),
     tb_pushTokens := filter (\<lambda>t. pt_userId t \<noteq> u) (tb_pushTokens d)\<rparr>"

context backend
begin

lemma revokeTokens_run:
  "\<exists>d. run_state (revokeTokens E p now) w = (count_rows (\<lambda>t. p t \<and> rt_revokedAt t = None) (tb_refreshTokens (view (db w))), w\<lparr>db := d\<rparr>) \<and>
    view d = tb_refreshTokens_update (update_rows (\<lambda>t. p t \<and> rt_revokedAt t = None)
      (\<lambda>t. t\<lparr>rt_revokedAt := Some now, rt_lastUsedAt := Some now\<rparr>)) (view (db w))"
  using prisma.refreshToken.updateMany [of "db w" "\<lambda>t. p t \<and> rt_revokedAt t = None" "\<lambda>t. t\<lparr>rt_revokedAt := Some now, rt_lastUsedAt := Some now\<rparr>"]
  unfolding revokeTokens_def run_commands uq_refresh_def by - (rule exI, rule conjI, simp, simp)

lemma revokeTokens_families:
  assumes "families_wf E n (view (db w))"
  shows "families_wf E n (view (db (snd (run_state (revokeTokens E p now) w)))) \<and> uuids (snd (run_state (revokeTokens E p now) w)) = uuids w"
proof -
  obtain d where "run_state (revokeTokens E p now) w = (count_rows (\<lambda>t. p t \<and> rt_revokedAt t = None) (tb_refreshTokens (view (db w))), w\<lparr>db := d\<rparr>)"
    "view d = tb_refreshTokens_update (update_rows (\<lambda>t. p t \<and> rt_revokedAt t = None)
      (\<lambda>t. t\<lparr>rt_revokedAt := Some now, rt_lastUsedAt := Some now\<rparr>)) (view (db w))"
    using revokeTokens_run [of p now w] by (elim exE conjE) (rule that)
  then show ?thesis using families_updated [OF assms] by simp
qed

lemma insertRefresh_run:
  "(\<exists>d. run_state (insertRefresh E row) w = (Inr row, w\<lparr>db := d\<rparr>) \<and>
     view d = tb_refreshTokens_update (\<lambda>rs. rs @ [row]) (view (db w)) \<and> new_row row (tb_refreshTokens (view (db w)))) \<or>
   (\<exists>d. run_state (insertRefresh E row) w = (Inl PrismaP2002, w\<lparr>db := d\<rparr>) \<and> view d = view (db w))"
proof (cases "\<exists>r \<in> set (tb_refreshTokens (view (db w))). uq_refresh r row")
  case True
  from prisma.refreshToken.create_conflict [of "db w" "\<lambda>_. row", OF this] show ?thesis
    unfolding insertRefresh_def run_commands by - (rule disjI2, rule exI, rule conjI, simp, simp)
next
  case False
  then have "\<forall>r \<in> set (tb_refreshTokens (view (db w))). \<not> uq_refresh r row" by blast
  moreover have "new_row row (tb_refreshTokens (view (db w)))" using False by (auto simp: uq_refresh_def new_row_def)
  ultimately show ?thesis
    using prisma.refreshToken.create_ok [of "db w" "\<lambda>_. row"]
    unfolding insertRefresh_def run_commands by - (rule disjI1, rule exI, rule conjI, simp, simp)
qed

lemma createAccessToken_frame: "\<exists>x. run_state (createAccessToken E J u role) w = (x, w)"
  by (auto simp: createAccessToken_def getUserRole_def run split: option.split sum.split)

lemma createRefreshToken_run:
  "run_state (createRefreshToken E J u f i) w = (case getRefreshTokenSecret E of Inl e \<Rightarrow> Inl e
     | Inr secret \<Rightarrow> Inr (jw_sign J [(''sub'', JStr u), (''fid'', JStr f), (''typ'', JStr ''refresh'')]
         (show_int REFRESH_TOKEN_TTL_DAYS @ ''d'') secret (Some i) (clock w)), w)"
  by (simp add: createRefreshToken_def run split: sum.split)

end

context backend
begin

abbreviation good :: "('r, 'd) world \<Rightarrow> bool" where
  "good w \<equiv> families_wf E (uuids w) (view (db w))"

lemma good_uuid [pres]: "preserves good (randomUUID E)"
  by (simp add: preserves_def run) (metis families_later le_SucI order_refl)

lemma good_emit [pres]: "preserves good (emit e)"
  by (simp add: preserves_def run)

lemma good_revoke [pres]: "preserves good (revokeTokens E p now)"
  using revokeTokens_families by (simp add: preserves_def)

lemma good_access [pres]: "preserves good (createAccessToken E J u role)"
  using createAccessToken_frame [of J u role] by (auto simp: preserves_def) (metis snd_conv)

lemma good_refresh [pres]: "preserves good (createRefreshToken E J u f i)"
  by (simp add: preserves_def createRefreshToken_run)

lemma good_verify [pres]: "preserves good (verifyRefreshToken E J token)"
  unfolding verifyRefreshToken_def by (intro pres)

text \<open>A new family.\<close>

lemma insertRefresh_good:
  assumes "good w" and "live (rt_familyId row) (view (db w)) = 0" and "\<exists>m < uuids w. rt_familyId row = random_uuid E m"
  shows "good (snd (run_state (insertRefresh E row) w))"
  using insertRefresh_run [of row w]
proof (elim disjE exE conjE)
  fix d
  assume "run_state (insertRefresh E row) w = (Inr row, w\<lparr>db := d\<rparr>)" "view d = tb_refreshTokens_update (\<lambda>rs. rs @ [row]) (view (db w))"
    "new_row row (tb_refreshTokens (view (db w)))"
  with families_added [OF assms(1) this(3) assms(2,3)] show ?thesis by simp
next
  fix d
  assume "run_state (insertRefresh E row) w = (Inl PrismaP2002, w\<lparr>db := d\<rparr>)" "view d = view (db w)"
  with assms(1) show ?thesis by simp
qed

lemma issueTokens_good [pres]: "preserves good (issueTokens E J u None ua ip role)"
  unfolding preserves_def
proof (intro allI impI)
  fix w
  assume g: "good w"
  let ?w = "w\<lparr>uuids := Suc (Suc (uuids w))\<rparr>"
  have g2: "good ?w" using families_later [OF g, of "Suc (Suc (uuids w))"] by simp
  have "live (random_uuid E (uuids w)) (view (db w)) = 0"
    using g uuid_inj by (fastforce simp: live_def count_rows_0 families_wf_def)
  then have i: "good (snd (run_state (insertRefresh E (new_refresh E i u (random_uuid E (uuids w)) token ua ip now)) ?w))" for i token now
    by (intro insertRefresh_good [OF g2]) (simp_all, rule exI [of _ "uuids w"], simp)
  show "good (snd (run_state (issueTokens E J u None ua ip role) w))"
  proof (cases "getRefreshTokenSecret E")
    case (Inl e)
    then show ?thesis using g2 by (simp add: issueTokens_def run createRefreshToken_run)
  next
    case (Inr secret)
    define t where "t = jw_sign J [(''sub'', JStr u), (''fid'', JStr (random_uuid E (uuids w))), (''typ'', JStr ''refresh'')]
         (show_int REFRESH_TOKEN_TTL_DAYS @ ''d'') secret (Some (random_uuid E (Suc (uuids w)))) (clock w)"
    define row where "row = new_refresh E (random_uuid E (Suc (uuids w))) u (random_uuid E (uuids w)) t ua ip (clock w)"
    obtain x w1 where w1: "run_state (insertRefresh E row) ?w = (x, w1)" by (cases "run_state (insertRefresh E row) ?w")
    have g1: "good w1" using i [of "random_uuid E (Suc (uuids w))" t "clock w"] w1 by (simp add: row_def)
    obtain y where y: "run_state (createAccessToken E J u role) w1 = (y, w1)"
      using createAccessToken_frame [of J u role w1] by blast
    have "snd (run_state (issueTokens E J u None ua ip role) w) = w1"
      using Inr w1 y by (cases x; cases y) (simp_all add: issueTokens_def run createRefreshToken_run t_def [symmetric] row_def [symmetric])
    with g1 show ?thesis by simp
  qed
qed

text \<open>The rotation of a token: its outcome, before the rollback.\<close>

lemma rotate_run:
  assumes ids: "distinct (map rt_id (tb_refreshTokens (view (db w))))" and s: "stored \<in> set (tb_refreshTokens (view (db w)))"
    and r: "run_state (rotate E J u f stored ua ip) w = (x, w')"
  shows "uuids w' = Suc (uuids w) \<and> rds w' = rds w \<and> clock w' = clock w \<and> (\<forall>tk. x = Inr tk \<longrightarrow> rt_revokedAt stored = None \<and>
    (\<exists>secret. getRefreshTokenSecret E = Inr secret \<and>
      tk_refreshToken tk = jw_sign J [(''sub'', JStr u), (''fid'', JStr f), (''typ'', JStr ''refresh'')]
         (show_int REFRESH_TOKEN_TTL_DAYS @ ''d'') secret (Some (random_uuid E (uuids w))) (clock w)) \<and>
    (let row = new_refresh E (random_uuid E (uuids w)) u (rt_familyId stored) (tk_refreshToken tk) ua ip (clock w)
     in new_row row (tb_refreshTokens (view (db w))) \<and>
        view (db w') = tb_refreshTokens_update (\<lambda>rs. update_rows (\<lambda>t. rt_id t = rt_id stored \<and> rt_revokedAt t = None)
          (\<lambda>t. t\<lparr>rt_revokedAt := Some (clock w), rt_replacedById := Some (random_uuid E (uuids w)), rt_lastUsedAt := Some (clock w)\<rparr>) rs @ [row])
          (view (db w))))"
proof (cases "getRefreshTokenSecret E")
  case (Inl e)
  then show ?thesis using r by (auto simp: rotate_def run createRefreshToken_run)
next
  case (Inr secret)
  let ?i = "random_uuid E (uuids w)"
  define t where "t = jw_sign J [(''sub'', JStr u), (''fid'', JStr f), (''typ'', JStr ''refresh'')]
         (show_int REFRESH_TOKEN_TTL_DAYS @ ''d'') secret (Some ?i) (clock w)"
  let ?p = "\<lambda>t. rt_id t = rt_id stored \<and> rt_revokedAt t = None"
  let ?f = "\<lambda>t. t\<lparr>rt_revokedAt := Some (clock w), rt_replacedById := Some ?i, rt_lastUsedAt := Some (clock w)\<rparr>"
  define d where "d = snd (dg_updateMany (pr_refreshToken (prc E)) (db w) ?p ?f)"
  have d: "fst (dg_updateMany (pr_refreshToken (prc E)) (db w) ?p ?f) = count_rows ?p (tb_refreshTokens (view (db w)))"
    "view d = tb_refreshTokens_update (update_rows ?p ?f) (view (db w))"
    using prisma.refreshToken.updateMany [of "db w" ?p ?f] by (simp_all add: d_def uq_refresh_def)
  let ?w = "w\<lparr>uuids := Suc (uuids w), db := d\<rparr>"
  let ?row = "new_refresh E ?i u (rt_familyId stored) t ua ip (clock w)"
  have run_it: "run_state (rotate E J u f stored ua ip) w =
      (if count_rows ?p (tb_refreshTokens (view (db w))) \<noteq> 1 then (Inl refresh_reuse, ?w)
       else run_state (andThen (insertRefresh E ?row) (\<lambda>_. andThen (createAccessToken E J u None) (\<lambda>accessToken.
           ok \<lparr>tk_accessToken = accessToken, tk_refreshToken = t\<rparr>))) ?w)"
    using Inr d(1) by (simp add: rotate_def run createRefreshToken_run t_def d_def world_order)
  show ?thesis
  proof (cases "count_rows ?p (tb_refreshTokens (view (db w))) = 1")
    case False
    then show ?thesis using r unfolding run_it by auto
  next
    case True
    obtain r0 where r0: "r0 \<in> set (tb_refreshTokens (view (db w)))" "?p r0"
      using True count_rows_0 [of ?p "tb_refreshTokens (view (db w))"] by auto
    then have "r0 = stored" using distinct_key [OF ids r0(1) s] by simp
    with r0 have live_stored: "rt_revokedAt stored = None" by simp
    obtain y where y: "run_state (createAccessToken E J u None) v = (y v, v)" for v :: "('r, 'd) world"
      using createAccessToken_frame [of J u None] by metis
    have new: "new_row row (update_rows ?p ?f rs) = new_row row rs" for row rs by (rule new_row_updated) simp
    have tab: "tb_refreshTokens (view (db ?w)) = update_rows ?p ?f (tb_refreshTokens (view (db w)))" by (simp add: d(2))
    from insertRefresh_run [of ?row ?w] show ?thesis
    proof (elim disjE exE conjE)
      fix d'
      assume i: "run_state (insertRefresh E ?row) ?w = (Inr ?row, ?w\<lparr>db := d'\<rparr>)"
        "view d' = tb_refreshTokens_update (\<lambda>rs. rs @ [?row]) (view (db ?w))" "new_row ?row (tb_refreshTokens (view (db ?w)))"
      have "new_row ?row (tb_refreshTokens (view (db w)))"
        using i(3) unfolding tab new .
      moreover have "view d' = tb_refreshTokens_update (\<lambda>rs. update_rows ?p ?f rs @ [?row]) (view (db w))"
        using i(2) d(2) by (cases "view (db w)") simp
      ultimately show ?thesis
        using r True i(1) y live_stored Inr unfolding run_it
        by (cases "y (?w\<lparr>db := d'\<rparr>)") (auto simp: run t_def)
    next
      fix d'
      assume "run_state (insertRefresh E ?row) ?w = (Inl PrismaP2002, ?w\<lparr>db := d'\<rparr>)"
      then show ?thesis using r True unfolding run_it by (auto simp: run)
    qed
  qed
qed

lemma rotate_good:
  assumes g: "good w" and s: "stored \<in> set (tb_refreshTokens (view (db w)))"
  shows "good (snd (run_state (transaction E (rotate E J u f stored ua ip)) w))"
proof -
  obtain x w' where r: "run_state (rotate E J u f stored ua ip) w = (x, w')" by (cases "run_state (rotate E J u f stored ua ip) w")
  have ids: "distinct (map rt_id (tb_refreshTokens (view (db w))))" using g by (simp add: families_wf_def)
  note o = rotate_run [OF ids s r]
  show ?thesis
  proof (cases x)
    case (Inl e)
    then show ?thesis
      using r o families_later [OF g, of "Suc (uuids w)"] by (simp add: run prisma.rollback)
  next
    case (Inr tk)
    let ?p = "\<lambda>t. rt_id t = rt_id stored \<and> rt_revokedAt t = None"
    let ?f = "\<lambda>t. t\<lparr>rt_revokedAt := Some (clock w), rt_replacedById := Some (random_uuid E (uuids w)), rt_lastUsedAt := Some (clock w)\<rparr>"
    let ?d = "tb_refreshTokens_update (update_rows ?p ?f) (view (db w))"
    define row where "row = new_refresh E (random_uuid E (uuids w)) u (rt_familyId stored) (tk_refreshToken tk) ua ip (clock w)"
    have o': "rt_revokedAt stored = None" "new_row row (tb_refreshTokens (view (db w)))"
      "view (db w') = tb_refreshTokens_update (\<lambda>rs. rs @ [row]) ?d"
      using o Inr by (simp_all add: row_def Let_def)
    have d: "families_wf E (Suc (uuids w)) ?d"
      by (rule families_later [OF families_updated [OF g]]) simp_all
    have "new_row row (tb_refreshTokens ?d) = new_row row (tb_refreshTokens (view (db w)))"
      by (simp, rule new_row_updated) simp
    with o'(2) have i: "new_row row (tb_refreshTokens ?d)" by simp
    have "\<not> (rt_familyId t = rt_familyId stored \<and> rt_revokedAt t = None)" if "t \<in> set (tb_refreshTokens ?d)" for t
    proof
      assume l: "rt_familyId t = rt_familyId stored \<and> rt_revokedAt t = None"
      from that l have t: "t \<in> set (tb_refreshTokens (view (db w)))" "rt_id t \<noteq> rt_id stored" by (auto simp: set_update_rows)
      have "live (rt_familyId stored) (view (db w)) \<le> 1" using g by (simp add: families_wf_def)
      from one_row [OF this [unfolded live_def] t(1) s] l o'(1) t(2) show False by simp
    qed
    then have l: "live (rt_familyId row) ?d = 0" unfolding live_def count_rows_0 by (simp add: row_def)
    have "\<exists>m < uuids w. rt_familyId row = random_uuid E m" using g s by (auto simp: families_wf_def row_def)
    then have "\<exists>m < Suc (uuids w). rt_familyId row = random_uuid E m" using less_SucI by blast
    from families_added [OF d i l this] o o'(3) r Inr show ?thesis by (simp add: run)
  qed
qed

lemma refresh_good [pres]: "preserves good (refreshSession E J token ua ip)"
proof -
  have up: "preserves good (mutate (\<lambda>d. dg_update (pr_refreshToken (prc E)) d (\<lambda>t. rt_id t = i)
      (\<lambda>t. t\<lparr>rt_revokedAt := Some now, rt_lastUsedAt := Some now\<rparr>)))" for i now
    unfolding preserves_def
  proof (intro allI impI)
    fix w
    assume g: "good w"
    let ?f = "\<lambda>t. t\<lparr>rt_revokedAt := Some now, rt_lastUsedAt := Some now\<rparr>"
    have "view (snd (dg_update (pr_refreshToken (prc E)) (db w) (\<lambda>t. rt_id t = i) ?f)) =
        tb_refreshTokens_update (update_rows (\<lambda>t. rt_id t = i) ?f) (view (db w)) \<or>
      view (snd (dg_update (pr_refreshToken (prc E)) (db w) (\<lambda>t. rt_id t = i) ?f)) = view (db w)"
    proof (cases "\<exists>r \<in> set (tb_refreshTokens (view (db w))). rt_id r = i")
      case False
      then show ?thesis using prisma.refreshToken.update_missing [of "db w" "\<lambda>t. rt_id t = i" ?f] by blast
    next
      case True
      then obtain r where r: "r \<in> set (tb_refreshTokens (view (db w)))" "rt_id r = i" by blast
      have "filter (\<lambda>t. rt_id t = i) (tb_refreshTokens (view (db w))) = [r]"
        using g r filter_key [of rt_id "tb_refreshTokens (view (db w))" r] by (simp add: families_wf_def)
      moreover have "\<not> uq_refresh x (?f r)" if "x \<in> set (tb_refreshTokens (view (db w)))" "rt_id x \<noteq> i" for x
        using g r that distinct_key [of rt_tokenHash "tb_refreshTokens (view (db w))" x r] by (auto simp: uq_refresh_def families_wf_def)
      ultimately show ?thesis using prisma.refreshToken.update_ok [of "\<lambda>t. rt_id t = i" "db w" r ?f] by simp
    qed
    then show "good (snd (run_state (mutate (\<lambda>d. dg_update (pr_refreshToken (prc E)) d (\<lambda>t. rt_id t = i) ?f)) w))"
      using g families_updated [OF g, of ?f "\<lambda>t. rt_id t = i"] by (auto simp: run)
  qed
  have found: "good (snd (run_state (case dg_findFirst (pr_refreshToken (prc E)) (db w) (\<lambda>t. rt_id t = i) of
      None \<Rightarrow> throw e | Some stored \<Rightarrow> f stored) w))"
    if "good w" and "\<And>stored. stored \<in> set (tb_refreshTokens (view (db w))) \<Longrightarrow> good (snd (run_state (f stored) w))" for w i e and f :: "refresh_row \<Rightarrow> (('r, 'd) world, tokens) fprog"
  proof (cases "dg_findFirst (pr_refreshToken (prc E)) (db w) (\<lambda>t. rt_id t = i)")
    case None
    with that(1) show ?thesis by (simp add: run)
  next
    case (Some stored)
    with that(2) prisma.refreshToken.findFirst_Some [OF Some] show ?thesis by simp
  qed
  have caught: "good (snd (run_state (try_catch m h) w))"
    if "good (snd (run_state m w))" and "\<And>e. preserves good (h e)" for m :: "(('r, 'd) world, tokens) fprog" and h w
    using that by (cases "run_state m w") (auto simp: run preserves_def split: sum.split)
  have branch: "good (snd (run_state (if b then m else k) w))"
    if "good w" and "preserves good m" and "good (snd (run_state k w))" for b m w and k :: "(('r, 'd) world, tokens) fprog"
    using that by (simp add: preserves_def)
  have h: "preserves good (if e = refresh_reuse then do { revokeTokens E p now; throw e' } else throw e :: (('r, 'd) world, tokens) fprog)"
    for e e' p now by (intro pres good_revoke)
  have mismatch: "preserves good (do { (if b then do { revokeTokens E p now; ret () } else ret ()); throw e } :: (('r, 'd) world, tokens) fprog)"
    "preserves good (do { revokeTokens E p now; throw e } :: (('r, 'd) world, tokens) fprog)" for b p now e
    by (intro pres good_revoke)+
  have expired: "preserves good (andThen (mutate (\<lambda>d. dg_update (pr_refreshToken (prc E)) d (\<lambda>t. rt_id t = i)
      (\<lambda>t. t\<lparr>rt_revokedAt := Some now, rt_lastUsedAt := Some now\<rparr>))) (\<lambda>_. throw e) :: (('r, 'd) world, tokens) fprog)" for i now e
    by (intro pres up)
  show ?thesis
    unfolding refreshSession_def Let_def
  proof (intro preserves_andThen good_verify preserves_bind [OF preserves_basic(5)] preserves_read found, assumption)
    fix payload now w stored
    assume g: "good w" and s: "stored \<in> set (tb_refreshTokens (view (db w)))"
    show "good (snd (run_state (if rt_userId stored \<noteq> the (pl_sub payload) \<or> rt_familyId stored \<noteq> the (pl_fid payload)
          then do {
            (if rt_familyId stored \<noteq> []
             then do { revokeTokens E (\<lambda>t. rt_familyId t = rt_familyId stored) now; ret () } else ret ());
            throw (Unauthorized ''Invalid refresh token'') }
          else if rt_tokenHash stored \<noteq> hashToken E token
          then do {
            revokeTokens E (\<lambda>t. rt_familyId t = rt_familyId stored) now;
            throw (Unauthorized ''Invalid refresh token'') }
          else if rt_revokedAt stored \<noteq> None
          then do {
            revokeTokens E (\<lambda>t. rt_familyId t = rt_familyId stored) now;
            throw (Unauthorized ''Refresh token reused'') }
          else if rt_expiresAt stored \<le> now
          then andThen (mutate (\<lambda>d. dg_update (pr_refreshToken (prc E)) d (\<lambda>t. rt_id t = rt_id stored)
              (\<lambda>t. t\<lparr>rt_revokedAt := Some now, rt_lastUsedAt := Some now\<rparr>)))
            (\<lambda>_. throw (Unauthorized ''Refresh token expired''))
          else try_catch (transaction E (rotate E J (the (pl_sub payload)) (the (pl_fid payload)) stored ua ip))
            (\<lambda>error. if error = refresh_reuse
              then do {
                revokeTokens E (\<lambda>t. rt_familyId t = rt_familyId stored) now;
                throw (Unauthorized ''Refresh token already used'') }
              else throw error)) w))"
      by (intro branch [OF g mismatch(1)] branch [OF g mismatch(2)] branch [OF g expired] caught rotate_good g s h)
  qed
qed

lemma signup_good [pres]: "preserves good (signupAnonymous E J ua ip input)"
proof -
  have u: "preserves good (mutate (\<lambda>d. dg_create (pr_user (prc E)) d mk))" for mk
    unfolding preserves_def
  proof (intro allI impI)
    fix w
    assume g: "good w"
    have "tb_refreshTokens (view (snd (dg_create (pr_user (prc E)) (db w) mk))) = tb_refreshTokens (view (db w))"
    proof (cases "\<exists>r \<in> set (tb_users (view (db w))). uq_user r (mk (dg_cuid (pr_user (prc E)) (db w)))")
      case True
      from prisma.user.create_conflict [of "db w" mk, OF this] show ?thesis by simp
    next
      case False
      then have "\<forall>r \<in> set (tb_users (view (db w))). \<not> uq_user r (mk (dg_cuid (pr_user (prc E)) (db w)))" by blast
      from prisma.user.create_ok [of "db w" mk, OF this] show ?thesis by simp
    qed
    from families_other [OF this, where E = E and n = "uuids w"] g show "good (snd (run_state (mutate (\<lambda>d. dg_create (pr_user (prc E)) d mk)) w))"
      by (simp add: run)
  qed
  show ?thesis
    unfolding signupAnonymous_def by (intro pres u)
qed

lemma logoutAll_good [pres]: "preserves good (logoutAll E u)"
  unfolding logoutAll_def by (intro pres good_revoke)

text \<open>The tables after \<open>deleteAccount\<close>.\<close>

lemma deleteAccount_run:
  assumes "filter (\<lambda>u. us_id u = userId) (tb_users (view (db w))) = [user]"
  shows "\<exists>d. run_state (deleteAccount E userId) w = (Inr (), w\<lparr>db := d\<rparr>) \<and> view d = forget userId (view (db w))"
proof -
  let ?del = "\<lambda>dg d p. snd (dg_deleteMany (dg (prc E)) d p)"
  let ?d1 = "?del pr_refreshToken (db w) (\<lambda>t. rt_userId t = userId)"
  let ?d2 = "?del pr_pushToken ?d1 (\<lambda>t. pt_userId t = userId)"
  let ?d3 = "?del pr_tokenTransaction ?d2 (\<lambda>t. tt_userId t = userId)"
  let ?d4 = "?del pr_moderationEvent ?d3 (\<lambda>e. me_userId e = userId)"
  let ?d5 = "?del pr_moderationReport ?d4 (\<lambda>r. rp_reporterId r = userId \<or> rp_reportedUserId r = userId)"
  let ?d6 = "?del pr_message ?d5 (\<lambda>m. ms_senderId m = userId)"
  let ?d7 = "?del pr_session ?d6 (\<lambda>s. se_userAId s = userId \<or> se_userBId s = userId)"
  let ?d8 = "?del pr_match ?d7 (\<lambda>m. ma_userAId m = userId \<or> ma_userBId m = userId)"
  have v: "view ?d8 = tb_matches_update (filter (\<lambda>m. \<not> (ma_userAId m = userId \<or> ma_userBId m = userId)))
      (tb_sessions_update (filter (\<lambda>s. \<not> (se_userAId s = userId \<or> se_userBId s = userId)))
      (tb_messages_update (filter (\<lambda>m. ms_senderId m \<noteq> userId))
      (tb_reports_update (filter (\<lambda>r. \<not> (rp_reporterId r = userId \<or> rp_reportedUserId r = userId)))
      (tb_moderationEvents_update (filter (\<lambda>e. me_userId e \<noteq> userId))
      (tb_transactions_update (filter (\<lambda>t. tt_userId t \<noteq> userId))
      (tb_pushTokens_update (filter (\<lambda>t. pt_userId t \<noteq> userId))
      (tb_refreshTokens_update (filter (\<lambda>t. rt_userId t \<noteq> userId)) (view (db w)))))))))"
    by (simp only: prisma.refreshToken.deleteMany [THEN conjunct2] prisma.pushToken.deleteMany [THEN conjunct2]
        prisma.tokenTransaction.deleteMany [THEN conjunct2] prisma.moderationEvent.deleteMany [THEN conjunct2]
        prisma.moderationReport.deleteMany [THEN conjunct2] prisma.message.deleteMany [THEN conjunct2]
        prisma.session.deleteMany [THEN conjunct2] prisma.match.deleteMany [THEN conjunct2])
  then have "filter (\<lambda>u. us_id u = userId) (tb_users (view ?d8)) = [user]" using assms by simp
  from prisma.user.delete_ok [OF this]
  have "fst (dg_delete (pr_user (prc E)) ?d8 (\<lambda>u. us_id u = userId)) = Inr user"
    "view (snd (dg_delete (pr_user (prc E)) ?d8 (\<lambda>u. us_id u = userId))) = forget userId (view (db w))"
    using v by (simp_all add: forget_def)
  then show ?thesis
    by - (rule exI, rule conjI, simp add: deleteAccount_def run, assumption)
qed

text \<open>A token that is used.\<close>

lemma verify_run:
  "run_state (verifyRefreshToken E J token) w = (case getRefreshTokenSecret E of Inl e \<Rightarrow> Inl e
     | Inr secret \<Rightarrow> (case jw_verify J token secret (clock w) of
           Inl name \<Rightarrow> Inl (if isJwtError name then Unauthorized ''Invalid or expired refresh token'' else JsError name)
         | Inr p \<Rightarrow> if valid_payload p then Inr p else Inl (Unauthorized ''Invalid refresh token'')), w)"
  by (simp add: verifyRefreshToken_def run valid_payload_def split: sum.split)

lemma find_row:
  assumes "distinct (map rt_id (tb_refreshTokens (view (db w))))" and "t \<in> set (tb_refreshTokens (view (db w)))"
  shows "dg_findFirst (pr_refreshToken (prc E)) (db w) (\<lambda>r. rt_id r = rt_id t) = Some t"
proof -
  obtain r where r: "dg_findFirst (pr_refreshToken (prc E)) (db w) (\<lambda>r. rt_id r = rt_id t) = Some r"
    using prisma.refreshToken.findFirst_exists [of "db w" "\<lambda>r. rt_id r = rt_id t"] assms(2) by auto
  from prisma.refreshToken.findFirst_Some [OF r] distinct_key [OF assms(1) _ assms(2)] r show ?thesis by simp
qed

lemma refresh_reused:
  assumes "getRefreshTokenSecret E = Inr secret" and "jw_verify J token secret (clock w) = Inr p" and "valid_payload p"
    and "distinct (map rt_id (tb_refreshTokens (view (db w))))" and "t \<in> set (tb_refreshTokens (view (db w)))"
    and "row_of E p token t" and "rt_revokedAt t \<noteq> None"
  shows "\<exists>d. run_state (refreshSession E J token ua ip) w = (Inl (Unauthorized ''Refresh token reused''), w\<lparr>db := d\<rparr>) \<and>
    view d = tb_refreshTokens_update (update_rows (\<lambda>x. rt_familyId x = rt_familyId t \<and> rt_revokedAt x = None)
      (\<lambda>x. x\<lparr>rt_revokedAt := Some (clock w), rt_lastUsedAt := Some (clock w)\<rparr>)) (view (db w))"
proof -
  obtain d where d: "run_state (revokeTokens E (\<lambda>x. rt_familyId x = rt_familyId t) (clock w)) w =
      (count_rows (\<lambda>x. rt_familyId x = rt_familyId t \<and> rt_revokedAt x = None) (tb_refreshTokens (view (db w))), w\<lparr>db := d\<rparr>)"
    "view d = tb_refreshTokens_update (update_rows (\<lambda>x. rt_familyId x = rt_familyId t \<and> rt_revokedAt x = None)
      (\<lambda>x. x\<lparr>rt_revokedAt := Some (clock w), rt_lastUsedAt := Some (clock w)\<rparr>)) (view (db w))"
    using revokeTokens_run [of "\<lambda>x. rt_familyId x = rt_familyId t" "clock w" w] by (elim exE conjE) (rule that)
  have "run_state (refreshSession E J token ua ip) w = (Inl (Unauthorized ''Refresh token reused''), w\<lparr>db := d\<rparr>)"
    using assms find_row [OF assms(4,5)] d(1) by (simp add: refreshSession_def run verify_run row_of_def Let_def)
  with d(2) show ?thesis by blast
qed

lemma refresh_succeeds:
  assumes ids: "distinct (map rt_id (tb_refreshTokens (view (db w))))"
    and r: "run_state (refreshSession E J token ua ip) w = (Inr tk, w')"
  obtains secret p stored where "getRefreshTokenSecret E = Inr secret" and "jw_verify J token secret (clock w) = Inr p"
    and "valid_payload p" and "stored \<in> set (tb_refreshTokens (view (db w)))" and "row_of E p token stored" and "rt_revokedAt stored = None"
    and "run_state (rotate E J (rt_userId stored) (rt_familyId stored) stored ua ip) w = (Inr tk, w')"
proof -
  obtain secret where s: "getRefreshTokenSecret E = Inr secret"
    using r by (cases "getRefreshTokenSecret E") (simp_all add: refreshSession_def run verify_run)
  obtain p where p: "jw_verify J token secret (clock w) = Inr p" "valid_payload p"
    using r s by (cases "jw_verify J token secret (clock w)") (auto simp: refreshSession_def run verify_run split: if_splits)
  obtain stored where f: "dg_findFirst (pr_refreshToken (prc E)) (db w) (\<lambda>t. rt_id t = the (pl_jti p)) = Some stored"
    using r s p by (cases "dg_findFirst (pr_refreshToken (prc E)) (db w) (\<lambda>t. rt_id t = the (pl_jti p))")
      (simp_all add: refreshSession_def run verify_run Let_def)
  have m: "stored \<in> set (tb_refreshTokens (view (db w)))" "rt_id stored = the (pl_jti p)"
    using prisma.refreshToken.findFirst_Some [OF f] by auto
  have c: "rt_userId stored = the (pl_sub p)" "rt_familyId stored = the (pl_fid p)" "rt_tokenHash stored = hashToken E token"
    "rt_revokedAt stored = None" "\<not> rt_expiresAt stored \<le> clock w"
    using r s p f by (simp_all add: refreshSession_def run verify_run Let_def case_prod_beta split: if_splits sum.splits)
  have "run_state (try_catch (transaction E (rotate E J (rt_userId stored) (rt_familyId stored) stored ua ip))
      (\<lambda>error. if error = refresh_reuse
              then do {
                revokeTokens E (\<lambda>t. rt_familyId t = rt_familyId stored) (clock w);
                throw (Unauthorized ''Refresh token already used'') }
              else throw error)) w = (Inr tk, w')"
    using r s p f c by (simp add: refreshSession_def run verify_run Let_def)
  then have t: "run_state (rotate E J (rt_userId stored) (rt_familyId stored) stored ua ip) w = (Inr tk, w')"
    by (cases "run_state (rotate E J (rt_userId stored) (rt_familyId stored) stored ua ip) w")
      (auto simp: run case_prod_beta split: sum.splits if_splits)
  have "row_of E p token stored"
    using c(1-3) m(2) p(2) by (auto simp: row_of_def valid_payload_def truthy_iff)
  from that [OF s p m(1) this c(4) t] show ?thesis .
qed

end

end
