(* ===== verification/Auth_Props.thy ===== *)
theory Auth_Props
  imports Auth_Laws Queue_Props
begin

text \<open>
  Properties of \<open>src/src/auth/auth.service.ts\<close>: a family of refresh tokens has at most one live
  token, and a token that is used twice revokes its family. The contract of the package of JSON web tokens is
  the locale \<open>jwt_service\<close>.
\<close>

section \<open>The JSON web tokens\<close>

text \<open>
  What the service relies on: a refresh token that it signed carries its claims until its life of thirty days ends,
  in whole seconds.
\<close>

definition refresh_claims :: "string \<Rightarrow> string \<Rightarrow> (string \<times> json) list" where
  "refresh_claims u f = [(''sub'', JStr u), (''fid'', JStr f), (''typ'', JStr ''refresh'')]"

definition issued :: "string \<Rightarrow> string \<Rightarrow> string \<Rightarrow> refresh_payload" where
  "issued u f i = \<lparr>pl_sub = Some u, pl_fid = Some f, pl_typ = Some ''refresh'', pl_jti = Some i\<rparr>"

locale jwt_service =
  fixes J :: jwt
  assumes sign_verify: "later div 1000 < now div 1000 + REFRESH_TOKEN_TTL_DAYS * 86400 \<Longrightarrow>
    jw_verify J (jw_sign J (refresh_claims u f) (show_int REFRESH_TOKEN_TTL_DAYS @ ''d'') secret (Some i) now) secret later = Inr (issued u f i)"
begin

lemma createRefreshToken_verifies:
  assumes "run_state (createRefreshToken E J u f i) w = (Inr token, w')" and "later div 1000 < clock w div 1000 + REFRESH_TOKEN_TTL_DAYS * 86400"
    and "u \<noteq> []" and "f \<noteq> []" and "i \<noteq> []"
  shows "run_state (verifyRefreshToken E J token) (w'\<lparr>clock := later\<rparr>) = (Inr (issued u f i), w'\<lparr>clock := later\<rparr>)"
proof -
  obtain secret where s: "getRefreshTokenSecret E = Inr secret"
    using assms(1) by (cases "getRefreshTokenSecret E") (simp_all add: createRefreshToken_def run)
  then have "token = jw_sign J (refresh_claims u f) (show_int REFRESH_TOKEN_TTL_DAYS @ ''d'') secret (Some i) (clock w)"
    using assms(1) by (auto simp: createRefreshToken_def run refresh_claims_def)
  then show ?thesis
    using s sign_verify [OF assms(2)] assms(3-5) by (simp add: verifyRefreshToken_def run issued_def)
qed

end

text \<open>A package of tokens that are not encrypted, for the witnesses.\<close>

definition ttl_seconds :: "string \<Rightarrow> int" where
  "ttl_seconds ttl = (if last ttl = CHR ''d'' then 86400 else 60) * int (digits_value (butlast ttl))"

definition plain_jwt :: jwt where
  "plain_jwt = \<lparr>jw_sign = (\<lambda>claims ttl secret jti now. json_stringify (JArr [json_opt jti, JNum (now div 1000), JStr ttl, JStr secret, JObj claims])),
     jw_verify = (\<lambda>token secret now. case json_parse token of
         Some (JArr [jti, JNum iat, JStr ttl, JStr secret', JObj claims]) \<Rightarrow>
           if secret' \<noteq> secret then Inl ''JsonWebTokenError''
           else if iat + ttl_seconds ttl \<le> now div 1000 then Inl ''TokenExpiredError''
           else Inr \<lparr>pl_sub = json_get_str ''sub'' (JObj claims), pl_fid = json_get_str ''fid'' (JObj claims),
             pl_typ = json_get_str ''typ'' (JObj claims), pl_jti = (case jti of JStr i \<Rightarrow> Some i | _ \<Rightarrow> None)\<rparr>
       | _ \<Rightarrow> Inl ''JsonWebTokenError'')\<rparr>"

interpretation plain: jwt_service plain_jwt
proof
  have "ttl_seconds (show_int REFRESH_TOKEN_TTL_DAYS @ ''d'') = REFRESH_TOKEN_TTL_DAYS * 86400"
    by (simp add: ttl_seconds_def REFRESH_TOKEN_TTL_DAYS_def) code_simp
  then show "jw_verify plain_jwt (jw_sign plain_jwt (refresh_claims u f) (show_int REFRESH_TOKEN_TTL_DAYS @ ''d'') secret (Some i) now) secret later =
      Inr (issued u f i)" if "later div 1000 < now div 1000 + REFRESH_TOKEN_TTL_DAYS * 86400" for later now u f secret i
    using that by (simp add: plain_jwt_def issued_def refresh_claims_def json_get_str_def json_opt_def del: json_stringify.simps)
qed

section \<open>The properties\<close>

datatype auth_op =
    Signup "string option" "string option" signup_input
  | Refresh string "string option" "string option"
  | LogoutAll string

primrec run_auth :: "('r, 'd) env \<Rightarrow> jwt \<Rightarrow> auth_op \<Rightarrow> ('r, 'd) world \<Rightarrow> ('r, 'd) world" where
  "run_auth E J (Signup ua ip input) w = snd (run_state (signupAnonymous E J ua ip input) w)"
| "run_auth E J (Refresh token ua ip) w = snd (run_state (refreshSession E J token ua ip) w)"
| "run_auth E J (LogoutAll u) w = snd (run_state (logoutAll E u) w)"

definition auth_ops :: "('r, 'd) env \<Rightarrow> jwt \<Rightarrow> (int \<times> auth_op) list \<Rightarrow> ('r, 'd) world \<Rightarrow> ('r, 'd) world" where
  "auth_ops E J ops w = foldl (\<lambda>w (t, op). run_auth E J op (w\<lparr>clock := t\<rparr>)) w ops"

context backend
begin

lemma run_auth_good: "good w \<Longrightarrow> good (run_auth E J op w)"
  by (cases op) (simp_all add: preservesD [OF signup_good] preservesD [OF refresh_good] preservesD [OF logoutAll_good])

lemma auth_ops_good: "good w \<Longrightarrow> good (auth_ops E J ops w)"
  by (induction ops arbitrary: w) (auto simp: auth_ops_def run_auth_good)

end

text \<open>
  C18: whatever sequence of signups, refreshes (with any token, valid or not) and logouts runs, at any times, from a
  database without refresh tokens, a family of refresh tokens never has two tokens that are not revoked, and no two rows
  have one id or one hash.
\<close>

theorem one_live_token_per_family:
  assumes "backend E zv sv other view" and "tb_refreshTokens (view (db w)) = []"
  shows "count_rows (\<lambda>t. rt_familyId t = fid \<and> rt_revokedAt t = None) (tb_refreshTokens (view (db (auth_ops E J ops w)))) \<le> 1 \<and>
    distinct (map rt_id (tb_refreshTokens (view (db (auth_ops E J ops w))))) \<and>
    distinct (map rt_tokenHash (tb_refreshTokens (view (db (auth_ops E J ops w)))))"
proof -
  have "families_wf E (uuids w) (view (db w))" using assms(2) by (simp add: families_wf_def live_def count_rows_def)
  from backend.auth_ops_good [OF assms(1) this] show ?thesis by (simp add: families_wf_def live_def)
qed

context backend
begin

lemma reuse_run:
  assumes "jwt_service J" and "good w" and "run_state (refreshSession E J token ua ip) w = (Inr tk, w1)"
    and "\<forall>secret. getRefreshTokenSecret E = Inr secret \<longrightarrow> jw_verify J token secret later = jw_verify J token secret (clock w)"
  shows "\<exists>row w2. row \<in> set (tb_refreshTokens (view (db w1))) \<and> rt_tokenHash row = hashToken E (tk_refreshToken tk) \<and>
    run_state (refreshSession E J token ua' ip') (w1\<lparr>clock := later\<rparr>) = (Inl (Unauthorized ''Refresh token reused''), w2) \<and>
    (\<forall>t \<in> set (tb_refreshTokens (view (db w2))). rt_familyId t = rt_familyId row \<longrightarrow> rt_revokedAt t \<noteq> None) \<and>
    (\<forall>t3. t3 div 1000 < clock w div 1000 + REFRESH_TOKEN_TTL_DAYS * 86400 \<longrightarrow>
      fst (run_state (refreshSession E J (tk_refreshToken tk) ua' ip') (w2\<lparr>clock := t3\<rparr>)) = Inl (Unauthorized ''Refresh token reused''))"
proof -
  have ids: "distinct (map rt_id (tb_refreshTokens (view (db w))))" using assms(2) by (simp add: families_wf_def)
  obtain secret p stored where s: "getRefreshTokenSecret E = Inr secret" and p: "jw_verify J token secret (clock w) = Inr p" "valid_payload p"
    and m: "stored \<in> set (tb_refreshTokens (view (db w)))" "row_of E p token stored"
    and r: "run_state (rotate E J (rt_userId stored) (rt_familyId stored) stored ua ip) w = (Inr tk, w1)"
    by (rule refresh_succeeds [OF ids assms(3)]) (rule that)
  let ?i = "random_uuid E (uuids w)"
  define row where "row = new_refresh E ?i (rt_userId stored) (rt_familyId stored) (tk_refreshToken tk) ua ip (clock w)"
  let ?f = "\<lambda>t. t\<lparr>rt_revokedAt := Some (clock w), rt_replacedById := Some ?i, rt_lastUsedAt := Some (clock w)\<rparr>"
  have o: "tk_refreshToken tk = jw_sign J (refresh_claims (rt_userId stored) (rt_familyId stored)) (show_int REFRESH_TOKEN_TTL_DAYS @ ''d'') secret (Some ?i) (clock w)"
    "tb_refreshTokens (view (db w1)) = update_rows (\<lambda>t. rt_id t = rt_id stored \<and> rt_revokedAt t = None) ?f (tb_refreshTokens (view (db w))) @ [row]"
    "rt_revokedAt stored = None"
    using rotate_run [OF ids m(1) r] s by (simp_all add: row_def Let_def refresh_claims_def)
  have "good w1" using preservesD [OF refresh_good assms(2)] assms(3) by (metis snd_conv)
  then have ids1: "distinct (map rt_id (tb_refreshTokens (view (db w1))))" by (simp add: families_wf_def)
  have u: "?f stored \<in> set (tb_refreshTokens (view (db w1)))" using m(1) o(3) by (auto simp: o(2) set_update_rows)
  have "row_of E p token (?f stored)" using m(2) by (simp add: row_of_def)
  moreover have "jw_verify J token secret later = Inr p" using assms(4) s p(1) by simp
  ultimately obtain d where d: "run_state (refreshSession E J token ua' ip') (w1\<lparr>clock := later\<rparr>) =
      (Inl (Unauthorized ''Refresh token reused''), w1\<lparr>clock := later, db := d\<rparr>)"
    "view d = tb_refreshTokens_update (update_rows (\<lambda>x. rt_familyId x = rt_familyId stored \<and> rt_revokedAt x = None)
      (\<lambda>x. x\<lparr>rt_revokedAt := Some later, rt_lastUsedAt := Some later\<rparr>)) (view (db w1))"
    using refresh_reused [OF s, of J token "w1\<lparr>clock := later\<rparr>" p "?f stored" ua' ip'] p(2) u ids1 by auto
  have all: "rt_revokedAt t \<noteq> None" if "t \<in> set (tb_refreshTokens (view d))" "rt_familyId t = rt_familyId stored" for t
    using that by (auto simp: d(2) set_update_rows)
  have "fst (run_state (refreshSession E J (tk_refreshToken tk) ua' ip') (w1\<lparr>clock := later, db := d, clock := t3\<rparr>)) = Inl (Unauthorized ''Refresh token reused'')"
    if "t3 div 1000 < clock w div 1000 + REFRESH_TOKEN_TTL_DAYS * 86400" for t3
  proof -
    let ?p = "issued (rt_userId stored) (rt_familyId stored) ?i"
    have v: "jw_verify J (tk_refreshToken tk) secret t3 = Inr ?p"
      unfolding o(1) by (rule jwt_service.sign_verify [OF assms(1) that])
    have vp: "valid_payload ?p" using p(2) m(2) uuid_nonempty by (auto simp: valid_payload_def issued_def row_of_def)
    have ids2: "distinct (map rt_id (tb_refreshTokens (view d)))" using ids1 by (simp add: d(2) map_update_rows)
    obtain t where t: "t \<in> set (tb_refreshTokens (view d))" "rt_id t = ?i" "rt_userId t = rt_userId stored" "rt_familyId t = rt_familyId stored"
      "rt_tokenHash t = hashToken E (tk_refreshToken tk)"
      by (rule that [of "if rt_revokedAt row = None then row\<lparr>rt_revokedAt := Some later, rt_lastUsedAt := Some later\<rparr> else row"])
        (auto simp: d(2) o(2) set_update_rows row_def)
    then have "row_of E ?p (tk_refreshToken tk) t" by (simp add: row_of_def issued_def)
    from refresh_reused [OF s, of J "tk_refreshToken tk" "w1\<lparr>clock := later, db := d, clock := t3\<rparr>" ?p t ua' ip'] v vp ids2 t(1) this all [OF t(1,4)]
    show ?thesis by auto
  qed
  moreover have "row \<in> set (tb_refreshTokens (view (db w1)))" by (simp add: o(2))
  ultimately show ?thesis
    using d(1) all by (intro exI [of _ row] exI [of _ "w1\<lparr>clock := later, db := d\<rparr>"] conjI) (simp_all add: row_def)
qed

end

text \<open>
  C16: a refresh token is good once. When it was exchanged for a new one and is presented again while it has not expired, the
  refresh is refused and every token of its family is revoked; the token it was exchanged for is refused too, at any time
  of its life of thirty days.
\<close>

theorem reused_token_revokes_family:
  assumes "backend E zv sv other view" and "jwt_service J" and "families_wf E (uuids w) (view (db w))"
    and "run_state (refreshSession E J token ua ip) w = (Inr tk, w1)"
    and "\<forall>secret. getRefreshTokenSecret E = Inr secret \<longrightarrow> jw_verify J token secret later = jw_verify J token secret (clock w)"
  shows "\<exists>row w2. row \<in> set (tb_refreshTokens (view (db w1))) \<and> rt_tokenHash row = hashToken E (tk_refreshToken tk) \<and>
    run_state (refreshSession E J token ua' ip') (w1\<lparr>clock := later\<rparr>) = (Inl (Unauthorized ''Refresh token reused''), w2) \<and>
    (\<forall>t \<in> set (tb_refreshTokens (view (db w2))). rt_familyId t = rt_familyId row \<longrightarrow> rt_revokedAt t \<noteq> None) \<and>
    (\<forall>t3. t3 div 1000 < clock w div 1000 + REFRESH_TOKEN_TTL_DAYS * 86400 \<longrightarrow>
      fst (run_state (refreshSession E J (tk_refreshToken tk) ua' ip') (w2\<lparr>clock := t3\<rparr>)) = Inl (Unauthorized ''Refresh token reused''))"
  by (rule backend.reuse_run [OF assms(1-5)])

section \<open>Witnesses\<close>

definition auth_env :: "(inmem, tables) env" where
  "auth_env = test_env_of (\<lambda>k. if k = ''JWT_SECRET'' then Some ''s'' else None)"

lemma auth_env_simps [simp]: "rdc auth_env = im_redis" "prc auth_env = list_prisma" "sha256_hex auth_env = hex64"
  "random_uuid auth_env n = ''u'' @ show_int (int n)" "env_var auth_env k = (if k = ''JWT_SECRET'' then Some ''s'' else None)"
  by (simp_all add: auth_env_def)

lemma auth_backend: "backend auth_env im_zv im_sv im_other (\<lambda>t. t)"
  unfolding auth_env_def by (rule test.backend_axioms)

lemma one_live_token_per_family_witness:
  "count_rows (\<lambda>t. rt_familyId t = ''u0'' \<and> rt_revokedAt t = None) (tb_refreshTokens (db (auth_ops auth_env plain_jwt
      [(noon, Signup None None \<lparr>su_dateOfBirth = None, su_consents = None, su_privacyNoticeVersion = None, su_tosVersion = None\<rparr>),
       (noon + 1, Refresh ''forged'' None None), (noon + 2, LogoutAll ''a'')] (queue_world False)))) \<le> 1"
  using one_live_token_per_family [OF auth_backend, of "queue_world False" "''u0''"] by (simp add: no_tables_def)

definition old_token :: string where
  "old_token = jw_sign plain_jwt (refresh_claims ''a'' ''u0'') (show_int REFRESH_TOKEN_TTL_DAYS @ ''d'') ''s'' (Some ''t'') noon"

definition token_world :: "(inmem, tables) world" where
  "token_world = (queue_world False)\<lparr>uuids := 1, db := no_tables\<lparr>tb_users := [user_with ''a'' 3],
     tb_refreshTokens := [new_refresh auth_env ''t'' ''a'' ''u0'' old_token None None noon]\<rparr>\<rparr>"

lemma auth_secret: "getRefreshTokenSecret auth_env = Inr ''s''" "getAccessTokenSecret auth_env = Inr ''s''"
  by (simp_all add: getRefreshTokenSecret_def getAccessTokenSecret_def readEnvSecret_def Let_def trim_def js_space_def)

lemma new_token_hash:
  "hashToken auth_env (jw_sign plain_jwt claims ttl secret (Some ''u1'') t) \<noteq> hashToken auth_env old_token"
  by (simp add: hashToken_def old_token_def plain_jwt_def hex64_def hex_text_def quote_string_def escape_char_def json_opt_def hex_digit_def)

lemma old_token_verifies: "t div 1000 < noon div 1000 + REFRESH_TOKEN_TTL_DAYS * 86400 \<Longrightarrow> jw_verify plain_jwt old_token ''s'' t = Inr (issued ''a'' ''u0'' ''t'')"
  unfolding old_token_def by (rule plain.sign_verify)

lemma show_small: "show_int 0 = ''0''" "show_int 1 = ''1''"
  by code_simp+

lemma token_world_simps: "clock token_world = noon" "uuids token_world = 1" "tb_users (db token_world) = [user_with ''a'' 3]"
  "tb_refreshTokens (db token_world) = [new_refresh auth_env ''t'' ''a'' ''u0'' old_token None None noon]"
  by (simp_all add: token_world_def)

lemma token_world_refresh:
  "\<exists>tk w1. run_state (refreshSession auth_env plain_jwt old_token None None) token_world = (Inr tk, w1)"
proof -
  have f: "dg_findFirst (pr_refreshToken list_prisma) (db token_world) (\<lambda>t. rt_id t = ''t'') =
      Some (new_refresh auth_env ''t'' ''a'' ''u0'' old_token None None noon)"
    by (simp add: token_world_simps list_prisma_simps list_delegate_def)
  have v: "run_state (verifyRefreshToken auth_env plain_jwt old_token) token_world = (Inr (issued ''a'' ''u0'' ''t''), token_world)"
    using old_token_verifies [of noon] auth_secret
    by (simp add: backend.verify_run [OF auth_backend] token_world_simps REFRESH_TOKEN_TTL_DAYS_def valid_payload_def issued_def)
  have r: "\<exists>tk w1. run_state (rotate auth_env plain_jwt ''a'' ''u0'' (new_refresh auth_env ''t'' ''a'' ''u0'' old_token None None noon) None None) token_world = (Inr tk, w1)"
    using new_token_hash [symmetric]
    by (simp add: rotate_def run backend.createRefreshToken_run [OF auth_backend] auth_secret token_world_simps list_prisma_simps list_delegate_def
        insertRefresh_def createAccessToken_def getUserRole_def uq_refresh_def refresh_claims_def Let_def show_small user_with_def)
  have e: "\<not> refreshExpiry noon \<le> noon" by (simp add: refreshExpiry_def REFRESH_TOKEN_TTL_DAYS_def)
  show ?thesis
    using r by (elim exE) (simp add: refreshSession_def run v Let_def issued_def token_world_simps f e del: list_prisma_simps)
qed

lemma reused_token_revokes_family_witness:
  "\<exists>tk w1 row w2. run_state (refreshSession auth_env plain_jwt old_token None None) token_world = (Inr tk, w1) \<and>
     row \<in> set (tb_refreshTokens (db w1)) \<and> rt_tokenHash row = hashToken auth_env (tk_refreshToken tk) \<and>
     run_state (refreshSession auth_env plain_jwt old_token None None) (w1\<lparr>clock := noon + 1\<rparr>) = (Inl (Unauthorized ''Refresh token reused''), w2) \<and>
     (\<forall>t \<in> set (tb_refreshTokens (db w2)). rt_familyId t = rt_familyId row \<longrightarrow> rt_revokedAt t \<noteq> None) \<and>
     fst (run_state (refreshSession auth_env plain_jwt (tk_refreshToken tk) None None) (w2\<lparr>clock := noon + 2\<rparr>)) = Inl (Unauthorized ''Refresh token reused'')"
proof -
  obtain tk w1 where r: "run_state (refreshSession auth_env plain_jwt old_token None None) token_world = (Inr tk, w1)"
    using token_world_refresh by blast
  have g: "families_wf auth_env (uuids token_world) (db token_world)"
    by (simp add: families_wf_def token_world_simps live_def count_rows_def show_small)
  have v: "\<forall>secret. getRefreshTokenSecret auth_env = Inr secret \<longrightarrow>
      jw_verify plain_jwt old_token secret (noon + 1) = jw_verify plain_jwt old_token secret (clock token_world)"
    using old_token_verifies [of noon] old_token_verifies [of "noon + 1"] by (simp add: auth_secret token_world_simps noon_def REFRESH_TOKEN_TTL_DAYS_def)
  have t: "(noon + 2) div 1000 < noon div 1000 + REFRESH_TOKEN_TTL_DAYS * 86400" by (simp add: noon_def REFRESH_TOKEN_TTL_DAYS_def)
  from reused_token_revokes_family [OF auth_backend plain.jwt_service_axioms g r v, of None None] obtain row w2 where
    "row \<in> set (tb_refreshTokens (db w1))" "rt_tokenHash row = hashToken auth_env (tk_refreshToken tk)"
    "run_state (refreshSession auth_env plain_jwt old_token None None) (w1\<lparr>clock := noon + 1\<rparr>) = (Inl (Unauthorized ''Refresh token reused''), w2)"
    "\<forall>t \<in> set (tb_refreshTokens (db w2)). rt_familyId t = rt_familyId row \<longrightarrow> rt_revokedAt t \<noteq> None"
    "\<forall>t3. t3 div 1000 < clock token_world div 1000 + REFRESH_TOKEN_TTL_DAYS * 86400 \<longrightarrow>
      fst (run_state (refreshSession auth_env plain_jwt (tk_refreshToken tk) None None) (w2\<lparr>clock := t3\<rparr>)) = Inl (Unauthorized ''Refresh token reused'')"
    by (elim exE conjE) (rule that)
  with r t show ?thesis by (auto simp: token_world_simps)
qed

end
