(* ===== verification/Guards_Props.thy ===== *)
theory Guards_Props
  imports Guards Auth_Props
begin

text \<open>
  The sockets and the HTTP routes read the same tokens: what each of them makes of a refresh token.
\<close>

text \<open>The payload of a token as the sockets and the strategy see it.\<close>

definition payload_json :: "refresh_payload \<Rightarrow> json" where
  "payload_json p = JObj [(''sub'', json_opt (pl_sub p)), (''fid'', json_opt (pl_fid p)), (''typ'', json_opt (pl_typ p)), (''jti'', json_opt (pl_jti p))]"

definition socket_verify :: "jwt \<Rightarrow> int \<Rightarrow> string \<Rightarrow> string \<Rightarrow> json option" where
  "socket_verify J now token secret = (case jw_verify J token secret now of Inl e \<Rightarrow> None | Inr p \<Rightarrow> Some (payload_json p))"

definition access_of :: "refresh_payload \<Rightarrow> access_payload" where
  "access_of p = \<lparr>ac_sub = pl_sub p, ac_typ = pl_typ p, ac_role = None\<rparr>"

text \<open>
  C28: on a server that is configured with \<open>JWT_SECRET\<close> alone, a refresh token opens a socket in the name of its user for
  the thirty days of its life, though the HTTP routes refuse it: \<open>handleConnection\<close> does not look at the type of a token.
\<close>

theorem refresh_token_opens_socket:
  assumes "jwt_service J" and "env_var E ''JWT_ACCESS_SECRET'' = None" and "env_var E ''JWT_REFRESH_SECRET'' = None"
    and "readEnvSecret (env_var E ''JWT_SECRET'') = Some secret"
    and "run_state (createRefreshToken E J u f i) w = (Inr token, w')" and "u \<noteq> []" and "token \<noteq> []"
    and "later div 1000 < clock w div 1000 + REFRESH_TOKEN_TTL_DAYS * 86400"
  shows "handleConnection E (socket_verify J later) \<lparr>hs_authorization = None, hs_token = Some (JStr token)\<rparr> = Connected u (userRoom u) \<and>
    (\<exists>p. jw_verify J token secret later = Inr p \<and> validate (access_of p) = Inl (Unauthorized ''Invalid access token''))"
proof -
  have s: "getAccessTokenSecret E = Inr secret" "getRefreshTokenSecret E = Inr secret"
    using assms(2-4) by (simp_all add: getAccessTokenSecret_def getRefreshTokenSecret_def readEnvSecret_def)
  have "token = jw_sign J (refresh_claims u f) (show_int REFRESH_TOKEN_TTL_DAYS @ ''d'') secret (Some i) (clock w)"
    using assms(5) s(2) by (auto simp: createRefreshToken_def run refresh_claims_def)
  then have v: "jw_verify J token secret later = Inr (issued u f i)"
    using jwt_service.sign_verify [OF assms(1,8), of u f secret i] by simp
  have "handleConnection E (socket_verify J later) \<lparr>hs_authorization = None, hs_token = Some (JStr token)\<rparr> = Connected u (userRoom u)"
    using v s(1) assms(6,7) by (simp add: handleConnection_def extractToken_def Let_def socket_verify_def payload_json_def issued_def json_opt_def)
  moreover have "validate (access_of (issued u f i)) = Inl (Unauthorized ''Invalid access token'')"
    by (simp add: validate_def access_of_def issued_def)
  ultimately show ?thesis using v by blast
qed

lemma refresh_token_opens_socket_witness:
  "handleConnection auth_env (socket_verify plain_jwt (noon + 86400000)) \<lparr>hs_authorization = None, hs_token = Some (JStr old_token)\<rparr> =
     Connected ''a'' (userRoom ''a'')"
proof -
  have r: "run_state (createRefreshToken auth_env plain_jwt ''a'' ''u0'' ''t'') token_world = (Inr old_token, token_world)"
    by (simp add: backend.createRefreshToken_run [OF auth_backend] auth_secret token_world_simps old_token_def refresh_claims_def)
  have s: "readEnvSecret (env_var auth_env ''JWT_SECRET'') = Some ''s''"
    by (simp add: readEnvSecret_def Let_def trim_def js_space_def)
  have t: "old_token \<noteq> []" by (simp add: old_token_def plain_jwt_def)
  have d: "(noon + 86400000) div 1000 < clock token_world div 1000 + REFRESH_TOKEN_TTL_DAYS * 86400"
    by (simp add: token_world_simps noon_def REFRESH_TOKEN_TTL_DAYS_def)
  show ?thesis
    using refresh_token_opens_socket [OF plain.jwt_service_axioms _ _ s r _ t d] by simp
qed

end
