(* ===== verification/Analytics.thy ===== *)
theory Analytics
  imports Security_Config
begin

text \<open>
  \<open>src/src/analytics/analytics.service.ts\<close>: the validation of an event of a client or of the server, its row, and the
  hourly counters of accepted and dropped events. The service is modelled with its database; log lines are left
  out. A counter that the code does not wait for is written at once, and an error of it is dropped. Property
  values are the JSON of the development, so numbers are integers. The schema version of an event is a number, as its type says.
\<close>

definition ANALYTICS_EVENT_NAMES :: "string list" where
  "ANALYTICS_EVENT_NAMES = [''auth_signup_completed'', ''queue_join_requested'', ''queue_joined'', ''queue_cancel'', ''queue_left'',
     ''queue_timeout_shown'', ''queue_timeout_continue'', ''queue_timeout_leave'', ''queue_match_found'', ''session_started'',
     ''session_ended'', ''session_choice_submitted'', ''session_choice_resolved'', ''session_result'', ''message_sent'',
     ''first_message_sent'', ''match_chat_opened'', ''match_message_sent'', ''token_balance_viewed'', ''token_purchase_started'',
     ''token_purchase_succeeded'', ''token_purchase_completed'', ''token_spent'', ''safety_report_submitted'',
     ''safety_violation_detected'', ''safety_action_taken'', ''safety_appeal_opened'', ''safety_appeal_resolved'']"

definition ALLOWED_SCHEMA_VERSIONS :: "int set" where "ALLOWED_SCHEMA_VERSIONS = {1}"
definition MAX_PROPERTY_COUNT :: nat where "MAX_PROPERTY_COUNT = 24"
definition MAX_STRING_LENGTH :: nat where "MAX_STRING_LENGTH = 200"
definition DEFAULT_MAX_FUTURE_SKEW_SECONDS :: int where "DEFAULT_MAX_FUTURE_SKEW_SECONDS = 300"
definition DEFAULT_MAX_PAST_SKEW_SECONDS :: int where "DEFAULT_MAX_PAST_SKEW_SECONDS = 86400"

definition BLOCKED_PROPERTY_KEYS :: "string list" where
  "BLOCKED_PROPERTY_KEYS = [''email'', ''phone'', ''text'', ''message'', ''bio'', ''display_name'', ''displayname'', ''name'',
     ''photos'', ''photo'', ''details'', ''token'', ''authorization'', ''cookie'']"

text \<open>The tests of \<open>KEY_PATTERN\<close> (a letter, by its code, a digit or an underscore) and \<open>UUID_PATTERN\<close>.\<close>

definition key_char :: "char \<Rightarrow> bool" where
  "key_char c \<longleftrightarrow> (let code = (of_char c :: nat) in
     code \<in> {97..122} \<or> code \<in> {65..90} \<or> is_digit c \<or> code = 95)"

definition uuid_shape :: "string \<Rightarrow> bool" where
  "uuid_shape s \<longleftrightarrow> length s = 36 \<and> (\<forall>i < 36. if i \<in> {8, 13, 18, 23} then s ! i = CHR ''-''
     else if i = 14 then s ! i \<in> set ''12345''
     else if i = 19 then s ! i \<in> set ''89abAB''
     else hex_value (s ! i) \<noteq> None)"

section \<open>Events\<close>

datatype event_source = SWeb | SIos | SAndroid | SBackend

fun source_text :: "event_source \<Rightarrow> string" where
  "source_text SWeb = ''web''" | "source_text SIos = ''ios''" | "source_text SAndroid = ''android''" | "source_text SBackend = ''backend''"

record event_input =
  ei_source :: event_source
  ei_userId :: "string option"
  ei_name :: string
  ei_properties :: "json option"
  ei_appVersion :: "string option"
  ei_buildNumber :: "string option"
  ei_requestId :: "string option"
  ei_region :: "string option"
  ei_eventId :: "json option"
  ei_occurredAt :: "json option"
  ei_eventSchemaVersion :: "jsnum option"

record emit_input =
  em_source :: event_source
  em_userId :: "string option"
  em_name :: string
  em_properties :: "(string \<times> json) list"
  em_appVersion :: "string option"
  em_buildNumber :: "string option"
  em_requestId :: "string option"
  em_region :: "string option"
  em_eventId :: string
  em_occurredAt :: int
  em_eventSchemaVersion :: int

section \<open>Counters\<close>

datatype counter = Accepted | Dropped

definition sanitizeEventNameForCounter :: "string \<Rightarrow> string" where
  "sanitizeEventNameForCounter value =
    (let trimmed = trim value in
     if trimmed = [] then ''unknown'' else if length trimmed \<le> 120 then trimmed else take 120 trimmed)"

text \<open>\<open>setUTCMinutes(0, 0, 0)\<close>.\<close>

definition hour_of :: "int \<Rightarrow> int" where
  "hour_of t = t - t mod 3600000"

fun new_counter :: "counter \<Rightarrow> int \<Rightarrow> string \<Rightarrow> int \<Rightarrow> string \<Rightarrow> hourly_row" where
  "new_counter Accepted hourStart eventName now i = \<lparr>hr_id = i, hr_createdAt = now, hr_hourStart = hourStart, hr_eventName = eventName,
     hr_acceptedCount = 1, hr_droppedCount = 0\<rparr>"
| "new_counter Dropped hourStart eventName now i = \<lparr>hr_id = i, hr_createdAt = now, hr_hourStart = hourStart, hr_eventName = eventName,
     hr_acceptedCount = 0, hr_droppedCount = 1\<rparr>"

fun count_one :: "counter \<Rightarrow> hourly_row \<Rightarrow> hourly_row" where
  "count_one Accepted h = h\<lparr>hr_acceptedCount := hr_acceptedCount h + 1\<rparr>"
| "count_one Dropped h = h\<lparr>hr_droppedCount := hr_droppedCount h + 1\<rparr>"

definition incrementIngestCounter :: "('r, 'd) env \<Rightarrow> string \<Rightarrow> counter \<Rightarrow> int \<Rightarrow> (('r, 'd) world, hourly_row) fprog" where
  "incrementIngestCounter E eventNameRaw field receivedAt =
    (let hourStart = hour_of receivedAt; eventName = sanitizeEventNameForCounter eventNameRaw in do {
       now \<leftarrow> date_now;
       mutate (\<lambda>d. dg_upsert (pr_analyticsIngestHourly (prc E)) d (\<lambda>h. hr_hourStart h = hourStart \<and> hr_eventName h = eventName)
         (new_counter field hourStart eventName now) (count_one field)) })"

definition recordDropped :: "('r, 'd) env \<Rightarrow> string \<Rightarrow> (('r, 'd) world, unit) prog" where
  "recordDropped E eventNameRaw = do {
     now \<leftarrow> date_now;
     incrementIngestCounter E (sanitizeEventNameForCounter eventNameRaw) Dropped now;
     ret () }"

text \<open>\<open>recordDropped\<close> and the exception after it.\<close>

definition refuse :: "('r, 'd) env \<Rightarrow> string \<Rightarrow> string \<Rightarrow> (('r, 'd) world, 'a) fprog" where
  "refuse E eventName message = do { recordDropped E eventName; throw (BadRequest message) }"

section \<open>Validation\<close>

definition parseEventName :: "('r, 'd) env \<Rightarrow> string \<Rightarrow> (('r, 'd) world, string) fprog" where
  "parseEventName E value =
    (if value \<notin> set ANALYTICS_EVENT_NAMES then refuse E value ''Unsupported analytics event name'' else ok value)"

text \<open>\<open>output[key] = value\<close>: the key \<open>__proto__\<close> does not make a property.\<close>

definition put_property :: "string \<Rightarrow> json \<Rightarrow> (string \<times> json) list \<Rightarrow> (string \<times> json) list" where
  "put_property key value output = (if key = ''__proto__'' then output else AList.update key value output)"

fun parseEntries ::
  "('r, 'd) env \<Rightarrow> string \<Rightarrow> (string \<times> json) list \<Rightarrow> (string \<times> json) list \<Rightarrow> (('r, 'd) world, (string \<times> json) list) fprog" where
  "parseEntries E eventName [] output = ok output"
| "parseEntries E eventName ((rawKey, rawValue) # rest) output =
    (let key = trim rawKey in
     if key = [] \<or> length key > 64 \<or> \<not> list_all key_char key then refuse E eventName ''Invalid analytics property key''
     else if toLowerCase key \<in> set BLOCKED_PROPERTY_KEYS
     then refuse E eventName (''Property key \"'' @ key @ ''\" is not allowed in analytics events'')
     else (case rawValue of
         JNull \<Rightarrow> parseEntries E eventName rest (put_property key rawValue output)
       | JBool b \<Rightarrow> parseEntries E eventName rest (put_property key rawValue output)
       | JNum n \<Rightarrow> parseEntries E eventName rest (put_property key rawValue output)
       | JStr s \<Rightarrow>
           if length s > MAX_STRING_LENGTH
           then refuse E eventName (''Property \"'' @ key @ ''\" exceeds '' @ show_int (int MAX_STRING_LENGTH) @ '' characters'')
           else parseEntries E eventName rest (put_property key rawValue output)
       | _ \<Rightarrow> refuse E eventName (''Property \"'' @ key @ ''\" must be string, number, boolean, or null'')))"

text \<open>\<open>Object.entries\<close> of an object whose text repeats a key: the last value counts.\<close>

definition object_entries :: "(string \<times> json) list \<Rightarrow> (string \<times> json) list" where
  "object_entries kvs = foldl (\<lambda>acc (k, v). AList.update k v acc) [] kvs"

definition parseProperties ::
  "('r, 'd) env \<Rightarrow> json option \<Rightarrow> string \<Rightarrow> (('r, 'd) world, (string \<times> json) list) fprog" where
  "parseProperties E value eventName =
    (case value of
       None \<Rightarrow> ok []
     | Some j \<Rightarrow>
         if j = JNull \<or> j = JBool False \<or> j = JNum 0 \<or> j = JStr [] then ok []
         else (case j of
             JObj kvs \<Rightarrow>
               let entries = object_entries kvs in
               if length entries > MAX_PROPERTY_COUNT then refuse E eventName ''Too many analytics properties''
               else parseEntries E eventName entries []
           | _ \<Rightarrow> refuse E eventName ''properties must be an object''))"

definition parseEventSchemaVersion :: "('r, 'd) env \<Rightarrow> jsnum option \<Rightarrow> string \<Rightarrow> (('r, 'd) world, int) fprog" where
  "parseEventSchemaVersion E value eventName =
    (case value of
       None \<Rightarrow> ok 1
     | Some parsed \<Rightarrow>
         if \<not> isFinite parsed \<or> fin_value parsed \<notin> ALLOWED_SCHEMA_VERSIONS then refuse E eventName ''Unsupported eventSchemaVersion''
         else ok (fin_value parsed))"

definition parseClientPlatform :: "string option \<Rightarrow> event_source" where
  "parseClientPlatform value =
    (case value of
       None \<Rightarrow> SWeb
     | Some s \<Rightarrow> let normalized = toLowerCase (trim s) in
         if normalized = ''ios'' then SIos else if normalized = ''android'' then SAndroid else SWeb)"

definition parseMetadataString :: "string option \<Rightarrow> nat \<Rightarrow> string option" where
  "parseMetadataString value maxLength =
    (case value of
       None \<Rightarrow> None
     | Some s \<Rightarrow> let trimmed = trim s in
         if trimmed = [] then None else if length trimmed > maxLength then Some (take maxLength trimmed) else Some trimmed)"

definition parseEventId :: "('r, 'd) env \<Rightarrow> json option \<Rightarrow> string \<Rightarrow> (('r, 'd) world, string) fprog" where
  "parseEventId E value eventName =
    (case value of
       None \<Rightarrow> do { i \<leftarrow> randomUUID E; ok i }
     | Some JNull \<Rightarrow> do { i \<leftarrow> randomUUID E; ok i }
     | Some (JStr s) \<Rightarrow>
         let trimmed = trim s in
         if \<not> uuid_shape trimmed then refuse E eventName ''eventId must be a UUID string'' else ok trimmed
     | _ \<Rightarrow> refuse E eventName ''eventId must be a UUID string'')"

definition readPositiveIntEnv :: "string option \<Rightarrow> int \<Rightarrow> int" where
  "readPositiveIntEnv value fallback =
    (if \<not> truthy value then fallback
     else (let parsed = parseInt (the value)
           in if \<not> isFinite parsed \<or> fin_value parsed \<le> 0 then fallback else fin_value parsed))"

definition maxFutureSkewSeconds :: "('r, 'd) env \<Rightarrow> int" where
  "maxFutureSkewSeconds E = readPositiveIntEnv (env_var E ''ANALYTICS_MAX_FUTURE_SKEW_SECONDS'') DEFAULT_MAX_FUTURE_SKEW_SECONDS"

definition maxPastSkewSeconds :: "('r, 'd) env \<Rightarrow> int" where
  "maxPastSkewSeconds E = readPositiveIntEnv (env_var E ''ANALYTICS_MAX_PAST_SKEW_SECONDS'') DEFAULT_MAX_PAST_SKEW_SECONDS"

text \<open>\<open>new Date\<close> reads the format of \<open>toISOString\<close>.\<close>

definition parseOccurredAt :: "('r, 'd) env \<Rightarrow> json option \<Rightarrow> string \<Rightarrow> (('r, 'd) world, int) fprog" where
  "parseOccurredAt E value eventName =
    (case value of
       None \<Rightarrow> do { now \<leftarrow> date_now; ok now }
     | Some JNull \<Rightarrow> do { now \<leftarrow> date_now; ok now }
     | Some (JStr s) \<Rightarrow>
         (case date_parse s of
            None \<Rightarrow> refuse E eventName ''occurredAt must be an ISO timestamp''
          | Some parsed \<Rightarrow> do {
              nowMs \<leftarrow> date_now;
              let skewMs = parsed - nowMs;
              if skewMs > maxFutureSkewSeconds E * 1000 \<or> skewMs < - (maxPastSkewSeconds E * 1000)
              then refuse E eventName ''occurredAt is outside allowed skew window'' else ok parsed })
     | _ \<Rightarrow> refuse E eventName ''occurredAt must be an ISO timestamp'')"

definition normalizeEvent :: "('r, 'd) env \<Rightarrow> event_input \<Rightarrow> (('r, 'd) world, emit_input) fprog" where
  "normalizeEvent E input =
    andThen (parseEventName E (ei_name input)) (\<lambda>name.
    andThen (parseProperties E (ei_properties input) name) (\<lambda>properties.
    andThen (parseEventSchemaVersion E (ei_eventSchemaVersion input) name) (\<lambda>eventSchemaVersion.
    andThen (parseEventId E (ei_eventId input) name) (\<lambda>eventId.
    andThen (parseOccurredAt E (ei_occurredAt input) name) (\<lambda>occurredAt.
      ok \<lparr>em_source = ei_source input, em_userId = ei_userId input, em_name = name, em_properties = properties,
        em_appVersion = parseMetadataString (ei_appVersion input) 64, em_buildNumber = parseMetadataString (ei_buildNumber input) 64,
        em_requestId = parseMetadataString (ei_requestId input) 128,
        em_region = or_else (parseMetadataString (ei_region input) 64) (parseMetadataString (env_var E ''APP_REGION'') 64),
        em_eventId = eventId, em_occurredAt = occurredAt, em_eventSchemaVersion = eventSchemaVersion\<rparr>)))))"

section \<open>Storing\<close>

definition extractPropertyString :: "json option \<Rightarrow> string option" where
  "extractPropertyString value =
    (case value of
       Some (JStr s) \<Rightarrow> let trimmed = trim s in if length trimmed > 0 then Some (take 128 trimmed) else None
     | _ \<Rightarrow> None)"

definition extractCorrelationFields :: "(string \<times> json) list \<Rightarrow> string option \<times> string option \<times> string option" where
  "extractCorrelationFields properties =
    (extractPropertyString (map_of properties ''sessionId''), extractPropertyString (map_of properties ''matchId''),
     extractPropertyString (map_of properties ''queueKey''))"

definition new_event :: "emit_input \<Rightarrow> int \<Rightarrow> string \<Rightarrow> event_row" where
  "new_event input receivedAt i = (case extractCorrelationFields (em_properties input) of (sessionId, matchId, queueKey) \<Rightarrow>
     \<lparr>ev_id = i, ev_createdAt = receivedAt, ev_eventSchemaVersion = em_eventSchemaVersion input, ev_eventId = em_eventId input,
      ev_eventName = em_name input, ev_occurredAt = em_occurredAt input, ev_receivedAt = receivedAt,
      ev_source = source_text (em_source input), ev_platform = source_text (em_source input), ev_appVersion = em_appVersion input,
      ev_buildNumber = em_buildNumber input, ev_region = em_region input, ev_requestId = em_requestId input,
      ev_userId = em_userId input, ev_sessionId = sessionId, ev_matchId = matchId, ev_queueKey = queueKey,
      ev_properties = JObj (em_properties input)\<rparr>)"

definition persistEvent :: "('r, 'd) env \<Rightarrow> emit_input \<Rightarrow> bool \<Rightarrow> (('r, 'd) world, bool \<times> string option) fprog" where
  "persistEvent E input strictPersistence = do {
     receivedAt \<leftarrow> date_now;
     try_catch
       (andThen (mutate (\<lambda>d. dg_create (pr_analyticsEvent (prc E)) d (new_event input receivedAt))) (\<lambda>_.
        andThen (incrementIngestCounter E (em_name input) Accepted receivedAt) (\<lambda>_. ok (True, None))))
       (\<lambda>error.
         if error = PrismaP2002
         then do {
           incrementIngestCounter E (em_name input) Dropped receivedAt;
           ok (False, Some ''duplicate_event_id'') }
         else if strictPersistence then throw error
         else ok (False, Some ''sink_error'')) }"

text \<open>The context of a client: the headers and fields of its request.\<close>

record client_context =
  cc_platform :: "string option"
  cc_appVersion :: "string option"
  cc_buildNumber :: "string option"
  cc_requestId :: "string option"
  cc_region :: "string option"
  cc_eventId :: "json option"
  cc_occurredAt :: "json option"
  cc_eventSchemaVersion :: "jsnum option"

definition trackClientEvent ::
  "('r, 'd) env \<Rightarrow> string \<Rightarrow> string \<Rightarrow> json option \<Rightarrow> client_context \<Rightarrow> (('r, 'd) world, bool \<times> string option) fprog" where
  "trackClientEvent E userId name properties context =
    andThen (normalizeEvent E \<lparr>ei_source = parseClientPlatform (cc_platform context), ei_userId = Some userId, ei_name = name,
      ei_properties = properties, ei_appVersion = cc_appVersion context, ei_buildNumber = cc_buildNumber context,
      ei_requestId = cc_requestId context, ei_region = cc_region context, ei_eventId = cc_eventId context,
      ei_occurredAt = cc_occurredAt context, ei_eventSchemaVersion = cc_eventSchemaVersion context\<rparr>) (\<lambda>normalized.
    persistEvent E normalized True)"

definition trackServerEvent ::
  "('r, 'd) env \<Rightarrow> string option \<Rightarrow> string \<Rightarrow> (string \<times> json) list \<Rightarrow> (('r, 'd) world, unit) prog" where
  "trackServerEvent E userId name properties = do {
     normalized \<leftarrow> normalizeEvent E \<lparr>ei_source = SBackend, ei_userId = userId, ei_name = name, ei_properties = Some (JObj properties),
       ei_appVersion = None, ei_buildNumber = None, ei_requestId = None, ei_region = env_var E ''APP_REGION'', ei_eventId = None,
       ei_occurredAt = None, ei_eventSchemaVersion = None\<rparr>;
     (case normalized of
        Inl error \<Rightarrow> ret ()
      | Inr input \<Rightarrow> do { persistEvent E input False; ret () }) }"

end
