(* ===== verification/Analytics_Props.thy ===== *)
theory Analytics_Props
  imports Analytics Queue_Props
begin

text \<open>
  Properties of \<open>src/src/analytics/analytics.service.ts\<close>: what an event in the database looks like, and
  that the counters of accepted events agree with the events.
\<close>

section \<open>Counters\<close>

definition counted :: "hourly_row list \<Rightarrow> int \<Rightarrow> string \<Rightarrow> int" where
  "counted hs h n = sum_list (map hr_acceptedCount (filter (\<lambda>x. hr_hourStart x = h \<and> hr_eventName x = n) hs))"

definition hour_key :: "hourly_row \<Rightarrow> int \<times> string" where
  "hour_key x = (hr_hourStart x, hr_eventName x)"

lemma counted_simps [simp]:
  "counted [] h n = 0"
  "counted (x # hs) h n = (if hour_key x = (h, n) then hr_acceptedCount x else 0) + counted hs h n"
  "counted (as @ bs) h n = counted as h n + counted bs h n"
  by (simp_all add: counted_def hour_key_def)

definition bump :: "counter \<Rightarrow> int" where
  "bump field = (if field = Accepted then 1 else 0)"

lemma count_one_simps [simp]:
  "hour_key (count_one field x) = hour_key x" "hr_acceptedCount (count_one field x) = hr_acceptedCount x + bump field"
  by (cases field; simp add: hour_key_def bump_def)+

lemma new_counter_simps [simp]:
  "hour_key (new_counter field h n now i) = (h, n)" "hr_acceptedCount (new_counter field h n now i) = bump field"
  by (cases field; simp add: hour_key_def bump_def)+

lemma counted_update:
  assumes "distinct (map hour_key hs)"
  shows "counted (update_rows (\<lambda>x. hour_key x = k) (count_one field) hs) h n =
    counted hs h n + (if k = (h, n) \<and> k \<in> hour_key ` set hs then bump field else 0)"
  using assms
proof (induction hs)
  case (Cons x hs)
  show ?case
  proof (cases "hour_key x = k")
    case True
    then have "k \<notin> hour_key ` set hs" using Cons.prems by auto
    with Cons True show ?thesis by (simp add: update_rows_def)
  next
    case False
    with Cons show ?thesis by (simp add: update_rows_def)
  qed
qed (simp add: update_rows_def)

section \<open>Properties of an event\<close>

definition key_ok :: "string \<Rightarrow> bool" where
  "key_ok k \<longleftrightarrow> k \<noteq> [] \<and> length k \<le> 64 \<and> list_all key_char k \<and> toLowerCase k \<notin> set BLOCKED_PROPERTY_KEYS"

fun property_value_ok :: "json \<Rightarrow> bool" where
  "property_value_ok (JStr s) = (length s \<le> MAX_STRING_LENGTH)"
| "property_value_ok (JArr xs) = False"
| "property_value_ok (JObj kvs) = False"
| "property_value_ok j = True"

definition properties_ok :: "(string \<times> json) list \<Rightarrow> bool" where
  "properties_ok ps \<longleftrightarrow> distinct (map fst ps) \<and> (\<forall>(k, v) \<in> set ps. key_ok k \<and> property_value_ok v)"

lemma update_properties:
  assumes "properties_ok ps" and "key_ok k" and "property_value_ok v"
  shows "properties_ok (put_property k v ps)" and "length (put_property k v ps) \<le> Suc (length ps)"
proof -
  have "set (AList.update k v ps) \<subseteq> insert (k, v) (set ps)" by (induction ps) auto
  then show "properties_ok (put_property k v ps)"
    using assms by (auto simp: properties_ok_def put_property_def distinct_update)
  have "length (AList.update k v ps) \<le> Suc (length ps)" by (induction ps) auto
  then show "length (put_property k v ps) \<le> Suc (length ps)" by (simp add: put_property_def)
qed

lemma refuse_Inl: "fst (run_state (refuse E n m) w) \<noteq> Inr x"
  by (simp add: refuse_def recordDropped_def run case_prod_beta)

lemma refuse_not: "run_state (refuse E n m) w = (Inr x, w') \<longleftrightarrow> False"
  using refuse_Inl [of E n m w x] by auto

lemma parseEntries_ok:
  assumes "run_state (parseEntries E n entries out) w = (Inr ps, w')" and "properties_ok out"
  shows "w' = w \<and> properties_ok ps \<and> length ps \<le> length out + length entries"
  using assms
proof (induction entries arbitrary: out)
  case (Cons e entries)
  obtain rawKey v where e: "e = (rawKey, v)" by (cases e)
  have k: "key_ok (trim rawKey)" "property_value_ok v" and r: "run_state (parseEntries E n entries (put_property (trim rawKey) v out)) w = (Inr ps, w')"
    using Cons.prems(1) unfolding e
    by (cases v; auto simp: Let_def key_ok_def refuse_not split: if_splits)+
  from Cons.IH [OF r update_properties(1) [OF Cons.prems(2) k]] update_properties(2) [OF Cons.prems(2) k]
  show ?case by simp
qed simp

lemma parseProperties_ok:
  assumes "run_state (parseProperties E v n) w = (Inr ps, w')"
  shows "w' = w \<and> properties_ok ps \<and> length ps \<le> MAX_PROPERTY_COUNT"
proof -
  have e: "properties_ok []" by (simp add: properties_ok_def)
  show ?thesis
    using assms parseEntries_ok [OF _ e]
    by (auto simp: parseProperties_def e refuse_not Let_def split: option.splits json.splits if_splits) fastforce+
qed

section \<open>A normalized event\<close>

definition within_skew :: "('r, 'd) env \<Rightarrow> int \<Rightarrow> int \<Rightarrow> bool" where
  "within_skew E t now \<longleftrightarrow> - (maxPastSkewSeconds E * 1000) \<le> t - now \<and> t - now \<le> maxFutureSkewSeconds E * 1000"

lemma readPositiveIntEnv_pos: "0 < fallback \<Longrightarrow> 0 < readPositiveIntEnv v fallback"
  by (simp add: readPositiveIntEnv_def Let_def)

lemma within_skew_now: "within_skew E now now"
  using readPositiveIntEnv_pos [of 300] readPositiveIntEnv_pos [of 86400]
  by (simp add: within_skew_def maxFutureSkewSeconds_def maxPastSkewSeconds_def DEFAULT_MAX_FUTURE_SKEW_SECONDS_def
      DEFAULT_MAX_PAST_SKEW_SECONDS_def less_imp_le)

definition normal :: "('r, 'd) env \<Rightarrow> int \<Rightarrow> emit_input \<Rightarrow> bool" where
  "normal E now input \<longleftrightarrow> em_name input \<in> set ANALYTICS_EVENT_NAMES \<and> properties_ok (em_properties input) \<and>
     length (em_properties input) \<le> MAX_PROPERTY_COUNT \<and> within_skew E (em_occurredAt input) now \<and> em_eventSchemaVersion input = 1"

lemma parseEventName_ok: "run_state (parseEventName E v) w = (Inr n, w') \<Longrightarrow> w' = w \<and> n = v \<and> n \<in> set ANALYTICS_EVENT_NAMES"
  by (auto simp: parseEventName_def refuse_not split: if_splits)

lemma parseEventSchemaVersion_ok: "run_state (parseEventSchemaVersion E v n) w = (Inr k, w') \<Longrightarrow> w' = w \<and> k = 1"
  by (auto simp: parseEventSchemaVersion_def refuse_not ALLOWED_SCHEMA_VERSIONS_def split: option.splits if_splits)

lemma parseEventId_ok: "run_state (parseEventId E v n) w = (Inr i, w') \<Longrightarrow> \<exists>k. w' = w\<lparr>uuids := k\<rparr>"
  by (auto simp: parseEventId_def refuse_not run Let_def split: option.splits json.splits if_splits)
    (metis world.surjective world.update_convs(5))+

lemma parseOccurredAt_ok: "run_state (parseOccurredAt E v n) w = (Inr t, w') \<Longrightarrow> w' = w \<and> within_skew E t (clock w)"
  by (auto simp: parseOccurredAt_def refuse_not run Let_def within_skew_now split: option.splits json.splits if_splits)
    (auto simp: within_skew_def)

lemma normalizeEvent_ok:
  assumes "run_state (normalizeEvent E input) w = (Inr em, w')"
  shows "clock w' = clock w \<and> normal E (clock w) em"
proof -
  obtain name w1 where n: "run_state (parseEventName E (ei_name input)) w = (Inr name, w1)"
    using assms by (auto simp: normalizeEvent_def run split: prod.splits sum.splits)
  note n' = parseEventName_ok [OF n]
  obtain ps w2 where p: "run_state (parseProperties E (ei_properties input) name) w = (Inr ps, w2)"
    using assms n n' by (auto simp: normalizeEvent_def run split: prod.splits sum.splits)
  note p' = parseProperties_ok [OF p]
  obtain k w3 where v: "run_state (parseEventSchemaVersion E (ei_eventSchemaVersion input) name) w = (Inr k, w3)"
    using assms n n' p p' by (auto simp: normalizeEvent_def run split: prod.splits sum.splits)
  note v' = parseEventSchemaVersion_ok [OF v]
  obtain i w4 where d: "run_state (parseEventId E (ei_eventId input) name) w = (Inr i, w4)"
    using assms n n' p p' v v' by (auto simp: normalizeEvent_def run split: prod.splits sum.splits)
  obtain t w5 where o: "run_state (parseOccurredAt E (ei_occurredAt input) name) w4 = (Inr t, w5)"
    using assms n n' p p' v v' d by (auto simp: normalizeEvent_def run split: prod.splits sum.splits)
  note o' = parseOccurredAt_ok [OF o]
  have "clock w4 = clock w" using parseEventId_ok [OF d] by auto
  then show ?thesis
    using assms n n' p p' v v' d o o' by (auto simp: normalizeEvent_def run normal_def)
qed

section \<open>The invariant\<close>

definition clean :: "('r, 'd) env \<Rightarrow> event_row \<Rightarrow> bool" where
  "clean E r \<longleftrightarrow> ev_eventName r \<in> set ANALYTICS_EVENT_NAMES \<and> ev_eventSchemaVersion r = 1 \<and> within_skew E (ev_occurredAt r) (ev_receivedAt r) \<and>
     (\<exists>ps. ev_properties r = JObj ps \<and> properties_ok ps \<and> length ps \<le> MAX_PROPERTY_COUNT)"

definition stored :: "event_row list \<Rightarrow> int \<Rightarrow> string \<Rightarrow> nat" where
  "stored evs h n = count_rows (\<lambda>r. hour_of (ev_receivedAt r) = h \<and> ev_eventName r = n) evs"

definition analytics_wf :: "('r, 'd) env \<Rightarrow> tables \<Rightarrow> bool" where
  "analytics_wf E d \<longleftrightarrow> (\<forall>r \<in> set (tb_events d). clean E r) \<and> distinct (map ev_eventId (tb_events d)) \<and>
     distinct (map hour_key (tb_hourly d)) \<and> (\<forall>h n. counted (tb_hourly d) h n = int (stored (tb_events d) h n))"

lemma allowed_names:
  assumes "n \<in> set ANALYTICS_EVENT_NAMES"
  shows "sanitizeEventNameForCounter n = n"
proof -
  have "list_all (\<lambda>n. sanitizeEventNameForCounter n = n) ANALYTICS_EVENT_NAMES" by code_simp
  with assms show ?thesis by (simp add: list_all_iff)
qed

lemma new_event_simps [simp]:
  "ev_eventId (new_event input t i) = em_eventId input" "ev_receivedAt (new_event input t i) = t" "ev_eventName (new_event input t i) = em_name input"
  by (simp_all add: new_event_def extractCorrelationFields_def)

lemma new_event_clean: "normal E t input \<Longrightarrow> clean E (new_event input t i)"
  by (simp add: clean_def new_event_def extractCorrelationFields_def normal_def)

context backend
begin

lemma increment_run:
  assumes "distinct (map hour_key (tb_hourly (view (db w))))"
  shows "\<exists>x d hs. run_state (incrementIngestCounter E name field t) w = (Inr x, w\<lparr>db := d\<rparr>) \<and>
    view d = tb_hourly_update (\<lambda>_. hs) (view (db w)) \<and> distinct (map hour_key hs) \<and>
    (\<forall>h n. counted hs h n = counted (tb_hourly (view (db w))) h n +
      (if hour_of t = h \<and> sanitizeEventNameForCounter name = n then bump field else 0))"
proof -
  let ?k = "(hour_of t, sanitizeEventNameForCounter name)"
  let ?p = "\<lambda>x. hr_hourStart x = hour_of t \<and> hr_eventName x = sanitizeEventNameForCounter name"
  have p: "?p = (\<lambda>x. hour_key x = ?k)" by (auto simp: hour_key_def)
  let ?mk = "new_counter field (hour_of t) (sanitizeEventNameForCounter name) (clock w)"
  let ?hs = "tb_hourly (view (db w))"
  let ?up = "dg_upsert (pr_analyticsIngestHourly (prc E)) (db w) ?p ?mk (count_one field)"
  have r: "run_state (incrementIngestCounter E name field t) w = (fst ?up, w\<lparr>db := snd ?up\<rparr>)"
    by (simp add: incrementIngestCounter_def Let_def run)
  show ?thesis
  proof (cases "\<exists>x \<in> set ?hs. ?p x")
    case True
    then obtain x where x: "x \<in> set ?hs" "hour_key x = ?k" by (auto simp: hour_key_def)
    have f: "filter ?p ?hs = [x]" unfolding p using filter_key [OF assms x(1)] x(2) by simp
    have "\<forall>y \<in> set ?hs. \<not> ?p y \<longrightarrow> \<not> uq_hourly y (count_one field x)"
      using x(2) count_one_simps(1) [of field x] by (auto simp: uq_hourly_def hour_key_def simp del: count_one_simps)
    from prisma.analyticsIngestHourly.upsert_update [where d = "db w" and p = ?p and r = x and f = "count_one field" and mk = ?mk, OF f this]
    have u: "fst ?up = Inr (count_one field x)" "view (snd ?up) = tb_hourly_update (\<lambda>_. update_rows ?p (count_one field) ?hs) (view (db w))"
      by auto
    have "distinct (map hour_key (update_rows ?p (count_one field) ?hs))" using assms by (simp add: map_update_rows)
    moreover have "counted (update_rows ?p (count_one field) ?hs) h n = counted ?hs h n + (if ?k = (h, n) then bump field else 0)" for h n
      unfolding p counted_update [OF assms] using x by (auto simp: image_iff)
    ultimately show ?thesis
      using r u by (intro exI [of _ "count_one field x"] exI [of _ "snd ?up"] exI [of _ "update_rows ?p (count_one field) ?hs"]) simp
  next
    case False
    let ?x = "?mk (dg_cuid (pr_analyticsIngestHourly (prc E)) (db w))"
    have k: "hour_key ?x = ?k" by simp
    have "\<forall>y \<in> set ?hs. \<not> ?p y \<and> \<not> uq_hourly y ?x"
      using False k by (auto simp: uq_hourly_def hour_key_def simp del: new_counter_simps)
    from prisma.analyticsIngestHourly.upsert_create [where d = "db w" and p = ?p and f = "count_one field" and mk = ?mk, OF this]
    have u: "fst ?up = Inr ?x" "view (snd ?up) = tb_hourly_update (\<lambda>_. ?hs @ [?x]) (view (db w))" by auto
    have "?k \<notin> hour_key ` set ?hs" using False by (auto simp: hour_key_def)
    then have "distinct (map hour_key (?hs @ [?x]))" using assms by simp
    moreover have "counted (?hs @ [?x]) h n = counted ?hs h n + (if ?k = (h, n) then bump field else 0)" for h n by simp
    ultimately show ?thesis
      using r u by (intro exI [of _ ?x] exI [of _ "snd ?up"] exI [of _ "?hs @ [?x]"]) simp
  qed
qed

abbreviation consistent :: "('r, 'd) world \<Rightarrow> bool" where
  "consistent w \<equiv> analytics_wf E (view (db w))"

lemma wf_hourly:
  assumes "analytics_wf E d" and "distinct (map hour_key hs)" and "\<forall>h n. counted hs h n = counted (tb_hourly d) h n"
  shows "analytics_wf E (tb_hourly_update (\<lambda>_. hs) d)"
  using assms by (simp add: analytics_wf_def)

lemma dropped_wf [pres]: "preserves consistent (incrementIngestCounter E name Dropped t)"
  unfolding preserves_def
proof (intro allI impI)
  fix w
  assume a: "consistent w"
  obtain x d hs where "run_state (incrementIngestCounter E name Dropped t) w = (Inr x, w\<lparr>db := d\<rparr>)"
    "view d = tb_hourly_update (\<lambda>_. hs) (view (db w))" "distinct (map hour_key hs)"
    "\<forall>h n. counted hs h n = counted (tb_hourly (view (db w))) h n + (if hour_of t = h \<and> sanitizeEventNameForCounter name = n then bump Dropped else 0)"
    using increment_run [of w name Dropped t] a by (auto simp: analytics_wf_def)
  with wf_hourly [OF a, of hs] show "consistent (snd (run_state (incrementIngestCounter E name Dropped t) w))"
    by (simp add: bump_def)
qed

lemma refuse_wf [pres]: "preserves consistent (refuse E n m)"
  unfolding refuse_def recordDropped_def by (intro pres)

lemma parseEntries_wf [pres]: "preserves consistent (parseEntries E n entries out)"
proof (induction entries arbitrary: out)
  case (Cons e entries)
  then show ?case
    by (cases e; cases "snd e") (auto simp: Let_def intro!: pres)
qed (auto intro!: pres)

lemma uuid_wf [pres]: "preserves consistent (randomUUID E)"
  by (simp add: preserves_def run)

lemma json_wf [pres]:
  assumes "preserves I a" "\<And>b. preserves I (f b)" "\<And>n. preserves I (g n)" "\<And>s. preserves I (h s)" "\<And>xs. preserves I (k xs)" "\<And>kvs. preserves I (l kvs)"
  shows "preserves I (case j of JNull \<Rightarrow> a | JBool b \<Rightarrow> f b | JNum n \<Rightarrow> g n | JStr s \<Rightarrow> h s | JArr xs \<Rightarrow> k xs | JObj kvs \<Rightarrow> l kvs)"
  using assms by (cases j) simp_all

lemma normalizeEvent_wf [pres]: "preserves consistent (normalizeEvent E input)"
  unfolding normalizeEvent_def parseEventName_def parseProperties_def parseEventSchemaVersion_def parseEventId_def parseOccurredAt_def
  by (intro pres)

lemma persistEvent_wf:
  assumes a: "consistent w" and n: "normal E (clock w) input"
  shows "consistent (snd (run_state (persistEvent E input strict) w))"
proof -
  let ?D = "pr_analyticsEvent (prc E)"
  let ?mk = "new_event input (clock w)"
  let ?r = "?mk (dg_cuid ?D (db w))"
  let ?w = "w\<lparr>db := snd (dg_create ?D (db w) ?mk)\<rparr>"
  show ?thesis
  proof (cases "\<exists>x \<in> set (tb_events (view (db w))). same_on ev_eventId x ?r")
    case True
    from prisma.analyticsEvent.create_conflict [of "db w" ?mk, OF this]
    have c: "fst (dg_create ?D (db w) ?mk) = Inl PrismaP2002" "consistent ?w" using a by simp_all
    then have "snd (run_state (persistEvent E input strict) w) = snd (run_state (incrementIngestCounter E (em_name input) Dropped (clock w)) ?w)"
      by (simp add: persistEvent_def run case_prod_beta)
    then show ?thesis using preservesD [OF dropped_wf c(2)] by simp
  next
    case False
    then have "\<forall>x \<in> set (tb_events (view (db w))). \<not> same_on ev_eventId x ?r" by blast
    from prisma.analyticsEvent.create_ok [of "db w" ?mk, OF this]
    have c: "fst (dg_create ?D (db w) ?mk) = Inr ?r" "view (db ?w) = tb_events_update (\<lambda>rs. rs @ [?r]) (view (db w))" by simp_all
    have "distinct (map hour_key (tb_hourly (view (db ?w))))" using a c(2) by (simp add: analytics_wf_def)
    then obtain x d hs where i: "run_state (incrementIngestCounter E (em_name input) Accepted (clock w)) ?w = (Inr x, ?w\<lparr>db := d\<rparr>)"
      "view d = tb_hourly_update (\<lambda>_. hs) (view (db ?w))" "distinct (map hour_key hs)"
      "\<forall>h n. counted hs h n = counted (tb_hourly (view (db ?w))) h n +
         (if hour_of (clock w) = h \<and> sanitizeEventNameForCounter (em_name input) = n then bump Accepted else 0)"
      using increment_run [of ?w "em_name input" Accepted "clock w"] by blast
    have "snd (run_state (persistEvent E input strict) w) = ?w\<lparr>db := d\<rparr>"
      using c(1) i(1) by (simp add: persistEvent_def run)
    moreover have "em_eventId input \<notin> ev_eventId ` set (tb_events (view (db w)))" using False by (auto simp: same_on_def)
    moreover have "sanitizeEventNameForCounter (em_name input) = em_name input" using n allowed_names by (simp add: normal_def)
    ultimately show ?thesis
      using a i(2,3,4) c(2) new_event_clean [OF n] by (simp add: analytics_wf_def stored_def count_rows_def bump_def)
  qed
qed

lemma normalized_wf:
  assumes "consistent w" and "run_state (normalizeEvent E input) w = (x, w')"
  shows "consistent w' \<and> (case x of Inl e \<Rightarrow> True | Inr em \<Rightarrow> consistent (snd (run_state (persistEvent E em strict) w')))"
proof -
  have c: "consistent w'" using preservesD [OF normalizeEvent_wf assms(1), of input] assms(2) by simp
  moreover have "consistent (snd (run_state (persistEvent E em strict) w'))" if "x = Inr em" for em
    using normalizeEvent_ok [of E input w em w'] assms(2) that c by (intro persistEvent_wf) auto
  ultimately show ?thesis by (simp split: sum.split)
qed

lemma client_wf:
  assumes "consistent w"
  shows "consistent (snd (run_state (trackClientEvent E u name ps cx) w))"
proof -
  obtain input where t: "trackClientEvent E u name ps cx = andThen (normalizeEvent E input) (\<lambda>em. persistEvent E em True)"
    unfolding trackClientEvent_def by blast
  obtain x w' where n: "run_state (normalizeEvent E input) w = (x, w')" by (cases "run_state (normalizeEvent E input) w")
  from normalized_wf [OF assms n, of True] show ?thesis by (cases x) (simp_all add: t run n)
qed

lemma server_wf:
  assumes "consistent w"
  shows "consistent (snd (run_state (trackServerEvent E u name ps) w))"
proof -
  obtain input where t: "trackServerEvent E u name ps = do { normalized \<leftarrow> normalizeEvent E input;
      (case normalized of Inl error \<Rightarrow> ret () | Inr input \<Rightarrow> do { persistEvent E input False; ret () }) }"
    unfolding trackServerEvent_def by blast
  obtain x w' where n: "run_state (normalizeEvent E input) w = (x, w')" by (cases "run_state (normalizeEvent E input) w")
  from normalized_wf [OF assms n, of False] show ?thesis by (cases x) (simp_all add: t run n case_prod_beta)
qed

end

section \<open>The property\<close>

datatype analytics_op =
    ClientEvent string string "json option" client_context
  | ServerEvent "string option" string "(string \<times> json) list"

primrec run_analytics :: "('r, 'd) env \<Rightarrow> analytics_op \<Rightarrow> ('r, 'd) world \<Rightarrow> ('r, 'd) world" where
  "run_analytics E (ClientEvent u name ps cx) w = snd (run_state (trackClientEvent E u name ps cx) w)"
| "run_analytics E (ServerEvent u name ps) w = snd (run_state (trackServerEvent E u name ps) w)"

definition analytics_ops :: "('r, 'd) env \<Rightarrow> (int \<times> analytics_op) list \<Rightarrow> ('r, 'd) world \<Rightarrow> ('r, 'd) world" where
  "analytics_ops E ops w = foldl (\<lambda>w (t, op). run_analytics E op (w\<lparr>clock := t\<rparr>)) w ops"

context backend
begin

lemma analytics_ops_wf: "consistent w \<Longrightarrow> consistent (analytics_ops E ops w)"
proof (induction ops arbitrary: w)
  case (Cons p ops)
  obtain t op where o: "p = (t, op)" by (cases p)
  have "consistent (run_analytics E op (w\<lparr>clock := t\<rparr>))"
    using Cons.prems by (cases op) (auto intro: client_wf server_wf)
  from Cons.IH [OF this] show ?case by (simp add: analytics_ops_def o)
qed (simp add: analytics_ops_def)

end

text \<open>
  C27: whatever events clients send (names, properties, identifiers, times) and the server tracks, every event in the
  database has an allowed name, the schema version 1, a time within the configured skew of its receipt, and at most 24 properties with distinct, well-formed,
  not blocked keys and values that are null, a boolean, a number or a string of at most 200 characters; no event identifier is stored
  twice; and for every hour and name the counter of accepted events is the number of events in the database.
\<close>

theorem stored_events_clean:
  assumes "backend E zv sv other view" and "tb_events (view (db w)) = []" and "tb_hourly (view (db w)) = []"
  shows "let d = view (db (analytics_ops E ops w)) in
    (\<forall>r \<in> set (tb_events d). clean E r) \<and> distinct (map ev_eventId (tb_events d)) \<and>
    (\<forall>h n. counted (tb_hourly d) h n = int (stored (tb_events d) h n))"
proof -
  have "analytics_wf E (view (db w))" using assms(2,3) by (simp add: analytics_wf_def stored_def count_rows_def)
  from backend.analytics_ops_wf [OF assms(1) this] show ?thesis by (simp add: analytics_wf_def Let_def)
qed

lemma stored_events_clean_witness:
  "list_all (clean bare_env) (tb_events (db (analytics_ops bare_env [(noon, ServerEvent (Some ''a'') ''queue_joined'' [(''position'', JNum 1)]),
     (noon, ServerEvent None ''unknown'' [])] (queue_world False))))"
  using stored_events_clean [OF bare_backend, of "queue_world False"] by (simp add: no_tables_def Let_def list_all_iff)

end
