(* ===== verification/Flags.thy ===== *)
theory Flags
  imports Security_Config
begin

text \<open>
  \<open>src/src/flags/flags.service.ts\<close>: the flags of the clients, from the environment, the table of flags or a
  default, and the update of a flag.
\<close>

record public_flags =
  pf_onboardingVariant :: string
  pf_sessionDurationSeconds :: int
  pf_reportDialogEnabled :: bool

definition numberVariant :: "string option \<Rightarrow> int \<Rightarrow> int" where
  "numberVariant value fallback =
    (if \<not> truthy value then fallback
     else (let parsed = parseInt (the value) in if isFinite parsed then fin_value parsed else fallback))"

definition envString :: "('r, 'd) env \<Rightarrow> string \<Rightarrow> string option" where
  "envString E name = (let value = map_option trim (env_var E name) in if truthy value then value else None)"

definition envNumber :: "('r, 'd) env \<Rightarrow> string \<Rightarrow> int option" where
  "envNumber E name =
    (let raw = env_var E name in
     if \<not> truthy raw then None
     else (let parsed = parseInt (the raw) in if isFinite parsed then Some (fin_value parsed) else None))"

definition envBoolean :: "('r, 'd) env \<Rightarrow> string \<Rightarrow> bool option" where
  "envBoolean E name =
    (let raw = env_var E name in
     if \<not> truthy raw then None
     else (let normalized = toLowerCase (trim (the raw)) in
       if normalized \<in> {''1'', ''true'', ''yes'', ''on''} then Some True
       else if normalized \<in> {''0'', ''false'', ''no'', ''off''} then Some False
       else None))"

text \<open>\<open>byKey.get(key)\<close>: the last row of the key.\<close>

definition byKey :: "flag_row list \<Rightarrow> string \<Rightarrow> flag_row option" where
  "byKey rows key = map_of (rev (map (\<lambda>row. (ff_key row, row)) rows)) key"

definition getPublicFlags :: "('r, 'd) env \<Rightarrow> (('r, 'd) world, public_flags) prog" where
  "getPublicFlags E = do {
     rows \<leftarrow> query (\<lambda>d. dg_findMany (pr_featureFlag (prc E)) d (\<lambda>_. True));
     let onboardingVariant = (case envString E ''FEATURE_FLAG_ONBOARDING_VARIANT'' of
         Some v \<Rightarrow> v
       | None \<Rightarrow> (case byKey rows ''onboarding_variant'' of
           Some row \<Rightarrow> if ff_enabled row then (case ff_variant row of Some v \<Rightarrow> v | None \<Rightarrow> ''control'') else ''control''
         | None \<Rightarrow> ''control''));
     let sessionDurationSeconds = (case envNumber E ''FEATURE_FLAG_SESSION_DURATION_SECONDS'' of
         Some n \<Rightarrow> n
       | None \<Rightarrow> numberVariant (Option.bind (byKey rows ''session_duration_seconds'') ff_variant) 45);
     let reportDialogEnabled = (case envBoolean E ''FEATURE_FLAG_REPORT_DIALOG_ENABLED'' of
         Some b \<Rightarrow> b
       | None \<Rightarrow> (case byKey rows ''report_dialog_enabled'' of Some row \<Rightarrow> ff_enabled row | None \<Rightarrow> True));
     ret \<lparr>pf_onboardingVariant = onboardingVariant, pf_sessionDurationSeconds = max 15 (min sessionDurationSeconds 180),
       pf_reportDialogEnabled = reportDialogEnabled\<rparr> }"

text \<open>The metadata of an input: \<open>None\<close> is \<open>undefined\<close>, and \<open>Some None\<close> is \<open>null\<close>, which is stored as
  the JSON \<open>null\<close>.\<close>

record flag_input =
  fi_enabled :: bool
  fi_variant :: "string option"
  fi_description :: "string option"
  fi_metadata :: "json option option"

definition mapMetadata :: "json option option \<Rightarrow> json option" where
  "mapMetadata value = map_option (\<lambda>v. case v of None \<Rightarrow> JNull | Some j \<Rightarrow> j) value"

definition new_flag :: "string \<Rightarrow> flag_input \<Rightarrow> int \<Rightarrow> string \<Rightarrow> flag_row" where
  "new_flag key input now i = \<lparr>ff_id = i, ff_createdAt = now, ff_updatedAt = now, ff_key = key, ff_enabled = fi_enabled input,
     ff_variant = fi_variant input, ff_description = fi_description input, ff_metadata = mapMetadata (fi_metadata input)\<rparr>"

definition with_flag :: "flag_input \<Rightarrow> int \<Rightarrow> flag_row \<Rightarrow> flag_row" where
  "with_flag input now row = row\<lparr>ff_updatedAt := now, ff_enabled := fi_enabled input, ff_variant := fi_variant input,
     ff_description := fi_description input,
     ff_metadata := (case mapMetadata (fi_metadata input) of None \<Rightarrow> ff_metadata row | Some j \<Rightarrow> Some j)\<rparr>"

definition upsertFlag :: "('r, 'd) env \<Rightarrow> string \<Rightarrow> flag_input \<Rightarrow> (('r, 'd) world, flag_row) fprog" where
  "upsertFlag E key input = do {
     now \<leftarrow> date_now;
     mutate (\<lambda>d. dg_upsert (pr_featureFlag (prc E)) d (\<lambda>row. ff_key row = key) (new_flag key input now) (with_flag input now)) }"

section \<open>What clients see\<close>

text \<open>The duration that clients are told is between 15 seconds and three minutes, whatever the flags.\<close>

lemma public_duration_bounds:
  "15 \<le> pf_sessionDurationSeconds (fst (run_state (getPublicFlags E) w))"
  "pf_sessionDurationSeconds (fst (run_state (getPublicFlags E) w)) \<le> 180"
  by (simp_all add: getPublicFlags_def run Let_def)

lemma byKey_unique:
  assumes "distinct (map ff_key rows)" and "row \<in> set rows"
  shows "byKey rows (ff_key row) = Some row"
proof -
  have "distinct (map fst (rev (map (\<lambda>row. (ff_key row, row)) rows)))" using assms(1) by (simp add: comp_def flip: rev_map)
  then show ?thesis using assms(2) by (simp add: byKey_def)
qed

end
