(* ===== verification/Notifications.thy ===== *)
theory Notifications
  imports Backend_Env
begin

text \<open>
  \<open>src/src/notifications/notifications.service.ts\<close>: the push tokens of the devices of a user, and the request that
  hands a notification to the push provider. The services that notify do not wait for \<open>notifyUsers\<close>: in their models it is the effect
  \<open>NotifyUsers\<close>. The answer of the provider is not looked at.
\<close>

record push_input =
  pu_token :: string
  pu_platform :: push_platform
  pu_deviceId :: "string option"

definition new_push :: "string \<Rightarrow> string \<Rightarrow> push_platform \<Rightarrow> string option \<Rightarrow> int \<Rightarrow> string \<Rightarrow> push_row" where
  "new_push userId token platform deviceId now i = \<lparr>pt_id = i, pt_createdAt = now, pt_userId = userId, pt_token = token,
     pt_platform = platform, pt_deviceId = deviceId, pt_lastSeenAt = now, pt_revokedAt = None\<rparr>"

definition with_push :: "string \<Rightarrow> push_platform \<Rightarrow> string option \<Rightarrow> int \<Rightarrow> push_row \<Rightarrow> push_row" where
  "with_push userId platform deviceId now t = t\<lparr>pt_userId := userId, pt_platform := platform, pt_deviceId := deviceId,
     pt_lastSeenAt := now, pt_revokedAt := None\<rparr>"

definition registerPushToken :: "('r, 'd) env \<Rightarrow> string \<Rightarrow> push_input \<Rightarrow> (('r, 'd) world, push_row) fprog" where
  "registerPushToken E userId dto = do {
     let token = trim (pu_token dto);
     let deviceId = map_option trim (pu_deviceId dto);
     let deviceId = (if truthy deviceId then deviceId else None);
     now \<leftarrow> date_now;
     mutate (\<lambda>d. dg_upsert (pr_pushToken (prc E)) d (\<lambda>t. pt_token t = token)
       (new_push userId token (pu_platform dto) deviceId now) (with_push userId (pu_platform dto) deviceId now)) }"

definition unregisterPushToken :: "('r, 'd) env \<Rightarrow> string \<Rightarrow> string \<Rightarrow> (('r, 'd) world, nat) prog" where
  "unregisterPushToken E userId tokenRaw = do {
     let token = trim tokenRaw;
     now \<leftarrow> date_now;
     mutate (\<lambda>d. dg_updateMany (pr_pushToken (prc E)) d (\<lambda>t. pt_userId t = userId \<and> pt_token t = token \<and> pt_revokedAt t = None)
       (\<lambda>t. t\<lparr>pt_revokedAt := Some now\<rparr>)) }"

fun platform_text :: "push_platform \<Rightarrow> string" where
  "platform_text WEB = ''WEB''" | "platform_text IOS = ''IOS''" | "platform_text ANDROID = ''ANDROID''"

definition deliveries :: "json \<Rightarrow> push_row list \<Rightarrow> json" where
  "deliveries data tokens = JArr (map (\<lambda>entry. JObj [(''userId'', JStr (pt_userId entry)), (''token'', JStr (pt_token entry)),
     (''platform'', JStr (platform_text (pt_platform entry))), (''data'', data)]) tokens)"

text \<open>The numbers of users and of tokens.\<close>

definition notifyUsers :: "('r, 'd) env \<Rightarrow> string list \<Rightarrow> string \<Rightarrow> json \<Rightarrow> (('r, 'd) world, nat \<times> nat) prog" where
  "notifyUsers E userIds event data =
    (let uniqueUserIds = rev (remdups (rev (filter (\<lambda>u. u \<noteq> []) userIds))) in
     if uniqueUserIds = [] then ret (0, 0)
     else do {
       tokens \<leftarrow> query (\<lambda>d. dg_findMany (pr_pushToken (prc E)) d (\<lambda>t. pt_userId t \<in> set uniqueUserIds \<and> pt_revokedAt t = None));
       if tokens = [] then ret (length uniqueUserIds, 0)
       else (let webhook = map_option trim (env_var E ''PUSH_DISPATCH_WEBHOOK_URL'') in
         if \<not> truthy webhook then ret (length uniqueUserIds, length tokens)
         else do {
           now \<leftarrow> date_now;
           emit (Fetch (the webhook) [(''content-type'', ''application/json'')]
             (JObj [(''event'', JStr event), (''sentAt'', JStr (date_iso now)), (''deliveries'', deliveries data tokens)]));
           ret (length uniqueUserIds, length tokens) }) })"

context backend
begin

text \<open>A token belongs to the user who registered it last, and a notification reaches only tokens that are not revoked, of the users named.\<close>

lemma registered_once:
  assumes "distinct (map pt_token (tb_pushTokens (view (db w))))"
  shows "\<exists>d r. run_state (registerPushToken E u dto) w = (Inr r, w\<lparr>db := d\<rparr>) \<and> r \<in> set (tb_pushTokens (view d)) \<and>
    pt_userId r = u \<and> pt_token r = trim (pu_token dto) \<and> pt_revokedAt r = None \<and> distinct (map pt_token (tb_pushTokens (view d)))"
proof -
  let ?dev = "let x = map_option trim (pu_deviceId dto) in if truthy x then x else None"
  let ?D = "pr_pushToken (prc E)"
  let ?p = "\<lambda>t. pt_token t = trim (pu_token dto)"
  let ?mk = "new_push u (trim (pu_token dto)) (pu_platform dto) ?dev (clock w)"
  let ?f = "with_push u (pu_platform dto) ?dev (clock w)"
  let ?up = "dg_upsert ?D (db w) ?p ?mk ?f"
  have r: "run_state (registerPushToken E u dto) w = (fst ?up, w\<lparr>db := snd ?up\<rparr>)"
    by (simp add: registerPushToken_def run Let_def)
  show ?thesis
  proof (cases "\<exists>t \<in> set (tb_pushTokens (view (db w))). ?p t")
    case True
    then obtain t where t: "t \<in> set (tb_pushTokens (view (db w)))" "?p t" by blast
    have f: "filter ?p (tb_pushTokens (view (db w))) = [t]" using filter_key [OF assms t(1)] t(2) by simp
    have "\<forall>x \<in> set (tb_pushTokens (view (db w))). \<not> ?p x \<longrightarrow> \<not> same_on pt_token x (?f t)"
      using t(2) by (simp add: same_on_def with_push_def)
    note u = prisma.pushToken.upsert_update [where d = "db w" and p = ?p and r = t and f = ?f and mk = ?mk, OF f this]
    have "?f t \<in> set (update_rows ?p ?f (tb_pushTokens (view (db w))))" using t by (auto simp: set_update_rows)
    moreover have "map pt_token (update_rows ?p ?f (tb_pushTokens (view (db w)))) = map pt_token (tb_pushTokens (view (db w)))"
      by (rule map_update_rows) (simp add: with_push_def)
    ultimately show ?thesis
      using r u t(2) assms by (intro exI [of _ "snd ?up"] exI [of _ "?f t"]) (simp add: with_push_def)
  next
    case False
    let ?r = "?mk (dg_cuid ?D (db w))"
    have "\<forall>x \<in> set (tb_pushTokens (view (db w))). \<not> ?p x \<and> \<not> same_on pt_token x ?r"
      using False by (auto simp: same_on_def new_push_def)
    note u = prisma.pushToken.upsert_create [where d = "db w" and p = ?p and f = ?f and mk = ?mk, OF this]
    show ?thesis
      using r u assms False by (intro exI [of _ "snd ?up"] exI [of _ ?r]) (auto simp: new_push_def)
  qed
qed

end

end
