(* ===== verification/Telemetry.thy ===== *)
theory Telemetry
  imports Backend_Env
begin

text \<open>
  \<open>src/src/telemetry/telemetry-metrics.service.ts\<close> and \<open>src/src/telemetry/telemetry-alerts.service.ts\<close>: the metrics
  of the last 24 hours from the analytics events, the status of the three stages of a launch, and the alert that
  asks for a pause. Rates are doubles (\<open>to_double\<close>); the numbers in the properties of an event are integers. The log
  lines are left out. The answer of the webhook, which is a parameter, is whether the request succeeded.
\<close>

definition SNAPSHOT_WINDOW_HOURS :: int where "SNAPSHOT_WINDOW_HOURS = 24"
definition SNAPSHOT_INTERVAL_MS :: int where "SNAPSHOT_INTERVAL_MS = 5 * 60 * 1000"
definition WAIT_P90_BREACH_KEY :: string where "WAIT_P90_BREACH_KEY = ''telemetry:alerts:wait_p90:breach_since''"
definition AUTO_PAUSE_COOLDOWN_KEY :: string where "AUTO_PAUSE_COOLDOWN_KEY = ''telemetry:alerts:auto_pause:cooldown''"
definition WAIT_P90_THRESHOLD_SECONDS :: int where "WAIT_P90_THRESHOLD_SECONDS = 150"
definition WAIT_P90_SUSTAIN_MS :: int where "WAIT_P90_SUSTAIN_MS = 2 * 60 * 60 * 1000"
definition AUTO_PAUSE_COOLDOWN_MS :: int where "AUTO_PAUSE_COOLDOWN_MS = 15 * 60 * 1000"
definition SEVERE_INCIDENT_THRESHOLD_PER_10K :: int where "SEVERE_INCIDENT_THRESHOLD_PER_10K = 5"

datatype stage_status = GREEN | AMBER | RED

fun status_text :: "stage_status \<Rightarrow> string" where
  "status_text GREEN = ''GREEN''" | "status_text AMBER = ''AMBER''" | "status_text RED = ''RED''"

record metrics =
  mt_waitP50Seconds :: "rat option"
  mt_waitP90Seconds :: "rat option"
  mt_abandonmentRate :: "rat option"
  mt_completionRate :: "rat option"
  mt_mutualMatchRate :: "rat option"
  mt_chatActivationRate :: "rat option"
  mt_severeIncidentPer10k :: "rat option"
  mt_appealOverturnRate :: "rat option"
  mt_severeActionLatencyP95 :: "rat option"

record stage_gate_snapshot =
  ss_windowStart :: int
  ss_windowEnd :: int
  ss_metrics :: metrics
  ss_stage0Status :: stage_status
  ss_stage1Status :: stage_status
  ss_stage2Status :: stage_status
  ss_autoPauseTriggered :: bool
  ss_autoPauseReasons :: "string list"

section \<open>Counting the events\<close>

definition numberProperty :: "string \<Rightarrow> json \<Rightarrow> int option" where
  "numberProperty key properties = json_get_num key properties"

definition stringProperty :: "string \<Rightarrow> json \<Rightarrow> string option" where
  "stringProperty key properties = (case json_get_str key properties of
     None \<Rightarrow> None
   | Some s \<Rightarrow> let trimmed = trim s in if length trimmed > 0 then Some trimmed else None)"

record tally =
  ty_waits :: "int list"
  ty_actionLatencies :: "int list"
  ty_queueJoined :: nat
  ty_queueAbandoned :: nat
  ty_sessionStarted :: nat
  ty_sessionCompleted :: nat
  ty_sessionResults :: nat
  ty_mutualResults :: nat
  ty_chatOpened :: nat
  ty_severeActions :: nat
  ty_appealResolved :: nat
  ty_appealOverturned :: nat

definition no_tally :: tally where
  "no_tally = \<lparr>ty_waits = [], ty_actionLatencies = [], ty_queueJoined = 0, ty_queueAbandoned = 0, ty_sessionStarted = 0,
     ty_sessionCompleted = 0, ty_sessionResults = 0, ty_mutualResults = 0, ty_chatOpened = 0, ty_severeActions = 0,
     ty_appealResolved = 0, ty_appealOverturned = 0\<rparr>"

definition WINDOW_EVENTS :: "string list" where
  "WINDOW_EVENTS = [''queue_match_found'', ''queue_left'', ''queue_joined'', ''session_ended'', ''session_started'', ''session_result'',
     ''match_chat_opened'', ''safety_action_taken'', ''safety_appeal_resolved'']"

definition count_event :: "tally \<Rightarrow> event_row \<Rightarrow> tally" where
  "count_event y event =
    (let properties = ev_properties event; name = ev_eventName event in
     if name = ''queue_match_found''
     then (case numberProperty ''waitSeconds'' properties of None \<Rightarrow> y | Some n \<Rightarrow> y\<lparr>ty_waits := ty_waits y @ [n]\<rparr>)
     else if name = ''queue_joined'' then y\<lparr>ty_queueJoined := ty_queueJoined y + 1\<rparr>
     else if name = ''queue_left''
     then (if stringProperty ''reason'' properties \<noteq> Some ''matched'' then y\<lparr>ty_queueAbandoned := ty_queueAbandoned y + 1\<rparr> else y)
     else if name = ''session_started'' then y\<lparr>ty_sessionStarted := ty_sessionStarted y + 1\<rparr>
     else if name = ''session_ended''
     then (case numberProperty ''durationSeconds'' properties of
         None \<Rightarrow> y | Some n \<Rightarrow> if n \<ge> 40 then y\<lparr>ty_sessionCompleted := ty_sessionCompleted y + 1\<rparr> else y)
     else if name = ''session_result''
     then (let y1 = y\<lparr>ty_sessionResults := ty_sessionResults y + 1\<rparr> in
       if stringProperty ''result'' properties = Some ''mutual_match'' then y1\<lparr>ty_mutualResults := ty_mutualResults y1 + 1\<rparr> else y1)
     else if name = ''match_chat_opened'' then y\<lparr>ty_chatOpened := ty_chatOpened y + 1\<rparr>
     else if name = ''safety_action_taken''
     then (let action = stringProperty ''action'' properties;
               y1 = (case numberProperty ''actionLatencyMs'' properties of
                   None \<Rightarrow> y | Some n \<Rightarrow> y\<lparr>ty_actionLatencies := ty_actionLatencies y @ [n]\<rparr>) in
       if action = Some ''ban'' \<or> action = Some ''terminate_session'' then y1\<lparr>ty_severeActions := ty_severeActions y1 + 1\<rparr> else y1)
     else if name = ''safety_appeal_resolved''
     then (let y1 = y\<lparr>ty_appealResolved := ty_appealResolved y + 1\<rparr> in
       if stringProperty ''resolution'' properties = Some ''overturned'' then y1\<lparr>ty_appealOverturned := ty_appealOverturned y1 + 1\<rparr> else y1)
     else y)"

section \<open>Metrics and status\<close>

definition percentile :: "int list \<Rightarrow> rat \<Rightarrow> rat option" where
  "percentile values rank =
    (if values = [] then None
     else (let sorted = sort values;
               index = max 0 (min (int (length sorted) - 1) (\<lceil>to_double (rank * of_nat (length sorted))\<rceil> - 1))
           in Some (of_int (sorted ! nat index))))"

definition ratio :: "nat \<Rightarrow> nat \<Rightarrow> rat option" where
  "ratio a b = (if b > 0 then Some (to_double (of_nat a / of_nat b)) else None)"

definition metrics_of :: "tally \<Rightarrow> metrics" where
  "metrics_of y = \<lparr>mt_waitP50Seconds = percentile (ty_waits y) (to_double (1 / 2)),
     mt_waitP90Seconds = percentile (ty_waits y) (to_double (9 / 10)),
     mt_abandonmentRate = ratio (ty_queueAbandoned y) (ty_queueJoined y),
     mt_completionRate = ratio (ty_sessionCompleted y) (ty_sessionStarted y),
     mt_mutualMatchRate = ratio (ty_mutualResults y) (ty_sessionResults y),
     mt_chatActivationRate = ratio (ty_chatOpened y) (ty_mutualResults y),
     mt_severeIncidentPer10k = ratio (ty_severeActions y * 10000) (ty_sessionStarted y),
     mt_appealOverturnRate = ratio (ty_appealOverturned y) (ty_appealResolved y),
     mt_severeActionLatencyP95 = percentile (ty_actionLatencies y) (to_double (95 / 100))\<rparr>"

definition stage0Status :: "rat option \<Rightarrow> stage_status" where
  "stage0Status severeActionLatencyP95 =
    (case severeActionLatencyP95 of None \<Rightarrow> AMBER | Some x \<Rightarrow> if x \<le> 2000 then GREEN else RED)"

definition stage1Status :: "metrics \<Rightarrow> stage_status" where
  "stage1Status input =
    (case (mt_waitP50Seconds input, mt_waitP90Seconds input, mt_abandonmentRate input, mt_severeIncidentPer10k input) of
       (Some waitP50, Some waitP90, Some abandonment, Some severe) \<Rightarrow>
         if waitP50 \<le> 30 \<and> waitP90 \<le> 90 \<and> abandonment \<le> to_double (15 / 100) \<and> severe \<le> 3 then GREEN else RED
     | _ \<Rightarrow> AMBER)"

definition stage2Status :: "metrics \<Rightarrow> stage_status" where
  "stage2Status input =
    (case (mt_completionRate input, mt_mutualMatchRate input, mt_chatActivationRate input) of
       (Some completion, Some mutual, Some chat) \<Rightarrow>
         if completion \<ge> to_double (85 / 100) \<and> mutual \<ge> to_double (12 / 100) \<and> mutual \<le> to_double (35 / 100) \<and>
            chat \<ge> to_double (6 / 10) then AMBER else RED
     | _ \<Rightarrow> AMBER)"

text \<open>A comparison with \<open>null\<close> excluded.\<close>

definition above :: "rat option \<Rightarrow> int \<Rightarrow> bool" where
  "above x n \<longleftrightarrow> (case x of None \<Rightarrow> False | Some r \<Rightarrow> r > of_int n)"

definition autoPauseReasons :: "metrics \<Rightarrow> string list" where
  "autoPauseReasons m = (if above (mt_severeIncidentPer10k m) 5 then [''severe_incidents_over_5_per_10k''] else []) @
     (if above (mt_waitP90Seconds m) 150 then [''wait_p90_over_150s''] else [])"

definition snapshot_of :: "int \<Rightarrow> int \<Rightarrow> event_row list \<Rightarrow> stage_gate_snapshot" where
  "snapshot_of windowStart windowEnd events =
    (let m = metrics_of (foldl count_event no_tally events) in
     \<lparr>ss_windowStart = windowStart, ss_windowEnd = windowEnd, ss_metrics = m,
      ss_stage0Status = stage0Status (mt_severeActionLatencyP95 m), ss_stage1Status = stage1Status m, ss_stage2Status = stage2Status m,
      ss_autoPauseTriggered = (length (autoPauseReasons m) > 0), ss_autoPauseReasons = autoPauseReasons m\<rparr>)"

definition new_snapshot :: "stage_gate_snapshot \<Rightarrow> int \<Rightarrow> string \<Rightarrow> snapshot_row" where
  "new_snapshot s now i = (let m = ss_metrics s in \<lparr>sn_id = i, sn_createdAt = now, sn_windowStart = ss_windowStart s, sn_windowEnd = ss_windowEnd s,
     sn_waitP50Seconds = mt_waitP50Seconds m, sn_waitP90Seconds = mt_waitP90Seconds m, sn_abandonmentRate = mt_abandonmentRate m,
     sn_completionRate = mt_completionRate m, sn_mutualMatchRate = mt_mutualMatchRate m, sn_chatActivationRate = mt_chatActivationRate m,
     sn_severeIncidentPer10k = mt_severeIncidentPer10k m, sn_appealOverturnRate = mt_appealOverturnRate m,
     sn_severeActionLatencyP95 = mt_severeActionLatencyP95 m, sn_stage0Status = status_text (ss_stage0Status s),
     sn_stage1Status = status_text (ss_stage1Status s), sn_stage2Status = status_text (ss_stage2Status s),
     sn_autoPauseTriggered = ss_autoPauseTriggered s, sn_autoPauseReasons = Some (JArr (map JStr (ss_autoPauseReasons s)))\<rparr>)"

definition computeAndPersistSnapshot :: "('r, 'd) env \<Rightarrow> (('r, 'd) world, stage_gate_snapshot) fprog" where
  "computeAndPersistSnapshot E = do {
     windowEnd \<leftarrow> date_now;
     let windowStart = windowEnd - SNAPSHOT_WINDOW_HOURS * 60 * 60 * 1000;
     events \<leftarrow> query (\<lambda>d. dg_findMany (pr_analyticsEvent (prc E)) d (\<lambda>e. windowStart \<le> ev_occurredAt e \<and> ev_occurredAt e \<le> windowEnd \<and>
       ev_eventName e \<in> set WINDOW_EVENTS));
     let snapshot = snapshot_of windowStart windowEnd events;
     andThen (mutate (\<lambda>d. dg_create (pr_telemetryGateSnapshot (prc E)) d (new_snapshot snapshot windowEnd))) (\<lambda>_. ok snapshot) }"

section \<open>The view\<close>

record stage_gate_view =
  sv_windowStart :: string
  sv_windowEnd :: string
  sv_metrics :: metrics
  sv_stage0 :: string
  sv_stage1 :: string
  sv_stage2 :: string
  sv_triggered :: bool
  sv_reasons :: "string list"

definition toView :: "stage_gate_snapshot \<Rightarrow> stage_gate_view" where
  "toView s = \<lparr>sv_windowStart = date_iso (ss_windowStart s), sv_windowEnd = date_iso (ss_windowEnd s), sv_metrics = ss_metrics s,
     sv_stage0 = status_text (ss_stage0Status s), sv_stage1 = status_text (ss_stage1Status s), sv_stage2 = status_text (ss_stage2Status s),
     sv_triggered = ss_autoPauseTriggered s, sv_reasons = ss_autoPauseReasons s\<rparr>"

definition parseReasons :: "json option \<Rightarrow> string list" where
  "parseReasons value = (case value of Some (JArr xs) \<Rightarrow> [s. JStr s \<leftarrow> xs] | _ \<Rightarrow> [])"

definition row_view :: "snapshot_row \<Rightarrow> stage_gate_view" where
  "row_view latest = \<lparr>sv_windowStart = date_iso (sn_windowStart latest), sv_windowEnd = date_iso (sn_windowEnd latest),
     sv_metrics = \<lparr>mt_waitP50Seconds = sn_waitP50Seconds latest, mt_waitP90Seconds = sn_waitP90Seconds latest,
       mt_abandonmentRate = sn_abandonmentRate latest, mt_completionRate = sn_completionRate latest,
       mt_mutualMatchRate = sn_mutualMatchRate latest, mt_chatActivationRate = sn_chatActivationRate latest,
       mt_severeIncidentPer10k = sn_severeIncidentPer10k latest, mt_appealOverturnRate = sn_appealOverturnRate latest,
       mt_severeActionLatencyP95 = sn_severeActionLatencyP95 latest\<rparr>,
     sv_stage0 = sn_stage0Status latest, sv_stage1 = sn_stage1Status latest, sv_stage2 = sn_stage2Status latest,
     sv_triggered = sn_autoPauseTriggered latest, sv_reasons = parseReasons (sn_autoPauseReasons latest)\<rparr>"

definition getStageGateView :: "('r, 'd) env \<Rightarrow> (('r, 'd) world, stage_gate_view) fprog" where
  "getStageGateView E = do {
     found \<leftarrow> query (\<lambda>d. dg_findLatest (pr_telemetryGateSnapshot (prc E)) d (\<lambda>_. True) (Some 1));
     (case found of
        [] \<Rightarrow> andThen (computeAndPersistSnapshot E) (\<lambda>computed. ok (toView computed))
      | latest # _ \<Rightarrow> ok (row_view latest)) }"

section \<open>Synthetic events\<close>

definition synthetic :: "string \<Rightarrow> string \<Rightarrow> string \<Rightarrow> (string \<times> json) list" where
  "synthetic queueKey sessionId matchId = [
     (''queue_joined'', JObj [(''queueKey'', JStr queueKey), (''usersSearchingSnapshot'', JNum 3)]),
     (''queue_match_found'', JObj [(''queueKey'', JStr queueKey), (''sessionId'', JStr sessionId), (''waitSeconds'', JNum 24)]),
     (''session_started'', JObj [(''sessionId'', JStr sessionId)]),
     (''session_ended'', JObj [(''sessionId'', JStr sessionId), (''durationSeconds'', JNum 58), (''endedBy'', JStr ''timer'')]),
     (''session_result'', JObj [(''sessionId'', JStr sessionId), (''matchId'', JStr matchId), (''result'', JStr ''mutual_match'')]),
     (''match_chat_opened'', JObj [(''matchId'', JStr matchId), (''timeFromMutualMatchSec'', JNum 8)]),
     (''safety_action_taken'', JObj [(''action'', JStr ''warn''), (''actionLatencyMs'', JNum 850), (''automated'', JBool True)]),
     (''safety_appeal_resolved'', JObj [(''actionType'', JStr ''warn''), (''resolution'', JStr ''upheld''), (''resolutionLatencySec'', JNum 45)])]"

definition synthetic_row ::
  "('r, 'd) env \<Rightarrow> string \<Rightarrow> string \<Rightarrow> string \<Rightarrow> string \<Rightarrow> int \<Rightarrow> string \<Rightarrow> string \<times> json \<Rightarrow> string \<Rightarrow> event_row" where
  "synthetic_row E userId sessionId matchId queueKey now eventId event i = \<lparr>ev_id = i, ev_createdAt = now, ev_eventSchemaVersion = 1,
     ev_eventId = eventId, ev_eventName = fst event, ev_occurredAt = now, ev_receivedAt = now, ev_source = ''backend'',
     ev_platform = ''backend'', ev_appVersion = None, ev_buildNumber = None,
     ev_region = Some (case env_var E ''APP_REGION'' of None \<Rightarrow> ''synthetic'' | Some r \<Rightarrow> r), ev_requestId = None, ev_userId = Some userId,
     ev_sessionId = Some sessionId, ev_matchId = Some matchId, ev_queueKey = Some queueKey, ev_properties = snd event\<rparr>"

definition emitSyntheticBackendEvents :: "('r, 'd) env \<Rightarrow> string \<Rightarrow> (('r, 'd) world, nat \<times> string \<times> string \<times> string \<times> string) prog" where
  "emitSyntheticBackendEvents E userId = do {
     now \<leftarrow> date_now;
     let matchId = ''synthetic-match-'' @ show_int now;
     let sessionId = ''synthetic-session-'' @ show_int now;
     let queueKey = ''synthetic:default'';
     forEach (synthetic queueKey sessionId matchId) (\<lambda>event. do {
       eventId \<leftarrow> randomUUID E;
       mutate (\<lambda>d. dg_create (pr_analyticsEvent (prc E)) d (synthetic_row E userId sessionId matchId queueKey now eventId event));
       ret () });
     ret (length (synthetic queueKey sessionId matchId), userId, sessionId, matchId, queueKey) }"

section \<open>Alerts\<close>

definition isSustainedWaitBreach :: "('r, 'd) env \<Rightarrow> rat option \<Rightarrow> (('r, 'd) world, bool) prog" where
  "isSustainedWaitBreach E waitP90Seconds =
    (if \<not> above waitP90Seconds WAIT_P90_THRESHOLD_SECONDS
     then do { redis_del E [WAIT_P90_BREACH_KEY]; ret False }
     else do {
       nowMs \<leftarrow> date_now;
       existing \<leftarrow> redis_get E WAIT_P90_BREACH_KEY;
       if \<not> truthy existing
       then do { redis_set E WAIT_P90_BREACH_KEY (show_int nowMs) (Some (WAIT_P90_SUSTAIN_MS * 2)) False; ret False }
       else (let breachStartedMs = parseInt (the existing) in
         if \<not> isFinite breachStartedMs
         then do { redis_set E WAIT_P90_BREACH_KEY (show_int nowMs) (Some (WAIT_P90_SUSTAIN_MS * 2)) False; ret False }
         else ret (nowMs - fin_value breachStartedMs \<ge> WAIT_P90_SUSTAIN_MS)) })"

definition appealBacklogSlaHours :: "('r, 'd) env \<Rightarrow> int" where
  "appealBacklogSlaHours E =
    (let raw = env_var E ''TELEMETRY_APPEAL_BACKLOG_SLA_HOURS'' in
     if \<not> truthy raw then 24
     else (let parsed = parseInt (the raw) in if \<not> isFinite parsed \<or> fin_value parsed \<le> 0 then 24 else fin_value parsed))"

definition getAppealBacklogBreachCount :: "('r, 'd) env \<Rightarrow> (('r, 'd) world, nat) prog" where
  "getAppealBacklogBreachCount E = do {
     now \<leftarrow> date_now;
     let cutoff = now - appealBacklogSlaHours E * 60 * 60 * 1000;
     query (\<lambda>d. dg_count (pr_moderationAppeal (prc E)) d (\<lambda>a. ap_status a = ''OPEN'' \<and> ap_createdAt a \<le> cutoff)) }"

definition metric :: "rat option \<Rightarrow> string \<Rightarrow> string" where
  "metric value suffix = (case value of None \<Rightarrow> ''n/a'' | Some x \<Rightarrow> toFixed2 x @ suffix)"

definition newline :: string where "newline = [CHR 0x0A]"

definition mrkdwn :: "string \<Rightarrow> json" where
  "mrkdwn s = JObj [(''type'', JStr ''section''), (''text'', JObj [(''type'', JStr ''mrkdwn''), (''text'', JStr s)])]"

definition alert_payload :: "('r, 'd) env \<Rightarrow> stage_gate_snapshot \<Rightarrow> string list \<Rightarrow> json" where
  "alert_payload E snapshot reasons =
    (let escalationOwner = (case env_var E ''TELEMETRY_ALERT_ESCALATION_OWNER'' of None \<Rightarrow> ''unassigned'' | Some s \<Rightarrow> trim s);
         runbookLink = (case env_var E ''TELEMETRY_ALERT_RUNBOOK_URL'' of
             None \<Rightarrow> ''docs/notes/incident-runbook.md#telemetry-outage-play'' | Some s \<Rightarrow> trim s);
         m = ss_metrics snapshot
     in JObj [(''text'', JStr ''Verity auto-pause trigger fired''), (''blocks'', JArr [
          mrkdwn ''*Verity auto-pause trigger fired*'',
          mrkdwn (''*Escalation owner:* '' @ escalationOwner @ newline @ ''*Window:* '' @ date_iso (ss_windowStart snapshot) @ '' to '' @
            date_iso (ss_windowEnd snapshot) @ newline @ ''*Runbook:* '' @ runbookLink),
          mrkdwn (join_with newline (map (\<lambda>reason. ''- '' @ reason) reasons)),
          mrkdwn (''*Metrics:* wait p90='' @ metric (mt_waitP90Seconds m) ''s'' @ '' | severe/10k='' @ metric (mt_severeIncidentPer10k m) [] @
            '' | appeal overturn='' @ metric (mt_appealOverturnRate m) [])])])"

definition sendAutoPauseAlert ::
  "('r, 'd) env \<Rightarrow> bool \<Rightarrow> stage_gate_snapshot \<Rightarrow> string list \<Rightarrow> (('r, 'd) world, bool) prog" where
  "sendAutoPauseAlert E responseOk snapshot reasons = do {
     allowed \<leftarrow> redis_set E AUTO_PAUSE_COOLDOWN_KEY ''1'' (Some AUTO_PAUSE_COOLDOWN_MS) True;
     if \<not> allowed then ret False
     else (let webhook = map_option trim (env_var E ''TELEMETRY_ALERT_WEBHOOK_URL'') in
       if \<not> truthy webhook then ret False
       else do {
         emit (Fetch (the webhook) [(''content-type'', ''application/json'')] (alert_payload E snapshot reasons));
         ret responseOk }) }"

definition alert_reasons :: "('r, 'd) env \<Rightarrow> stage_gate_snapshot \<Rightarrow> bool \<Rightarrow> nat \<Rightarrow> string list" where
  "alert_reasons E snapshot sustainedWaitBreach appealBacklog =
    (let m = ss_metrics snapshot in
     (if above (mt_severeIncidentPer10k m) SEVERE_INCIDENT_THRESHOLD_PER_10K
      then [''Severe incidents '' @ toFixed2 (the (mt_severeIncidentPer10k m)) @ '' > '' @ show_int SEVERE_INCIDENT_THRESHOLD_PER_10K @
        '' per 10k (rolling 24h).''] else []) @
     (if sustainedWaitBreach
      then [''Wait p90 '' @ toFixed2 (the (mt_waitP90Seconds m)) @ ''s > '' @ show_int WAIT_P90_THRESHOLD_SECONDS @ ''s for over 2 hours.''] else []) @
     (if appealBacklog > 0
      then [''Appeal backlog SLA breach: '' @ show_int (int appealBacklog) @ '' open appeals older than '' @ show_int (appealBacklogSlaHours E) @
        ''h.''] else []))"

text \<open>Whether the alert is triggered, its reasons and whether it was sent.\<close>

definition evaluateAndAlert ::
  "('r, 'd) env \<Rightarrow> bool \<Rightarrow> stage_gate_snapshot \<Rightarrow> (('r, 'd) world, bool \<times> string list \<times> bool) prog" where
  "evaluateAndAlert E responseOk snapshot = do {
     sustainedWaitBreach \<leftarrow> isSustainedWaitBreach E (mt_waitP90Seconds (ss_metrics snapshot));
     appealBacklog \<leftarrow> getAppealBacklogBreachCount E;
     let reasons = alert_reasons E snapshot sustainedWaitBreach appealBacklog;
     if length reasons = 0 then ret (False, reasons, False)
     else do {
       sent \<leftarrow> sendAutoPauseAlert E responseOk snapshot reasons;
       ret (True, reasons, sent) } }"

section \<open>The worker\<close>

record telemetry_worker =
  tw_timer :: bool
  tw_running :: bool

definition isWorkerProcess :: "('r, 'd) env \<Rightarrow> bool" where
  "isWorkerProcess E =
    (let raw = env_var E ''ENABLE_MATCHING_WORKER'' in
     truthy raw \<and> toLowerCase (trim (the raw)) \<in> {''1'', ''true'', ''yes'', ''on''})"

definition computePersistAndAlert :: "('r, 'd) env \<Rightarrow> bool \<Rightarrow> telemetry_worker \<Rightarrow> (('r, 'd) world, telemetry_worker) prog" where
  "computePersistAndAlert E responseOk tw =
    (if tw_running tw then ret tw
     else do {
       computed \<leftarrow> computeAndPersistSnapshot E;
       case computed of
         Inl error \<Rightarrow> ret (tw\<lparr>tw_running := False\<rparr>)
       | Inr snapshot \<Rightarrow> do {
           evaluateAndAlert E responseOk snapshot;
           ret (tw\<lparr>tw_running := False\<rparr>) } })"

definition telemetry_onModuleInit :: "('r, 'd) env \<Rightarrow> bool \<Rightarrow> telemetry_worker \<Rightarrow> (('r, 'd) world, telemetry_worker) prog" where
  "telemetry_onModuleInit E responseOk tw =
    (if \<not> isWorkerProcess E then ret tw
     else do {
       tw1 \<leftarrow> computePersistAndAlert E responseOk tw;
       ret (tw1\<lparr>tw_timer := True\<rparr>) })"

definition telemetry_onModuleDestroy :: "telemetry_worker \<Rightarrow> telemetry_worker" where
  "telemetry_onModuleDestroy tw = tw\<lparr>tw_timer := False\<rparr>"

end
