(* ===== verification/Telemetry_Props.thy ===== *)
theory Telemetry_Props
  imports Telemetry Queue_Props
begin

text \<open>
  Properties of the telemetry: the comparisons of rates, which the code makes on doubles, are exact on the counters, and
  the alert on long waits.
\<close>

section \<open>Doubles and thresholds\<close>

lemma to_double_0 [simp]: "to_double 0 = 0"
  by (simp add: to_double_def)

text \<open>
  \<open>c\<close> is the double above or below the double of a threshold \<open>t\<close>, no further from \<open>t\<close> than \<open>1 / 2 ^ 50\<close>.
\<close>

lemma double_le_iff:
  assumes "0 < t" and "to_double t < c" and "to_double c = c" and "c \<le> t + 1 / 2 ^ 50" and "0 \<le> x" and "x \<le> t \<or> t + 1 / 2 ^ 50 \<le> x"
  shows "to_double x \<le> to_double t \<longleftrightarrow> x \<le> t"
proof (cases "x \<le> t")
  case True
  show ?thesis
  proof (cases "x = 0")
    case False
    then show ?thesis using True assms(5) to_double_mono [of x t] by simp
  next
    case zero: True
    then show ?thesis using assms(1) to_double_between(1) [OF assms(1)] pow2_pos [of "exponent t"] by simp
  qed
next
  case False
  have "0 < c"
    using assms(1,2) to_double_between(1) [OF assms(1)] pow2_pos [of "exponent t"] by simp
  moreover have "c \<le> x" using False assms(4,6) by simp
  ultimately have "c \<le> to_double x" using to_double_mono [of c x] assms(3) by simp
  then show ?thesis using False assms(2) by simp
qed

lemma double_ge_iff:
  assumes "0 < t" and "c < to_double t" and "to_double c = c" and "t - 1 / 2 ^ 50 \<le> c" and "0 < c" and "0 \<le> x" and "t \<le> x \<or> x \<le> t - 1 / 2 ^ 50"
  shows "to_double t \<le> to_double x \<longleftrightarrow> t \<le> x"
proof (cases "t \<le> x")
  case True
  then show ?thesis using assms(1) to_double_mono [of t x] by simp
next
  case False
  then have "x \<le> c" using assms(4,7) by simp
  then have "to_double x \<le> c"
    using assms(3,5,6) to_double_mono [of x c] by (cases "x = 0") auto
  then show ?thesis using False assms(2) by simp
qed

text \<open>A number with 53 significant bits is a double.\<close>

lemma exponent_eq:
  assumes "pow2 e \<le> x" and "x < pow2 (e + 1)"
  shows "exponent x = e"
proof (rule ccontr)
  assume "exponent x \<noteq> e"
  have x: "0 < x" using assms(1) pow2_pos [of e] by simp
  consider "exponent x + 1 \<le> e" | "e + 1 \<le> exponent x" using \<open>exponent x \<noteq> e\<close> by linarith
  then show False
  proof cases
    case 1
    then show ?thesis using pow2_mono [OF 1] exponent_bounds(2) [OF x] assms(1) by simp
  next
    case 2
    then show ?thesis using pow2_mono [OF 2] exponent_bounds(1) [OF x] assms(2) by simp
  qed
qed

lemma to_double_fixed:
  assumes "2 ^ 52 \<le> m" and "m < 2 ^ 53"
  shows "to_double (of_int m / 2 ^ k) = of_int m / 2 ^ k"
proof -
  have k: "(2::rat) ^ k = pow2 (int k)" by (simp add: pow2_def)
  have "(of_int (2 ^ 52) :: rat) \<le> of_int m" "(of_int m :: rat) < of_int (2 ^ 53)"
    using assms by (simp_all only: of_int_le_iff of_int_less_iff)
  then have "pow2 (52 - int k) * pow2 (int k) \<le> of_int m" "of_int m < pow2 (52 - int k + 1) * pow2 (int k)"
    by (simp_all flip: pow2_add) (simp_all add: pow2_def)
  then have e: "exponent (of_int m / 2 ^ k) = 52 - int k"
    by (intro exponent_eq) (simp_all add: k pow2_pos pos_le_divide_eq pos_divide_less_eq)
  have "0 < (of_int m :: rat) / 2 ^ k" using assms(1) by simp
  then show ?thesis
    using pow2_pos [of "int k"] by (simp add: to_double_pos mantissa_def e [unfolded k] k)
qed

text \<open>Quotients of counters below \<open>2 ^ 40\<close> are not that close to a threshold.\<close>

lemma quotient_gap:
  assumes "0 < b" and "b < 2 ^ 40"
  shows "(of_nat a / of_nat b :: rat) \<le> of_nat n / 100 \<or> of_nat n / 100 + 1 / 2 ^ 50 \<le> (of_nat a / of_nat b :: rat)"
    and "of_nat n / 100 \<le> (of_nat a / of_nat b :: rat) \<or> (of_nat a / of_nat b :: rat) \<le> of_nat n / 100 - 1 / 2 ^ 50"
proof -
  have b: "0 < (of_nat b :: rat)" using assms(1) by simp
  have small: "(1 :: rat) / 2 ^ 50 * (of_nat b * 100) \<le> 1"
  proof -
    have "of_nat (b * 100) \<le> (of_nat (2 ^ 50) :: rat)" using assms(2) by (intro of_nat_mono) simp
    then show ?thesis by simp
  qed
  have le: "of_nat n / 100 + 1 / 2 ^ 50 \<le> (of_nat a / of_nat b :: rat)" if "n * b < 100 * a"
  proof -
    have "of_nat (n * b + 1) \<le> (of_nat (100 * a) :: rat)" using that by (intro of_nat_mono) simp
    then have "(of_nat n / 100 + 1 / 2 ^ 50) * of_nat b \<le> (of_nat a :: rat)" using small by (simp add: algebra_simps)
    then show ?thesis using b by (simp only: pos_le_divide_eq)
  qed
  have ge: "(of_nat a / of_nat b :: rat) \<le> of_nat n / 100 - 1 / 2 ^ 50" if "100 * a < n * b"
  proof -
    have "of_nat (100 * a + 1) \<le> (of_nat (n * b) :: rat)" using that by (intro of_nat_mono) simp
    then have "(of_nat a :: rat) \<le> (of_nat n / 100 - 1 / 2 ^ 50) * of_nat b" using small by (simp add: algebra_simps)
    then show ?thesis using b by (simp only: pos_divide_le_eq)
  qed
  have iff: "(of_nat a / of_nat b :: rat) \<le> of_nat n / 100 \<longleftrightarrow> 100 * a \<le> n * b" "of_nat n / 100 \<le> (of_nat a / of_nat b :: rat) \<longleftrightarrow> n * b \<le> 100 * a"
  proof -
    have "(of_nat a / of_nat b :: rat) \<le> of_nat n / 100 \<longleftrightarrow> (of_nat (100 * a) :: rat) \<le> of_nat (n * b)"
      "of_nat n / 100 \<le> (of_nat a / of_nat b :: rat) \<longleftrightarrow> (of_nat (n * b) :: rat) \<le> of_nat (100 * a)"
      using b by (simp_all add: pos_divide_le_eq pos_le_divide_eq field_simps)
    then show "(of_nat a / of_nat b :: rat) \<le> of_nat n / 100 \<longleftrightarrow> 100 * a \<le> n * b" "of_nat n / 100 \<le> (of_nat a / of_nat b :: rat) \<longleftrightarrow> n * b \<le> 100 * a"
      by (simp_all only: of_nat_le_iff)
  qed
  show "(of_nat a / of_nat b :: rat) \<le> of_nat n / 100 \<or> of_nat n / 100 + 1 / 2 ^ 50 \<le> (of_nat a / of_nat b :: rat)"
    using le iff(1) by linarith
  show "of_nat n / 100 \<le> (of_nat a / of_nat b :: rat) \<or> (of_nat a / of_nat b :: rat) \<le> of_nat n / 100 - 1 / 2 ^ 50"
    using ge iff(2) by linarith
qed

text \<open>A threshold of hundredths whose double lies next to the double \<open>c\<close> decides as the integers do.\<close>

lemma ratio_le:
  assumes "0 < b" and "b < 2 ^ 40" and "0 < n" and "to_double (of_nat n / 100) < c" and "to_double c = c" and "c \<le> of_nat n / 100 + 1 / 2 ^ 50"
  shows "to_double (of_nat a / of_nat b) \<le> to_double (of_nat n / 100) \<longleftrightarrow> 100 * a \<le> n * b"
proof -
  have "to_double (of_nat a / of_nat b) \<le> to_double (of_nat n / 100) \<longleftrightarrow> (of_nat a / of_nat b :: rat) \<le> of_nat n / 100"
    using assms quotient_gap(1) [OF assms(1,2)] by (intro double_le_iff [of _ c]) simp_all
  also have "\<dots> \<longleftrightarrow> (of_nat (100 * a) :: rat) \<le> of_nat (n * b)"
    using assms(1) by (simp add: pos_divide_le_eq field_simps)
  finally show ?thesis by (simp only: of_nat_le_iff)
qed

lemma ratio_ge:
  assumes "0 < b" and "b < 2 ^ 40" and "0 < n" and "c < to_double (of_nat n / 100)" and "to_double c = c" and "of_nat n / 100 - 1 / 2 ^ 50 \<le> c" and "0 < c"
  shows "to_double (of_nat n / 100) \<le> to_double (of_nat a / of_nat b) \<longleftrightarrow> n * b \<le> 100 * a"
proof -
  have "to_double (of_nat n / 100) \<le> to_double (of_nat a / of_nat b) \<longleftrightarrow> (of_nat n / 100 :: rat) \<le> of_nat a / of_nat b"
    using assms quotient_gap(2) [OF assms(1,2)] by (intro double_ge_iff [of _ c]) simp_all
  also have "\<dots> \<longleftrightarrow> (of_nat (n * b) :: rat) \<le> of_nat (100 * a)"
    using assms(1) by (simp add: pos_le_divide_eq field_simps)
  finally show ?thesis by (simp only: of_nat_le_iff)
qed

text \<open>The doubles of the thresholds.\<close>

lemma threshold_doubles:
  "to_double (3 / 20) = 5404319552844595 / 36028797018963968" "to_double (7 / 20) = 6305039478318694 / 18014398509481984"
  "to_double (17 / 20) = 7656119366529843 / 9007199254740992" "to_double (3 / 25) = 8646911284551352 / 72057594037927936"
  "to_double (3 / 5) = 5404319552844595 / 9007199254740992" "to_double 3 = 3"
proof -
  show "to_double (3 / 20) = 5404319552844595 / 36028797018963968" by code_simp
  show "to_double (7 / 20) = 6305039478318694 / 18014398509481984" by code_simp
  show "to_double (17 / 20) = 7656119366529843 / 9007199254740992" by code_simp
  show "to_double (3 / 25) = 8646911284551352 / 72057594037927936" by code_simp
  show "to_double (3 / 5) = 5404319552844595 / 9007199254740992" by code_simp
  show "to_double 3 = 3" by code_simp
qed

lemma thresholds:
  assumes "0 < b" and "b < 2 ^ 40"
  shows "to_double (of_nat a / of_nat b) \<le> to_double (15 / 100) \<longleftrightarrow> 100 * a \<le> 15 * b"
    "to_double (of_nat a / of_nat b) \<le> to_double (35 / 100) \<longleftrightarrow> 100 * a \<le> 35 * b"
    "to_double (of_nat a / of_nat b) \<le> 3 \<longleftrightarrow> 100 * a \<le> 300 * b"
    "to_double (85 / 100) \<le> to_double (of_nat a / of_nat b) \<longleftrightarrow> 85 * b \<le> 100 * a"
    "to_double (12 / 100) \<le> to_double (of_nat a / of_nat b) \<longleftrightarrow> 12 * b \<le> 100 * a"
    "to_double (6 / 10) \<le> to_double (of_nat a / of_nat b) \<longleftrightarrow> 60 * b \<le> 100 * a"
proof -
  note D = threshold_doubles
  show "to_double (of_nat a / of_nat b) \<le> to_double (15 / 100) \<longleftrightarrow> 100 * a \<le> 15 * b"
    using ratio_le [OF assms, of 15 "5404319552844596 / 2 ^ 55" a] to_double_fixed [of 5404319552844596 55] by (simp add: D)
  show "to_double (of_nat a / of_nat b) \<le> to_double (35 / 100) \<longleftrightarrow> 100 * a \<le> 35 * b"
    using ratio_le [OF assms, of 35 "6305039478318695 / 2 ^ 54" a] to_double_fixed [of 6305039478318695 54] by (simp add: D)
  show "to_double (of_nat a / of_nat b) \<le> 3 \<longleftrightarrow> 100 * a \<le> 300 * b"
    using ratio_le [OF assms, of 300 "6755399441055745 / 2 ^ 51" a] to_double_fixed [of 6755399441055745 51] by (simp add: D)
  show "to_double (85 / 100) \<le> to_double (of_nat a / of_nat b) \<longleftrightarrow> 85 * b \<le> 100 * a"
    using ratio_ge [OF assms, of 85 "7656119366529842 / 2 ^ 53" a] to_double_fixed [of 7656119366529842 53] by (simp add: D)
  show "to_double (12 / 100) \<le> to_double (of_nat a / of_nat b) \<longleftrightarrow> 12 * b \<le> 100 * a"
    using ratio_ge [OF assms, of 12 "8646911284551351 / 2 ^ 56" a] to_double_fixed [of 8646911284551351 56] by (simp add: D)
  show "to_double (6 / 10) \<le> to_double (of_nat a / of_nat b) \<longleftrightarrow> 60 * b \<le> 100 * a"
    using ratio_ge [OF assms, of 60 "5404319552844594 / 2 ^ 53" a] to_double_fixed [of 5404319552844594 53] by (simp add: D)
qed

section \<open>Ranks\<close>

text \<open>Integers and sixteenths are doubles.\<close>

lemma to_double_dyadic:
  assumes "0 < m" and "m < 2 ^ 53"
  shows "to_double (of_int m / 2 ^ k) = of_int m / 2 ^ k"
proof -
  define s where "s = 53 - bit_length (nat m)"
  have B: "2 ^ (bit_length (nat m) - 1) \<le> nat m" "nat m < 2 ^ bit_length (nat m)" "0 < bit_length (nat m)"
    using bit_length_bounds [of "nat m"] assms(1) by auto
  have "nat m < 2 ^ 53" using assms by (simp add: nat_less_iff)
  with B(1) have "(2::nat) ^ (bit_length (nat m) - 1) < 2 ^ 53" by (rule order.strict_trans1)
  then have "bit_length (nat m) - 1 < 53" by (simp only: power_strict_increasing_iff)
  then have l: "bit_length (nat m) \<le> 53" by simp
  have "2 ^ 52 = (2::nat) ^ (bit_length (nat m) - 1) * 2 ^ s" using B(3) l by (simp add: s_def flip: power_add)
  also have "\<dots> \<le> nat m * 2 ^ s" using B(1) by simp
  finally have "int (2 ^ 52) \<le> int (nat m * 2 ^ s)" by (simp only: of_nat_le_iff)
  then have low: "2 ^ 52 \<le> m * 2 ^ s" using assms(1) by simp
  have "nat m * 2 ^ s < 2 ^ bit_length (nat m) * 2 ^ s" using B(2) by simp
  also have "\<dots> = 2 ^ 53" using l by (simp add: s_def flip: power_add)
  finally have "int (nat m * 2 ^ s) < int (2 ^ 53)" by (simp only: of_nat_less_iff)
  then have high: "m * 2 ^ s < 2 ^ 53" using assms(1) by simp
  have "(of_int m :: rat) / 2 ^ k = of_int (m * 2 ^ s) / 2 ^ (k + s)" by (simp add: power_add)
  then show ?thesis using to_double_fixed [OF low high, of "k + s"] by simp
qed

text \<open>A number above a double by less than half a unit is rounded to it.\<close>

lemma to_double_near:
  assumes "0 < m" and "m < 2 ^ 53" and "of_int m \<le> x" and "x < of_int m + of_int m / 2 ^ 54"
  shows "to_double x = of_int m"
proof -
  define e where "e = exponent (of_int m)"
  have m: "0 < (of_int m :: rat)" using assms(1) by simp
  have p: "0 < pow2 (52 - e)" by (rule pow2_pos)
  have "of_int (mantissa (of_int m)) / pow2 (52 - e) = of_int m"
    using to_double_dyadic [OF assms(1,2), of 0] to_double_pos [OF m] by (simp add: e_def)
  then have M: "of_int m * pow2 (52 - e) = of_int (mantissa (of_int m))" using p by (simp add: field_simps)
  have "of_int m * pow2 (52 - e) < pow2 (e + 1) * pow2 (52 - e)" using exponent_bounds(2) [OF m] p by (simp add: e_def)
  also have "\<dots> = of_int (2 ^ 53)" by (simp flip: pow2_add) (simp add: pow2_def)
  finally have M53: "mantissa (of_int m) < 2 ^ 53" by (simp only: M of_int_less_iff)
  have low: "of_int (mantissa (of_int m)) \<le> x * pow2 (52 - e)" using assms(3) p by (simp flip: M)
  have "x * pow2 (52 - e) < (of_int m + of_int m / 2 ^ 54) * pow2 (52 - e)" using assms(4) p by (rule mult_strict_right_mono)
  also have "\<dots> = of_int (mantissa (of_int m)) + of_int (mantissa (of_int m)) / 2 ^ 54" by (simp add: distrib_right flip: M)
  also have "\<dots> < of_int (mantissa (of_int m)) + 1 / 2"
  proof -
    have "(of_int (mantissa (of_int m)) :: rat) < of_int (2 ^ 53)" using M53 by (simp only: of_int_less_iff)
    then show ?thesis by simp
  qed
  finally have high: "x * pow2 (52 - e) < of_int (mantissa (of_int m)) + 1 / 2" .
  have "exponent x = e"
  proof (rule exponent_eq)
    show "pow2 e \<le> x" using exponent_bounds(1) [OF m] assms(3) by (simp add: e_def)
    have "of_int (mantissa (of_int m) + 1) \<le> (of_int (2 ^ 53) :: rat)" using M53 by (simp only: of_int_le_iff)
    then have "x * pow2 (52 - e) < pow2 (e + 1) * pow2 (52 - e)" using high by (simp flip: pow2_add) (simp add: pow2_def)
    then show "x < pow2 (e + 1)" using p by simp
  qed
  moreover have "\<lfloor>x * pow2 (52 - e)\<rfloor> = mantissa (of_int m)" using low high by (simp add: floor_eq_iff)
  then have "round_even (x * pow2 (52 - e)) = mantissa (of_int m)" using high by (simp add: round_even_def Let_def)
  moreover have "0 < x" using m assms(3) by simp
  ultimately show ?thesis using M p by (simp add: to_double_pos mantissa_def [of x] flip: M)
qed

text \<open>The rank of a percentile: no rounding disturbs it.\<close>

lemma rounded_le_iff:
  fixes q r :: rat
  assumes "0 < q" and "q * of_nat n \<le> of_int j \<or> of_int j + 1 / 20 \<le> q * of_nat n" and "0 < n" and "n < 2 ^ 40" and "0 < r"
    and "q - q / 2 ^ 53 \<le> r" and "r < q + q / 2 ^ 54" and "q \<le> 1"
  shows "to_double (r * of_nat n) \<le> of_int j \<longleftrightarrow> q * of_nat n \<le> of_int j"
proof -
  have n: "0 < (of_nat n :: rat)" using assms(3) by simp
  have "(of_nat n :: rat) < of_nat (2 ^ 40)" using assms(4) by (simp only: of_nat_less_iff)
  then have n40: "(of_nat n :: rat) < 2 ^ 40" by simp
  have x: "0 < r * of_nat n" using assms(5) n by simp
  have qn: "0 < q * of_nat n" using assms(1) n by simp
  have "q * of_nat n \<le> 1 * of_nat n" using assms(8) n by (intro mult_right_mono) simp_all
  then have qn40: "q * of_nat n < 2 ^ 40" using n40 by (simp only: mult_1)
  have up: "r * of_nat n < q * of_nat n + q * of_nat n / 2 ^ 54" using mult_strict_right_mono [OF assms(7) n] by (simp add: distrib_right)
  have down: "q * of_nat n - q * of_nat n / 2 ^ 53 \<le> r * of_nat n" using mult_right_mono [OF assms(6), of "of_nat n"] n by (simp add: left_diff_distrib)
  consider (small) "j \<le> 0" | (large) "2 ^ 41 \<le> j" | (below) "0 < j" "j < 2 ^ 41" "q * of_nat n \<le> of_int j" "r * of_nat n \<le> of_int j"
    | (near) "0 < j" "j < 2 ^ 41" "q * of_nat n \<le> of_int j" "of_int j \<le> r * of_nat n"
    | (above) "0 < j" "j < 2 ^ 41" "of_int j + 1 / 20 \<le> q * of_nat n" using assms(2) by fastforce
  then show ?thesis
  proof cases
    case small
    then have "(of_int j :: rat) \<le> 0" by simp
    moreover have "0 < to_double (r * of_nat n)" using to_double_between(1) [OF x] pow2_pos by (rule order.strict_trans2 [rotated])
    ultimately show ?thesis using qn by linarith
  next
    case large
    then have "(of_int (2 ^ 41) :: rat) \<le> of_int j" by (simp only: of_int_le_iff)
    moreover have "to_double (r * of_nat n) \<le> to_double (of_int (2 ^ 41) / 2 ^ 0)" using x up qn40 by (intro to_double_mono) simp_all
    moreover have "to_double (of_int (2 ^ 41) / 2 ^ 0) = of_int (2 ^ 41) / 2 ^ 0" by (rule to_double_dyadic) simp_all
    ultimately have "to_double (r * of_nat n) \<le> of_int j" "q * of_nat n \<le> of_int j" using qn40 by simp_all
    then show ?thesis by simp
  next
    case below
    then show ?thesis using to_double_mono [OF x below(4)] to_double_dyadic [of j 0] by simp
  next
    case near
    then have "r * of_nat n < of_int j + of_int j / 2 ^ 54" using up by simp
    then show ?thesis using near to_double_near [of j "r * of_nat n"] by simp
  next
    case above
    have "of_int (32 * j + 1) / 2 ^ 5 \<le> r * of_nat n" using above(3) down qn40 by simp
    then have "to_double (of_int (32 * j + 1) / 2 ^ 5) \<le> to_double (r * of_nat n)" using above(1) by (intro to_double_mono) simp_all
    then have "(of_int j :: rat) < to_double (r * of_nat n)" using above(1,2) to_double_dyadic [of "32 * j + 1" 5] by simp
    then show ?thesis using above(3) by linarith
  qed
qed

lemma ceiling_cong: "(\<And>j. x \<le> of_int j \<longleftrightarrow> y \<le> of_int j) \<Longrightarrow> \<lceil>x\<rceil> = \<lceil>y\<rceil>"
  by (meson antisym ceiling_le_iff order_refl)

lemma twentieths: "of_nat p / 20 * of_nat n \<le> (of_int j :: rat) \<or> of_int j + 1 / 20 \<le> of_nat p / 20 * (of_nat n :: rat)"
proof (cases "int (p * n) \<le> 20 * j")
  case True
  then have "(of_int (int (p * n)) :: rat) \<le> of_int (20 * j)" by (simp only: of_int_le_iff)
  then show ?thesis by simp
next
  case False
  then have "(of_int (20 * j + 1) :: rat) \<le> of_int (int (p * n))" by (simp only: of_int_le_iff)
  then show ?thesis by simp
qed

lemma rank_doubles: "to_double (1 / 2) = 1 / 2" "to_double (9 / 10) = 8106479329266893 / 9007199254740992"
  "to_double (19 / 20) = 8556839292003942 / 9007199254740992"
proof -
  show "to_double (1 / 2) = 1 / 2" by code_simp
  show "to_double (9 / 10) = 8106479329266893 / 9007199254740992" by code_simp
  show "to_double (19 / 20) = 8556839292003942 / 9007199254740992" by code_simp
qed

lemma rank_exact:
  assumes "0 < n" and "n < 2 ^ 40"
  shows "\<lceil>to_double (to_double (1 / 2) * of_nat n)\<rceil> = \<lceil>1 / 2 * of_nat n :: rat\<rceil>"
    and "\<lceil>to_double (to_double (9 / 10) * of_nat n)\<rceil> = \<lceil>9 / 10 * of_nat n :: rat\<rceil>"
    and "\<lceil>to_double (to_double (19 / 20) * of_nat n)\<rceil> = \<lceil>19 / 20 * of_nat n :: rat\<rceil>"
  using assms twentieths [of 10 n] twentieths [of 18 n] twentieths [of 19 n]
  by (intro ceiling_cong rounded_le_iff; simp add: rank_doubles)+

section \<open>The gates of the stages\<close>

text \<open>How many of the values are at most \<open>limit\<close>.\<close>

definition at_most :: "int \<Rightarrow> int list \<Rightarrow> nat" where
  "at_most limit values = length (filter (\<lambda>x. x \<le> limit) values)"

lemma sorted_nth_le:
  assumes "sorted xs" and "k < length xs"
  shows "xs ! k \<le> (limit :: int) \<longleftrightarrow> k < at_most limit xs"
  using assms
proof (induction xs arbitrary: k)
  case (Cons x xs)
  show ?case
  proof (cases "x \<le> limit")
    case True
    then show ?thesis using Cons by (cases k) (auto simp: at_most_def)
  next
    case False
    then have "filter (\<lambda>y. y \<le> limit) xs = []" using Cons.prems(1) by (auto simp: filter_empty_conv)
    moreover have "\<not> (x # xs) ! k \<le> limit" using False Cons.prems by (cases k) (auto dest: bspec [OF _ nth_mem])
    ultimately show ?thesis using False by (simp add: at_most_def)
  qed
qed simp

lemma at_most_sort: "at_most limit (sort xs) = at_most limit xs"
  unfolding at_most_def by (metis filter_sort length_sort)

lemma percentile_share:
  assumes "values \<noteq> []" and "\<lceil>to_double (rank * of_nat (length values))\<rceil> = \<lceil>q * of_nat (length values) :: rat\<rceil>" and "0 < q" and "q \<le> 1"
  obtains v where "percentile values rank = Some v"
    and "\<And>limit. v \<le> of_int limit \<longleftrightarrow> q * of_nat (length values) \<le> of_nat (at_most limit values)"
proof -
  let ?n = "length values" and ?k = "\<lceil>q * of_nat (length values)\<rceil>"
  have n: "0 < (of_nat ?n :: rat)" using assms(1) by simp
  have "q * of_nat ?n \<le> 1 * of_nat ?n" using assms(4) n by (intro mult_right_mono) simp_all
  then have "q * of_nat ?n \<le> of_int (int ?n)" by simp
  then have k: "1 \<le> ?k" "?k \<le> int ?n" using assms(3) n by (simp_all only: ceiling_le_iff) (simp add: one_le_ceiling)
  define i where "i = nat (?k - 1)"
  have i: "i < length (sort values)" "int i = ?k - 1" using k by (simp_all add: i_def) linarith+
  have "percentile values rank = Some (of_int (sort values ! i))"
    using assms(1,2) k by (simp add: percentile_def Let_def i_def)
  moreover have "(of_int (sort values ! i) :: rat) \<le> of_int limit \<longleftrightarrow> q * of_nat ?n \<le> of_nat (at_most limit values)" for limit
  proof -
    have "(of_int (sort values ! i) :: rat) \<le> of_int limit \<longleftrightarrow> i < at_most limit values"
      using sorted_nth_le [OF _ i(1), of limit] by (simp add: at_most_sort)
    also have "\<dots> \<longleftrightarrow> ?k \<le> int (at_most limit values)" using i(2) by linarith
    also have "\<dots> \<longleftrightarrow> q * of_nat ?n \<le> of_nat (at_most limit values)" by (simp add: ceiling_le_iff)
    finally show ?thesis .
  qed
  ultimately show ?thesis by (rule that)
qed

text \<open>The gates, by the share of waits and latencies within a limit and by products of counters.\<close>

definition stage0_gate :: "tally \<Rightarrow> stage_status" where
  "stage0_gate y = (let n = length (ty_actionLatencies y) in
     if n = 0 then AMBER else if 20 * at_most 2000 (ty_actionLatencies y) \<ge> 19 * n then GREEN else RED)"

definition stage1_gate :: "tally \<Rightarrow> stage_status" where
  "stage1_gate y = (let n = length (ty_waits y) in
     if n = 0 \<or> ty_queueJoined y = 0 \<or> ty_sessionStarted y = 0 then AMBER
     else if 2 * at_most 30 (ty_waits y) \<ge> n \<and> 10 * at_most 90 (ty_waits y) \<ge> 9 * n \<and>
             100 * ty_queueAbandoned y \<le> 15 * ty_queueJoined y \<and> 10000 * ty_severeActions y \<le> 3 * ty_sessionStarted y
       then GREEN else RED)"

definition stage2_gate :: "tally \<Rightarrow> stage_status" where
  "stage2_gate y =
    (if ty_sessionStarted y = 0 \<or> ty_sessionResults y = 0 \<or> ty_mutualResults y = 0 then AMBER
     else if 100 * ty_sessionCompleted y \<ge> 85 * ty_sessionStarted y \<and> 100 * ty_mutualResults y \<ge> 12 * ty_sessionResults y \<and>
             100 * ty_mutualResults y \<le> 35 * ty_sessionResults y \<and> 100 * ty_chatOpened y \<ge> 60 * ty_mutualResults y
       then AMBER else RED)"

lemma stage0_exact:
  assumes "length (ty_actionLatencies y) < 2 ^ 40"
  shows "stage0Status (mt_severeActionLatencyP95 (metrics_of y)) = stage0_gate y"
proof (cases "ty_actionLatencies y = []")
  case True
  then show ?thesis by (simp add: metrics_of_def percentile_def stage0Status_def stage0_gate_def)
next
  case False
  let ?n = "length (ty_actionLatencies y)"
  obtain v where v: "percentile (ty_actionLatencies y) (to_double (19 / 20)) = Some v"
    "\<And>limit. v \<le> of_int limit \<longleftrightarrow> 19 / 20 * of_nat ?n \<le> (of_nat (at_most limit (ty_actionLatencies y)) :: rat)"
    by (rule percentile_share [OF False rank_exact(3)]) (use False assms in simp_all)
  have "v \<le> 2000 \<longleftrightarrow> 19 / 20 * of_nat ?n \<le> (of_nat (at_most 2000 (ty_actionLatencies y)) :: rat)" using v(2) [of 2000] by simp
  also have "\<dots> \<longleftrightarrow> of_nat (19 * ?n) \<le> (of_nat (at_most 2000 (ty_actionLatencies y) * 20) :: rat)" by simp
  also have "\<dots> \<longleftrightarrow> 19 * ?n \<le> 20 * at_most 2000 (ty_actionLatencies y)" by (simp only: of_nat_le_iff mult.commute)
  finally show ?thesis using False v(1) by (simp add: metrics_of_def stage0Status_def stage0_gate_def Let_def)
qed

lemma stage1_exact:
  assumes "length (ty_waits y) < 2 ^ 40" and "ty_queueJoined y < 2 ^ 40" and "ty_sessionStarted y < 2 ^ 40"
  shows "stage1Status (metrics_of y) = stage1_gate y"
proof (cases "ty_waits y = [] \<or> ty_queueJoined y = 0 \<or> ty_sessionStarted y = 0")
  case True
  then show ?thesis
    by (auto simp: metrics_of_def percentile_def ratio_def stage1Status_def stage1_gate_def split: option.splits)
next
  case False
  let ?n = "length (ty_waits y)"
  have ne: "ty_waits y \<noteq> []" "0 < ?n" using False by auto
  obtain v where v: "percentile (ty_waits y) (to_double (1 / 2)) = Some v"
    "\<And>limit. v \<le> of_int limit \<longleftrightarrow> 1 / 2 * of_nat ?n \<le> (of_nat (at_most limit (ty_waits y)) :: rat)"
    by (rule percentile_share [OF ne(1) rank_exact(1) [OF ne(2) assms(1)]]) simp_all
  obtain w where w: "percentile (ty_waits y) (to_double (9 / 10)) = Some w"
    "\<And>limit. w \<le> of_int limit \<longleftrightarrow> 9 / 10 * of_nat ?n \<le> (of_nat (at_most limit (ty_waits y)) :: rat)"
    by (rule percentile_share [OF ne(1) rank_exact(2) [OF ne(2) assms(1)]]) simp_all
  have "v \<le> 30 \<longleftrightarrow> of_nat ?n \<le> (of_nat (at_most 30 (ty_waits y) * 2) :: rat)" using v(2) [of 30] by simp
  then have V: "v \<le> 30 \<longleftrightarrow> ?n \<le> 2 * at_most 30 (ty_waits y)" by (simp only: of_nat_le_iff mult.commute)
  have "w \<le> 90 \<longleftrightarrow> of_nat (9 * ?n) \<le> (of_nat (at_most 90 (ty_waits y) * 10) :: rat)" using w(2) [of 90] by simp
  then have W: "w \<le> 90 \<longleftrightarrow> 9 * ?n \<le> 10 * at_most 90 (ty_waits y)" by (simp only: of_nat_le_iff mult.commute)
  have "100 * (ty_severeActions y * 10000) \<le> 300 * ty_sessionStarted y \<longleftrightarrow> 10000 * ty_severeActions y \<le> 3 * ty_sessionStarted y" by simp
  then show ?thesis
    using False v(1) w(1) V W thresholds(1) [of "ty_queueJoined y" "ty_queueAbandoned y"] assms(2,3)
      thresholds(3) [of "ty_sessionStarted y" "ty_severeActions y * 10000"]
    by (simp add: metrics_of_def ratio_def stage1Status_def stage1_gate_def Let_def)
qed

lemma stage2_exact:
  assumes "ty_sessionStarted y < 2 ^ 40" and "ty_sessionResults y < 2 ^ 40" and "ty_mutualResults y < 2 ^ 40"
  shows "stage2Status (metrics_of y) = stage2_gate y"
  using assms thresholds(4) [of "ty_sessionStarted y" "ty_sessionCompleted y"] thresholds(2,5) [of "ty_sessionResults y" "ty_mutualResults y"]
    thresholds(6) [of "ty_mutualResults y" "ty_chatOpened y"]
  by (simp add: metrics_of_def ratio_def stage2Status_def stage2_gate_def)

text \<open>No counter exceeds the number of events.\<close>

definition tally_within :: "nat \<Rightarrow> tally \<Rightarrow> bool" where
  "tally_within n y \<longleftrightarrow> length (ty_waits y) \<le> n \<and> length (ty_actionLatencies y) \<le> n \<and> ty_queueJoined y \<le> n \<and>
     ty_sessionStarted y \<le> n \<and> ty_sessionResults y \<le> n \<and> ty_mutualResults y \<le> n"

lemma count_event_within: "tally_within n y \<Longrightarrow> tally_within (Suc n) (count_event y e)"
  by (auto simp: count_event_def tally_within_def Let_def split: option.splits)

lemma count_events_within: "tally_within n y \<Longrightarrow> tally_within (n + length events) (foldl count_event y events)"
proof (induction events arbitrary: n y)
  case (Cons e events)
  from Cons.IH [OF count_event_within [OF Cons.prems]] show ?case by simp
qed simp

lemma snapshot_gates:
  assumes "length events < 2 ^ 40"
  shows "ss_stage0Status (snapshot_of a b events) = stage0_gate (foldl count_event no_tally events)"
    "ss_stage1Status (snapshot_of a b events) = stage1_gate (foldl count_event no_tally events)"
    "ss_stage2Status (snapshot_of a b events) = stage2_gate (foldl count_event no_tally events)"
proof -
  have "tally_within (length events) (foldl count_event no_tally events)"
    using count_events_within [of 0 no_tally events] by (simp add: tally_within_def no_tally_def)
  note B = this [unfolded tally_within_def]
  show "ss_stage0Status (snapshot_of a b events) = stage0_gate (foldl count_event no_tally events)"
    using B assms stage0_exact [of "foldl count_event no_tally events"] by (simp add: snapshot_of_def Let_def)
  show "ss_stage1Status (snapshot_of a b events) = stage1_gate (foldl count_event no_tally events)"
    using B assms stage1_exact [of "foldl count_event no_tally events"] by (simp add: snapshot_of_def Let_def)
  show "ss_stage2Status (snapshot_of a b events) = stage2_gate (foldl count_event no_tally events)"
    using B assms stage2_exact [of "foldl count_event no_tally events"] by (simp add: snapshot_of_def Let_def)
qed

definition in_window :: "int \<Rightarrow> event_row \<Rightarrow> bool" where
  "in_window now e \<longleftrightarrow> now - SNAPSHOT_WINDOW_HOURS * 60 * 60 * 1000 \<le> ev_occurredAt e \<and> ev_occurredAt e \<le> now \<and>
     ev_eventName e \<in> set WINDOW_EVENTS"

context backend
begin

lemma snapshot_run:
  assumes "run_state (computeAndPersistSnapshot E) w = (Inr s, w')"
  obtains events where "mset events = mset (filter (in_window (clock w)) (tb_events (view (db w))))"
    and "s = snapshot_of (clock w - SNAPSHOT_WINDOW_HOURS * 60 * 60 * 1000) (clock w) events"
proof -
  let ?events = "dg_findMany (pr_analyticsEvent (prc E)) (db w) (in_window (clock w))"
  have "s = snapshot_of (clock w - SNAPSHOT_WINDOW_HOURS * 60 * 60 * 1000) (clock w) ?events"
    using assms by (auto simp: computeAndPersistSnapshot_def Let_def run in_window_def [abs_def] split: prod.splits sum.splits)
  then show ?thesis using prisma.analyticsEvent.findMany [of "db w" "in_window (clock w)"] by (intro that)
qed

text \<open>The memory of a breach.\<close>

lemma breach_starts:
  assumes "above x WAIT_P90_THRESHOLD_SECONDS" and "rd_get (rdc E) (rds w) (clock w) WAIT_P90_BREACH_KEY = None"
    and ran: "run_state (isSustainedWaitBreach E x) w = (b, w')"
  shows "\<not> b" and "\<And>t. clock w \<le> t \<Longrightarrow> t < clock w + 2 * WAIT_P90_SUSTAIN_MS \<Longrightarrow>
       rd_get (rdc E) (rds w') t WAIT_P90_BREACH_KEY = Some (show_int (clock w))"
    and "\<And>t. clock w + 2 * WAIT_P90_SUSTAIN_MS < t \<Longrightarrow> rd_get (rdc E) (rds w') t WAIT_P90_BREACH_KEY = None"
proof -
  let ?r = "snd (rd_set (rdc E) (rds w) (clock w) WAIT_P90_BREACH_KEY (show_int (clock w)) (Some (WAIT_P90_SUSTAIN_MS * 2)) False)"
  have r: "b = False" "w' = w\<lparr>rds := ?r\<rparr>"
    using ran by (auto simp: isSustainedWaitBreach_def assms(1,2) run)
  then show "\<not> b" by simp
  show "rd_get (rdc E) (rds w') t WAIT_P90_BREACH_KEY = Some (show_int (clock w))" if "clock w \<le> t" "t < clock w + 2 * WAIT_P90_SUSTAIN_MS" for t
    using that by (auto simp: r WAIT_P90_SUSTAIN_MS_def intro!: redis.set_get)
  show "rd_get (rdc E) (rds w') t WAIT_P90_BREACH_KEY = None" if "clock w + 2 * WAIT_P90_SUSTAIN_MS < t" for t
    using that by (auto simp: r WAIT_P90_SUSTAIN_MS_def intro!: redis.set_expired)
qed

lemma breach_read:
  assumes "above x WAIT_P90_THRESHOLD_SECONDS" and "rd_get (rdc E) (rds w) (clock w) WAIT_P90_BREACH_KEY = Some (show_int t0)"
  shows "run_state (isSustainedWaitBreach E x) w = (clock w - t0 \<ge> WAIT_P90_SUSTAIN_MS, w)"
proof -
  have "show_int t0 \<noteq> []" by (simp add: show_int_def)
  with assms show ?thesis by (simp add: isSustainedWaitBreach_def run)
qed

end

text \<open>
  C22: the rates and percentiles are doubles, but the statuses of a snapshot are those of exact arithmetic on the events of the last
  24 hours: stage 0 is green when at least 95 of 100 actions took at most 2 s, stage 1 when at least half of the waits lasted at most
  30 s, nine of ten at most 90 s, at most 15 of 100 joins were abandoned and at most 3 of 10000 sessions ended in a ban or a
  termination; stage 2 is amber where its four conditions hold, as where a metric is missing, and never green.
\<close>

theorem stage_gates_exact:
  assumes "backend E zv sv other view" and "run_state (computeAndPersistSnapshot E) w = (Inr s, w')"
    and "length (tb_events (view (db w))) < 2 ^ 40"
  shows "\<exists>events. mset events = mset (filter (in_window (clock w)) (tb_events (view (db w)))) \<and>
    (let y = foldl count_event no_tally events in
      ss_stage0Status s = stage0_gate y \<and> ss_stage1Status s = stage1_gate y \<and> ss_stage2Status s = stage2_gate y \<and> ss_stage2Status s \<noteq> GREEN)"
proof -
  obtain events where e: "mset events = mset (filter (in_window (clock w)) (tb_events (view (db w))))"
    "s = snapshot_of (clock w - SNAPSHOT_WINDOW_HOURS * 60 * 60 * 1000) (clock w) events"
    by (rule backend.snapshot_run [OF assms(1,2)])
  have "length events \<le> length (tb_events (view (db w)))" using mset_eq_length [OF e(1)] by simp
  then have l: "length events < 2 ^ 40" using assms(3) by simp
  have "stage2_gate (foldl count_event no_tally events) \<noteq> GREEN" by (simp add: stage2_gate_def)
  then show ?thesis unfolding Let_def e(2) snapshot_gates [OF l] using e(1) by (intro exI [of _ events] conjI refl)
qed

text \<open>
  The start of a breach of the wait limit is stored for four hours and not renewed. When a breach starts at \<open>t0\<close> and lasts, the
  checks before \<open>t0 + 4h\<close> report it from \<open>t0 + 2h\<close> on and change nothing, but the first check after \<open>t0 + 4h\<close> reports none
  and stores its own time as the start of the breach.
\<close>

theorem wait_breach_forgotten:
  assumes "backend E zv sv other view" and "above x WAIT_P90_THRESHOLD_SECONDS"
    and "rd_get (rdc E) (rds w) (clock w) WAIT_P90_BREACH_KEY = None" and "run_state (isSustainedWaitBreach E x) w = (b, w1)"
    and "above y WAIT_P90_THRESHOLD_SECONDS" and "clock w \<le> t"
  shows "\<not> b \<and>
    (t < clock w + 2 * WAIT_P90_SUSTAIN_MS \<longrightarrow>
      run_state (isSustainedWaitBreach E y) (w1\<lparr>clock := t\<rparr>) = (t - clock w \<ge> WAIT_P90_SUSTAIN_MS, w1\<lparr>clock := t\<rparr>)) \<and>
    (clock w + 2 * WAIT_P90_SUSTAIN_MS < t \<longrightarrow>
      (\<exists>w2. run_state (isSustainedWaitBreach E y) (w1\<lparr>clock := t\<rparr>) = (False, w2) \<and>
        rd_get (rdc E) (rds w2) t WAIT_P90_BREACH_KEY = Some (show_int t)))"
proof (intro conjI impI)
  note S = backend.breach_starts [OF assms(1-4)]
  show "\<not> b" by (rule S(1))
  show "run_state (isSustainedWaitBreach E y) (w1\<lparr>clock := t\<rparr>) = (t - clock w \<ge> WAIT_P90_SUSTAIN_MS, w1\<lparr>clock := t\<rparr>)"
    if "t < clock w + 2 * WAIT_P90_SUSTAIN_MS"
    using backend.breach_read [OF assms(1,5), of "w1\<lparr>clock := t\<rparr>" "clock w"] S(2) [OF assms(6) that] by simp
  show "\<exists>w2. run_state (isSustainedWaitBreach E y) (w1\<lparr>clock := t\<rparr>) = (False, w2) \<and>
      rd_get (rdc E) (rds w2) t WAIT_P90_BREACH_KEY = Some (show_int t)" if "clock w + 2 * WAIT_P90_SUSTAIN_MS < t"
  proof -
    obtain c w2 where r: "run_state (isSustainedWaitBreach E y) (w1\<lparr>clock := t\<rparr>) = (c, w2)" by fastforce
    have "rd_get (rdc E) (rds (w1\<lparr>clock := t\<rparr>)) (clock (w1\<lparr>clock := t\<rparr>)) WAIT_P90_BREACH_KEY = None" using S(3) [OF that] by simp
    from backend.breach_starts [OF assms(1,5) this r] show ?thesis using r by (simp add: WAIT_P90_SUSTAIN_MS_def)
  qed
qed

lemma wait_breach_forgotten_witness:
  "\<exists>w1 w2. run_state (isSustainedWaitBreach bare_env (Some 200)) (queue_world False) = (False, w1) \<and>
     run_state (isSustainedWaitBreach bare_env (Some 200)) (w1\<lparr>clock := noon + 18000000\<rparr>) = (False, w2)"
proof -
  obtain b w1 where r: "run_state (isSustainedWaitBreach bare_env (Some 200)) (queue_world False) = (b, w1)" by fastforce
  have "above (Some 200) WAIT_P90_THRESHOLD_SECONDS" "rd_get (rdc bare_env) (rds (queue_world False)) (clock (queue_world False)) WAIT_P90_BREACH_KEY = None"
    by (simp_all add: above_def WAIT_P90_THRESHOLD_SECONDS_def)
  from wait_breach_forgotten [OF bare_backend this r this(1), of "noon + 18000000"] r show ?thesis
    by (auto simp: WAIT_P90_SUSTAIN_MS_def)
qed

lemma stage_gates_exact_witness:
  "\<exists>s w'. run_state (computeAndPersistSnapshot bare_env) (queue_world False) = (Inr s, w') \<and> ss_stage1Status s = AMBER"
proof -
  obtain x w' where r: "run_state (computeAndPersistSnapshot bare_env) (queue_world False) = (x, w')" by fastforce
  then obtain s where s: "x = Inr s"
    by (auto simp: computeAndPersistSnapshot_def Let_def run list_delegate_def no_tables_def split: prod.splits sum.splits if_splits)
  from stage_gates_exact [OF bare_backend r [unfolded s]] have "ss_stage1Status s = AMBER"
    by (auto simp: no_tables_def no_tally_def stage1_gate_def Let_def)
  with r s show ?thesis by blast
qed

end
