(* ===== verification/Monitoring.thy ===== *)
theory Monitoring
  imports Security_Config JsFloat
begin

text \<open>
  \<open>src/src/monitoring/monitoring.controller.ts\<close>: the reports that browsers send without a login. A report that passes is
  written to the log as one line of JSON, which is the effect of the controller: here the record that is printed.
\<close>

section \<open>Bodies\<close>

text \<open>
  What a property of the body can be: missing, \<open>null\<close>, a string, a finite number, a number that is not finite
  (\<open>JSON.parse('1e999')\<close> is infinite) or something else. A body that is an object or an array is the function that
  looks up its properties.
\<close>

datatype field = Undefined | Null | Str string | Num rat | NotFinite | OtherValue

type_synonym body = "(string \<Rightarrow> field) option"

definition isRecord :: "body \<Rightarrow> bool" where
  "isRecord value \<longleftrightarrow> value \<noteq> None"

definition parseString :: "field \<Rightarrow> string \<Rightarrow> nat \<Rightarrow> nat \<Rightarrow> exn + string" where
  "parseString input field_name lo hi =
    (case input of
       Str s \<Rightarrow> let value = trim s in
         if length value < lo \<or> length value > hi then Inl (BadRequest (field_name @ '' length is invalid'')) else Inr value
     | _ \<Rightarrow> Inl (BadRequest (field_name @ '' must be a string'')))"

definition parseOptionalString :: "field \<Rightarrow> string \<Rightarrow> nat \<Rightarrow> nat \<Rightarrow> exn + string option" where
  "parseOptionalString input field_name lo hi =
    (if input = Undefined \<or> input = Null then Inr None
     else bind_sum (parseString input field_name lo hi) (\<lambda>s. Inr (Some s)))"

definition parseFiniteNumber :: "field \<Rightarrow> string \<Rightarrow> exn + rat" where
  "parseFiniteNumber input field_name =
    (case input of Num x \<Rightarrow> Inr x | _ \<Rightarrow> Inl (BadRequest (field_name @ '' must be a finite number'')))"

definition parseOptionalNumber :: "field \<Rightarrow> string \<Rightarrow> exn + rat option" where
  "parseOptionalNumber input field_name =
    (if input = Undefined \<or> input = Null then Inr None
     else bind_sum (parseFiniteNumber input field_name) (\<lambda>x. Inr (Some x)))"

definition limit_text :: "string option \<Rightarrow> nat \<Rightarrow> string option" where
  "limit_text value maxLength =
    (if \<not> truthy value then None
     else Some (if length (the value) > maxLength then take maxLength (the value) else the value))"

section \<open>Web vitals\<close>

record web_vitals_payload =
  wv_name :: string
  wv_value :: rat
  wv_id :: string
  wv_rating :: "string option"
  wv_timestamp :: "rat option"
  wv_path :: "string option"

definition parseWebVitalName :: "field \<Rightarrow> exn + string" where
  "parseWebVitalName input =
    bind_sum (parseString input ''name'' 1 12) (\<lambda>value.
      if value = ''CLS'' \<or> value = ''INP'' \<or> value = ''LCP'' \<or> value = ''FCP'' \<or> value = ''TTFB'' then Inr value
      else Inl (BadRequest ''Unsupported web vital name''))"

definition parseWebVitalRating :: "field \<Rightarrow> exn + string option" where
  "parseWebVitalRating input =
    (if input = Undefined \<or> input = Null then Inr None
     else bind_sum (parseString input ''rating'' 1 32) (\<lambda>value.
       if value = ''good'' \<or> value = ''needs-improvement'' \<or> value = ''poor'' then Inr (Some value)
       else Inl (BadRequest ''Invalid rating'')))"

definition parseWebVitalsPayload :: "body \<Rightarrow> exn + web_vitals_payload" where
  "parseWebVitalsPayload input =
    (if \<not> isRecord input then Inl (BadRequest ''Invalid web vitals payload'')
     else
       bind_sum (parseWebVitalName (the input ''name'')) (\<lambda>name.
       bind_sum (parseFiniteNumber (the input ''value'') ''value'') (\<lambda>value.
       bind_sum (parseString (the input ''id'') ''id'' 1 120) (\<lambda>i.
       bind_sum (parseWebVitalRating (the input ''rating'')) (\<lambda>rating.
       bind_sum (parseOptionalNumber (the input ''timestamp'') ''timestamp'') (\<lambda>timestamp.
       bind_sum (parseOptionalString (the input ''path'') ''path'' 1 200) (\<lambda>path.
         Inr \<lparr>wv_name = name, wv_value = value, wv_id = i, wv_rating = rating, wv_timestamp = timestamp, wv_path = path\<rparr>)))))))"

section \<open>Errors of the frontend\<close>

record frontend_error_payload =
  fe_type :: string
  fe_message :: "string option"
  fe_reason :: "string option"
  fe_source :: "string option"
  fe_line :: "rat option"
  fe_column :: "rat option"
  fe_stack :: "string option"
  fe_path :: "string option"
  fe_timestamp :: "rat option"

definition parseErrorType :: "field \<Rightarrow> exn + string" where
  "parseErrorType input =
    bind_sum (parseString input ''type'' 1 40) (\<lambda>value.
      if value = ''error'' \<or> value = ''unhandledrejection'' then Inr value else Inl (BadRequest ''Invalid error type''))"

definition parseFrontendErrorPayload :: "body \<Rightarrow> exn + frontend_error_payload" where
  "parseFrontendErrorPayload input =
    (if \<not> isRecord input then Inl (BadRequest ''Invalid frontend error payload'')
     else
       bind_sum (parseErrorType (the input ''type'')) (\<lambda>type.
       bind_sum (parseOptionalString (the input ''message'') ''message'' 1 500) (\<lambda>message.
       bind_sum (parseOptionalString (the input ''reason'') ''reason'' 1 500) (\<lambda>reason.
       bind_sum (parseOptionalString (the input ''source'') ''source'' 1 300) (\<lambda>source.
       bind_sum (parseOptionalNumber (the input ''line'') ''line'') (\<lambda>line.
       bind_sum (parseOptionalNumber (the input ''column'') ''column'') (\<lambda>column.
       bind_sum (parseOptionalString (the input ''stack'') ''stack'' 1 4000) (\<lambda>stack.
       bind_sum (parseOptionalString (the input ''path'') ''path'' 1 200) (\<lambda>path.
       bind_sum (parseOptionalNumber (the input ''timestamp'') ''timestamp'') (\<lambda>timestamp.
         if \<not> truthy message \<and> \<not> truthy reason then Inl (BadRequest ''message or reason is required'')
         else Inr \<lparr>fe_type = type, fe_message = message, fe_reason = reason, fe_source = source, fe_line = line,
           fe_column = column, fe_stack = stack, fe_path = path, fe_timestamp = timestamp\<rparr>))))))))))"

section \<open>The routes\<close>

record 'p log_line =
  lg_channel :: string
  lg_payload :: 'p
  lg_origin :: "string option"
  lg_userAgent :: "string option"
  lg_receivedAt :: int

definition assertAllowedOrigin :: "('r, 'd) env \<Rightarrow> string option \<Rightarrow> exn + unit" where
  "assertAllowedOrigin E origin = (if \<not> isOriginAllowed E origin then Inl (Unauthorized ''Origin not allowed'') else Inr ())"

definition captureWebVitals ::
  "('r, 'd) env \<Rightarrow> int \<Rightarrow> string option \<Rightarrow> string option \<Rightarrow> body \<Rightarrow> exn + web_vitals_payload log_line" where
  "captureWebVitals E now origin userAgent payloadRaw =
    bind_sum (assertAllowedOrigin E origin) (\<lambda>_.
    bind_sum (parseWebVitalsPayload payloadRaw) (\<lambda>payload.
      Inr \<lparr>lg_channel = ''frontend.monitoring.web_vital'', lg_payload = payload, lg_origin = origin,
        lg_userAgent = limit_text userAgent 200, lg_receivedAt = now\<rparr>))"

definition captureFrontendError ::
  "('r, 'd) env \<Rightarrow> int \<Rightarrow> string option \<Rightarrow> string option \<Rightarrow> body \<Rightarrow> exn + frontend_error_payload log_line" where
  "captureFrontendError E now origin userAgent payloadRaw =
    bind_sum (assertAllowedOrigin E origin) (\<lambda>_.
    bind_sum (parseFrontendErrorPayload payloadRaw) (\<lambda>payload.
      Inr \<lparr>lg_channel = ''frontend.monitoring.error'', lg_payload = payload, lg_origin = origin,
        lg_userAgent = limit_text userAgent 200, lg_receivedAt = now\<rparr>))"

section \<open>Accepted reports\<close>

text \<open>A text of the log: trimmed and of bounded length.\<close>

definition bounded_text :: "nat \<Rightarrow> string \<Rightarrow> bool" where
  "bounded_text n s \<longleftrightarrow> s \<noteq> [] \<and> length s \<le> n \<and> trim s = s"

definition web_vital_wf :: "web_vitals_payload \<Rightarrow> bool" where
  "web_vital_wf p \<longleftrightarrow> wv_name p \<in> {''CLS'', ''INP'', ''LCP'', ''FCP'', ''TTFB''} \<and> bounded_text 120 (wv_id p) \<and>
     pred_option (\<lambda>r. r \<in> {''good'', ''needs-improvement'', ''poor''}) (wv_rating p) \<and> pred_option (bounded_text 200) (wv_path p)"

definition frontend_error_wf :: "frontend_error_payload \<Rightarrow> bool" where
  "frontend_error_wf p \<longleftrightarrow> fe_type p \<in> {''error'', ''unhandledrejection''} \<and>
     pred_option (bounded_text 500) (fe_message p) \<and> pred_option (bounded_text 500) (fe_reason p) \<and>
     (fe_message p \<noteq> None \<or> fe_reason p \<noteq> None) \<and> pred_option (bounded_text 300) (fe_source p) \<and>
     pred_option (bounded_text 4000) (fe_stack p) \<and> pred_option (bounded_text 200) (fe_path p)"

lemma parseString_Inr_iff: "parseString x n a b = Inr v \<longleftrightarrow> (\<exists>s. x = Str s \<and> v = trim s \<and> a \<le> length v \<and> length v \<le> b)"
  by (auto simp: parseString_def Let_def split: field.splits)

lemma parseOptionalString_wf: "parseOptionalString x n (Suc 0) b = Inr v \<Longrightarrow> pred_option (bounded_text b) v"
  by (auto simp: parseOptionalString_def bind_sum_Inr_iff parseString_Inr_iff bounded_text_def split: if_splits)

lemma parseWebVitals_wf: "parseWebVitalsPayload b = Inr p \<Longrightarrow> web_vital_wf p"
  by (auto simp: parseWebVitalsPayload_def bind_sum_Inr_iff web_vital_wf_def parseWebVitalName_def parseWebVitalRating_def
      parseString_Inr_iff bounded_text_def dest!: parseOptionalString_wf split: if_splits)

lemma parseFrontendError_wf: "parseFrontendErrorPayload b = Inr p \<Longrightarrow> frontend_error_wf p"
  by (auto simp: parseFrontendErrorPayload_def bind_sum_Inr_iff frontend_error_wf_def parseErrorType_def truthy_iff
      parseString_Inr_iff dest!: parseOptionalString_wf split: if_splits)

lemma bind_sum_Inl_iff: "bind_sum x f = Inl e \<longleftrightarrow> x = Inl e \<or> (\<exists>a. x = Inr a \<and> f a = Inl e)"
  by (cases x) auto

lemma parse_errors:
  "parseString x n a b = Inl e \<Longrightarrow> \<exists>m. e = BadRequest m" "parseOptionalString x n a b = Inl e \<Longrightarrow> \<exists>m. e = BadRequest m"
  "parseFiniteNumber x n = Inl e \<Longrightarrow> \<exists>m. e = BadRequest m" "parseOptionalNumber x n = Inl e \<Longrightarrow> \<exists>m. e = BadRequest m"
  by (auto simp: parseString_def parseOptionalString_def parseFiniteNumber_def parseOptionalNumber_def Let_def bind_sum_Inl_iff
      split: field.splits if_splits)

lemma parseWebVitals_error: "parseWebVitalsPayload b = Inl e \<Longrightarrow> \<exists>m. e = BadRequest m"
  by (auto simp: parseWebVitalsPayload_def bind_sum_Inl_iff parseWebVitalName_def parseWebVitalRating_def dest: parse_errors split: if_splits)

lemma parseFrontendError_error: "parseFrontendErrorPayload b = Inl e \<Longrightarrow> \<exists>m. e = BadRequest m"
  by (auto simp: parseFrontendErrorPayload_def bind_sum_Inl_iff parseErrorType_def dest: parse_errors split: if_splits)

text \<open>
  C40: whatever a browser posts, a report that is accepted comes from an allowed origin (or names none) and is well formed: its names and
  ratings are those of the declared types, every text is trimmed, not empty and within its limit, an error has a message or a
  reason, and the user agent in the log has at most 200 characters.
\<close>

theorem accepted_reports_wf:
  "(case captureWebVitals E now origin userAgent body of
      Inl e \<Rightarrow> e = Unauthorized ''Origin not allowed'' \<and> \<not> isOriginAllowed E origin \<or> (\<exists>m. e = BadRequest m)
    | Inr l \<Rightarrow> isOriginAllowed E origin \<and> web_vital_wf (lg_payload l) \<and> pred_option (\<lambda>s. length s \<le> 200) (lg_userAgent l)) \<and>
   (case captureFrontendError E now origin userAgent body of
      Inl e \<Rightarrow> e = Unauthorized ''Origin not allowed'' \<and> \<not> isOriginAllowed E origin \<or> (\<exists>m. e = BadRequest m)
    | Inr l \<Rightarrow> isOriginAllowed E origin \<and> frontend_error_wf (lg_payload l) \<and> pred_option (\<lambda>s. length s \<le> 200) (lg_userAgent l))"
proof (rule conjI)
  show "case captureWebVitals E now origin userAgent body of
      Inl e \<Rightarrow> e = Unauthorized ''Origin not allowed'' \<and> \<not> isOriginAllowed E origin \<or> (\<exists>m. e = BadRequest m)
    | Inr l \<Rightarrow> isOriginAllowed E origin \<and> web_vital_wf (lg_payload l) \<and> pred_option (\<lambda>s. length s \<le> 200) (lg_userAgent l)"
    by (cases "parseWebVitalsPayload body")
      (auto simp: captureWebVitals_def assertAllowedOrigin_def limit_text_def dest: parseWebVitals_wf parseWebVitals_error)
  show "case captureFrontendError E now origin userAgent body of
      Inl e \<Rightarrow> e = Unauthorized ''Origin not allowed'' \<and> \<not> isOriginAllowed E origin \<or> (\<exists>m. e = BadRequest m)
    | Inr l \<Rightarrow> isOriginAllowed E origin \<and> frontend_error_wf (lg_payload l) \<and> pred_option (\<lambda>s. length s \<le> 200) (lg_userAgent l)"
    by (cases "parseFrontendErrorPayload body")
      (auto simp: captureFrontendError_def assertAllowedOrigin_def limit_text_def dest: parseFrontendError_wf parseFrontendError_error)
qed

text \<open>
  Conversely a body with a name, a finite value and an identifier is accepted, padded or not.
\<close>

lemma web_vital_accepted:
  assumes "isOriginAllowed E origin" and "trim s = name" and "name \<in> {''CLS'', ''INP'', ''LCP'', ''FCP'', ''TTFB''}"
    and "trim i \<noteq> []" and "length (trim i) \<le> 120"
  shows "\<exists>l. captureWebVitals E now origin userAgent
      (Some ((\<lambda>_. Undefined)(''name'' := Str s, ''value'' := Num x, ''id'' := Str i))) = Inr l \<and>
    lg_payload l = \<lparr>wv_name = name, wv_value = x, wv_id = trim i, wv_rating = None, wv_timestamp = None, wv_path = None\<rparr>"
  using assms
  by (auto simp: captureWebVitals_def assertAllowedOrigin_def parseWebVitalsPayload_def isRecord_def parseWebVitalName_def
      parseString_def parseFiniteNumber_def parseWebVitalRating_def parseOptionalNumber_def parseOptionalString_def Let_def
      bind_sum_def Suc_le_eq)

end
