(* ===== verification/Refresh_Guard.thy ===== *)
theory Refresh_Guard
  imports Auth
begin

text \<open>
  \<open>src/src/auth/iefresh.guard.ts\<close>: the guard that takes the refresh token from the header \<open>cookie\<close>. A header consists of
  characters up to 255; \<open>decodeURIComponent\<close> may give any UTF-16 code unit, so decoded values are lists of code units.
\<close>

section \<open>decodeURIComponent\<close>

text \<open>A character that stands for itself, or an octet written as \<open>%XX\<close>.\<close>

datatype uri_item = Plain nat | Octet nat

fun uri_items :: "string \<Rightarrow> uri_item list option" where
  "uri_items [] = Some []"
| "uri_items (c # s) =
    (if c \<noteq> CHR ''%'' then map_option ((#) (Plain (of_char c))) (uri_items s)
     else (case s of
         a # b # r \<Rightarrow> (case (hex_value a, hex_value b) of
             (Some x, Some y) \<Rightarrow> map_option ((#) (Octet (16 * x + y))) (uri_items r)
           | _ \<Rightarrow> None)
       | _ \<Rightarrow> None))"

text \<open>The code units of a code point.\<close>

definition utf16 :: "nat \<Rightarrow> nat list" where
  "utf16 v = (if v < 65536 then [v] else [55296 + (v - 65536) div 1024, 56320 + (v - 65536) mod 1024])"

definition continuation :: "nat \<Rightarrow> bool" where
  "continuation b \<longleftrightarrow> 128 \<le> b \<and> b < 192"

text \<open>UTF-8: no overlong form, no surrogate, nothing above \<open>10FFFF\<close>; \<open>None\<close> is the \<open>URIError\<close>.\<close>

fun utf8_units :: "uri_item list \<Rightarrow> nat list option" where
  "utf8_units [] = Some []"
| "utf8_units (Plain n # s) = map_option ((#) n) (utf8_units s)"
| "utf8_units (Octet b # s) =
    (if b < 128 then map_option ((#) b) (utf8_units s)
     else if 194 \<le> b \<and> b < 224 then
       (case s of Octet c # r \<Rightarrow>
            if continuation c then map_option ((@) (utf16 ((b - 192) * 64 + (c - 128)))) (utf8_units r) else None
        | _ \<Rightarrow> None)
     else if 224 \<le> b \<and> b < 240 then
       (case s of Octet c # Octet d # r \<Rightarrow>
            let v = (b - 224) * 4096 + (c - 128) * 64 + (d - 128) in
            if continuation c \<and> continuation d \<and> 2048 \<le> v \<and> \<not> (55296 \<le> v \<and> v < 57344)
            then map_option ((@) (utf16 v)) (utf8_units r) else None
        | _ \<Rightarrow> None)
     else if 240 \<le> b \<and> b < 248 then
       (case s of Octet c # Octet d # Octet e # r \<Rightarrow>
            let v = (b - 240) * 262144 + (c - 128) * 4096 + (d - 128) * 64 + (e - 128) in
            if continuation c \<and> continuation d \<and> continuation e \<and> 65536 \<le> v \<and> v < 1114112
            then map_option ((@) (utf16 v)) (utf8_units r) else None
        | _ \<Rightarrow> None)
     else None)"

definition decodeURIComponent :: "string \<Rightarrow> nat list option" where
  "decodeURIComponent s = Option.bind (uri_items s) utf8_units"

section \<open>The guard\<close>

type_synonym cookies = "string \<rightharpoonup> nat list"

text \<open>One step of the \<open>reduce\<close>: the name is what precedes the first \<open>=\<close>, the value what follows it.\<close>

definition add_cookie :: "cookies \<Rightarrow> string \<Rightarrow> cookies" where
  "add_cookie acc part =
    (case split_on CHR ''='' (trim part) of
       [] \<Rightarrow> acc
     | rawKey # rest \<Rightarrow>
         if rawKey = [] then acc
         else (let rawValue = join_with ''='' rest in
           acc(rawKey \<mapsto> (case decodeURIComponent rawValue of None \<Rightarrow> map of_char rawValue | Some v \<Rightarrow> v))))"

definition parseCookies :: "string option \<Rightarrow> cookies" where
  "parseCookies header = (if \<not> truthy header then (\<lambda>_. None) else foldl add_cookie (\<lambda>_. None) (split_on CHR '';'' (the header)))"

text \<open>The cookies that a middleware has parsed, if any, and the header; the result is \<open>req.refreshToken\<close>.\<close>

definition refresh_canActivate :: "cookies option \<Rightarrow> string option \<Rightarrow> exn + nat list" where
  "refresh_canActivate parsed header =
    (let cookies = (case parsed of None \<Rightarrow> parseCookies header | Some c \<Rightarrow> c) in
     case cookies REFRESH_COOKIE_NAME of
       None \<Rightarrow> Inl (Unauthorized ''Missing refresh token'')
     | Some token \<Rightarrow> if token = [] then Inl (Unauthorized ''Missing refresh token'') else Inr token)"

section \<open>Reading back the cookie\<close>

text \<open>The characters of a token: no separator, escape or white space.\<close>

definition token_char :: "char \<Rightarrow> bool" where
  "token_char c \<longleftrightarrow> c \<noteq> CHR '';'' \<and> c \<noteq> CHR ''='' \<and> c \<noteq> CHR ''%'' \<and> \<not> js_space c"

lemma uri_items_plain: "CHR ''%'' \<notin> set s \<Longrightarrow> uri_items s = Some (map (\<lambda>c. Plain (of_char c)) s)"
  by (induction s) auto

lemma utf8_units_plain: "utf8_units (map Plain ns) = Some ns"
  by (induction ns) auto

lemma decode_plain: "CHR ''%'' \<notin> set s \<Longrightarrow> decodeURIComponent s = Some (map of_char s)"
  using utf8_units_plain [of "map of_char s"] by (simp add: decodeURIComponent_def uri_items_plain comp_def)

text \<open>The name of the cookie that a part of the header sets.\<close>

definition cookie_name :: "string \<Rightarrow> string" where
  "cookie_name part = hd (split_on CHR ''='' (trim part))"

lemma add_cookie_other: "cookie_name part \<noteq> k \<Longrightarrow> add_cookie acc part k = acc k"
  by (auto simp: add_cookie_def cookie_name_def Let_def split: list.splits)

lemma add_cookies_other: "list_all (\<lambda>part. cookie_name part \<noteq> k) parts \<Longrightarrow> foldl add_cookie acc parts k = acc k"
  by (induction parts arbitrary: acc) (simp_all add: add_cookie_other)

lemma split_on_plain: "c \<notin> set s \<Longrightarrow> split_on c s = [s]"
  by (induction s) auto

lemma trim_id:
  assumes "s \<noteq> []" and "\<not> js_space (hd s)" and "\<not> js_space (last s)"
  shows "trim s = s"
proof -
  have "dropWhile js_space s = s" using assms(1,2) by (cases s) auto
  moreover have "dropWhile js_space (rev s) = rev s" using assms(1,3) by (cases s rule: rev_cases) auto
  ultimately show ?thesis by (simp add: trim_def)
qed

lemma trim_leading: "js_space c \<Longrightarrow> trim (c # s) = trim s"
  by (simp add: trim_def)

lemma add_refresh_cookie:
  assumes "token \<noteq> []" and "list_all token_char token"
  shows "add_cookie acc (CHR '' '' # REFRESH_COOKIE_NAME @ CHR ''='' # token) = acc(REFRESH_COOKIE_NAME \<mapsto> map of_char token)"
proof -
  have c: "CHR ''%'' \<notin> set token" "CHR ''='' \<notin> set token" "\<not> js_space (last token)"
    using assms by (auto simp: token_char_def list_all_iff)
  have sp: "js_space (CHR '' '')" by (simp add: js_space_def)
  have "trim (REFRESH_COOKIE_NAME @ CHR ''='' # token) = REFRESH_COOKIE_NAME @ CHR ''='' # token"
    using assms(1) c(3) by (intro trim_id) (simp_all add: REFRESH_COOKIE_NAME_def js_space_def)
  then have "split_on CHR ''='' (trim (CHR '' '' # REFRESH_COOKIE_NAME @ CHR ''='' # token)) = [REFRESH_COOKIE_NAME, token]"
    using c(2) split_on_append [of "CHR ''=''" REFRESH_COOKIE_NAME token]
    by (simp add: trim_leading [OF sp] split_on_plain REFRESH_COOKIE_NAME_def)
  then show ?thesis by (simp add: add_cookie_def decode_plain c(1) REFRESH_COOKIE_NAME_def)
qed

lemma split_join:
  assumes "list_all (\<lambda>s. c \<notin> set s) (s # ss)"
  shows "split_on c (join_with [c] (s # ss)) = s # ss"
  using assms by (induction ss arbitrary: s) (simp_all add: split_on_plain split_on_append)

lemma parseCookies_join:
  assumes "list_all (\<lambda>s. CHR '';'' \<notin> set s) parts"
  shows "parseCookies (Some (join_with '';'' parts)) = foldl add_cookie (\<lambda>_. None) parts"
proof (cases parts)
  case Nil
  then show ?thesis by (simp add: parseCookies_def)
next
  case (Cons s ss)
  have parts: "split_on CHR '';'' (join_with '';'' parts) = parts" using split_join [of "CHR '';''" s ss] assms Cons by simp
  show ?thesis
  proof (cases "join_with '';'' parts = []")
    case True
    then have "parts = [[]]" using parts by simp
    then show ?thesis by (simp add: parseCookies_def add_cookie_def trim_def)
  next
    case False
    then show ?thesis using parts by (simp add: parseCookies_def)
  qed
qed

text \<open>
  The refresh token that \<open>setRefreshCookie\<close> puts into a cookie is the one the guard takes from the header of a later
  request, wherever the cookie stands between others of other names; without such a cookie the request is refused.
\<close>

theorem refresh_cookie_roundtrip:
  assumes "setRefreshCookie E token = (name, Some value, options)"
    and "token \<noteq> []" and "list_all token_char token"
    and "list_all (\<lambda>part. CHR '';'' \<notin> set part \<and> cookie_name part \<noteq> name) (before @ after)"
  shows "refresh_canActivate None (Some (join_with '';'' (before @ (CHR '' '' # name @ CHR ''='' # value) # after))) = Inr (map of_char token) \<and>
    refresh_canActivate None (Some (join_with '';'' (before @ after))) = Inl (Unauthorized ''Missing refresh token'')"
proof
  have n: "name = REFRESH_COOKIE_NAME" "value = token" using assms(1) by (simp_all add: setRefreshCookie_def)
  note others = assms(4) [unfolded n]
  have t: "CHR '';'' \<notin> set token" using assms(3) by (auto simp: token_char_def list_all_iff)
  have "CHR '';'' \<notin> set (CHR '' '' # REFRESH_COOKIE_NAME @ CHR ''='' # token)" using t by (simp add: REFRESH_COOKIE_NAME_def)
  then have "list_all (\<lambda>s. CHR '';'' \<notin> set s) (before @ (CHR '' '' # REFRESH_COOKIE_NAME @ CHR ''='' # token) # after)"
    using others by (simp add: list_all_iff)
  note P = parseCookies_join [OF this]
  have "parseCookies (Some (join_with '';'' (before @ (CHR '' '' # REFRESH_COOKIE_NAME @ CHR ''='' # token) # after))) REFRESH_COOKIE_NAME =
      Some (map of_char token)"
    unfolding P using others add_refresh_cookie [OF assms(2,3)]
    by (simp add: add_cookies_other list_all_iff)
  then show "refresh_canActivate None (Some (join_with '';'' (before @ (CHR '' '' # name @ CHR ''='' # value) # after))) = Inr (map of_char token)"
    using assms(2) by (simp add: refresh_canActivate_def n)
  have "list_all (\<lambda>s. CHR '';'' \<notin> set s) (before @ after)" using others by (simp add: list_all_iff)
  note Q = parseCookies_join [OF this]
  have "parseCookies (Some (join_with '';'' (before @ after))) REFRESH_COOKIE_NAME = None"
    unfolding Q using others by (subst add_cookies_other) (simp_all add: list_all_iff)
  then show "refresh_canActivate None (Some (join_with '';'' (before @ after))) = Inl (Unauthorized ''Missing refresh token'')"
    by (simp add: refresh_canActivate_def)
qed

lemma refresh_cookie_roundtrip_witness:
  "refresh_canActivate None (Some ''theme=dark; refresh_token=eyJ.a-b_c'') = Inr (map of_char ''eyJ.a-b_c'')"
proof -
  have a: "setRefreshCookie E ''eyJ.a-b_c'' = (''refresh_token'', Some ''eyJ.a-b_c'', getRefreshCookieOptions E)" for E :: "(unit, unit) env"
    by (simp add: setRefreshCookie_def REFRESH_COOKIE_NAME_def)
  have b: "''eyJ.a-b_c'' \<noteq> []" by simp
  have c: "list_all token_char ''eyJ.a-b_c''" by code_simp
  have d: "list_all (\<lambda>part. CHR '';'' \<notin> set part \<and> cookie_name part \<noteq> ''refresh_token'') ([''theme=dark''] @ [])" by code_simp
  from refresh_cookie_roundtrip [OF a b c d] show ?thesis by simp
qed

end
