(* ===== verification/Http_Routes.thy ===== *)
theory Http_Routes
  imports Guards Auth Chat Matches Moderation Payments Analytics Flags Notifications Telemetry
begin

text \<open>
  The controllers of the HTTP routes (\<open>src/src/*/*.controller.ts\<close>): what each makes of the user, the parameters and the headers of a
  request before and after it calls its service. \<open>auth\<close> is the answer of \<open>AuthGuard('jwt')\<close>: the user that \<open>JwtStrategy\<close> accepts, or the
  exception of the guard. The bodies are those the validation pipe has let through. A call that is not awaited
  (\<open>void this.queueGateway.emitQueueStatus(...)\<close>) runs after the handler.
\<close>

type_synonym auth = "exn + request_user"

definition authenticated :: "auth \<Rightarrow> (request_user \<Rightarrow> ('w, 'a) fprog) \<Rightarrow> ('w, 'a) fprog" where
  "authenticated auth handler = (case auth of Inl e \<Rightarrow> throw e | Inr user \<Rightarrow> handler user)"

text \<open>A handler that reads the identifier of the user.\<close>

definition as_user :: "auth \<Rightarrow> (string \<Rightarrow> ('w, 'a) fprog) \<Rightarrow> ('w, 'a) fprog" where
  "as_user auth handler = authenticated auth (\<lambda>user. case getRequestUserId (Some user) of Inl e \<Rightarrow> throw e | Inr userId \<Rightarrow> handler userId)"

text \<open>A handler with \<open>@Roles('ADMIN')\<close>, behind \<open>RolesGuard\<close>.\<close>

definition as_admin :: "('r, 'd) env \<Rightarrow> auth \<Rightarrow> json option \<Rightarrow> (request_user \<Rightarrow> ('w, 'a) fprog) \<Rightarrow> ('w, 'a) fprog" where
  "as_admin E auth adminKey handler = authenticated auth (\<lambda>user.
     case canActivate E (Some [ADMIN]) (Some user) adminKey of
       Inl e \<Rightarrow> throw e
     | Inr allowed \<Rightarrow> if allowed then handler user else throw (Forbidden ''Forbidden resource''))"

definition always :: "('w, 'a) prog \<Rightarrow> ('w, 'a) fprog" where
  "always m = do { a \<leftarrow> m; ok a }"

text \<open>A limit of the query string, parsed and dropped when it is not finite.\<close>

definition parsedLimit :: "string option \<Rightarrow> jsnum" where
  "parsedLimit limit =
    (let parsedLimitRaw = (if truthy limit then parseInt (the limit) else NaN)
     in if isFinite parsedLimitRaw then parsedLimitRaw else NaN)"

section \<open>auth.controller.ts\<close>

text \<open>The header \<open>x-forwarded-for\<close>: one text or several.\<close>

datatype header = NoHeader | OneHeader string | ManyHeaders "string list"

record request =
  rq_userAgent :: "string option"
  rq_forwarded :: header
  rq_ip :: "string option"
  rq_refreshToken :: "string option"

definition getIpAddress :: "request \<Rightarrow> string option" where
  "getIpAddress req =
    (case rq_forwarded req of
       OneHeader forwarded \<Rightarrow> (case split_on CHR '','' forwarded of [] \<Rightarrow> None | s # _ \<Rightarrow> Some (trim s))
     | ManyHeaders forwarded \<Rightarrow> (case forwarded of [] \<Rightarrow> None | s # _ \<Rightarrow> Some s)
     | NoHeader \<Rightarrow> rq_ip req)"

type_synonym cookie = "string \<times> string option \<times> cookie_options"

definition signupAnonymous_route ::
  "('r, 'd) env \<Rightarrow> jwt \<Rightarrow> request \<Rightarrow> signup_input \<Rightarrow> (('r, 'd) world, (user_row \<times> string) \<times> cookie) fprog" where
  "signupAnonymous_route E J req dto =
    andThen (signupAnonymous E J (rq_userAgent req) (getIpAddress req) dto) (\<lambda>(user, tokens).
      ok ((user, tk_accessToken tokens), setRefreshCookie E (tk_refreshToken tokens)))"

definition refresh_route :: "('r, 'd) env \<Rightarrow> jwt \<Rightarrow> request \<Rightarrow> (('r, 'd) world, string \<times> cookie) fprog" where
  "refresh_route E J req =
    (if \<not> truthy (rq_refreshToken req) then throw (Unauthorized ''Missing refresh token'')
     else andThen (refreshSession E J (the (rq_refreshToken req)) (rq_userAgent req) (getIpAddress req)) (\<lambda>tokens.
       ok (tk_accessToken tokens, setRefreshCookie E (tk_refreshToken tokens))))"

definition verifyPhone_route where
  "verifyPhone_route E twilio auth phone code = as_user auth (\<lambda>userId. verifyPhone E twilio userId phone code)"

definition verifyEmail_route where
  "verifyEmail_route E twilio auth email code = as_user auth (\<lambda>userId. verifyEmail E twilio userId email code)"

definition logoutAll_route :: "('r, 'd) env \<Rightarrow> auth \<Rightarrow> (('r, 'd) world, cookie) fprog" where
  "logoutAll_route E auth = as_user auth (\<lambda>userId. do { logoutAll E userId; ok (clearRefreshCookie E) })"

definition getMe_route :: "('r, 'd) env \<Rightarrow> auth \<Rightarrow> (('r, 'd) world, user_row) fprog" where
  "getMe_route E auth = as_user auth (getCurrentUser E)"

definition exportMe_route :: "('r, 'd) env \<Rightarrow> auth \<Rightarrow> (('r, 'd) world, user_export) fprog" where
  "exportMe_route E auth = as_user auth (exportUserData E)"

definition updateMe_route :: "('r, 'd) env \<Rightarrow> auth \<Rightarrow> profile_input \<Rightarrow> (('r, 'd) world, user_row) fprog" where
  "updateMe_route E auth dto = as_user auth (\<lambda>userId. updateCurrentUser E userId dto)"

definition deleteMe_route :: "('r, 'd) env \<Rightarrow> auth \<Rightarrow> (('r, 'd) world, cookie) fprog" where
  "deleteMe_route E auth = as_user auth (\<lambda>userId. andThen (deleteAccount E userId) (\<lambda>_. ok (clearRefreshCookie E)))"

section \<open>queue.controller.ts and session.controller.ts\<close>

definition joinQueue_route :: "('r, 'd) env \<Rightarrow> auth \<Rightarrow> queue_join_input \<Rightarrow> (('r, 'd) world, join_result) fprog" where
  "joinQueue_route E auth dto = as_user auth (\<lambda>userId.
     andThen (joinQueue E userId dto) (\<lambda>result. do { emitQueueStatus E (jr_queueKey result); ok result }))"

definition leaveQueue_route :: "('r, 'd) env \<Rightarrow> auth \<Rightarrow> (('r, 'd) world, leave_result) fprog" where
  "leaveQueue_route E auth = as_user auth (\<lambda>userId.
     andThen (leaveQueue E userId) (\<lambda>result. do {
       (if truthy (lr_queueKey result) then emitQueueStatus E (the (lr_queueKey result)) else ret ());
       ok result }))"

definition submitChoice_route :: "('r, 'd) env \<Rightarrow> auth \<Rightarrow> string \<Rightarrow> string \<Rightarrow> (('r, 'd) world, choice_result) fprog" where
  "submitChoice_route E auth sessionId choice = as_user auth (\<lambda>userId. submitChoice E sessionId userId choice)"

section \<open>matches.controller.ts\<close>

definition listMatches_route :: "('r, 'd) env \<Rightarrow> auth \<Rightarrow> (('r, 'd) world, match_item list) fprog" where
  "listMatches_route E auth = as_user auth (\<lambda>userId. always (listMatches E userId))"

definition getReveal_route :: "('r, 'd) env \<Rightarrow> auth \<Rightarrow> string \<Rightarrow> (('r, 'd) world, match_reveal) fprog" where
  "getReveal_route E auth matchId = as_user auth (getReveal E matchId)"

definition acknowledgeReveal_route :: "('r, 'd) env \<Rightarrow> auth \<Rightarrow> string \<Rightarrow> (('r, 'd) world, match_reveal) fprog" where
  "acknowledgeReveal_route E auth matchId = as_user auth (acknowledgeReveal E matchId)"

definition listMessages_route ::
  "('r, 'd) env \<Rightarrow> auth \<Rightarrow> string \<Rightarrow> string option \<Rightarrow> (('r, 'd) world, message_row list) fprog" where
  "listMessages_route E auth matchId limit = as_user auth (\<lambda>userId. listMessages E matchId userId (parsedLimit limit))"

definition sendMessage_route :: "('r, 'd) env \<Rightarrow> auth \<Rightarrow> string \<Rightarrow> string \<Rightarrow> (('r, 'd) world, message_row) fprog" where
  "sendMessage_route E auth matchId text_of = as_user auth (\<lambda>userId. sendMessage E matchId userId text_of)"

section \<open>moderation.controller.ts\<close>

definition reportUser_route :: "('r, 'd) env \<Rightarrow> auth \<Rightarrow> report_input \<Rightarrow> (('r, 'd) world, report_row) fprog" where
  "reportUser_route E auth dto = as_user auth (\<lambda>reporterId. createReport E reporterId dto)"

definition listReports_route ::
  "('r, 'd) env \<Rightarrow> auth \<Rightarrow> json option \<Rightarrow> string option \<Rightarrow> string option \<Rightarrow> (('r, 'd) world, report_row list) fprog" where
  "listReports_route E auth adminKey status limit = as_admin E auth adminKey (\<lambda>_. always (listReports E status (parsedLimit limit)))"

definition createAppeal_route :: "('r, 'd) env \<Rightarrow> auth \<Rightarrow> appeal_input \<Rightarrow> (('r, 'd) world, appeal_row) fprog" where
  "createAppeal_route E auth dto = as_user auth (\<lambda>userId. createAppeal E userId dto)"

definition listAppeals_route ::
  "('r, 'd) env \<Rightarrow> auth \<Rightarrow> json option \<Rightarrow> string option \<Rightarrow> string option \<Rightarrow> (('r, 'd) world, appeal_row list) fprog" where
  "listAppeals_route E auth adminKey status limit = as_admin E auth adminKey (\<lambda>_. always (listAppeals E status (parsedLimit limit)))"

definition resolveAppeal_route ::
  "('r, 'd) env \<Rightarrow> auth \<Rightarrow> json option \<Rightarrow> string \<Rightarrow> appeal_resolution \<Rightarrow> (('r, 'd) world, appeal_row) fprog" where
  "resolveAppeal_route E auth adminKey appealId resolution = as_admin E auth adminKey (\<lambda>user.
     case getRequestUserId (Some user) of Inl e \<Rightarrow> throw e | Inr resolverUserId \<Rightarrow> resolveAppeal E resolverUserId appealId resolution)"

text \<open>The action of the body, which no class describes, is checked by the handler.\<close>

definition resolveReport_route ::
  "('r, 'd) env \<Rightarrow> auth \<Rightarrow> json option \<Rightarrow> string \<Rightarrow> json option \<Rightarrow> (('r, 'd) world, string \<times> string \<times> report_action) fprog" where
  "resolveReport_route E auth adminKey reportId action = as_admin E auth adminKey (\<lambda>_.
     if action = Some (JStr ''warn'') then resolveReport E reportId Warn
     else if action = Some (JStr ''ban'') then resolveReport E reportId Ban
     else throw (BadRequest ''Invalid action''))"

definition blockUser_route :: "('r, 'd) env \<Rightarrow> auth \<Rightarrow> string \<Rightarrow> (('r, 'd) world, block_status \<times> block_row) fprog" where
  "blockUser_route E auth blockedUserId = as_user auth (\<lambda>blockerId. createBlock E blockerId blockedUserId)"

definition unblockUser_route :: "('r, 'd) env \<Rightarrow> auth \<Rightarrow> string \<Rightarrow> (('r, 'd) world, bool) fprog" where
  "unblockUser_route E auth blockedUserId = as_user auth (\<lambda>blockerId. unblock E blockerId blockedUserId)"

definition listBlocks_route ::
  "('r, 'd) env \<Rightarrow> auth \<Rightarrow> string option \<Rightarrow> (('r, 'd) world, (string \<times> int \<times> string) list) fprog" where
  "listBlocks_route E auth limit = as_user auth (\<lambda>blockerId. always (listBlocks E blockerId (parsedLimit limit)))"

section \<open>The webhooks\<close>

text \<open>
  The body of a webhook: \<open>req.rawBody\<close>, which \<open>main.ts\<close> keeps for JSON bodies, else the text of the body.
  \<open>hive_payload_of\<close> is the cast of the parsed body; fields of another type than the declared one count as missing.
\<close>

definition string_field :: "string \<Rightarrow> json \<Rightarrow> string option" where
  "string_field key j = (case json_get key j of Some (JStr s) \<Rightarrow> Some s | _ \<Rightarrow> None)"

definition hive_payload_of :: "json \<Rightarrow> hive_payload" where
  "hive_payload_of j = \<lparr>hv_sessionId = string_field ''sessionId'' j, hv_userId = string_field ''userId'' j,
     hv_violation = (case json_get ''violation'' j of Some (JBool b) \<Rightarrow> Some b | _ \<Rightarrow> None),
     hv_action = string_field ''action'' j, hv_event = string_field ''event'' j,
     hv_labels = (case json_get ''labels'' j of Some (JArr xs) \<Rightarrow> Some (map (\<lambda>x. case x of JStr s \<Rightarrow> s | _ \<Rightarrow> json_stringify x) xs) | _ \<Rightarrow> None),
     hv_severity = string_field ''severity'' j, hv_reason = string_field ''reason'' j\<rparr>"

definition or_empty :: "json option \<Rightarrow> json" where
  "or_empty body = (case body of None \<Rightarrow> JObj [] | Some JNull \<Rightarrow> JObj [] | Some j \<Rightarrow> j)"

definition hive_route ::
  "('r, 'd) env \<Rightarrow> 8 word list option \<Rightarrow> string option \<Rightarrow> string option \<Rightarrow> json option \<Rightarrow> (('r, 'd) world, unit) fprog" where
  "hive_route E raw signature timestamp body =
    (let rawBody = (case raw of Some b \<Rightarrow> b
         | None \<Rightarrow> utf8 (case body of Some (JStr s) \<Rightarrow> s | _ \<Rightarrow> json_stringify (or_empty body)))
     in andThen (verifyWebhookSignature E rawBody signature timestamp) (\<lambda>_.
       case body of
         Some (JStr s) \<Rightarrow> (case json_parse s of
             None \<Rightarrow> throw (JsError ''SyntaxError'')
           | Some j \<Rightarrow> handleWebhook E (hive_payload_of j) signature timestamp)
       | _ \<Rightarrow> handleWebhook E (hive_payload_of (or_empty body)) signature timestamp))"

definition stripe_route ::
  "('r, 'd) env \<Rightarrow> (8 word list \<Rightarrow> string \<Rightarrow> string \<Rightarrow> exn + stripe_event) \<Rightarrow> 8 word list option \<Rightarrow> string list option \<Rightarrow> json option \<Rightarrow>
   (('r, 'd) world, unit) fprog" where
  "stripe_route E constructEvent raw signature body =
    (let payload = (case raw of Some b \<Rightarrow> b | None \<Rightarrow> utf8 (json_stringify (or_empty body)))
     in andThen (ret (verifyStripeSignature E constructEvent payload signature)) (handleStripeWebhookEvent E))"

section \<open>The other controllers\<close>

definition getBalance_route :: "('r, 'd) env \<Rightarrow> auth \<Rightarrow> (('r, 'd) world, int) fprog" where
  "getBalance_route E auth = as_user auth (getBalance E)"

definition purchase_route ::
  "('r, 'd) env \<Rightarrow> (checkout_request \<Rightarrow> exn + checkout_reply) \<Rightarrow> auth \<Rightarrow> string \<Rightarrow> (('r, 'd) world, checkout_reply) fprog" where
  "purchase_route E checkout auth packId = as_user auth (\<lambda>userId. createCheckoutSession E checkout userId packId)"

definition registerToken_route :: "('r, 'd) env \<Rightarrow> auth \<Rightarrow> push_input \<Rightarrow> (('r, 'd) world, push_row) fprog" where
  "registerToken_route E auth dto = as_user auth (\<lambda>userId. registerPushToken E userId dto)"

definition unregisterToken_route :: "('r, 'd) env \<Rightarrow> auth \<Rightarrow> string \<Rightarrow> (('r, 'd) world, nat) fprog" where
  "unregisterToken_route E auth token = as_user auth (\<lambda>userId. always (unregisterPushToken E userId token))"

definition getStageGates_route :: "('r, 'd) env \<Rightarrow> auth \<Rightarrow> json option \<Rightarrow> (('r, 'd) world, stage_gate_view) fprog" where
  "getStageGates_route E auth adminKey = as_admin E auth adminKey (\<lambda>_. getStageGateView E)"

definition emitSyntheticBackend_route ::
  "('r, 'd) env \<Rightarrow> auth \<Rightarrow> json option \<Rightarrow> string option \<Rightarrow> (('r, 'd) world, nat \<times> string \<times> string \<times> string \<times> string) fprog" where
  "emitSyntheticBackend_route E auth adminKey userId = as_admin E auth adminKey (\<lambda>_.
     always (emitSyntheticBackendEvents E (case userId of None \<Rightarrow> ''synthetic-user'' | Some u \<Rightarrow> u)))"

definition updateFlag_route ::
  "('r, 'd) env \<Rightarrow> auth \<Rightarrow> json option \<Rightarrow> string \<Rightarrow> flag_input \<Rightarrow> (('r, 'd) world, flag_row) fprog" where
  "updateFlag_route E auth adminKey key dto = as_admin E auth adminKey (\<lambda>_. upsertFlag E key dto)"

text \<open>The body and the headers of a client event; the answer is whether it was accepted and why not.\<close>

definition captureClientEvent_route ::
  "('r, 'd) env \<Rightarrow> auth \<Rightarrow> string \<Rightarrow> json option \<Rightarrow> client_context \<Rightarrow> (('r, 'd) world, bool \<times> json) fprog" where
  "captureClientEvent_route E auth name properties context = as_user auth (\<lambda>userId.
     andThen (trackClientEvent E userId name properties context) (\<lambda>(accepted, droppedReason). ok (accepted, json_opt droppedReason)))"

section \<open>Sockets of chat and video\<close>

text \<open>
  \<open>handleConnection\<close> and \<open>extractToken\<close> of \<open>src/src/chat/chat.gateway.ts\<close> and \<open>src/src/video/video.gateway.ts\<close> are those of the gateway
  of the queue; on disconnect the socket leaves the room of its user.
\<close>

definition chat_handleConnection :: "('r, 'd) env \<Rightarrow> (string \<Rightarrow> string \<Rightarrow> json option) \<Rightarrow> handshake \<Rightarrow> connection" where
  "chat_handleConnection E verify client =
    (let token = extractToken client in
     if \<not> truthy token then Disconnected
     else (case Option.bind (case getAccessTokenSecret E of Inl _ \<Rightarrow> None | Inr s \<Rightarrow> verify (the token) s) (json_get_str ''sub'') of
         Some sub \<Rightarrow> if sub = [] then Disconnected else Connected sub (userRoom sub)
       | None \<Rightarrow> Disconnected))"

definition video_handleConnection :: "('r, 'd) env \<Rightarrow> (string \<Rightarrow> string \<Rightarrow> json option) \<Rightarrow> handshake \<Rightarrow> connection" where
  "video_handleConnection E verify client =
    (let token = extractToken client in
     if \<not> truthy token then Disconnected
     else (case Option.bind (case getAccessTokenSecret E of Inl _ \<Rightarrow> None | Inr s \<Rightarrow> verify (the token) s) (json_get_str ''sub'') of
         Some sub \<Rightarrow> if sub = [] then Disconnected else Connected sub (userRoom sub)
       | None \<Rightarrow> Disconnected))"

text \<open>The room that a socket leaves when it disconnects.\<close>

definition chat_handleDisconnect :: "string option \<Rightarrow> string option" where
  "chat_handleDisconnect userId = (if truthy userId then Some (userRoom (the userId)) else None)"

definition video_handleDisconnect :: "string option \<Rightarrow> string option" where
  "video_handleDisconnect userId = (if truthy userId then Some (userRoom (the userId)) else None)"

lemma sockets_agree:
  "chat_handleConnection E verify client = handleConnection E verify client"
  "video_handleConnection E verify client = handleConnection E verify client"
  by (auto simp: chat_handleConnection_def video_handleConnection_def handleConnection_def json_get_str_def Let_def
      split: sum.splits option.splits json.splits)

end
