(* ===== verification/Http_Props.thy ===== *)
theory Http_Props
  imports Http_Routes Queue_Props
begin

text \<open>
  The routes behind a login as one function from requests, and what their guards promise whatever the services do.
\<close>

section \<open>Requests\<close>

datatype api =
    Get_me | Get_export | Patch_me profile_input | Delete_me | Post_logout | Post_phone string string | Post_email string string
  | Post_join queue_join_input | Delete_queue | Post_choice string string
  | Get_matches | Get_reveal string | Post_reveal_ack string | Get_messages string "string option" | Post_message string string
  | Post_report report_input | Post_appeal appeal_input | Post_block string | Delete_block string | Get_blocks "string option"
  | Get_balance | Post_purchase string | Post_token push_input | Delete_token string
  | Post_event string "json option" client_context
  | Get_reports "string option" "string option" | Get_appeals "string option" "string option"
  | Resolve_appeal string appeal_resolution | Resolve_report string "json option"
  | Get_stage_gates | Post_synthetic "string option" | Patch_flag string flag_input

fun admin_api :: "api \<Rightarrow> bool" where
  "admin_api (Get_reports _ _) = True" | "admin_api (Get_appeals _ _) = True" | "admin_api (Resolve_appeal _ _) = True"
| "admin_api (Resolve_report _ _) = True" | "admin_api Get_stage_gates = True" | "admin_api (Post_synthetic _) = True"
| "admin_api (Patch_flag _ _) = True" | "admin_api _ = False"

definition answered :: "('w, 'a) fprog \<Rightarrow> ('w, unit) fprog" where
  "answered m = andThen m (\<lambda>_. ok ())"

text \<open>The parameters \<open>twilio\<close> and \<open>checkout\<close> are the two services that a handler waits for.\<close>

fun serve ::
  "('r, 'd) env \<Rightarrow> (verification_check \<Rightarrow> exn + bool \<times> string option) \<Rightarrow> (checkout_request \<Rightarrow> exn + checkout_reply) \<Rightarrow>
   auth \<Rightarrow> json option \<Rightarrow> api \<Rightarrow> (('r, 'd) world, unit) fprog" where
  "serve E twilio checkout auth key Get_me = answered (getMe_route E auth)"
| "serve E twilio checkout auth key Get_export = answered (exportMe_route E auth)"
| "serve E twilio checkout auth key (Patch_me dto) = answered (updateMe_route E auth dto)"
| "serve E twilio checkout auth key Delete_me = answered (deleteMe_route E auth)"
| "serve E twilio checkout auth key Post_logout = answered (logoutAll_route E auth)"
| "serve E twilio checkout auth key (Post_phone p c) = answered (verifyPhone_route E twilio auth p c)"
| "serve E twilio checkout auth key (Post_email e c) = answered (verifyEmail_route E twilio auth e c)"
| "serve E twilio checkout auth key (Post_join dto) = answered (joinQueue_route E auth dto)"
| "serve E twilio checkout auth key Delete_queue = answered (leaveQueue_route E auth)"
| "serve E twilio checkout auth key (Post_choice s c) = answered (submitChoice_route E auth s c)"
| "serve E twilio checkout auth key Get_matches = answered (listMatches_route E auth)"
| "serve E twilio checkout auth key (Get_reveal m) = answered (getReveal_route E auth m)"
| "serve E twilio checkout auth key (Post_reveal_ack m) = answered (acknowledgeReveal_route E auth m)"
| "serve E twilio checkout auth key (Get_messages m l) = answered (listMessages_route E auth m l)"
| "serve E twilio checkout auth key (Post_message m t) = answered (sendMessage_route E auth m t)"
| "serve E twilio checkout auth key (Post_report dto) = answered (reportUser_route E auth dto)"
| "serve E twilio checkout auth key (Post_appeal dto) = answered (createAppeal_route E auth dto)"
| "serve E twilio checkout auth key (Post_block b) = answered (blockUser_route E auth b)"
| "serve E twilio checkout auth key (Delete_block b) = answered (unblockUser_route E auth b)"
| "serve E twilio checkout auth key (Get_blocks l) = answered (listBlocks_route E auth l)"
| "serve E twilio checkout auth key Get_balance = answered (getBalance_route E auth)"
| "serve E twilio checkout auth key (Post_purchase p) = answered (purchase_route E checkout auth p)"
| "serve E twilio checkout auth key (Post_token dto) = answered (registerToken_route E auth dto)"
| "serve E twilio checkout auth key (Delete_token t) = answered (unregisterToken_route E auth t)"
| "serve E twilio checkout auth key (Post_event n p c) = answered (captureClientEvent_route E auth n p c)"
| "serve E twilio checkout auth key (Get_reports s l) = answered (listReports_route E auth key s l)"
| "serve E twilio checkout auth key (Get_appeals s l) = answered (listAppeals_route E auth key s l)"
| "serve E twilio checkout auth key (Resolve_appeal a r) = answered (resolveAppeal_route E auth key a r)"
| "serve E twilio checkout auth key (Resolve_report r a) = answered (resolveReport_route E auth key r a)"
| "serve E twilio checkout auth key Get_stage_gates = answered (getStageGates_route E auth key)"
| "serve E twilio checkout auth key (Post_synthetic u) = answered (emitSyntheticBackend_route E auth key u)"
| "serve E twilio checkout auth key (Patch_flag k dto) = answered (updateFlag_route E auth key k dto)"

lemmas routes = getMe_route_def exportMe_route_def updateMe_route_def deleteMe_route_def logoutAll_route_def verifyPhone_route_def
  verifyEmail_route_def joinQueue_route_def leaveQueue_route_def submitChoice_route_def listMatches_route_def getReveal_route_def
  acknowledgeReveal_route_def listMessages_route_def sendMessage_route_def reportUser_route_def createAppeal_route_def
  blockUser_route_def unblockUser_route_def listBlocks_route_def getBalance_route_def purchase_route_def registerToken_route_def
  unregisterToken_route_def captureClientEvent_route_def

lemmas admin_routes = listReports_route_def listAppeals_route_def resolveAppeal_route_def resolveReport_route_def
  getStageGates_route_def emitSyntheticBackend_route_def updateFlag_route_def

lemma refused_user: "as_user (Inl e) h = throw e"
  by (simp add: as_user_def authenticated_def)

lemma refused_admin: "as_admin E (Inl e) key h = throw e"
  by (simp add: as_admin_def authenticated_def)

lemma forbidden_admin:
  assumes "canActivate E (Some [ADMIN]) (Some u) key = Inl e"
  shows "as_admin E (Inr u) key h = throw e"
  using assms by (simp add: as_admin_def authenticated_def)

lemma answered_throw: "answered (throw e) = throw e"
  by (rule state.expand) (simp add: answered_def andThen_def throw_def fun_eq_iff)

lemma serve_refused: "serve E twilio checkout (Inl e) key r = throw e"
  by (cases r) (simp_all add: routes admin_routes refused_user refused_admin answered_throw)

lemma serve_forbidden:
  assumes "canActivate E (Some [ADMIN]) (Some u) key = Inl e" and "admin_api r"
  shows "serve E twilio checkout (Inr u) key r = throw e"
  using assms(2) by (cases r) (simp_all add: admin_routes forbidden_admin [OF assms(1)] answered_throw)

lemma not_admin_forbidden:
  assumes "ru_role u \<noteq> Some ''ADMIN''" and "\<not> isAdminKeyFallbackAllowed E \<or> (\<forall>k. key = Some (JStr k) \<longrightarrow> env_var E ''MODERATION_ADMIN_KEY'' \<noteq> Some k)"
  shows "canActivate E (Some [ADMIN]) (Some u) key = Inl (Forbidden ''Insufficient role'')"
  using assms by (auto simp: canActivate_def getRequestUserRole_def split: option.split json.split)

text \<open>
  C23: no request behind a login reaches a service when the guard of the tokens throws: the answer is the exception and nothing has
  changed. Nor does a user whose token lacks the role ADMIN reach a route of the administrators, unless the fallback
  is on and the header holds the configured key.
\<close>

theorem routes_guarded:
  "run_state (serve E twilio checkout (Inl e) key r) w = (Inl e, w) \<and>
   (validate p = Inr u \<and> ac_role p \<noteq> Some ''ADMIN'' \<and> admin_api r \<and>
      (\<not> isAdminKeyFallbackAllowed E \<or> (\<forall>k. key = Some (JStr k) \<longrightarrow> env_var E ''MODERATION_ADMIN_KEY'' \<noteq> Some k)) \<longrightarrow>
    run_state (serve E twilio checkout (Inr u) key r) w = (Inl (Forbidden ''Insufficient role''), w))"
proof (intro conjI impI)
  show "run_state (serve E twilio checkout (Inl e) key r) w = (Inl e, w)" by (simp add: serve_refused)
next
  assume a: "validate p = Inr u \<and> ac_role p \<noteq> Some ''ADMIN'' \<and> admin_api r \<and>
      (\<not> isAdminKeyFallbackAllowed E \<or> (\<forall>k. key = Some (JStr k) \<longrightarrow> env_var E ''MODERATION_ADMIN_KEY'' \<noteq> Some k))"
  then have "ru_role u \<noteq> Some ''ADMIN''" using validated_role [of p u] by (auto simp: getRequestUserRole_def)
  then have "canActivate E (Some [ADMIN]) (Some u) key = Inl (Forbidden ''Insufficient role'')" using a by (intro not_admin_forbidden) blast+
  then show "run_state (serve E twilio checkout (Inr u) key r) w = (Inl (Forbidden ''Insufficient role''), w)"
    using a by (simp add: serve_forbidden)
qed

lemma routes_guarded_witness:
  "run_state (serve bare_env (\<lambda>_. Inl PrismaP2002) (\<lambda>_. Inl PrismaP2002)
      (Inr \<lparr>ru_sub = Some ''a'', ru_id = None, ru_userId = None, ru_role = Some ''USER''\<rparr>) None (Resolve_report ''r'' (Some (JStr ''ban''))))
     (queue_world False) = (Inl (Forbidden ''Insufficient role''), queue_world False)"
proof -
  have "validate \<lparr>ac_sub = Some ''a'', ac_typ = Some ''access'', ac_role = None\<rparr> =
      Inr \<lparr>ru_sub = Some ''a'', ru_id = None, ru_userId = None, ru_role = Some ''USER''\<rparr>"
    by (simp add: validate_def)
  then show ?thesis
    using routes_guarded [where E = bare_env and p = "\<lparr>ac_sub = Some ''a'', ac_typ = Some ''access'', ac_role = None\<rparr>" and key = None
        and r = "Resolve_report ''r'' (Some (JStr ''ban''))" and w = "queue_world False"]
    by simp
qed

end
