(* ===== verification/Web_Client.thy ===== *)
theory Web_Client
  imports JsDate Json JsFloat
begin

text \<open>
  The client of the web application: \<open>src/verity-web/src/api/client.ts\<close>, \<open>src/verity-web/src/hooks/useAuth.tsx\<close>,
  \<open>src/verity-web/src/hooks/useFlags.ts\<close> and \<open>src/verity-web/src/analytics/events.ts\<close>. Code that waits for a response
  is a program with continuations, so that several of its activities can wait at the same time and the order of
  the responses is a choice of the schedule.
\<close>

section \<open>Requests, the browser and its activities\<close>

text \<open>
  A request with the refresh cookie the browser adds to it; a response with its status, its body (\<open>None\<close> when \<open>response.json()\<close> throws)
  and the value it sets the cookie to (\<open>Some None\<close> clears it).
\<close>

record http_request =
  hq_method :: string
  hq_url :: string
  hq_headers :: "(string \<times> string) list"
  hq_body :: "string option"
  hq_cookie :: "string option"

record http_response =
  hs_status :: int
  hs_json :: "json option"
  hs_setCookie :: "string option option"

definition response_ok :: "http_response \<Rightarrow> bool" where
  "response_ok r \<longleftrightarrow> 200 \<le> hs_status r \<and> hs_status r \<le> 299"

text \<open>
  The three entries of \<open>localStorage\<close>, the refresh cookie, the location and its state, the clock, the number of identifiers drawn, and
  the state of \<open>AuthProvider\<close>; \<open>ap_effect\<close> counts the runs of its first effect. A page extends the record by its own state.
\<close>

record browser =
  br_token :: "string option"
  br_adminKey :: "string option"
  br_pushToken :: "string option"
  br_cookie :: "string option"
  br_path :: string
  br_state :: "json option"
  br_clock :: int
  br_uuids :: nat
  ap_token :: "string option"
  ap_loading :: bool
  ap_effect :: nat

text \<open>
  An activity: \<open>Call\<close> waits for the response to a request, \<open>Read\<close> and \<open>Upd\<close> use the state, and \<open>Spawn a c\<close> starts \<open>a\<close> and goes
  on with \<open>c\<close> without waiting.
\<close>

datatype 'b act =
    Stop
  | Call http_request "exn + http_response \<Rightarrow> 'b act"
  | Read "'b \<Rightarrow> 'b act"
  | Upd "'b \<Rightarrow> 'b" "'b act"
  | Spawn "'b act" "'b act"

text \<open>An activity runs until it waits; its requests are on their way then, with the cookie of that moment, which \<open>cookie\<close> reads from the state.\<close>

type_synonym 'b waiting_call = "http_request \<times> (exn + http_response \<Rightarrow> 'b act)"

primrec settle_with :: "('b \<Rightarrow> string option) \<Rightarrow> 'b act \<Rightarrow> 'b \<Rightarrow> 'b waiting_call list \<times> 'b" where
  "settle_with cookie Stop b = ([], b)"
| "settle_with cookie (Call q k) b = ([(q\<lparr>hq_cookie := cookie b\<rparr>, k)], b)"
| "settle_with cookie (Read f) b = settle_with cookie (f b) b"
| "settle_with cookie (Upd u a) b = settle_with cookie a (u b)"
| "settle_with cookie (Spawn a c) b =
    (let (ts, b1) = settle_with cookie a b; (us, b2) = settle_with cookie c b1 in (ts @ us, b2))"

abbreviation settle :: "'a browser_scheme act \<Rightarrow> 'a browser_scheme \<Rightarrow> 'a browser_scheme waiting_call list \<times> 'a browser_scheme" where
  "settle \<equiv> settle_with br_cookie"

section \<open>api/client.ts\<close>

text \<open>\<open>import.meta.env\<close>, \<open>window.location.origin\<close> (\<open>None\<close> outside a browser) and what the platform offers.\<close>

record web_env =
  we_dev :: bool
  we_test :: bool
  we_apiUrl :: "string option"
  we_wsUrl :: "string option"
  we_origin :: "string option"
  we_appVersion :: "string option"
  we_region :: "string option"
  we_userAgent :: string
  we_randomUUID :: "nat \<Rightarrow> string"

definition normalizeBaseUrl :: "string option \<Rightarrow> string \<Rightarrow> string" where
  "normalizeBaseUrl raw fallback =
    (let candidate = (case raw of None \<Rightarrow> [] | Some s \<Rightarrow> trim s);
         base = (if length candidate > 0 then candidate else fallback)
     in if base \<noteq> [] \<and> last base = CHR ''/'' then butlast base else base)"

definition defaultApiUrl :: "web_env \<Rightarrow> string" where
  "defaultApiUrl W = (if we_dev W then ''http://localhost:3000''
     else case we_origin W of Some origin \<Rightarrow> origin | None \<Rightarrow> ''http://localhost:3000'')"

definition API_URL :: "web_env \<Rightarrow> string" where
  "API_URL W = normalizeBaseUrl (we_apiUrl W) (defaultApiUrl W)"

definition WS_URL :: "web_env \<Rightarrow> string" where
  "WS_URL W = normalizeBaseUrl (we_wsUrl W) (API_URL W)"

definition socketUrl :: "web_env \<Rightarrow> string \<Rightarrow> string" where
  "socketUrl W namespace = WS_URL W @ namespace"

text \<open>An empty string and \<open>null\<close> are false.\<close>

definition present :: "string option \<Rightarrow> bool" where
  "present s \<longleftrightarrow> s \<noteq> None \<and> s \<noteq> Some []"

definition setAccessToken :: "string option \<Rightarrow> 'a browser_scheme \<Rightarrow> 'a browser_scheme" where
  "setAccessToken token b = b\<lparr>br_token := (if present token then token else None)\<rparr>"

definition setAdminKey :: "string option \<Rightarrow> 'a browser_scheme \<Rightarrow> 'a browser_scheme" where
  "setAdminKey value b = b\<lparr>br_adminKey := (if present value \<and> length (trim (the value)) > 0 then Some (trim (the value)) else None)\<rparr>"

text \<open>The names of headers in lower case; \<open>set\<close> replaces the value of a name.\<close>

definition headers_set :: "string \<Rightarrow> string \<Rightarrow> (string \<times> string) list \<Rightarrow> (string \<times> string) list" where
  "headers_set name value hs = filter (\<lambda>h. fst h \<noteq> toLowerCase name) hs @ [(toLowerCase name, value)]"

record fetch_options =
  fo_method :: string
  fo_headers :: "(string \<times> string) list"
  fo_body :: "string option"

definition json_field :: "string \<Rightarrow> json \<Rightarrow> json" where
  "json_field key j = (case json_get key j of None \<Rightarrow> JNull | Some v \<Rightarrow> v)"

definition text_field :: "string \<Rightarrow> json \<Rightarrow> string" where
  "text_field key j = (case json_get key j of Some (JStr s) \<Rightarrow> s | _ \<Rightarrow> [])"

definition json_member :: "string \<Rightarrow> json \<Rightarrow> json option" where
  "json_member key j = json_get key j"

text \<open>The access token of a body: a string that is not empty.\<close>

definition accessTokenOf :: "json \<Rightarrow> string option" where
  "accessTokenOf j = (case json_member ''accessToken'' j of Some (JStr s) \<Rightarrow> if s = [] then None else Some s | _ \<Rightarrow> None)"

definition refresh_request :: "web_env \<Rightarrow> http_request" where
  "refresh_request W = \<lparr>hq_method = ''POST'', hq_url = API_URL W @ ''/auth/refresh'', hq_headers = [], hq_body = None, hq_cookie = None\<rparr>"

text \<open>What follows the \<open>await\<close> of \<open>refreshAccessToken\<close>.\<close>

definition refreshed :: "(exn + string option \<Rightarrow> 'a browser_scheme act) \<Rightarrow> exn + http_response \<Rightarrow> 'a browser_scheme act" where
  "refreshed k response = (case response of
      Inl e \<Rightarrow> k (Inl e)
    | Inr r \<Rightarrow>
        if \<not> response_ok r then k (Inr None)
        else (case hs_json r of
            None \<Rightarrow> k (Inl (JsError ''SyntaxError''))
          | Some JNull \<Rightarrow> k (Inl (JsError ''TypeError''))
          | Some data \<Rightarrow> (case accessTokenOf data of
                None \<Rightarrow> k (Inr None)
              | Some token \<Rightarrow> Upd (setAccessToken (Some token)) (k (Inr (Some token))))))"

definition refreshAccessToken :: "web_env \<Rightarrow> (exn + string option \<Rightarrow> 'a browser_scheme act) \<Rightarrow> 'a browser_scheme act" where
  "refreshAccessToken W k = Call (refresh_request W) (refreshed k)"

definition api_request :: "web_env \<Rightarrow> string \<Rightarrow> fetch_options \<Rightarrow> string option \<Rightarrow> http_request" where
  "api_request W path options token = \<lparr>hq_method = fo_method options, hq_url = API_URL W @ path,
     hq_headers = (if present token then headers_set ''Authorization'' (''Bearer '' @ the token) (fo_headers options) else fo_headers options),
     hq_body = fo_body options, hq_cookie = None\<rparr>"

function apiFetch :: "web_env \<Rightarrow> string \<Rightarrow> fetch_options \<Rightarrow> bool \<Rightarrow> (exn + http_response \<Rightarrow> 'a browser_scheme act) \<Rightarrow> 'a browser_scheme act" where
  "apiFetch W path options retry k = Read (\<lambda>b. Call (api_request W path options (br_token b)) (\<lambda>response. case response of
      Inl e \<Rightarrow> k (Inl e)
    | Inr r \<Rightarrow>
        if hs_status r = 401 \<and> retry
        then refreshAccessToken W (\<lambda>next_token. case next_token of
            Inl e \<Rightarrow> k (Inl e)
          | Inr t \<Rightarrow> if present t then apiFetch W path options False k else k (Inr r))
        else k (Inr r)))"

  by pat_completeness auto
termination
  by (relation "measure (\<lambda>(W, path, options, retry, k). if retry then 1 else 0)") auto

declare apiFetch.simps [simp del]

text \<open>A body that is a value is sent as JSON; the other kinds of bodies are not used.\<close>

datatype api_body = NoBody | TextBody string | JsonBody json

record api_result =
  ar_ok :: bool
  ar_status :: int
  ar_data :: "json option"

definition not_null :: "json option \<Rightarrow> json option" where
  "not_null j = (if j = Some JNull then None else j)"

text \<open>The body of a response that counts as data: \<open>null\<close> does not.\<close>

definition response_body :: "api_result \<Rightarrow> json option" where
  "response_body r = not_null (ar_data r)"

definition api_options :: "string \<Rightarrow> (string \<times> string) list \<Rightarrow> api_body \<Rightarrow> fetch_options" where
  "api_options meth hs body = (case body of
       JsonBody j \<Rightarrow> \<lparr>fo_method = meth, fo_headers = headers_set ''Content-Type'' ''application/json'' hs, fo_body = Some (json_stringify j)\<rparr>
     | TextBody s \<Rightarrow> \<lparr>fo_method = meth, fo_headers = hs, fo_body = Some s\<rparr>
     | NoBody \<Rightarrow> \<lparr>fo_method = meth, fo_headers = hs, fo_body = None\<rparr>)"

definition api_parsed :: "(exn + api_result \<Rightarrow> 'b act) \<Rightarrow> exn + http_response \<Rightarrow> 'b act" where
  "api_parsed k response = (case response of
      Inl e \<Rightarrow> k (Inl e)
    | Inr r \<Rightarrow> k (Inr \<lparr>ar_ok = response_ok r, ar_status = hs_status r, ar_data = hs_json r\<rparr>))"

definition apiJson :: "web_env \<Rightarrow> string \<Rightarrow> string \<Rightarrow> (string \<times> string) list \<Rightarrow> api_body \<Rightarrow>
    (exn + api_result \<Rightarrow> 'a browser_scheme act) \<Rightarrow> 'a browser_scheme act" where
  "apiJson W path meth hs body k = apiFetch W path (api_options meth hs body) True (api_parsed k)"

text \<open>\<open>void apiJson(...)\<close>.\<close>

definition send :: "web_env \<Rightarrow> string \<Rightarrow> string \<Rightarrow> (string \<times> string) list \<Rightarrow> api_body \<Rightarrow> 'a browser_scheme act \<Rightarrow> 'a browser_scheme act" where
  "send W path meth hs body rest = Spawn (apiJson W path meth hs body (\<lambda>_. Stop)) rest"

section \<open>Decoding a token\<close>

definition b64_value :: "char \<Rightarrow> nat option" where
  "b64_value c = (let n = of_char c :: nat in
     if 65 \<le> n \<and> n \<le> 90 then Some (n - 65)
     else if 97 \<le> n \<and> n \<le> 122 then Some (n - 71)
     else if 48 \<le> n \<and> n \<le> 57 then Some (n + 4)
     else if n = 43 then Some 62 else if n = 47 then Some 63 else None)"

fun b64_bytes :: "nat list \<Rightarrow> string" where
  "b64_bytes (a # b # c # d # r) = (let n = a * 262144 + b * 4096 + c * 64 + d in
     char_of (n div 65536) # char_of (n div 256 mod 256) # char_of (n mod 256) # b64_bytes r)"
| "b64_bytes [a, b, c] = (let n = a * 4096 + b * 64 + c in [char_of (n div 1024), char_of (n div 4 mod 256)])"
| "b64_bytes [a, b] = [char_of ((a * 64 + b) div 16)]"
| "b64_bytes _ = []"

definition unpadded :: "string \<Rightarrow> string" where
  "unpadded s = (if length s mod 4 = 0 \<and> s \<noteq> [] \<and> last s = CHR ''=''
     then (if length s \<ge> 2 \<and> s ! (length s - 2) = CHR ''='' then take (length s - 2) s else butlast s) else s)"

definition atob :: "string \<Rightarrow> string option" where
  "atob input =
    (let data = unpadded (filter (\<lambda>c. (of_char c :: nat) \<notin> {9, 10, 12, 13, 32}) input) in
     if length data mod 4 = 1 \<or> list_ex (\<lambda>c. b64_value c = None) data then None
     else Some (b64_bytes (map (\<lambda>c. the (b64_value c)) data)))"

definition decodeToken :: "string \<Rightarrow> json" where
  "decodeToken token =
    (case split_on CHR ''.'' token of
       _ # payload # _ \<Rightarrow>
         if payload = [] then JObj []
         else (case Option.bind (atob payload) json_parse of None \<Rightarrow> JObj [] | Some decoded \<Rightarrow> decoded)
     | _ \<Rightarrow> JObj [])"

section \<open>analytics/events.ts\<close>

definition WEB_APP_VERSION :: "web_env \<Rightarrow> string" where
  "WEB_APP_VERSION W = (case we_appVersion W of None \<Rightarrow> ''web-dev'' | Some v \<Rightarrow> v)"

definition next_uuid :: "'a browser_scheme \<Rightarrow> 'a browser_scheme" where
  "next_uuid b = b\<lparr>br_uuids := Suc (br_uuids b)\<rparr>"

text \<open>The event has the time and the path of the moment it is sent.\<close>

definition event_body :: "web_env \<Rightarrow> 'a browser_scheme \<Rightarrow> string \<Rightarrow> (string \<times> json) list \<Rightarrow> json" where
  "event_body W b name properties =
    JObj [(''name'', JStr name), (''eventSchemaVersion'', JNum 1), (''eventId'', JStr (we_randomUUID W (br_uuids b))),
      (''occurredAt'', JStr (date_iso (br_clock b))),
      (''properties'', JObj (filter (\<lambda>p. fst p \<noteq> ''path'') properties @ [(''path'', JStr (br_path b))]))]"

definition trackEvent :: "web_env \<Rightarrow> string \<Rightarrow> (string \<times> json) list \<Rightarrow> 'a browser_scheme act \<Rightarrow> 'a browser_scheme act" where
  "trackEvent W name properties rest = Read (\<lambda>b. Upd next_uuid (send W ''/analytics/events'' ''POST''
     ([(''x-client-platform'', ''web''), (''x-app-version'', WEB_APP_VERSION W)] @
       (if present (we_region W) then [(''x-region'', the (we_region W))] else []))
     (JsonBody (event_body W b name properties)) rest))"

section \<open>hooks/useAuth.tsx\<close>

definition getOrCreatePushToken :: "web_env \<Rightarrow> (string \<Rightarrow> 'a browser_scheme act) \<Rightarrow> 'a browser_scheme act" where
  "getOrCreatePushToken W k = Read (\<lambda>b.
     if present (br_pushToken b) then k (the (br_pushToken b))
     else (let token = ''web-'' @ we_randomUUID W (br_uuids b) in Upd next_uuid (Upd (\<lambda>b. b\<lparr>br_pushToken := Some token\<rparr>) (k token))))"

definition userId_of :: "string option \<Rightarrow> string option" where
  "userId_of token = (if \<not> present token then None
     else case json_member ''sub'' (decodeToken (the token)) of Some (JStr s) \<Rightarrow> Some s | _ \<Rightarrow> None)"

definition setToken :: "string option \<Rightarrow> 'a browser_scheme \<Rightarrow> 'a browser_scheme" where
  "setToken t b = (setAccessToken t b)\<lparr>ap_token := t\<rparr>"

text \<open>
  The effects on \<open>token\<close>. The first asks for a token when there is none (not in tests); its cleanup, when the token changes again, cancels
  what it would do with the answer. The second registers the push token of the browser.
\<close>

definition bootstrap_effect :: "web_env \<Rightarrow> 'a browser_scheme act" where
  "bootstrap_effect W = Upd (\<lambda>b. b\<lparr>ap_effect := Suc (ap_effect b)\<rparr>) (Read (\<lambda>b0.
     if present (ap_token b0) \<or> we_test W then Stop
     else refreshAccessToken W (\<lambda>answer. case answer of
         Inl e \<Rightarrow> Stop
       | Inr t \<Rightarrow> Read (\<lambda>b. if ap_effect b = ap_effect b0 \<and> present t then Upd (setToken t) Stop else Stop))))"

definition push_effect :: "web_env \<Rightarrow> 'a browser_scheme act" where
  "push_effect W = Read (\<lambda>b.
     if \<not> present (ap_token b) \<or> \<not> present (userId_of (ap_token b)) then Stop
     else getOrCreatePushToken W (\<lambda>pushToken. send W ''/notifications/tokens'' ''POST'' []
       (JsonBody (JObj [(''token'', JStr pushToken), (''platform'', JStr ''WEB''), (''deviceId'', JStr (take 120 (we_userAgent W)))])) Stop))"

definition token_effects :: "web_env \<Rightarrow> 'a browser_scheme act" where
  "token_effects W = Spawn (bootstrap_effect W) (push_effect W)"

definition signUp :: "web_env \<Rightarrow> (string \<times> json) list option \<Rightarrow> (exn + unit \<Rightarrow> 'a browser_scheme act) \<Rightarrow> 'a browser_scheme act" where
  "signUp W input k = Read (\<lambda>b0.
     if ap_loading b0 then k (Inr ())
     else Upd (\<lambda>b. b\<lparr>ap_loading := True\<rparr>)
       (apiJson W ''/auth/signup-anonymous'' ''POST'' [] (case input of None \<Rightarrow> NoBody | Some i \<Rightarrow> JsonBody (JObj i)) (\<lambda>response.
          case response of
            Inl e \<Rightarrow> Upd (\<lambda>b. b\<lparr>ap_loading := False\<rparr>) (k (Inl e))
          | Inr r \<Rightarrow> (case Option.bind (ar_data r) accessTokenOf of
                Some token \<Rightarrow>
                  if ar_ok r
                  then Upd (setToken (Some token)) (trackEvent W ''auth_signup_completed''
                    [(''hasDob'', JBool (case Option.bind input (\<lambda>i. map_of i ''dateOfBirth'') of Some (JStr s) \<Rightarrow> s \<noteq> [] | _ \<Rightarrow> False))]
                    (Upd (\<lambda>b. b\<lparr>ap_loading := False\<rparr>) (k (Inr ()))))
                  else Upd (\<lambda>b. b\<lparr>ap_loading := False\<rparr>) (k (Inl (JsError ''Signup failed'')))
              | None \<Rightarrow> Upd (\<lambda>b. b\<lparr>ap_loading := False\<rparr>) (k (Inl (JsError ''Signup failed'')))))))"

text \<open>\<open>signOut\<close> uses the token of the render that made it.\<close>

definition signOut_with :: "web_env \<Rightarrow> string option \<Rightarrow> 'a browser_scheme act" where
  "signOut_with W token = Read (\<lambda>b.
     let finish = Upd (setToken None) Stop in
     if present token
     then send W ''/auth/logout-all'' ''POST'' [] NoBody
       (if present (br_pushToken b)
        then send W ''/notifications/tokens'' ''DELETE'' [] (JsonBody (JObj [(''token'', JStr (the (br_pushToken b)))])) finish
        else finish)
     else finish)"

definition signOut :: "web_env \<Rightarrow> 'a browser_scheme act" where
  "signOut W = Read (\<lambda>b. signOut_with W (ap_token b))"

definition deleteAccount_client :: "web_env \<Rightarrow> (exn + unit \<Rightarrow> 'a browser_scheme act) \<Rightarrow> 'a browser_scheme act" where
  "deleteAccount_client W k = Read (\<lambda>b.
     if \<not> present (ap_token b) then k (Inr ())
     else apiJson W ''/users/me'' ''DELETE'' [] NoBody (\<lambda>response. case response of
         Inl e \<Rightarrow> k (Inl e)
       | Inr r \<Rightarrow> if \<not> ar_ok r then k (Inl (JsError ''Delete account failed'')) else Upd (setToken None) (k (Inr ()))))"

section \<open>hooks/useFlags.ts\<close>

text \<open>A number of a body is an integer.\<close>

record client_flags =
  cf_onboardingVariant :: string
  cf_sessionDurationSeconds :: int
  cf_reportDialogEnabled :: bool

definition DEFAULT_FLAGS :: client_flags where
  "DEFAULT_FLAGS = \<lparr>cf_onboardingVariant = ''control'', cf_sessionDurationSeconds = 45, cf_reportDialogEnabled = True\<rparr>"

definition flags_of :: "api_result \<Rightarrow> client_flags" where
  "flags_of response =
    (case ar_data response of
       None \<Rightarrow> DEFAULT_FLAGS
     | Some data \<Rightarrow>
         if \<not> ar_ok response \<or> data = JNull then DEFAULT_FLAGS
         else \<lparr>cf_onboardingVariant = (case json_member ''onboardingVariant'' data of
                 Some (JStr s) \<Rightarrow> if length (trim s) > 0 then s else cf_onboardingVariant DEFAULT_FLAGS
               | _ \<Rightarrow> cf_onboardingVariant DEFAULT_FLAGS),
               cf_sessionDurationSeconds = (case json_member ''sessionDurationSeconds'' data of
                 Some (JNum n) \<Rightarrow> n | _ \<Rightarrow> cf_sessionDurationSeconds DEFAULT_FLAGS),
               cf_reportDialogEnabled = (case json_member ''reportDialogEnabled'' data of
                 Some (JBool x) \<Rightarrow> x | _ \<Rightarrow> cf_reportDialogEnabled DEFAULT_FLAGS)\<rparr>)"

definition queryFlags :: "web_env \<Rightarrow> (exn + client_flags \<Rightarrow> 'a browser_scheme act) \<Rightarrow> 'a browser_scheme act" where
  "queryFlags W k = apiJson W ''/config/flags'' ''GET'' [] NoBody (\<lambda>response. case response of
      Inl e \<Rightarrow> k (Inl e) | Inr r \<Rightarrow> k (Inr (flags_of r)))"

section \<open>Schedules\<close>

text \<open>
  An open page: the browser, the server and the requests on their way. \<open>net t q s\<close> is the answer of the server at the time \<open>t\<close>
  and its state afterwards.
\<close>

record ('b, 's) page =
  pg_browser :: 'b
  pg_server :: 's
  pg_inflight :: "'b waiting_call list"

type_synonym 's net = "int \<Rightarrow> http_request \<Rightarrow> 's \<Rightarrow> (exn + http_response) \<times> 's"

text \<open>An activity runs at the time \<open>t\<close>; when it has changed the token, the effects of the next render run.\<close>

definition perform :: "web_env \<Rightarrow> int \<Rightarrow> 'a browser_scheme act \<Rightarrow> ('a browser_scheme, 's) page \<Rightarrow> ('a browser_scheme, 's) page" where
  "perform W t a p =
    (let (ts, b) = settle a ((pg_browser p)\<lparr>br_clock := t\<rparr>);
         (us, b') = (if ap_token b = ap_token (pg_browser p) then ([], b) else settle (token_effects W) b)
     in p\<lparr>pg_browser := b', pg_inflight := pg_inflight p @ ts @ us\<rparr>)"

text \<open>The page is opened: the effects of the first render run.\<close>

definition mount :: "web_env \<Rightarrow> ('a browser_scheme, 's) page \<Rightarrow> ('a browser_scheme, 's) page" where
  "mount W p = (let (ts, b) = settle (token_effects W) ((pg_browser p)\<lparr>ap_token := br_token (pg_browser p), ap_loading := False\<rparr>)
     in p\<lparr>pg_browser := b, pg_inflight := pg_inflight p @ ts\<rparr>)"

definition take_cookie :: "exn + http_response \<Rightarrow> 'a browser_scheme \<Rightarrow> 'a browser_scheme" where
  "take_cookie r b = (case r of Inl _ \<Rightarrow> b | Inr x \<Rightarrow> (case hs_setCookie x of None \<Rightarrow> b | Some c \<Rightarrow> b\<lparr>br_cookie := c\<rparr>))"

definition answer :: "web_env \<Rightarrow> 's net \<Rightarrow> int \<Rightarrow> nat \<Rightarrow> ('a browser_scheme, 's) page \<Rightarrow> ('a browser_scheme, 's) page" where
  "answer W net t i p =
    (case pg_inflight p ! i of (q, k) \<Rightarrow>
       let (r, s) = net t q (pg_server p) in
       perform W t (k r) (p\<lparr>pg_server := s, pg_browser := take_cookie r (pg_browser p),
         pg_inflight := take i (pg_inflight p) @ drop (Suc i) (pg_inflight p)\<rparr>))"

text \<open>A schedule: when which of the requests on their way is answered.\<close>

fun schedule :: "web_env \<Rightarrow> 's net \<Rightarrow> (int \<times> nat) list \<Rightarrow> ('a browser_scheme, 's) page \<Rightarrow> ('a browser_scheme, 's) page" where
  "schedule W net [] p = p"
| "schedule W net ((t, i) # ts) p = (if i < length (pg_inflight p) then schedule W net ts (answer W net t i p) else schedule W net ts p)"

end
