(* ===== verification/Web_Laws.thy ===== *)
theory Web_Laws
  imports Web_Client
begin

text \<open>
  What the calls of \<open>Web_Client\<close> send and what they wait for, as facts about \<open>settle\<close> and \<open>answer\<close>; the proofs about schedules
  rest on them.
\<close>

section \<open>Calls\<close>

definition retried :: "web_env \<Rightarrow> string \<Rightarrow> fetch_options \<Rightarrow> (exn + http_response \<Rightarrow> 'a browser_scheme act) \<Rightarrow> http_response \<Rightarrow>
    exn + string option \<Rightarrow> 'a browser_scheme act" where
  "retried W path options k r next_token = (case next_token of
      Inl e \<Rightarrow> k (Inl e) | Inr t \<Rightarrow> if present t then apiFetch W path options False k else k (Inr r))"

definition fetched :: "web_env \<Rightarrow> string \<Rightarrow> fetch_options \<Rightarrow> bool \<Rightarrow> (exn + http_response \<Rightarrow> 'a browser_scheme act) \<Rightarrow>
    exn + http_response \<Rightarrow> 'a browser_scheme act" where
  "fetched W path options retry k response = (case response of
      Inl e \<Rightarrow> k (Inl e)
    | Inr r \<Rightarrow> if hs_status r = 401 \<and> retry then refreshAccessToken W (retried W path options k r) else k (Inr r))"

lemma settle_apiFetch:
  "settle (apiFetch W path options retry k) b =
    ([((api_request W path options (br_token b))\<lparr>hq_cookie := br_cookie b\<rparr>, fetched W path options retry k)], b)"
  unfolding apiFetch.simps [of W path options retry] fetched_def [abs_def] retried_def [abs_def] by simp

lemma settle_refresh:
  "settle (refreshAccessToken W k) b = ([((refresh_request W)\<lparr>hq_cookie := br_cookie b\<rparr>, refreshed k)], b)"
  by (simp add: refreshAccessToken_def)

lemma ap_token_simps [simp]: "ap_token (take_cookie r b) = ap_token b" "ap_token (setAccessToken t b) = ap_token b"
  "br_cookie (setAccessToken t b) = br_cookie b" "br_token (take_cookie r b) = br_token b"
  "ap_effect (take_cookie r b) = ap_effect b" "ap_effect (setAccessToken t b) = ap_effect b"
  by (simp_all add: take_cookie_def setAccessToken_def split: sum.split option.split)

lemma perform_quiet: "settle a ((pg_browser p)\<lparr>br_clock := t\<rparr>) = (ts, b) \<Longrightarrow> ap_token b = ap_token (pg_browser p) \<Longrightarrow>
    perform W t a p = p\<lparr>pg_browser := b, pg_inflight := pg_inflight p @ ts\<rparr>"
  by (simp add: perform_def)

lemma schedule_done [simp]: "pg_inflight p = [] \<Longrightarrow> schedule W net ts p = p"
  by (induction ts) (auto split: prod.split)

lemma settle_apiJson:
  "settle (apiJson W path meth hs body k) b =
    ([((api_request W path (api_options meth hs body) (br_token b))\<lparr>hq_cookie := br_cookie b\<rparr>,
       fetched W path (api_options meth hs body) True (api_parsed k))], b)"
  by (simp add: apiJson_def settle_apiFetch)

lemma push_effect_keeps:
  obtains us b' where "settle (push_effect W) b = (us, b')" and "ap_token b' = ap_token b" and "br_token b' = br_token b"
  by (cases "settle (push_effect W) b")
    (auto simp: push_effect_def getOrCreatePushToken_def send_def settle_apiJson Let_def next_uuid_def split: if_splits)

lemma settle_bootstrap:
  "settle (bootstrap_effect W) b = (if present (ap_token b) \<or> we_test W then ([], b\<lparr>ap_effect := Suc (ap_effect b)\<rparr>)
    else ([((refresh_request W)\<lparr>hq_cookie := br_cookie b\<rparr>, refreshed (\<lambda>answer. case answer of
         Inl e \<Rightarrow> Stop
       | Inr t \<Rightarrow> Read (\<lambda>b1. if ap_effect b1 = Suc (ap_effect b) \<and> present t then Upd (setToken t) Stop else Stop)))], b\<lparr>ap_effect := Suc (ap_effect b)\<rparr>))"
  by (simp add: bootstrap_effect_def settle_refresh)

section \<open>Schedules\<close>

lemma answer_head:
  assumes "pg_inflight p = (q, k) # rest" and "net t q (pg_server p) = (r, s)" and "settle (k r) ((take_cookie r (pg_browser p))\<lparr>br_clock := t\<rparr>) = (ts, b)"
    and "ap_token b = ap_token (pg_browser p)"
  shows "answer W net t 0 p = p\<lparr>pg_server := s, pg_browser := b, pg_inflight := rest @ ts\<rparr>"
  using assms by (simp add: answer_def perform_def)

lemma schedule_head: "pg_inflight p \<noteq> [] \<Longrightarrow> schedule W net ((t, 0) # ts) p = schedule W net ts (answer W net t 0 p)"
  by simp

lemma refresh_url: "hq_url (refresh_request W) = API_URL W @ ''/auth/refresh''"
  by (simp add: refresh_request_def)

lemma api_url: "hq_url (api_request W path options token) = API_URL W @ path"
  by (simp add: api_request_def)

lemma api_bearer: "present token \<Longrightarrow> (''authorization'', ''Bearer '' @ the token) \<in> set (hq_headers (api_request W path options token))"
proof -
  have l: "toLowerCase ''Authorization'' = ''authorization''" by code_simp
  show "present token \<Longrightarrow> ?thesis" by (simp add: api_request_def headers_set_def l)
qed


section \<open>An instance\<close>

text \<open>The environment of the witnesses.\<close>

definition plain_web :: web_env where
  "plain_web = \<lparr>we_dev = False, we_test = False, we_apiUrl = None, we_wsUrl = None, we_origin = Some ''https://verity'', we_appVersion = None,
     we_region = None, we_userAgent = ''browser'', we_randomUUID = show_nat\<rparr>"

end
