(* ===== verification/Web_Props.thy ===== *)
theory Web_Props
  imports Web_Laws Http_Props Auth_Props Guards_Props
begin

text \<open>
  The web client against the model of the backend: how many requests a call makes, and what the order of the answers does to the
  session of the user.
\<close>

section \<open>The server\<close>

fun status_of :: "exn \<Rightarrow> int" where
  "status_of (BadRequest _) = 400" | "status_of (Unauthorized _) = 401" | "status_of (Forbidden _) = 403"
| "status_of (NotFound _) = 404" | "status_of (Conflict _) = 409" | "status_of _ = 500"

definition error_response :: "exn \<Rightarrow> http_response" where
  "error_response e = \<lparr>hs_status = status_of e, hs_json = Some (JObj [(''statusCode'', JNum (status_of e))]), hs_setCookie = None\<rparr>"

text \<open>The route of the refresh is that of the backend; \<open>other\<close> answers the other requests.\<close>

definition verity_net :: "web_env \<Rightarrow> ('r, 'd) env \<Rightarrow> jwt \<Rightarrow> (http_request \<Rightarrow> ('r, 'd) world \<Rightarrow> (exn + http_response) \<times> ('r, 'd) world) \<Rightarrow>
    ('r, 'd) world net" where
  "verity_net W E J other t q w =
    (if hq_url q = API_URL W @ ''/auth/refresh''
     then (case run_state (refresh_route E J \<lparr>rq_userAgent = Some (we_userAgent W), rq_forwarded = NoHeader, rq_ip = None,
         rq_refreshToken = hq_cookie q\<rparr>) (w\<lparr>clock := t\<rparr>) of
         (Inl e, w') \<Rightarrow> (Inr (error_response e), w')
       | (Inr (access, cookie), w') \<Rightarrow> (Inr \<lparr>hs_status = 200, hs_json = Some (JObj [(''accessToken'', JStr access)]),
           hs_setCookie = Some (fst (snd cookie))\<rparr>, w'))
     else other q (w\<lparr>clock := t\<rparr>))"

text \<open>
  \<open>AuthGuard('jwt')\<close>: the token of the header, verified with the secret of the access tokens, and what the strategy makes of its
  payload. The guard reads the secret and the clock, and nothing of the database.
\<close>

definition jwt_guard :: "('r, 'd) env \<Rightarrow> jwt \<Rightarrow> int \<Rightarrow> http_request \<Rightarrow> auth" where
  "jwt_guard E J now q =
    (case jwtFromRequest (map_option JStr (map_of (hq_headers q) ''authorization'')) of
       None \<Rightarrow> Inl (Unauthorized ''Unauthorized'')
     | Some token \<Rightarrow> (case getAccessTokenSecret E of
           Inl e \<Rightarrow> Inl e
         | Inr secret \<Rightarrow> (case jw_verify J token secret now of
               Inl name \<Rightarrow> Inl (Unauthorized ''Unauthorized'')
             | Inr payload \<Rightarrow> validate (access_of payload))))"

text \<open>The route of the logout is that of the backend as well: it revokes the tokens of the user and clears the cookie.\<close>

definition logout_api :: "web_env \<Rightarrow> ('r, 'd) env \<Rightarrow> jwt \<Rightarrow> (http_request \<Rightarrow> ('r, 'd) world \<Rightarrow> (exn + http_response) \<times> ('r, 'd) world) \<Rightarrow>
    http_request \<Rightarrow> ('r, 'd) world \<Rightarrow> (exn + http_response) \<times> ('r, 'd) world" where
  "logout_api W E J other q w =
    (if hq_url q = API_URL W @ ''/auth/logout-all''
     then (case run_state (logoutAll_route E (jwt_guard E J (clock w) q)) w of
         (Inl e, w') \<Rightarrow> (Inr (error_response e), w')
       | (Inr cookie, w') \<Rightarrow> (Inr \<lparr>hs_status = 201, hs_json = Some (JObj [(''success'', JBool True)]), hs_setCookie = Some (fst (snd cookie))\<rparr>, w'))
     else other q w)"

section \<open>One call\<close>

text \<open>
  A call of \<open>apiFetch\<close> sends at most three requests, whatever the server answers: the request, a refresh after the first 401 and
  the request again; then its continuation has run and nothing is waiting.
\<close>

theorem call_sends_three_requests:
  fixes net :: "'s net" and p :: "('a browser_scheme, 's) page"
  assumes "pg_inflight p = []"
  shows "pg_inflight (schedule W net [(t1, 0), (t2, 0), (t3, 0)] (perform W t0 (apiFetch W path options True (\<lambda>_. Stop)) p)) = []"
proof -
  have stop: "settle (fetched W path options False (\<lambda>_. Stop) r) b = ([], b)" for r b
    by (simp add: fetched_def split: sum.split)
  have third: "pg_inflight (answer W net t 0 q) = []" if "pg_inflight q = [(x, fetched W path options False (\<lambda>_. Stop))]" for q :: "('a browser_scheme, 's) page" and t x
    using that by (simp add: answer_def perform_def stop split: prod.split)
  have second: "pg_inflight (answer W net t 0 q) = [] \<or>
      (\<exists>x. pg_inflight (answer W net t 0 q) = [(x, fetched W path options False (\<lambda>_. Stop))])"
    if "pg_inflight q = [(x, refreshed (retried W path options (\<lambda>_. Stop) r))]" for q :: "('a browser_scheme, 's) page" and t x r
    using that
    by (auto simp: answer_def perform_def refreshed_def retried_def settle_apiFetch split: prod.split sum.split option.split json.split)
  have first: "pg_inflight (answer W net t 0 q) = [] \<or>
      (\<exists>x r. pg_inflight (answer W net t 0 q) = [(x, refreshed (retried W path options (\<lambda>_. Stop) r))])"
    if "pg_inflight q = [(x, fetched W path options True (\<lambda>_. Stop))]" for q :: "('a browser_scheme, 's) page" and t x
    using that by (auto simp: answer_def perform_def fetched_def settle_refresh split: prod.split sum.split)
  have start: "\<exists>x. pg_inflight (perform W t0 (apiFetch W path options True (\<lambda>_. Stop)) p) = [(x, fetched W path options True (\<lambda>_. Stop))]"
    using assms by (simp add: perform_def settle_apiFetch)
  let ?p = "perform W t0 (apiFetch W path options True (\<lambda>_. Stop)) p"
  let ?q = "answer W net t1 0 ?p"
  let ?r = "answer W net t2 0 ?q"
  have p: "pg_inflight ?p \<noteq> []" using start by auto
  have q: "pg_inflight ?q = [] \<or> (\<exists>x r. pg_inflight ?q = [(x, refreshed (retried W path options (\<lambda>_. Stop) r))])" using start first by blast
  show ?thesis
  proof (cases "pg_inflight ?q = []")
    case True
    then show ?thesis using p by simp
  next
    case False
    then have r: "pg_inflight ?r = [] \<or> (\<exists>x. pg_inflight ?r = [(x, fetched W path options False (\<lambda>_. Stop))])" using q second by blast
    then show ?thesis using p False third [of ?r] by (cases "pg_inflight ?r = []") auto
  qed
qed

section \<open>Two calls at once\<close>

lemma unauthorized_401: "hs_status (error_response (Unauthorized m)) = 401" "hs_setCookie (error_response (Unauthorized m)) = None"
  "\<not> response_ok (error_response (Unauthorized m))"
  by (simp_all add: error_response_def response_ok_def)

definition refresh_call :: "web_env \<Rightarrow> string option \<Rightarrow> request" where
  "refresh_call W cookie = \<lparr>rq_userAgent = Some (we_userAgent W), rq_forwarded = NoHeader, rq_ip = None, rq_refreshToken = cookie\<rparr>"

lemma refresh_call_simps [simp]: "rq_userAgent (refresh_call W c) = Some (we_userAgent W)" "getIpAddress (refresh_call W c) = None"
  "rq_refreshToken (refresh_call W c) = c"
  by (simp_all add: refresh_call_def getIpAddress_def)

text \<open>What the server answers to a refresh.\<close>

lemma net_refresh_ok:
  assumes "hq_url q = API_URL W @ ''/auth/refresh''" and "hq_cookie q = Some token" and "token \<noteq> []"
    and "run_state (refreshSession E J token (Some (we_userAgent W)) None) (w\<lparr>clock := t\<rparr>) = (Inr tk, w1)"
  shows "verity_net W E J other t q w = (Inr \<lparr>hs_status = 200, hs_json = Some (JObj [(''accessToken'', JStr (tk_accessToken tk))]),
    hs_setCookie = Some (Some (tk_refreshToken tk))\<rparr>, w1)"
  using assms by (simp add: verity_net_def refresh_route_def setRefreshCookie_def run flip: refresh_call_def)

lemma net_refresh_refused:
  assumes "hq_url q = API_URL W @ ''/auth/refresh''" and "hq_cookie q = Some token" and "token \<noteq> []"
    and "run_state (refreshSession E J token (Some (we_userAgent W)) None) (w\<lparr>clock := t\<rparr>) = (Inl e, w1)"
  shows "verity_net W E J other t q w = (Inr (error_response e), w1)"
  using assms by (simp add: verity_net_def refresh_route_def run flip: refresh_call_def)

text \<open>
  C29: two calls at once lose the session. When the access token has expired, both are answered with 401, and both refresh with the same cookie;
  the first refresh gives the browser new tokens, but the second presents a token that has been used, which the server takes for theft: it
  revokes the whole family, so that the cookie the browser holds now will be refused at any later time.
\<close>

theorem two_calls_lose_session:
  assumes "backend E zv sv other view" and "jwt_service J" and "families_wf E (uuids (pg_server p)) (view (db (pg_server p)))"
    and idle: "pg_inflight p = []" and old: "br_token (pg_browser p) = Some old" "old \<noteq> []" and cookie: "br_cookie (pg_browser p) = Some token" "token \<noteq> []"
    and expired: "\<forall>q v. (''authorization'', ''Bearer '' @ old) \<in> set (hq_headers q) \<longrightarrow> api q v = (Inr (error_response (Unauthorized ''Unauthorized'')), v)"
    and paths: "path1 \<noteq> ''/auth/refresh''" "path2 \<noteq> ''/auth/refresh''"
    and first: "run_state (refreshSession E J token (Some (we_userAgent W)) None) ((pg_server p)\<lparr>clock := t3\<rparr>) = (Inr tk, w1)"
    and valid: "\<forall>secret. getRefreshTokenSecret E = Inr secret \<longrightarrow> jw_verify J token secret t4 = jw_verify J token secret t3"
    and later: "t5 div 1000 < t3 div 1000 + REFRESH_TOKEN_TTL_DAYS * 86400"
    and new: "tk_refreshToken tk \<noteq> []" "tk_accessToken tk \<noteq> []"
  shows "let q = schedule W (verity_net W E J api) [(t1, 0), (t2, 0), (t3, 0), (t4, 0)]
      (perform W t0 (Spawn (apiFetch W path1 o1 True (\<lambda>_. Stop)) (apiFetch W path2 o2 True (\<lambda>_. Stop))) p)
    in br_cookie (pg_browser q) = Some (tk_refreshToken tk) \<and>
       fst (verity_net W E J api t5 ((refresh_request W)\<lparr>hq_cookie := br_cookie (pg_browser q)\<rparr>) (pg_server q)) =
         Inr (error_response (Unauthorized ''Refresh token reused''))"
proof -
  let ?net = "verity_net W E J api"
  let ?b = "pg_browser p" and ?w = "pg_server p"
  let ?k = "\<lambda>_. Stop"
  define q1 where "q1 = (api_request W path1 o1 (Some old))\<lparr>hq_cookie := Some token\<rparr>"
  define q2 where "q2 = (api_request W path2 o2 (Some old))\<lparr>hq_cookie := Some token\<rparr>"
  define qr where "qr = (refresh_request W)\<lparr>hq_cookie := Some token\<rparr>"
  let ?e = "error_response (Unauthorized ''Unauthorized'')"
  have api: "?net t q1 v = (Inr ?e, v\<lparr>clock := t\<rparr>)" "?net t q2 v = (Inr ?e, v\<lparr>clock := t\<rparr>)" for t v
    using paths old(2) api_bearer [of "Some old"] by (simp_all add: verity_net_def q1_def q2_def api_url expired [rule_format] present_def)
  let ?p1 = "p\<lparr>pg_browser := ?b\<lparr>br_clock := t0\<rparr>, pg_inflight := [(q1, fetched W path1 o1 True ?k), (q2, fetched W path2 o2 True ?k)]\<rparr>"
  have p1: "perform W t0 (Spawn (apiFetch W path1 o1 True ?k) (apiFetch W path2 o2 True ?k)) p = ?p1"
    by (simp add: perform_def settle_apiFetch idle old cookie q1_def q2_def)
  have f: "settle (fetched W path opts True ?k (Inr ?e)) (?b\<lparr>br_clock := t\<rparr>) = ([(qr, refreshed (retried W path opts ?k ?e))], ?b\<lparr>br_clock := t\<rparr>)" for path opts t
    by (simp add: fetched_def settle_refresh unauthorized_401 qr_def cookie)
  have tc: "take_cookie (Inr ?e) b = b" for b by (simp add: take_cookie_def unauthorized_401)
  let ?p2 = "p\<lparr>pg_server := ?w\<lparr>clock := t1\<rparr>, pg_browser := ?b\<lparr>br_clock := t1\<rparr>, pg_inflight := [(q2, fetched W path2 o2 True ?k), (qr, refreshed (retried W path1 o1 ?k ?e))]\<rparr>"
  have p2: "answer W ?net t1 0 ?p1 = ?p2"
    using answer_head [of ?p1 q1 "fetched W path1 o1 True ?k" "[(q2, fetched W path2 o2 True ?k)]" ?net t1 "Inr ?e" "?w\<lparr>clock := t1\<rparr>"
        "[(qr, refreshed (retried W path1 o1 ?k ?e))]" "?b\<lparr>br_clock := t1\<rparr>" W] by (simp add: api f tc)
  let ?p3 = "p\<lparr>pg_server := ?w\<lparr>clock := t2\<rparr>, pg_browser := ?b\<lparr>br_clock := t2\<rparr>, pg_inflight := [(qr, refreshed (retried W path1 o1 ?k ?e)), (qr, refreshed (retried W path2 o2 ?k ?e))]\<rparr>"
  have p3: "answer W ?net t2 0 ?p2 = ?p3"
    using answer_head [of ?p2 q2 "fetched W path2 o2 True ?k" "[(qr, refreshed (retried W path1 o1 ?k ?e))]" ?net t2 "Inr ?e" "?w\<lparr>clock := t2\<rparr>"
        "[(qr, refreshed (retried W path2 o2 ?k ?e))]" "?b\<lparr>br_clock := t2\<rparr>" W] by (simp add: api f tc)
  let ?a = "\<lparr>hs_status = 200, hs_json = Some (JObj [(''accessToken'', JStr (tk_accessToken tk))]), hs_setCookie = Some (Some (tk_refreshToken tk))\<rparr>"
  have url: "hq_url qr = API_URL W @ ''/auth/refresh''" "hq_cookie qr = Some token" by (simp_all add: qr_def refresh_url)
  have ok3: "?net t3 qr (?w\<lparr>clock := t2\<rparr>) = (Inr ?a, w1)" using first by (intro net_refresh_ok [OF url cookie(2)]) simp
  define b4 where "b4 = setAccessToken (Some (tk_accessToken tk)) (?b\<lparr>br_cookie := Some (tk_refreshToken tk), br_clock := t3\<rparr>)"
  define q4 where "q4 = (api_request W path1 o1 (Some (tk_accessToken tk)))\<lparr>hq_cookie := Some (tk_refreshToken tk)\<rparr>"
  have g: "settle (refreshed (retried W path1 o1 ?k ?e) (Inr ?a)) ((take_cookie (Inr ?a) (?b\<lparr>br_clock := t2\<rparr>))\<lparr>br_clock := t3\<rparr>) = ([(q4, fetched W path1 o1 False ?k)], b4)"
    using new(2) by (simp add: refreshed_def retried_def response_ok_def accessTokenOf_def json_member_def settle_apiFetch take_cookie_def
        present_def b4_def q4_def setAccessToken_def)
  let ?p4 = "p\<lparr>pg_server := w1, pg_browser := b4, pg_inflight := [(qr, refreshed (retried W path2 o2 ?k ?e)), (q4, fetched W path1 o1 False ?k)]\<rparr>"
  have p4: "answer W ?net t3 0 ?p3 = ?p4"
    using answer_head [of ?p3 qr "refreshed (retried W path1 o1 ?k ?e)" "[(qr, refreshed (retried W path2 o2 ?k ?e))]" ?net t3 "Inr ?a" w1
        "[(q4, fetched W path1 o1 False ?k)]" b4 W] g by (simp add: ok3 b4_def)
  obtain w2 where w2: "run_state (refreshSession E J token (Some (we_userAgent W)) None) (w1\<lparr>clock := t4\<rparr>) = (Inl (Unauthorized ''Refresh token reused''), w2)"
    "fst (run_state (refreshSession E J (tk_refreshToken tk) (Some (we_userAgent W)) None) (w2\<lparr>clock := t5\<rparr>)) = Inl (Unauthorized ''Refresh token reused'')"
    using backend.reuse_run [OF assms(1,2) _ first, of t4 "Some (we_userAgent W)" None] assms(3) valid later by auto
  let ?f = "error_response (Unauthorized ''Refresh token reused'')"
  have ok4: "?net t4 qr w1 = (Inr ?f, w2)" by (rule net_refresh_refused [OF url cookie(2) w2(1)])
  have h: "settle (refreshed (retried W path2 o2 ?k ?e) (Inr ?f)) ((take_cookie (Inr ?f) b4)\<lparr>br_clock := t4\<rparr>) = ([], b4\<lparr>br_clock := t4\<rparr>)"
    by (simp add: refreshed_def unauthorized_401 retried_def present_def take_cookie_def)
  let ?p5 = "p\<lparr>pg_server := w2, pg_browser := b4\<lparr>br_clock := t4\<rparr>, pg_inflight := [(q4, fetched W path1 o1 False ?k)]\<rparr>"
  have p5: "answer W ?net t4 0 ?p4 = ?p5"
    using answer_head [of ?p4 qr "refreshed (retried W path2 o2 ?k ?e)" "[(q4, fetched W path1 o1 False ?k)]" ?net t4 "Inr ?f" w2 "[]" "b4\<lparr>br_clock := t4\<rparr>" W] h by (simp add: ok4)
  have s: "schedule W ?net [(t1, 0), (t2, 0), (t3, 0), (t4, 0)] ?p1 = ?p5"
    by (simp add: p2 p3 p4 p5)
  obtain w3 where w3: "run_state (refreshSession E J (tk_refreshToken tk) (Some (we_userAgent W)) None) (w2\<lparr>clock := t5\<rparr>) =
      (Inl (Unauthorized ''Refresh token reused''), w3)" using w2(2) by (metis prod.collapse)
  have c: "br_cookie b4 = Some (tk_refreshToken tk)" by (simp add: b4_def)
  have "?net t5 ((refresh_request W)\<lparr>hq_cookie := Some (tk_refreshToken tk)\<rparr>) w2 = (Inr ?f, w3)"
    by (rule net_refresh_refused [OF _ _ new(1) w3]) (simp_all add: refresh_url)
  then show ?thesis unfolding Let_def p1 s by (simp add: c)
qed

section \<open>Signing out\<close>

lemma revoked_rows:
  assumes "row \<in> set (update_rows (\<lambda>t. rt_userId t = u \<and> rt_revokedAt t = None) (\<lambda>t. t\<lparr>rt_revokedAt := Some x, rt_lastUsedAt := Some y\<rparr>) ts)"
    and "rt_userId row = u"
  shows "rt_revokedAt row \<noteq> None"
proof -
  obtain t where "row = (if rt_userId t = u \<and> rt_revokedAt t = None then t\<lparr>rt_revokedAt := Some x, rt_lastUsedAt := Some y\<rparr> else t)"
    using assms(1) unfolding update_rows_def set_map by (rule imageE)
  then show ?thesis using assms(2) by (cases "rt_userId t = u \<and> rt_revokedAt t = None") simp_all
qed

context backend
begin

lemma logoutAll_run:
  obtains d where "run_state (logoutAll E u) w = ((), w\<lparr>db := d\<rparr>)"
    and "\<forall>row \<in> set (tb_refreshTokens (view d)). rt_userId row = u \<longrightarrow> rt_revokedAt row \<noteq> None"
proof -
  obtain d where d: "run_state (revokeTokens E (\<lambda>t. rt_userId t = u) (clock w)) w =
      (count_rows (\<lambda>t. rt_userId t = u \<and> rt_revokedAt t = None) (tb_refreshTokens (view (db w))), w\<lparr>db := d\<rparr>)"
    "view d = tb_refreshTokens_update (update_rows (\<lambda>t. rt_userId t = u \<and> rt_revokedAt t = None)
      (\<lambda>t. t\<lparr>rt_revokedAt := Some (clock w), rt_lastUsedAt := Some (clock w)\<rparr>)) (view (db w))"
    using revokeTokens_run [of "\<lambda>t. rt_userId t = u" "clock w" w] by (elim exE conjE) (rule that)
  have "run_state (logoutAll E u) w = ((), w\<lparr>db := d\<rparr>)" by (simp add: logoutAll_def run d(1))
  moreover have "\<forall>row \<in> set (tb_refreshTokens (view d)). rt_userId row = u \<longrightarrow> rt_revokedAt row \<noteq> None"
    by (intro ballI impI) (rule revoked_rows, simp_all add: d(2))
  ultimately show ?thesis by (rule that)
qed

text \<open>A logout with a valid access token succeeds: it revokes every refresh token of the user and clears the cookie.\<close>

lemma logout_answer:
  assumes "hq_url q = API_URL W @ ''/auth/logout-all''" and "map_of (hq_headers q) ''authorization'' = Some (''Bearer '' @ old)"
    and "getAccessTokenSecret E = Inr secret" and "jw_verify J old secret (clock w) = Inr payload"
    and "pl_sub payload = Some u" and "u \<noteq> []" and "pl_typ payload = Some ''access''"
  obtains r d where "logout_api W E J api q w = (Inr r, w\<lparr>db := d\<rparr>)" and "hs_status r \<noteq> 401" and "hs_setCookie r = Some None"
    and "\<forall>row \<in> set (tb_refreshTokens (view d)). rt_userId row = u \<longrightarrow> rt_revokedAt row \<noteq> None"
proof -
  have "jwt_guard E J (clock w) q = Inr \<lparr>ru_sub = Some u, ru_id = None, ru_userId = None, ru_role = Some ''USER''\<rparr>"
    using assms(2-7) by (simp add: jwt_guard_def jwtFromRequest_def startsWith_def validate_def access_of_def)
  moreover obtain d where d: "run_state (logoutAll E u) w = ((), w\<lparr>db := d\<rparr>)"
    "\<forall>row \<in> set (tb_refreshTokens (view d)). rt_userId row = u \<longrightarrow> rt_revokedAt row \<noteq> None" by (rule logoutAll_run)
  ultimately have "logout_api W E J api q w = (Inr \<lparr>hs_status = 201, hs_json = Some (JObj [(''success'', JBool True)]), hs_setCookie = Some None\<rparr>, w\<lparr>db := d\<rparr>)"
    using assms(1,6)
    by (simp add: logout_api_def logoutAll_route_def as_user_def authenticated_def getRequestUserId_def clearRefreshCookie_def run)
  then show ?thesis by (rule that [OF _ _ _ d(2)]) simp_all
qed

end

text \<open>
  C30: signing out can be undone by the page itself. Without a token the effect of \<open>AuthProvider\<close> asks for one at once; when the server
  handles this refresh before the logout that was sent first, the page holds a new access token of the user, in memory and in its storage,
  although the logout then succeeds: it revokes every refresh token of the user and clears the cookie, but the guard of the routes asks
  neither. The page looks signed in until the access token expires.
\<close>

theorem sign_out_undone:
  fixes p :: "('a browser_scheme, ('r, 'd) world) page"
  assumes "backend E zv sv other view"
    and idle: "pg_inflight p = []" and old: "br_token (pg_browser p) = Some old" "ap_token (pg_browser p) = Some old" "old \<noteq> []"
    and push: "br_pushToken (pg_browser p) = None" and mode: "\<not> we_test W" and cookie: "br_cookie (pg_browser p) = Some token" "token \<noteq> []"
    and valid: "getAccessTokenSecret E = Inr secret" "jw_verify J old secret t2 = Inr payload"
      "pl_sub payload = Some u" "u \<noteq> []" "pl_typ payload = Some ''access''"
    and first: "run_state (refreshSession E J token (Some (we_userAgent W)) None) ((pg_server p)\<lparr>clock := t1\<rparr>) = (Inr tk, w1)"
    and new: "tk_accessToken tk \<noteq> []"
  shows "let q = schedule W (verity_net W E J (logout_api W E J api)) [(t1, 1), (t2, 0)] (perform W t0 (signOut W) p)
    in ap_token (pg_browser q) = Some (tk_accessToken tk) \<and> br_token (pg_browser q) = Some (tk_accessToken tk) \<and>
       br_cookie (pg_browser q) = None \<and>
       (\<forall>row \<in> set (tb_refreshTokens (view (db (pg_server q)))). rt_userId row = u \<longrightarrow> rt_revokedAt row \<noteq> None)"
proof -
  let ?net = "verity_net W E J (logout_api W E J api)"
  let ?b = "pg_browser p"
  let ?o = "api_options ''POST'' [] NoBody"
  let ?k = "api_parsed (\<lambda>_. Stop) :: exn + http_response \<Rightarrow> 'a browser_scheme act"
  define ql where "ql = (api_request W ''/auth/logout-all'' ?o (Some old))\<lparr>hq_cookie := Some token\<rparr>"
  define qr where "qr = (refresh_request W)\<lparr>hq_cookie := Some token\<rparr>"
  define eff :: "exn + string option \<Rightarrow> 'a browser_scheme act" where "eff = (\<lambda>answer. case answer of
         Inl (e :: exn) \<Rightarrow> Stop
       | Inr t \<Rightarrow> Read (\<lambda>b1. if ap_effect b1 = Suc (ap_effect ?b) \<and> present t then Upd (setToken t) Stop else Stop))"
  define b1 where "b1 = ?b\<lparr>br_token := None, br_clock := t0, ap_token := None, ap_effect := Suc (ap_effect ?b)\<rparr>"
  let ?p1 = "p\<lparr>pg_browser := b1, pg_inflight := [(ql, fetched W ''/auth/logout-all'' ?o True ?k), (qr, refreshed eff)]\<rparr>"
  have p1: "perform W t0 (signOut W) p = ?p1"
    using old cookie push mode idle
    by (simp add: perform_def signOut_def signOut_with_def send_def settle_apiJson token_effects_def settle_bootstrap push_effect_def Let_def present_def
        setToken_def setAccessToken_def ql_def qr_def eff_def b1_def)
  let ?acc = "tk_accessToken tk"
  let ?a = "\<lparr>hs_status = 200, hs_json = Some (JObj [(''accessToken'', JStr ?acc)]), hs_setCookie = Some (Some (tk_refreshToken tk))\<rparr>"
  have ok: "?net t1 qr (pg_server p) = (Inr ?a, w1)"
    by (rule net_refresh_ok [OF _ _ cookie(2) first]) (simp_all add: qr_def refresh_url)
  define b2 where "b2 = setToken (Some ?acc) (setAccessToken (Some ?acc) (b1\<lparr>br_cookie := Some (tk_refreshToken tk), br_clock := t1\<rparr>))"
  have s2: "settle (refreshed eff (Inr ?a)) (b1\<lparr>br_cookie := Some (tk_refreshToken tk), br_clock := t1\<rparr>) = ([], b2)"
    using new by (simp add: refreshed_def response_ok_def accessTokenOf_def json_member_def eff_def b2_def b1_def present_def setAccessToken_def)
  obtain us b4 where e0: "settle (push_effect W) (b2\<lparr>ap_effect := Suc (ap_effect b2)\<rparr>) = (us, b4)"
    "ap_token b4 = ap_token (b2\<lparr>ap_effect := Suc (ap_effect b2)\<rparr>)" "br_token b4 = br_token (b2\<lparr>ap_effect := Suc (ap_effect b2)\<rparr>)"
    by (rule push_effect_keeps)
  then have e: "settle (push_effect W) (b2\<lparr>ap_effect := Suc (ap_effect b2)\<rparr>) = (us, b4)" "ap_token b4 = Some ?acc" "br_token b4 = Some ?acc"
    using new by (simp_all add: b2_def setToken_def setAccessToken_def present_def)
  have s3: "settle (token_effects W) b2 = (us, b4)"
    using e new by (simp add: token_effects_def settle_bootstrap b2_def setToken_def setAccessToken_def present_def)
  let ?p2 = "p\<lparr>pg_server := w1, pg_browser := b4, pg_inflight := (ql, fetched W ''/auth/logout-all'' ?o True ?k) # us\<rparr>"
  have d: "ap_token b2 = Some ?acc" "ap_token b1 = None" by (simp_all add: b2_def setToken_def b1_def)
  have p2: "answer W ?net t1 1 ?p1 = ?p2"
    by (simp add: answer_def ok perform_def take_cookie_def s2 s3 d)
  have lower: "toLowerCase ''Authorization'' = ''authorization''" by code_simp
  have "map_of (hq_headers ql) ''authorization'' = Some (''Bearer '' @ old)" "hq_url ql = API_URL W @ ''/auth/logout-all''"
    using old by (simp_all add: ql_def api_request_def headers_set_def api_options_def present_def lower api_url)
  then obtain r d where l: "logout_api W E J api ql (w1\<lparr>clock := t2\<rparr>) = (Inr r, w1\<lparr>clock := t2, db := d\<rparr>)" "hs_status r \<noteq> 401" "hs_setCookie r = Some None"
      "\<forall>row \<in> set (tb_refreshTokens (view d)). rt_userId row = u \<longrightarrow> rt_revokedAt row \<noteq> None"
    using backend.logout_answer [OF assms(1) _ _ valid(1) _ valid(3-5), of ql W old J "w1\<lparr>clock := t2\<rparr>" api] valid(2) by auto
  let ?v = "w1\<lparr>clock := t2, db := d\<rparr>"
  have n: "?net t2 ql w1 = (Inr r, ?v)" using l(1) by (simp add: verity_net_def ql_def api_url)
  let ?b5 = "b4\<lparr>br_cookie := None, br_clock := t2\<rparr>"
  have s4: "settle (fetched W ''/auth/logout-all'' ?o True ?k (Inr r)) ((take_cookie (Inr r) b4)\<lparr>br_clock := t2\<rparr>) = ([], ?b5)"
    using l by (simp add: fetched_def take_cookie_def api_parsed_def)
  have p3: "answer W ?net t2 0 ?p2 = ?p2\<lparr>pg_server := ?v, pg_browser := ?b5, pg_inflight := us\<rparr>"
    using answer_head [of ?p2 ql "fetched W ''/auth/logout-all'' ?o True ?k" us ?net t2 "Inr r" ?v "[]" ?b5 W] s4 by (simp add: n)
  have "schedule W ?net [(t1, 1), (t2, 0)] ?p1 = ?p2\<lparr>pg_server := ?v, pg_browser := ?b5, pg_inflight := us\<rparr>"
    using p2 p3 by simp
  then show ?thesis unfolding Let_def p1 using l(4) by (simp add: e)
qed

section \<open>Witnesses\<close>

lemma plain_sign_nonempty [simp]: "jw_sign plain_jwt claims ttl secret jti t \<noteq> []"
  by (simp add: plain_jwt_def)

lemma refresh_once:
  obtains tk w1 where "run_state (refreshSession auth_env plain_jwt old_token ua ip) (token_world\<lparr>clock := noon\<rparr>) = (Inr tk, w1)"
    and "tk_accessToken tk \<noteq> []" and "tk_refreshToken tk \<noteq> []"
proof -
  have f: "dg_findFirst (pr_refreshToken list_prisma) (db token_world) (\<lambda>t. rt_id t = ''t'') =
      Some (new_refresh auth_env ''t'' ''a'' ''u0'' old_token None None noon)"
    by (simp add: token_world_simps list_prisma_simps list_delegate_def)
  have v: "run_state (verifyRefreshToken auth_env plain_jwt old_token) token_world = (Inr (issued ''a'' ''u0'' ''t''), token_world)"
    using old_token_verifies [of noon] auth_secret
    by (simp add: backend.verify_run [OF auth_backend] token_world_simps REFRESH_TOKEN_TTL_DAYS_def valid_payload_def issued_def)
  have r: "\<exists>tk w1. run_state (rotate auth_env plain_jwt ''a'' ''u0'' (new_refresh auth_env ''t'' ''a'' ''u0'' old_token None None noon) ua ip) token_world =
      (Inr tk, w1) \<and> tk_accessToken tk \<noteq> [] \<and> tk_refreshToken tk \<noteq> []"
    using new_token_hash [symmetric]
    by (simp add: rotate_def run backend.createRefreshToken_run [OF auth_backend] auth_secret token_world_simps list_prisma_simps list_delegate_def
        insertRefresh_def createAccessToken_def getUserRole_def uq_refresh_def refresh_claims_def Let_def show_small user_with_def)
  have e: "\<not> refreshExpiry noon \<le> noon" by (simp add: refreshExpiry_def REFRESH_TOKEN_TTL_DAYS_def)
  have "\<exists>tk w1. run_state (refreshSession auth_env plain_jwt old_token ua ip) token_world = (Inr tk, w1) \<and> tk_accessToken tk \<noteq> [] \<and> tk_refreshToken tk \<noteq> []"
    using r by (elim exE) (simp add: refreshSession_def run v Let_def issued_def token_world_simps f e del: list_prisma_simps)
  moreover have "token_world\<lparr>clock := noon\<rparr> = token_world" by (simp add: token_world_simps(1) [symmetric])
  ultimately show ?thesis using that by auto
qed

text \<open>A page whose access token \<open>x\<close> has expired, and the routes behind a guard that refuses it.\<close>

definition some_page :: "(browser, (inmem, tables) world) page" where
  "some_page = \<lparr>pg_browser = \<lparr>br_token = Some ''x'', br_adminKey = None, br_pushToken = None, br_cookie = Some old_token, br_path = ''/'',
     br_state = None, br_clock = noon, br_uuids = 0, ap_token = Some ''x'',
     ap_loading = False, ap_effect = 1\<rparr>, pg_server = token_world, pg_inflight = []\<rparr>"

lemma some_page_simps: "pg_inflight some_page = []" "br_token (pg_browser some_page) = Some ''x''" "br_cookie (pg_browser some_page) = Some old_token"
  "ap_token (pg_browser some_page) = Some ''x''" "br_pushToken (pg_browser some_page) = None" "\<not> we_test plain_web"
  by (simp_all add: some_page_def plain_web_def)

definition guarded_api :: "http_request \<Rightarrow> (inmem, tables) world \<Rightarrow> (exn + http_response) \<times> (inmem, tables) world" where
  "guarded_api q v =
    (let auth = (if (''authorization'', ''Bearer x'') \<in> set (hq_headers q) then Inl (Unauthorized ''Unauthorized'')
       else Inr \<lparr>ru_sub = Some ''a'', ru_id = None, ru_userId = None, ru_role = Some ''USER''\<rparr>)
     in case run_state (serve auth_env (\<lambda>_. Inl PrismaP2002) (\<lambda>_. Inl PrismaP2002) auth None Get_matches) v of
          (Inl e, v') \<Rightarrow> (Inr (error_response e), v')
        | (Inr _, v') \<Rightarrow> (Inr \<lparr>hs_status = 200, hs_json = None, hs_setCookie = None\<rparr>, v'))"

lemma call_sends_three_requests_witness:
  "pg_inflight (schedule plain_web (verity_net plain_web auth_env plain_jwt guarded_api) [(noon, 0), (noon, 0), (noon, 0)]
     (perform plain_web noon (apiFetch plain_web ''/matches'' \<lparr>fo_method = ''GET'', fo_headers = [], fo_body = None\<rparr> True (\<lambda>_. Stop)) some_page)) = []"
  by (rule call_sends_three_requests) (simp add: some_page_def)

lemma two_calls_lose_session_witness:
  "let q = schedule plain_web (verity_net plain_web auth_env plain_jwt guarded_api) [(noon, 0), (noon, 0), (noon, 0), (noon + 1, 0)]
      (perform plain_web noon (Spawn (apiFetch plain_web ''/matches'' \<lparr>fo_method = ''GET'', fo_headers = [], fo_body = None\<rparr> True (\<lambda>_. Stop))
         (apiFetch plain_web ''/tokens/balance'' \<lparr>fo_method = ''GET'', fo_headers = [], fo_body = None\<rparr> True (\<lambda>_. Stop))) some_page)
   in fst (verity_net plain_web auth_env plain_jwt guarded_api (noon + 2) ((refresh_request plain_web)\<lparr>hq_cookie := br_cookie (pg_browser q)\<rparr>) (pg_server q)) =
        Inr (error_response (Unauthorized ''Refresh token reused''))"
proof -
  obtain tk w1 where r: "run_state (refreshSession auth_env plain_jwt old_token (Some (we_userAgent plain_web)) None) (token_world\<lparr>clock := noon\<rparr>) = (Inr tk, w1)"
    "tk_accessToken tk \<noteq> []" "tk_refreshToken tk \<noteq> []" by (rule refresh_once)
  have s: "pg_server some_page = token_world" and x: "''x'' \<noteq> []" by (simp_all add: some_page_def)
  have g: "families_wf auth_env (uuids (pg_server some_page)) (db (pg_server some_page))"
    by (simp add: s families_wf_def token_world_simps live_def count_rows_def show_small)
  have v: "\<forall>secret. getRefreshTokenSecret auth_env = Inr secret \<longrightarrow> jw_verify plain_jwt old_token secret (noon + 1) = jw_verify plain_jwt old_token secret noon"
    using old_token_verifies [of noon] old_token_verifies [of "noon + 1"] by (simp add: auth_secret noon_def REFRESH_TOKEN_TTL_DAYS_def)
  have e: "\<forall>q v. (''authorization'', ''Bearer '' @ ''x'') \<in> set (hq_headers q) \<longrightarrow> guarded_api q v = (Inr (error_response (Unauthorized ''Unauthorized'')), v)"
    by (simp add: guarded_api_def serve_refused del: serve.simps)
  have l: "(noon + 2) div 1000 < noon div 1000 + REFRESH_TOKEN_TTL_DAYS * 86400" by (simp add: noon_def REFRESH_TOKEN_TTL_DAYS_def)
  have t: "old_token \<noteq> []" by (simp add: old_token_def)
  have m: "''/matches'' \<noteq> ''/auth/refresh''" "''/tokens/balance'' \<noteq> ''/auth/refresh''" by simp_all
  from two_calls_lose_session [where W = plain_web and ?path1.0 = "''/matches''" and ?path2.0 = "''/tokens/balance''" and ?t1.0 = noon and ?t2.0 = noon
      and ?o1.0 = "\<lparr>fo_method = ''GET'', fo_headers = [], fo_body = None\<rparr>" and ?o2.0 = "\<lparr>fo_method = ''GET'', fo_headers = [], fo_body = None\<rparr>",
      OF auth_backend plain.jwt_service_axioms g some_page_simps(1,2) x some_page_simps(3) t e m r(1) [folded s] v l r(3,2), unfolded Let_def]
  show ?thesis unfolding Let_def by (rule conjunct2)
qed

text \<open>A page whose access token the server has issued.\<close>

definition access_token :: string where
  "access_token = jw_sign plain_jwt [(''sub'', JStr ''a''), (''typ'', JStr ''access''), (''role'', JStr ''USER'')] ACCESS_TOKEN_TTL ''s'' None noon"

definition signed_page :: "(browser, (inmem, tables) world) page" where
  "signed_page = some_page\<lparr>pg_browser := (pg_browser some_page)\<lparr>br_token := Some access_token, ap_token := Some access_token\<rparr>\<rparr>"

lemma access_token_verifies:
  "jw_verify plain_jwt access_token ''s'' noon = Inr \<lparr>pl_sub = Some ''a'', pl_fid = None, pl_typ = Some ''access'', pl_jti = None\<rparr>"
proof -
  have d: "0 < digits_value ''15''" by code_simp
  show ?thesis
    by (simp add: access_token_def plain_jwt_def json_get_str_def json_opt_def ttl_seconds_def ACCESS_TOKEN_TTL_def d del: json_stringify.simps)
qed

lemma sign_out_undone_witness:
  "let q = schedule plain_web (verity_net plain_web auth_env plain_jwt (logout_api plain_web auth_env plain_jwt guarded_api))
      [(noon, 1), (noon, 0)] (perform plain_web noon (signOut plain_web) signed_page)
   in ap_token (pg_browser q) \<noteq> None \<and> br_cookie (pg_browser q) = None \<and>
      list_all (\<lambda>row. rt_userId row \<noteq> ''a'' \<or> rt_revokedAt row \<noteq> None) (tb_refreshTokens (db (pg_server q)))"
proof -
  obtain tk w1 where r: "run_state (refreshSession auth_env plain_jwt old_token (Some (we_userAgent plain_web)) None) (token_world\<lparr>clock := noon\<rparr>) = (Inr tk, w1)"
    "tk_accessToken tk \<noteq> []" by (rule refresh_once)
  have t: "old_token \<noteq> []" "access_token \<noteq> []" by (simp_all add: old_token_def access_token_def)
  have s: "pg_server signed_page = token_world" "pg_inflight signed_page = []" "br_token (pg_browser signed_page) = Some access_token"
    "ap_token (pg_browser signed_page) = Some access_token" "br_pushToken (pg_browser signed_page) = None"
    "br_cookie (pg_browser signed_page) = Some old_token" by (simp_all add: signed_page_def some_page_def)
  from sign_out_undone [where W = plain_web and api = guarded_api,
      OF auth_backend s(2-4) t(2) s(5) some_page_simps(6) s(6) t(1) auth_secret(2) access_token_verifies _ _ _ r(1) [folded s(1)] r(2)]
  show ?thesis by (simp add: Let_def list_all_iff)
qed

end
