(* ===== verification/Web_Session.thy ===== *)
theory Web_Session
  imports Web_Client
begin

text \<open>
  The pages of the web application from the queue to the decision: \<open>src/verity-web/src/pages/Waiting.tsx\<close>,
  \<open>src/verity-web/src/pages/Session.tsx\<close> and \<open>src/verity-web/src/pages/Decision.tsx\<close>. A page is the \<open>browser\<close> with the states and refs
  of its component; a handler reads the state at its start, as the closure of the last render does, and uses what it has read also
  after an \<open>await\<close>. The payloads of events and the bodies of responses have the types the client declares.
\<close>

section \<open>Shared by the pages\<close>

text \<open>\<open>navigate(path, { state })\<close>.\<close>

definition navigate :: "string \<Rightarrow> json option \<Rightarrow> 'a browser_scheme act \<Rightarrow> 'a browser_scheme act" where
  "navigate path state rest = Upd (\<lambda>b. b\<lparr>br_path := path, br_state := state\<rparr>) rest"

text \<open>The right single quotation mark and the ellipsis, in UTF-8.\<close>

definition apostrophe :: string where "apostrophe = [CHR 0xE2, CHR 0x80, CHR 0x99]"
definition ellipsis :: string where "ellipsis = [CHR 0xE2, CHR 0x80, CHR 0xA6]"
definition middle_dot :: string where "middle_dot = [CHR 0xC2, CHR 0xB7]"

definition ICEBREAKER_PROMPTS :: "string list" where
  "ICEBREAKER_PROMPTS =
    [''Share a tiny win from your week.'', ''What song feels like your current mood?'', ''Beach sunrise or city midnight?'',
     ''What makes you feel instantly at home?'', ''Coffee date, bookstore date, or museum date?'', ''What is one value you never compromise on?'']"

definition prompt_at :: "int \<Rightarrow> string" where
  "prompt_at elapsed = ICEBREAKER_PROMPTS ! nat (elapsed div 8 mod int (length ICEBREAKER_PROMPTS))"

section \<open>pages/Waiting.tsx\<close>

definition WAIT_TIMEOUT_SECONDS :: int where "WAIT_TIMEOUT_SECONDS = 45"

record waiting_page = browser +
  wp_lastNavigatedSession :: "string option"
  wp_timeoutPromptTracked :: bool
  wp_usersSearching :: "int option"
  wp_estimatedSeconds :: "int option"
  wp_queueKey :: "string option"
  wp_seconds :: int
  wp_showTimeoutPrompt :: bool
  wp_leaving :: bool
  wp_leaveError :: "string option"

definition open_waiting :: "browser \<Rightarrow> waiting_page" where
  "open_waiting b = browser.extend b \<lparr>wp_lastNavigatedSession = None, wp_timeoutPromptTracked = False, wp_usersSearching = None,
     wp_estimatedSeconds = None, wp_queueKey = Option.bind (br_state b) (json_get_str ''queueKey''), wp_seconds = 0,
     wp_showTimeoutPrompt = False, wp_leaving = False, wp_leaveError = None\<rparr>"

definition waiting_handleMatch :: "web_env \<Rightarrow> json \<Rightarrow> waiting_page act" where
  "waiting_handleMatch W payload = (let sessionId = text_field ''sessionId'' payload in Read (\<lambda>b.
     if wp_lastNavigatedSession b = Some sessionId then Stop
     else Upd (\<lambda>b. b\<lparr>wp_lastNavigatedSession := Some sessionId, wp_queueKey := json_get_str ''queueKey'' payload\<rparr>)
       (trackEvent W ''queue_match_found'' [(''sessionId'', JStr sessionId), (''queueKey'', json_field ''queueKey'' payload)]
         (navigate (''/session/'' @ sessionId) (Some payload) Stop))))"

definition waiting_handleStatus :: "json \<Rightarrow> waiting_page act" where
  "waiting_handleStatus payload = Upd (\<lambda>b. b\<lparr>wp_usersSearching := (case json_get ''usersSearching'' payload of Some (JNum n) \<Rightarrow> Some n | _ \<Rightarrow> None)\<rparr>) Stop"

definition waiting_handleEstimate :: "json \<Rightarrow> waiting_page act" where
  "waiting_handleEstimate payload =
    (let value = (if json_field ''estimatedSeconds'' payload = JNull then json_field ''etaSeconds'' payload else json_field ''estimatedSeconds'' payload)
     in Upd (\<lambda>b. b\<lparr>wp_estimatedSeconds := (case value of JNum n \<Rightarrow> Some n | _ \<Rightarrow> None)\<rparr>) Stop)"

text \<open>The interval of a second, and the effect that follows it.\<close>

definition queueKey_text :: "waiting_page \<Rightarrow> json" where
  "queueKey_text b = JStr (case wp_queueKey b of None \<Rightarrow> [] | Some k \<Rightarrow> k)"

definition timeout_effect :: "web_env \<Rightarrow> waiting_page act" where
  "timeout_effect W = Read (\<lambda>b.
     if wp_showTimeoutPrompt b \<or> wp_timeoutPromptTracked b then Stop
     else if wp_seconds b < WAIT_TIMEOUT_SECONDS then Stop
     else if present (wp_lastNavigatedSession b) then Stop
     else Upd (\<lambda>b. b\<lparr>wp_timeoutPromptTracked := True, wp_showTimeoutPrompt := True\<rparr>)
       (trackEvent W ''queue_timeout_shown'' [(''queueKey'', queueKey_text b), (''elapsedSeconds'', JNum (wp_seconds b))] Stop))"

definition waiting_second :: "web_env \<Rightarrow> waiting_page act" where
  "waiting_second W = Upd (\<lambda>b. b\<lparr>wp_seconds := wp_seconds b + 1\<rparr>) (timeout_effect W)"

definition formatTimer :: "int \<Rightarrow> string" where
  "formatTimer s = (let secs = show_int (s mod 60) in show_int (s div 60) @ '':'' @ (if length secs < 2 then CHR ''0'' # secs else secs))"

definition statusCopy :: "waiting_page \<Rightarrow> string" where
  "statusCopy b = (case wp_usersSearching b of
       Some n \<Rightarrow> show_int n @ '' online''
     | None \<Rightarrow> (case wp_estimatedSeconds b of Some n \<Rightarrow> ''< '' @ show_int n @ ''s wait'' | None \<Rightarrow> ''Matching fast...''))"

definition activePrompt :: "waiting_page \<Rightarrow> string" where
  "activePrompt b = prompt_at (wp_seconds b)"

text \<open>\<open>handleCancel\<close>; \<open>finally\<close> ends every branch after the request.\<close>

definition handleCancel :: "web_env \<Rightarrow> bool \<Rightarrow> waiting_page act" where
  "handleCancel W timeout = Read (\<lambda>b0.
     if wp_leaving b0 then Stop
     else Upd (\<lambda>b. b\<lparr>wp_leaving := True, wp_leaveError := None\<rparr>)
       (let finally = Upd (\<lambda>b. b\<lparr>wp_leaving := False\<rparr>) Stop;
            failed = (\<lambda>m. Upd (\<lambda>b. b\<lparr>wp_leaveError := Some m\<rparr>) finally);
            left = (\<lambda>key refunded rest. if timeout
              then trackEvent W ''queue_timeout_leave'' [(''queueKey'', key), (''elapsedSeconds'', JNum (wp_seconds b0)), (''refunded'', JBool refunded)] rest
              else rest)
        in apiJson W ''/queue/leave'' ''DELETE'' [] NoBody (\<lambda>response. case response of
            Inl e \<Rightarrow> left (queueKey_text b0) False (failed ''Could not reach queue service. Check your connection and try again.'')
          | Inr r \<Rightarrow>
              if \<not> ar_ok r then failed ''Could not leave queue right now. Please try again.''
              else left (case Option.bind (ar_data r) (json_get_str ''queueKey'') of Some k \<Rightarrow> JStr k | None \<Rightarrow> queueKey_text b0)
                (Option.bind (ar_data r) (json_get ''refunded'') = Some (JBool True))
                (navigate ''/home'' None finally))))"

definition handleKeepSearching :: "web_env \<Rightarrow> waiting_page act" where
  "handleKeepSearching W = Read (\<lambda>b0. Upd (\<lambda>b. b\<lparr>wp_showTimeoutPrompt := False\<rparr>)
     (trackEvent W ''queue_timeout_continue'' [(''queueKey'', queueKey_text b0), (''elapsedSeconds'', JNum (wp_seconds b0))] Stop))"

section \<open>pages/Session.tsx\<close>

datatype call_status = StatusWaiting | StatusLive | StatusEnded

text \<open>\<open>sp_joins\<close> are the calls of \<open>client.join\<close> of the video library: the application, the channel, the token and the user.\<close>

record session_page = browser +
  sp_sessionId :: "string option"
  sp_session :: "json option"
  sp_status :: call_status
  sp_secondsLeft :: "jsnum option"
  sp_error :: "string option"
  sp_joins :: "(string \<times> string \<times> string \<times> json) list"

definition open_session :: "browser \<Rightarrow> string \<Rightarrow> session_page" where
  "open_session b sessionId = browser.extend b \<lparr>sp_sessionId = Some sessionId, sp_session = None, sp_status = StatusWaiting,
     sp_secondsLeft = None, sp_error = None, sp_joins = []\<rparr>"

text \<open>The effect on \<open>session\<close>: it runs once for each \<open>setSession\<close>.\<close>

definition agora_effect :: "string option \<Rightarrow> session_page \<Rightarrow> session_page" where
  "agora_effect AGORA_APP_ID b = (case sp_session b of
       None \<Rightarrow> b
     | Some session \<Rightarrow>
         if \<not> present AGORA_APP_ID then b\<lparr>sp_error := Some ''Live video is temporarily unavailable. Please try again shortly.''\<rparr>
         else b\<lparr>sp_joins := sp_joins b @ [(the AGORA_APP_ID, text_field ''channelName'' session,
           text_field ''token'' (json_field ''rtc'' session), json_field ''uid'' (json_field ''rtc'' session))]\<rparr>)"

definition session_other :: "session_page \<Rightarrow> json \<Rightarrow> bool" where
  "session_other b payload \<longleftrightarrow> present (sp_sessionId b) \<and> text_field ''sessionId'' payload \<noteq> the (sp_sessionId b)"

definition session_handleStart :: "web_env \<Rightarrow> string option \<Rightarrow> json \<Rightarrow> session_page act" where
  "session_handleStart W AGORA_APP_ID payload = Read (\<lambda>b.
     if session_other b payload then Stop
     else Upd (\<lambda>b. b\<lparr>sp_session := Some payload, sp_status := StatusLive, sp_error := None\<rparr>)
       (trackEvent W ''session_started'' [(''sessionId'', JStr (text_field ''sessionId'' payload)), (''durationSeconds'', json_field ''durationSeconds'' payload)]
         (Upd (agora_effect AGORA_APP_ID) Stop)))"

definition session_handleEnd :: "web_env \<Rightarrow> json \<Rightarrow> session_page act" where
  "session_handleEnd W payload = Read (\<lambda>b.
     if session_other b payload then Stop
     else Upd (\<lambda>b. b\<lparr>sp_status := StatusEnded\<rparr>)
       (trackEvent W ''session_ended'' [(''sessionId'', JStr (text_field ''sessionId'' payload)), (''endReason'', json_field ''reason'' payload)] Stop))"

text \<open>The interval of half a second, while there is a session, and the effect on what it sets.\<close>

definition secondsLeft_at :: "json \<Rightarrow> int \<Rightarrow> jsnum" where
  "secondsLeft_at session now = (case date_parse (text_field ''endAt'' session) of
     None \<Rightarrow> NaN | Some endTime \<Rightarrow> Fin (max 0 (- ((now - endTime) div 1000))))"

definition session_interval :: "session_page act" where
  "session_interval = Read (\<lambda>b. case sp_session b of
       None \<Rightarrow> Stop
     | Some session \<Rightarrow> Upd (\<lambda>b. b\<lparr>sp_secondsLeft := Some (secondsLeft_at session (br_clock b))\<rparr>)
         (Upd (\<lambda>b. if sp_status b \<noteq> StatusLive \<or> sp_secondsLeft b \<noteq> Some (Fin 0) then b else b\<lparr>sp_status := StatusEnded\<rparr>) Stop))"

fun show_jsnum :: "jsnum \<Rightarrow> string" where
  "show_jsnum (Fin n) = show_int n"
| "show_jsnum PosInf = ''Infinity''"
| "show_jsnum NegInf = ''-Infinity''"
| "show_jsnum NaN = ''NaN''"

definition callStatus :: "session_page \<Rightarrow> client_flags \<Rightarrow> string" where
  "callStatus b flags = (case sp_status b of
       StatusWaiting \<Rightarrow> ''Waiting for session start'' @ ellipsis
     | StatusEnded \<Rightarrow> ''Session ended''
     | StatusLive \<Rightarrow> (case sp_secondsLeft b of
           Some n \<Rightarrow> ''Session live '' @ middle_dot @ '' '' @ show_jsnum n @ ''s remaining''
         | None \<Rightarrow> ''Session live '' @ middle_dot @ '' '' @ show_int (cf_sessionDurationSeconds flags) @ ''s''))"

definition icebreaker :: "session_page \<Rightarrow> string" where
  "icebreaker b = (case sp_session b of
       None \<Rightarrow> hd ICEBREAKER_PROMPTS
     | Some session \<Rightarrow>
         (let duration = (case json_get_num ''durationSeconds'' session of Some n \<Rightarrow> n | None \<Rightarrow> 45) in
          case sp_secondsLeft b of
            None \<Rightarrow> prompt_at (max 0 (duration - 45))
          | Some (Fin left) \<Rightarrow> prompt_at (max 0 (duration - left))
          | Some _ \<Rightarrow> hd ICEBREAKER_PROMPTS))"

text \<open>The button of an ended session.\<close>

definition continueToDecision :: "session_page act" where
  "continueToDecision = Read (\<lambda>b. if sp_status b = StatusEnded \<and> present (sp_sessionId b)
     then navigate (''/decision/'' @ the (sp_sessionId b)) None Stop else Stop)"

section \<open>pages/Decision.tsx\<close>

text \<open>\<open>dp_timers\<close> are the navigations that \<open>setTimeout\<close> will do, and when.\<close>

record decision_page = browser +
  dp_sessionId :: "string option"
  dp_submitting :: bool
  dp_message :: "string option"
  dp_showSpark :: bool
  dp_timers :: "(int \<times> string \<times> json option) list"

definition open_decision :: "browser \<Rightarrow> string \<Rightarrow> decision_page" where
  "open_decision b sessionId = browser.extend b \<lparr>dp_sessionId = Some sessionId, dp_submitting = False, dp_message = None,
     dp_showSpark = False, dp_timers = []\<rparr>"

definition reveal_state :: "json \<Rightarrow> json" where
  "reveal_state payload = JObj [(''partnerRevealVersion'', json_field ''partnerRevealVersion'' payload), (''partnerReveal'', json_field ''partnerReveal'' payload)]"

definition navigateLater :: "string \<Rightarrow> json option \<Rightarrow> decision_page \<Rightarrow> decision_page" where
  "navigateLater path state b = b\<lparr>dp_timers := dp_timers b @ [(br_clock b + 1200, path, state)]\<rparr>"

definition choice_resolved :: "web_env \<Rightarrow> string \<Rightarrow> string \<Rightarrow> decision_page act \<Rightarrow> decision_page act" where
  "choice_resolved W sessionId outcome rest =
     trackEvent W ''session_choice_resolved'' [(''sessionId'', JStr sessionId), (''outcome'', JStr outcome)] rest"

definition decision_handleMutual :: "web_env \<Rightarrow> json \<Rightarrow> decision_page act" where
  "decision_handleMutual W payload = (let sessionId = text_field ''sessionId'' payload in Read (\<lambda>b.
     if Some sessionId \<noteq> dp_sessionId b then Stop
     else choice_resolved W sessionId ''mutual''
       (Upd (\<lambda>b. navigateLater (''/chat/'' @ text_field ''matchId'' payload) (Some (reveal_state payload))
         (b\<lparr>dp_showSpark := True, dp_message := Some (''It'' @ apostrophe @ ''s a match! Opening chat'' @ ellipsis)\<rparr>)) Stop)))"

definition decision_handleNonMutual :: "web_env \<Rightarrow> json \<Rightarrow> decision_page act" where
  "decision_handleNonMutual W payload = (let sessionId = text_field ''sessionId'' payload in Read (\<lambda>b.
     if Some sessionId \<noteq> dp_sessionId b then Stop
     else choice_resolved W sessionId ''non_mutual''
       (Upd (\<lambda>b. navigateLater ''/home'' None (b\<lparr>dp_showSpark := False, dp_message := Some ''No mutual match this round.''\<rparr>)) Stop)))"

text \<open>The timers that are due fire in their order; leaving the page does not clear them.\<close>

definition decision_timers :: "decision_page act" where
  "decision_timers = Upd (\<lambda>b. fold (\<lambda>(due, path, state) b. b\<lparr>br_path := path, br_state := state\<rparr>)
     (filter (\<lambda>x. fst x \<le> br_clock b) (dp_timers b)) (b\<lparr>dp_timers := filter (\<lambda>x. br_clock b < fst x) (dp_timers b)\<rparr>)) Stop"

definition choice_answered :: "web_env \<Rightarrow> string \<Rightarrow> exn + api_result \<Rightarrow> decision_page act" where
  "choice_answered W sessionId response = (case response of
      Inl e \<Rightarrow> Stop
    | Inr r \<Rightarrow> Upd (\<lambda>b. b\<lparr>dp_submitting := False\<rparr>)
        (let data = (case ar_data r of None \<Rightarrow> JNull | Some j \<Rightarrow> j);
             matchId = text_field ''matchId'' data
         in if \<not> ar_ok r then Upd (\<lambda>b. b\<lparr>dp_message := Some ''Unable to submit choice. Try again.''\<rparr>) Stop
            else if json_field ''status'' data = JStr ''resolved''
            then if json_field ''outcome'' data = JStr ''mutual'' \<and> matchId \<noteq> []
              then choice_resolved W sessionId ''mutual'' (Upd (\<lambda>b. b\<lparr>dp_showSpark := True\<rparr>)
                (navigate (''/chat/'' @ matchId) (Some (reveal_state data)) Stop))
              else choice_resolved W sessionId ''non_mutual'' (Upd (\<lambda>b. b\<lparr>dp_showSpark := False\<rparr>) (navigate ''/home'' None Stop))
            else Upd (\<lambda>b. b\<lparr>dp_message := Some ''Choice saved. Waiting for the other person.''\<rparr>) Stop))"

definition decision_submitChoice :: "web_env \<Rightarrow> string \<Rightarrow> decision_page act" where
  "decision_submitChoice W choice = Read (\<lambda>b0.
     if \<not> present (dp_sessionId b0) \<or> dp_submitting b0 then Stop
     else (let sessionId = the (dp_sessionId b0) in
       trackEvent W ''session_choice_submitted'' [(''sessionId'', JStr sessionId), (''choice'', JStr choice)]
         (Upd (\<lambda>b. b\<lparr>dp_submitting := True\<rparr>)
           (apiJson W (''/sessions/'' @ sessionId @ ''/choice'') ''POST'' [] (JsonBody (JObj [(''choice'', JStr choice)]))
             (choice_answered W sessionId)))))"

section \<open>Sockets\<close>

text \<open>\<open>useSocket\<close> (\<open>src/verity-web/src/hooks/useSocket.ts\<close>): the address and the token of the connection, if there is one.\<close>

definition useSocket :: "web_env \<Rightarrow> string \<Rightarrow> string option \<Rightarrow> (string \<times> string) option" where
  "useSocket W namespace token = (if \<not> present token then None else Some (socketUrl W namespace, the token))"

text \<open>
  What a socket of a user receives of what the server emits while it is in the room of the user: an event emitted before the socket has
  joined is not kept for it.
\<close>

definition received :: "string \<Rightarrow> string \<Rightarrow> (string \<times> string \<times> string \<times> json) list \<Rightarrow> (string \<times> json) list" where
  "received namespace room emitted = map (\<lambda>(n, r, ev, j). (ev, j)) (filter (\<lambda>(n, r, ev, j). n = namespace \<and> r = room) emitted)"

definition waiting_event :: "web_env \<Rightarrow> string \<times> json \<Rightarrow> waiting_page act" where
  "waiting_event W e = (if fst e = ''match'' then waiting_handleMatch W (snd e)
     else if fst e = ''queue:status'' then waiting_handleStatus (snd e)
     else if fst e = ''queue:estimate'' then waiting_handleEstimate (snd e) else Stop)"

definition session_event :: "web_env \<Rightarrow> string option \<Rightarrow> string \<times> json \<Rightarrow> session_page act" where
  "session_event W AGORA_APP_ID e = (if fst e = ''session:start'' then session_handleStart W AGORA_APP_ID (snd e)
     else if fst e = ''session:end'' then session_handleEnd W (snd e) else Stop)"

definition decision_event :: "web_env \<Rightarrow> string \<times> json \<Rightarrow> decision_page act" where
  "decision_event W e = (if fst e = ''match:mutual'' then decision_handleMutual W (snd e)
     else if fst e = ''match:non_mutual'' then decision_handleNonMutual W (snd e) else Stop)"

definition deliver_events :: "web_env \<Rightarrow> int \<Rightarrow> (string \<times> json \<Rightarrow> 'a browser_scheme act) \<Rightarrow> (string \<times> json) list \<Rightarrow>
    ('a browser_scheme, 's) page \<Rightarrow> ('a browser_scheme, 's) page" where
  "deliver_events W t handler es p = fold (\<lambda>e. perform W t (handler e)) es p"

end
