(* ===== verification/Web_Chat.thy ===== *)
theory Web_Chat
  imports Web_Session "HOL-Library.AList"
begin

text \<open>
  The chat page of the web application, \<open>src/verity-web/src/pages/Chat.tsx\<close>. The queries keep their last data and their last error, as
  react-query does; the messages of the socket and the copy of a message that is being sent are in \<open>liveMessages\<close>.
\<close>

section \<open>Messages\<close>

record chat_message =
  cm_id :: string
  cm_matchId :: string
  cm_senderId :: string
  cm_text :: string
  cm_createdAt :: string

definition message_of :: "json \<Rightarrow> chat_message" where
  "message_of j = \<lparr>cm_id = text_field ''id'' j, cm_matchId = text_field ''matchId'' j, cm_senderId = text_field ''senderId'' j,
     cm_text = text_field ''text'' j, cm_createdAt = text_field ''createdAt'' j\<rparr>"

definition messages_of :: "json \<Rightarrow> chat_message list" where
  "messages_of j = (case j of JArr js \<Rightarrow> map message_of js | _ \<Rightarrow> [])"

definition parseApiErrorCode :: "json option \<Rightarrow> string option" where
  "parseApiErrorCode data =
    (case data of
       None \<Rightarrow> None
     | Some payload \<Rightarrow> (case json_get_str ''code'' payload of
           Some code \<Rightarrow> Some code
         | None \<Rightarrow> (case json_get ''message'' payload of Some m \<Rightarrow> json_get_str ''code'' m | None \<Rightarrow> None)))"

definition getConnectionStrength :: "nat \<Rightarrow> string" where
  "getConnectionStrength messageCount =
    (if messageCount \<ge> 14 then ''Electric''
     else if messageCount \<ge> 8 then ''Strong''
     else if messageCount \<ge> 4 then ''Warm''
     else if messageCount \<ge> 1 then ''Sparking''
     else ''Starting'')"

text \<open>
  What the page shows: each identifier once, with the last message that has it, sorted by the time. \<open>Map.set\<close> keeps the place of a key,
  and \<open>sort\<close> is stable; the order of \<open>localeCompare\<close> depends on the locale of the browser, \<open>collate a b\<close> says that \<open>a\<close> is not after \<open>b\<close>.
\<close>

definition uniqueById :: "chat_message list \<Rightarrow> (string \<times> chat_message) list" where
  "uniqueById all = fold (\<lambda>m. AList.update (cm_id m) m) all []"

fun insert_by :: "('a \<Rightarrow> 'a \<Rightarrow> bool) \<Rightarrow> 'a \<Rightarrow> 'a list \<Rightarrow> 'a list" where
  "insert_by before x [] = [x]"
| "insert_by before x (y # ys) = (if before x y then x # y # ys else y # insert_by before x ys)"

definition shown_messages :: "(string \<Rightarrow> string \<Rightarrow> bool) \<Rightarrow> chat_message list \<Rightarrow> chat_message list \<Rightarrow> chat_message list" where
  "shown_messages collate base live =
    foldr (insert_by (\<lambda>x y. collate (cm_createdAt x) (cm_createdAt y))) (map snd (uniqueById (base @ live))) []"

section \<open>The page\<close>

text \<open>\<open>ch_online\<close> is \<open>navigator.onLine\<close>; \<open>ch_revealFailed\<close> is the error of the first query.\<close>

record chat_page = browser +
  ch_matchId :: "string option"
  ch_online :: bool
  ch_draft :: string
  ch_sendError :: "string option"
  ch_blockError :: "string option"
  ch_revealError :: "string option"
  ch_blocking :: bool
  ch_acknowledging :: bool
  ch_locallyBlocked :: bool
  ch_live :: "chat_message list"
  ch_hydrated :: "json option"
  ch_reveal :: "json option"
  ch_revealFailed :: bool
  ch_messages :: "chat_message list option"
  ch_messagesError :: "string option"
  ch_match :: "json option"

definition open_chat :: "browser \<Rightarrow> string \<Rightarrow> bool \<Rightarrow> chat_page" where
  "open_chat b matchId online = browser.extend b \<lparr>ch_matchId = Some matchId, ch_online = online, ch_draft = [], ch_sendError = None, ch_blockError = None,
     ch_revealError = None, ch_blocking = False, ch_acknowledging = False, ch_locallyBlocked = False, ch_live = [],
     ch_hydrated = Option.bind (br_state b) (json_get ''partnerReveal''), ch_reveal = None, ch_revealFailed = False, ch_messages = None,
     ch_messagesError = None, ch_match = None\<rparr>"

definition revealAcknowledged :: "chat_page \<Rightarrow> bool" where
  "revealAcknowledged b \<longleftrightarrow> Option.bind (ch_reveal b) (json_get ''revealAcknowledged'') = Some (JBool True)"

definition visible :: "(string \<Rightarrow> string \<Rightarrow> bool) \<Rightarrow> chat_page \<Rightarrow> chat_message list" where
  "visible collate b = shown_messages collate (case ch_messages b of None \<Rightarrow> [] | Some ms \<Rightarrow> ms) (ch_live b)"

definition chat_partnerReveal :: "chat_page \<Rightarrow> json option" where
  "chat_partnerReveal b = (case not_null (Option.bind (ch_reveal b) (json_get ''partnerReveal'')) of Some r \<Rightarrow> Some r | None \<Rightarrow> ch_hydrated b)"

definition match_reveal :: "chat_page \<Rightarrow> json option" where
  "match_reveal b = not_null (Option.bind (ch_match b) (json_get ''partnerReveal''))"

definition partnerName :: "chat_page \<Rightarrow> string" where
  "partnerName b = (case Option.bind (chat_partnerReveal b) (json_get_str ''displayName'') of
       Some n \<Rightarrow> n
     | None \<Rightarrow> (case Option.bind (match_reveal b) (json_get_str ''displayName'') of Some n \<Rightarrow> n | None \<Rightarrow> ''Your match''))"

definition chat_partnerId :: "chat_page \<Rightarrow> string option" where
  "chat_partnerId b = (case Option.bind (chat_partnerReveal b) (json_get_str ''id'') of
       Some i \<Rightarrow> Some i
     | None \<Rightarrow> Option.bind (match_reveal b) (json_get_str ''id''))"

definition chat_blocked :: "chat_page \<Rightarrow> bool" where
  "chat_blocked b \<longleftrightarrow> ch_messagesError b = Some ''BLOCKED'' \<or> ch_locallyBlocked b"

section \<open>Queries\<close>

definition query_reveal :: "web_env \<Rightarrow> string option \<Rightarrow> (exn + json \<Rightarrow> 'a browser_scheme act) \<Rightarrow> 'a browser_scheme act" where
  "query_reveal W matchId k =
    (if \<not> present matchId then k (Inl (JsError ''Missing match''))
     else apiJson W (''/matches/'' @ the matchId @ ''/reveal'') ''GET'' [] NoBody (\<lambda>response. case response of
         Inl e \<Rightarrow> k (Inl e)
       | Inr r \<Rightarrow> (case response_body r of
             Some data \<Rightarrow> if ar_ok r then k (Inr data) else k (Inl (JsError ''Failed to load reveal''))
           | None \<Rightarrow> k (Inl (JsError ''Failed to load reveal'')))))"

definition query_messages :: "web_env \<Rightarrow> string option \<Rightarrow> (exn + chat_message list \<Rightarrow> 'a browser_scheme act) \<Rightarrow> 'a browser_scheme act" where
  "query_messages W matchId k =
    (if \<not> present matchId then k (Inr [])
     else apiJson W (''/matches/'' @ the matchId @ ''/messages'') ''GET'' [] NoBody (\<lambda>response. case response of
         Inl e \<Rightarrow> k (Inl e)
       | Inr r \<Rightarrow>
           if ar_ok r \<and> response_body r \<noteq> None then k (Inr (messages_of (the (response_body r))))
           else if ar_status r = 403
           then (if parseApiErrorCode (ar_data r) = Some ''REVEAL_ACK_REQUIRED'' then k (Inl (JsError ''REVEAL_ACK_REQUIRED''))
                 else k (Inl (JsError ''BLOCKED'')))
           else k (Inl (JsError ''Failed to load messages''))))"

definition query_match :: "web_env \<Rightarrow> string option \<Rightarrow> (exn + json \<Rightarrow> 'a browser_scheme act) \<Rightarrow> 'a browser_scheme act" where
  "query_match W matchId k = apiJson W ''/matches'' ''GET'' [] NoBody (\<lambda>response. case response of
      Inl e \<Rightarrow> k (Inl e)
    | Inr r \<Rightarrow>
        if ar_ok r \<and> response_body r \<noteq> None
        then k (Inr (case response_body r of
            Some (JArr ms) \<Rightarrow> (case find (\<lambda>m. Some (text_field ''matchId'' m) = matchId) ms of Some m \<Rightarrow> m | None \<Rightarrow> JNull)
          | _ \<Rightarrow> JNull))
        else k (Inl (JsError ''Failed to load match'')))"

text \<open>The results go into the cache; the effect on the reveal keeps the last one of the partner.\<close>

definition hydrate :: "chat_page \<Rightarrow> chat_page" where
  "hydrate b = (case not_null (Option.bind (ch_reveal b) (json_get ''partnerReveal'')) of Some r \<Rightarrow> b\<lparr>ch_hydrated := Some r\<rparr> | None \<Rightarrow> b)"

definition load_reveal :: "web_env \<Rightarrow> chat_page act" where
  "load_reveal W = Read (\<lambda>b. query_reveal W (ch_matchId b) (\<lambda>r. case r of
      Inl e \<Rightarrow> Upd (\<lambda>b. b\<lparr>ch_revealFailed := True\<rparr>) Stop
    | Inr data \<Rightarrow> Upd (\<lambda>b. hydrate (b\<lparr>ch_reveal := Some data, ch_revealFailed := False\<rparr>)) Stop))"

definition load_messages :: "web_env \<Rightarrow> chat_page act" where
  "load_messages W = Read (\<lambda>b.
     if \<not> (present (ch_matchId b) \<and> revealAcknowledged b) then Stop
     else query_messages W (ch_matchId b) (\<lambda>r. case r of
         Inl (JsError m) \<Rightarrow> Upd (\<lambda>b. b\<lparr>ch_messagesError := Some m\<rparr>) Stop
       | Inl e \<Rightarrow> Upd (\<lambda>b. b\<lparr>ch_messagesError := Some []\<rparr>) Stop
       | Inr ms \<Rightarrow> Upd (\<lambda>b. b\<lparr>ch_messages := Some ms, ch_messagesError := None\<rparr>) Stop))"

section \<open>Handlers\<close>

definition handleNew :: "chat_message \<Rightarrow> chat_page \<Rightarrow> chat_page" where
  "handleNew payload b =
    (if Some (cm_matchId payload) \<noteq> ch_matchId b then b
     else if \<not> revealAcknowledged b then b
     else if list_ex (\<lambda>m. cm_id m = cm_id payload) (ch_live b) then b
     else b\<lparr>ch_live := ch_live b @ [payload]\<rparr>)"

definition without :: "string \<Rightarrow> chat_page \<Rightarrow> chat_page" where
  "without i b = b\<lparr>ch_live := filter (\<lambda>m. cm_id m \<noteq> i) (ch_live b)\<rparr>"

definition replace_sent :: "string \<Rightarrow> chat_message \<Rightarrow> chat_page \<Rightarrow> chat_page" where
  "replace_sent optimisticId m b =
    (let b' = without optimisticId b in if list_ex (\<lambda>x. cm_id x = cm_id m) (ch_live b') then b' else b'\<lparr>ch_live := ch_live b' @ [m]\<rparr>)"

text \<open>What follows the request of \<open>sendMessage\<close>; \<open>offline\<close> is what the last render saw.\<close>

definition message_answered ::
  "web_env \<Rightarrow> string \<Rightarrow> string \<Rightarrow> string \<Rightarrow> bool \<Rightarrow> bool \<Rightarrow> exn + api_result \<Rightarrow> chat_page act" where
  "message_answered W matchId content optimisticId isFirstMessage offline response =
    (let dropped = (\<lambda>u. Upd (\<lambda>b. u (without optimisticId b)))
     in case response of
       Inl e \<Rightarrow> dropped (\<lambda>b. b\<lparr>ch_sendError := Some (if offline then ''You appear to be offline. Message not sent.''
         else ''Unable to send message. Try again.''), ch_draft := content\<rparr>) Stop
     | Inr r \<Rightarrow>
         if ar_ok r \<and> response_body r \<noteq> None
         then Upd (replace_sent optimisticId (message_of (the (response_body r))))
           (trackEvent W (if isFirstMessage then ''first_message_sent'' else ''message_sent'') [(''matchId'', JStr matchId)] Stop)
         else if ar_status r = 403
         then (if parseApiErrorCode (ar_data r) = Some ''REVEAL_ACK_REQUIRED''
               then dropped (\<lambda>b. b\<lparr>ch_sendError := Some ''Acknowledge the profile reveal before sending messages.''\<rparr>)
                 (Spawn (load_reveal W) Stop)
               else dropped (\<lambda>b. b\<lparr>ch_locallyBlocked := True,
                 ch_sendError := Some ''Chat is unavailable because one of you has blocked the other.''\<rparr>) Stop)
         else dropped (\<lambda>b. b\<lparr>ch_sendError := Some ''Unable to send message. Try again.'', ch_draft := content\<rparr>) Stop)"

definition optimistic_message :: "string \<Rightarrow> chat_page \<Rightarrow> chat_message" where
  "optimistic_message matchId b = \<lparr>cm_id = ''optimistic-'' @ show_int (br_clock b), cm_matchId = matchId,
     cm_senderId = (case userId_of (ap_token b) of Some u \<Rightarrow> u | None \<Rightarrow> ''self''), cm_text = trim (ch_draft b),
     cm_createdAt = date_iso (br_clock b)\<rparr>"

definition chat_sendMessage :: "web_env \<Rightarrow> (string \<Rightarrow> string \<Rightarrow> bool) \<Rightarrow> chat_page act" where
  "chat_sendMessage W collate = Read (\<lambda>b0.
     if \<not> present (ch_matchId b0) \<or> trim (ch_draft b0) = [] \<or> \<not> revealAcknowledged b0 then Stop
     else (let matchId = the (ch_matchId b0); content = trim (ch_draft b0); optimistic = optimistic_message matchId b0
       in Upd (\<lambda>b. b\<lparr>ch_draft := [], ch_sendError := None, ch_live := ch_live b @ [optimistic]\<rparr>)
         (apiJson W (''/matches/'' @ matchId @ ''/messages'') ''POST'' [] (JsonBody (JObj [(''text'', JStr content)]))
           (message_answered W matchId content (cm_id optimistic) (visible collate b0 = []) (\<not> ch_online b0)))))"

definition chat_acknowledgeReveal :: "web_env \<Rightarrow> chat_page act" where
  "chat_acknowledgeReveal W = Read (\<lambda>b0.
     if \<not> present (ch_matchId b0) \<or> ch_acknowledging b0 then Stop
     else Upd (\<lambda>b. b\<lparr>ch_acknowledging := True, ch_revealError := None\<rparr>)
       (apiJson W (''/matches/'' @ the (ch_matchId b0) @ ''/reveal-ack'') ''POST'' [] NoBody (\<lambda>response. case response of
           Inl e \<Rightarrow> Stop
         | Inr r \<Rightarrow> Upd (\<lambda>b. b\<lparr>ch_acknowledging := False\<rparr>)
             (if \<not> ar_ok r \<or> response_body r = None
              then Upd (\<lambda>b. b\<lparr>ch_revealError := Some ''Unable to unlock chat right now. Try again.''\<rparr>) Stop
              else Upd (\<lambda>b. hydrate (b\<lparr>ch_reveal := response_body r, ch_sendError := None\<rparr>)) Stop))))"

text \<open>\<open>confirmed\<close> is the answer of the dialog of the browser.\<close>

definition chat_handleBlock :: "web_env \<Rightarrow> bool \<Rightarrow> chat_page act" where
  "chat_handleBlock W confirmed = Read (\<lambda>b0.
     if chat_partnerId b0 = None \<or> chat_partnerId b0 = Some [] \<or> ch_blocking b0 \<or> \<not> confirmed then Stop
     else Upd (\<lambda>b. b\<lparr>ch_blocking := True, ch_blockError := None\<rparr>)
       (apiJson W ''/moderation/blocks'' ''POST'' [] (JsonBody (JObj [(''blockedUserId'', JStr (the (chat_partnerId b0)))])) (\<lambda>response. case response of
           Inl e \<Rightarrow> Stop
         | Inr r \<Rightarrow> Upd (\<lambda>b. b\<lparr>ch_blocking := False\<rparr>)
             (if \<not> ar_ok r then Upd (\<lambda>b. b\<lparr>ch_blockError := Some ''Unable to block this user right now. Try again.''\<rparr>) Stop
              else Upd (\<lambda>b. b\<lparr>ch_locallyBlocked := True, ch_draft := [], ch_live := [], ch_sendError := None\<rparr>) Stop))))"

definition chat_event :: "string \<times> json \<Rightarrow> chat_page act" where
  "chat_event e = (if fst e = ''message:new'' then Upd (handleNew (message_of (snd e))) Stop else Stop)"

end
