(* ===== verification/Emissions.thy ===== *)
theory Emissions
  imports Session_Steps Matching_Worker
begin

text \<open>
  What the session service emits: every program that is not the start of a session keeps the trace free of starts. The rules are those of
  \<open>preserves\<close> for an invariant that only looks at what was emitted since some moment. The last section has the steps around the start of a
  session that the worker has called and not waited for.
\<close>

definition since :: "effect list \<Rightarrow> (effect \<Rightarrow> bool) \<Rightarrow> ('r, 'd) world \<Rightarrow> bool" where
  "since past P w \<longleftrightarrow> (\<exists>tr. trace w = past @ tr \<and> (\<forall>e \<in> set tr. P e))"

named_theorems emits \<open>programs that emit only effects of a kind\<close>

lemmas [emits] = preserves_basic preserves_bind preserves_andThen preserves_cases

lemma since_refl: "since (trace w) P w"
  by (simp add: since_def)

lemma since_clock: "since past P w \<Longrightarrow> since past P (w\<lparr>clock := t\<rparr>)"
  by (simp add: since_def)

lemma silent: "(\<And>w. trace (snd (run_state m w)) = trace w) \<Longrightarrow> preserves (since past P) m"
  by (simp add: preserves_def since_def)

lemma emit_kind [emits]: "P e \<Longrightarrow> preserves (since past P) (emit e)"
proof (unfold preserves_def, intro allI impI)
  fix w
  assume "P e" and "since past P w"
  then obtain tr where "trace w = past @ tr" "\<forall>e \<in> set tr. P e" by (auto simp: since_def)
  with \<open>P e\<close> show "since past P (snd (run_state (emit e) w))" unfolding since_def by (intro exI [of _ "tr @ [e]"]) (simp add: run)
qed

lemma silent_commands [emits]:
  "preserves (since past P) (redis_mget E ks)" "preserves (since past P) (redis_set E k v px nx)" "preserves (since past P) (redis_del E ks)"
  "preserves (since past P) (redis_hget E k f)" "preserves (since past P) (redis_hmget E k fs)" "preserves (since past P) (redis_hset E k f v)"
  "preserves (since past P) (redis_pexpire E k ttl)" "preserves (since past P) (redis_zadd E k ps)" "preserves (since past P) (redis_zrank E k m)"
  "preserves (since past P) (redis_eval E script k a)" "preserves (since past P) (redis_exec E cs)" "preserves (since past P) (mutate u)"
  "preserves (since past P) (scheduleSessionEnd sid a b t)" "preserves (since past P) (scheduleChoiceTimeout sid a b d)"
  "preserves (since past P) (clearEndTimer sid)" "preserves (since past P) (clearChoiceTimer sid)"
  "preserves (since past P) (buildPartnerRevealForUser E s uid)" "preserves (since past P) (enrichChoiceResultForUser E c s uid)"
  "preserves (since past P) (readStoredDecision E sid)" "preserves (since past P) State_Monad.get"
  by (rule silent; simp add: run)+

lemma emits_kinds [emits]:
  "P (Emit ''/video'' (userRoom uid) ''session:start'' j) \<Longrightarrow> preserves (since past P) (emitSessionStart uid j)"
  "P (Emit ''/video'' (userRoom uid) ''session:end'' j) \<Longrightarrow> preserves (since past P) (emitSessionEnd uid j)"
  "P (Emit ''/video'' (userRoom uid) ev j) \<Longrightarrow> preserves (since past P) (emitToUser uid ev j)"
  unfolding emitSessionStart_def emitSessionEnd_def emitToUser_def by (simp_all add: emits)

lemma emits_prod [emits]: "(\<And>a b. preserves I (m a b)) \<Longrightarrow> preserves I (case x of (a, b) \<Rightarrow> m a b)"
  by (cases x) simp

lemma emits_decision [emits]:
  "preserves I m \<Longrightarrow> preserves I n \<Longrightarrow> (\<And>v. preserves I (f v)) \<Longrightarrow> (\<And>v t. preserves I (g v t)) \<Longrightarrow>
   preserves I (case x of NoDecision \<Rightarrow> m | InvalidDecision \<Rightarrow> n | Resolved v \<Rightarrow> f v | PendingUntil v t \<Rightarrow> g v t)"
  by (cases x) simp_all

lemma user_entry_silent [emits]: "preserves (since past P) (user_entry E appId cert ch ts ttl u)"
  by (rule silent) (simp add: user_entry_def buildRtcToken_def buildRtmToken_def new_AccessToken2_def run Let_def split: sum.split)

lemma user_entries_silent [emits]: "preserves (since past P) (user_entries (user_entry E appId cert ch ts ttl) us acc)"
  by (induction us arbitrary: acc) (auto intro!: emits)

lemma emits_list [emits]: "preserves I m \<Longrightarrow> (\<And>a as. preserves I (n a as)) \<Longrightarrow> preserves I (case x of [] \<Rightarrow> m | a # as \<Rightarrow> n a as)"
  by (cases x) simp_all

lemma buildSessionTokens_monitors [emits]:
  "(\<And>a b c d. P (Monitor a b c d)) \<Longrightarrow> preserves (since past P) (buildSessionTokens E sid us)"
  unfolding buildSessionTokens_def startMonitoring_def Let_def by (intro emits) simp_all

lemma endSession_emits:
  assumes "\<And>uid j. P (Emit ''/video'' (userRoom uid) ''session:end'' j)" and "\<And>u n ps. P (Track u n ps)"
  shows "preserves (since past P) (endSession E s reason)"
  unfolding endSession_def ensureChoiceDeadline_def Let_def by (intro emits) (simp_all add: assms)

lemma handleSessionCreated_emits:
  assumes "\<And>uid j. P (Emit ''/video'' (userRoom uid) ''session:end'' j)" and "\<And>u n ps. P (Track u n ps)"
    and "\<And>a b c d. P (Monitor a b c d)"
    and "\<And>uid j. json_get ''sessionId'' j = Some (JStr (se_id s)) \<Longrightarrow> P (Emit ''/video'' (userRoom uid) ''session:start'' j)"
  shows "preserves (since past P) (handleSessionCreated E s)"
  unfolding handleSessionCreated_def startSession_def persistSessionState_def Let_def
  by (intro emits endSession_emits) (simp_all add: assms session_start_payload_def)

text \<open>An effect that does not start the session \<open>sid\<close>.\<close>

fun not_start :: "string \<Rightarrow> effect \<Rightarrow> bool" where
  "not_start sid (Emit n r ev j) \<longleftrightarrow> \<not> (n = ''/video'' \<and> ev = ''session:start'' \<and> json_get ''sessionId'' j = Some (JStr sid))"
| "not_start sid _ \<longleftrightarrow> True"

lemma endSession_not_start [emits]: "preserves (since past (not_start sid)) (endSession E s reason)"
  by (rule endSession_emits) simp_all

lemma handleSessionCreated_not_start: "se_id s \<noteq> sid \<Longrightarrow> preserves (since past (not_start sid)) (handleSessionCreated E s)"
  by (rule handleSessionCreated_emits) simp_all

lemma finalizeDecision_not_start [emits]: "preserves (since past (not_start sid)) (finalizeDecision E s a b)"
  unfolding finalizeDecision_def finalizeFrom_def storeDecision_def announceDecision_def upsertMatch_def emitMatchMutual_def
    emitMatchNonMutual_def Let_def
  by (intro emits) (simp_all)

lemma submitChoice_not_start: "preserves (since past (not_start sid)) (submitChoice E sid' uid c)"
  unfolding submitChoice_def getDecision_def ensureChoiceDeadline_def evaluateFor_def evaluateChoices_def recordChoice_def Let_def
  by (intro emits) simp_all

lemma since_timers [simp]: "since past P (w\<lparr>endTimers := x\<rparr>) = since past P w" "since past P (w\<lparr>choiceTimers := x\<rparr>) = since past P w"
  by (simp_all add: since_def)

lemma timers_not_start:
  "preserves (since past (not_start sid)) (fireEndTimer E sid')" "preserves (since past (not_start sid)) (fireChoiceTimer E sid')"
  unfolding preserves_def fireEndTimer_def fireChoiceTimer_def
  by (auto simp: run case_prod_beta intro!: preservesD [OF endSession_not_start] preservesD [OF finalizeDecision_not_start] split: option.split)

lemma recover_not_start:
  "preserves (since past (not_start sid)) (recoverSessionEnd E key)" "preserves (since past (not_start sid)) (recoverChoiceTimeout E key)"
  unfolding recoverSessionEnd_def recoverChoiceTimeout_def resolveSessionParticipants_def Let_def by (intro emits; simp)+

text \<open>Steps of the service in which \<open>sid\<close> is not created.\<close>

inductive later_step :: "('r, 'd) env \<Rightarrow> string \<Rightarrow> ('r, 'd) world \<Rightarrow> ('r, 'd) world \<Rightarrow> bool" for E sid where
  other_created: "se_id s \<noteq> sid \<Longrightarrow> later_step E sid w (snd (run_state (handleSessionCreated E s) w))"
| later_ended: "later_step E sid w (snd (run_state (endSession E s reason) w))"
| later_chosen: "later_step E sid w (snd (run_state (submitChoice E sid' uid c) w))"
| later_end_timer: "later_step E sid w (snd (run_state (fireEndTimer E sid') w))"
| later_choice_timer: "later_step E sid w (snd (run_state (fireChoiceTimer E sid') w))"
| later_recover_end: "later_step E sid w (snd (run_state (recoverSessionEnd E key) w))"
| later_recover_choice: "later_step E sid w (snd (run_state (recoverChoiceTimeout E key) w))"
| later_passed: "later_step E sid w (w\<lparr>clock := t\<rparr>)"

lemma later_step_not_start: "later_step E sid w w' \<Longrightarrow> since past (not_start sid) w \<Longrightarrow> since past (not_start sid) w'"
  by (induction rule: later_step.induct)
    (auto intro: preservesD [OF handleSessionCreated_not_start] preservesD [OF endSession_not_start] preservesD [OF submitChoice_not_start]
      preservesD [OF timers_not_start(1)] preservesD [OF timers_not_start(2)] preservesD [OF recover_not_start(1)]
      preservesD [OF recover_not_start(2)] since_clock)

section \<open>Around the start of a session\<close>

text \<open>
  \<open>createSession\<close> calls \<open>handleSessionCreated\<close> without waiting for it. What can happen on either side of that step, until the session is
  over: the worker announces the match, other pairs are matched, and the session service does what it does.
\<close>

lemma announceMatch_not_start [emits]: "preserves (since past (not_start sid)) (announceMatch E a b ta tb s)"
  unfolding announceMatch_def emitMatch_def Let_def by (intro emits silent) (simp_all add: markMatched_def run)

lemma matchPair_not_start: "preserves (since past (not_start sid)) (matchPair E key pr a b)"
  unfolding matchPair_def createSession_def computeWaitSeconds_def Let_def by (intro emits) simp_all

inductive pair_step :: "('r, 'd) env \<Rightarrow> string \<Rightarrow> string \<Rightarrow> session_row \<Rightarrow> ('r, 'd) world \<Rightarrow> ('r, 'd) world \<Rightarrow> bool" for E a b s where
  pair_elsewhere: "later_step E (se_id s) w w' \<Longrightarrow> pair_step E a b s w w'"
| pair_announced: "pair_step E a b s w (snd (run_state (announceMatch E a b ta tb s) w))"
| pair_matched: "pair_step E a b s w (snd (run_state (matchPair E key pr a' b') w))"

lemma pair_step_not_start: "pair_step E a b s w w' \<Longrightarrow> since past (not_start (se_id s)) w \<Longrightarrow> since past (not_start (se_id s)) w'"
  by (induction rule: pair_step.induct)
    (auto intro: later_step_not_start preservesD [OF announceMatch_not_start] preservesD [OF matchPair_not_start])

lemma pair_not_start: "(pair_step E a b s)\<^sup>*\<^sup>* w w' \<Longrightarrow> since (trace w) (not_start (se_id s)) w'"
  by (induction rule: rtranclp_induct) (auto intro: since_refl pair_step_not_start)

end
