(* ===== verification/Web_Session_Props.thy ===== *)
theory Web_Session_Props
  imports Web_Laws Web_Session Emissions Worker_Laws Queue_Props
begin

text \<open>
  The pages of the web application against the server: a page sees of a session only what is emitted while its socket is in the room of
  the user.
\<close>

section \<open>Pages that receive events\<close>

definition event_request :: "web_env \<Rightarrow> 'a browser_scheme \<Rightarrow> string \<Rightarrow> (string \<times> json) list \<Rightarrow> 'a browser_scheme waiting_call" where
  "event_request W b name properties = hd (fst (settle (trackEvent W name properties Stop) b))"

lemma settle_trackEvent:
  "settle (trackEvent W name ps rest) b = (let (ts, b') = settle rest (next_uuid b) in (event_request W b name ps # ts, b'))"
  by (simp add: trackEvent_def send_def settle_apiJson event_request_def Let_def split: prod.split)

lemma next_uuid_simps [simp]: "ap_token (next_uuid b) = ap_token b" "br_path (next_uuid b) = br_path b" "br_clock (next_uuid b) = br_clock b"
  by (simp_all add: next_uuid_def)

lemma page_after: "ap_token (snd (settle a ((pg_browser p)\<lparr>br_clock := t\<rparr>))) = ap_token (pg_browser p) \<Longrightarrow>
    pg_browser (perform W t a p) = snd (settle a ((pg_browser p)\<lparr>br_clock := t\<rparr>))"
  by (cases "settle a ((pg_browser p)\<lparr>br_clock := t\<rparr>)") (simp add: perform_def)

lemma deliver_simps: "deliver_events W t f [] p = p" "deliver_events W t f (e # es) p = deliver_events W t f es (perform W t (f e) p)"
  "deliver_events W t f (es @ es') p = deliver_events W t f es' (deliver_events W t f es p)"
  by (simp_all add: deliver_events_def)

text \<open>The events among what the server emitted.\<close>

definition emitted :: "effect list \<Rightarrow> (string \<times> string \<times> string \<times> json) list" where
  "emitted tr = concat (map (\<lambda>e. case e of Emit n r ev j \<Rightarrow> [(n, r, ev, j)] | _ \<Rightarrow> []) tr)"

lemma received_append: "received n r (emitted (xs @ ys)) = received n r (emitted xs) @ received n r (emitted ys)"
  by (simp add: received_def emitted_def)

lemma received_in: "(ev, j) \<in> set (received n r (emitted tr)) \<longleftrightarrow> Emit n r ev j \<in> set tr"
  by (induction tr) (auto simp: received_def emitted_def split: effect.split)

lemma received_none: "(\<And>ev j. Emit n r ev j \<notin> set tr) \<Longrightarrow> received n r (emitted tr) = []"
  using received_in [of _ _ n r tr] by (metis list.set_intros(1) neq_Nil_conv surj_pair)

section \<open>The page of a session\<close>

text \<open>
  The page of the session \<open>sid\<close> that has joined the calls \<open>js\<close>, and shows none unless \<open>l\<close>.
\<close>

definition in_calls :: "string \<Rightarrow> (string \<times> string \<times> string \<times> json) list \<Rightarrow> bool \<Rightarrow> session_page \<Rightarrow> bool" where
  "in_calls sid js l b \<longleftrightarrow> sp_sessionId b = Some sid \<and> sp_joins b = js \<and> (sp_status b = StatusLive \<longrightarrow> l)"

definition starts :: "string \<Rightarrow> string \<times> json \<Rightarrow> bool" where
  "starts sid e \<longleftrightarrow> fst e = ''session:start'' \<and> json_get ''sessionId'' (snd e) = Some (JStr sid)"

lemma session_event_idle:
  assumes "in_calls sid js l b" and "sid \<noteq> []" and "\<not> starts sid e"
  shows "in_calls sid js l (snd (settle (session_event W app e) b))" and "ap_token (snd (settle (session_event W app e) b)) = ap_token b"
  using assms
  by (auto simp: session_event_def session_handleStart_def session_handleEnd_def session_other_def settle_trackEvent in_calls_def present_def
      starts_def text_field_def next_uuid_def split: option.splits json.splits)

lemma session_event_joins:
  assumes "in_calls sid js l b" and "text_field ''sessionId'' j = sid" and "app = Some appId" and "appId \<noteq> []"
  shows "in_calls sid (js @ [(appId, text_field ''channelName'' j, text_field ''token'' (json_field ''rtc'' j), json_field ''uid'' (json_field ''rtc'' j))]) True
      (snd (settle (session_event W app (''session:start'', j)) b))"
    and "ap_token (snd (settle (session_event W app (''session:start'', j)) b)) = ap_token b"
  using assms
  by (simp_all add: session_event_def session_handleStart_def session_other_def settle_trackEvent in_calls_def present_def agora_effect_def next_uuid_def)

lemma session_page_after:
  assumes "\<And>b. in_calls sid js l b \<Longrightarrow> in_calls sid js' l' (snd (settle (session_event W app e) b)) \<and>
      ap_token (snd (settle (session_event W app e) b)) = ap_token b"
    and "in_calls sid js l (pg_browser p)"
  shows "in_calls sid js' l' (pg_browser (perform W t (session_event W app e) p))"
proof -
  let ?b = "(pg_browser p)\<lparr>br_clock := t\<rparr>"
  have b: "in_calls sid js l ?b" using assms(2) by (simp add: in_calls_def)
  have "pg_browser (perform W t (session_event W app e) p) = snd (settle (session_event W app e) ?b)"
    using assms(1) [OF b] by (intro page_after) simp
  then show ?thesis using assms(1) [OF b] by simp
qed

lemma session_events_idle:
  assumes "in_calls sid js l (pg_browser p)" and "sid \<noteq> []" and "\<forall>e \<in> set es. \<not> starts sid e"
  shows "in_calls sid js l (pg_browser (deliver_events W t (session_event W app) es p))"
  using assms
proof (induction es arbitrary: p)
  case (Cons e es)
  then have e: "\<not> starts sid e" by simp
  have "in_calls sid js l (pg_browser (perform W t (session_event W app e) p))"
    by (rule session_page_after [OF _ Cons.prems(1)]) (use session_event_idle [OF _ Cons.prems(2) e] in blast)
  then show ?case using Cons by (simp add: deliver_simps)
qed (simp add: deliver_simps)

text \<open>Among effects of which none starts the session, no socket receives its start.\<close>

lemma received_not_start:
  assumes "\<forall>e \<in> set tr. not_start sid e"
  shows "\<forall>e \<in> set (received ''/video'' room (emitted tr)). \<not> starts sid e"
  using assms by (fastforce simp: received_in starts_def)

section \<open>What the worker emits\<close>

lemma createSession_trace:
  assumes "run_state (createSession E a b key) w = (Inr s, w')"
  shows "trace w' = trace w @ [SessionCreated s]"
  using assms by (auto simp: createSession_def run case_prod_beta split: sum.splits)

definition match_effects :: "('r, 'd) env \<Rightarrow> session_row \<Rightarrow> string \<Rightarrow> string \<Rightarrow> effect list" where
  "match_effects E s a b =
    [Emit ''/queue'' (userRoom a) ''match'' (match_payload s (buildPartnerAnonymousId E (se_id s) b)),
     Emit ''/queue'' (userRoom b) ''match'' (match_payload s (buildPartnerAnonymousId E (se_id s) a)),
     NotifyUsers [a, b] ''queue_match_found'' (JObj [(''sessionId'', JStr (se_id s)), (''queueKey'', json_opt (se_queueKey s))])]"

lemma announceMatch_trace:
  "trace (snd (run_state (announceMatch E a b ta tb s) w)) = trace w @
     [Track (Some a) ''queue_match_found'' (match_found s b ta), Track (Some b) ''queue_match_found'' (match_found s a tb)] @ match_effects E s a b"
  by (simp add: announceMatch_def run emitMatch_def markMatched_def case_prod_beta match_effects_def Let_def)

text \<open>The page of the queue goes to the page of the session.\<close>

lemma waiting_match_opens:
  fixes W t anon
  assumes "wp_lastNavigatedSession (pg_browser p) \<noteq> Some (se_id s)"
  defines "p' \<equiv> perform W t (waiting_event W (''match'', match_payload s anon)) p"
  shows "br_path (pg_browser p') = ''/session/'' @ se_id s" and "wp_lastNavigatedSession (pg_browser p') = Some (se_id s)"
proof -
  have f: "text_field ''sessionId'' (match_payload s anon) = se_id s" by (simp add: text_field_def match_payload_def)
  have "pg_browser p' = snd (settle (waiting_event W (''match'', match_payload s anon)) ((pg_browser p)\<lparr>br_clock := t\<rparr>))"
    unfolding p'_def by (rule page_after) (simp add: waiting_event_def waiting_handleMatch_def f settle_trackEvent navigate_def Let_def)
  then show "br_path (pg_browser p') = ''/session/'' @ se_id s" "wp_lastNavigatedSession (pg_browser p') = Some (se_id s)"
    using assms(1) by (simp_all add: waiting_event_def waiting_handleMatch_def f settle_trackEvent navigate_def Let_def next_uuid_def)
qed

lemma waiting_match_again:
  assumes "wp_lastNavigatedSession (pg_browser p) = Some (se_id s)"
  shows "br_path (pg_browser (perform W t (waiting_event W (''match'', match_payload s anon)) p)) = br_path (pg_browser p)"
proof -
  have f: "text_field ''sessionId'' (match_payload s anon) = se_id s" by (simp add: text_field_def match_payload_def)
  show ?thesis using assms by (subst page_after) (simp_all add: waiting_event_def waiting_handleMatch_def f Let_def)
qed

lemma waiting_opens_session:
  assumes "wp_lastNavigatedSession (pg_browser p) \<noteq> Some (se_id s)" and "u \<in> {a, b}"
  shows "br_path (pg_browser (deliver_events W t (waiting_event W) (received ''/queue'' (userRoom u)
      (emitted (drop (length (trace w)) (trace (snd (run_state (announceMatch E a b ta tb s) w)))))) p)) = ''/session/'' @ se_id s"
proof -
  have r: "received ''/queue'' (userRoom u) (emitted (drop (length (trace w)) (trace (snd (run_state (announceMatch E a b ta tb s) w))))) =
      received ''/queue'' (userRoom u) (emitted (match_effects E s a b))"
    by (simp add: announceMatch_trace emitted_def)
  note o = waiting_match_opens [OF assms(1), of W t]
  show ?thesis
    unfolding r using assms(2) o waiting_match_again
    by (cases "userRoom a = userRoom b") (auto simp: match_effects_def received_def emitted_def deliver_simps waiting_match_again [OF o(2)])
qed

context backend
begin

lemma created_id:
  assumes "run_state (createSession E a b key) w = (Inr s, w')"
  shows "se_id s \<noteq> []"
proof -
  have "s = new_session a b key (clock w) (dg_cuid (pr_session (prc E)) (db w))"
    using assms prisma.session.create_ok [of "db w" "new_session a b key (clock w)"]
    by (simp add: createSession_def run case_prod_beta no_unique_def)
  then show ?thesis using prisma.session.cuid_nonempty [of "db w"] by (simp add: new_session_def)
qed

end

section \<open>The start of a session\<close>

context backend
begin

lemma started_events:
  assumes "startable E other s w" and "video_ready E s (clock w)" and "se_userAId s \<noteq> se_userBId s" and "u \<in> {se_userAId s, se_userBId s}"
  shows "\<exists>tokens ut. received ''/video'' (userRoom u) (emitted (drop (length (trace w)) (trace (snd (run_state (handleSessionCreated E s) w))))) =
      [(''session:start'', session_start_payload s tokens (clock w) (clock w + SESSION_DURATION_MS) ut)] \<and>
    ag_channelName tokens = ''session_'' @ se_id s \<and> ut_rtcUid ut = hashToUid E u"
proof -
  let ?w = "w\<lparr>rds := snd (rd_set (rdc E) (rds w) (clock w) (sessionLockKey (se_id s)) ''1'' (Some SESSION_LOCK_TTL_MS) True)\<rparr>"
  have lock: "fst (rd_set (rdc E) (rds w) (clock w) (sessionLockKey (se_id s)) ''1'' (Some SESSION_LOCK_TTL_MS) True)"
    using assms(1) by (simp add: startable_def redis.nx_reply)
  obtain tokens w1 where tok: "run_state (buildSessionTokens E (se_id s) [se_userAId s, se_userBId s]) ?w = (Inr tokens, w1)"
    using video_ready_tokens [of s ?w] assms(2) by auto
  let ?P = "\<lambda>e. \<exists>a b c d. e = Monitor a b c d"
  have "preserves (since (trace w) ?P) (buildSessionTokens E (se_id s) [se_userAId s, se_userBId s])"
    by (rule buildSessionTokens_monitors) simp
  from preservesD [OF this, of ?w] tok have "since (trace w) ?P w1" by (simp add: since_def)
  then obtain tr where tr: "trace w1 = trace w @ tr" "\<forall>e \<in> set tr. ?P e" unfolding since_def by blast
  obtain ta tb where start: "run_state (startSession E s (clock w) (clock w + SESSION_DURATION_MS)) ?w =
    (Inr (), w1\<lparr>rds := started_redis E s (''session_'' @ se_id s) (clock w) (rds ?w), trace := trace w1 @ started_trace s tokens (clock w) ta tb,
       endTimers := (endTimers w)(se_id s \<mapsto> \<lparr>tm_armed = True, tm_due = clock w + SESSION_DURATION_MS,
         tm_userA = se_userAId s, tm_userB = se_userBId s\<rparr>)\<rparr>)"
    "map_of (ag_byUser tokens) (se_userAId s) = Some ta" "map_of (ag_byUser tokens) (se_userBId s) = Some tb"
    using startSession_ok [OF tok] by auto
  have t: "trace (snd (run_state (handleSessionCreated E s) w)) = trace w @ tr @ started_trace s tokens (clock w) ta tb"
    using lock start by (simp add: handleSessionCreated_def run tr(1))
  have none: "received ''/video'' (userRoom u) (emitted tr) = []" using tr(2) by (intro received_none) blast
  have r: "received ''/video'' (userRoom u) (emitted (drop (length (trace w)) (trace (snd (run_state (handleSessionCreated E s) w))))) =
      received ''/video'' (userRoom u) (emitted (started_trace s tokens (clock w) ta tb))" by (simp add: t received_append none)
  have room: "userRoom (se_userAId s) \<noteq> userRoom (se_userBId s)" using assms(3) by (simp add: userRoom_def)
  have uid: "ut_rtcUid ta = hashToUid E (se_userAId s)" "ut_rtcUid tb = hashToUid E (se_userBId s)" "ag_channelName tokens = ''session_'' @ se_id s"
    using buildSessionTokens_run(2) [OF tok refl] start(2,3) by (auto simp: entry_ok_def dest!: map_of_SomeD)
  show ?thesis
  proof (cases "u = se_userAId s")
    case True
    then show ?thesis unfolding r using room uid
      by (intro exI [of _ tokens] exI [of _ ta]) (simp add: started_trace_def received_def emitted_def Let_def)
  next
    case False
    then have "u = se_userBId s" using assms(4) by simp
    then show ?thesis unfolding r using room uid
      by (intro exI [of _ tokens] exI [of _ tb]) (simp add: started_trace_def received_def emitted_def Let_def)
  qed
qed

end

lemma handleSessionCreated_grows: "\<exists>tr. trace (snd (run_state (handleSessionCreated E s) w)) = trace w @ tr"
  using preservesD [OF handleSessionCreated_emits [of "\<lambda>_. True" s "trace w" E], of w] since_refl [of w "\<lambda>_. True"] by (auto simp: since_def)

text \<open>
  C24: whether the page of a matched user joins the call is a race that nothing repeats. The worker calls the start of the session without
  waiting for it, and announces the match, before or after the session is started; the page of the session is opened by the event \<open>match\<close>,
  and only then it connects to \<open>/video\<close>. A page that is connected before the start joins the call of the session once, as the user; one
  that connects after it never joins, whatever the service does later. When the start comes before the announcement, every page is late.
\<close>

theorem web_page_races_start:
  fixes E W a b s wa
  defines "wb \<equiv> snd (run_state (handleSessionCreated E s) wa)"
  assumes "backend E zv sv other view" and created: "run_state (createSession E a b key) w = (Inr s, w1)" and ab: "a \<noteq> b" and u: "u \<in> {a, b}"
    and before: "(pair_step E a b s)\<^sup>*\<^sup>* w1 wa" and after: "(pair_step E a b s)\<^sup>*\<^sup>* wb wc"
    and waiting: "wp_lastNavigatedSession (pg_browser p) = None"
    and opened: "pg_browser q = open_session c (se_id s)" and app: "app = Some appId" "appId \<noteq> []"
  shows "let p' = deliver_events W t (waiting_event W) (received ''/queue'' (userRoom u)
        (emitted (drop (length (trace wx)) (trace (snd (run_state (announceMatch E a b ta tb s) wx)))))) p;
      seen = \<lambda>n. pg_browser (deliver_events W t' (session_event W app) (received ''/video'' (userRoom u) (emitted (drop n (trace wc)))) q)
    in trace w1 = trace w @ [SessionCreated s] \<and> br_path (pg_browser p') = ''/session/'' @ se_id s \<and>
       (\<forall>n. length (trace wb) \<le> n \<longrightarrow> sp_joins (seen n) = [] \<and> sp_status (seen n) \<noteq> StatusLive) \<and>
       (startable E other s wa \<and> video_ready E s (clock wa) \<longrightarrow> (\<forall>n. length (trace w1) \<le> n \<and> n \<le> length (trace wa) \<longrightarrow>
          (\<exists>token. sp_joins (seen n) = [(appId, ''session_'' @ se_id s, token, JNum (hashToUid E u))])))"
proof -
  let ?seen = "\<lambda>n. pg_browser (deliver_events W t' (session_event W app) (received ''/video'' (userRoom u) (emitted (drop n (trace wc)))) q)"
  have sid: "se_id s \<noteq> []" by (rule backend.created_id [OF assms(2) created])
  have "s = new_session a b key (clock w) (se_id s)" using backend.createSession_run [OF assms(2), of a b key w] created by auto
  from arg_cong [OF this, of se_userAId] arg_cong [OF this, of se_userBId] have users: "se_userAId s = a" "se_userBId s = b"
    by (simp_all add: new_session_def)
  obtain tr1 where tr1: "trace wa = trace w1 @ tr1" "\<forall>e \<in> set tr1. not_start (se_id s) e"
    using pair_not_start [OF before] by (auto simp: since_def)
  obtain st where st: "trace wb = trace wa @ st" using handleSessionCreated_grows unfolding wb_def by blast
  obtain tr2 where tr2: "trace wc = trace wb @ tr2" "\<forall>e \<in> set tr2. not_start (se_id s) e"
    using pair_not_start [OF after] by (auto simp: since_def)
  have q: "in_calls (se_id s) [] False (pg_browser q)" by (simp add: opened open_session_def in_calls_def browser.defs)
  note quiet = session_events_idle [OF _ sid received_not_start]
  have late: "in_calls (se_id s) [] False (?seen n)" if "length (trace wb) \<le> n" for n
    by (rule quiet [OF q]) (use that tr2 in \<open>auto dest: in_set_dropD simp: drop_append\<close>)
  have early: "\<exists>token. sp_joins (?seen n) = [(appId, ''session_'' @ se_id s, token, JNum (hashToUid E u))]"
    if ready: "startable E other s wa" "video_ready E s (clock wa)" and n: "length (trace w1) \<le> n" "n \<le> length (trace wa)" for n
  proof -
    obtain tokens ut where e: "received ''/video'' (userRoom u) (emitted (drop (length (trace wa)) (trace wb))) =
        [(''session:start'', session_start_payload s tokens (clock wa) (clock wa + SESSION_DURATION_MS) ut)]"
      and ch: "ag_channelName tokens = ''session_'' @ se_id s" and uid: "ut_rtcUid ut = hashToUid E u"
      using backend.started_events [OF assms(2) ready, of u] ab u unfolding wb_def users by blast
    let ?j = "session_start_payload s tokens (clock wa) (clock wa + SESSION_DURATION_MS) ut"
    have j: "text_field ''sessionId'' ?j = se_id s" "text_field ''channelName'' ?j = ''session_'' @ se_id s"
      "json_field ''uid'' (json_field ''rtc'' ?j) = JNum (hashToUid E u)"
      by (simp_all add: text_field_def json_field_def session_start_payload_def ch uid)
    let ?d = "deliver_events W t' (session_event W app)" and ?r = "\<lambda>tr. received ''/video'' (userRoom u) (emitted tr)"
    have split: "drop n (trace wc) = drop (n - length (trace w1)) tr1 @ st @ tr2"
      using n tr1(1) st tr2(1) by (simp add: drop_append)
    have seen: "?seen n = pg_browser (?d (?r tr2) (perform W t' (session_event W app (''session:start'', ?j)) (?d (?r (drop (n - length (trace w1)) tr1)) q)))"
      using e by (simp add: split received_append deliver_simps st)
    have "in_calls (se_id s) [] False (pg_browser (?d (?r (drop (n - length (trace w1)) tr1)) q))"
      by (rule quiet [OF q]) (use tr1(2) in \<open>auto dest: in_set_dropD\<close>)
    then have "in_calls (se_id s) [(appId, ''session_'' @ se_id s, text_field ''token'' (json_field ''rtc'' ?j), JNum (hashToUid E u))] True
        (pg_browser (perform W t' (session_event W app (''session:start'', ?j)) (?d (?r (drop (n - length (trace w1)) tr1)) q)))"
      by (rule session_page_after [rotated]) (use session_event_joins [where js = "[]", OF _ j(1) app, unfolded j append_Nil] in blast)
    from quiet [OF this tr2(2)] show ?thesis unfolding seen by (simp add: in_calls_def)
  qed
  have "wp_lastNavigatedSession (pg_browser p) \<noteq> Some (se_id s)" using waiting by simp
  note opens = waiting_opens_session [OF this u]
  show ?thesis
    unfolding Let_def using opens createSession_trace [OF created] late early by (auto simp: in_calls_def)
qed

text \<open>
  C26: a page that is connected when its session starts joins the call: once, in the channel of the session, as the user, and it counts down
  from 45 seconds.
\<close>

theorem connected_page_joins_call:
  fixes E s w
  defines "w' \<equiv> snd (run_state (handleSessionCreated E s) w)"
  assumes "backend E zv sv other view" and "startable E other s w" and "video_ready E s (clock w)" and "valid_time (clock w + 45000)"
    and "se_userAId s \<noteq> se_userBId s" and "u \<in> {se_userAId s, se_userBId s}"
    and "pg_browser q = open_session c (se_id s)" and "app = Some appId" and "appId \<noteq> []"
  shows "let b = pg_browser (deliver_events W t (session_event W app) (received ''/video'' (userRoom u) (emitted (drop (length (trace w)) (trace w')))) q)
    in sp_status b = StatusLive \<and> (\<exists>token. sp_joins b = [(appId, ''session_'' @ se_id s, token, JNum (hashToUid E u))]) \<and>
       map_option (\<lambda>session. secondsLeft_at session (clock w)) (sp_session b) = Some (Fin 45)"
proof -
  obtain tokens ut where e: "received ''/video'' (userRoom u) (emitted (drop (length (trace w)) (trace w'))) =
      [(''session:start'', session_start_payload s tokens (clock w) (clock w + SESSION_DURATION_MS) ut)]"
    and ch: "ag_channelName tokens = ''session_'' @ se_id s" and uid: "ut_rtcUid ut = hashToUid E u"
    unfolding w'_def using backend.started_events [OF assms(2-4,6,7)] by blast
  let ?j = "session_start_payload s tokens (clock w) (clock w + SESSION_DURATION_MS) ut"
  have f: "text_field ''sessionId'' ?j = se_id s" "text_field ''channelName'' ?j = ''session_'' @ se_id s" "json_field ''uid'' (json_field ''rtc'' ?j) = JNum (hashToUid E u)"
    "secondsLeft_at ?j (clock w) = Fin 45"
    using assms(5) by (simp_all add: text_field_def json_field_def session_start_payload_def ch uid secondsLeft_at_def session_times)
  have o: "\<not> session_other (pg_browser q) ?j" "ap_token (pg_browser q) = ap_token c" by (simp_all add: session_other_def assms(8) open_session_def browser.defs f)
  have "pg_browser (perform W t (session_event W app (''session:start'', ?j)) q) =
      snd (settle (session_event W app (''session:start'', ?j)) ((pg_browser q)\<lparr>br_clock := t\<rparr>))"
    by (rule page_after) (simp add: session_event_def session_handleStart_def settle_trackEvent agora_effect_def split: option.split)
  then show ?thesis
    using o assms(9,10) f by (simp add: e deliver_simps session_event_def session_handleStart_def settle_trackEvent agora_effect_def present_def next_uuid_def
        assms(8) open_session_def browser.defs session_other_def Let_def)
qed

section \<open>A choice that does not reach the server\<close>

lemma submit_settles:
  assumes "dp_sessionId b = Some sid" and "sid \<noteq> []" and "\<not> dp_submitting b"
  shows "\<exists>ev q. settle (decision_submitChoice W c) b =
      ([ev, (q, fetched W (''/sessions/'' @ sid @ ''/choice'') (api_options ''POST'' [] (JsonBody (JObj [(''choice'', JStr c)]))) True
        (api_parsed (choice_answered W sid)))], (next_uuid b)\<lparr>dp_submitting := True\<rparr>) \<and> hq_url q = API_URL W @ ''/sessions/'' @ sid @ ''/choice''"
  using assms by (simp add: decision_submitChoice_def settle_trackEvent settle_apiJson present_def Let_def api_url)

text \<open>
  C31: a choice whose request fails on the network is lost, and the page refuses every other: the flag that disables the buttons is only
  reset after the response. No message is shown, and a later click sends nothing; the server takes the missing choice for a pass at the
  end of the minute.
\<close>

theorem failed_choice_locks_page:
  assumes "pg_inflight p = []" and "dp_sessionId (pg_browser p) = Some sid" and "sid \<noteq> []" and "\<not> dp_submitting (pg_browser p)"
    and fails: "\<forall>q v. hq_url q = API_URL W @ ''/sessions/'' @ sid @ ''/choice'' \<longrightarrow> fst (net t1 q v) = Inl e"
  shows "let q = answer W net t1 1 (perform W t0 (decision_submitChoice W c) p); again = perform W t2 (decision_submitChoice W c') q
    in length (pg_inflight q) = 1 \<and> pg_inflight again = pg_inflight q \<and> dp_submitting (pg_browser again) \<and>
       dp_message (pg_browser again) = dp_message (pg_browser p)"
proof -
  let ?b = "(pg_browser p)\<lparr>br_clock := t0\<rparr>"
  obtain ev rq where s: "settle (decision_submitChoice W c) ?b =
      ([ev, (rq, fetched W (''/sessions/'' @ sid @ ''/choice'') (api_options ''POST'' [] (JsonBody (JObj [(''choice'', JStr c)]))) True
        (api_parsed (choice_answered W sid)))], (next_uuid ?b)\<lparr>dp_submitting := True\<rparr>)"
    and url: "hq_url rq = API_URL W @ ''/sessions/'' @ sid @ ''/choice''"
    using submit_settles [of ?b sid W c] assms(2-4) by auto
  obtain v where n: "net t1 rq (pg_server p) = (Inl e, v)" using fails url by (metis prod.collapse)
  have p1: "perform W t0 (decision_submitChoice W c) p = p\<lparr>pg_browser := (next_uuid ?b)\<lparr>dp_submitting := True\<rparr>,
      pg_inflight := [ev, (rq, fetched W (''/sessions/'' @ sid @ ''/choice'') (api_options ''POST'' [] (JsonBody (JObj [(''choice'', JStr c)]))) True
        (api_parsed (choice_answered W sid)))]\<rparr>"
    using perform_quiet [OF s] assms(1) by simp
  have q: "answer W net t1 1 (perform W t0 (decision_submitChoice W c) p) = p\<lparr>pg_server := v,
      pg_browser := (next_uuid ?b)\<lparr>dp_submitting := True, br_clock := t1\<rparr>, pg_inflight := [ev]\<rparr>"
    unfolding p1 by (simp add: answer_def n perform_def fetched_def api_parsed_def choice_answered_def take_cookie_def)
  have again: "perform W t2 (decision_submitChoice W c') x = x\<lparr>pg_browser := (pg_browser x)\<lparr>br_clock := t2\<rparr>\<rparr>"
    if "dp_submitting (pg_browser x)" for x :: "(decision_page, 'a) page"
    using that by (simp add: perform_def decision_submitChoice_def)
  show ?thesis unfolding Let_def q by (simp add: again next_uuid_def)
qed

section \<open>Witnesses\<close>

definition plain_browser :: browser where
  "plain_browser = \<lparr>br_token = Some ''x'', br_adminKey = None, br_pushToken = None, br_cookie = None, br_path = ''/'', br_state = None,
     br_clock = noon, br_uuids = 0, ap_token = Some ''x'', ap_loading = False, ap_effect = 1\<rparr>"

definition page_of :: "'b \<Rightarrow> ('b, unit) page" where
  "page_of b = \<lparr>pg_browser = b, pg_server = (), pg_inflight = []\<rparr>"

lemma failed_choice_locks_page_witness:
  "dp_submitting (pg_browser (perform plain_web (noon + 9) (decision_submitChoice plain_web ''MATCH'')
     (answer plain_web (\<lambda>t q v. (Inl (JsError ''TypeError''), v)) (noon + 2) 1
       (perform plain_web noon (decision_submitChoice plain_web ''MATCH'') (page_of (open_decision plain_browser ''s1''))))))"
  using failed_choice_locks_page [of "page_of (open_decision plain_browser ''s1'')" "''s1''" plain_web "\<lambda>t q v. (Inl (JsError ''TypeError''), v)"
      "noon + 2" "JsError ''TypeError''" noon "''MATCH''" "noon + 9" "''MATCH''"]
  by (simp add: page_of_def open_decision_def browser.defs Let_def)

lemma connected_page_joins_call_witness:
  "sp_status (pg_browser (deliver_events plain_web noon (session_event plain_web (Some ''app'')) (received ''/video'' (userRoom ''a'')
     (emitted (trace (snd (run_state (handleSessionCreated agora_env s1) start_world))))) (page_of (open_session plain_browser ''s1'')))) = StatusLive"
proof -
  have t: "trace start_world = []" by (simp add: start_world_def world_of_def)
  show ?thesis
    using connected_page_joins_call [OF agora_backend start_ok(1,3), of "''a''" "page_of (open_session plain_browser ''s1'')" plain_browser "Some ''app''" "''app''"
        plain_web noon] noon_valid(1)
    by (simp add: t Let_def page_of_def)
qed

lemma web_page_races_start_witness:
  "\<exists>s w1. run_state (createSession agora_env ''a'' ''b'' ''q'') start_world = (Inr s, w1) \<and>
     (let wb = snd (run_state (handleSessionCreated agora_env s) w1);
        seen = \<lambda>n. pg_browser (deliver_events plain_web noon (session_event plain_web (Some ''app''))
          (received ''/video'' (userRoom ''b'') (emitted (drop n (trace wb)))) (page_of (open_session plain_browser (se_id s))))
      in sp_joins (seen (length (trace wb))) = [] \<and> sp_joins (seen (length (trace w1))) \<noteq> [])"
proof -
  obtain s w1 where c: "run_state (createSession agora_env ''a'' ''b'' ''q'') start_world = (Inr s, w1)"
    using backend.createSession_run [OF agora_backend] by blast
  have s: "se_id s = ''c''" "se_userAId s = ''a''" "se_userBId s = ''b''" "rds w1 = im_empty" "clock w1 = noon"
    using c by (auto simp: createSession_def run list_delegate_def no_unique_def new_session_def no_tables_def Let_def fresh_id_def)
  have "string_fits ''session_c''" by (simp add: small_string_fits)
  then have r: "startable agora_env im_other s w1" "video_ready agora_env s (clock w1)"
    using start_ok by (simp_all add: startable_def video_ready_def s)
  have q: "pg_browser (page_of (open_session plain_browser (se_id s))) = open_session plain_browser (se_id s)" by (simp add: page_of_def)
  have o: "wp_lastNavigatedSession (pg_browser (page_of (open_waiting plain_browser))) = None" by (simp add: page_of_def open_waiting_def browser.defs)
  have ps: "''a'' \<noteq> ''b''" "''b'' \<in> {''a'', ''b''}" "Some ''app'' = Some ''app''" "''app'' \<noteq> []" by simp_all
  note races = web_page_races_start [where W = plain_web and u = "''b''" and app = "Some ''app''" and appId = "''app''" and wx = w1 and ta = 0 and tb = 0 and
      t = noon and t' = noon, OF agora_backend c ps(1,2) rtranclp.rtrancl_refl rtranclp.rtrancl_refl o q ps(3,4), unfolded Let_def]
  let ?wb = "snd (run_state (handleSessionCreated agora_env s) w1)"
  let ?seen = "\<lambda>n. pg_browser (deliver_events plain_web noon (session_event plain_web (Some ''app''))
          (received ''/video'' (userRoom ''b'') (emitted (drop n (trace ?wb)))) (page_of (open_session plain_browser (se_id s))))"
  have "sp_joins (?seen (length (trace ?wb))) = []"
    by (rule conjunct1 [OF mp [OF spec [OF conjunct1 [OF conjunct2 [OF conjunct2 [OF races]]]] order_refl]])
  moreover have "\<exists>token. sp_joins (?seen (length (trace w1))) = [(''app'', ''session_'' @ se_id s, token, JNum (hashToUid agora_env ''b''))]"
    by (rule mp [OF spec [OF mp [OF conjunct2 [OF conjunct2 [OF conjunct2 [OF races]]] conjI [OF r]]] conjI [OF order_refl order_refl]])
  ultimately show ?thesis using c unfolding Let_def by (intro exI [of _ s] exI [of _ w1] conjI) (assumption, assumption, elim exE, simp)
qed

end
