(* ===== verification/Web_Chat_Props.thy ===== *)
theory Web_Chat_Props
  imports Web_Laws Web_Chat Web_Session_Props
begin

text \<open>
  The chat page shows every message once, whatever the order in which the socket and the response of the request bring it.
\<close>

section \<open>What is shown\<close>

lemma uniqueById_fold:
  assumes "distinct (map fst acc)" and "\<forall>(k, m) \<in> set acc. cm_id m = k"
  shows "let u = fold (\<lambda>m. AList.update (cm_id m) m) ms acc in distinct (map fst u) \<and> (\<forall>(k, m) \<in> set u. cm_id m = k) \<and> fst ` set u = fst ` set acc \<union> cm_id ` set ms"
  using assms
proof (induction ms arbitrary: acc)
  case (Cons m ms)
  have d: "distinct (map fst (AList.update (cm_id m) m acc))" using Cons.prems(1) by (rule distinct_update)
  have k: "\<forall>(k, x) \<in> set (AList.update (cm_id m) m acc). cm_id x = k"
    using Cons.prems(2) by (induction acc) (auto split: if_splits)
  have f: "fst ` set (AList.update (cm_id m) m acc) = insert (cm_id m) (fst ` set acc)"
    by (induction acc) auto
  show ?case using Cons.IH [OF d k] f by (auto simp: Let_def)
qed simp

lemma insert_by_set [simp]: "mset (insert_by p x xs) = add_mset x (mset xs)"
  by (induction xs) auto

lemma foldr_insert_mset: "mset (foldr (insert_by p) xs []) = mset xs"
  by (induction xs) simp_all

lemma shown_ids: "distinct (map cm_id (shown_messages collate base live))" "cm_id ` set (shown_messages collate base live) = cm_id ` set (base @ live)"
proof -
  let ?u = "uniqueById (base @ live)"
  have u: "distinct (map fst ?u)" "\<forall>(k, m) \<in> set ?u. cm_id m = k" "fst ` set ?u = cm_id ` set (base @ live)"
    using uniqueById_fold [of "[]" "base @ live"] by (simp_all add: uniqueById_def Let_def)
  have i: "map cm_id (map snd ?u) = map fst ?u" using u(2) by auto
  have m: "mset (shown_messages collate base live) = mset (map snd ?u)" by (simp only: shown_messages_def foldr_insert_mset)
  then have "mset (map cm_id (shown_messages collate base live)) = mset (map fst ?u)" by (metis i mset_map)
  then show "distinct (map cm_id (shown_messages collate base live))" using u(1) by (metis mset_eq_imp_distinct_iff)
  show "cm_id ` set (shown_messages collate base live) = cm_id ` set (base @ live)"
    using mset_eq_setD [OF m] i u(3) by (metis list.set_map)
qed

lemma visible_ids: "distinct (map cm_id (visible collate b))"
  "cm_id ` set (visible collate b) = cm_id ` set (case ch_messages b of None \<Rightarrow> [] | Some ms \<Rightarrow> ms) \<union> cm_id ` set (ch_live b)"
  unfolding visible_def using shown_ids by (auto simp: image_Un)

section \<open>Messages of the socket\<close>

definition arrivals :: "string \<Rightarrow> json list \<Rightarrow> string set" where
  "arrivals matchId js = cm_id ` {m \<in> message_of ` set js. cm_matchId m = matchId}"

lemma arrivals_one: "arrivals matchId [j] = (if cm_matchId (message_of j) = matchId then {cm_id (message_of j)} else {})"
  by (auto simp: arrivals_def)

lemma handleNew_live: "\<exists>live. handleNew m b = b\<lparr>ch_live := live\<rparr> \<and>
    cm_id ` set live = cm_id ` set (ch_live b) \<union> (if Some (cm_matchId m) = ch_matchId b \<and> revealAcknowledged b then {cm_id m} else {})"
proof (cases "Some (cm_matchId m) = ch_matchId b \<and> revealAcknowledged b \<and> \<not> list_ex (\<lambda>x. cm_id x = cm_id m) (ch_live b)")
  case True
  then show ?thesis by (intro exI [of _ "ch_live b @ [m]"]) (auto simp: handleNew_def)
next
  case False
  then show ?thesis by (intro exI [of _ "ch_live b"]) (auto simp: handleNew_def list_ex_iff rev_image_eqI)
qed

definition socket_messages :: "web_env \<Rightarrow> int \<Rightarrow> json list \<Rightarrow> (chat_page, 's) page \<Rightarrow> (chat_page, 's) page" where
  "socket_messages W t js p = deliver_events W t chat_event (map (\<lambda>j. (''message:new'', j)) js) p"

lemma socket_messages_live:
  assumes "ch_matchId (pg_browser p) = Some matchId" and "revealAcknowledged (pg_browser p)"
  shows "\<exists>live c. socket_messages W t js p = p\<lparr>pg_browser := (pg_browser p)\<lparr>ch_live := live, br_clock := c\<rparr>\<rparr> \<and>
    cm_id ` set live = cm_id ` set (ch_live (pg_browser p)) \<union> arrivals matchId js"
  using assms
proof (induction js arbitrary: p)
  case Nil
  show ?case by (intro exI [of _ "ch_live (pg_browser p)"] exI [of _ "br_clock (pg_browser p)"]) (simp add: socket_messages_def deliver_simps arrivals_def)
next
  case (Cons j js)
  let ?b = "(pg_browser p)\<lparr>br_clock := t\<rparr>"
  obtain live where l: "handleNew (message_of j) ?b = ?b\<lparr>ch_live := live\<rparr>"
    "cm_id ` set live = cm_id ` set (ch_live (pg_browser p)) \<union> arrivals matchId [j]"
    using handleNew_live [of "message_of j" ?b] Cons.prems by (auto simp: revealAcknowledged_def arrivals_one)
  let ?p = "p\<lparr>pg_browser := ?b\<lparr>ch_live := live\<rparr>\<rparr>"
  have p: "perform W t (chat_event (''message:new'', j)) p = ?p"
    by (simp add: perform_def chat_event_def l(1))
  obtain live' c where m: "socket_messages W t js ?p = ?p\<lparr>pg_browser := (pg_browser ?p)\<lparr>ch_live := live', br_clock := c\<rparr>\<rparr>"
    "cm_id ` set live' = cm_id ` set live \<union> arrivals matchId js"
    using Cons.IH [of ?p] Cons.prems by (auto simp: revealAcknowledged_def)
  have "socket_messages W t (j # js) p = socket_messages W t js ?p" by (simp add: socket_messages_def deliver_simps p)
  then show ?case using m l(2)
    by (intro exI [of _ live'] exI [of _ c]) (auto simp: arrivals_def)
qed

section \<open>One message\<close>

definition accepted :: "exn + http_response \<Rightarrow> chat_message option" where
  "accepted r = (case r of Inl e \<Rightarrow> None
     | Inr x \<Rightarrow> if response_ok x then map_option message_of (not_null (hs_json x)) else None)"

lemma without_ids: "cm_id ` set (ch_live (without i b)) = cm_id ` set (ch_live b) - {i}"
  by (auto simp: without_def)

text \<open>The fields of a page that a message can change, beside those of the browser.\<close>

definition chat_kept :: "chat_page \<Rightarrow> chat_page \<Rightarrow> bool" where
  "chat_kept b b' \<longleftrightarrow> ch_matchId b' = ch_matchId b \<and> ch_reveal b' = ch_reveal b \<and> ch_messages b' = ch_messages b \<and> ap_token b' = ap_token b"

lemma chat_kept_simps [simp]: "chat_kept b (b\<lparr>ch_live := l, ch_sendError := e, ch_draft := d, ch_locallyBlocked := x\<rparr>)" "chat_kept b b"
  by (simp_all add: chat_kept_def)

lemma load_reveal_keeps: "chat_kept b (snd (settle (load_reveal W) b))" "ch_live (snd (settle (load_reveal W) b)) = ch_live b"
  "ch_sendError (snd (settle (load_reveal W) b)) = ch_sendError b"
  by (simp_all add: load_reveal_def query_reveal_def settle_apiJson chat_kept_def)

definition refused :: "string \<Rightarrow> string \<Rightarrow> bool \<Rightarrow> chat_page \<Rightarrow> chat_page \<Rightarrow> bool" where
  "refused i content forbidden b b' \<longleftrightarrow> chat_kept b b' \<and> ch_live b' = filter (\<lambda>m. cm_id m \<noteq> i) (ch_live b) \<and> ch_sendError b' \<noteq> None \<and>
     (ch_draft b' = content \<or> forbidden)"

lemma answered_network: "refused i content f b (snd (settle (message_answered W matchId content i first offline (Inl e)) b))"
  by (simp add: message_answered_def without_def refused_def chat_kept_def)

lemma answered_ok: "ar_ok r \<Longrightarrow> response_body r = Some j \<Longrightarrow>
    snd (settle (message_answered W matchId content i first offline (Inr r)) b) = next_uuid (replace_sent i (message_of j) b)"
  by (simp add: message_answered_def settle_trackEvent)

lemma answered_refused:
  assumes "\<not> (ar_ok r \<and> response_body r \<noteq> None)"
  shows "refused i content (ar_status r = 403) b (snd (settle (message_answered W matchId content i first offline (Inr r)) b))"
proof -
  let ?b = "(without i b)\<lparr>ch_sendError := Some ''Acknowledge the profile reveal before sending messages.''\<rparr>"
  have "refused i content True b (snd (settle (load_reveal W) ?b))"
    using load_reveal_keeps [where b = ?b and W = W] by (simp add: refused_def without_def chat_kept_def)
  then show ?thesis
    using assms by (auto simp: message_answered_def refused_def without_def chat_kept_def case_prod_beta)
qed

lemma replace_sent_live: "chat_kept b (replace_sent i m b)" "cm_id ` set (ch_live (replace_sent i m b)) = cm_id ` set (ch_live b) - {i} \<union> {cm_id m}"
proof -
  show "chat_kept b (replace_sent i m b)" by (simp add: replace_sent_def without_def chat_kept_def Let_def)
  let ?l = "filter (\<lambda>x. cm_id x \<noteq> i) (ch_live b)"
  have l: "cm_id ` set ?l = cm_id ` set (ch_live b) - {i}" by auto
  show "cm_id ` set (ch_live (replace_sent i m b)) = cm_id ` set (ch_live b) - {i} \<union> {cm_id m}"
  proof (cases "list_ex (\<lambda>x. cm_id x = cm_id m) ?l")
    case True
    then have "cm_id m \<in> cm_id ` set ?l" by (metis (mono_tags, lifting) image_eqI list_ex_iff)
    with True l show ?thesis by (simp add: replace_sent_def without_def Let_def) blast
  next
    case False
    with l show ?thesis by (simp add: replace_sent_def without_def Let_def)
  qed
qed

lemma message_answered_settles:
  fixes W path opts matchId content i first offline b
  assumes "\<forall>x. r = Inr x \<longrightarrow> hs_status x \<noteq> 401"
  defines "b' \<equiv> snd (settle (fetched W path opts True (api_parsed (message_answered W matchId content i first offline)) r) b)"
  shows "chat_kept b b'"
    and "cm_id ` set (ch_live b') = cm_id ` set (ch_live b) - {i} \<union> (case accepted r of None \<Rightarrow> {} | Some m \<Rightarrow> {cm_id m})"
    and "accepted r = None \<Longrightarrow> ch_sendError b' \<noteq> None \<and> (ch_draft b' = content \<or> (\<exists>x. r = Inr x \<and> hs_status x = 403))"
proof -
  consider (sent) m where "accepted r = Some m" "b' = next_uuid (replace_sent i m b)"
    | (not_sent) f where "accepted r = None" "refused i content f b b'" "f \<longrightarrow> (\<exists>x. r = Inr x \<and> hs_status x = 403)"
  proof (cases r)
    case (Inl e)
    then show ?thesis using answered_network [of i content False b W matchId first offline e]
      by (intro that(2) [of False]) (simp_all add: b'_def fetched_def api_parsed_def accepted_def)
  next
    case (Inr x)
    let ?r = "\<lparr>ar_ok = response_ok x, ar_status = hs_status x, ar_data = hs_json x\<rparr>"
    have b': "b' = snd (settle (message_answered W matchId content i first offline (Inr ?r)) b)"
      using assms(1) Inr by (simp add: b'_def fetched_def api_parsed_def)
    show ?thesis
    proof (cases "response_ok x \<and> not_null (hs_json x) \<noteq> None")
      case True
      then obtain j where "not_null (hs_json x) = Some j" by auto
      then show ?thesis using True answered_ok [of ?r j W matchId content i first offline b]
        by (intro that(1) [of "message_of j"]) (simp_all add: Inr accepted_def b' response_body_def)
    next
      case False
      then show ?thesis using answered_refused [of ?r i content b W matchId first offline]
        by (intro that(2) [of "hs_status x = 403"]) (auto simp: Inr accepted_def b' response_body_def)
    qed
  qed
  then have "chat_kept b b' \<and> cm_id ` set (ch_live b') = cm_id ` set (ch_live b) - {i} \<union> (case accepted r of None \<Rightarrow> {} | Some m \<Rightarrow> {cm_id m}) \<and>
      (accepted r = None \<longrightarrow> ch_sendError b' \<noteq> None \<and> (ch_draft b' = content \<or> (\<exists>x. r = Inr x \<and> hs_status x = 403)))"
  proof cases
    case (sent m)
    then show ?thesis using replace_sent_live [where i = i and m = m and b = b] by (simp add: chat_kept_def next_uuid_def)
  next
    case (not_sent f)
    then show ?thesis by (auto simp: refused_def)
  qed
  then show "chat_kept b b'"
    and "cm_id ` set (ch_live b') = cm_id ` set (ch_live b) - {i} \<union> (case accepted r of None \<Rightarrow> {} | Some m \<Rightarrow> {cm_id m})"
    and "accepted r = None \<Longrightarrow> ch_sendError b' \<noteq> None \<and> (ch_draft b' = content \<or> (\<exists>x. r = Inr x \<and> hs_status x = 403))"
    by blast+
qed

text \<open>
  C25: the chat converges. A message is sent, messages of the socket arrive before and after the answer (among them the message itself, which
  the server also sends to its author), and the request is answered with success, refused, or lost: then the page shows every message once,
  the copy that was shown while it was sent is gone, and everything that was there, arrived or was accepted is shown. A message that was not
  accepted leaves an error, and its text is back in the input unless the chat is closed.
\<close>

theorem web_chat_converges:
  fixes W collate p t0 t1 t2 t3 js1 js2 r
  defines "b \<equiv> pg_browser p"
  defines "q \<equiv> socket_messages W t3 js2 (answer W (\<lambda>t q v. (r, v)) t2 (length (pg_inflight p))
      (socket_messages W t1 js1 (perform W t0 (chat_sendMessage W collate) p)))"
  assumes chat: "ch_matchId b = Some matchId" "matchId \<noteq> []" "revealAcknowledged b" "trim (ch_draft b) \<noteq> []"
    and status: "\<forall>x. r = Inr x \<longrightarrow> hs_status x \<noteq> 401"
    and fresh: "''optimistic-'' @ show_int t0 \<notin> cm_id ` set (visible collate b) \<union> arrivals matchId (js1 @ js2) \<union>
      (case accepted r of None \<Rightarrow> {} | Some m \<Rightarrow> {cm_id m})"
  shows "distinct (map cm_id (visible collate (pg_browser q))) \<and>
    cm_id ` set (visible collate (pg_browser q)) = cm_id ` set (visible collate b) \<union> arrivals matchId (js1 @ js2) \<union>
      (case accepted r of None \<Rightarrow> {} | Some m \<Rightarrow> {cm_id m}) \<and>
    (accepted r = None \<longrightarrow> ch_sendError (pg_browser q) \<noteq> None \<and>
      (ch_draft (pg_browser q) = trim (ch_draft b) \<or> (\<exists>x. r = Inr x \<and> hs_status x = 403)))"
proof -
  let ?i = "''optimistic-'' @ show_int t0"
  define opt where "opt = optimistic_message matchId (b\<lparr>br_clock := t0\<rparr>)"
  define b1 where "b1 = b\<lparr>br_clock := t0, ch_draft := [], ch_sendError := None, ch_live := ch_live b @ [opt]\<rparr>"
  have i: "cm_id opt = ?i" by (simp add: opt_def optimistic_message_def)
  let ?opts = "api_options ''POST'' [] (JsonBody (JObj [(''text'', JStr (trim (ch_draft b)))]))"
  let ?path = "''/matches/'' @ matchId @ ''/messages''"
  let ?k = "api_parsed (message_answered W matchId (trim (ch_draft b)) ?i (visible collate (b\<lparr>br_clock := t0\<rparr>) = []) (\<not> ch_online b))"
  obtain rq where s: "settle (chat_sendMessage W collate) (b\<lparr>br_clock := t0\<rparr>) = ([(rq, fetched W ?path ?opts True ?k)], b1)"
    using chat by (simp add: chat_sendMessage_def settle_apiJson present_def revealAcknowledged_def Let_def b1_def opt_def [symmetric] i)
  have p1: "perform W t0 (chat_sendMessage W collate) p = p\<lparr>pg_browser := b1, pg_inflight := pg_inflight p @ [(rq, fetched W ?path ?opts True ?k)]\<rparr>"
    using perform_quiet [OF s [unfolded b_def]] by (simp add: b1_def b_def)
  let ?p1 = "p\<lparr>pg_browser := b1, pg_inflight := pg_inflight p @ [(rq, fetched W ?path ?opts True ?k)]\<rparr>"
  have k1: "chat_kept b b1" by (simp add: chat_kept_def b1_def)
  obtain live2 c2 where p2: "socket_messages W t1 js1 ?p1 = ?p1\<lparr>pg_browser := b1\<lparr>ch_live := live2, br_clock := c2\<rparr>\<rparr>"
    and l2: "cm_id ` set live2 = cm_id ` set (ch_live b1) \<union> arrivals matchId js1"
    using socket_messages_live [of ?p1 matchId W t1 js1] chat k1 by (auto simp: chat_kept_def revealAcknowledged_def)
  let ?c = "(take_cookie r (b1\<lparr>ch_live := live2, br_clock := c2\<rparr>))\<lparr>br_clock := t2\<rparr>"
  have c: "chat_kept b ?c" "ch_live ?c = live2"
    using k1 by (simp_all add: chat_kept_def take_cookie_def split: sum.split option.split)
  define b3 where "b3 = snd (settle (fetched W ?path ?opts True ?k r) ?c)"
  note a = message_answered_settles [OF status, where W = W and path = ?path and opts = ?opts and matchId = matchId and content = "trim (ch_draft b)"
      and i = ?i and first = "visible collate (b\<lparr>br_clock := t0\<rparr>) = []" and offline = "\<not> ch_online b" and b = ?c, folded b3_def]
  have k3: "chat_kept b b3" using a(1) c(1) by (simp add: chat_kept_def)
  have "ap_token b3 = ap_token b1" using k3 k1 by (simp add: chat_kept_def)
  then have a3: "answer W (\<lambda>t q v. (r, v)) t2 (length (pg_inflight p)) (?p1\<lparr>pg_browser := b1\<lparr>ch_live := live2, br_clock := c2\<rparr>\<rparr>) =
      p\<lparr>pg_browser := b3, pg_inflight := pg_inflight p @ fst (settle (fetched W ?path ?opts True ?k r) ?c)\<rparr>"
    by (cases "settle (fetched W ?path ?opts True ?k r) ?c") (simp add: answer_def perform_def b3_def)
  let ?p3 = "p\<lparr>pg_browser := b3, pg_inflight := pg_inflight p @ fst (settle (fetched W ?path ?opts True ?k r) ?c)\<rparr>"
  obtain live4 c4 where p4: "socket_messages W t3 js2 ?p3 = ?p3\<lparr>pg_browser := b3\<lparr>ch_live := live4, br_clock := c4\<rparr>\<rparr>"
    and l4: "cm_id ` set live4 = cm_id ` set (ch_live b3) \<union> arrivals matchId js2"
    using socket_messages_live [of ?p3 matchId W t3 js2] chat k3 by (auto simp: chat_kept_def revealAcknowledged_def)
  have q: "pg_browser q = b3\<lparr>ch_live := live4, br_clock := c4\<rparr>" unfolding q_def p1 p2 a3 p4 by simp
  have l1: "cm_id ` set (ch_live b1) = insert ?i (cm_id ` set (ch_live b))" by (simp add: b1_def i)
  have j: "arrivals matchId (js1 @ js2) = arrivals matchId js1 \<union> arrivals matchId js2" by (auto simp: arrivals_def)
  have ids: "cm_id ` set live4 = cm_id ` set (ch_live b) \<union> arrivals matchId (js1 @ js2) \<union> (case accepted r of None \<Rightarrow> {} | Some m \<Rightarrow> {cm_id m})"
    using l4 a(2) l2 l1 c(2) fresh unfolding visible_ids(2) j by auto
  have m: "ch_messages (pg_browser q) = ch_messages b" "ch_live (pg_browser q) = live4" using k3 by (simp_all add: q chat_kept_def)
  have v: "cm_id ` set (visible collate (pg_browser q)) = cm_id ` set (visible collate b) \<union> arrivals matchId (js1 @ js2) \<union>
      (case accepted r of None \<Rightarrow> {} | Some m \<Rightarrow> {cm_id m})"
    unfolding visible_ids(2) m ids by (simp add: Un_assoc)
  have e: "ch_sendError (pg_browser q) = ch_sendError b3" "ch_draft (pg_browser q) = ch_draft b3" by (simp_all add: q)
  show ?thesis unfolding v e using visible_ids(1) a(3) by blast
qed

lemma web_chat_converges_witness:
  "cm_id ` set (visible (\<lambda>x y. True) (pg_browser (socket_messages plain_web (noon + 3) [] (answer plain_web
      (\<lambda>t q v. (Inr \<lparr>hs_status = 201, hs_json = Some (JObj [(''id'', JStr ''m1''), (''matchId'', JStr ''m'')]), hs_setCookie = None\<rparr>, v)) (noon + 2) 0
      (socket_messages plain_web (noon + 1) [JObj [(''id'', JStr ''m1''), (''matchId'', JStr ''m'')]]
        (perform plain_web noon (chat_sendMessage plain_web (\<lambda>x y. True)) (page_of ((open_chat plain_browser ''m'' True)
          \<lparr>ch_draft := ''hi'', ch_reveal := Some (JObj [(''revealAcknowledged'', JBool True)])\<rparr>))))))))= {''m1''}"
proof -
  let ?p = "page_of ((open_chat plain_browser ''m'' True)\<lparr>ch_draft := ''hi'', ch_reveal := Some (JObj [(''revealAcknowledged'', JBool True)])\<rparr>)"
  let ?j = "JObj [(''id'', JStr ''m1''), (''matchId'', JStr ''m'')]"
  let ?r = "Inr \<lparr>hs_status = 201, hs_json = Some ?j, hs_setCookie = None\<rparr> :: exn + http_response"
  have chat: "ch_matchId (pg_browser ?p) = Some ''m''" "''m'' \<noteq> []" "revealAcknowledged (pg_browser ?p)" "pg_inflight ?p = []"
    "ch_messages (pg_browser ?p) = None" "ch_live (pg_browser ?p) = []"
    by (simp_all add: page_of_def open_chat_def browser.defs revealAcknowledged_def)
  have d: "trim (ch_draft (pg_browser ?p)) \<noteq> []" by (simp add: page_of_def open_chat_def browser.defs) code_simp
  have a: "accepted ?r = Some (message_of ?j)" by (simp add: accepted_def response_ok_def not_null_def)
  have m: "cm_id (message_of ?j) = ''m1''" "cm_matchId (message_of ?j) = ''m''" by (simp_all add: message_of_def text_field_def)
  have f: "''optimistic-'' @ show_int noon \<notin> cm_id ` set (visible (\<lambda>x y. True) (pg_browser ?p)) \<union> arrivals ''m'' ([?j] @ []) \<union>
      (case accepted ?r of None \<Rightarrow> {} | Some m \<Rightarrow> {cm_id m})"
    by (simp add: visible_ids(2) chat a m arrivals_one)
  have s: "\<forall>x. ?r = Inr x \<longrightarrow> hs_status x \<noteq> 401" by auto
  from web_chat_converges [OF chat(1-3) d s f, of plain_web "noon + 3" "noon + 2" "noon + 1"] show ?thesis
    by (simp add: chat visible_ids(2) a m arrivals_one)
qed

end
