(* ===== verification/Mobile_Client.thy ===== *)
theory Mobile_Client
  imports Web_Client
begin

text \<open>
  The client of the mobile application: \<open>src/verity-mobile/src/services/api.ts\<close>, \<open>src/verity-mobile/src/services/analytics.ts\<close>,
  \<open>src/verity-mobile/src/hooks/useAuth.ts\<close>, \<open>src/verity-mobile/src/hooks/useQueue.ts\<close> and the payloads that
  \<open>src/verity-mobile/src/hooks/useWebSocket.ts\<close> keeps. Its activities are those of \<open>Web_Client\<close> over another state. An operation of
  \<open>AsyncStorage\<close> is done before another activity goes on.
\<close>

section \<open>The device\<close>

datatype queue_status = Idle | Joining | Searching | Matched

text \<open>
  The three entries of \<open>AsyncStorage\<close>, the clock, the number of identifiers drawn, the alerts shown, the stack of screens with their
  parameters (the one on top first), and the stores of \<open>useAuth\<close>, \<open>useQueue\<close> and \<open>useWebSocket\<close>. The user of the store is an
  object with its identity, as effects compare it; \<open>au_users\<close> counts the objects made.
\<close>

record device =
  dv_token :: "string option"
  dv_user :: "string option"
  dv_pendingRoute :: "string option"
  dv_clock :: int
  dv_uuids :: nat
  dv_alerts :: "(string \<times> string) list"
  dv_stack :: "(string \<times> json option) list"
  au_token :: "string option"
  au_user :: "(nat \<times> json) option"
  au_users :: nat
  au_pendingRoute :: "json option"
  au_hydrated :: bool
  qs_status :: queue_status
  qs_estimated :: "int option"
  qs_match :: "json option"
  qs_tokenSpent :: bool
  qs_usersSearching :: "int option"
  qs_queueKey :: "string option"
  ws_lastMessage :: "(json \<times> int) option"
  ws_lastSessionStart :: "json option"

text \<open>The environment of the process and what the platform offers.\<close>

record mobile_env =
  me_apiUrls :: "string option \<times> string option"
  me_ios :: bool
  me_appVersions :: "string option \<times> string option"
  me_buildNumber :: "string option"
  me_region :: "string option"
  me_queueRegions :: "string option \<times> string option"
  me_randomUUID :: "(nat \<Rightarrow> string) option"
  me_canOpenURL :: "string \<Rightarrow> bool"

text \<open>\<open>a ?? b ?? fallback\<close>.\<close>

definition env_or :: "string option \<times> string option \<Rightarrow> string \<Rightarrow> string" where
  "env_or p fallback = (case p of (Some a, _) \<Rightarrow> a | (None, Some b) \<Rightarrow> b | (None, None) \<Rightarrow> fallback)"

definition alert :: "string \<Rightarrow> string \<Rightarrow> 'a device_scheme \<Rightarrow> 'a device_scheme" where
  "alert title message b = b\<lparr>dv_alerts := dv_alerts b @ [(title, message)]\<rparr>"

text \<open>\<open>navigation.reset\<close> to one screen, \<open>navigate\<close> (which stays on a screen of that name), \<open>replace\<close> and \<open>goBack\<close>.\<close>

definition nav_reset :: "string \<Rightarrow> json option \<Rightarrow> 'a device_scheme \<Rightarrow> 'a device_scheme" where
  "nav_reset name params b = b\<lparr>dv_stack := [(name, params)]\<rparr>"

definition nav_navigate :: "string \<Rightarrow> json option \<Rightarrow> 'a device_scheme \<Rightarrow> 'a device_scheme" where
  "nav_navigate name params b = b\<lparr>dv_stack := (case dv_stack b of
      [] \<Rightarrow> [(name, params)]
    | (shown, old) # rest \<Rightarrow> if shown = name then (name, if params = None then old else params) # rest else (name, params) # dv_stack b)\<rparr>"

definition nav_replace :: "string \<Rightarrow> json option \<Rightarrow> 'a device_scheme \<Rightarrow> 'a device_scheme" where
  "nav_replace name params b = b\<lparr>dv_stack := (name, params) # tl (dv_stack b)\<rparr>"

definition nav_goBack :: "'a device_scheme \<Rightarrow> 'a device_scheme" where
  "nav_goBack b = b\<lparr>dv_stack := (if length (dv_stack b) > 1 then tl (dv_stack b) else dv_stack b)\<rparr>"

definition on_stack :: "string \<Rightarrow> 'a device_scheme \<Rightarrow> bool" where
  "on_stack name b \<longleftrightarrow> name \<in> fst ` set (dv_stack b)"

text \<open>The object \<open>{ ...j, key: v }\<close>.\<close>

definition spread :: "string \<Rightarrow> json \<Rightarrow> json \<Rightarrow> json" where
  "spread key v j = (let kvs = (case j of JObj kvs \<Rightarrow> kvs | _ \<Rightarrow> []) in
     JObj (if key \<in> fst ` set kvs then map (\<lambda>p. if fst p = key then (key, v) else p) kvs else kvs @ [(key, v)]))"

section \<open>services/api.ts\<close>

definition API_URL_m :: "mobile_env \<Rightarrow> string" where
  "API_URL_m M = env_or (me_apiUrls M) ''http://localhost:3000''"

definition mobile_request :: "mobile_env \<Rightarrow> string \<Rightarrow> fetch_options \<Rightarrow> string option \<Rightarrow> http_request" where
  "mobile_request M path options token =
    (let resolved = fold (\<lambda>h. headers_set (fst h) (snd h)) (fo_headers options) [(''content-type'', ''application/json'')]
     in \<lparr>hq_method = fo_method options, hq_url = API_URL_m M @ path,
       hq_headers = (if present token then headers_set ''Authorization'' (''Bearer '' @ the token) resolved else resolved),
       hq_body = fo_body options, hq_cookie = None\<rparr>)"

definition mobile_apiFetch :: "mobile_env \<Rightarrow> string \<Rightarrow> fetch_options \<Rightarrow> string option \<Rightarrow> (exn + http_response \<Rightarrow> 'a device_scheme act) \<Rightarrow> 'a device_scheme act" where
  "mobile_apiFetch M path options tokenOverride k = Read (\<lambda>b.
     Call (mobile_request M path options (case tokenOverride of Some t \<Rightarrow> Some t | None \<Rightarrow> dv_token b)) k)"

definition mobile_apiJson :: "mobile_env \<Rightarrow> string \<Rightarrow> fetch_options \<Rightarrow> string option \<Rightarrow> (exn + api_result \<Rightarrow> 'a device_scheme act) \<Rightarrow> 'a device_scheme act" where
  "mobile_apiJson M path options tokenOverride k = mobile_apiFetch M path options tokenOverride (api_parsed k)"

definition plain_options :: "string \<Rightarrow> json option \<Rightarrow> fetch_options" where
  "plain_options meth content = \<lparr>fo_method = meth, fo_headers = [], fo_body = map_option json_stringify content\<rparr>"

section \<open>services/analytics.ts\<close>

definition mobile_event_body :: "mobile_env \<Rightarrow> 'a device_scheme \<Rightarrow> string \<Rightarrow> (string \<times> json) list \<Rightarrow> json" where
  "mobile_event_body M b name properties =
    JObj ([(''name'', JStr name), (''eventSchemaVersion'', JNum 1)] @
      (case me_randomUUID M of None \<Rightarrow> [] | Some draw \<Rightarrow> [(''eventId'', JStr (draw (dv_uuids b)))]) @
      [(''occurredAt'', JStr (date_iso (dv_clock b))), (''properties'', JObj properties)])"

definition mobile_event_headers :: "mobile_env \<Rightarrow> (string \<times> string) list" where
  "mobile_event_headers M =
    [(''X-Client-Platform'', if me_ios M then ''ios'' else ''android''), (''X-App-Version'', env_or (me_appVersions M) ''mobile-dev'')] @
    (if present (me_buildNumber M) then [(''X-Build-Number'', the (me_buildNumber M))] else []) @
    (if present (me_region M) then [(''X-Region'', the (me_region M))] else [])"

definition mobile_trackEvent :: "mobile_env \<Rightarrow> string \<Rightarrow> (string \<times> json) list \<Rightarrow> 'a device_scheme act \<Rightarrow> 'a device_scheme act" where
  "mobile_trackEvent M name properties rest = Read (\<lambda>b. Upd (\<lambda>b. b\<lparr>dv_uuids := Suc (dv_uuids b)\<rparr>) (Spawn
     (mobile_apiJson M ''/analytics/events''
       \<lparr>fo_method = ''POST'', fo_headers = mobile_event_headers M, fo_body = Some (json_stringify (mobile_event_body M b name properties))\<rparr> None (\<lambda>_. Stop))
     rest))"

section \<open>hooks/useAuth.ts\<close>

definition mobile_setToken :: "string option \<Rightarrow> 'a device_scheme \<Rightarrow> 'a device_scheme" where
  "mobile_setToken token b = b\<lparr>dv_token := (if present token then token else None), au_token := token\<rparr>"

definition mobile_setUser :: "json option \<Rightarrow> 'a device_scheme \<Rightarrow> 'a device_scheme" where
  "mobile_setUser user b = b\<lparr>dv_user := map_option json_stringify user, au_user := map_option (Pair (au_users b)) user, au_users := Suc (au_users b)\<rparr>"

definition setPendingRoute :: "json option \<Rightarrow> 'a device_scheme \<Rightarrow> 'a device_scheme" where
  "setPendingRoute route b = b\<lparr>au_pendingRoute := route, dv_pendingRoute := map_option json_stringify route\<rparr>"

definition clearPendingRoute :: "'a device_scheme \<Rightarrow> 'a device_scheme" where
  "clearPendingRoute b = b\<lparr>au_pendingRoute := None, dv_pendingRoute := None\<rparr>"

text \<open>A stored user that cannot be parsed rejects the promise and leaves the store as it is; a stored route that cannot is dropped.\<close>

definition mobile_hydrate :: "'a device_scheme \<Rightarrow> exn + 'a device_scheme" where
  "mobile_hydrate b =
    (let stored = (\<lambda>raw. if present raw then (case json_parse (the raw) of None \<Rightarrow> None | Some j \<Rightarrow> Some (not_null (Some j))) else Some None)
     in case stored (dv_user b) of
       None \<Rightarrow> Inl (JsError ''SyntaxError'')
     | Some user \<Rightarrow> Inr (b\<lparr>au_token := dv_token b, au_user := map_option (Pair (au_users b)) user, au_users := Suc (au_users b),
         au_pendingRoute := (case stored (dv_pendingRoute b) of None \<Rightarrow> None | Some route \<Rightarrow> route), au_hydrated := True\<rparr>))"

definition mobile_logout :: "'a device_scheme \<Rightarrow> 'a device_scheme" where
  "mobile_logout b = b\<lparr>dv_token := None, dv_user := None, dv_pendingRoute := None, au_token := None, au_user := None, au_pendingRoute := None\<rparr>"

text \<open>\<open>user?.tokenBalance ?? 0\<close> and \<open>{ ...(user ?? { id: '' }), tokenBalance }\<close>; a balance is an integer.\<close>

definition balance_of :: "(nat \<times> json) option \<Rightarrow> int" where
  "balance_of user = (case Option.bind user (json_get_num ''tokenBalance'' \<circ> snd) of None \<Rightarrow> 0 | Some n \<Rightarrow> n)"

definition user_or :: "json \<Rightarrow> (nat \<times> json) option \<Rightarrow> json" where
  "user_or fallback user = (case user of None \<Rightarrow> fallback | Some u \<Rightarrow> snd u)"

definition with_balance :: "(nat \<times> json) option \<Rightarrow> int \<Rightarrow> json" where
  "with_balance user n = spread ''tokenBalance'' (JNum n) (user_or (JObj [(''id'', JStr [])]) user)"

text \<open>The responses after which the application signs out.\<close>

definition signed_off :: "api_result \<Rightarrow> bool" where
  "signed_off r \<longleftrightarrow> ar_status r = 401 \<or> ar_status r = 403"

section \<open>hooks/useQueue.ts\<close>

definition resolveQueueRegion :: "mobile_env \<Rightarrow> string option \<Rightarrow> string" where
  "resolveQueueRegion M region =
    (let candidate = toLowerCase (trim (case region of Some r \<Rightarrow> r | None \<Rightarrow> env_or (me_queueRegions M) ''au''))
     in if length candidate > 0 then candidate else ''au'')"

definition queue_reset :: "'a device_scheme \<Rightarrow> 'a device_scheme" where
  "queue_reset b = b\<lparr>qs_status := Idle, qs_estimated := None, qs_match := None, qs_tokenSpent := False, qs_usersSearching := None, qs_queueKey := None\<rparr>"

definition queue_setMatch :: "json \<Rightarrow> 'a device_scheme \<Rightarrow> 'a device_scheme" where
  "queue_setMatch payload b = b\<lparr>qs_match := Some payload, qs_status := Matched, qs_estimated := None, qs_usersSearching := None,
     qs_queueKey := json_get_str ''queueKey'' payload\<rparr>"

definition markTokenSpent :: "bool \<Rightarrow> 'a device_scheme \<Rightarrow> 'a device_scheme" where
  "markTokenSpent spent b = b\<lparr>qs_tokenSpent := spent\<rparr>"

definition mobile_joinQueue :: "mobile_env \<Rightarrow> string option \<Rightarrow> (exn + unit \<Rightarrow> 'a device_scheme act) \<Rightarrow> 'a device_scheme act" where
  "mobile_joinQueue M region k = Read (\<lambda>b.
     if qs_status b = Joining \<or> qs_status b = Searching then k (Inr ())
     else Upd (\<lambda>b. b\<lparr>qs_status := Joining, qs_usersSearching := None\<rparr>)
       (mobile_apiJson M ''/queue/join'' (plain_options ''POST'' (Some (JObj [(''region'', JStr (resolveQueueRegion M region)), (''preferences'', JObj [])]))) None
         (\<lambda>response. case response of
            Inl e \<Rightarrow> k (Inl e)
          | Inr r \<Rightarrow>
              if \<not> ar_ok r then Upd (\<lambda>b. b\<lparr>qs_status := Idle\<rparr>) (k (Inl (JsError ''Queue join failed'')))
              else Upd (\<lambda>b. b\<lparr>qs_status := Searching, qs_queueKey := Option.bind (ar_data r) (json_get_str ''queueKey'')\<rparr>) (k (Inr ())))))"

text \<open>Whether the token was given back, as far as the store knows that one was spent.\<close>

definition mobile_leaveQueue :: "mobile_env \<Rightarrow> (exn + bool \<Rightarrow> 'a device_scheme act) \<Rightarrow> 'a device_scheme act" where
  "mobile_leaveQueue M k = Read (\<lambda>b0.
     if qs_status b0 = Idle then k (Inr False)
     else mobile_apiJson M ''/queue/leave'' (plain_options ''DELETE'' None) None (\<lambda>response. case response of
         Inl e \<Rightarrow> k (Inl e)
       | Inr r \<Rightarrow> Upd queue_reset (k (Inr (case Option.bind (ar_data r) (json_get ''refunded'') of
             Some (JBool refunded) \<Rightarrow> if ar_ok r then qs_tokenSpent b0 \<and> qs_status b0 \<noteq> Matched \<and> refunded
               else ar_ok r \<and> qs_tokenSpent b0 \<and> qs_status b0 \<noteq> Matched
           | _ \<Rightarrow> ar_ok r \<and> qs_tokenSpent b0 \<and> qs_status b0 \<noteq> Matched)))))"

definition with_anonymousId :: "json \<Rightarrow> json" where
  "with_anonymousId payload = (case not_null (json_get ''partnerAnonymousId'' payload) of
      Some v \<Rightarrow> spread ''partnerAnonymousId'' v payload
    | None \<Rightarrow> (case json_get ''partnerId'' payload of
          Some v \<Rightarrow> spread ''partnerAnonymousId'' v payload
        | None \<Rightarrow> (case payload of JObj kvs \<Rightarrow> JObj (filter (\<lambda>p. fst p \<noteq> ''partnerAnonymousId'') kvs) | _ \<Rightarrow> JObj [])))"

definition number_field :: "string \<Rightarrow> json \<Rightarrow> int option" where
  "number_field key j = json_get_num key j"

text \<open>The events of the sockets; \<open>message:new\<close> and \<open>session:start\<close> go to the store of \<open>useWebSocket\<close>.\<close>

definition socket_event :: "string \<times> json \<Rightarrow> 'a device_scheme \<Rightarrow> 'a device_scheme" where
  "socket_event e b =
    (if fst e = ''match'' \<or> fst e = ''match:found'' then queue_setMatch (with_anonymousId (snd e)) b
     else if fst e = ''queue:estimate''
     then b\<lparr>qs_estimated := (case not_null (json_get ''estimatedSeconds'' (snd e)) of Some _ \<Rightarrow> number_field ''estimatedSeconds'' (snd e)
       | None \<Rightarrow> number_field ''etaSeconds'' (snd e))\<rparr>
     else if fst e = ''queue:status'' then b\<lparr>qs_usersSearching := number_field ''usersSearching'' (snd e)\<rparr>
     else if fst e = ''disconnect'' then b\<lparr>qs_estimated := None, qs_usersSearching := None\<rparr>
     else if fst e = ''session:start'' then b\<lparr>ws_lastSessionStart := Some (snd e)\<rparr>
     else if fst e = ''message:new'' then b\<lparr>ws_lastMessage := Some (snd e, dv_clock b)\<rparr>
     else b)"

text \<open>The effect of \<open>useWebSocket\<close> on a token that is gone.\<close>

definition sockets_closed :: "'a device_scheme \<Rightarrow> 'a device_scheme" where
  "sockets_closed b = (if present (au_token b) then b else b\<lparr>ws_lastMessage := None, ws_lastSessionStart := None\<rparr>)"

section \<open>Schedules\<close>

text \<open>
  An event of the application: the answer to the request with an index, or something else (a touch, a socket, a timer) that starts an
  activity. After it the effects of the next render run. The application uses no cookie.
\<close>

datatype 'b app_event = Answered int nat | Started int "'b act"

definition app_perform :: "'a device_scheme act \<Rightarrow> int \<Rightarrow> 'a device_scheme act \<Rightarrow> ('a device_scheme, 's) page \<Rightarrow> ('a device_scheme, 's) page" where
  "app_perform effects t a p =
    (let (ts, b) = settle_with (\<lambda>_. None) (Spawn a effects) ((pg_browser p)\<lparr>dv_clock := t\<rparr>)
     in p\<lparr>pg_browser := b, pg_inflight := pg_inflight p @ ts\<rparr>)"

fun app_step :: "'a device_scheme act \<Rightarrow> 's net \<Rightarrow> 'a device_scheme app_event \<Rightarrow> ('a device_scheme, 's) page \<Rightarrow> ('a device_scheme, 's) page" where
  "app_step effects net (Started t a) p = app_perform effects t a p"
| "app_step effects net (Answered t i) p =
    (if i < length (pg_inflight p)
     then (case pg_inflight p ! i of (q, k) \<Rightarrow> let (r, s) = net t q (pg_server p) in
       app_perform effects t (k r) (p\<lparr>pg_server := s, pg_inflight := take i (pg_inflight p) @ drop (Suc i) (pg_inflight p)\<rparr>))
     else p)"

definition app_run :: "'a device_scheme act \<Rightarrow> 's net \<Rightarrow> 'a device_scheme app_event list \<Rightarrow> ('a device_scheme, 's) page \<Rightarrow> ('a device_scheme, 's) page" where
  "app_run effects net es p = fold (app_step effects net) es p"

end
