(* ===== verification/Mobile_Laws.thy ===== *)
theory Mobile_Laws
  imports Mobile_Client
begin

text \<open>What the calls of \<open>Mobile_Client\<close> send, and what a step of the application does.\<close>

section \<open>Activities of the device\<close>

abbreviation run_act :: "'a device_scheme act \<Rightarrow> 'a device_scheme \<Rightarrow> 'a device_scheme waiting_call list \<times> 'a device_scheme" where
  "run_act \<equiv> settle_with (\<lambda>_. None)"

lemma mobile_request_cookie [simp]: "(mobile_request M path options token)\<lparr>hq_cookie := None\<rparr> = mobile_request M path options token"
  by (simp add: mobile_request_def Let_def)

lemma run_apiJson [simp]: "run_act (mobile_apiJson M path options t k) b =
    ([(mobile_request M path options (case t of Some t \<Rightarrow> Some t | None \<Rightarrow> dv_token b), api_parsed k)], b)"
  by (simp add: mobile_apiJson_def mobile_apiFetch_def)

lemma mobile_url [simp]: "hq_url (mobile_request M path options token) = API_URL_m M @ path" "hq_method (mobile_request M path options token) = fo_method options"
  by (simp_all add: mobile_request_def Let_def)

lemma api_parsed_ok: "api_parsed k (Inr r) = k (Inr \<lparr>ar_ok = response_ok r, ar_status = hs_status r, ar_data = hs_json r\<rparr>)"
  by (simp add: api_parsed_def)

section \<open>Steps\<close>

lemma step_started: "run_act (Spawn a effects) ((pg_browser p)\<lparr>dv_clock := t\<rparr>) = (ts, b) \<Longrightarrow>
    app_step effects net (Started t a) p = p\<lparr>pg_browser := b, pg_inflight := pg_inflight p @ ts\<rparr>"
  by (simp add: app_perform_def)

lemma app_run_append: "app_run effects net (xs @ ys) p = app_run effects net ys (app_run effects net xs p)"
  by (simp add: app_run_def)

text \<open>The environment of the witnesses.\<close>

definition plain_mobile :: mobile_env where
  "plain_mobile = \<lparr>me_apiUrls = (Some ''https://verity'', None), me_ios = True, me_appVersions = (None, None), me_buildNumber = None, me_region = None,
     me_queueRegions = (None, None), me_randomUUID = None, me_canOpenURL = (\<lambda>_. True)\<rparr>"

definition ok_response :: "json \<Rightarrow> http_response" where
  "ok_response j = \<lparr>hs_status = 200, hs_json = Some j, hs_setCookie = None\<rparr>"

lemma ok_response_simps [simp]: "response_ok (ok_response j)" "hs_json (ok_response j) = Some j" "hs_status (ok_response j) = 200"
  by (simp_all add: ok_response_def response_ok_def)

end
