(* ===== verification/Mobile_Session.thy ===== *)
theory Mobile_Session
  imports Mobile_Client
begin

text \<open>
  The screens of the mobile application from the start of a search to the decision: \<open>HomeScreen.tsx\<close>, \<open>WaitingScreen.tsx\<close>,
  \<open>VideoCallScreen.tsx\<close> and \<open>DecisionScreen.tsx\<close> of \<open>src/verity-mobile/src/screens\<close>, with \<open>hooks/useDecision.ts\<close>,
  \<open>components/CountdownTimer.tsx\<close> and the gate of \<open>navigation/AppNavigator.tsx\<close>. A handler uses the values of the last render. The effects
  of a screen are an activity that runs after each render; what an effect does again with unchanged values is what its guards leave.
\<close>

section \<open>screens/HomeScreen.tsx\<close>

definition home_handleStart :: "mobile_env \<Rightarrow> 'a device_scheme act" where
  "home_handleStart M = Read (\<lambda>b.
     if balance_of (au_user b) \<le> 0 then Upd (nav_navigate ''TokenShop'' None) Stop
     else mobile_joinQueue M None (\<lambda>r. case r of Inl e \<Rightarrow> Stop | Inr u \<Rightarrow> Upd (nav_navigate ''Waiting'' None) Stop))"

section \<open>screens/WaitingScreen.tsx\<close>

definition MOBILE_WAIT_TIMEOUT_SECONDS :: int where "MOBILE_WAIT_TIMEOUT_SECONDS = 45"

text \<open>\<open>wt_user\<close> is the user that the cleanup of the last effect on the user has in its closure.\<close>

record waiting_screen = device +
  wt_mounted :: bool
  wt_statusRef :: queue_status
  wt_lastNavigatedSession :: "string option"
  wt_timeoutPromptTracked :: bool
  wt_seconds :: int
  wt_showTimeoutPrompt :: bool
  wt_user :: "(nat \<times> json) option"

definition open_waiting_screen :: "waiting_screen \<Rightarrow> waiting_screen" where
  "open_waiting_screen b = b\<lparr>wt_mounted := True, wt_statusRef := qs_status b, wt_lastNavigatedSession := None, wt_timeoutPromptTracked := False,
     wt_seconds := 0, wt_showTimeoutPrompt := False, wt_user := au_user b\<rparr>"

definition refund_user :: "(nat \<times> json) option \<Rightarrow> 'a device_scheme \<Rightarrow> 'a device_scheme" where
  "refund_user user = mobile_setUser (Some (with_balance user (balance_of user + 1)))"

text \<open>The cleanup of the effect on \<open>[leaveQueue, setUser, user]\<close>: it leaves the queue.\<close>

definition waiting_cleanup :: "mobile_env \<Rightarrow> (nat \<times> json) option \<Rightarrow> waiting_screen act" where
  "waiting_cleanup M user = Read (\<lambda>b.
     if wt_statusRef b = Matched \<or> wt_statusRef b = Idle then Stop
     else mobile_leaveQueue M (\<lambda>r. case r of
         Inl e \<Rightarrow> Stop
       | Inr refund \<Rightarrow> if refund then Upd (refund_user user) Stop else Stop))"

definition sessionKey_of :: "json \<Rightarrow> string" where
  "sessionKey_of m = (case json_get_str ''sessionId'' m of Some s \<Rightarrow> s | None \<Rightarrow> ''__unknown_session__'')"

definition match_effect :: "waiting_screen act" where
  "match_effect = Upd (\<lambda>b. case qs_match b of
      None \<Rightarrow> b
    | Some m \<Rightarrow>
        if wt_lastNavigatedSession b = Some (sessionKey_of m) then b
        else nav_reset ''VideoCall'' (Some m) (b\<lparr>wt_lastNavigatedSession := Some (sessionKey_of m)\<rparr>)) Stop"

definition queueKey_or_empty :: "'a device_scheme \<Rightarrow> json" where
  "queueKey_or_empty b = JStr (case qs_queueKey b of None \<Rightarrow> [] | Some k \<Rightarrow> k)"

definition mobile_timeout_effect :: "mobile_env \<Rightarrow> waiting_screen act" where
  "mobile_timeout_effect M = Read (\<lambda>b.
     if qs_status b \<noteq> Searching then Stop
     else if wt_showTimeoutPrompt b \<or> wt_timeoutPromptTracked b then Stop
     else if wt_seconds b < MOBILE_WAIT_TIMEOUT_SECONDS then Stop
     else Upd (\<lambda>b. b\<lparr>wt_timeoutPromptTracked := True, wt_showTimeoutPrompt := True\<rparr>)
       (mobile_trackEvent M ''queue_timeout_shown'' [(''queueKey'', queueKey_or_empty b), (''elapsedSeconds'', JNum (wt_seconds b))] Stop))"

text \<open>
  A render of the stack: a screen that is new is mounted; one that stays has the cleanup of its effect on the user run when the user is
  another object, and then the effects in their order; one that is gone has its cleanup run.
\<close>

definition waiting_stays :: "mobile_env \<Rightarrow> waiting_screen act" where
  "waiting_stays M = Read (\<lambda>b.
     if \<not> on_stack ''Waiting'' b then Stop
     else Spawn
       (if \<not> wt_mounted b then Upd open_waiting_screen Stop
        else if au_user b \<noteq> wt_user b then Spawn (waiting_cleanup M (wt_user b)) (Upd (\<lambda>b. b\<lparr>wt_user := au_user b\<rparr>) Stop)
        else Stop)
       (Upd (\<lambda>b. b\<lparr>wt_statusRef := qs_status b\<rparr>) (Spawn match_effect (mobile_timeout_effect M))))"

definition waiting_leaves :: "mobile_env \<Rightarrow> waiting_screen act" where
  "waiting_leaves M = Read (\<lambda>b.
     if wt_mounted b \<and> \<not> on_stack ''Waiting'' b then Upd (\<lambda>b. b\<lparr>wt_mounted := False\<rparr>) (waiting_cleanup M (wt_user b)) else Stop)"

definition waiting_effects :: "mobile_env \<Rightarrow> waiting_screen act" where
  "waiting_effects M = Spawn (waiting_leaves M) (Spawn (waiting_stays M) (waiting_leaves M))"

definition waiting_tick :: "waiting_screen act" where
  "waiting_tick = Upd (\<lambda>b. if wt_mounted b then b\<lparr>wt_seconds := wt_seconds b + 1\<rparr> else b) Stop"

definition mobile_handleCancel :: "mobile_env \<Rightarrow> bool \<Rightarrow> waiting_screen act" where
  "mobile_handleCancel M timeout = Read (\<lambda>b0. mobile_leaveQueue M (\<lambda>r. case r of
      Inl e \<Rightarrow> Stop
    | Inr refund \<Rightarrow>
        (let finish = (if refund then Upd (refund_user (au_user b0)) (Upd nav_goBack Stop) else Upd nav_goBack Stop)
         in if timeout
            then mobile_trackEvent M ''queue_timeout_leave''
              [(''queueKey'', queueKey_or_empty b0), (''elapsedSeconds'', JNum (wt_seconds b0)), (''refunded'', JBool refund)] finish
            else finish)))"

definition mobile_handleKeepSearching :: "mobile_env \<Rightarrow> waiting_screen act" where
  "mobile_handleKeepSearching M = Read (\<lambda>b. Upd (\<lambda>b. b\<lparr>wt_showTimeoutPrompt := False\<rparr>)
     (mobile_trackEvent M ''queue_timeout_continue'' [(''queueKey'', queueKey_or_empty b), (''elapsedSeconds'', JNum (wt_seconds b))] Stop))"

definition mobile_statusCopy :: "'a device_scheme \<Rightarrow> string" where
  "mobile_statusCopy b = (case qs_usersSearching b of
      Some n \<Rightarrow> show_int n @ '' Online''
    | None \<Rightarrow> (case qs_estimated b of
          Some s \<Rightarrow> if s \<noteq> 0 then ''< '' @ show_int s @ ''s Wait'' else ''Matching fast...''
        | None \<Rightarrow> ''Matching fast...''))"

definition timerStr :: "int \<Rightarrow> string" where
  "timerStr seconds = show_int (seconds div 60) @ '':'' @ (if seconds mod 60 < 10 then ''0'' else []) @ show_int (seconds mod 60)"

section \<open>screens/VideoCallScreen.tsx\<close>

text \<open>What the screen takes from its parameters and the last start of a session; \<open>legacy\<close> is \<open>legacyBootstrapEnabled\<close>.\<close>

definition call_sessionStart :: "json option \<Rightarrow> json option \<Rightarrow> json option" where
  "call_sessionStart params lastSessionStart =
    (let routeSessionId = Option.bind params (json_get_str ''sessionId'') in case lastSessionStart of
       None \<Rightarrow> None
     | Some s \<Rightarrow> if \<not> present routeSessionId \<or> json_get_str ''sessionId'' s = routeSessionId then Some s else None)"

definition call_sessionId :: "json option \<Rightarrow> json option \<Rightarrow> string option" where
  "call_sessionId params start = (case Option.bind params (json_get_str ''sessionId'') of
      Some s \<Rightarrow> Some s | None \<Rightarrow> Option.bind start (json_get_str ''sessionId''))"

definition call_token :: "json option \<Rightarrow> json option \<Rightarrow> bool \<Rightarrow> string option" where
  "call_token params start legacy = (case Option.bind (Option.bind start (json_get ''rtc'')) (json_get_str ''token'') of
      Some t \<Rightarrow> Some t | None \<Rightarrow> if legacy then Option.bind params (json_get_str ''channelToken'') else None)"

definition call_channel :: "json option \<Rightarrow> json option \<Rightarrow> bool \<Rightarrow> string option" where
  "call_channel params start legacy = (case Option.bind start (json_get_str ''channelName'') of
      Some c \<Rightarrow> Some c | None \<Rightarrow> if legacy then Option.bind params (json_get_str ''agoraChannel'') else None)"

definition call_duration :: "json option \<Rightarrow> int" where
  "call_duration start = (case Option.bind start (json_get_num ''durationSeconds'') of Some n \<Rightarrow> n | None \<Rightarrow> 45)"

text \<open>The channel and the token with which the effect joins the call: both are needed.\<close>

definition call_joins :: "json option \<Rightarrow> json option \<Rightarrow> bool \<Rightarrow> (string \<times> string) option" where
  "call_joins params lastSessionStart legacy =
    (let start = call_sessionStart params lastSessionStart; channel = call_channel params start legacy; token = call_token params start legacy
     in if present channel \<and> present token then Some (the channel, the token) else None)"

definition endSession_m :: "string option \<Rightarrow> 'a device_scheme \<Rightarrow> 'a device_scheme" where
  "endSession_m sessionId b =
    (if \<not> present sessionId then nav_reset ''Main'' (Some (JObj [(''screen'', JStr ''Home'')])) b
     else nav_reset ''Decision'' (Some (JObj [(''sessionId'', JStr (the sessionId))])) b)"

definition handleSessionEnd_m :: "string option \<Rightarrow> json \<Rightarrow> 'a device_scheme \<Rightarrow> 'a device_scheme" where
  "handleSessionEnd_m sessionId payload b =
    (if \<not> present (json_get_str ''sessionId'' payload) \<or> json_get_str ''sessionId'' payload = sessionId then endSession_m sessionId b else b)"

section \<open>components/CountdownTimer.tsx\<close>

text \<open>The rest of the call, whether the end has been reported, and whether it is reported now.\<close>

definition countdown_start :: "int \<Rightarrow> int \<times> bool" where
  "countdown_start durationSeconds = (durationSeconds, False)"

definition countdown_effect :: "bool \<Rightarrow> int \<times> bool \<Rightarrow> (int \<times> bool) \<times> bool" where
  "countdown_effect isActive t = (case t of (remaining, completed) \<Rightarrow>
     if \<not> isActive then (t, False)
     else if remaining \<le> 0 then ((remaining, True), \<not> completed)
     else (t, False))"

definition countdown_tick :: "bool \<Rightarrow> int \<times> bool \<Rightarrow> (int \<times> bool) \<times> bool" where
  "countdown_tick isActive t = (case t of (remaining, completed) \<Rightarrow>
     countdown_effect isActive (if isActive \<and> remaining > 0 then (max 0 (remaining - 1), completed) else t))"

section \<open>hooks/useDecision.ts and screens/DecisionScreen.tsx\<close>

datatype decision_status = DIdle | DSubmitting | DWaiting | DResolved

record mobile_result =
  mr_mutual :: bool
  mr_matchId :: "json option"
  mr_partnerRevealVersion :: "json option"
  mr_partnerReveal :: "json option"

record decision_screen = device +
  ds_sessionId :: "string option"
  ds_choice :: "string option"
  ds_status :: decision_status
  ds_result :: "mobile_result option"
  ds_submitted :: bool
  ds_timer :: "int option"

definition result_of :: "json \<Rightarrow> mobile_result" where
  "result_of data = (let mutual = json_get ''outcome'' data = Some (JStr ''mutual''); part = (\<lambda>key. if mutual then json_get key data else None)
     in \<lparr>mr_mutual = mutual, mr_matchId = part ''matchId'', mr_partnerRevealVersion = part ''partnerRevealVersion'', mr_partnerReveal = part ''partnerReveal''\<rparr>)"

definition mobile_choice_answered :: "exn + api_result \<Rightarrow> decision_screen act" where
  "mobile_choice_answered response = (case response of
      Inl e \<Rightarrow> Stop
    | Inr r \<Rightarrow>
        if signed_off r then Upd (alert ''Session expired'' ''Please log in again.'') (Upd mobile_logout Stop)
        else if \<not> ar_ok r
        then Upd (alert ''Submission failed'' ''Unable to submit your choice.'') (Upd (\<lambda>b. b\<lparr>ds_submitted := False, ds_status := DIdle\<rparr>) Stop)
        else (case ar_data r of
            Some data \<Rightarrow> if json_get ''status'' data = Some (JStr ''resolved'')
              then Upd (\<lambda>b. b\<lparr>ds_result := Some (result_of data), ds_status := DResolved\<rparr>) Stop
              else Upd (\<lambda>b. b\<lparr>ds_status := DWaiting\<rparr>) Stop
          | None \<Rightarrow> Upd (\<lambda>b. b\<lparr>ds_status := DWaiting\<rparr>) Stop))"

definition mobile_submitChoice :: "mobile_env \<Rightarrow> string \<Rightarrow> decision_screen act" where
  "mobile_submitChoice M next = Read (\<lambda>b.
     if \<not> present (ds_sessionId b) then Upd (alert ''Session missing'' ''Unable to submit your choice.'') Stop
     else if ds_submitted b then Stop
     else Upd (\<lambda>b. b\<lparr>ds_submitted := True, ds_status := DSubmitting, ds_choice := Some next\<rparr>)
       (mobile_apiJson M (''/sessions/'' @ the (ds_sessionId b) @ ''/choice'') (plain_options ''POST'' (Some (JObj [(''choice'', JStr next)]))) None
         mobile_choice_answered))"

text \<open>The timer of a minute: when it is due, and what it does then. It is set once.\<close>

definition startAutoPass :: "decision_screen \<Rightarrow> decision_screen" where
  "startAutoPass b = (if ds_timer b \<noteq> None then b else b\<lparr>ds_timer := Some (dv_clock b + 60000)\<rparr>)"

definition auto_pass :: "mobile_env \<Rightarrow> decision_screen act" where
  "auto_pass M = Read (\<lambda>b. if ds_submitted b then Stop else mobile_submitChoice M ''PASS'')"

definition other_session :: "decision_screen \<Rightarrow> json \<Rightarrow> bool" where
  "other_session b payload \<longleftrightarrow> present (ds_sessionId b) \<and> present (json_get_str ''sessionId'' payload) \<and> json_get_str ''sessionId'' payload \<noteq> ds_sessionId b"

definition mobile_handleMutual :: "json \<Rightarrow> decision_screen \<Rightarrow> decision_screen" where
  "mobile_handleMutual payload b = (if other_session b payload then b
     else b\<lparr>ds_result := Some \<lparr>mr_mutual = True, mr_matchId = json_get ''matchId'' payload, mr_partnerRevealVersion = json_get ''partnerRevealVersion'' payload,
         mr_partnerReveal = json_get ''partnerReveal'' payload\<rparr>, ds_status := DResolved\<rparr>)"

definition mobile_handleRejected :: "json \<Rightarrow> decision_screen \<Rightarrow> decision_screen" where
  "mobile_handleRejected payload b = (if other_session b payload then b
     else b\<lparr>ds_result := Some \<lparr>mr_mutual = False, mr_matchId = None, mr_partnerRevealVersion = None, mr_partnerReveal = None\<rparr>, ds_status := DResolved\<rparr>)"

definition decision_socket_event :: "string \<times> json \<Rightarrow> decision_screen \<Rightarrow> decision_screen" where
  "decision_socket_event e b =
    (if fst e = ''match:mutual'' then mobile_handleMutual (snd e) b
     else if fst e = ''match:non_mutual'' \<or> fst e = ''match:rejected'' then mobile_handleRejected (snd e) b
     else b)"

text \<open>The effect of the screen on a new result. The alerts' apostrophe is the right single quotation mark, in UTF-8.\<close>

definition mobile_apostrophe :: string where "mobile_apostrophe = [CHR 0xE2, CHR 0x80, CHR 0x99]"

definition result_effect :: "mobile_result \<Rightarrow> 'a device_scheme \<Rightarrow> 'a device_scheme" where
  "result_effect result b =
    (if mr_mutual result
     then (case not_null (mr_matchId result) of
         Some matchId \<Rightarrow> nav_reset ''MatchProfile'' (Some (JObj ([(''matchId'', matchId)] @
             (case mr_partnerReveal result of None \<Rightarrow> [] | Some r \<Rightarrow> [(''partnerReveal'', r)]))))
           (alert (''It'' @ mobile_apostrophe @ ''s a match!'') ''You can start chatting now.'' b)
       | None \<Rightarrow> nav_reset ''Main'' (Some (JObj [(''screen'', JStr ''Matches'')]))
           (alert (''It'' @ mobile_apostrophe @ ''s a match!'') ''You can start chatting now.'' b))
     else nav_reset ''Main'' (Some (JObj [(''screen'', JStr ''Home'')]))
       (alert ''Not a match this time'' (''We'' @ mobile_apostrophe @ ''ll get you back in the queue.'') b))"

section \<open>navigation/AppNavigator.tsx\<close>

text \<open>The effect of \<open>AuthGate\<close> for a screen and its parameters, and the effect on the token; \<open>prev\<close> is the token it saw before.\<close>

definition auth_gate :: "string \<times> json option \<Rightarrow> 'a device_scheme \<Rightarrow> 'a device_scheme" where
  "auth_gate route b =
    (if present (au_token b) then b
     else nav_reset ''Onboarding'' None (setPendingRoute (Some (JObj ([(''name'', JStr (fst route))] @
       (case snd route of None \<Rightarrow> [] | Some params \<Rightarrow> [(''params'', params)])))) b))"

definition token_effect :: "string option \<Rightarrow> 'a device_scheme \<Rightarrow> 'a device_scheme" where
  "token_effect prev b =
    (if \<not> au_hydrated b then b
     else if \<not> present prev \<and> present (au_token b)
     then (case au_pendingRoute b of
         Some route \<Rightarrow> clearPendingRoute (nav_navigate (case json_get_str ''name'' route of Some n \<Rightarrow> n | None \<Rightarrow> []) (json_get ''params'' route) b)
       | None \<Rightarrow> nav_reset ''Main'' None b)
     else b)"

end
