(* ===== verification/Mobile_Account.thy ===== *)
theory Mobile_Account
  imports Mobile_Client
begin

text \<open>
  The token shop and the settings of the mobile application: \<open>hooks/usePurchaseTokens.ts\<close>, \<open>services/stripe.ts\<close>,
  \<open>screens/TokenShopScreen.tsx\<close> and the screens of \<open>screens/settings\<close> and \<open>screens/onboarding/ProfileSetupScreen.tsx\<close>, all under
  \<open>src/verity-mobile/src\<close>. A callback has the token and the user of the render that made it as arguments. A screen that is
  no longer mounted ignores what sets its state.
\<close>

section \<open>hooks/usePurchaseTokens.ts\<close>

definition tokenBalance_in :: "json \<Rightarrow> int" where
  "tokenBalance_in data = (case json_get_num ''tokenBalance'' data of None \<Rightarrow> 0 | Some n \<Rightarrow> n)"

text \<open>The state of the hook is set by \<open>setRefreshing\<close> and \<open>setError\<close>; what follows the \<open>await\<close> of \<open>refreshBalance\<close> comes first.\<close>

definition balance_answered :: "(bool \<Rightarrow> 'a device_scheme \<Rightarrow> 'a device_scheme) \<Rightarrow> (string option \<Rightarrow> 'a device_scheme \<Rightarrow> 'a device_scheme) \<Rightarrow>
    (nat \<times> json) option \<Rightarrow> (exn + int option \<Rightarrow> 'a device_scheme act) \<Rightarrow> exn + api_result \<Rightarrow> 'a device_scheme act" where
  "balance_answered setRefreshing setError user k response = (case response of
      Inl e \<Rightarrow> k (Inl e)
    | Inr r \<Rightarrow>
        if signed_off r
        then Upd (setError (Some ''Session expired. Please log in again.'')) (Upd mobile_logout (Upd (setRefreshing False) (k (Inr None))))
        else if \<not> ar_ok r \<or> response_body r = None
        then Upd (setError (Some ''Unable to refresh token balance.'')) (Upd (setRefreshing False) (k (Inr None)))
        else (let nextBalance = tokenBalance_in (the (response_body r)) in
          Upd (mobile_setUser (Some (with_balance user nextBalance))) (Upd (setRefreshing False) (k (Inr (Some nextBalance))))))"

definition refreshBalance :: "mobile_env \<Rightarrow> (bool \<Rightarrow> 'a device_scheme \<Rightarrow> 'a device_scheme) \<Rightarrow> (string option \<Rightarrow> 'a device_scheme \<Rightarrow> 'a device_scheme) \<Rightarrow>
    string option \<Rightarrow> (nat \<times> json) option \<Rightarrow> (exn + int option \<Rightarrow> 'a device_scheme act) \<Rightarrow> 'a device_scheme act" where
  "refreshBalance M setRefreshing setError token user k =
    (if \<not> present token then k (Inr None)
     else Upd (setRefreshing True) (Upd (setError None)
       (mobile_apiJson M ''/tokens/balance'' (plain_options ''GET'' None) token (balance_answered setRefreshing setError user k))))"

section \<open>services/stripe.ts\<close>

text \<open>A link of the response; \<open>null\<close> and \<open>undefined\<close> fall through to the next.\<close>

definition link_in :: "string \<Rightarrow> json \<Rightarrow> json option" where
  "link_in key data = not_null (json_get key data)"

definition resolveCheckoutUrl :: "json \<Rightarrow> json option" where
  "resolveCheckoutUrl payload = (case link_in ''checkoutUrl'' payload of
      Some u \<Rightarrow> Some u
    | None \<Rightarrow> (case link_in ''url'' payload of Some u \<Rightarrow> Some u | None \<Rightarrow> link_in ''sessionUrl'' payload))"

datatype redirect_status = RSuccess | RCancel | RUnknown

text \<open>\<open>parts url\<close> is the path name of an URL and its parameter \<open>session_id\<close>, as \<open>URL\<close> of the platform has them; \<open>None\<close> when it throws.\<close>

definition parseStripeRedirect :: "(string \<Rightarrow> (string \<times> string option) option) \<Rightarrow> string \<Rightarrow> redirect_status \<times> string option" where
  "parseStripeRedirect parts url =
    (let path = (case parts url of None \<Rightarrow> [] | Some (p, s) \<Rightarrow> if p \<noteq> [] \<and> hd p = CHR ''/'' then tl p else p);
         sessionId = (case parts url of None \<Rightarrow> None | Some (p, s) \<Rightarrow> s)
     in if startsWith path ''tokens/success'' then (RSuccess, sessionId)
        else if startsWith path ''tokens/cancel'' then (RCancel, sessionId)
        else (RUnknown, None))"

section \<open>screens/TokenShopScreen.tsx\<close>

text \<open>
  \<open>sh_poll\<close> is the timer: the balance before the purchase, the time it started, and the token and the user of its \<open>refreshBalance\<close>.
  \<open>sh_deps\<close> holds the token and the user that the effects on \<open>refreshBalance\<close> ran with; \<open>sh_status\<close> is the status of the route.
\<close>

record shop_screen = device +
  sh_status :: "string option"
  sh_refreshing :: bool
  sh_refreshError :: "string option"
  sh_purchasing :: bool
  sh_error :: "string option"
  sh_polling :: bool
  sh_poll :: "(int \<times> int \<times> string option \<times> (nat \<times> json) option) option"
  sh_lastBalance :: int
  sh_opened :: "string list"
  sh_deps :: "(string option \<times> (nat \<times> json) option) option"

definition open_shop :: "device \<Rightarrow> string option \<Rightarrow> shop_screen" where
  "open_shop b status = device.extend b \<lparr>sh_status = status, sh_refreshing = False, sh_refreshError = None, sh_purchasing = False, sh_error = None,
     sh_polling = False, sh_poll = None, sh_lastBalance = balance_of (au_user b), sh_opened = [], sh_deps = None\<rparr>"

definition setRefreshing_sh :: "bool \<Rightarrow> shop_screen \<Rightarrow> shop_screen" where "setRefreshing_sh x b = b\<lparr>sh_refreshing := x\<rparr>"
definition setError_sh :: "string option \<Rightarrow> shop_screen \<Rightarrow> shop_screen" where "setError_sh e b = b\<lparr>sh_refreshError := e\<rparr>"

abbreviation shop_refresh :: "mobile_env \<Rightarrow> string option \<Rightarrow> (nat \<times> json) option \<Rightarrow> (exn + int option \<Rightarrow> shop_screen act) \<Rightarrow> shop_screen act" where
  "shop_refresh M \<equiv> refreshBalance M setRefreshing_sh setError_sh"

definition stopPolling :: "shop_screen \<Rightarrow> shop_screen" where
  "stopPolling b = b\<lparr>sh_poll := None, sh_polling := False\<rparr>"

definition startPolling :: "string option \<Rightarrow> (nat \<times> json) option \<Rightarrow> int \<Rightarrow> shop_screen \<Rightarrow> shop_screen" where
  "startPolling token user baseline b = (if sh_poll b \<noteq> None then b
     else b\<lparr>sh_polling := True, sh_poll := Some (baseline, dv_clock b, token, user)\<rparr>)"

text \<open>The callback of the interval, every three seconds while there is one.\<close>

definition poll_tick :: "mobile_env \<Rightarrow> shop_screen act" where
  "poll_tick M = Read (\<lambda>b. case sh_poll b of
      None \<Rightarrow> Stop
    | Some (baseline, startedAt, token, user) \<Rightarrow> shop_refresh M token user (\<lambda>r. case r of
          Inl e \<Rightarrow> Stop
        | Inr nextBalance \<Rightarrow>
            if (case nextBalance of Some n \<Rightarrow> n > baseline | None \<Rightarrow> False)
            then Upd stopPolling (Upd (alert ''Tokens added'' ''Your token balance has been updated.'') Stop)
            else Upd (\<lambda>b. if dv_clock b - startedAt > 30000 then stopPolling b else b) Stop))"

definition redirect_done :: "exn + int option \<Rightarrow> shop_screen act" where
  "redirect_done r = (case r of Inl e \<Rightarrow> Stop | Inr n \<Rightarrow> Upd (alert ''Purchase complete'' ''Your tokens are ready.'') Stop)"

definition handleRedirectResult :: "mobile_env \<Rightarrow> string option \<Rightarrow> (nat \<times> json) option \<Rightarrow> redirect_status \<Rightarrow> shop_screen act" where
  "handleRedirectResult M token user result =
    (if result = RSuccess then Upd stopPolling (shop_refresh M token user redirect_done)
     else if result = RCancel then Upd stopPolling (Upd (alert ''Checkout canceled'' ''You can try another pack anytime.'') Stop)
     else Stop)"

definition ignore_balance :: "exn + int option \<Rightarrow> shop_screen act" where
  "ignore_balance r = Stop"

text \<open>
  The effects: the last balance; the refresh, whose cleanup stops the polling; the status of the route. Left out is the effect of
  \<open>useStripeRedirectHandler\<close> on the URL that has opened the application, if one has (\<open>Linking.getInitialURL\<close>): like the status of the
  route it calls \<open>handleRedirectResult\<close>.
\<close>

definition shop_effects :: "mobile_env \<Rightarrow> shop_screen act" where
  "shop_effects M = Upd (\<lambda>b. b\<lparr>sh_lastBalance := balance_of (au_user b)\<rparr>) (Read (\<lambda>b.
     if sh_deps b = Some (au_token b, au_user b) then Stop
     else Upd (\<lambda>b. (if sh_deps b = None then b else stopPolling b)\<lparr>sh_deps := Some (au_token b, au_user b)\<rparr>)
       (Spawn (shop_refresh M (au_token b) (au_user b) ignore_balance)
         (if sh_status b = Some ''success'' then handleRedirectResult M (au_token b) (au_user b) RSuccess
          else if sh_status b = Some ''cancel'' then handleRedirectResult M (au_token b) (au_user b) RCancel
          else Stop))))"

text \<open>\<open>purchasePack\<close> and \<open>handlePurchase\<close>; the alerts and the messages of the hook are the same.\<close>

definition purchase_failed :: "string \<Rightarrow> string \<Rightarrow> shop_screen \<Rightarrow> shop_screen" where
  "purchase_failed title message b = alert title message (b\<lparr>sh_error := Some message\<rparr>)"

definition purchasePack :: "mobile_env \<Rightarrow> string option \<Rightarrow> string \<Rightarrow> (bool \<Rightarrow> shop_screen act) \<Rightarrow> shop_screen act" where
  "purchasePack M token packId k =
    (if \<not> present token then Upd (purchase_failed ''Sign in required'' ''Please sign in to purchase tokens.'') (k False)
     else (let finish = (\<lambda>done. Upd (\<lambda>b. b\<lparr>sh_purchasing := False\<rparr>) (k done))
       in Upd (\<lambda>b. b\<lparr>sh_purchasing := True, sh_error := None\<rparr>)
         (mobile_apiJson M ''/tokens/purchase'' (plain_options ''POST'' (Some (JObj [(''packId'', JStr packId)]))) token (\<lambda>response. case response of
            Inl e \<Rightarrow> Upd (purchase_failed ''Checkout failed'' (case e of JsError m \<Rightarrow> m | _ \<Rightarrow> ''Unable to start checkout.'')) (finish False)
          | Inr r \<Rightarrow>
              if signed_off r
              then Upd (purchase_failed ''Session expired'' ''Session expired. Please log in again.'') (Upd mobile_logout (finish False))
              else if \<not> ar_ok r \<or> response_body r = None
              then Upd (purchase_failed ''Checkout failed'' ''Unable to start checkout right now.'') (finish False)
              else (case resolveCheckoutUrl (the (response_body r)) of
                  Some (JStr url) \<Rightarrow>
                    if url = [] then Upd (purchase_failed ''Checkout failed'' ''Checkout URL missing from the server.'') (finish False)
                    else if me_canOpenURL M url then Upd (\<lambda>b. b\<lparr>sh_opened := sh_opened b @ [url]\<rparr>) (finish True)
                    else Upd (purchase_failed ''Checkout failed'' ''Unable to open Stripe Checkout URL.'') (finish False)
                | _ \<Rightarrow> Upd (purchase_failed ''Checkout failed'' ''Checkout URL missing from the server.'') (finish False))))))"

definition handlePurchase :: "mobile_env \<Rightarrow> string \<Rightarrow> shop_screen act" where
  "handlePurchase M packId = Read (\<lambda>b0. purchasePack M (au_token b0) packId (\<lambda>done.
     if done then Upd (startPolling (au_token b0) (au_user b0) (sh_lastBalance b0)) Stop else Stop))"

section \<open>screens/settings\<close>

text \<open>\<open>Alert.alert('Session expired', ...)\<close> and \<open>logout\<close>, as every screen does after a response that signs off.\<close>

definition expire :: "'a device_scheme \<Rightarrow> 'a device_scheme" where
  "expire b = mobile_logout (alert ''Session expired'' ''Please log in again.'' b)"

definition trimmed :: "string \<Rightarrow> json" where "trimmed s = JStr (trim s)"

definition settings_balance_answered :: "(int \<Rightarrow> 'a device_scheme \<Rightarrow> 'a device_scheme) \<Rightarrow> (bool \<Rightarrow> 'a device_scheme \<Rightarrow> 'a device_scheme) \<Rightarrow>
    (nat \<times> json) option \<Rightarrow> exn + api_result \<Rightarrow> 'a device_scheme act" where
  "settings_balance_answered setTokenBalance setLoading user response = (case response of
      Inl e \<Rightarrow> Upd (alert ''Balance unavailable'' ''Unable to refresh your token balance.'') (Upd (setLoading False) Stop)
    | Inr r \<Rightarrow>
        if signed_off r then Upd expire (Upd (setLoading False) Stop)
        else if \<not> ar_ok r then Upd (setLoading False) Stop
        else (let n = (case ar_data r of None \<Rightarrow> 0 | Some data \<Rightarrow> tokenBalance_in data) in
          Upd (setTokenBalance n) (Upd (mobile_setUser (Some (with_balance user n))) (Upd (setLoading False) Stop))))"

definition fetchBalance :: "mobile_env \<Rightarrow> (int \<Rightarrow> 'a device_scheme \<Rightarrow> 'a device_scheme) \<Rightarrow> (bool \<Rightarrow> 'a device_scheme \<Rightarrow> 'a device_scheme) \<Rightarrow>
    string option \<Rightarrow> (nat \<times> json) option \<Rightarrow> 'a device_scheme act" where
  "fetchBalance M setTokenBalance setLoading token user =
    (if \<not> present token then Stop
     else Upd (setLoading True) (mobile_apiJson M ''/tokens/balance'' (plain_options ''GET'' None) None (settings_balance_answered setTokenBalance setLoading user)))"

text \<open>\<open>handleVerifyEmail\<close> and \<open>handleVerifyPhone\<close>: \<open>field\<close> is the key, \<open>what\<close> names it in the messages.\<close>

definition verified_user :: "string \<Rightarrow> (nat \<times> json) option \<Rightarrow> json option \<Rightarrow> json" where
  "verified_user field user updated =
    (let updated_id = (case Option.bind updated (json_get_str ''id'') of Some i \<Rightarrow> i | None \<Rightarrow> []);
         base = user_or (JObj [(''id'', JStr updated_id)]) user
     in case Option.bind updated (json_get field) of
          Some v \<Rightarrow> spread field v base
        | None \<Rightarrow> (case base of JObj kvs \<Rightarrow> JObj (filter (\<lambda>p. fst p \<noteq> field) kvs) | j \<Rightarrow> j))"

definition handleVerifyEmail :: "mobile_env \<Rightarrow> string \<Rightarrow> string \<Rightarrow> 'a device_scheme act" where
  "handleVerifyEmail M emailInput emailCodeInput = Read (\<lambda>b0.
     if trim emailInput = [] then Upd (alert ''Email required'' ''Enter a valid email address.'') Stop
     else if trim emailCodeInput = [] then Upd (alert ''Code required'' ''Enter the verification code for your email.'') Stop
     else mobile_apiJson M ''/auth/verify-email'' (plain_options ''POST'' (Some (JObj [(''email'', trimmed emailInput), (''code'', trimmed emailCodeInput)]))) None
       (\<lambda>response. case response of
          Inl e \<Rightarrow> Upd (alert ''Verification failed'' ''Unable to verify email right now.'') Stop
        | Inr r \<Rightarrow>
            if signed_off r then Upd expire Stop
            else if \<not> ar_ok r then Upd (alert ''Verification failed'' ''Unable to verify email right now.'') Stop
            else Upd (mobile_setUser (Some (verified_user ''email'' (au_user b0) (ar_data r)))) (Upd (alert ''Email verified'' ''Your email has been saved.'') Stop)))"

definition handleVerifyPhone :: "mobile_env \<Rightarrow> string \<Rightarrow> string \<Rightarrow> 'a device_scheme act" where
  "handleVerifyPhone M phoneInput phoneCodeInput = Read (\<lambda>b0.
     if trim phoneInput = [] then Upd (alert ''Phone required'' ''Enter a valid phone number.'') Stop
     else if trim phoneCodeInput = [] then Upd (alert ''Code required'' ''Enter the verification code for your phone.'') Stop
     else mobile_apiJson M ''/auth/verify-phone'' (plain_options ''POST'' (Some (JObj [(''phone'', trimmed phoneInput), (''code'', trimmed phoneCodeInput)]))) None
       (\<lambda>response. case response of
          Inl e \<Rightarrow> Upd (alert ''Verification failed'' ''Unable to verify phone right now.'') Stop
        | Inr r \<Rightarrow>
            if signed_off r then Upd expire Stop
            else if \<not> ar_ok r then Upd (alert ''Verification failed'' ''Unable to verify phone right now.'') Stop
            else Upd (mobile_setUser (Some (verified_user ''phone'' (au_user b0) (ar_data r)))) (Upd (alert ''Phone verified'' ''Your phone number has been saved.'') Stop)))"

definition settings_handleLogout :: "'a device_scheme \<Rightarrow> 'a device_scheme" where
  "settings_handleLogout b = nav_reset ''Onboarding'' None (mobile_logout b)"

section \<open>The other screens of an account\<close>

text \<open>The states of \<open>DeleteAccountScreen\<close>, \<open>ProfileEditScreen\<close>, \<open>ReportScreen\<close>, \<open>BlockListScreen\<close> and \<open>ProfileSetupScreen\<close>.\<close>

record account_screen = device +
  as_deleting :: bool
  as_saving :: bool
  as_submitting :: bool
  as_blocks :: "json list"
  as_loading :: bool

definition open_account :: "device \<Rightarrow> account_screen" where
  "open_account b = device.extend b \<lparr>as_deleting = False, as_saving = False, as_submitting = False, as_blocks = [], as_loading = True\<rparr>"

definition setDeleting :: "bool \<Rightarrow> account_screen \<Rightarrow> account_screen" where "setDeleting x b = b\<lparr>as_deleting := x\<rparr>"
definition setSaving :: "bool \<Rightarrow> account_screen \<Rightarrow> account_screen" where "setSaving x b = b\<lparr>as_saving := x\<rparr>"
definition setSubmitting :: "bool \<Rightarrow> account_screen \<Rightarrow> account_screen" where "setSubmitting x b = b\<lparr>as_submitting := x\<rparr>"
definition setLoading_as :: "bool \<Rightarrow> account_screen \<Rightarrow> account_screen" where "setLoading_as x b = b\<lparr>as_loading := x\<rparr>"

definition handleDelete :: "mobile_env \<Rightarrow> string \<Rightarrow> account_screen act" where
  "handleDelete M confirmation = Read (\<lambda>b0.
     if toUpperCase (trim confirmation) \<noteq> ''DELETE'' then Upd (alert ''Type DELETE'' ''Please type DELETE to confirm account deletion.'') Stop
     else if \<not> present (au_token b0) then Upd expire (Upd (nav_reset ''Onboarding'' None) Stop)
     else Upd (setDeleting True) (mobile_apiJson M ''/users/me'' (plain_options ''DELETE'' None) None (\<lambda>response.
       let finish = Upd (setDeleting False) Stop in case response of
         Inl e \<Rightarrow> Upd (alert ''Unable to delete'' ''Please try again later.'') finish
       | Inr r \<Rightarrow>
           if signed_off r then Upd expire (Upd (nav_reset ''Onboarding'' None) finish)
           else if \<not> ar_ok r then Upd (alert ''Unable to delete'' ''Please try again later.'') finish
           else Upd settings_handleLogout finish)))"

text \<open>\<open>{ ...a, ...b }\<close>; the entries of a payload that are not \<open>undefined\<close>; the age, which is \<open>null\<close> when it is not a number.\<close>

definition spread_all :: "json option \<Rightarrow> json \<Rightarrow> json" where
  "spread_all b a = (case b of Some (JObj kvs) \<Rightarrow> fold (\<lambda>p. spread (fst p) (snd p)) kvs a | _ \<Rightarrow> a)"

definition text_entry :: "string \<Rightarrow> string \<Rightarrow> (string \<times> json) list" where
  "text_entry key s = (if trim s = [] then [] else [(key, JStr (trim s))])"

definition age_entry :: "string \<Rightarrow> (string \<times> json) list" where
  "age_entry age = (if age = [] then [] else [(''age'', case parseInt age of Fin n \<Rightarrow> JNum n | _ \<Rightarrow> JNull)])"

record profile_form =
  pf_displayName :: string
  pf_age :: string
  pf_gender :: string
  pf_bio :: string
  pf_interestsText :: string
  pf_interests :: "string list"
  pf_photos :: "string list"

definition edit_payload :: "profile_form \<Rightarrow> json" where
  "edit_payload f = JObj ([(''displayName'', trimmed (pf_displayName f))] @ age_entry (pf_age f) @ text_entry ''gender'' (pf_gender f) @ text_entry ''bio'' (pf_bio f) @
     [(''interests'', JArr (if pf_interestsText f = [] then [] else map JStr (filter (\<lambda>x. x \<noteq> []) (map trim (split_on CHR '','' (pf_interestsText f))))))])"

definition handleSave :: "mobile_env \<Rightarrow> profile_form \<Rightarrow> account_screen act" where
  "handleSave M f = Read (\<lambda>b0.
     if trim (pf_displayName f) = [] then Upd (alert ''Display name required'' ''Please enter a display name.'') Stop
     else if \<not> present (au_token b0) then Upd expire Stop
     else Upd (setSaving True) (mobile_apiJson M ''/users/me'' (plain_options ''PATCH'' (Some (edit_payload f))) None (\<lambda>response.
       let finish = Upd (setSaving False) Stop; failed = Upd (alert ''Save failed'' ''Unable to update your profile right now.'') finish in case response of
         Inl e \<Rightarrow> Upd (alert ''Network error'' ''Unable to update your profile right now.'') finish
       | Inr r \<Rightarrow>
           if signed_off r then Upd expire finish
           else if \<not> ar_ok r then failed
           else if \<not> present (Option.bind (ar_data r) (json_get_str ''id'')) then failed
           else Upd (mobile_setUser (Some (spread_all (ar_data r) (user_or (JObj [(''id'', JStr (the (Option.bind (ar_data r) (json_get_str ''id''))))]) (au_user b0)))))
             (Upd (alert ''Saved'' ''Your profile has been updated.'') (Upd nav_goBack finish)))))"

definition report_handleSubmit :: "mobile_env \<Rightarrow> string \<Rightarrow> string \<Rightarrow> string \<Rightarrow> account_screen act" where
  "report_handleSubmit M reportedUserId selectedReason details =
    (if trim reportedUserId = [] then Upd (alert ''User ID required'' ''Enter the ID of the user to report.'') Stop
     else if selectedReason = [] then Upd (alert ''Reason required'' ''Select a reason for the report.'') Stop
     else Upd (setSubmitting True) (mobile_apiJson M ''/moderation/reports'' (plain_options ''POST'' (Some (JObj
         ([(''reportedUserId'', trimmed reportedUserId), (''reason'', JStr selectedReason)] @ text_entry ''details'' details)))) None (\<lambda>response.
       let finish = Upd (setSubmitting False) Stop; failed = Upd (alert ''Report failed'' ''Unable to submit report. Please try again.'') finish in case response of
         Inl e \<Rightarrow> failed
       | Inr r \<Rightarrow>
           if signed_off r then Upd expire finish
           else if \<not> ar_ok r then failed
           else Upd (alert ''Report submitted'' ''Thank you. We will review this shortly.'') finish)))"

definition fetchBlocks :: "mobile_env \<Rightarrow> account_screen act" where
  "fetchBlocks M = Upd (setLoading_as True) (mobile_apiJson M ''/moderation/blocks'' (plain_options ''GET'' None) None (\<lambda>response.
     let finish = Upd (setLoading_as False) Stop in case response of
       Inl e \<Rightarrow> Upd (alert ''Error'' ''Unable to load blocked users.'') finish
     | Inr r \<Rightarrow>
         if signed_off r then Upd expire finish
         else (case ar_data r of
             Some (JArr blocks) \<Rightarrow> if ar_ok r then Upd (\<lambda>b. b\<lparr>as_blocks := blocks\<rparr>) finish else finish
           | _ \<Rightarrow> finish)))"

text \<open>\<open>confirmed\<close> is the choice of the button \<open>Unblock\<close> in the alert.\<close>

definition handleUnblock :: "mobile_env \<Rightarrow> string \<Rightarrow> bool \<Rightarrow> account_screen act" where
  "handleUnblock M blockedUserId confirmed =
    Upd (alert ''Unblock user?'' ''They will be able to see and match with you again.'')
     (if \<not> confirmed then Stop
      else mobile_apiJson M (''/moderation/blocks/'' @ blockedUserId) (plain_options ''DELETE'' None) None (\<lambda>response. case response of
          Inl e \<Rightarrow> Upd (alert ''Error'' ''Unable to unblock user.'') Stop
        | Inr r \<Rightarrow>
            if ar_ok r then Upd (\<lambda>b. b\<lparr>as_blocks := filter (\<lambda>x. json_get_str ''blockedUserId'' x \<noteq> Some blockedUserId) (as_blocks b)\<rparr>) Stop
            else Upd (alert ''Error'' ''Unable to unblock user.'') Stop))"

section \<open>screens/onboarding/ProfileSetupScreen.tsx\<close>

definition setup_payload :: "profile_form \<Rightarrow> json" where
  "setup_payload f = JObj ([(''displayName'', trimmed (pf_displayName f))] @ age_entry (pf_age f) @ text_entry ''gender'' (pf_gender f) @
     [(''interests'', JArr (map JStr (pf_interests f))), (''photos'', JArr (map JStr (pf_photos f)))] @ text_entry ''bio'' (pf_bio f))"

definition setup_user :: "json option \<Rightarrow> json option \<Rightarrow> string \<Rightarrow> string \<Rightarrow> json" where
  "setup_user signup profile userId displayName =
    spread ''displayName'' (trimmed displayName) (spread ''id'' (JStr userId) (spread_all profile (spread_all (Option.bind signup (json_get ''user'')) (JObj []))))"

definition signup_userId :: "json option \<Rightarrow> string option" where
  "signup_userId data = (case Option.bind (Option.bind data (json_get ''user'')) (json_get_str ''id'') of
      Some i \<Rightarrow> Some i | None \<Rightarrow> Option.bind data (json_get_str ''userId''))"

definition setup_handleSubmit :: "mobile_env \<Rightarrow> profile_form \<Rightarrow> account_screen act" where
  "setup_handleSubmit M f =
    (let finish = Upd (setSubmitting False) Stop; network = Upd (alert ''Network error'' ''Unable to complete onboarding. Please try again.'') finish
     in if trim (pf_displayName f) = [] then Upd (alert ''Display name required'' ''Please enter a display name.'') Stop
     else if pf_age f \<noteq> [] \<and> parseInt (pf_age f) = NaN then Upd (alert ''Invalid age'' ''Please enter a valid age.'') Stop
     else Upd (setSubmitting True) (mobile_apiJson M ''/auth/signup-anonymous'' (plain_options ''POST'' None) None (\<lambda>signup. case signup of
         Inl e \<Rightarrow> network
       | Inr s \<Rightarrow>
           (let accessToken = Option.bind (ar_data s) (json_get_str ''accessToken''); userId = signup_userId (ar_data s)
            in if \<not> ar_ok s \<or> \<not> present accessToken \<or> \<not> present userId
               then Upd (alert ''Signup failed'' ''Unable to create your account. Please try again.'') finish
               else Upd (mobile_setToken accessToken) (Upd (mobile_setUser (Some (setup_user (ar_data s) None (the userId) (pf_displayName f))))
                 (mobile_apiJson M ''/users/me'' (plain_options ''PATCH'' (Some (setup_payload f))) accessToken (\<lambda>profile. case profile of
                    Inl e \<Rightarrow> network
                  | Inr p \<Rightarrow>
                      if signed_off p then Upd expire finish
                      else if \<not> ar_ok p then Upd (alert ''Profile update failed'' ''Please try again.'') finish
                      else Upd (mobile_setUser (Some (setup_user (ar_data s) (ar_data p) (the userId) (pf_displayName f))))
                        (Upd (nav_reset ''Main'' None) finish))))))))"

end
