(* ===== verification/Mobile_Props.thy ===== *)
theory Mobile_Props
  imports Mobile_Laws Mobile_Session Mobile_Account
begin

text \<open>
  The mobile application over time: what a restart restores, and what a second search and an answer about the balance do to the queue.
\<close>

section \<open>A restart\<close>

datatype account_op = Op_setToken "string option" | Op_setUser "(string \<times> json) list option" | Op_setPending "(string \<times> json) list option" | Op_clear | Op_logout

primrec account_op_run :: "account_op \<Rightarrow> device \<Rightarrow> device" where
  "account_op_run (Op_setToken t) b = mobile_setToken t b"
| "account_op_run (Op_setUser u) b = mobile_setUser (map_option JObj u) b"
| "account_op_run (Op_setPending r) b = setPendingRoute (map_option JObj r) b"
| "account_op_run Op_clear b = clearPendingRoute b"
| "account_op_run Op_logout b = mobile_logout b"

definition new_device :: device where
  "new_device = \<lparr>dv_token = None, dv_user = None, dv_pendingRoute = None, dv_clock = 0, dv_uuids = 0, dv_alerts = [], dv_stack = [], au_token = None, au_user = None,
     au_users = 0, au_pendingRoute = None, au_hydrated = False, qs_status = Idle, qs_estimated = None, qs_match = None, qs_tokenSpent = False,
     qs_usersSearching = None, qs_queueKey = None, ws_lastMessage = None, ws_lastSessionStart = None\<rparr>"

text \<open>A new process has the storage of the old one and the stores as they are created.\<close>

definition restarted :: "device \<Rightarrow> device" where
  "restarted b = new_device\<lparr>dv_token := dv_token b, dv_user := dv_user b, dv_pendingRoute := dv_pendingRoute b\<rparr>"

definition is_object :: "json \<Rightarrow> bool" where
  "is_object j \<longleftrightarrow> (\<exists>kvs. j = JObj kvs)"

definition in_storage :: "device \<Rightarrow> bool" where
  "in_storage b \<longleftrightarrow> dv_token b = (if present (au_token b) then au_token b else None) \<and> dv_user b = map_option (json_stringify \<circ> snd) (au_user b) \<and>
     dv_pendingRoute b = map_option json_stringify (au_pendingRoute b) \<and> pred_option (is_object \<circ> snd) (au_user b) \<and> pred_option is_object (au_pendingRoute b)"

lemma in_storage_run: "in_storage b \<Longrightarrow> in_storage (account_op_run x b)"
  by (cases x) (auto simp: in_storage_def mobile_setToken_def mobile_setUser_def setPendingRoute_def clearPendingRoute_def mobile_logout_def present_def
    is_object_def option.pred_set option.map_comp comp_def split: option.splits)

lemma in_storage_fold: "in_storage (fold account_op_run ops new_device)"
proof (rule fold_invariant [where Q = "\<lambda>_. True"])
  show "in_storage new_device" by (simp add: in_storage_def new_device_def present_def)
qed (simp_all add: in_storage_run)

lemma object_text: "is_object j \<Longrightarrow> json_stringify j \<noteq> [] \<and> j \<noteq> JNull"
  by (auto simp: is_object_def)

text \<open>A restart of the application restores what was set: after any sequence of changes to the token, the user and the pending route,
  \<open>hydrate\<close> in a new process reads back the token (an empty one as none), the user and the route.\<close>

theorem mobile_restart_restores:
  "\<exists>b'. mobile_hydrate (restarted (fold account_op_run ops new_device)) = Inr b' \<and> au_hydrated b' \<and>
    (let b = fold account_op_run ops new_device in
       au_token b' = (if present (au_token b) then au_token b else None) \<and> map_option snd (au_user b') = map_option snd (au_user b) \<and>
       au_pendingRoute b' = au_pendingRoute b)"
proof -
  define b where "b = fold account_op_run ops new_device"
  have s: "in_storage b" unfolding b_def by (rule in_storage_fold)
  have u: "au_user b = None \<or> (\<exists>i j. au_user b = Some (i, j) \<and> is_object j)" using s by (cases "au_user b") (auto simp: in_storage_def)
  have r: "au_pendingRoute b = None \<or> (\<exists>j. au_pendingRoute b = Some j \<and> is_object j)" using s by (cases "au_pendingRoute b") (auto simp: in_storage_def)
  have "\<exists>b'. mobile_hydrate (restarted b) = Inr b' \<and> au_hydrated b' \<and> au_token b' = (if present (au_token b) then au_token b else None) \<and>
      map_option snd (au_user b') = map_option snd (au_user b) \<and> au_pendingRoute b' = au_pendingRoute b"
    using s u r by (auto simp: in_storage_def mobile_hydrate_def restarted_def present_def not_null_def dest: object_text)
  then show ?thesis unfolding b_def Let_def .
qed

section \<open>A second search\<close>

lemma map_of_rev_append: "map_of (rev (xs @ [(k, v)])) x = (if x = k then Some v else map_of (rev xs) x)"
  by simp

lemma map_of_other: "x \<noteq> k \<Longrightarrow> map_of (map (\<lambda>p. if fst p = k then (k, v) else p) xs) x = map_of xs x"
  by (induction xs) auto

lemma get_spread_other: "x \<noteq> key \<Longrightarrow> json_get x (spread key v j) = json_get x j"
proof -
  assume n: "x \<noteq> key"
  show ?thesis
  proof (cases j)
    case (JObj kvs)
    have "map_of (rev (map (\<lambda>p. if fst p = key then (key, v) else p) kvs)) x = map_of (rev kvs) x"
      unfolding rev_map by (rule map_of_other) (rule n)
    then show ?thesis using n JObj by (simp add: spread_def Let_def)
  qed (use n in \<open>simp_all add: spread_def\<close>)
qed

lemma map_of_filter_other: "x \<noteq> key \<Longrightarrow> map_of (filter (\<lambda>p. fst p \<noteq> key) xs) x = map_of xs x"
  by (induction xs) auto

lemma with_anonymousId_sessionId: "json_get_str ''sessionId'' (with_anonymousId m) = json_get_str ''sessionId'' m"
proof -
  have f: "json_get ''sessionId'' (with_anonymousId m) = json_get ''sessionId'' m"
    by (cases m) (auto simp: with_anonymousId_def get_spread_other rev_filter map_of_filter_other split: option.split)
  show ?thesis by (simp add: json_get_str_def f)
qed

definition queue_leave_request :: "mobile_env \<Rightarrow> string option \<Rightarrow> http_request" where
  "queue_leave_request M token = mobile_request M ''/queue/leave'' (plain_options ''DELETE'' None) token"

lemma home_start_step:
  assumes "qs_status b = Idle \<or> qs_status b = Matched" and "balance_of (au_user b) > 0" and "\<not> wt_mounted b" and "\<not> on_stack ''Waiting'' b"
  shows "\<exists>K. run_act (Spawn (home_handleStart M) (waiting_effects M)) b =
    ([(mobile_request M ''/queue/join'' (plain_options ''POST'' (Some (JObj [(''region'', JStr (resolveQueueRegion M None)), (''preferences'', JObj [])]))) (dv_token b),
       api_parsed K)], b\<lparr>qs_status := Joining, qs_usersSearching := None\<rparr>) \<and>
    (\<forall>r. ar_ok r \<longrightarrow> K (Inr r) = Upd (\<lambda>b. b\<lparr>qs_status := Searching, qs_queueKey := Option.bind (ar_data r) (json_get_str ''queueKey'')\<rparr>) (Upd (nav_navigate ''Waiting'' None) Stop))"
  using assms by (auto simp: home_handleStart_def mobile_joinQueue_def waiting_effects_def waiting_leaves_def waiting_stays_def on_stack_def)

lemmas waiting_defs = waiting_effects_def waiting_leaves_def waiting_stays_def match_effect_def mobile_timeout_effect_def MOBILE_WAIT_TIMEOUT_SECONDS_def
  open_waiting_screen_def on_stack_def nav_navigate_def nav_reset_def waiting_cleanup_def mobile_leaveQueue_def

text \<open>A join that is accepted: without a match the screen waits; with one from before the call opens and the queue is left.\<close>

lemma join_waits:
  assumes "\<not> wt_mounted b" and "dv_stack b = [(''Main'', x)]" and "qs_match b = None" and "qs_status b = Joining"
  shows "\<exists>b'. run_act (Spawn (Upd (\<lambda>b. b\<lparr>qs_status := Searching, qs_queueKey := q\<rparr>) (Upd (nav_navigate ''Waiting'' None) Stop)) (waiting_effects M)) b = ([], b') \<and>
    dv_stack b' = [(''Waiting'', None), (''Main'', x)] \<and> qs_status b' = Searching \<and> qs_match b' = None \<and> wt_mounted b' \<and> wt_statusRef b' = Searching \<and>
    wt_user b' = au_user b' \<and> wt_lastNavigatedSession b' = None \<and> au_user b' = au_user b \<and> dv_token b' = dv_token b"
  using assms by (simp add: waiting_defs)

lemma join_reopens:
  assumes "\<not> wt_mounted b" and "dv_stack b = [(''Main'', x)]" and "qs_match b = Some m" and "qs_status b = Joining"
  shows "\<exists>b' k. run_act (Spawn (Upd (\<lambda>b. b\<lparr>qs_status := Searching, qs_queueKey := q\<rparr>) (Upd (nav_navigate ''Waiting'' None) Stop)) (waiting_effects M)) b =
    ([(queue_leave_request M (dv_token b), k)], b') \<and>
    dv_stack b' = [(''VideoCall'', Some m)] \<and> ws_lastSessionStart b' = ws_lastSessionStart b"
  using assms by (simp add: waiting_defs queue_leave_request_def)

lemma match_opens_call:
  assumes "wt_mounted b" and "dv_stack b = [(''Waiting'', None), (''Main'', x)]" and "wt_lastNavigatedSession b = None" and "wt_user b = au_user b"
  shows "\<exists>b'. run_act (Spawn (Upd (socket_event (''match'', m)) Stop) (waiting_effects M)) b = ([], b') \<and>
    dv_stack b' = [(''VideoCall'', Some (with_anonymousId m))] \<and> qs_status b' = Matched \<and> qs_match b' = Some (with_anonymousId m) \<and> \<not> wt_mounted b' \<and>
    au_user b' = au_user b \<and> dv_token b' = dv_token b"
  using assms by (simp add: waiting_defs socket_event_def queue_setMatch_def)

lemma quiet_update:
  "\<not> wt_mounted (f b) \<Longrightarrow> \<not> on_stack ''Waiting'' (f b) \<Longrightarrow> run_act (Spawn (Upd f Stop) (waiting_effects M)) b = ([], f b)"
  by (simp add: waiting_effects_def waiting_leaves_def waiting_stays_def)

definition at_home :: "waiting_screen \<Rightarrow> bool" where
  "at_home b \<longleftrightarrow> (\<exists>x. dv_stack b = [(''Main'', x)]) \<and> \<not> wt_mounted b \<and> 0 < balance_of (au_user b)"

definition accepts_joins :: "mobile_env \<Rightarrow> 's net \<Rightarrow> bool" where
  "accepts_joins M net \<longleftrightarrow> (\<forall>t q s. hq_url q = API_URL_m M @ ''/queue/join'' \<longrightarrow> (\<exists>r s'. net t q s = (Inr r, s') \<and> response_ok r))"

text \<open>A search from the home screen up to the answer of the server.\<close>

lemma search_asks:
  assumes h: "at_home (pg_browser p)" and q: "pg_inflight p = []" and i: "qs_status (pg_browser p) = Idle \<or> qs_status (pg_browser p) = Matched"
    and n: "accepts_joins M net"
  obtains r s K where "response_ok r" and
    "app_run (waiting_effects M) net [Started t1 (home_handleStart M), Answered t2 0] p =
      (let (ts, b) = run_act (Spawn (Upd (\<lambda>b. b\<lparr>qs_status := Searching, qs_queueKey := K\<rparr>) (Upd (nav_navigate ''Waiting'' None) Stop)) (waiting_effects M))
         ((pg_browser p)\<lparr>qs_status := Joining, qs_usersSearching := None, dv_clock := t2\<rparr>)
       in p\<lparr>pg_server := s, pg_browser := b, pg_inflight := ts\<rparr>)"
proof -
  let ?b = "(pg_browser p)\<lparr>dv_clock := t1\<rparr>"
  obtain K where k: "run_act (Spawn (home_handleStart M) (waiting_effects M)) ?b =
      ([(mobile_request M ''/queue/join'' (plain_options ''POST'' (Some (JObj [(''region'', JStr (resolveQueueRegion M None)), (''preferences'', JObj [])]))) (dv_token ?b),
         api_parsed K)], ?b\<lparr>qs_status := Joining, qs_usersSearching := None\<rparr>)"
    and ok: "\<And>r. ar_ok r \<Longrightarrow> K (Inr r) = Upd (\<lambda>b. b\<lparr>qs_status := Searching, qs_queueKey := Option.bind (ar_data r) (json_get_str ''queueKey'')\<rparr>) (Upd (nav_navigate ''Waiting'' None) Stop)"
    using home_start_step [of ?b M] h i by (auto simp: at_home_def on_stack_def)
  obtain r s where net: "net t2 (mobile_request M ''/queue/join'' (plain_options ''POST'' (Some (JObj [(''region'', JStr (resolveQueueRegion M None)), (''preferences'', JObj [])]))) (dv_token ?b))
      (pg_server p) = (Inr r, s)" and r: "response_ok r"
    using n unfolding accepts_joins_def by (metis mobile_url(1))
  let ?joined = "Upd (\<lambda>b. b\<lparr>qs_status := Searching, qs_queueKey := Option.bind (hs_json r) (json_get_str ''queueKey'')\<rparr>) (Upd (nav_navigate ''Waiting'' None) Stop)"
  obtain ts b where run: "run_act (Spawn ?joined (waiting_effects M)) ((pg_browser p)\<lparr>qs_status := Joining, qs_usersSearching := None, dv_clock := t2\<rparr>) = (ts, b)"
    by fastforce
  have k': "api_parsed K (Inr r) = ?joined" by (simp add: api_parsed_ok ok r)
  note one = step_started [OF k, of net, unfolded q append_Nil]
  have two: "app_step (waiting_effects M) net (Answered t2 0) (app_step (waiting_effects M) net (Started t1 (home_handleStart M)) p) =
      p\<lparr>pg_server := s, pg_browser := b, pg_inflight := ts\<rparr>"
    unfolding one using net run by (simp add: app_perform_def k' del: settle_with.simps)
  show thesis
  proof (rule that [OF r])
    show "app_run (waiting_effects M) net [Started t1 (home_handleStart M), Answered t2 0] p =
      (let (ts, b) = run_act (Spawn ?joined (waiting_effects M)) ((pg_browser p)\<lparr>qs_status := Joining, qs_usersSearching := None, dv_clock := t2\<rparr>)
       in p\<lparr>pg_server := s, pg_browser := b, pg_inflight := ts\<rparr>)"
      using two run by (simp add: app_run_def del: app_step.simps)
  qed
qed

definition in_call :: "json \<Rightarrow> json \<Rightarrow> waiting_screen \<Rightarrow> (waiting_screen, 's) page \<Rightarrow> bool" where
  "in_call m start b0 p \<longleftrightarrow> (let b = pg_browser p in
     dv_stack b = [(''VideoCall'', Some (with_anonymousId m))] \<and> qs_status b = Matched \<and> qs_match b = Some (with_anonymousId m) \<and> \<not> wt_mounted b \<and>
     au_user b = au_user b0 \<and> dv_token b = dv_token b0 \<and> ws_lastSessionStart b = Some start \<and> pg_inflight p = [])"

abbreviation search :: "mobile_env \<Rightarrow> int \<Rightarrow> int \<Rightarrow> waiting_screen app_event list" where
  "search M t t' \<equiv> [Started t (home_handleStart M), Answered t' 0]"

lemma first_search:
  fixes p :: "(waiting_screen, 's) page"
  assumes h: "at_home (pg_browser p)" and q: "pg_inflight p = []" and idle: "qs_status (pg_browser p) = Idle" and none: "qs_match (pg_browser p) = None"
    and n: "accepts_joins M net"
  shows "in_call m start (pg_browser p) (app_run (waiting_effects M) net (search M t1 t2 @ [Started t3 (Upd (socket_event (''match'', m)) Stop),
    Started t4 (Upd (socket_event (''session:start'', start)) Stop)]) p)"
proof -
  let ?run = "app_run (waiting_effects M) net"
  obtain x where home: "dv_stack (pg_browser p) = [(''Main'', x)]" "\<not> wt_mounted (pg_browser p)" using h by (auto simp: at_home_def)
  define p1 where "p1 = ?run (search M t1 t2) p"
  let ?b1 = "(pg_browser p)\<lparr>qs_status := Joining, qs_usersSearching := None, dv_clock := t2\<rparr>"
  obtain r s K where "p1 = (let (ts, b) = run_act (Spawn (Upd (\<lambda>b. b\<lparr>qs_status := Searching, qs_queueKey := K\<rparr>) (Upd (nav_navigate ''Waiting'' None) Stop))
      (waiting_effects M)) ?b1 in p\<lparr>pg_server := s, pg_browser := b, pg_inflight := ts\<rparr>)"
    unfolding p1_def by (rule search_asks [OF h q _ n]) (simp add: idle)
  moreover have m1: "\<not> wt_mounted ?b1" "dv_stack ?b1 = [(''Main'', x)]" "qs_match ?b1 = None" "qs_status ?b1 = Joining" using home none by simp_all
  ultimately have w: "dv_stack (pg_browser p1) = [(''Waiting'', None), (''Main'', x)]" "wt_mounted (pg_browser p1)" "wt_lastNavigatedSession (pg_browser p1) = None"
      "wt_user (pg_browser p1) = au_user (pg_browser p1)" "au_user (pg_browser p1) = au_user (pg_browser p)" "dv_token (pg_browser p1) = dv_token (pg_browser p)"
      "pg_inflight p1 = []"
    using join_waits [OF m1, of K M] by auto
  define p2 where "p2 = app_step (waiting_effects M) net (Started t3 (Upd (socket_event (''match'', m)) Stop)) p1"
  have c: "dv_stack (pg_browser p2) = [(''VideoCall'', Some (with_anonymousId m))]" "qs_status (pg_browser p2) = Matched" "qs_match (pg_browser p2) = Some (with_anonymousId m)"
      "\<not> wt_mounted (pg_browser p2)" "au_user (pg_browser p2) = au_user (pg_browser p)" "dv_token (pg_browser p2) = dv_token (pg_browser p)" "pg_inflight p2 = []"
    using match_opens_call [of "(pg_browser p1)\<lparr>dv_clock := t3\<rparr>" x m M] w unfolding p2_def by (auto simp: app_perform_def)
  have "?run [Started t3 (Upd (socket_event (''match'', m)) Stop), Started t4 (Upd (socket_event (''session:start'', start)) Stop)] p1 =
      p2\<lparr>pg_browser := (pg_browser p2)\<lparr>dv_clock := t4, ws_lastSessionStart := Some start\<rparr>\<rparr>"
    using c by (simp add: app_run_def p2_def [symmetric] step_started [OF quiet_update] socket_event_def on_stack_def del: app_step.simps)
  then show ?thesis unfolding app_run_append p1_def [symmetric] using c by (simp add: in_call_def Let_def)
qed

lemma call_ends:
  fixes M net t5 sid e t6
  assumes "in_call m start b0 p" and "0 < balance_of (au_user b0)" and "\<not> mr_mutual result"
  defines "p' \<equiv> app_run (waiting_effects M) net [Started t5 (Upd (handleSessionEnd_m (Some sid) e) Stop), Started t6 (Upd (result_effect result) Stop)] p"
  shows "at_home (pg_browser p') \<and> pg_inflight p' = [] \<and> qs_status (pg_browser p') = Matched \<and> qs_match (pg_browser p') = Some (with_anonymousId m) \<and>
    ws_lastSessionStart (pg_browser p') = Some start \<and> dv_token (pg_browser p') = dv_token b0"
proof -
  have e: "app_step (waiting_effects M) net (Started t5 (Upd (handleSessionEnd_m (Some sid) e) Stop)) p =
      p\<lparr>pg_browser := handleSessionEnd_m (Some sid) e ((pg_browser p)\<lparr>dv_clock := t5\<rparr>)\<rparr>"
    using assms(1) by (subst step_started [OF quiet_update]) (auto simp: in_call_def Let_def handleSessionEnd_m_def endSession_m_def nav_reset_def on_stack_def)
  have "p' = app_step (waiting_effects M) net (Started t6 (Upd (result_effect result) Stop)) (p\<lparr>pg_browser := handleSessionEnd_m (Some sid) e ((pg_browser p)\<lparr>dv_clock := t5\<rparr>)\<rparr>)"
    by (simp add: p'_def app_run_def e del: app_step.simps)
  also have "\<dots> = p\<lparr>pg_browser := result_effect result (handleSessionEnd_m (Some sid) e ((pg_browser p)\<lparr>dv_clock := t5\<rparr>)\<lparr>dv_clock := t6\<rparr>)\<rparr>"
    using assms(1,3) by (subst step_started [OF quiet_update])
      (auto simp: in_call_def Let_def handleSessionEnd_m_def endSession_m_def nav_reset_def on_stack_def result_effect_def alert_def)
  finally show ?thesis using assms(1,2,3)
    by (simp add: in_call_def Let_def handleSessionEnd_m_def endSession_m_def nav_reset_def result_effect_def alert_def at_home_def)
qed

text \<open>C32: The match of a search stays in the store of the queue: after the call and a decision that is no match, the next search is paid for and
  accepted, and then the application opens the finished session again, with its last start, and leaves the queue.\<close>

theorem second_search_reopens_session:
  fixes p :: "(waiting_screen, 's) page"
  assumes "at_home (pg_browser p)" and "pg_inflight p = []" and "qs_status (pg_browser p) = Idle" and "qs_match (pg_browser p) = None"
    and n: "accepts_joins M net" and same: "json_get_str ''sessionId'' start = json_get_str ''sessionId'' m" and result: "\<not> mr_mutual result"
  shows "let called = app_run (waiting_effects M) net (search M t1 t2 @ [Started t3 (Upd (socket_event (''match'', m)) Stop),
        Started t4 (Upd (socket_event (''session:start'', start)) Stop)]) p;
      again = app_run (waiting_effects M) net ([Started t5 (Upd (handleSessionEnd_m (Some sid) e) Stop),
        Started t6 (Upd (result_effect result) Stop)] @ search M t7 t8) called
    in dv_stack (pg_browser called) = [(''VideoCall'', Some (with_anonymousId m))] \<and> pg_inflight called = [] \<and>
       dv_stack (pg_browser again) = [(''VideoCall'', Some (with_anonymousId m))] \<and>
       map fst (pg_inflight again) = [queue_leave_request M (dv_token (pg_browser p))] \<and>
       call_sessionStart (Some (with_anonymousId m)) (ws_lastSessionStart (pg_browser again)) = Some start"
proof -
  define called where "called = app_run (waiting_effects M) net (search M t1 t2 @ [Started t3 (Upd (socket_event (''match'', m)) Stop),
    Started t4 (Upd (socket_event (''session:start'', start)) Stop)]) p"
  have c: "in_call m start (pg_browser p) called" unfolding called_def by (rule first_search) (rule assms)+
  define p5 where "p5 = app_run (waiting_effects M) net [Started t5 (Upd (handleSessionEnd_m (Some sid) e) Stop), Started t6 (Upd (result_effect result) Stop)] called"
  have "0 < balance_of (au_user (pg_browser p))" using assms(1) by (simp add: at_home_def)
  note h = call_ends [OF c this result, of M net t5 sid e t6, folded p5_def]
  then obtain x where x: "dv_stack (pg_browser p5) = [(''Main'', x)]" "\<not> wt_mounted (pg_browser p5)" by (auto simp: at_home_def)
  let ?b = "(pg_browser p5)\<lparr>qs_status := Joining, qs_usersSearching := None, dv_clock := t8\<rparr>"
  obtain r s K where a: "app_run (waiting_effects M) net (search M t7 t8) p5 =
      (let (ts, b) = run_act (Spawn (Upd (\<lambda>b. b\<lparr>qs_status := Searching, qs_queueKey := K\<rparr>) (Upd (nav_navigate ''Waiting'' None) Stop))
      (waiting_effects M)) ?b in p5\<lparr>pg_server := s, pg_browser := b, pg_inflight := ts\<rparr>)"
    by (rule search_asks [where p = p5 and M = M and net = net]) (use h n in auto)
  have j: "\<not> wt_mounted ?b" "dv_stack ?b = [(''Main'', x)]" "qs_match ?b = Some (with_anonymousId m)" "qs_status ?b = Joining" using x h by simp_all
  obtain b' k where o: "run_act (Spawn (Upd (\<lambda>b. b\<lparr>qs_status := Searching, qs_queueKey := K\<rparr>) (Upd (nav_navigate ''Waiting'' None) Stop)) (waiting_effects M)) ?b =
      ([(queue_leave_request M (dv_token ?b), k)], b')" "dv_stack b' = [(''VideoCall'', Some (with_anonymousId m))]" "ws_lastSessionStart b' = ws_lastSessionStart ?b"
    using join_reopens [OF j, of K M] by blast
  have again: "app_run (waiting_effects M) net (search M t7 t8) p5 = p5\<lparr>pg_server := s, pg_browser := b', pg_inflight := [(queue_leave_request M (dv_token ?b), k)]\<rparr>"
    unfolding a o(1) by simp
  show ?thesis
    unfolding Let_def called_def [symmetric] unfolding app_run_append p5_def [symmetric] again
    using c h o(2,3) same by (simp add: in_call_def Let_def call_sessionStart_def with_anonymousId_sessionId)
qed

section \<open>An answer about the balance\<close>

lemma leave_answered:
  assumes "wt_mounted b" and "on_stack ''Waiting'' b" and "qs_match b = None" and "wt_user b = au_user b"
  shows "\<exists>b'. run_act (Spawn (Upd queue_reset Stop) (waiting_effects M)) b = ([], b') \<and> dv_stack b' = dv_stack b \<and> qs_status b' = Idle"
  using assms by (simp add: waiting_effects_def waiting_leaves_def waiting_stays_def match_effect_def mobile_timeout_effect_def queue_reset_def on_stack_def)

text \<open>The setters of the screen that asked are without effect on the screen that waits.\<close>

abbreviation balance_asked :: "(nat \<times> json) option \<Rightarrow> exn + http_response \<Rightarrow> waiting_screen act" where
  "balance_asked user \<equiv> api_parsed (settings_balance_answered (\<lambda>_ b. b) (\<lambda>_ b. b) user)"

text \<open>A screen that waits, has no match and knows of no token.\<close>

definition waits :: "waiting_screen \<Rightarrow> bool" where
  "waits b \<longleftrightarrow> wt_mounted b \<and> on_stack ''Waiting'' b \<and> qs_match b = None \<and> wt_user b = au_user b \<and> qs_status b = Searching \<and> wt_statusRef b = Searching \<and>
     wt_seconds b < 45 \<and> \<not> qs_tokenSpent b \<and> (\<forall>u. au_user b = Some u \<longrightarrow> fst u < au_users b)"

lemma balance_answered_waiting:
  assumes w: "waits b" and r: "response_ok r"
  shows "\<exists>K b'. run_act (Spawn (balance_asked user (Inr r)) (waiting_effects M)) b = ([(queue_leave_request M (dv_token b), api_parsed K)], b') \<and>
    (\<forall>x. K (Inr x) = Upd queue_reset Stop) \<and> wt_mounted b' \<and> on_stack ''Waiting'' b' \<and> qs_match b' = None \<and> wt_user b' = au_user b' \<and> dv_stack b' = dv_stack b"
proof -
  have c: "hs_status r \<noteq> 401" "hs_status r \<noteq> 403" using r by (auto simp: response_ok_def)
  have u: "Some (au_users b, j) \<noteq> au_user b" "au_user b \<noteq> Some (au_users b, j)" for j
    using w unfolding waits_def by (metis fst_conv less_irrefl)+
  show ?thesis using w r c u
    by (auto simp: waits_def api_parsed_ok settings_balance_answered_def signed_off_def Let_def mobile_setUser_def waiting_effects_def waiting_leaves_def
      waiting_stays_def match_effect_def mobile_timeout_effect_def MOBILE_WAIT_TIMEOUT_SECONDS_def waiting_cleanup_def mobile_leaveQueue_def on_stack_def
      queue_leave_request_def split: option.split json.split)
qed

text \<open>An answer about the balance that arrives while the user waits for a partner makes the application leave the queue: the user is a
  new object then, and the cleanup of the effect on the user sends the request. When it is answered the search is over, and the screen still shows it.\<close>

theorem balance_answer_ends_search:
  fixes p :: "(waiting_screen, 's) page"
  assumes w: "waits (pg_browser p)" and q: "pg_inflight p = [(q, balance_asked user)]" and answer: "net t q (pg_server p) = (Inr r, s1)" "response_ok r"
    and leave: "net t' (queue_leave_request M (dv_token (pg_browser p))) s1 = (Inr r', s2)"
  shows "let asked = app_step (waiting_effects M) net (Answered t 0) p; ended = app_step (waiting_effects M) net (Answered t' 0) asked
    in map fst (pg_inflight asked) = [queue_leave_request M (dv_token (pg_browser p))] \<and> pg_inflight ended = [] \<and>
       qs_status (pg_browser ended) = Idle \<and> on_stack ''Waiting'' (pg_browser ended)"
proof -
  let ?b = "(pg_browser p)\<lparr>dv_clock := t\<rparr>"
  have "waits ?b" using w by (simp add: waits_def on_stack_def)
  then obtain K b' where one: "run_act (Spawn (balance_asked user (Inr r)) (waiting_effects M)) ?b = ([(queue_leave_request M (dv_token ?b), api_parsed K)], b')"
      and K: "\<And>x. K (Inr x) = Upd queue_reset Stop"
      and b': "wt_mounted b'" "on_stack ''Waiting'' b'" "qs_match b' = None" "wt_user b' = au_user b'"
    using balance_answered_waiting [of ?b r user M] answer(2) by blast
  define asked where "asked = app_step (waiting_effects M) net (Answered t 0) p"
  have a: "asked = p\<lparr>pg_server := s1, pg_browser := b', pg_inflight := [(queue_leave_request M (dv_token ?b), api_parsed K)]\<rparr>"
    unfolding asked_def using q answer(1) one by (simp add: app_perform_def del: settle_with.simps)
  obtain b'' where two: "run_act (Spawn (Upd queue_reset Stop) (waiting_effects M)) (b'\<lparr>dv_clock := t'\<rparr>) = ([], b'')" "dv_stack b'' = dv_stack b'" "qs_status b'' = Idle"
    using leave_answered [of "b'\<lparr>dv_clock := t'\<rparr>" M] b' by (auto simp: on_stack_def)
  have e: "app_step (waiting_effects M) net (Answered t' 0) asked = asked\<lparr>pg_server := s2, pg_browser := b'', pg_inflight := []\<rparr>"
    unfolding a using leave two(1) by (simp add: app_perform_def api_parsed_ok K del: settle_with.simps)
  show ?thesis unfolding Let_def asked_def [symmetric] e using b'(2) two(2,3) by (simp add: a on_stack_def)
qed

section \<open>Instances\<close>

definition home_device :: waiting_screen where
  "home_device = device.extend (mobile_setUser (Some (JObj [(''id'', JStr ''u1''), (''tokenBalance'', JNum 3)])) (mobile_setToken (Some ''t'') (new_device\<lparr>dv_stack := [(''Main'', None)]\<rparr>)))
     \<lparr>wt_mounted = False, wt_statusRef = Idle, wt_lastNavigatedSession = None, wt_timeoutPromptTracked = False, wt_seconds = 0, wt_showTimeoutPrompt = False, wt_user = None\<rparr>"

definition home_page :: "(waiting_screen, nat) page" where
  "home_page = \<lparr>pg_browser = home_device, pg_server = 0, pg_inflight = []\<rparr>"

definition ok_net :: "nat net" where
  "ok_net t q n = (Inr (ok_response (JObj [(''tokenBalance'', JNum 5)])), Suc n)"

lemmas home_defs = home_page_def home_device_def new_device_def mobile_setUser_def mobile_setToken_def present_def device.defs

lemma second_search_reopens_session_witness:
  "\<exists>p :: (waiting_screen, nat) page. dv_stack (pg_browser (app_run (waiting_effects plain_mobile) ok_net
     ([Started 5 (Upd (handleSessionEnd_m (Some ''s1'') (JObj [(''sessionId'', JStr ''s1'')])) Stop),
       Started 6 (Upd (result_effect \<lparr>mr_mutual = False, mr_matchId = None, mr_partnerRevealVersion = None, mr_partnerReveal = None\<rparr>) Stop)] @ search plain_mobile 7 8) p)) =
     [(''VideoCall'', Some (with_anonymousId (JObj [(''sessionId'', JStr ''s1'')])))]"
proof -
  let ?m = "JObj [(''sessionId'', JStr ''s1'')]"
  have "at_home (pg_browser home_page)" by (simp add: at_home_def home_defs balance_of_def json_get_num_def)
  moreover have "accepts_joins plain_mobile ok_net" by (simp add: accepts_joins_def ok_net_def)
  moreover have "pg_inflight home_page = []" "qs_status (pg_browser home_page) = Idle" "qs_match (pg_browser home_page) = None" by (simp_all add: home_defs)
  ultimately show ?thesis
    using second_search_reopens_session [of home_page plain_mobile ok_net ?m ?m "\<lparr>mr_mutual = False, mr_matchId = None, mr_partnerRevealVersion = None, mr_partnerReveal = None\<rparr>"
      1 2 3 4 5 "''s1''" ?m 6 7 8]
    unfolding Let_def by (metis mobile_result.select_convs(1))
qed

definition waiting_page_m :: "(waiting_screen, nat) page" where
  "waiting_page_m = \<lparr>pg_browser = home_device\<lparr>dv_stack := [(''Waiting'', None), (''Main'', None)], qs_status := Searching, wt_mounted := True, wt_statusRef := Searching,
       wt_user := au_user home_device\<rparr>,
     pg_server = 0, pg_inflight = [(mobile_request plain_mobile ''/tokens/balance'' (plain_options ''GET'' None) (Some ''t''), balance_asked None)]\<rparr>"

lemma balance_answer_ends_search_witness:
  "qs_status (pg_browser (app_step (waiting_effects plain_mobile) ok_net (Answered 2 0) (app_step (waiting_effects plain_mobile) ok_net (Answered 1 0) waiting_page_m))) = Idle"
proof -
  have "waits (pg_browser waiting_page_m)" by (simp add: waits_def waiting_page_m_def on_stack_def home_defs)
  moreover have "pg_inflight waiting_page_m = [(mobile_request plain_mobile ''/tokens/balance'' (plain_options ''GET'' None) (Some ''t''), balance_asked None)]"
    by (simp add: waiting_page_m_def)
  ultimately show ?thesis
    using balance_answer_ends_search [of waiting_page_m _ None ok_net 1 "ok_response (JObj [(''tokenBalance'', JNum 5)])" _ 2 plain_mobile]
    by (simp add: ok_net_def Let_def)
qed

end
