(* ===== verification/Mobile_Shop_Props.thy ===== *)
theory Mobile_Shop_Props
  imports Mobile_Laws Mobile_Account
begin

text \<open>
  The token shop asks for the balance as long as it is open: an answer makes a new user object, the callback that asks depends on
  it, and the effect on the callback asks again.
\<close>

definition balance_url :: "mobile_env \<Rightarrow> string" where
  "balance_url M = API_URL_m M @ ''/tokens/balance''"

definition balance_fine :: "http_response \<Rightarrow> bool" where
  "balance_fine r \<longleftrightarrow> response_ok r \<and> (\<exists>kvs. hs_json r = Some (JObj kvs))"

text \<open>The continuation of a request that sets the user: it asks for nothing itself.\<close>

definition renews :: "(exn + http_response \<Rightarrow> shop_screen act) \<Rightarrow> bool" where
  "renews k \<longleftrightarrow> (\<forall>r b. balance_fine r \<longrightarrow> (\<exists>b' j. run_act (k (Inr r)) b = ([], b') \<and> au_token b' = au_token b \<and> au_user b' = Some (au_users b, j) \<and>
     au_users b' = Suc (au_users b) \<and> sh_deps b' = sh_deps b \<and> sh_status b' = sh_status b))"

abbreviation shop_answered :: "(nat \<times> json) option \<Rightarrow> (exn + int option \<Rightarrow> shop_screen act) \<Rightarrow> exn + http_response \<Rightarrow> shop_screen act" where
  "shop_answered user k \<equiv> api_parsed (balance_answered setRefreshing_sh setError_sh user k)"

lemma renews_answered:
  assumes "k = ignore_balance \<or> k = redirect_done"
  shows "renews (shop_answered user k)"
proof -
  have "hs_status r \<noteq> 401 \<and> hs_status r \<noteq> 403" if "balance_fine r" for r using that by (auto simp: balance_fine_def response_ok_def)
  then show ?thesis using assms
    by (auto simp: renews_def api_parsed_ok balance_answered_def signed_off_def balance_fine_def response_body_def not_null_def Let_def mobile_setUser_def
      setRefreshing_sh_def ignore_balance_def redirect_done_def alert_def)
qed

definition asks :: "mobile_env \<Rightarrow> shop_screen waiting_call list \<Rightarrow> bool" where
  "asks M ts \<longleftrightarrow> (\<forall>(q, k) \<in> set ts. hq_method q = ''GET'' \<and> hq_url q = balance_url M \<and> renews k)"

lemma shop_effects_ask:
  assumes "sh_deps b \<noteq> Some (au_token b, au_user b)" and "present (au_token b)"
  shows "\<exists>ts b'. run_act (shop_effects M) b = (ts, b') \<and> length ts = (if sh_status b = Some ''success'' then 2 else 1) \<and> asks M ts \<and>
    au_token b' = au_token b \<and> au_user b' = au_user b \<and> au_users b' = au_users b \<and> sh_status b' = sh_status b \<and> sh_deps b' = Some (au_token b, au_user b) \<and>
    (sh_deps b \<noteq> None \<longrightarrow> sh_poll b' = None)"
  using assms
  by (auto simp: shop_effects_def refreshBalance_def handleRedirectResult_def setRefreshing_sh_def setError_sh_def stopPolling_def asks_def balance_url_def
    plain_options_def renews_answered alert_def)

definition shop_open :: "mobile_env \<Rightarrow> string option \<Rightarrow> (shop_screen, nat) page \<Rightarrow> bool" where
  "shop_open M status p \<longleftrightarrow> (let b = pg_browser p in present (au_token b) \<and> sh_deps b = Some (au_token b, au_user b) \<and> sh_status b = status \<and>
     (\<forall>u. au_user b = Some u \<longrightarrow> fst u < au_users b) \<and> asks M (pg_inflight p) \<and>
     length (pg_inflight p) = 1 + (if status = Some ''success'' then Suc (pg_server p) else 0))"

text \<open>The server that counts its answers.\<close>

definition counting :: "nat net \<Rightarrow> bool" where
  "counting net \<longleftrightarrow> (\<forall>t q n. \<exists>r. net t q n = (Inr r, Suc n) \<and> balance_fine r)"

lemma shop_answer_asks:
  assumes o: "shop_open M status p" and n: "counting net" and i: "i < length (pg_inflight p)"
  shows "shop_open M status (app_step (shop_effects M) net (Answered t i) p) \<and> pg_server (app_step (shop_effects M) net (Answered t i) p) = Suc (pg_server p) \<and>
    sh_poll (pg_browser (app_step (shop_effects M) net (Answered t i) p)) = None"
proof -
  let ?b = "(pg_browser p)\<lparr>dv_clock := t\<rparr>" and ?rest = "take i (pg_inflight p) @ drop (Suc i) (pg_inflight p)"
  obtain q k where k: "pg_inflight p ! i = (q, k)" by fastforce
  then have m: "(q, k) \<in> set (pg_inflight p)" using i by (metis nth_mem)
  obtain r where net: "net t q (pg_server p) = (Inr r, Suc (pg_server p))" and fine: "balance_fine r" using n unfolding counting_def by blast
  have "renews k" using o m by (auto simp: shop_open_def Let_def asks_def)
  then obtain b1 j where one: "run_act (k (Inr r)) ?b = ([], b1)" and b1: "au_token b1 = au_token ?b" "au_user b1 = Some (au_users ?b, j)" "au_users b1 = Suc (au_users ?b)"
      "sh_deps b1 = sh_deps ?b" "sh_status b1 = sh_status ?b"
    using fine unfolding renews_def by blast
  have "sh_deps b1 \<noteq> Some (au_token b1, au_user b1)" "present (au_token b1)" "sh_deps b1 \<noteq> None"
    using o b1 by (auto simp: shop_open_def Let_def)
  then obtain ts b2 where two: "run_act (shop_effects M) b1 = (ts, b2)" and b2: "length ts = (if sh_status b1 = Some ''success'' then 2 else 1)" "asks M ts"
      "au_token b2 = au_token b1" "au_user b2 = au_user b1" "au_users b2 = au_users b1" "sh_status b2 = sh_status b1" "sh_deps b2 = Some (au_token b1, au_user b1)" "sh_poll b2 = None"
    using shop_effects_ask [of b1 M] by blast
  have s: "app_step (shop_effects M) net (Answered t i) p = p\<lparr>pg_server := Suc (pg_server p), pg_browser := b2, pg_inflight := ?rest @ ts\<rparr>"
    using i k net one two by (simp add: app_perform_def)
  have "asks M ?rest" using o by (auto simp: shop_open_def Let_def asks_def dest!: in_set_takeD in_set_dropD)
  then show ?thesis unfolding s using o b1 b2 i by (auto simp: shop_open_def Let_def asks_def)
qed

lemma shop_answers:
  assumes "shop_open M status p" and n: "counting net"
  shows "shop_open M status (app_run (shop_effects M) net (map (\<lambda>(t, i). Answered t i) ts) p) \<and>
    (list_all (\<lambda>(t, i). i = 0) ts \<longrightarrow> pg_server (app_run (shop_effects M) net (map (\<lambda>(t, i). Answered t i) ts) p) = pg_server p + length ts)"
  using assms(1)
proof (induction ts arbitrary: p)
  case (Cons x ts)
  obtain t i where x: "x = (t, i)" by fastforce
  let ?p = "app_step (shop_effects M) net (Answered t i) p"
  have o: "shop_open M status ?p \<and> (i = 0 \<longrightarrow> pg_server ?p = Suc (pg_server p))"
  proof (cases "i < length (pg_inflight p)")
    case True
    then show ?thesis using shop_answer_asks [OF Cons.prems n] by blast
  qed (use Cons.prems in \<open>auto simp: shop_open_def Let_def\<close>)
  show ?case using Cons.IH [of ?p] o by (auto simp: app_run_def x)
qed (simp add: app_run_def)

text \<open>C33: The open token shop never stops asking for the balance while the server answers: there is always a request on its way, whatever
  the order of the answers and the balance; with the status of a completed purchase there is one more after each answer.\<close>

theorem shop_asks_forever:
  fixes M t0 status
  assumes token: "present (au_token b)" and old: "\<And>u. au_user b = Some u \<Longrightarrow> fst u < au_users b" and server: "counting net"
  defines "shop \<equiv> (\<lambda>ts. app_run (shop_effects M) net (Started t0 Stop # map (\<lambda>(t, i). Answered t i) ts)
     \<lparr>pg_browser = open_shop b status, pg_server = 0, pg_inflight = []\<rparr>)"
  shows "length (pg_inflight (shop ts)) = 1 + (if status = Some ''success'' then Suc (pg_server (shop ts)) else 0) \<and>
    (\<forall>(q, k) \<in> set (pg_inflight (shop ts)). hq_method q = ''GET'' \<and> hq_url q = balance_url M) \<and>
    (list_all (\<lambda>(t, i). i = 0) ts \<longrightarrow> pg_server (shop ts) = length ts)"
proof -
  let ?p = "\<lparr>pg_browser = open_shop b status, pg_server = 0 :: nat, pg_inflight = []\<rparr>" and ?b = "(open_shop b status)\<lparr>dv_clock := t0\<rparr>"
  have b: "au_token ?b = au_token b" "au_user ?b = au_user b" "au_users ?b = au_users b" "sh_status ?b = status" "sh_deps ?b = None"
    by (simp_all add: open_shop_def device.defs)
  obtain ts' b' where e: "run_act (shop_effects M) ?b = (ts', b')" "length ts' = (if status = Some ''success'' then 2 else 1)" "asks M ts'"
      "au_token b' = au_token b" "au_user b' = au_user b" "au_users b' = au_users b" "sh_status b' = status" "sh_deps b' = Some (au_token b, au_user b)"
    using shop_effects_ask [of ?b M] token b by auto
  have s: "app_step (shop_effects M) net (Started t0 Stop) ?p = ?p\<lparr>pg_browser := b', pg_inflight := ts'\<rparr>"
    using e(1) by (simp add: app_perform_def)
  define p1 where "p1 = ?p\<lparr>pg_browser := b', pg_inflight := ts'\<rparr>"
  have "shop_open M status p1" using e token old by (auto simp: p1_def shop_open_def Let_def)
  note run = shop_answers [OF this server, of ts]
  have "shop ts = app_run (shop_effects M) net (map (\<lambda>(t, i). Answered t i) ts) p1" by (simp add: shop_def app_run_def s p1_def del: app_step.simps)
  moreover have "pg_server p1 = 0" by (simp add: p1_def)
  ultimately show ?thesis using run unfolding shop_open_def Let_def asks_def by fastforce
qed

definition witness_net :: "nat net" where
  "witness_net t q n = (Inr (ok_response (JObj [(''tokenBalance'', JNum 3)])), Suc n)"

definition signed_in :: device where
  "signed_in = mobile_setUser (Some (JObj [(''id'', JStr ''u1''), (''tokenBalance'', JNum 3)])) (mobile_setToken (Some ''t'')
     \<lparr>dv_token = None, dv_user = None, dv_pendingRoute = None, dv_clock = 0, dv_uuids = 0, dv_alerts = [], dv_stack = [(''Main'', None)], au_token = None, au_user = None,
      au_users = 0, au_pendingRoute = None, au_hydrated = True, qs_status = Idle, qs_estimated = None, qs_match = None, qs_tokenSpent = False,
      qs_usersSearching = None, qs_queueKey = None, ws_lastMessage = None, ws_lastSessionStart = None\<rparr>)"

lemma signed_in_fields: "present (au_token signed_in)" "au_user signed_in = Some (0, JObj [(''id'', JStr ''u1''), (''tokenBalance'', JNum 3)])" "au_users signed_in = 1"
  by (simp_all add: signed_in_def mobile_setUser_def mobile_setToken_def present_def)

lemma witness_counting: "counting witness_net"
  by (simp add: counting_def witness_net_def balance_fine_def)

lemma shop_asks_forever_witness:
  "length (pg_inflight (app_run (shop_effects plain_mobile) witness_net (Started 0 Stop # map (\<lambda>(t, i). Answered t i) [(1, 0), (2, 1), (3, 0)])
     \<lparr>pg_browser = open_shop signed_in (Some ''success''), pg_server = 0, pg_inflight = []\<rparr>)) \<ge> 2"
  using shop_asks_forever [where b = signed_in and net = witness_net and M = plain_mobile and ?t0.0 = 0 and status = "Some ''success''" and ts = "[(1, 0), (2, 1), (3, 0)]"]
    signed_in_fields witness_counting
  by simp

end
