(* ===== verification/Mobile_Chat.thy ===== *)
theory Mobile_Chat
  imports Mobile_Client
begin

text \<open>
  The queries of the mobile application and its chat: \<open>queries/useChatQuery.ts\<close>, \<open>queries/useMatchesQuery.ts\<close>,
  \<open>screens/chat/ChatScreen.tsx\<close>, \<open>screens/matches/MatchProfileView.tsx\<close> and the handler of \<open>screens/matches/MatchesListScreen.tsx\<close>, all
  under \<open>src/verity-mobile/src\<close>. The cache of the query client has, for a match, one list of messages for every limit it was asked with;
  \<open>None\<close> is a query without data.
\<close>

section \<open>Messages and the cache\<close>

record mobile_message =
  mm_id :: string
  mm_matchId :: string
  mm_senderId :: string
  mm_text :: string
  mm_createdAt :: string

definition mobile_message_of :: "json \<Rightarrow> mobile_message" where
  "mobile_message_of j = \<lparr>mm_id = text_field ''id'' j, mm_matchId = text_field ''matchId'' j, mm_senderId = text_field ''senderId'' j,
     mm_text = text_field ''text'' j, mm_createdAt = text_field ''createdAt'' j\<rparr>"

text \<open>\<open>mc_chats\<close> has the queries whose key starts with \<open>['chat', matchId]\<close>, by their limit; \<open>mc_reveal\<close> and \<open>mc_revealFailed\<close> are the query of the reveal.\<close>

record mobile_chat = device +
  mc_matchId :: "string option"
  mc_limit :: int
  mc_draft :: string
  mc_chats :: "(int \<times> mobile_message list option) list"
  mc_chatError :: "string option"
  mc_reveal :: "json option"
  mc_revealFailed :: bool
  mc_redirected :: bool
  mc_seen :: "(json \<times> int) option"

definition open_mobile_chat :: "device \<Rightarrow> string option \<Rightarrow> mobile_chat" where
  "open_mobile_chat b matchId = device.extend b \<lparr>mc_matchId = matchId, mc_limit = 50, mc_draft = [], mc_chats = [(50, None)], mc_chatError = None,
     mc_reveal = None, mc_revealFailed = False, mc_redirected = False, mc_seen = None\<rparr>"

definition on_chats :: "(mobile_message list \<Rightarrow> mobile_message list) \<Rightarrow> mobile_chat \<Rightarrow> mobile_chat" where
  "on_chats f b = b\<lparr>mc_chats := map (\<lambda>(limit, data). (limit, map_option f data)) (mc_chats b)\<rparr>"

definition reveal_acknowledged :: "mobile_chat \<Rightarrow> bool" where
  "reveal_acknowledged b \<longleftrightarrow> Option.bind (mc_reveal b) (json_get ''revealAcknowledged'') = Some (JBool True)"

section \<open>queries/useChatQuery.ts\<close>

definition mobile_parseApiErrorCode :: "json option \<Rightarrow> string option" where
  "mobile_parseApiErrorCode data = (case data of
      Some (JObj kvs) \<Rightarrow> (case json_get_str ''code'' (JObj kvs) of
          Some c \<Rightarrow> Some c
        | None \<Rightarrow> Option.bind (json_get ''message'' (JObj kvs)) (json_get_str ''code''))
    | _ \<Rightarrow> None)"

definition forbidden :: "api_result \<Rightarrow> exn" where
  "forbidden r = JsError (if mobile_parseApiErrorCode (ar_data r) = Some ''REVEAL_ACK_REQUIRED'' then ''REVEAL_ACK_REQUIRED'' else ''FORBIDDEN'')"

definition query_chat :: "mobile_env \<Rightarrow> string option \<Rightarrow> int \<Rightarrow> (exn + mobile_message list \<Rightarrow> mobile_chat act) \<Rightarrow> mobile_chat act" where
  "query_chat M matchId limit k =
    (if \<not> present matchId then k (Inr [])
     else mobile_apiJson M (''/matches/'' @ the matchId @ ''/messages?limit='' @ show_int limit) (plain_options ''GET'' None) None (\<lambda>response. case response of
         Inl e \<Rightarrow> k (Inl e)
       | Inr r \<Rightarrow>
           if ar_status r = 401 then Upd mobile_logout (k (Inr []))
           else if ar_status r = 403 then k (Inl (forbidden r))
           else (case response_body r of
               Some (JArr ms) \<Rightarrow> k (Inr (if ar_ok r then map mobile_message_of ms else []))
             | _ \<Rightarrow> k (Inr []))))"

definition query_match_reveal :: "mobile_env \<Rightarrow> string option \<Rightarrow> (exn + json \<Rightarrow> mobile_chat act) \<Rightarrow> mobile_chat act" where
  "query_match_reveal M matchId k =
    (if \<not> present matchId then k (Inl (JsError ''Missing match ID''))
     else mobile_apiJson M (''/matches/'' @ the matchId @ ''/reveal'') (plain_options ''GET'' None) None (\<lambda>response. case response of
         Inl e \<Rightarrow> k (Inl e)
       | Inr r \<Rightarrow>
           if ar_status r = 401 then Upd mobile_logout (k (Inl (JsError ''UNAUTHORIZED'')))
           else if \<not> ar_ok r \<or> response_body r = None then k (Inl (JsError ''REVEAL_LOAD_FAILED''))
           else k (Inr (the (response_body r)))))"

text \<open>\<open>useSendMessageMutation\<close>: \<open>onMutate\<close>, the request, and \<open>onSuccess\<close> or \<open>onError\<close>.\<close>

definition optimistic_m :: "string \<Rightarrow> string \<Rightarrow> 'a device_scheme \<Rightarrow> mobile_message" where
  "optimistic_m matchId content b = \<lparr>mm_id = ''temp-'' @ show_int (dv_clock b), mm_matchId = matchId,
     mm_senderId = (case Option.bind (au_user b) (json_get_str ''id'' \<circ> snd) of Some i \<Rightarrow> i | None \<Rightarrow> ''me''), mm_text = content,
     mm_createdAt = date_iso (dv_clock b)\<rparr>"

definition drop_copy :: "string \<Rightarrow> mobile_message list \<Rightarrow> mobile_message list" where
  "drop_copy optimisticId data = filter (\<lambda>m. mm_id m \<noteq> optimisticId) data"

definition send_onError :: "string \<Rightarrow> mobile_chat \<Rightarrow> mobile_chat" where
  "send_onError optimisticId = on_chats (drop_copy optimisticId)"

definition send_onSuccess :: "string \<Rightarrow> mobile_message \<Rightarrow> mobile_chat \<Rightarrow> mobile_chat" where
  "send_onSuccess optimisticId m = on_chats (\<lambda>data.
     let filtered = drop_copy optimisticId data in
     if list_ex (\<lambda>x. mm_id x = mm_id m) filtered then data else filtered @ [m])"

definition send_answered :: "string \<Rightarrow> (exn + mobile_message \<Rightarrow> mobile_chat act) \<Rightarrow> exn + api_result \<Rightarrow> mobile_chat act" where
  "send_answered optimisticId k response =
    (let failed = (\<lambda>e. Upd (send_onError optimisticId) (k (Inl e))) in case response of
       Inl e \<Rightarrow> failed e
     | Inr r \<Rightarrow>
         if ar_status r = 401 then Upd mobile_logout (failed (JsError ''Unauthorized''))
         else if ar_status r = 403 then failed (forbidden r)
         else if \<not> ar_ok r \<or> response_body r = None then failed (JsError ''Send failed'')
         else (let m = mobile_message_of (the (response_body r)) in Upd (send_onSuccess optimisticId m) (k (Inr m))))"

definition send_mutate :: "mobile_env \<Rightarrow> string option \<Rightarrow> string \<Rightarrow> (exn + mobile_message \<Rightarrow> mobile_chat act) \<Rightarrow> mobile_chat act" where
  "send_mutate M matchId content k =
    (if \<not> present matchId then k (Inl (JsError ''Missing match ID''))
     else Read (\<lambda>b. let optimistic = optimistic_m (the matchId) content b in
       Upd (on_chats (\<lambda>data. data @ [optimistic]))
         (mobile_apiJson M (''/matches/'' @ the matchId @ ''/messages'') (plain_options ''POST'' (Some (JObj [(''text'', JStr content)]))) None
           (send_answered (mm_id optimistic) k))))"

text \<open>\<open>useAcknowledgeRevealMutation\<close>.\<close>

definition acknowledge_mutate :: "mobile_env \<Rightarrow> string option \<Rightarrow> (exn + json \<Rightarrow> mobile_chat act) \<Rightarrow> mobile_chat act" where
  "acknowledge_mutate M matchId k =
    (if \<not> present matchId then k (Inl (JsError ''Missing match ID''))
     else mobile_apiJson M (''/matches/'' @ the matchId @ ''/reveal-ack'') (plain_options ''POST'' None) None (\<lambda>response. case response of
         Inl e \<Rightarrow> k (Inl e)
       | Inr r \<Rightarrow>
           if \<not> ar_ok r \<or> response_body r = None then k (Inl (JsError ''REVEAL_ACK_FAILED''))
           else Upd (\<lambda>b. b\<lparr>mc_reveal := response_body r, mc_revealFailed := False\<rparr>) (k (Inr (the (response_body r))))))"

section \<open>queries/useMatchesQuery.ts and screens/matches\<close>

definition query_matches :: "mobile_env \<Rightarrow> (exn + json list \<Rightarrow> 'a device_scheme act) \<Rightarrow> 'a device_scheme act" where
  "query_matches M k = mobile_apiJson M ''/matches'' (plain_options ''GET'' None) None (\<lambda>response. case response of
      Inl e \<Rightarrow> k (Inl e)
    | Inr r \<Rightarrow>
        if signed_off r then Upd mobile_logout (k (Inr []))
        else if \<not> ar_ok r then k (Inr [])
        else (case response_body r of Some (JArr ms) \<Rightarrow> k (Inr ms) | _ \<Rightarrow> k (Inr [])))"

text \<open>\<open>match:mutual\<close> on the list of matches; its query is invalidated, which asks again.\<close>

definition matches_handleMutual :: "json \<Rightarrow> 'a device_scheme \<Rightarrow> 'a device_scheme" where
  "matches_handleMutual payload b =
    (case (case not_null (json_get ''matchId'' payload) of Some i \<Rightarrow> Some i | None \<Rightarrow> not_null (json_get ''id'' payload)) of
       Some (JStr matchId) \<Rightarrow> if matchId = [] then b
         else nav_navigate ''MatchProfile'' (Some (JObj ([(''matchId'', JStr matchId)] @
           (case json_get ''partnerReveal'' payload of None \<Rightarrow> [] | Some r \<Rightarrow> [(''partnerReveal'', r)])))) b
     | _ \<Rightarrow> b)"

definition profile_handleStartChat :: "mobile_env \<Rightarrow> mobile_chat act" where
  "profile_handleStartChat M = Read (\<lambda>b.
     let proceed = Upd (nav_navigate ''Chat'' (Some (JObj [(''matchId'', JStr (the (mc_matchId b)))]))) Stop
     in if \<not> present (mc_matchId b) then Stop
     else if reveal_acknowledged b then proceed
     else acknowledge_mutate M (mc_matchId b) (\<lambda>r. case r of
         Inl e \<Rightarrow> Upd (alert ''Unable to continue'' ''Please try again in a moment.'') Stop
       | Inr p \<Rightarrow> proceed))"

section \<open>screens/chat/ChatScreen.tsx\<close>

definition load_chat :: "mobile_env \<Rightarrow> mobile_chat act" where
  "load_chat M = Read (\<lambda>b.
     if \<not> (present (mc_matchId b) \<and> reveal_acknowledged b) then Stop
     else query_chat M (mc_matchId b) (mc_limit b) (\<lambda>r. case r of
         Inl e \<Rightarrow> Upd (\<lambda>x. x\<lparr>mc_chatError := Some (case e of JsError m \<Rightarrow> m | _ \<Rightarrow> [])\<rparr>) Stop
       | Inr ms \<Rightarrow> Upd (\<lambda>x. x\<lparr>mc_chats := map (\<lambda>(l, data). if l = mc_limit b then (l, Some ms) else (l, data)) (mc_chats x), mc_chatError := None\<rparr>) Stop))"

definition load_match_reveal :: "mobile_env \<Rightarrow> mobile_chat act" where
  "load_match_reveal M = Read (\<lambda>b.
     if \<not> present (mc_matchId b) then Stop
     else query_match_reveal M (mc_matchId b) (\<lambda>r. case r of
         Inl e \<Rightarrow> Upd (\<lambda>x. x\<lparr>mc_revealFailed := True\<rparr>) Stop
       | Inr data \<Rightarrow> Upd (\<lambda>x. x\<lparr>mc_reveal := Some data, mc_revealFailed := False\<rparr>) Stop))"

text \<open>The effect on the reveal; the button of its alert replaces the screen.\<close>

definition redirect_effect :: "mobile_chat \<Rightarrow> mobile_chat" where
  "redirect_effect b =
    (if \<not> present (mc_matchId b) \<or> mc_reveal b = None \<or> reveal_acknowledged b then b\<lparr>mc_redirected := False\<rparr>
     else if mc_redirected b then b
     else alert ''Profile reveal required'' ''Review the profile reveal before chatting.'' (b\<lparr>mc_redirected := True\<rparr>))"

definition view_profile :: "mobile_chat \<Rightarrow> mobile_chat" where
  "view_profile b = nav_replace ''MatchProfile'' (Some (JObj
     ((case mc_matchId b of None \<Rightarrow> [] | Some i \<Rightarrow> [(''matchId'', JStr i)]) @
      (case Option.bind (mc_reveal b) (json_get ''partnerReveal'') of None \<Rightarrow> [] | Some r \<Rightarrow> [(''partnerReveal'', r)])))) b"

text \<open>
  The effect on the last message: it goes into every list, and makes a list of a query that has no data. \<open>mc_seen\<close> is the message the
  effect saw; the other dependency that can change is the acknowledgement, so the effect runs again when it comes.
\<close>

definition add_message :: "mobile_message \<Rightarrow> mobile_message list \<Rightarrow> mobile_message list" where
  "add_message m existing = (if list_ex (\<lambda>x. mm_id x = mm_id m) existing then existing else existing @ [m])"

definition message_effect :: "mobile_chat \<Rightarrow> mobile_chat" where
  "message_effect b = (case ws_lastMessage b of
      None \<Rightarrow> b
    | Some (j, receivedAt) \<Rightarrow>
        if \<not> present (mc_matchId b) \<or> mm_matchId (mobile_message_of j) \<noteq> the (mc_matchId b) \<or> \<not> reveal_acknowledged b \<or> mc_seen b = ws_lastMessage b then b
        else b\<lparr>mc_seen := ws_lastMessage b,
          mc_chats := map (\<lambda>(l, data). (l, Some (add_message (mobile_message_of j) (case data of None \<Rightarrow> [] | Some ms \<Rightarrow> ms)))) (mc_chats b)\<rparr>)"

definition chat_effects :: "mobile_chat act" where
  "chat_effects = Upd (\<lambda>b. message_effect (redirect_effect b)) Stop"

definition send_done :: "exn + mobile_message \<Rightarrow> mobile_chat act" where
  "send_done r = (case r of
      Inr m \<Rightarrow> Upd (\<lambda>b. b\<lparr>mc_draft := []\<rparr>) Stop
    | Inl e \<Rightarrow> if e = JsError ''REVEAL_ACK_REQUIRED'' then Upd view_profile Stop
        else Upd (alert ''Send failed'' ''Unable to send your message.'') Stop)"

definition mobile_handleSend :: "mobile_env \<Rightarrow> mobile_chat act" where
  "mobile_handleSend M = Read (\<lambda>b0.
     if trim (mc_draft b0) = [] \<or> \<not> reveal_acknowledged b0 then Stop
     else send_mutate M (mc_matchId b0) (trim (mc_draft b0)) send_done)"

text \<open>The end of the list is reached: the limit grows, and a query with the new limit is made.\<close>

definition chat_endReached :: "mobile_env \<Rightarrow> mobile_chat act" where
  "chat_endReached M = Upd (\<lambda>b. let limit = mc_limit b + 50 in
     b\<lparr>mc_limit := limit, mc_chats := (if limit \<in> fst ` set (mc_chats b) then mc_chats b else mc_chats b @ [(limit, None)])\<rparr>) (load_chat M)"

text \<open>
  The data of the list: the messages of the query with the limit of the screen. The list is inverted: its first row is the lowest on the
  screen, at the offset 0 to which the screen scrolls when there is a new one.
\<close>

definition mobile_shown :: "mobile_chat \<Rightarrow> mobile_message list" where
  "mobile_shown b = (case Option.bind (map_of (mc_chats b) (mc_limit b)) (\<lambda>x. x) of None \<Rightarrow> [] | Some ms \<Rightarrow> ms)"

definition rows_from_top :: "mobile_chat \<Rightarrow> mobile_message list" where
  "rows_from_top b = rev (mobile_shown b)"

end
