(* ===== verification/Mobile_Chat_Props.thy ===== *)
theory Mobile_Chat_Props
  imports Mobile_Laws Mobile_Chat
begin

text \<open>
  What the chat of the mobile application shows after a message of the user: it depends on whether the socket or the response brings
  the message first.
\<close>

definition send_request_m :: "mobile_env \<Rightarrow> string \<Rightarrow> string \<Rightarrow> string option \<Rightarrow> http_request" where
  "send_request_m M matchId content token =
    mobile_request M (''/matches/'' @ matchId @ ''/messages'') (plain_options ''POST'' (Some (JObj [(''text'', JStr content)]))) token"

text \<open>A chat that is loaded and may send.\<close>

definition chat_ready :: "string \<Rightarrow> mobile_message list \<Rightarrow> mobile_chat \<Rightarrow> bool" where
  "chat_ready matchId ms b \<longleftrightarrow> mc_matchId b = Some matchId \<and> matchId \<noteq> [] \<and> reveal_acknowledged b \<and> trim (mc_draft b) \<noteq> [] \<and>
     mc_chats b = [(mc_limit b, Some ms)] \<and> mc_seen b = ws_lastMessage b"

lemma ready_clock [simp]: "chat_ready matchId ms (b\<lparr>dv_clock := t\<rparr>) = chat_ready matchId ms b"
  by (simp add: chat_ready_def reveal_acknowledged_def)

lemma effects_seen: "mc_seen b = ws_lastMessage b \<Longrightarrow> reveal_acknowledged b \<Longrightarrow> run_act chat_effects b = ([], b\<lparr>mc_redirected := False\<rparr>)"
  by (simp add: chat_effects_def redirect_effect_def message_effect_def reveal_acknowledged_def split: option.split)

lemma handleSend_sends:
  assumes "chat_ready matchId ms b"
  shows "run_act (Spawn (mobile_handleSend M) chat_effects) b =
    ([(send_request_m M matchId (trim (mc_draft b)) (dv_token b), api_parsed (send_answered (mm_id (optimistic_m matchId (trim (mc_draft b)) b)) send_done))],
     b\<lparr>mc_chats := [(mc_limit b, Some (ms @ [optimistic_m matchId (trim (mc_draft b)) b]))], mc_redirected := False\<rparr>)"
proof -
  let ?b = "b\<lparr>mc_chats := [(mc_limit b, Some (ms @ [optimistic_m matchId (trim (mc_draft b)) b]))]\<rparr>"
  have "run_act chat_effects ?b = ([], ?b\<lparr>mc_redirected := False\<rparr>)"
    by (rule effects_seen) (use assms in \<open>simp_all add: chat_ready_def reveal_acknowledged_def\<close>)
  then show ?thesis using assms
    by (simp add: mobile_handleSend_def send_mutate_def on_chats_def chat_ready_def present_def send_request_m_def Let_def)
qed

text \<open>The answer, on the one list of the chat.\<close>

definition answered_list :: "string \<Rightarrow> mobile_message \<Rightarrow> mobile_message list \<Rightarrow> mobile_message list" where
  "answered_list i m data = (let filtered = drop_copy i data in if list_ex (\<lambda>x. mm_id x = mm_id m) filtered then data else filtered @ [m])"

lemma answer_list:
  assumes "response_ok r" and "hs_json r = Some j" and "j \<noteq> JNull" and "mc_chats b = [(mc_limit b, Some data)]" and "reveal_acknowledged b" and "mc_seen b = ws_lastMessage b"
  shows "\<exists>b'. run_act (Spawn (api_parsed (send_answered i send_done) (Inr r)) chat_effects) b = ([], b') \<and>
    mc_chats b' = [(mc_limit b, Some (answered_list i (mobile_message_of j) data))] \<and> mc_limit b' = mc_limit b \<and> reveal_acknowledged b' \<and>
    mc_seen b' = mc_seen b \<and> ws_lastMessage b' = ws_lastMessage b \<and> mc_matchId b' = mc_matchId b"
proof -
  let ?b = "b\<lparr>mc_chats := [(mc_limit b, Some (answered_list i (mobile_message_of j) data))], mc_draft := []\<rparr>"
  have c: "hs_status r \<noteq> 401" "hs_status r \<noteq> 403" using assms(1) by (auto simp: response_ok_def)
  have "run_act chat_effects ?b = ([], ?b\<lparr>mc_redirected := False\<rparr>)"
    by (rule effects_seen) (use assms in \<open>simp_all add: reveal_acknowledged_def\<close>)
  then show ?thesis using assms c
    by (simp add: api_parsed_ok send_done_def send_answered_def response_body_def not_null_def send_onSuccess_def on_chats_def answered_list_def Let_def reveal_acknowledged_def)
qed

lemma event_list:
  assumes "mc_chats b = [(mc_limit b, Some data)]" and "reveal_acknowledged b" and "mc_matchId b = Some matchId" "matchId \<noteq> []" and "mm_matchId (mobile_message_of j) = matchId"
    and "mc_seen b \<noteq> Some (j, dv_clock b)"
  shows "\<exists>b'. run_act (Spawn (Upd (socket_event (''message:new'', j)) Stop) chat_effects) b = ([], b') \<and>
    mc_chats b' = [(mc_limit b, Some (add_message (mobile_message_of j) data))] \<and> mc_limit b' = mc_limit b \<and> reveal_acknowledged b' \<and> mc_seen b' = ws_lastMessage b' \<and>
    mc_matchId b' = mc_matchId b"
  using assms by (simp add: chat_effects_def socket_event_def redirect_effect_def message_effect_def reveal_acknowledged_def present_def)

lemma event_step:
  assumes "mc_chats (pg_browser x) = [(mc_limit (pg_browser x), Some data)]" "reveal_acknowledged (pg_browser x)" "mc_matchId (pg_browser x) = Some matchId" "matchId \<noteq> []"
    "mm_matchId (mobile_message_of j) = matchId" "mc_seen (pg_browser x) \<noteq> Some (j, t)"
  shows "\<exists>b'. app_step chat_effects net (Started t (Upd (socket_event (''message:new'', j)) Stop)) x = x\<lparr>pg_browser := b'\<rparr> \<and>
      mc_chats b' = [(mc_limit b', Some (add_message (mobile_message_of j) data))] \<and> reveal_acknowledged b' \<and> mc_seen b' = ws_lastMessage b'"
  using event_list [of "(pg_browser x)\<lparr>dv_clock := t\<rparr>" data matchId j] assms
  by (auto simp: app_perform_def reveal_acknowledged_def simp del: settle_with.simps)

lemma answer_step:
  assumes "pg_inflight x = [(q, api_parsed (send_answered i send_done))]" "mc_chats (pg_browser x) = [(mc_limit (pg_browser x), Some data)]" "reveal_acknowledged (pg_browser x)"
    "mc_seen (pg_browser x) = ws_lastMessage (pg_browser x)" and "net t q (pg_server x) = (Inr r, s)" "response_ok r" "hs_json r = Some j" "j \<noteq> JNull"
  shows "\<exists>b'. app_step chat_effects net (Answered t 0) x = x\<lparr>pg_server := s, pg_browser := b', pg_inflight := []\<rparr> \<and>
      mc_chats b' = [(mc_limit b', Some (answered_list i (mobile_message_of j) data))] \<and> reveal_acknowledged b' \<and> mc_seen b' = mc_seen (pg_browser x) \<and>
      mc_matchId b' = mc_matchId (pg_browser x)"
  using answer_list [of r j "(pg_browser x)\<lparr>dv_clock := t\<rparr>" data i] assms
  by (auto simp: app_perform_def reveal_acknowledged_def simp del: settle_with.simps)

lemma shown_list: "mc_chats b = [(mc_limit b, Some data)] \<Longrightarrow> mobile_shown b = data"
  by (simp add: mobile_shown_def)

text \<open>C34: When the socket brings the user's own message before the response of the request, as the server emits it, the chat keeps the temporary copy
  beside the message; in the other order it shows the message alone.\<close>

theorem mobile_chat_keeps_copy:
  fixes p :: "(mobile_chat, 's) page"
  assumes ready: "chat_ready matchId ms (pg_browser p)" and q: "pg_inflight p = []"
    and server: "\<And>t s. net t (send_request_m M matchId (trim (mc_draft (pg_browser p))) (dv_token (pg_browser p))) s = (Inr r, f s)"
    and r: "response_ok r" "hs_json r = Some j" "j \<noteq> JNull"
    and j: "mm_matchId (mobile_message_of j) = matchId" "mm_id (mobile_message_of j) \<notin> insert (''temp-'' @ show_int t0) (mm_id ` set ms)"
    and copy: "''temp-'' @ show_int t0 \<notin> mm_id ` set ms" and fresh: "\<And>t. ws_lastMessage (pg_browser p) \<noteq> Some (j, t)"
  shows "let sent = Started t0 (mobile_handleSend M); event = (\<lambda>t. Started t (Upd (socket_event (''message:new'', j)) Stop));
      m = mobile_message_of j; temporary = optimistic_m matchId (trim (mc_draft (pg_browser p))) ((pg_browser p)\<lparr>dv_clock := t0\<rparr>)
    in mobile_shown (pg_browser (app_run chat_effects net [sent, event t1, Answered t2 0] p)) = ms @ [temporary, m] \<and>
       mobile_shown (pg_browser (app_run chat_effects net [sent, Answered t1 0, event t2] p)) = ms @ [m]"
proof -
  let ?b = "(pg_browser p)\<lparr>dv_clock := t0\<rparr>" and ?m = "mobile_message_of j" and ?q = "send_request_m M matchId (trim (mc_draft (pg_browser p))) (dv_token (pg_browser p))"
    and ?event = "\<lambda>t. Started t (Upd (socket_event (''message:new'', j)) Stop)"
  define c where "c = optimistic_m matchId (trim (mc_draft (pg_browser p))) ?b"
  have i: "mm_id c = ''temp-'' @ show_int t0" by (simp add: c_def optimistic_m_def)
  define p1 where "p1 = p\<lparr>pg_browser := ?b\<lparr>mc_chats := [(mc_limit ?b, Some (ms @ [c]))], mc_redirected := False\<rparr>,
    pg_inflight := [(?q, api_parsed (send_answered (mm_id c) send_done))]\<rparr>"
  have sent: "app_step chat_effects net (Started t0 (mobile_handleSend M)) p = p1"
    unfolding p1_def c_def using handleSend_sends [of matchId ms ?b M] ready q by (simp add: app_perform_def del: settle_with.simps)
  have b1: "mc_chats (pg_browser p1) = [(mc_limit (pg_browser p1), Some (ms @ [c]))]" "reveal_acknowledged (pg_browser p1)" "mc_matchId (pg_browser p1) = Some matchId"
      "mc_seen (pg_browser p1) = ws_lastMessage (pg_browser p1)" "matchId \<noteq> []" "mc_seen (pg_browser p1) \<noteq> Some (j, t)"
      "pg_inflight p1 = [(?q, api_parsed (send_answered (mm_id c) send_done))]" for t
    using ready fresh by (auto simp: p1_def chat_ready_def reveal_acknowledged_def)
  have n: "\<forall>x \<in> set ms. mm_id x \<noteq> mm_id ?m \<and> mm_id x \<noteq> mm_id c" "mm_id ?m \<noteq> mm_id c"
    using j(2) copy unfolding i by (metis image_eqI insertI2, blast)
  have lists: "add_message ?m (ms @ [c]) = ms @ [c, ?m]" "answered_list (mm_id c) ?m (ms @ [c, ?m]) = ms @ [c, ?m]"
      "answered_list (mm_id c) ?m (ms @ [c]) = ms @ [?m]" "add_message ?m (ms @ [?m]) = ms @ [?m]"
    using n by (auto simp: add_message_def answered_list_def drop_copy_def Let_def list_ex_iff filter_id_conv)
  obtain x2 where x2: "app_step chat_effects net (?event t1) p1 = p1\<lparr>pg_browser := x2\<rparr>" "mc_chats x2 = [(mc_limit x2, Some (ms @ [c, ?m]))]"
      "reveal_acknowledged x2" "mc_seen x2 = ws_lastMessage x2"
    using event_step [where net = net and t = t1, OF b1(1,2,3,5) j(1) b1(6)] lists(1) by auto
  obtain x3 where x3: "app_step chat_effects net (Answered t2 0) (p1\<lparr>pg_browser := x2\<rparr>) = p1\<lparr>pg_server := f (pg_server p1), pg_browser := x3, pg_inflight := []\<rparr>"
      "mc_chats x3 = [(mc_limit x3, Some (ms @ [c, ?m]))]"
    using answer_step [where x = "p1\<lparr>pg_browser := x2\<rparr>" and q = ?q and i = "mm_id c" and data = "ms @ [c, ?m]" and net = net and t = t2 and r = r and s = "f (pg_server p1)" and j = j] x2(2-4) b1(7) server r lists(2) by auto
  obtain y2 where y2: "app_step chat_effects net (Answered t1 0) p1 = p1\<lparr>pg_server := f (pg_server p1), pg_browser := y2, pg_inflight := []\<rparr>"
      "mc_chats y2 = [(mc_limit y2, Some (ms @ [?m]))]" "reveal_acknowledged y2" "mc_seen y2 = mc_seen (pg_browser p1)" "mc_matchId y2 = Some matchId"
    using answer_step [where net = net and t = t1 and s = "f (pg_server p1)", OF b1(7,1,2,4) _ r] server b1(3) lists(3) by auto
  define p2 where "p2 = p1\<lparr>pg_server := f (pg_server p1), pg_browser := y2, pg_inflight := []\<rparr>"
  have p2: "pg_browser p2 = y2" by (simp add: p2_def)
  obtain y3 where y3: "app_step chat_effects net (?event t2) p2 = p2\<lparr>pg_browser := y3\<rparr>" "mc_chats y3 = [(mc_limit y3, Some (ms @ [?m]))]"
    using event_step [where x = p2 and data = "ms @ [?m]" and matchId = matchId and j = j and t = t2 and net = net] y2(2-5) b1(5,6) j(1) lists(4) p2 by auto
  show ?thesis
    by (simp add: Let_def app_run_def sent x2(1) x3 y2(1) p2_def [symmetric] y3 shown_list c_def [symmetric] del: app_step.simps)
qed

definition chat_of_witness :: "(mobile_chat, nat) page" where
  "chat_of_witness = \<lparr>pg_browser = (open_mobile_chat
     \<lparr>dv_token = Some ''t'', dv_user = None, dv_pendingRoute = None, dv_clock = 0, dv_uuids = 0, dv_alerts = [], dv_stack = [(''Chat'', None)], au_token = Some ''t'', au_user = None,
      au_users = 0, au_pendingRoute = None, au_hydrated = True, qs_status = Idle, qs_estimated = None, qs_match = None, qs_tokenSpent = False,
      qs_usersSearching = None, qs_queueKey = None, ws_lastMessage = None, ws_lastSessionStart = None\<rparr> (Some ''m1''))
     \<lparr>mc_draft := ''hello'', mc_chats := [(50, Some [])], mc_reveal := Some (JObj [(''revealAcknowledged'', JBool True)])\<rparr>, pg_server = 0, pg_inflight = []\<rparr>"

definition sent_message :: json where
  "sent_message = JObj [(''id'', JStr ''c1''), (''matchId'', JStr ''m1''), (''senderId'', JStr ''u1''), (''text'', JStr ''hello''), (''createdAt'', JStr ''now'')]"

lemma mobile_chat_keeps_copy_witness:
  "length (mobile_shown (pg_browser (app_run chat_effects (\<lambda>t q n. (Inr (ok_response sent_message), Suc n))
     [Started 5 (mobile_handleSend plain_mobile), Started 6 (Upd (socket_event (''message:new'', sent_message)) Stop), Answered 7 0] chat_of_witness))) = 2"
proof -
  have "trim ''hello'' = ''hello''" by (simp add: trim_def js_space_def)
  then have "chat_ready ''m1'' [] (pg_browser chat_of_witness)"
    by (simp add: chat_ready_def chat_of_witness_def open_mobile_chat_def device.defs reveal_acknowledged_def)
  then show ?thesis
    using mobile_chat_keeps_copy [of "''m1''" "[]" chat_of_witness "\<lambda>t q n. (Inr (ok_response sent_message), Suc n)" plain_mobile "ok_response sent_message" Suc sent_message 5 6 7]
    by (simp add: Let_def chat_of_witness_def open_mobile_chat_def device.defs sent_message_def mobile_message_of_def text_field_def)
qed

end
