(* ===== verification/Request_Dto.thy ===== *)
theory Request_Dto
  imports Http_Routes
begin

text \<open>
  The bodies of the requests: the classes with decorators in \<open>src/src/*/dto\<close> and in the controllers, and the validation pipe that
  \<open>src/src/main.ts\<close> installs for all of them. What a decorator of class-validator accepts is a parameter, \<open>holds\<close>; the locale
  \<open>class_validator\<close> states what its documentation says of those that are used.
\<close>

section \<open>Decorators\<close>

datatype decorator =
    IsOptional | IsString | IsInt | IsBoolean | IsObject | IsArray | IsDateString | IsEmail
  | IsIn "string list" | AtLeast int | AtMost int | MinLength nat | MaxLength nat | ArrayMaxSize nat | Matches string
  | Each decorator

text \<open>\<open>AtLeast\<close> and \<open>AtMost\<close> are \<open>Min\<close> and \<open>Max\<close>; \<open>Each d\<close> is \<open>d\<close> with \<open>each: true\<close>. A class is the list of its fields.\<close>

type_synonym dto_class = "(string \<times> decorator list) list"

definition SignupAnonymousDto :: dto_class where
  "SignupAnonymousDto = [(''dateOfBirth'', [IsOptional, IsDateString]), (''consents'', [IsOptional, IsObject]),
     (''privacyNoticeVersion'', [IsOptional, IsString]), (''tosVersion'', [IsOptional, IsString])]"

definition UpdateUserProfileDto :: dto_class where
  "UpdateUserProfileDto = [(''displayName'', [IsOptional, IsString, MaxLength 80]), (''age'', [IsOptional, IsInt, AtLeast 18, AtMost 120]),
     (''gender'', [IsOptional, IsString, MaxLength 40]),
     (''interests'', [IsOptional, IsArray, ArrayMaxSize 12, Each IsString, Each (MaxLength 40)]),
     (''photos'', [IsOptional, IsArray, ArrayMaxSize 6, Each IsString, Each (MaxLength 2048)]),
     (''bio'', [IsOptional, IsString, MaxLength 500])]"

definition VerifyEmailDto :: dto_class where
  "VerifyEmailDto = [(''email'', [IsEmail]), (''code'', [IsString, MinLength 1])]"

definition VerifyPhoneDto :: dto_class where
  "VerifyPhoneDto = [(''phone'', [IsString, Matches (''^'' @ [CHR 0x5C] @ ''+?[1-9]'' @ [CHR 0x5C] @ ''d{7,14}$'')]), (''code'', [IsString, MinLength 1])]"

definition BlockUserDto :: dto_class where
  "BlockUserDto = [(''blockedUserId'', [IsString])]"

definition CreateAppealDto :: dto_class where
  "CreateAppealDto = [(''moderationReportId'', [IsOptional, IsString]), (''actionType'', [IsString, IsIn [''warn'', ''ban'', ''terminate_session'']]),
     (''reason'', [IsOptional, IsString, MaxLength 500])]"

definition ReportUserDto :: dto_class where
  "ReportUserDto = [(''reportedUserId'', [IsString]), (''reason'', [IsString, MaxLength 100]), (''details'', [IsOptional, IsString, MaxLength 500])]"

definition ResolveAppealDto :: dto_class where
  "ResolveAppealDto = [(''resolution'', [IsIn [''upheld'', ''overturned'']])]"

definition RegisterPushTokenDto :: dto_class where
  "RegisterPushTokenDto = [(''token'', [IsString, MinLength 8, MaxLength 2048]), (''platform'', [IsIn [''WEB'', ''IOS'', ''ANDROID'']]),
     (''deviceId'', [IsOptional, IsString, MaxLength 120])]"

definition UnregisterPushTokenDto :: dto_class where
  "UnregisterPushTokenDto = [(''token'', [IsString, MinLength 8, MaxLength 2048])]"

definition JoinQueueDto :: dto_class where
  "JoinQueueDto = [(''city'', [IsOptional, IsString]), (''region'', [IsOptional, IsString]), (''preferences'', [IsOptional, IsObject])]"

definition SessionChoiceDto :: dto_class where
  "SessionChoiceDto = [(''choice'', [IsIn [''MATCH'', ''PASS'']])]"

definition SendMessageDto :: dto_class where
  "SendMessageDto = [(''text'', [IsString, MinLength 1, MaxLength 1000])]"

definition PurchaseDto :: dto_class where
  "PurchaseDto = [(''packId'', [IsIn [''starter'', ''plus'', ''pro'']])]"

definition UpdateFlagDto :: dto_class where
  "UpdateFlagDto = [(''enabled'', [IsBoolean]), (''variant'', [IsOptional, IsString, MaxLength 100]),
     (''description'', [IsOptional, IsString, MaxLength 300]), (''metadata'', [IsOptional, IsObject])]"

definition SyntheticBackendDto :: dto_class where
  "SyntheticBackendDto = [(''userId'', [IsOptional, IsString])]"

lemmas dtos = SignupAnonymousDto_def UpdateUserProfileDto_def VerifyEmailDto_def VerifyPhoneDto_def BlockUserDto_def CreateAppealDto_def
  ReportUserDto_def ResolveAppealDto_def RegisterPushTokenDto_def UnregisterPushTokenDto_def JoinQueueDto_def SessionChoiceDto_def
  SendMessageDto_def PurchaseDto_def UpdateFlagDto_def SyntheticBackendDto_def

section \<open>The pipe\<close>

text \<open>
  A field that is optional is not looked at when it is missing or \<open>null\<close>; the others need a value that every decorator accepts.
  \<open>whitelist\<close> and \<open>forbidNonWhitelisted\<close> refuse a field that the class does not have.
\<close>

definition not_null_field :: "json option \<Rightarrow> json option" where
  "not_null_field v = (if v = Some JNull then None else v)"

definition field_valid :: "(decorator \<Rightarrow> json \<Rightarrow> bool) \<Rightarrow> decorator list \<Rightarrow> json option \<Rightarrow> bool" where
  "field_valid holds ds v \<longleftrightarrow> IsOptional \<in> set ds \<and> not_null_field v = None \<or>
     (case v of None \<Rightarrow> False | Some j \<Rightarrow> \<forall>d \<in> set ds. d = IsOptional \<or> holds d j)"

definition pipe_accepts :: "(decorator \<Rightarrow> json \<Rightarrow> bool) \<Rightarrow> dto_class \<Rightarrow> json \<Rightarrow> bool" where
  "pipe_accepts holds cls body \<longleftrightarrow> (case body of
       JObj kvs \<Rightarrow> (\<forall>kv \<in> set kvs. fst kv \<in> fst ` set cls) \<and> (\<forall>f \<in> set cls. field_valid holds (snd f) (json_get (fst f) body))
     | _ \<Rightarrow> False)"

definition piped :: "(decorator \<Rightarrow> json \<Rightarrow> bool) \<Rightarrow> dto_class \<Rightarrow> json \<Rightarrow> ('w, 'a) fprog \<Rightarrow> ('w, 'a) fprog" where
  "piped holds cls body handler = (if pipe_accepts holds cls body then handler else throw (BadRequest ''Bad Request Exception''))"

section \<open>The body of \<open>PATCH /users/me\<close>\<close>

definition text_list :: "json \<Rightarrow> string list" where
  "text_list j = (case j of JArr js \<Rightarrow> map (\<lambda>x. case x of JStr s \<Rightarrow> s | _ \<Rightarrow> []) js | _ \<Rightarrow> [])"

definition profile_dto :: "json \<Rightarrow> profile_input" where
  "profile_dto body = \<lparr>pi_displayName = json_get_str ''displayName'' body,
     pi_age = map_option (\<lambda>j. case j of JNum n \<Rightarrow> Some n | _ \<Rightarrow> None) (json_get ''age'' body),
     pi_gender = json_get_str ''gender'' body, pi_bio = json_get_str ''bio'' body,
     pi_interests = map_option text_list (json_get ''interests'' body), pi_photos = map_option text_list (json_get ''photos'' body)\<rparr>"

text \<open>
  The guard, the pipe and the handler. \<open>updateCurrentUser\<close> calls \<open>trim\<close> or \<open>map\<close> on every field but the age that is not \<open>undefined\<close>, which
  throws a \<open>TypeError\<close> when it is \<open>null\<close>.
\<close>

definition called_on_null :: "json \<Rightarrow> bool" where
  "called_on_null body \<longleftrightarrow> list_ex (\<lambda>k. json_get k body = Some JNull) [''displayName'', ''gender'', ''bio'', ''interests'', ''photos'']"

definition patch_me :: "(decorator \<Rightarrow> json \<Rightarrow> bool) \<Rightarrow> ('r, 'd) env \<Rightarrow> auth \<Rightarrow> json \<Rightarrow> (('r, 'd) world, user_row) fprog" where
  "patch_me holds E auth body = authenticated auth (\<lambda>user. piped holds UpdateUserProfileDto body
     (if called_on_null body then as_user auth (\<lambda>userId. throw (JsError ''TypeError'')) else updateMe_route E auth (profile_dto body)))"

section \<open>class-validator\<close>

locale class_validator =
  fixes holds :: "decorator \<Rightarrow> json \<Rightarrow> bool"
  assumes isString: "holds IsString j \<longleftrightarrow> (\<exists>s. j = JStr s)"
    and isInt: "holds IsInt j \<longleftrightarrow> (\<exists>n. j = JNum n)"
    and isObject: "holds IsObject j \<longleftrightarrow> (\<exists>kvs. j = JObj kvs)"
    and isArray: "holds IsArray j \<longleftrightarrow> (\<exists>js. j = JArr js)"
    and isIn: "holds (IsIn vs) j \<longleftrightarrow> (\<exists>s \<in> set vs. j = JStr s)"
    and atLeast: "holds (AtLeast n) (JNum i) \<longleftrightarrow> n \<le> i"
    and atMost: "holds (AtMost n) (JNum i) \<longleftrightarrow> i \<le> n"
    and minLength: "holds (MinLength k) (JStr s) \<longleftrightarrow> k \<le> length s"
    and maxLength: "holds (MaxLength k) (JStr s) \<longleftrightarrow> length s \<le> k"
    and arrayMaxSize: "holds (ArrayMaxSize k) (JArr js) \<longleftrightarrow> length js \<le> k"
    and each: "holds (Each d) (JArr js) \<longleftrightarrow> (\<forall>j \<in> set js. holds d j)"
begin

lemmas laws = isString isInt isObject isArray isIn atLeast atMost minLength maxLength arrayMaxSize each

lemma optional_text: "field_valid holds [IsOptional, IsString, MaxLength k] (Some (JStr s)) \<longleftrightarrow> length s \<le> k"
  by (simp add: field_valid_def laws not_null_field_def)

lemma optional_age: "field_valid holds [IsOptional, IsInt, AtLeast a, AtMost b] (Some (JNum n)) \<longleftrightarrow> a \<le> n \<and> n \<le> b"
  by (simp add: field_valid_def laws not_null_field_def)

lemma optional_list: "field_valid holds [IsOptional, IsArray, ArrayMaxSize k, Each IsString, Each (MaxLength l)] (Some (JArr (map JStr xs))) \<longleftrightarrow>
    length xs \<le> k \<and> (\<forall>x \<in> set xs. length x \<le> l)"
  by (simp add: field_valid_def laws not_null_field_def)

lemma required_text: "field_valid holds [IsString, MinLength k, MaxLength l] (Some (JStr s)) \<longleftrightarrow> k \<le> length s \<and> length s \<le> l"
  by (simp add: field_valid_def laws)

end

lemma optional_missing [simp]: "field_valid holds (IsOptional # ds) None" "field_valid holds (IsOptional # ds) (Some JNull)"
  by (simp_all add: field_valid_def not_null_field_def)

text \<open>A validator of which the e-mail, the date and the pattern are given by parameters.\<close>

fun check_decorator :: "(string \<Rightarrow> bool) \<Rightarrow> (string \<Rightarrow> bool) \<Rightarrow> (string \<Rightarrow> string \<Rightarrow> bool) \<Rightarrow> decorator \<Rightarrow> json \<Rightarrow> bool" where
  "check_decorator email date pat IsOptional j = True"
| "check_decorator email date pat IsString j = (case j of JStr s \<Rightarrow> True | _ \<Rightarrow> False)"
| "check_decorator email date pat IsInt j = (case j of JNum n \<Rightarrow> True | _ \<Rightarrow> False)"
| "check_decorator email date pat IsBoolean j = (case j of JBool c \<Rightarrow> True | _ \<Rightarrow> False)"
| "check_decorator email date pat IsObject j = (case j of JObj kvs \<Rightarrow> True | _ \<Rightarrow> False)"
| "check_decorator email date pat IsArray j = (case j of JArr js \<Rightarrow> True | _ \<Rightarrow> False)"
| "check_decorator email date pat IsDateString j = (case j of JStr s \<Rightarrow> date s | _ \<Rightarrow> False)"
| "check_decorator email date pat IsEmail j = (case j of JStr s \<Rightarrow> email s | _ \<Rightarrow> False)"
| "check_decorator email date pat (IsIn vs) j = (case j of JStr s \<Rightarrow> s \<in> set vs | _ \<Rightarrow> False)"
| "check_decorator email date pat (AtLeast n) j = (case j of JNum i \<Rightarrow> n \<le> i | _ \<Rightarrow> False)"
| "check_decorator email date pat (AtMost n) j = (case j of JNum i \<Rightarrow> i \<le> n | _ \<Rightarrow> False)"
| "check_decorator email date pat (MinLength k) j = (case j of JStr s \<Rightarrow> k \<le> length s | _ \<Rightarrow> False)"
| "check_decorator email date pat (MaxLength k) j = (case j of JStr s \<Rightarrow> length s \<le> k | _ \<Rightarrow> False)"
| "check_decorator email date pat (ArrayMaxSize k) j = (case j of JArr js \<Rightarrow> length js \<le> k | _ \<Rightarrow> False)"
| "check_decorator email date pat (Matches p) j = (case j of JStr s \<Rightarrow> pat p s | _ \<Rightarrow> False)"
| "check_decorator email date pat (Each d) j = (case j of JArr js \<Rightarrow> list_all (check_decorator email date pat d) js | _ \<Rightarrow> False)"

interpretation checked: class_validator "check_decorator email date pat"
  by unfold_locales (auto simp: list_all_iff split: json.splits)

end
