(* ===== verification/Web_Pages.thy ===== *)
theory Web_Pages
  imports Web_Session
begin

text \<open>
  The other pages of the web application: \<open>Home.tsx\<close>, \<open>Onboarding.tsx\<close>, \<open>Settings.tsx\<close>, \<open>Matches.tsx\<close> and \<open>AdminModeration.tsx\<close> of
  \<open>src/verity-web/src/pages\<close>, \<open>components/ReportDialog.tsx\<close>, the routes of \<open>App.tsx\<close> and the daily intention of
  \<open>content/prompts.ts\<close>. A handler uses the state of the render that made it, also after an \<open>await\<close>.
\<close>

section \<open>content/prompts.ts\<close>

definition DAILY_INTENTIONS :: "string list" where
  "DAILY_INTENTIONS =
    [''Lead with curiosity, not performance.'', ''Notice one thing you genuinely appreciate.'', ''Ask a deeper question than usual.'',
     ''Choose honesty over perfect wording.'', ''Bring warmth first, then wit.'', ''Stay playful and present for 45 seconds.'',
     ''Listen fully before you decide.'']"

text \<open>The number made of the year, the month and the day of a time that is not before 1970.\<close>

definition day_seed :: "int \<Rightarrow> nat" where
  "day_seed t = (let (y, yd) = civil_year 1970 (nat t div 86400000); (m, d) = civil_month (month_lengths y) yd in y * 10000 + (m + 1) * 100 + (d + 1))"

definition getDailyIntention :: "int \<Rightarrow> string" where
  "getDailyIntention t = DAILY_INTENTIONS ! (day_seed t mod length DAILY_INTENTIONS)"

section \<open>pages/Home.tsx\<close>

definition CITY_OPTIONS :: "string list" where
  "CITY_OPTIONS = [''canberra'', ''sydney'', ''melbourne'', ''brisbane'', ''perth'', ''adelaide'']"

text \<open>The states of the page, the data of its two queries, and the address that \<open>window.location.href\<close> was set to.\<close>

record web_home = browser +
  wh_city :: string
  wh_joining :: bool
  wh_joinError :: "string option"
  wh_checkoutError :: "string option"
  wh_displayName :: string
  wh_age :: string
  wh_bio :: string
  wh_interestsText :: string
  wh_photosText :: string
  wh_profileSaving :: bool
  wh_profileNotice :: "string option"
  wh_phone :: string
  wh_phoneCode :: string
  wh_email :: string
  wh_emailCode :: string
  wh_verificationNotice :: "string option"
  wh_verificationBusy :: "string option"
  wh_balance :: "int option"
  wh_profile :: "json option"
  wh_href :: "string option"

definition open_home :: "browser \<Rightarrow> web_home" where
  "open_home b = browser.extend b \<lparr>wh_city = ''canberra'', wh_joining = False, wh_joinError = None, wh_checkoutError = None, wh_displayName = [], wh_age = [],
     wh_bio = [], wh_interestsText = [], wh_photosText = [], wh_profileSaving = False, wh_profileNotice = None, wh_phone = [], wh_phoneCode = [],
     wh_email = [], wh_emailCode = [], wh_verificationNotice = None, wh_verificationBusy = None, wh_balance = None, wh_profile = None, wh_href = None\<rparr>"

definition load_balance :: "web_env \<Rightarrow> web_home act" where
  "load_balance W = apiJson W ''/tokens/balance'' ''GET'' [] NoBody (\<lambda>response. case response of
      Inl e \<Rightarrow> Stop
    | Inr r \<Rightarrow> (case Option.bind (response_body r) (json_get_num ''tokenBalance'') of
          Some n \<Rightarrow> if ar_ok r then Upd (\<lambda>b. b\<lparr>wh_balance := Some n\<rparr>) Stop else Stop
        | None \<Rightarrow> Stop))"

text \<open>
  The effect on the profile fills the form; the age is an integer. It runs when the data of the query is another value: an answer that is
  equal to the one before keeps it.
\<close>

definition strings_of :: "json \<Rightarrow> string list" where
  "strings_of j = (case j of JArr js \<Rightarrow> map (\<lambda>x. case x of JStr s \<Rightarrow> s | _ \<Rightarrow> []) js | _ \<Rightarrow> [])"

definition fill_form :: "json \<Rightarrow> web_home \<Rightarrow> web_home" where
  "fill_form profile b = b\<lparr>wh_displayName := text_field ''displayName'' profile,
     wh_age := (case json_get_num ''age'' profile of Some n \<Rightarrow> if n \<noteq> 0 then show_int n else [] | None \<Rightarrow> []),
     wh_bio := text_field ''bio'' profile,
     wh_interestsText := join_with '', '' (strings_of (json_field ''interests'' profile)),
     wh_photosText := join_with [CHR 0x0A] (strings_of (json_field ''photos'' profile)),
     wh_phone := text_field ''phone'' profile, wh_email := text_field ''email'' profile\<rparr>"

definition load_profile :: "web_env \<Rightarrow> web_home act \<Rightarrow> web_home act" where
  "load_profile W rest = apiJson W ''/users/me'' ''GET'' [] NoBody (\<lambda>response. case response of
      Inl e \<Rightarrow> rest
    | Inr r \<Rightarrow> (case response_body r of
          Some profile \<Rightarrow> if ar_ok r then Upd (\<lambda>b. if wh_profile b = Some profile then b else fill_form profile (b\<lparr>wh_profile := Some profile\<rparr>)) rest else rest
        | None \<Rightarrow> rest))"

definition canJoin :: "web_home \<Rightarrow> bool" where
  "canJoin b \<longleftrightarrow> (case wh_balance b of None \<Rightarrow> 0 | Some n \<Rightarrow> n) > 0 \<and> \<not> wh_joining b"

definition web_join_body :: "string \<Rightarrow> json" where
  "web_join_body city = JObj [(''city'', JStr city), (''preferences'', JObj [])]"

definition handleJoin :: "web_env \<Rightarrow> web_home act" where
  "handleJoin W = Read (\<lambda>b0.
     if \<not> canJoin b0 then Stop
     else (let city = wh_city b0; finish = Upd (\<lambda>b. b\<lparr>wh_joining := False\<rparr>) Stop
       in Upd (\<lambda>b. b\<lparr>wh_joinError := None\<rparr>) (trackEvent W ''queue_join_requested'' [(''city'', JStr city)]
         (Upd (\<lambda>b. b\<lparr>wh_joining := True\<rparr>) (apiJson W ''/queue/join'' ''POST'' [] (JsonBody (web_join_body city)) (\<lambda>response. case response of
            Inl e \<Rightarrow> Upd (\<lambda>b. b\<lparr>wh_joinError := Some ''Unable to join queue. Check your network and try again.''\<rparr>) finish
          | Inr r \<Rightarrow>
              if \<not> ar_ok r then Upd (\<lambda>b. b\<lparr>wh_joinError := Some ''Unable to join queue. Check your token balance and try again.''\<rparr>) finish
              else trackEvent W ''queue_joined'' [(''city'', JStr city),
                  (''queueKey'', JStr (case Option.bind (ar_data r) (json_get_str ''queueKey'') of None \<Rightarrow> [] | Some q \<Rightarrow> q)),
                  (''position'', JNum (case Option.bind (ar_data r) (json_get_num ''position'') of None \<Rightarrow> -1 | Some n \<Rightarrow> n))]
                (navigate ''/waiting'' None finish)))))))"

definition home_handlePurchase :: "web_env \<Rightarrow> string \<Rightarrow> web_home act" where
  "home_handlePurchase W packId = Upd (\<lambda>b. b\<lparr>wh_checkoutError := None\<rparr>) (trackEvent W ''token_purchase_started'' [(''packId'', JStr packId)]
     (apiJson W ''/tokens/purchase'' ''POST'' [] (JsonBody (JObj [(''packId'', JStr packId)])) (\<lambda>response. case response of
        Inl e \<Rightarrow> Upd (\<lambda>b. b\<lparr>wh_checkoutError := Some ''Unable to start checkout right now. Try again.''\<rparr>) Stop
      | Inr r \<Rightarrow>
          (let url = Option.bind (ar_data r) (json_get_str ''url'') in
           if ar_ok r \<and> present url then Upd (\<lambda>b. b\<lparr>wh_href := url\<rparr>) Stop
           else Upd (\<lambda>b. b\<lparr>wh_checkoutError := Some ''Stripe checkout is not configured right now.''\<rparr>) Stop))))"

text \<open>The lists of the form: the entries that are not empty, at most so many.\<close>

definition entries_of :: "char \<Rightarrow> nat \<Rightarrow> string \<Rightarrow> string list" where
  "entries_of separator most s = take most (filter (\<lambda>x. length x > 0) (map trim (split_on separator s)))"

definition form_age :: "web_home \<Rightarrow> int option" where
  "form_age b = (case parseInt (trim (wh_age b)) of Fin n \<Rightarrow> if 18 \<le> n \<and> n \<le> 120 then Some n else None | _ \<Rightarrow> None)"

text \<open>An entry that is \<open>undefined\<close> is not in the body.\<close>

definition or_undefined :: "string \<Rightarrow> string \<Rightarrow> (string \<times> json) list" where
  "or_undefined key s = (if trim s = [] then [] else [(key, JStr (trim s))])"

definition profile_body :: "web_home \<Rightarrow> json" where
  "profile_body b = JObj (or_undefined ''displayName'' (wh_displayName b) @ (case form_age b of None \<Rightarrow> [] | Some n \<Rightarrow> [(''age'', JNum n)]) @
     or_undefined ''bio'' (wh_bio b) @
     [(''interests'', JArr (map JStr (entries_of (CHR '','') 12 (wh_interestsText b)))),
      (''photos'', JArr (map JStr (entries_of (CHR 0x0A) 6 (wh_photosText b))))])"

definition handleProfileSave :: "web_env \<Rightarrow> web_home act" where
  "handleProfileSave W = Read (\<lambda>b0. Upd (\<lambda>b. b\<lparr>wh_profileNotice := None, wh_profileSaving := True\<rparr>)
     (let finish = Upd (\<lambda>b. b\<lparr>wh_profileSaving := False\<rparr>) Stop
      in if trim (wh_age b0) \<noteq> [] \<and> form_age b0 = None
         then Upd (\<lambda>b. b\<lparr>wh_profileNotice := Some ''Please enter a valid age between 18 and 120.''\<rparr>) finish
         else apiJson W ''/users/me'' ''PATCH'' [] (JsonBody (profile_body b0)) (\<lambda>response. case response of
             Inl e \<Rightarrow> Upd (\<lambda>b. b\<lparr>wh_profileNotice := Some ''Could not save profile details. Check your connection and try again.''\<rparr>) finish
           | Inr r \<Rightarrow>
               if \<not> ar_ok r then Upd (\<lambda>b. b\<lparr>wh_profileNotice := Some ''Could not save profile details.''\<rparr>) finish
               else Upd (\<lambda>b. b\<lparr>wh_profileNotice := Some ''Profile updated.''\<rparr>) (load_profile W finish))))"

definition verify_contact :: "web_env \<Rightarrow> string \<Rightarrow> string \<Rightarrow> string \<Rightarrow> string \<Rightarrow> string \<Rightarrow> string \<Rightarrow> string \<Rightarrow> string \<Rightarrow> web_home act" where
  "verify_contact W path key contact code missing done failed network =
    (let notice = (\<lambda>m. Upd (\<lambda>b. b\<lparr>wh_verificationNotice := Some m\<rparr>)); finish = Upd (\<lambda>b. b\<lparr>wh_verificationBusy := None\<rparr>) Stop
     in if trim contact = [] \<or> trim code = [] then notice missing Stop
     else Upd (\<lambda>b. b\<lparr>wh_verificationNotice := None, wh_verificationBusy := Some key\<rparr>)
       (apiJson W path ''POST'' [] (JsonBody (JObj [(key, JStr (trim contact)), (''code'', JStr (trim code))])) (\<lambda>response. case response of
          Inl e \<Rightarrow> notice network finish
        | Inr r \<Rightarrow> notice (if ar_ok r then done else failed) finish)))"

definition home_verifyPhone :: "web_env \<Rightarrow> web_home act" where
  "home_verifyPhone W = Read (\<lambda>b. verify_contact W ''/auth/verify-phone'' ''phone'' (wh_phone b) (wh_phoneCode b) ''Enter phone number and code first.''
     ''Phone verification submitted.'' ''Phone verification failed. Check format/code.'' ''Phone verification failed. Check your connection and try again.'')"

definition home_verifyEmail :: "web_env \<Rightarrow> web_home act" where
  "home_verifyEmail W = Read (\<lambda>b. verify_contact W ''/auth/verify-email'' ''email'' (wh_email b) (wh_emailCode b) ''Enter email and code first.''
     ''Email verification submitted.'' ''Email verification failed. Check address/code.'' ''Email verification failed. Check your connection and try again.'')"

section \<open>pages/Onboarding.tsx\<close>

record onboarding_page = browser +
  ob_dateOfBirth :: string
  ob_ageConfirmed :: bool
  ob_videoConsent :: bool
  ob_aiConsent :: bool
  ob_termsAccepted :: bool
  ob_error :: "string option"

text \<open>The date of the legal documents in \<open>legal/generated.ts\<close>.\<close>

definition legal_updated :: string where "legal_updated = ''February 4, 2026''"

text \<open>\<open>parse\<close> is \<open>Date.parse\<close> of the browser, which knows more formats than the standard; \<open>None\<close> is \<open>NaN\<close>.\<close>

definition toLegalVersion :: "(string \<Rightarrow> int option) \<Rightarrow> string \<Rightarrow> string" where
  "toLegalVersion parse value = (case parse value of Some timestamp \<Rightarrow> take 10 (date_iso timestamp) | None \<Rightarrow> value)"

definition onboarding_ready :: "onboarding_page \<Rightarrow> bool" where
  "onboarding_ready b \<longleftrightarrow> ob_dateOfBirth b \<noteq> [] \<and> ob_ageConfirmed b \<and> ob_videoConsent b \<and> ob_aiConsent b \<and> ob_termsAccepted b"

definition consent_body :: "(string \<Rightarrow> int option) \<Rightarrow> onboarding_page \<Rightarrow> (string \<times> json) list" where
  "consent_body parse b = (let privacyVersion = JStr (toLegalVersion parse legal_updated); tosVersion = JStr (toLegalVersion parse legal_updated) in
     [(''dateOfBirth'', JStr (ob_dateOfBirth b)), (''privacyNoticeVersion'', privacyVersion), (''tosVersion'', tosVersion),
      (''consents'', JObj [(''ageConfirmed'', JBool (ob_ageConfirmed b)), (''videoConsent'', JBool (ob_videoConsent b)),
        (''aiModerationConsent'', JBool (ob_aiConsent b)), (''termsAccepted'', JBool (ob_termsAccepted b)),
        (''privacyNoticeVersion'', privacyVersion), (''tosVersion'', tosVersion)])])"

definition onboarding_handleStart :: "web_env \<Rightarrow> (string \<Rightarrow> int option) \<Rightarrow> onboarding_page act" where
  "onboarding_handleStart W parse = Read (\<lambda>b. Upd (\<lambda>b. b\<lparr>ob_error := None\<rparr>) (signUp W (Some (consent_body parse b)) (\<lambda>r. case r of
      Inl e \<Rightarrow> Upd (\<lambda>b. b\<lparr>ob_error := Some ''Unable to create your account right now. Please try again.''\<rparr>) Stop
    | Inr u \<Rightarrow> navigate ''/home'' None Stop)))"

section \<open>pages/Settings.tsx\<close>

text \<open>\<open>st_downloads\<close> has the files that were saved, with their names.\<close>

record settings_page = browser +
  st_deleting :: bool
  st_exporting :: bool
  st_unblocking :: "string option"
  st_error :: "string option"
  st_blockError :: "string option"
  st_blocks :: "json option"
  st_downloads :: "(string \<times> string) list"

definition load_blocks :: "web_env \<Rightarrow> settings_page act \<Rightarrow> settings_page act" where
  "load_blocks W rest = apiJson W ''/moderation/blocks'' ''GET'' [] NoBody (\<lambda>response. case response of
      Inl e \<Rightarrow> rest
    | Inr r \<Rightarrow> (case response_body r of
          Some blocks \<Rightarrow> if ar_ok r then Upd (\<lambda>b. b\<lparr>st_blocks := Some blocks\<rparr>) rest else rest
        | None \<Rightarrow> rest))"

text \<open>\<open>confirmed\<close> is the answer of the dialog of the browser.\<close>

definition settings_handleDelete :: "web_env \<Rightarrow> bool \<Rightarrow> settings_page act" where
  "settings_handleDelete W confirmed = Read (\<lambda>b0.
     if \<not> confirmed then Stop
     else (let finish = Upd (\<lambda>b. b\<lparr>st_deleting := False\<rparr>) Stop
       in Upd (\<lambda>b. b\<lparr>st_deleting := True, st_error := None\<rparr>) (deleteAccount_client W (\<lambda>r. case r of
            Inl e \<Rightarrow> Upd (\<lambda>b. b\<lparr>st_error := Some ''Unable to delete your account right now. Please try again.''\<rparr>) finish
          | Inr u \<Rightarrow> Spawn (signOut_with W (ap_token b0)) finish))))"

text \<open>\<open>JSON.stringify(value, null, 2)\<close>; \<open>n\<close> is the depth.\<close>

definition line_of :: "nat \<Rightarrow> string" where
  "line_of n = CHR 0x0A # replicate (2 * n) CHR '' ''"

fun json_pretty :: "nat \<Rightarrow> json \<Rightarrow> string" where
  "json_pretty n (JArr xs) = (if xs = [] then ''[]''
     else CHR ''['' # line_of (Suc n) @ join_with (CHR '','' # line_of (Suc n)) (map (json_pretty (Suc n)) xs) @ line_of n @ '']'')"
| "json_pretty n (JObj kvs) = (if kvs = [] then ''{}''
     else CHR ''{'' # line_of (Suc n) @ join_with (CHR '','' # line_of (Suc n))
       (map (\<lambda>kv. quote_string (fst kv) @ '': '' @ json_pretty (Suc n) (snd kv)) kvs) @ line_of n @ ''}'')"
| "json_pretty n j = json_stringify j"

definition handleExport :: "web_env \<Rightarrow> settings_page act" where
  "handleExport W = Read (\<lambda>b0.
     if st_exporting b0 then Stop
     else (let finish = Upd (\<lambda>b. b\<lparr>st_exporting := False\<rparr>) Stop
       in Upd (\<lambda>b. b\<lparr>st_exporting := True, st_error := None\<rparr>) (apiJson W ''/users/me/export'' ''GET'' [] NoBody (\<lambda>response. case response of
            Inl e \<Rightarrow> Upd (\<lambda>b. b\<lparr>st_error := Some ''Unable to export your data. Check your connection and try again.''\<rparr>) finish
          | Inr r \<Rightarrow> (case response_body r of
                Some data \<Rightarrow>
                  if ar_ok r
                  then Upd (\<lambda>b. b\<lparr>st_downloads := st_downloads b @ [(''verity-data-'' @ take 10 (date_iso (br_clock b)) @ ''.json'', json_pretty 0 data)]\<rparr>) finish
                  else Upd (\<lambda>b. b\<lparr>st_error := Some ''Unable to export your data. Try again.''\<rparr>) finish
              | None \<Rightarrow> Upd (\<lambda>b. b\<lparr>st_error := Some ''Unable to export your data. Try again.''\<rparr>) finish)))))"

definition settings_handleUnblock :: "web_env \<Rightarrow> string \<Rightarrow> settings_page act" where
  "settings_handleUnblock W blockedUserId = Read (\<lambda>b0.
     if present (st_unblocking b0) then Stop
     else (let finish = Upd (\<lambda>b. b\<lparr>st_unblocking := None\<rparr>) Stop
       in Upd (\<lambda>b. b\<lparr>st_unblocking := Some blockedUserId, st_blockError := None\<rparr>)
         (apiJson W (''/moderation/blocks/'' @ blockedUserId) ''DELETE'' [] NoBody (\<lambda>response. case response of
            Inl e \<Rightarrow> Upd (\<lambda>b. b\<lparr>st_blockError := Some ''Unable to unblock right now. Check your connection and try again.''\<rparr>) finish
          | Inr r \<Rightarrow>
              if \<not> ar_ok r then Upd (\<lambda>b. b\<lparr>st_blockError := Some ''Unable to unblock right now. Try again.''\<rparr>) finish
              else load_blocks W finish))))"

section \<open>pages/AdminModeration.tsx\<close>

record admin_page = browser +
  am_key :: string
  am_status :: string
  am_reports :: json
  am_loading :: bool
  am_error :: "string option"

definition open_admin :: "browser \<Rightarrow> admin_page" where
  "open_admin b = browser.extend b \<lparr>am_key = (case br_adminKey b of None \<Rightarrow> [] | Some k \<Rightarrow> k), am_status = ''OPEN'', am_reports = JArr [], am_loading = False, am_error = None\<rparr>"

definition admin_headers :: "string \<Rightarrow> (string \<times> string) list" where
  "admin_headers key = (if trim key = [] then [] else [(''x-admin-key'', trim key)])"

text \<open>The values of the filter need no encoding.\<close>

definition reports_path :: "string \<Rightarrow> string" where
  "reports_path status = ''/moderation/reports'' @ (if status = [] then [] else ''?status='' @ status)"

definition reports_answered :: "exn + api_result \<Rightarrow> admin_page act" where
  "reports_answered response = (let finish = Upd (\<lambda>b. b\<lparr>am_loading := False\<rparr>) Stop in case response of
      Inl e \<Rightarrow> Upd (\<lambda>b. b\<lparr>am_error := Some ''Unable to load reports. Check your connection.''\<rparr>) finish
    | Inr r \<Rightarrow> (case response_body r of
          Some reports \<Rightarrow>
            if ar_ok r then Upd (\<lambda>b. b\<lparr>am_reports := reports\<rparr>) finish
            else Upd (\<lambda>b. b\<lparr>am_error := Some ''Unable to load reports. Check admin key.''\<rparr>) finish
        | None \<Rightarrow> Upd (\<lambda>b. b\<lparr>am_error := Some ''Unable to load reports. Check admin key.''\<rparr>) finish))"

definition fetchReports :: "web_env \<Rightarrow> string \<Rightarrow> string \<Rightarrow> admin_page act" where
  "fetchReports W key status = Upd (\<lambda>b. b\<lparr>am_loading := True, am_error := None\<rparr>)
     (apiJson W (reports_path status) ''GET'' (admin_headers key) NoBody reports_answered)"

definition admin_resolveReport :: "web_env \<Rightarrow> string \<Rightarrow> string \<Rightarrow> admin_page act" where
  "admin_resolveReport W i action = Read (\<lambda>b0. apiJson W (''/moderation/reports/'' @ i @ ''/resolve'') ''POST'' (admin_headers (am_key b0))
     (JsonBody (JObj [(''action'', JStr action)])) (\<lambda>response. case response of
        Inl e \<Rightarrow> Upd (\<lambda>b. b\<lparr>am_error := Some ''Failed to resolve report. Check your connection.''\<rparr>) Stop
      | Inr r \<Rightarrow>
          if \<not> ar_ok r then Upd (\<lambda>b. b\<lparr>am_error := Some ''Failed to resolve report.''\<rparr>) Stop
          else fetchReports W (am_key b0) (am_status b0)))"

text \<open>The filter is set, and the effect on it loads the reports; the button saves the key.\<close>

definition set_filter :: "web_env \<Rightarrow> string \<Rightarrow> admin_page act" where
  "set_filter W status = Read (\<lambda>b. if am_status b = status then Stop
     else Upd (\<lambda>b. b\<lparr>am_status := status\<rparr>) (fetchReports W (am_key b) status))"

definition handleKeySave :: "admin_page act" where
  "handleKeySave = Upd (\<lambda>b. setAdminKey (Some (am_key b)) b) Stop"

section \<open>components/ReportDialog.tsx\<close>

datatype report_status = RIdle | RSending | RSent | RFailed

text \<open>The timers that are pending, by number, and the number in \<open>closeTimerRef\<close>.\<close>

record report_dialog = browser +
  rd_reportedUserId :: "string option"
  rd_open :: bool
  rd_reason :: string
  rd_details :: string
  rd_status :: report_status
  rd_timers :: "(nat \<times> int) list"
  rd_nextTimer :: nat
  rd_closeTimer :: "nat option"

definition REPORT_REASONS :: "string list" where
  "REPORT_REASONS = [''Harassment or hate speech'', ''Nudity or sexual content'', ''Threats or intimidation'', ''Scam or solicitation'', ''Other safety concern'']"

definition dialog_handleOpen :: "report_dialog \<Rightarrow> report_dialog" where
  "dialog_handleOpen b = (if \<not> present (rd_reportedUserId b) then b
     else b\<lparr>rd_status := RIdle, rd_reason := hd REPORT_REASONS, rd_details := [], rd_open := True\<rparr>)"

definition dialog_handleClose :: "report_dialog \<Rightarrow> report_dialog" where
  "dialog_handleClose b = b\<lparr>rd_timers := (case rd_closeTimer b of None \<Rightarrow> rd_timers b | Some i \<Rightarrow> filter (\<lambda>x. fst x \<noteq> i) (rd_timers b)),
     rd_closeTimer := None, rd_open := False\<rparr>"

definition canSubmit :: "report_dialog \<Rightarrow> bool" where
  "canSubmit b \<longleftrightarrow> present (rd_reportedUserId b) \<and> rd_status b \<noteq> RSending"

definition close_later :: "report_dialog \<Rightarrow> report_dialog" where
  "close_later b = b\<lparr>rd_status := RSent, rd_timers := rd_timers b @ [(rd_nextTimer b, br_clock b + 900)], rd_closeTimer := Some (rd_nextTimer b),
     rd_nextTimer := Suc (rd_nextTimer b)\<rparr>"

definition report_answered :: "exn + api_result \<Rightarrow> report_dialog act" where
  "report_answered response = (case response of
      Inl e \<Rightarrow> Upd (\<lambda>b. b\<lparr>rd_status := RFailed\<rparr>) Stop
    | Inr r \<Rightarrow> if \<not> ar_ok r then Upd (\<lambda>b. b\<lparr>rd_status := RFailed\<rparr>) Stop else Upd close_later Stop)"

definition web_report_body :: "string \<Rightarrow> string \<Rightarrow> string \<Rightarrow> json" where
  "web_report_body reportedUserId reason details = JObj ([(''reportedUserId'', JStr reportedUserId), (''reason'', JStr reason)] @ or_undefined ''details'' details)"

text \<open>The button is disabled while a report is being sent.\<close>

definition dialog_handleSubmit :: "web_env \<Rightarrow> report_dialog act" where
  "dialog_handleSubmit W = Read (\<lambda>b0.
     if \<not> canSubmit b0 then Stop
     else Upd (\<lambda>b. b\<lparr>rd_status := RSending\<rparr>) (apiJson W ''/moderation/reports'' ''POST'' []
       (JsonBody (web_report_body (the (rd_reportedUserId b0)) (rd_reason b0) (rd_details b0))) report_answered))"

text \<open>A timer fires.\<close>

definition close_timer :: "nat \<Rightarrow> report_dialog \<Rightarrow> report_dialog" where
  "close_timer i b = (if i \<notin> fst ` set (rd_timers b) then b
     else dialog_handleClose (b\<lparr>rd_timers := filter (\<lambda>x. fst x \<noteq> i) (rd_timers b), rd_closeTimer := None\<rparr>))"

section \<open>pages/Matches.tsx\<close>

definition query_web_matches :: "web_env \<Rightarrow> (exn + json \<Rightarrow> 'a browser_scheme act) \<Rightarrow> 'a browser_scheme act" where
  "query_web_matches W k = apiJson W ''/matches'' ''GET'' [] NoBody (\<lambda>response. case response of
      Inl e \<Rightarrow> k (Inl e)
    | Inr r \<Rightarrow> (case response_body r of
          Some data \<Rightarrow> if ar_ok r then k (Inr data) else k (Inl (JsError ''Failed to load matches''))
        | None \<Rightarrow> k (Inl (JsError ''Failed to load matches''))))"

text \<open>A card of the list: the name, the badge, the biography when the reveal is acknowledged.\<close>

definition match_card :: "json \<Rightarrow> string \<times> string \<times> string option" where
  "match_card m = (let reveal = not_null (json_get ''partnerReveal'' m); acknowledged = (json_get ''revealAcknowledged'' m = Some (JBool True))
     in ((case Option.bind reveal (json_get_str ''displayName'') of Some n \<Rightarrow> n | None \<Rightarrow> ''New match''),
         (if acknowledged then ''Reveal complete'' else ''Reveal required''),
         (let bio = Option.bind reveal (json_get_str ''bio'') in if present bio \<and> acknowledged then bio else None)))"

section \<open>App.tsx\<close>

text \<open>What a path shows: a page with its parameter, or a redirection.\<close>

datatype web_route = Page string "string option" | Redirect string | Nothing

definition require_auth :: "string option \<Rightarrow> web_route \<Rightarrow> web_route" where
  "require_auth token page = (if \<not> present token then Redirect ''/onboarding'' else page)"

text \<open>Slashes at the end of a path and the case of its fixed segments do not matter.\<close>

definition segments :: "string \<Rightarrow> string list" where
  "segments path = split_on CHR ''/'' (rev (dropWhile (\<lambda>c. c = CHR ''/'') (rev path)))"

definition app_route :: "string option \<Rightarrow> string \<Rightarrow> web_route" where
  "app_route token path =
    (case segments path of
       [[]] \<Rightarrow> Redirect (if present token then ''/home'' else ''/onboarding'')
     | [[], p] \<Rightarrow> (let p = toLowerCase p in
         if p = ''onboarding'' then Page ''Onboarding'' None
         else if p = ''legal'' then Page ''Legal'' None
         else if p = ''home'' then require_auth token (Page ''Home'' None)
         else if p = ''settings'' then require_auth token (Page ''Settings'' None)
         else if p = ''waiting'' then require_auth token (Page ''Waiting'' None)
         else if p = ''matches'' then require_auth token (Page ''Matches'' None)
         else Nothing)
     | [[], p, x] \<Rightarrow> (let p = toLowerCase p in
         if p = ''legal'' then Page ''Legal'' (Some x)
         else if p = ''admin'' \<and> toLowerCase x = ''moderation'' then require_auth token (Page ''AdminModeration'' None)
         else if p = ''session'' then require_auth token (Page ''Session'' (Some x))
         else if p = ''decision'' then require_auth token (Page ''Decision'' (Some x))
         else if p = ''chat'' then require_auth token (Page ''Chat'' (Some x))
         else Nothing)
     | _ \<Rightarrow> Nothing)"

end
