(* ===== verification/Web_Pages_Props.thy ===== *)
theory Web_Pages_Props
  imports Web_Laws Web_Pages Web_Session_Props
begin

text \<open>
  The pages of \<open>Web_Pages\<close> when answers arrive in another order than the requests were made, the version of the legal documents that
  the onboarding page sends, and the routes of the application.
\<close>

section \<open>Steps\<close>

lemma perform_update: "ap_token (u ((pg_browser p)\<lparr>br_clock := t\<rparr>)) = ap_token (pg_browser p) \<Longrightarrow>
    perform W t (Upd u Stop) p = p\<lparr>pg_browser := u ((pg_browser p)\<lparr>br_clock := t\<rparr>)\<rparr>"
  by (subst perform_quiet [where ts = "[]"]) simp_all

lemma answer_quiet:
  assumes "i < length (pg_inflight p)" and "pg_inflight p ! i = (q, k)" and "net t q (pg_server p) = (r, s)"
    and "settle (k r) ((take_cookie r (pg_browser p))\<lparr>br_clock := t\<rparr>) = ([], b)" and "ap_token b = ap_token (pg_browser p)"
  shows "answer W net t i p = p\<lparr>pg_server := s, pg_browser := b, pg_inflight := take i (pg_inflight p) @ drop (Suc i) (pg_inflight p)\<rparr>"
  using assms by (simp add: answer_def perform_def)

lemma fetched_ok: "response_ok r \<Longrightarrow> fetched W path options True (api_parsed k) (Inr r) = k (Inr \<lparr>ar_ok = True, ar_status = hs_status r, ar_data = hs_json r\<rparr>)"
  by (auto simp: fetched_def api_parsed_def response_ok_def)

lemma body_data: "hs_json r = Some j \<Longrightarrow> j \<noteq> JNull \<Longrightarrow> response_body \<lparr>ar_ok = c, ar_status = n, ar_data = hs_json r\<rparr> = Some j"
  by (simp add: response_body_def not_null_def)

section \<open>The list of reports\<close>

lemma admin_cookie [simp]: "am_status (take_cookie r b) = am_status b" "am_error (take_cookie r b) = am_error b" "am_key (take_cookie r b) = am_key b"
  by (simp_all add: take_cookie_def split: sum.split option.split)

definition reports_request :: "web_env \<Rightarrow> string \<Rightarrow> admin_page \<Rightarrow> http_request" where
  "reports_request W s b = (api_request W (reports_path s) (api_options ''GET'' (admin_headers (am_key b)) NoBody) (br_token b))\<lparr>hq_cookie := br_cookie b\<rparr>"

lemma set_filter_settles:
  assumes "s \<noteq> am_status b"
  shows "settle (set_filter W s) b = ([(reports_request W s b,
      fetched W (reports_path s) (api_options ''GET'' (admin_headers (am_key b)) NoBody) True (api_parsed reports_answered))],
    b\<lparr>am_status := s, am_loading := True, am_error := None\<rparr>)"
  using assms by (simp add: set_filter_def fetchReports_def settle_apiJson reports_request_def)

lemma reports_settle:
  assumes "response_ok r" and "hs_json r = Some j" and "j \<noteq> JNull"
  shows "settle (fetched W path options True (api_parsed reports_answered) (Inr r)) b = ([], b\<lparr>am_reports := j, am_loading := False\<rparr>)"
  by (simp add: fetched_ok [OF assms(1)] reports_answered_def body_data [OF assms(2,3)] Let_def)

text \<open>
  Two changes of the filter in the list of reports, answered in the order of the requests and in the other order. In the other order
  the page shows the reports of the first filter under the second, without an error: an answer is not compared with the filter it is for.
\<close>

theorem stale_reports_shown:
  fixes p :: "(admin_page, 's) page"
  assumes "pg_inflight p = []" and "sa \<noteq> am_status (pg_browser p)" and "sb \<noteq> sa"
    and net: "\<And>t q v. hq_url q = API_URL W @ reports_path sa \<Longrightarrow> net t q v = (Inr r1, f v)"
      "\<And>t q v. hq_url q = API_URL W @ reports_path sb \<Longrightarrow> net t q v = (Inr r2, g v)"
    and r1: "response_ok r1" "hs_json r1 = Some j1" "j1 \<noteq> JNull" and r2: "response_ok r2" "hs_json r2 = Some j2" "j2 \<noteq> JNull"
  shows "let p2 = perform W t1 (set_filter W sb) (perform W t0 (set_filter W sa) p);
      ordered = schedule W net [(t2, 0), (t3, 0)] p2; swapped = schedule W net [(t2, 1), (t3, 0)] p2
    in am_status (pg_browser ordered) = sb \<and> am_reports (pg_browser ordered) = j2 \<and>
       am_status (pg_browser swapped) = sb \<and> am_reports (pg_browser swapped) = j1 \<and>
       am_error (pg_browser swapped) = None \<and> \<not> am_loading (pg_browser swapped) \<and> pg_inflight swapped = []"
proof -
  let ?k = "\<lambda>s. fetched W (reports_path s) (api_options ''GET'' (admin_headers (am_key (pg_browser p))) NoBody) True (api_parsed reports_answered)"
  obtain q1 where q1: "perform W t0 (set_filter W sa) p = p\<lparr>pg_browser := (pg_browser p)\<lparr>br_clock := t0, am_status := sa, am_loading := True, am_error := None\<rparr>,
      pg_inflight := [(q1, ?k sa)]\<rparr>" "hq_url q1 = API_URL W @ reports_path sa"
    using perform_quiet [OF set_filter_settles [of sa "(pg_browser p)\<lparr>br_clock := t0\<rparr>" W]] assms(1,2) by (simp add: reports_request_def api_url)
  let ?p1 = "p\<lparr>pg_browser := (pg_browser p)\<lparr>br_clock := t0, am_status := sa, am_loading := True, am_error := None\<rparr>, pg_inflight := [(q1, ?k sa)]\<rparr>"
  define p2 where "p2 = perform W t1 (set_filter W sb) ?p1"
  obtain q2 where q2: "pg_inflight p2 = [(q1, ?k sa), (q2, ?k sb)]" "hq_url q2 = API_URL W @ reports_path sb"
    and b2: "am_status (pg_browser p2) = sb" "am_error (pg_browser p2) = None" 
    using perform_quiet [OF set_filter_settles [of sb "(pg_browser ?p1)\<lparr>br_clock := t1\<rparr>" W]] assms(3)
    by (simp add: p2_def reports_request_def api_url)
  note n1 = net(1) [OF q1(2)] and n2 = net(2) [OF q2(2)]
  note steps = answer_def perform_def reports_settle [OF r1] reports_settle [OF r2] q2(1) n1 n2 b2
  have swapped: "am_status (pg_browser x) = sb \<and> am_reports (pg_browser x) = j1 \<and> am_error (pg_browser x) = None \<and> \<not> am_loading (pg_browser x) \<and> pg_inflight x = []"
    if "x = schedule W net [(t2, 1), (t3, 0)] p2" for x unfolding that by (simp add: steps del: settle_with.simps)
  have ordered: "am_status (pg_browser x) = sb \<and> am_reports (pg_browser x) = j2"
    if "x = schedule W net [(t2, 0), (t3, 0)] p2" for x unfolding that by (simp add: steps del: settle_with.simps)
  show ?thesis using ordered swapped unfolding Let_def q1(1) p2_def [symmetric] by blast
qed

section \<open>A report that is answered late\<close>

lemma dialog_cookie [simp]: "rd_reportedUserId (take_cookie r b) = rd_reportedUserId b" "rd_timers (take_cookie r b) = rd_timers b"
  "rd_nextTimer (take_cookie r b) = rd_nextTimer b" "rd_open (take_cookie r b) = rd_open b" "rd_details (take_cookie r b) = rd_details b"
  by (simp_all add: take_cookie_def split: sum.split option.split)

lemma close_later_token: "ap_token (close_later b) = ap_token b"
  by (simp add: close_later_def)

lemma report_settles:
  assumes "response_ok r"
  shows "settle (fetched W path options True (api_parsed report_answered) (Inr r)) b = ([], close_later b)"
  by (simp add: fetched_ok [OF assms] report_answered_def)

lemma submit_sends:
  assumes "canSubmit b"
  shows "\<exists>q. settle (dialog_handleSubmit W) b = ([(q, fetched W ''/moderation/reports'' (api_options ''POST'' [] (JsonBody
      (web_report_body (the (rd_reportedUserId b)) (rd_reason b) (rd_details b)))) True (api_parsed report_answered))], b\<lparr>rd_status := RSending\<rparr>) \<and>
    hq_url q = API_URL W @ ''/moderation/reports''"
  using assms by (simp add: dialog_handleSubmit_def settle_apiJson api_url)

text \<open>
  A report is sent, the dialog is closed and opened again, and the text of another report is written before the answer to the first
  arrives. The dialog then says that the report was sent, with the new text in it, and after the timer it closes: the new report was never
  sent. The timer starts after the close that was to clear it.
\<close>

theorem late_answer_closes_new_report:
  fixes p :: "(report_dialog, 's) page"
  assumes "pg_inflight p = []" and "canSubmit (pg_browser p)"
    and net: "\<And>t q v. hq_url q = API_URL W @ ''/moderation/reports'' \<Longrightarrow> net t q v = (Inr r, f v)" and r: "response_ok r"
  shows "let sent = perform W t0 (dialog_handleSubmit W) p;
      reopened = perform W t2 (Upd dialog_handleOpen Stop) (perform W t1 (Upd dialog_handleClose Stop) sent);
      written = perform W t3 (Upd (\<lambda>b. b\<lparr>rd_details := details\<rparr>) Stop) reopened;
      answered = answer W net t4 0 written; closed = perform W t5 (Upd (close_timer (rd_nextTimer (pg_browser p))) Stop) answered
    in rd_status (pg_browser written) = RIdle \<and> length (pg_inflight written) = 1 \<and>
       rd_open (pg_browser answered) \<and> rd_status (pg_browser answered) = RSent \<and> rd_details (pg_browser answered) = details \<and>
       \<not> rd_open (pg_browser closed) \<and> pg_inflight closed = []"
proof -
  let ?b = "(pg_browser p)\<lparr>br_clock := t0\<rparr>" and ?i = "rd_nextTimer (pg_browser p)"
  have u: "present (rd_reportedUserId (pg_browser p))" using assms(2) by (simp add: canSubmit_def)
  have "canSubmit ?b" using assms(2) by (simp add: canSubmit_def)
  then obtain q k where s: "settle (dialog_handleSubmit W) ?b = ([(q, k)], ?b\<lparr>rd_status := RSending\<rparr>)"
    and k: "\<And>b. settle (k (Inr r)) b = ([], close_later b)" and q: "hq_url q = API_URL W @ ''/moderation/reports''"
    using submit_sends [of ?b W] report_settles [OF r] by fastforce
  define p1 where "p1 = perform W t0 (dialog_handleSubmit W) p"
  have p1: "p1 = p\<lparr>pg_browser := ?b\<lparr>rd_status := RSending\<rparr>, pg_inflight := [(q, k)]\<rparr>"
    unfolding p1_def using perform_quiet [OF s] assms(1) by simp
  define p3 where "p3 = perform W t3 (Upd (\<lambda>b. b\<lparr>rd_details := details\<rparr>) Stop) (perform W t2 (Upd dialog_handleOpen Stop) (perform W t1 (Upd dialog_handleClose Stop) p1))"
  have b3: "rd_open (pg_browser p3)" "rd_status (pg_browser p3) = RIdle" "rd_details (pg_browser p3) = details" "rd_nextTimer (pg_browser p3) = ?i"
    "pg_inflight p3 = [(q, k)]"
    using u by (simp_all add: p3_def p1 perform_def dialog_handleOpen_def dialog_handleClose_def)
  define p4 where "p4 = answer W net t4 0 p3"
  have p4: "p4 = p3\<lparr>pg_server := f (pg_server p3), pg_browser := close_later ((take_cookie (Inr r) (pg_browser p3))\<lparr>br_clock := t4\<rparr>), pg_inflight := []\<rparr>"
    unfolding p4_def using b3(5) net [OF q] k [of "(take_cookie (Inr r) (pg_browser p3))\<lparr>br_clock := t4\<rparr>"]
    by (subst answer_quiet [where q = q and k = k and r = "Inr r"]) (auto simp: close_later_token)
  have c: "\<not> rd_open (pg_browser (perform W t5 (Upd (close_timer ?i) Stop) p4))" "pg_inflight (perform W t5 (Upd (close_timer ?i) Stop) p4) = []"
    by (simp_all add: p4 perform_def close_timer_def close_later_def dialog_handleClose_def b3)
  show ?thesis using b3 c unfolding Let_def p1_def [symmetric] p3_def [symmetric] p4_def [symmetric] by (simp add: p4 close_later_def)
qed

section \<open>The version of the legal documents\<close>

text \<open>The day that has the number \<open>20488\<close> since 1970, and the one before it.\<close>

lemma civil_step: "\<not> n < year_days y \<Longrightarrow> civil_year y n = civil_year (Suc y) (n - year_days y)" "n < year_days y \<Longrightarrow> civil_year y n = (y, n)"
  by (simp_all add: civil_year.simps)

lemma legal_days: "civil_year 1970 20488 = (2026, 34)" "civil_year 1970 20487 = (2026, 33)"
  by (simp_all add: civil_step year_days_def leap_def)

lemma legal_epoch: "epoch_day 2026 1 3 = 20488"
  by (simp add: epoch_day_def days_to_year_def year_days_def leap_def month_lengths_def upt_rec)

lemma date_prefix:
  assumes "nat t div 86400000 = d" and "civil_year 1970 d = (y, yd)" and "civil_month (month_lengths y) yd = (m, i)"
  shows "take 10 (date_iso t) = pad4 y @ ''-'' @ pad2 (m + 1) @ ''-'' @ pad2 (i + 1)"
  unfolding date_iso_def Let_def assms by (simp add: assms pad4_def pad3_def pad2_def)

lemma legal_texts: "civil_month (month_lengths 2026) 34 = (1, 3)" "civil_month (month_lengths 2026) 33 = (1, 2)"
    "pad4 2026 @ ''-'' @ pad2 (1 + 1) @ ''-'' @ pad2 (3 + 1) = ''2026-02-04''" "pad4 2026 @ ''-'' @ pad2 (1 + 1) @ ''-'' @ pad2 (2 + 1) = ''2026-02-03''"
  by code_simp+

lemma date_of_day: "0 \<le> t \<Longrightarrow> t div 86400000 = int d \<Longrightarrow> nat t div 86400000 = d"
  by (simp add: nat_div_distrib [symmetric] nat_eq_iff)

text \<open>
  The version of the documents that a user accepts depends on the time zone of the browser, because a date without a zone is read as
  midnight there and written in UTC. West of Greenwich and on it, the version is the date of the document, \<open>2026-02-04\<close>; east of it, as in
  the cities the application is for, it is the day before. \<open>offset\<close> is how many minutes the zone is ahead of UTC.
\<close>

theorem legal_version_depends_on_zone:
  assumes "parse legal_updated = Some (epoch_day 2026 1 3 * 86400000 - offset * 60000)" and "-1440 < offset" and "offset \<le> 1440"
  shows "map_of (consent_body parse b) ''tosVersion'' = Some (JStr (if offset \<le> 0 then ''2026-02-04'' else ''2026-02-03''))"
proof -
  let ?t = "20488 * 86400000 - offset * 60000"
  have v: "toLegalVersion parse legal_updated = take 10 (date_iso ?t)" using assms(1) by (simp add: toLegalVersion_def legal_epoch [simplified])
  have "take 10 (date_iso ?t) = (if offset \<le> 0 then ''2026-02-04'' else ''2026-02-03'')"
  proof (cases "offset \<le> 0")
    case True
    then have "?t div 86400000 = int 20488" using assms(2) by simp
    then have "nat ?t div 86400000 = 20488" using True by (intro date_of_day) simp_all
    from date_prefix [OF this legal_days(1) legal_texts(1)] have "take 10 (date_iso ?t) = ''2026-02-04''" unfolding legal_texts .
    then show ?thesis using True by simp
  next
    case False
    then have "?t div 86400000 = int 20487" using assms(3) by simp
    then have "nat ?t div 86400000 = 20487" using assms(3) by (intro date_of_day) simp_all
    from date_prefix [OF this legal_days(2) legal_texts(2)] have "take 10 (date_iso ?t) = ''2026-02-03''" unfolding legal_texts .
    then show ?thesis using False by simp
  qed
  then show ?thesis by (simp add: consent_body_def Let_def v)
qed

section \<open>Routes\<close>

text \<open>Without a token no path shows a page but the onboarding and the legal documents.\<close>

lemma protected_pages_need_token: "\<not> present token \<Longrightarrow> app_route token path = Page name x \<Longrightarrow> name \<in> {''Onboarding'', ''Legal''}"
  by (auto simp: app_route_def require_auth_def Let_def split: list.splits if_splits)

lemma split_plain: "c \<notin> set i \<Longrightarrow> split_on c i = [i]"
  by (induction i) (auto split: list.splits)

text \<open>The paths that the pages navigate to show the session, the decision and the chat of the identifier they are made with.\<close>

lemma routes_keep_identifier:
  assumes "present token" and "i \<noteq> []" and "CHR ''/'' \<notin> set i"
  shows "app_route token (''/session/'' @ i) = Page ''Session'' (Some i)" "app_route token (''/decision/'' @ i) = Page ''Decision'' (Some i)"
    "app_route token (''/chat/'' @ i) = Page ''Chat'' (Some i)"
proof -
  have l: "toLowerCase ''session'' = ''session''" "toLowerCase ''decision'' = ''decision''" "toLowerCase ''chat'' = ''chat''" by code_simp+
  have "last i \<noteq> CHR ''/''" using assms(2,3) last_in_set by metis
  then have d: "dropWhile (\<lambda>c. c = CHR ''/'') (rev i @ ys) = rev i @ ys" for ys
    using assms(2) by (cases "rev i") (auto simp: hd_rev [symmetric])
  show "app_route token (''/session/'' @ i) = Page ''Session'' (Some i)" "app_route token (''/decision/'' @ i) = Page ''Decision'' (Some i)"
    "app_route token (''/chat/'' @ i) = Page ''Chat'' (Some i)"
    using assms(1) by (simp_all add: app_route_def segments_def d split_plain [OF assms(3)] l require_auth_def Let_def)
qed

section \<open>Witnesses\<close>

lemma stale_reports_shown_witness:
  "let net = (\<lambda>t q v. (Inr \<lparr>hs_status = 200, hs_json = Some (if hq_url q = ''https://verity/moderation/reports?status=WARNED'' then JArr [JNull] else JArr []), hs_setCookie = None\<rparr>, v));
      p2 = perform plain_web 2 (set_filter plain_web ''BANNED'') (perform plain_web 1 (set_filter plain_web ''WARNED'') (page_of (open_admin plain_browser)))
    in am_status (pg_browser (schedule plain_web net [(3, 1), (4, 0)] p2)) = ''BANNED'' \<and>
       am_reports (pg_browser (schedule plain_web net [(3, 1), (4, 0)] p2)) = JArr [JNull]"
proof -
  have u: "API_URL plain_web = ''https://verity''" by code_simp
  show ?thesis
    unfolding Let_def
    using stale_reports_shown [of "page_of (open_admin plain_browser)" "''WARNED''" "''BANNED''" plain_web
      "\<lambda>t q v. (Inr \<lparr>hs_status = 200, hs_json = Some (if hq_url q = ''https://verity/moderation/reports?status=WARNED'' then JArr [JNull] else JArr []), hs_setCookie = None\<rparr>, v)"
      "\<lparr>hs_status = 200, hs_json = Some (JArr [JNull]), hs_setCookie = None\<rparr>" id "\<lparr>hs_status = 200, hs_json = Some (JArr []), hs_setCookie = None\<rparr>" id
      "JArr [JNull]" "JArr []" 2 1 3 4]
    by (simp add: page_of_def open_admin_def browser.defs u reports_path_def response_ok_def Let_def)
qed

lemma late_answer_closes_new_report_witness:
  "rd_details (pg_browser (answer plain_web (\<lambda>t q v. (Inr \<lparr>hs_status = 201, hs_json = None, hs_setCookie = None\<rparr>, v)) 5 0
     (perform plain_web 4 (Upd (\<lambda>b. b\<lparr>rd_details := ''more''\<rparr>) Stop) (perform plain_web 3 (Upd dialog_handleOpen Stop)
       (perform plain_web 2 (Upd dialog_handleClose Stop) (perform plain_web 1 (dialog_handleSubmit plain_web)
         (page_of (browser.extend plain_browser \<lparr>rd_reportedUserId = Some ''u2'', rd_open = True, rd_reason = hd REPORT_REASONS, rd_details = ''first'',
           rd_status = RIdle, rd_timers = [], rd_nextTimer = 0, rd_closeTimer = None\<rparr>)))))))) = ''more''"
  using late_answer_closes_new_report [of "page_of (browser.extend plain_browser \<lparr>rd_reportedUserId = Some ''u2'', rd_open = True, rd_reason = hd REPORT_REASONS,
      rd_details = ''first'', rd_status = RIdle, rd_timers = [], rd_nextTimer = 0, rd_closeTimer = None\<rparr>)" plain_web
      "\<lambda>t q v. (Inr \<lparr>hs_status = 201, hs_json = None, hs_setCookie = None\<rparr>, v)" "\<lparr>hs_status = 201, hs_json = None, hs_setCookie = None\<rparr>" id 1 3 2 4 "''more''" 5 6]
  by (simp add: page_of_def browser.defs canSubmit_def present_def response_ok_def Let_def)

text \<open>Sydney in summer is eleven hours ahead.\<close>

definition sydney_parse :: "string \<Rightarrow> int option" where
  "sydney_parse s = (if s = legal_updated then Some (epoch_day 2026 1 3 * 86400000 - 660 * 60000) else None)"

lemma legal_version_depends_on_zone_witness:
  "map_of (consent_body sydney_parse (browser.extend plain_browser \<lparr>ob_dateOfBirth = ''2000-01-01'', ob_ageConfirmed = True, ob_videoConsent = True,
     ob_aiConsent = True, ob_termsAccepted = True, ob_error = None\<rparr>)) ''tosVersion'' = Some (JStr ''2026-02-03'')"
  using legal_version_depends_on_zone [of sydney_parse 660] by (simp add: sydney_parse_def)

end
