(* ===== verification/Request_Props.thy ===== *)
theory Request_Props
  imports Request_Dto Queue_Props Web_Pages_Props Mobile_Account
begin

text \<open>
  What the clients send against what the validation pipe of the server accepts, and what the server then makes of a profile.
\<close>

section \<open>Bodies\<close>

lemma get_obj: "json_get k (JObj kvs) = map_of (rev kvs) k"
  by simp

lemma trimmed_entries_of: "trimmed_entries (entries_of c n s) = entries_of c n s"
proof -
  have "\<forall>x \<in> set (entries_of c n s). trim x = x \<and> x \<noteq> []"
    by (auto simp: entries_of_def dest!: in_set_takeD)
  then have "map trim (entries_of c n s) = entries_of c n s" "\<forall>x \<in> set (entries_of c n s). length x > 0" by (auto intro: map_idI)
  then show ?thesis by (simp add: trimmed_entries_def filter_id_conv)
qed

lemma length_entries_of: "length (entries_of c n s) \<le> n"
  by (simp add: entries_of_def)

definition form_interests :: "web_home \<Rightarrow> string list" where "form_interests b = entries_of (CHR '','') 12 (wh_interestsText b)"
definition form_photos :: "web_home \<Rightarrow> string list" where "form_photos b = entries_of (CHR 0x0A) 6 (wh_photosText b)"

lemma body_fields:
  "json_get ''displayName'' (profile_body b) = (if trim (wh_displayName b) = [] then None else Some (JStr (trim (wh_displayName b))))"
  "json_get ''age'' (profile_body b) = map_option JNum (form_age b)" "json_get ''gender'' (profile_body b) = None"
  "json_get ''bio'' (profile_body b) = (if trim (wh_bio b) = [] then None else Some (JStr (trim (wh_bio b))))"
  "json_get ''interests'' (profile_body b) = Some (JArr (map JStr (form_interests b)))"
  "json_get ''photos'' (profile_body b) = Some (JArr (map JStr (form_photos b)))"
  by (simp_all add: profile_body_def or_undefined_def form_interests_def form_photos_def split: option.split)

lemma body_keys: "\<exists>kvs. profile_body b = JObj kvs \<and> fst ` set kvs \<subseteq> fst ` set UpdateUserProfileDto"
  by (auto simp: profile_body_def or_undefined_def dtos split: option.split)

text \<open>The lengths that the server accepts.\<close>

definition form_within :: "web_home \<Rightarrow> bool" where
  "form_within b \<longleftrightarrow> length (trim (wh_displayName b)) \<le> 80 \<and> length (trim (wh_bio b)) \<le> 500 \<and>
     (\<forall>x \<in> set (form_interests b). length x \<le> 40) \<and> (\<forall>x \<in> set (form_photos b). length x \<le> 2048)"

lemma pipe_obj: "\<exists>kvs. body = JObj kvs \<and> fst ` set kvs \<subseteq> fst ` set cls \<Longrightarrow>
    pipe_accepts holds cls body \<longleftrightarrow> (\<forall>f \<in> set cls. field_valid holds (snd f) (json_get (fst f) body))"
  unfolding pipe_accepts_def by (elim exE conjE) (simp add: subset_iff image_iff, blast)

lemma form_age_bounds: "form_age b = Some n \<Longrightarrow> 18 \<le> n \<and> n \<le> 120"
  by (auto simp: form_age_def split: jsnum.splits if_splits)

context class_validator
begin

lemma profile_body_accepted: "pipe_accepts holds UpdateUserProfileDto (profile_body b) \<longleftrightarrow> form_within b"
proof -
  have a: "field_valid holds [IsOptional, IsInt, AtLeast 18, AtMost 120] (map_option JNum (form_age b))"
    using form_age_bounds [of b] by (cases "form_age b") (auto simp: optional_age)
  have l: "length (form_interests b) \<le> 12" "length (form_photos b) \<le> 6" by (simp_all add: form_interests_def form_photos_def length_entries_of)
  show ?thesis
    unfolding pipe_obj [OF body_keys] unfolding UpdateUserProfileDto_def using a l
    by (auto simp: body_fields optional_text optional_list form_within_def)
qed

end

lemma strings_listed: "text_list (JArr (map JStr xs)) = xs"
  by (induction xs) (simp_all add: text_list_def)

lemma profile_dto_body: "profile_dto (profile_body b) =
    \<lparr>pi_displayName = (if trim (wh_displayName b) = [] then None else Some (trim (wh_displayName b))), pi_age = map_option Some (form_age b), pi_gender = None,
     pi_bio = (if trim (wh_bio b) = [] then None else Some (trim (wh_bio b))), pi_interests = Some (form_interests b), pi_photos = Some (form_photos b)\<rparr>"
  by (simp add: profile_dto_def json_get_str_def body_fields strings_listed option.map_comp comp_def)

section \<open>Saving a profile\<close>

context backend
begin

lemma updateCurrentUser_run:
  assumes "account uid u (view (db w))"
  shows "\<exists>d. run_state (updateCurrentUser E uid input) w = (Inr (with_profile input u), w\<lparr>db := d\<rparr>) \<and>
    view d = tb_users_update (update_rows (\<lambda>x. us_id x = uid) (with_profile input)) (view (db w))"
proof -
  have "uq_user x (with_profile input u) = uq_user x u" for x by (simp add: uq_user_def with_profile_def)
  then have "fst (dg_update (pr_user (prc E)) (db w) (\<lambda>x. us_id x = uid) (with_profile input)) = Inr (with_profile input u) \<and>
      view (snd (dg_update (pr_user (prc E)) (db w) (\<lambda>x. us_id x = uid) (with_profile input))) =
      tb_users_update (update_rows (\<lambda>x. us_id x = uid) (with_profile input)) (view (db w))"
    using assms by (intro prisma.user.update_ok) (auto simp: account_def)
  then show ?thesis by (auto simp: updateCurrentUser_def run)
qed

lemma patch_me_run:
  assumes "account uid u (view (db w))" and "getRequestUserId (Some user) = Inr uid" and "\<not> called_on_null body"
  shows "\<exists>d. run_state (patch_me holds E (Inr user) body) w =
    (if pipe_accepts holds UpdateUserProfileDto body then (Inr (with_profile (profile_dto body) u), w\<lparr>db := d\<rparr>) else (Inl (BadRequest ''Bad Request Exception''), w)) \<and>
    view d = tb_users_update (update_rows (\<lambda>x. us_id x = uid) (with_profile (profile_dto body))) (view (db w))"
  using updateCurrentUser_run [OF assms(1), of "profile_dto body"] assms(2,3)
  by (auto simp: patch_me_def authenticated_def piped_def updateMe_route_def as_user_def run)

end

text \<open>
  C35: the form of the home page saved on the server. The pipe accepts exactly the forms within its lengths, and a form that it refuses
  changes nothing. From one that it accepts the server stores the lists that the page shows, and the texts and the age that are filled in;
  a text that was emptied is left out of the body and stays as it was, so the page cannot remove a name, a biography or an age.
\<close>

theorem web_profile_saved:
  fixes b :: web_home and u :: user_row
  assumes "backend E zv sv other view" and "class_validator holds"
    and "account uid u (view (db w))" and "getRequestUserId (Some user) = Inr uid"
  defines "saved \<equiv> u\<lparr>us_displayName := (if trim (wh_displayName b) = [] then us_displayName u else Some (trim (wh_displayName b))),
      us_age := (case form_age b of None \<Rightarrow> us_age u | Some n \<Rightarrow> Some n),
      us_bio := (if trim (wh_bio b) = [] then us_bio u else Some (trim (wh_bio b))), us_interests := form_interests b,
      us_photos := Some (if form_photos b = [] then JNull else JArr (map JStr (form_photos b)))\<rparr>"
  shows "case run_state (patch_me holds E (Inr user) (profile_body b)) w of
      (Inr row, w') \<Rightarrow> form_within b \<and> row = saved \<and> filter (\<lambda>x. us_id x = uid) (tb_users (view (db w'))) = [saved]
    | (Inl e, w') \<Rightarrow> \<not> form_within b \<and> e = BadRequest ''Bad Request Exception'' \<and> w' = w"
proof -
  have s: "with_profile (profile_dto (profile_body b)) u = saved"
    by (simp add: with_profile_def profile_dto_body saved_def or_null_def trimmed_entries_of form_interests_def form_photos_def Let_def split: option.split)
  have n: "\<not> called_on_null (profile_body b)" by (simp add: called_on_null_def body_fields)
  obtain d where d: "run_state (patch_me holds E (Inr user) (profile_body b)) w =
      (if form_within b then (Inr saved, w\<lparr>db := d\<rparr>) else (Inl (BadRequest ''Bad Request Exception''), w))"
    "view d = tb_users_update (update_rows (\<lambda>x. us_id x = uid) (with_profile (profile_dto (profile_body b)))) (view (db w))"
    using backend.patch_me_run [OF assms(1,3,4) n, of holds] unfolding class_validator.profile_body_accepted [OF assms(2)] s by blast
  have "filter (\<lambda>x. us_id x = uid) (update_rows (\<lambda>x. us_id x = uid) f xs) = map f (filter (\<lambda>x. us_id x = uid) xs)" if "\<And>x. us_id (f x) = us_id x" for f xs
    using that by (induction xs) (auto simp: update_rows_def)
  from this [of "with_profile (profile_dto (profile_body b))"] have "filter (\<lambda>x. us_id x = uid) (tb_users (view d)) = [saved]"
    using assms(3) s by (simp add: d(2) account_def with_profile_def)
  then show ?thesis by (simp add: d(1))
qed

section \<open>Fields that are null\<close>

text \<open>A field of a profile that is \<open>null\<close> is let through as if it were missing; the service calls \<open>trim\<close> on it.\<close>

lemma null_name_fails:
  assumes "getRequestUserId (Some user) = Inr uid"
  shows "run_state (patch_me holds E (Inr user) (JObj [(''displayName'', JNull)])) w = (Inl (JsError ''TypeError''), w)"
  using assms by (simp add: patch_me_def authenticated_def piped_def pipe_accepts_def dtos called_on_null_def as_user_def run)

text \<open>The form of \<open>ProfileEditScreen\<close>.\<close>

definition edit_interests :: "profile_form \<Rightarrow> string list" where
  "edit_interests f = (if pf_interestsText f = [] then [] else filter (\<lambda>x. x \<noteq> []) (map trim (split_on CHR '','' (pf_interestsText f))))"

definition edit_within :: "profile_form \<Rightarrow> bool" where
  "edit_within f \<longleftrightarrow> length (trim (pf_displayName f)) \<le> 80 \<and> length (trim (pf_gender f)) \<le> 40 \<and> length (trim (pf_bio f)) \<le> 500 \<and>
     length (edit_interests f) \<le> 12 \<and> (\<forall>x \<in> set (edit_interests f). length x \<le> 40)"

definition age_json :: "string \<Rightarrow> json option" where
  "age_json age = (if age = [] then None else Some (case parseInt age of Fin n \<Rightarrow> JNum n | _ \<Rightarrow> JNull))"

lemma edit_fields:
  "json_get ''displayName'' (edit_payload f) = Some (JStr (trim (pf_displayName f)))" "json_get ''age'' (edit_payload f) = age_json (pf_age f)"
  "json_get ''gender'' (edit_payload f) = (if trim (pf_gender f) = [] then None else Some (JStr (trim (pf_gender f))))"
  "json_get ''bio'' (edit_payload f) = (if trim (pf_bio f) = [] then None else Some (JStr (trim (pf_bio f))))"
  "json_get ''interests'' (edit_payload f) = Some (JArr (map JStr (edit_interests f)))" "json_get ''photos'' (edit_payload f) = None"
  by (simp_all add: edit_payload_def text_entry_def age_entry_def age_json_def trimmed_def edit_interests_def)

lemma edit_keys: "\<exists>kvs. edit_payload f = JObj kvs \<and> fst ` set kvs \<subseteq> fst ` set UpdateUserProfileDto"
  by (auto simp: edit_payload_def text_entry_def age_entry_def dtos)

context class_validator
begin

lemma edit_payload_accepted: "pipe_accepts holds UpdateUserProfileDto (edit_payload f) \<longleftrightarrow>
    edit_within f \<and> (pf_age f = [] \<or> (case parseInt (pf_age f) of Fin n \<Rightarrow> 18 \<le> n \<and> n \<le> 120 | _ \<Rightarrow> True))"
  unfolding pipe_obj [OF edit_keys] unfolding UpdateUserProfileDto_def
  by (auto simp: edit_fields optional_text optional_list optional_age edit_within_def age_json_def split: jsnum.split)

end

text \<open>
  On the mobile application, an age that is not a number is sent as \<open>null\<close>, which the pipe takes for a missing field: the profile is
  saved and the age that was stored is removed, while an age below 18 or above 120 is refused.
\<close>

theorem mobile_age_erased:
  assumes "backend E zv sv other view" and "class_validator holds"
    and "account uid u (view (db w))" and "getRequestUserId (Some user) = Inr uid" and "pf_age f \<noteq> []" and "edit_within f"
  shows "case parseInt (pf_age f) of
      Fin n \<Rightarrow> if 18 \<le> n \<and> n \<le> 120
        then \<exists>row. fst (run_state (patch_me holds E (Inr user) (edit_payload f)) w) = Inr row \<and> us_age row = Some n
        else run_state (patch_me holds E (Inr user) (edit_payload f)) w = (Inl (BadRequest ''Bad Request Exception''), w)
    | _ \<Rightarrow> \<exists>row. fst (run_state (patch_me holds E (Inr user) (edit_payload f)) w) = Inr row \<and> us_age row = None"
proof -
  have n: "\<not> called_on_null (edit_payload f)" by (simp add: called_on_null_def edit_fields)
  have a: "us_age (with_profile (profile_dto (edit_payload f)) u) = (case parseInt (pf_age f) of Fin n \<Rightarrow> Some n | _ \<Rightarrow> None)"
    using assms(5) by (simp add: with_profile_def profile_dto_def edit_fields age_json_def split: jsnum.split)
  obtain d where "run_state (patch_me holds E (Inr user) (edit_payload f)) w =
      (if pipe_accepts holds UpdateUserProfileDto (edit_payload f) then (Inr (with_profile (profile_dto (edit_payload f)) u), w\<lparr>db := d\<rparr>)
       else (Inl (BadRequest ''Bad Request Exception''), w))"
    using backend.patch_me_run [OF assms(1,3,4) n, of holds] by blast
  then show ?thesis
    unfolding class_validator.edit_payload_accepted [OF assms(2)] using a assms(5,6) by (auto split: jsnum.split)
qed

section \<open>The other bodies of the clients\<close>

definition web_push_body :: "web_env \<Rightarrow> string \<Rightarrow> json" where
  "web_push_body W token = JObj [(''token'', JStr token), (''platform'', JStr ''WEB''), (''deviceId'', JStr (take 120 (we_userAgent W)))]"

text \<open>
  C36: the bodies that the clients send are those the server accepts: joining from the web and from the mobile application, every choice
  and every pack, and the consents with a date of birth that the validator takes for a date are accepted whatever else they hold; a report, a message
  and a push token are accepted exactly within the lengths of their classes, which no page checks.
\<close>

theorem client_bodies_accepted:
  assumes "class_validator holds"
  shows "pipe_accepts holds JoinQueueDto (web_join_body city) \<and>
    pipe_accepts holds JoinQueueDto (JObj [(''region'', JStr region), (''preferences'', JObj [])]) \<and>
    (pipe_accepts holds SessionChoiceDto (JObj [(''choice'', JStr c)]) = (c = ''MATCH'' \<or> c = ''PASS'')) \<and>
    (pipe_accepts holds PurchaseDto (JObj [(''packId'', JStr pack)]) = (pack \<in> {''starter'', ''plus'', ''pro''})) \<and>
    (pipe_accepts holds SignupAnonymousDto (JObj (consent_body parse page)) = holds IsDateString (JStr (ob_dateOfBirth page))) \<and>
    (pipe_accepts holds ReportUserDto (web_report_body u reason details) = (length reason \<le> 100 \<and> length (trim details) \<le> 500)) \<and>
    (pipe_accepts holds SendMessageDto (JObj [(''text'', JStr t)]) = (1 \<le> length t \<and> length t \<le> 1000)) \<and>
    (pipe_accepts holds RegisterPushTokenDto (web_push_body W token) = (8 \<le> length token \<and> length token \<le> 2048)) \<and>
    (pipe_accepts holds UnregisterPushTokenDto (JObj [(''token'', JStr token)]) = (8 \<le> length token \<and> length token \<le> 2048))"
proof -
  note laws = class_validator.laws [OF assms] class_validator.optional_text [OF assms]
  show ?thesis
    by (auto simp: pipe_accepts_def field_valid_def not_null_field_def dtos laws web_join_body_def consent_body_def web_report_body_def or_undefined_def
        web_push_body_def Let_def)
qed

section \<open>Witnesses\<close>

text \<open>A validator that takes every text for a date, an address and a number; the user \<open>a\<close>; a form with a name and nothing else.\<close>

abbreviation lenient :: "decorator \<Rightarrow> json \<Rightarrow> bool" where
  "lenient \<equiv> check_decorator (\<lambda>s. True) (\<lambda>s. True) (\<lambda>p s. True)"

definition user_a :: request_user where
  "user_a = \<lparr>ru_sub = Some ''a'', ru_id = None, ru_userId = None, ru_role = None\<rparr>"

lemma user_a_id: "getRequestUserId (Some user_a) = Inr ''a''"
  by (simp add: getRequestUserId_def user_a_def)

definition name_form :: web_home where
  "name_form = (open_home plain_browser)\<lparr>wh_displayName := '' Ann ''\<rparr>"

lemma name_form_fields: "trim (wh_displayName name_form) = ''Ann''" "trim (wh_bio name_form) = []" "form_interests name_form = []" "form_photos name_form = []"
  by (simp_all add: name_form_def open_home_def browser.defs form_interests_def form_photos_def entries_of_def trim_def js_space_def)

lemma lenient_ok: "class_validator lenient"
  by (rule checked.class_validator_axioms)

lemma web_profile_saved_witness:
  "(case run_state (patch_me lenient bare_env (Inr user_a) (profile_body name_form)) (queue_world False) of
      (Inr row, w') \<Rightarrow> us_displayName row = Some ''Ann'' \<and> us_bio row = None | (Inl e, w') \<Rightarrow> False)"
proof -
  have "form_within name_form" by (simp add: form_within_def name_form_fields)
  with web_profile_saved [OF bare_backend lenient_ok queue_world_ok(2) user_a_id, of name_form False]
  show ?thesis
    by (cases "run_state (patch_me lenient bare_env (Inr user_a) (profile_body name_form)) (queue_world False)")
      (auto simp: name_form_fields user_with_def split: sum.splits)
qed

definition wrong_age :: profile_form where
  "wrong_age = \<lparr>pf_displayName = ''Ann'', pf_age = ''x'', pf_gender = [], pf_bio = [], pf_interestsText = [], pf_interests = [], pf_photos = []\<rparr>"

lemma mobile_age_erased_witness:
  "\<exists>row. fst (run_state (patch_me lenient bare_env (Inr user_a) (edit_payload wrong_age)) (queue_world False)) = Inr row \<and> us_age row = None"
proof -
  have "parseInt ''x'' = NaN" by code_simp
  moreover have "pf_age wrong_age \<noteq> []" "edit_within wrong_age"
    by (simp_all add: wrong_age_def edit_within_def edit_interests_def trim_def js_space_def)
  ultimately show ?thesis
    using mobile_age_erased [OF bare_backend lenient_ok queue_world_ok(2) user_a_id, of wrong_age False]
    by (simp add: wrong_age_def)
qed

lemma client_bodies_accepted_witness:
  "pipe_accepts lenient SessionChoiceDto (JObj [(''choice'', JStr ''MATCH'')]) \<and> \<not> pipe_accepts lenient RegisterPushTokenDto (web_push_body plain_web ''short'')"
  using client_bodies_accepted [OF lenient_ok, of "''sydney''" "''sydney''" "''MATCH''" "''plus''" sydney_parse
    "browser.extend plain_browser \<lparr>ob_dateOfBirth = ''2000-01-01'', ob_ageConfirmed = True, ob_videoConsent = True, ob_aiConsent = True, ob_termsAccepted = True, ob_error = None\<rparr>"
    "''u''" "''spam''" "[]" "''hi''" plain_web "''short''"]
  by simp

end
