(* ===== verification/Mobile_Device.thy ===== *)
theory Mobile_Device
  imports Mobile_Client Http_Routes
begin

text \<open>
  What lives longer than a screen of the mobile application: the sockets of \<open>src/verity-mobile/src/hooks/useWebSocket.ts\<close>, which every
  component that calls the hook shares, and the push token of \<open>src/verity-mobile/src/hooks/usePushNotifications.ts\<close>.
\<close>

section \<open>hooks/useWebSocket.ts\<close>

datatype socket_name = QueueSocket | VideoSocket | ChatSocket

text \<open>
  A socket with its credentials, whether it is connecting, what the server made of its handshake (\<open>Disconnected\<close> when it is not connected),
  and its listeners: the event and the component whose state the listener sets, or \<open>None\<close> when it sets the store.
\<close>

record socket =
  so_auth :: "string option"
  so_connecting :: bool
  so_room :: connection
  so_listeners :: "(string \<times> nat option) list"

text \<open>The three sockets and the three flags of the module; a component that calls the hook, with its references and states.\<close>

record sockets =
  sk_socket :: "socket_name \<Rightarrow> socket option"
  sk_listening :: "socket_name \<Rightarrow> bool"

record socket_hook =
  hk_id :: nat
  hk_init :: "socket_name \<Rightarrow> bool"
  hk_connected :: "socket_name \<Rightarrow> bool"

definition io_socket :: socket where
  "io_socket = \<lparr>so_auth = None, so_connecting = False, so_room = Disconnected, so_listeners = []\<rparr>"

definition is_connected :: "socket \<Rightarrow> bool" where
  "is_connected s \<longleftrightarrow> so_room s \<noteq> Disconnected"

text \<open>The socket is made when there is none; \<open>connect()\<close> does nothing on a socket that is connected.\<close>

definition connect_with :: "string \<Rightarrow> socket option \<Rightarrow> socket" where
  "connect_with token s = (let s = (case s of None \<Rightarrow> io_socket | Some s \<Rightarrow> s)
     in s\<lparr>so_auth := Some token, so_connecting := so_connecting s \<or> \<not> is_connected s\<rparr>)"

definition attach :: "string list \<Rightarrow> nat option \<Rightarrow> socket \<Rightarrow> socket" where
  "attach events i s = s\<lparr>so_listeners := so_listeners s @ map (\<lambda>e. (e, i)) events\<rparr>"

definition socket_effect :: "string option \<Rightarrow> sockets \<times> socket_hook \<Rightarrow> sockets \<times> socket_hook" where
  "socket_effect token = (\<lambda>(sk, h).
     if \<not> present token
     then (\<lparr>sk_socket = (\<lambda>n. None), sk_listening = (\<lambda>n. sk_socket sk n = None \<and> sk_listening sk n)\<rparr>,
           h\<lparr>hk_init := (\<lambda>n. False), hk_connected := (\<lambda>n. False)\<rparr>)
     else (let s = (\<lambda>n. connect_with (the token) (sk_socket sk n));
               told = (\<lambda>n. if n = ChatSocket \<or> hk_init h n then s n else attach [''connect'', ''disconnect''] (Some (hk_id h)) (s n));
               heard = (\<lambda>n. if sk_listening sk n then told n
                 else case n of QueueSocket \<Rightarrow> told n
                   | VideoSocket \<Rightarrow> attach [''session:start''] None (told n)
                   | ChatSocket \<Rightarrow> attach [''connect'', ''disconnect''] (Some (hk_id h)) (attach [''message:new''] None (told n)))
           in (\<lparr>sk_socket = (\<lambda>n. Some (heard n)), sk_listening = (\<lambda>n. True)\<rparr>,
               h\<lparr>hk_init := (\<lambda>n. n \<noteq> ChatSocket), hk_connected := (\<lambda>n. is_connected (s n))\<rparr>)))"

text \<open>
  The application: the token of the store, the sockets, the components that call the hook, and the number of the next one. All of
  them are inside \<open>AuthGate\<close>, which shows nothing without a token.
\<close>

record live_app =
  la_token :: "string option"
  la_sockets :: sockets
  la_hooks :: "socket_hook list"
  la_next :: nat

definition start_app :: live_app where
  "start_app = \<lparr>la_token = None, la_sockets = \<lparr>sk_socket = (\<lambda>n. None), sk_listening = (\<lambda>n. False)\<rparr>, la_hooks = [], la_next = 0\<rparr>"

text \<open>
  A component is mounted or unmounted (the hook has no cleanup), the token is set, a handshake is answered, a connection is lost and
  tried again. The server of the handshake is \<open>serve\<close>.
\<close>

datatype app_change = Opened | Closed nat | Token_set "string option" | Shaken socket_name | Dropped socket_name

text \<open>The listeners of an event of a socket that set the state of a component.\<close>

definition tell :: "string \<Rightarrow> socket_name \<Rightarrow> bool \<Rightarrow> socket \<Rightarrow> socket_hook list \<Rightarrow> socket_hook list" where
  "tell event n x s = map (\<lambda>h. if (event, Some (hk_id h)) \<in> set (so_listeners s) then h\<lparr>hk_connected := (hk_connected h)(n := x)\<rparr> else h)"

fun effects_on :: "string option \<Rightarrow> sockets \<Rightarrow> socket_hook list \<Rightarrow> sockets \<times> socket_hook list" where
  "effects_on token sk [] = (sk, [])"
| "effects_on token sk (h # hs) =
    (let (sk1, h') = socket_effect token (sk, h); (sk2, hs') = effects_on token sk1 hs in (sk2, h' # hs'))"

definition put_socket :: "socket_name \<Rightarrow> socket \<Rightarrow> sockets \<Rightarrow> sockets" where
  "put_socket n s sk = sk\<lparr>sk_socket := (sk_socket sk)(n := Some s)\<rparr>"

fun live_step :: "(string \<Rightarrow> connection) \<Rightarrow> app_change \<Rightarrow> live_app \<Rightarrow> live_app" where
  "live_step serve Opened a =
    (if \<not> present (la_token a) then a
     else (let (sk, h) = socket_effect (la_token a) (la_sockets a, \<lparr>hk_id = la_next a, hk_init = (\<lambda>n. False), hk_connected = (\<lambda>n. False)\<rparr>)
       in a\<lparr>la_sockets := sk, la_hooks := la_hooks a @ [h], la_next := Suc (la_next a)\<rparr>))"
| "live_step serve (Closed i) a = a\<lparr>la_hooks := filter (\<lambda>h. hk_id h \<noteq> i) (la_hooks a)\<rparr>"
| "live_step serve (Token_set t) a =
    (if \<not> present t then a\<lparr>la_token := t, la_hooks := []\<rparr>
     else if t = la_token a then a
     else (let (sk, hs) = effects_on t (la_sockets a) (la_hooks a) in a\<lparr>la_token := t, la_sockets := sk, la_hooks := hs\<rparr>))"
| "live_step serve (Shaken n) a = (case sk_socket (la_sockets a) n of
      Some s \<Rightarrow> (case so_auth s of
          Some t \<Rightarrow>
            if so_connecting s
            then (let s' = s\<lparr>so_connecting := False, so_room := serve t\<rparr> in a\<lparr>la_sockets := put_socket n s' (la_sockets a),
              la_hooks := (if is_connected s' then tell ''connect'' n True s (la_hooks a) else la_hooks a)\<rparr>)
            else a
        | None \<Rightarrow> a)
    | None \<Rightarrow> a)"
| "live_step serve (Dropped n) a = (case sk_socket (la_sockets a) n of
      Some s \<Rightarrow>
        if is_connected s
        then a\<lparr>la_sockets := put_socket n (s\<lparr>so_connecting := True, so_room := Disconnected\<rparr>) (la_sockets a),
          la_hooks := tell ''disconnect'' n False s (la_hooks a)\<rparr>
        else a
    | None \<Rightarrow> a)"

definition live_run :: "(string \<Rightarrow> connection) \<Rightarrow> app_change list \<Rightarrow> live_app \<Rightarrow> live_app" where
  "live_run serve cs a = fold (live_step serve) cs a"

section \<open>hooks/usePushNotifications.ts\<close>

text \<open>
  \<open>pn_seen\<close> is the token for which the effect ran last. The platform gives the permission, \<open>granted\<close>, and the push token, which
  takes no time here; both are parameters.
\<close>

record push_app = device +
  pn_registered :: bool
  pn_seen :: "string option option"

definition mobile_push_body :: "mobile_env \<Rightarrow> string \<Rightarrow> json" where
  "mobile_push_body M pushToken = JObj [(''token'', JStr pushToken), (''platform'', JStr (if me_ios M then ''IOS'' else ''ANDROID''))]"

definition register_push :: "mobile_env \<Rightarrow> bool \<Rightarrow> string \<Rightarrow> push_app act" where
  "register_push M granted pushToken =
    (if \<not> granted then Stop
     else mobile_apiJson M ''/notifications/tokens'' (plain_options ''POST'' (Some (mobile_push_body M pushToken))) None (\<lambda>response. case response of
         Inl e \<Rightarrow> Stop
       | Inr r \<Rightarrow> Upd (\<lambda>b. b\<lparr>pn_registered := True\<rparr>) Stop))"

definition push_token_effect :: "mobile_env \<Rightarrow> bool \<Rightarrow> string \<Rightarrow> push_app act" where
  "push_token_effect M granted pushToken = Read (\<lambda>b.
     if pn_seen b = Some (au_token b) then Stop
     else Upd (\<lambda>b. b\<lparr>pn_seen := Some (au_token b)\<rparr>)
       (if \<not> present (au_token b) \<or> pn_registered b then Stop else register_push M granted pushToken))"

text \<open>A notification is tapped; \<open>ready\<close> is that of the navigation.\<close>

definition notification_tapped :: "bool \<Rightarrow> json \<Rightarrow> 'a device_scheme \<Rightarrow> 'a device_scheme" where
  "notification_tapped ready data b =
    (let deepLinkTarget = json_get_str ''deepLinkTarget'' data; matchId = json_get_str ''matchId'' data
     in if \<not> present deepLinkTarget \<or> \<not> present matchId \<or> \<not> ready then b
        else if deepLinkTarget = Some ''chat'' then nav_navigate ''Chat'' (Some (JObj [(''matchId'', JStr (the matchId))])) b
        else if deepLinkTarget = Some ''reveal'' then nav_navigate ''MatchProfile'' (Some (JObj [(''matchId'', JStr (the matchId))])) b
        else b)"

end
