(* ===== verification/Mobile_Device_Props.thy ===== *)
theory Mobile_Device_Props
  imports Mobile_Device Mobile_Laws Guards_Props
begin

text \<open>
  The sockets of the mobile application over any sequence of components that are opened and closed, logins and logouts; and the push token
  of a device that two users share.
\<close>

section \<open>Sockets\<close>

text \<open>One listener of each event that changes the store, and the credentials of the user whose components are shown.\<close>

definition heard_once :: "socket_name \<Rightarrow> string \<Rightarrow> sockets \<Rightarrow> bool" where
  "heard_once n event sk \<longleftrightarrow> (case sk_socket sk n of None \<Rightarrow> \<not> sk_listening sk n
     | Some s \<Rightarrow> sk_listening sk n \<and> count_list (so_listeners s) (event, None) = 1)"

definition sockets_sound :: "live_app \<Rightarrow> bool" where
  "sockets_sound a \<longleftrightarrow> heard_once VideoSocket ''session:start'' (la_sockets a) \<and> heard_once ChatSocket ''message:new'' (la_sockets a) \<and>
     (la_hooks a \<noteq> [] \<longrightarrow> present (la_token a) \<and> (\<forall>n. \<exists>s. sk_socket (la_sockets a) n = Some s \<and> so_auth s = la_token a))"

lemma attach_simps [simp]: "so_auth (attach es i s) = so_auth s" "so_room (attach es i s) = so_room s" "so_connecting (attach es i s) = so_connecting s"
  "so_listeners (attach es i s) = so_listeners s @ map (\<lambda>e. (e, i)) es"
  by (simp_all add: attach_def)

lemma connect_with_simps [simp]: "so_auth (connect_with t s) = Some t" "so_listeners (connect_with t None) = []" "so_listeners (connect_with t (Some x)) = so_listeners x"
  "so_room (connect_with t (Some x)) = so_room x" "is_connected x \<Longrightarrow> so_connecting (connect_with t (Some x)) = so_connecting x"
  by (simp_all add: connect_with_def io_socket_def Let_def)

text \<open>The effect of one component, with a token.\<close>

lemma effect_keeps:
  assumes "present t" and "socket_effect t (sk, h) = (sk', h')"
  shows "heard_once VideoSocket ''session:start'' sk \<Longrightarrow> heard_once VideoSocket ''session:start'' sk'"
    and "heard_once ChatSocket ''message:new'' sk \<Longrightarrow> heard_once ChatSocket ''message:new'' sk'"
    and "\<exists>s. sk_socket sk' n = Some s \<and> so_auth s = t"
    and "sk_socket sk n = Some s \<Longrightarrow> \<exists>s'. sk_socket sk' n = Some s' \<and> so_room s' = so_room s \<and> (is_connected s \<longrightarrow> so_connecting s' = so_connecting s)"
  using assms by (auto simp: socket_effect_def heard_once_def Let_def present_def split: socket_name.splits option.splits if_splits)

definition effects_kept :: "string option \<Rightarrow> sockets \<Rightarrow> sockets \<Rightarrow> bool" where
  "effects_kept t sk sk' \<longleftrightarrow> (heard_once VideoSocket ''session:start'' sk \<longrightarrow> heard_once VideoSocket ''session:start'' sk') \<and>
     (heard_once ChatSocket ''message:new'' sk \<longrightarrow> heard_once ChatSocket ''message:new'' sk') \<and>
     (\<forall>n s. sk_socket sk n = Some s \<longrightarrow> (\<exists>s'. sk_socket sk' n = Some s' \<and> so_room s' = so_room s \<and> (is_connected s \<longrightarrow> so_connecting s' = so_connecting s)))"

definition credentials_of :: "string option \<Rightarrow> sockets \<Rightarrow> bool" where
  "credentials_of t sk \<longleftrightarrow> (\<forall>n. \<exists>s. sk_socket sk n = Some s \<and> so_auth s = t)"

lemma effect_kept:
  assumes "present t" and "socket_effect t (sk, h) = (sk', h')"
  shows "effects_kept t sk sk'" and "credentials_of t sk'"
  using effect_keeps [OF assms] by (auto simp: effects_kept_def credentials_of_def)

lemma effects_keep:
  assumes "present t"
  shows "effects_on t sk hs = (sk', hs') \<Longrightarrow> effects_kept t sk sk' \<and> length hs' = length hs \<and> (hs \<noteq> [] \<longrightarrow> credentials_of t sk')"
proof (induction hs arbitrary: sk sk' hs')
  case Nil
  then show ?case by (simp add: effects_kept_def)
next
  case (Cons h hs)
  obtain sk1 h1 where e: "socket_effect t (sk, h) = (sk1, h1)" by fastforce
  obtain sk2 hs2 where r: "effects_on t sk1 hs = (sk2, hs2)" by fastforce
  have s: "sk' = sk2" "hs' = h1 # hs2" using Cons.prems e r by (auto simp: Let_def)
  have k: "effects_kept t sk1 sk2 \<and> length hs2 = length hs \<and> (hs \<noteq> [] \<longrightarrow> credentials_of t sk2)" using Cons.IH [OF r] .
  have "effects_kept t sk sk2" using effect_kept(1) [OF assms e] k by (simp add: effects_kept_def is_connected_def) metis
  then show ?case using k effect_kept(2) [OF assms e] r s by (cases hs) auto
qed

lemma put_socket_simps [simp]: "sk_socket (put_socket m s sk) = (sk_socket sk)(m := Some s)" "sk_listening (put_socket m s sk) = sk_listening sk"
  by (simp_all add: put_socket_def)

lemma put_heard: "heard_once n e sk \<Longrightarrow> sk_socket sk m = Some s \<Longrightarrow> so_listeners s' = so_listeners s \<Longrightarrow> heard_once n e (put_socket m s' sk)"
  by (auto simp: heard_once_def split: option.splits)

lemma sockets_sound_alt: "sockets_sound a \<longleftrightarrow> heard_once VideoSocket ''session:start'' (la_sockets a) \<and> heard_once ChatSocket ''message:new'' (la_sockets a) \<and>
    (la_hooks a \<noteq> [] \<longrightarrow> present (la_token a) \<and> credentials_of (la_token a) (la_sockets a))"
  by (simp add: sockets_sound_def credentials_of_def)

lemma put_signed: "credentials_of t sk \<Longrightarrow> sk_socket sk m = Some s \<Longrightarrow> so_auth s' = so_auth s \<Longrightarrow> credentials_of t (put_socket m s' sk)"
  unfolding credentials_of_def by (metis fun_upd_apply option.inject put_socket_simps(1))

lemma change_sound: "sockets_sound a \<Longrightarrow> sockets_sound (live_step serve c a)"
proof (induction serve c a rule: live_step.induct)
  case (1 serve a)
  obtain sk h where e: "socket_effect (la_token a) (la_sockets a, \<lparr>hk_id = la_next a, hk_init = (\<lambda>n. False), hk_connected = (\<lambda>n. False)\<rparr>) = (sk, h)" by fastforce
  show ?case using 1 effect_kept [OF _ e] by (auto simp: sockets_sound_alt e effects_kept_def)
next
  case (2 serve i a)
  then show ?case by (auto simp: sockets_sound_alt)
next
  case (3 serve t a)
  obtain sk hs where e: "effects_on t (la_sockets a) (la_hooks a) = (sk, hs)" by fastforce
  show ?case using 3 effects_keep [OF _ e] by (auto simp: sockets_sound_alt e effects_kept_def)
next
  case (4 serve n a)
  then show ?case by (auto simp: sockets_sound_alt put_heard put_signed tell_def Let_def split: option.splits)
next
  case (5 serve n a)
  then show ?case by (auto simp: sockets_sound_alt put_heard put_signed tell_def split: option.splits)
qed

lemma live_append: "live_run serve (cs @ ds) a = live_run serve ds (live_run serve cs a)"
  by (simp add: live_run_def)

lemma live_simps: "live_run serve [] a = a" "live_run serve (c # cs) a = live_run serve cs (live_step serve c a)"
  by (simp_all add: live_run_def)

lemma live_sound: "sockets_sound a \<Longrightarrow> sockets_sound (live_run serve cs a)"
  by (induction cs arbitrary: a) (simp_all add: change_sound live_simps)

text \<open>
  C37: whatever components are opened and closed, users sign in and out and connections are made and lost, an event of the video socket or the
  chat socket changes the store once, and while components that use the sockets are shown, all three sockets exist with the credentials of
  the user who is signed in.
\<close>

theorem sockets_shared_once:
  fixes serve :: "string \<Rightarrow> connection" and cs :: "app_change list"
  defines "a \<equiv> live_run serve cs start_app"
  shows "(case sk_socket (la_sockets a) VideoSocket of None \<Rightarrow> True | Some s \<Rightarrow> count_list (so_listeners s) (''session:start'', None) = 1) \<and>
    (case sk_socket (la_sockets a) ChatSocket of None \<Rightarrow> True | Some s \<Rightarrow> count_list (so_listeners s) (''message:new'', None) = 1) \<and>
    (la_hooks a = [] \<or> present (la_token a) \<and> (case sk_socket (la_sockets a) n of None \<Rightarrow> False | Some s \<Rightarrow> so_auth s = la_token a))"
proof -
  have "sockets_sound a" unfolding a_def by (rule live_sound) (simp add: sockets_sound_def start_app_def heard_once_def)
  then show ?thesis
    unfolding sockets_sound_def heard_once_def by (intro conjI) (auto split: option.splits dest: spec [of _ n])
qed

section \<open>Two users of a device\<close>

definition in_room :: "connection \<Rightarrow> socket_name \<Rightarrow> live_app \<Rightarrow> bool" where
  "in_room r n a \<longleftrightarrow> r \<noteq> Disconnected \<and> (\<exists>s. sk_socket (la_sockets a) n = Some s \<and> so_room s = r \<and> \<not> so_connecting s)"

lemma kept_room: "effects_kept t sk sk' \<Longrightarrow> in_room r n a \<Longrightarrow> la_sockets a = sk \<Longrightarrow> la_sockets a' = sk' \<Longrightarrow> in_room r n a'"
  unfolding in_room_def effects_kept_def is_connected_def by metis

lemma step_room: "in_room r n a \<Longrightarrow> c \<noteq> Dropped n \<Longrightarrow> in_room r n (live_step serve c a)"
proof (induction serve c a rule: live_step.induct)
  case (1 serve a)
  obtain sk h where e: "socket_effect (la_token a) (la_sockets a, \<lparr>hk_id = la_next a, hk_init = (\<lambda>n. False), hk_connected = (\<lambda>n. False)\<rparr>) = (sk, h)" by fastforce
  show ?case using 1 kept_room [OF effect_kept(1) [OF _ e]] by (simp add: e)
next
  case (3 serve t a)
  obtain sk hs where e: "effects_on t (la_sockets a) (la_hooks a) = (sk, hs)" by fastforce
  have "la_sockets (live_step serve (Token_set t) a) = la_sockets a \<or> present t \<and> la_sockets (live_step serve (Token_set t) a) = sk" by (simp add: e)
  then show ?case using 3 kept_room [OF conjunct1 [OF effects_keep [OF _ e]], of r n a] by (auto simp: in_room_def simp del: live_step.simps)
qed (auto simp: in_room_def Let_def split: option.splits)

lemma run_room: "in_room r n a \<Longrightarrow> Dropped n \<notin> set cs \<Longrightarrow> in_room r n (live_run serve cs a)"
proof (induction cs arbitrary: a)
  case (Cons c cs)
  have "in_room r n (live_step serve c a)" using Cons.prems by (intro step_room) auto
  from Cons.IH [OF this] show ?case using Cons.prems(2) by (simp add: live_simps del: live_step.simps)
qed (simp add: live_simps)

text \<open>
  C38: a connection outlives its user. After a user has signed in and a socket is in the room of the user, the user signs out and another signs in on the
  same device: whatever components are shown in between, as long as the connection is not lost the socket stays in the room of the first
  user, although it has the credentials of the second. Signing out removes every component that uses the hook, so the effect
  that would close the sockets never runs without a token.
\<close>

theorem sockets_outlive_account:
  assumes "serve ta = Connected ua (userRoom ua)" and "ta \<noteq> []" and "tb \<noteq> []" and "Dropped n \<notin> set cs" and "Dropped n \<notin> set ds"
  shows "let a = live_run serve ([Token_set (Some ta), Opened, Shaken n] @ cs @ [Token_set None, Token_set (Some tb), Opened] @ ds) start_app
    in (case sk_socket (la_sockets a) n of None \<Rightarrow> False
        | Some s \<Rightarrow> so_room s = Connected ua (userRoom ua) \<and> (la_hooks a = [] \<or> so_auth s = la_token a)) \<and>
       (ds = [] \<longrightarrow> la_token a = Some tb \<and> la_hooks a \<noteq> [])"
proof -
  define a1 where "a1 = live_run serve [Token_set (Some ta), Opened, Shaken n] start_app"
  define a2 where "a2 = live_run serve (cs @ [Token_set None, Token_set (Some tb), Opened]) a1"
  have "in_room (Connected ua (userRoom ua)) n a1"
    using assms(1,2) by (cases n) (simp_all add: a1_def live_simps start_app_def socket_effect_def present_def Let_def connect_with_def io_socket_def is_connected_def in_room_def attach_def)
  then have "in_room (Connected ua (userRoom ua)) n (live_run serve ds a2)"
    unfolding a2_def using assms(4,5) by (intro run_room) auto
  moreover have "sockets_sound (live_run serve ds a2)"
    unfolding a1_def a2_def by (intro live_sound) (simp add: sockets_sound_def start_app_def heard_once_def)
  moreover have "la_token a2 = Some tb \<and> la_hooks a2 \<noteq> []"
    using assms(3) by (simp add: a2_def live_append live_simps present_def Let_def split: prod.split)
  moreover have "live_run serve ([Token_set (Some ta), Opened, Shaken n] @ cs @ [Token_set None, Token_set (Some tb), Opened] @ ds) start_app = live_run serve ds a2"
    by (simp only: a1_def a2_def live_append append_assoc)
  ultimately show ?thesis
    unfolding Let_def sockets_sound_def in_room_def
    by (cases "sk_socket (la_sockets (live_run serve ds a2)) n") (auto simp: live_simps(1) simp del: append_Cons append_assoc dest: spec [of _ n])
qed

lemma sockets_outlive_account_witness:
  "(case sk_socket (la_sockets (live_run (\<lambda>t. if t = ''ta'' then Connected ''a'' (userRoom ''a'') else Connected ''b'' (userRoom ''b''))
      [Token_set (Some ''ta''), Opened, Shaken ChatSocket, Token_set None, Token_set (Some ''tb''), Opened, Shaken ChatSocket] start_app)) ChatSocket of
     None \<Rightarrow> False | Some s \<Rightarrow> so_room s = Connected ''a'' (userRoom ''a''))"
  using sockets_outlive_account [of "\<lambda>t. if t = ''ta'' then Connected ''a'' (userRoom ''a'') else Connected ''b'' (userRoom ''b'')" "''ta''" "''a''" "''tb''" ChatSocket "[]"
      "[Shaken ChatSocket]"]
  by (auto simp: Let_def split: option.splits)

section \<open>The push token\<close>

text \<open>The push token is registered for the first user who signs in, and not again: the reference that says so outlives the sign-out.\<close>

lemma push_effect_quiet: "pn_registered b \<Longrightarrow> run_act (push_token_effect M granted x) b = ([], b\<lparr>pn_seen := Some (au_token b)\<rparr>)"
  by (simp add: push_token_effect_def)

text \<open>
  The push token of a device stays with the first user who signs in, whatever the server answers: when that user signs out and another
  signs in, nothing is sent, so the first user's notifications still go to the device and the second user has none.
\<close>

theorem push_stays_with_first_account:
  fixes p :: "(push_app, 's) page"
  assumes "pg_inflight p = []" and "\<not> pn_registered (pg_browser p)" and "pn_seen (pg_browser p) = Some None" and "ta \<noteq> []" and "tb \<noteq> []"
    and net: "\<And>t q v. net t q v = (Inr r, f v)"
  shows "let effects = push_token_effect M True pushToken; signed_in = app_step effects net (Started t0 (Upd (mobile_setToken (Some ta)) Stop)) p;
      registered = app_step effects net (Answered t1 0) signed_in;
      other = app_run effects net [Started t2 (Upd mobile_logout Stop), Started t3 (Upd (mobile_setToken (Some tb)) Stop)] registered
    in map fst (pg_inflight signed_in) = [mobile_request M ''/notifications/tokens'' (plain_options ''POST'' (Some (mobile_push_body M pushToken))) (Some ta)] \<and>
       pg_server registered = f (pg_server p) \<and> au_token (pg_browser other) = Some tb \<and> pg_inflight other = [] \<and> pg_server other = f (pg_server p)"
proof -
  let ?e = "push_token_effect M True pushToken"
  let ?b1 = "(mobile_setToken (Some ta) ((pg_browser p)\<lparr>dv_clock := t0\<rparr>))\<lparr>pn_seen := Some (Some ta)\<rparr>"
  let ?q = "mobile_request M ''/notifications/tokens'' (plain_options ''POST'' (Some (mobile_push_body M pushToken))) (Some ta)"
  define k :: "exn + api_result \<Rightarrow> push_app act" where "k = (\<lambda>response. case response of Inl e \<Rightarrow> Stop | Inr r \<Rightarrow> Upd (\<lambda>b. b\<lparr>pn_registered := True\<rparr>) Stop)"
  have s: "run_act (Spawn (Upd (mobile_setToken (Some ta)) Stop) ?e) ((pg_browser p)\<lparr>dv_clock := t0\<rparr>) = ([(?q, api_parsed k)], ?b1)"
    using assms(2-4) by (simp add: push_token_effect_def register_push_def mobile_setToken_def present_def k_def)
  define p1 where "p1 = p\<lparr>pg_browser := ?b1, pg_inflight := [(?q, api_parsed k)]\<rparr>"
  have p1: "app_step ?e net (Started t0 (Upd (mobile_setToken (Some ta)) Stop)) p = p1"
    using step_started [OF s] assms(1) by (simp add: p1_def)
  define p2 where "p2 = app_step ?e net (Answered t1 0) p1"
  have p2: "p2 = p1\<lparr>pg_server := f (pg_server p1), pg_browser := ?b1\<lparr>dv_clock := t1, pn_registered := True, pn_seen := Some (Some ta)\<rparr>, pg_inflight := []\<rparr>"
    by (simp add: p2_def p1_def app_perform_def net k_def api_parsed_def push_token_effect_def mobile_setToken_def)
  show ?thesis
    unfolding Let_def p1 p2_def [symmetric]
    by (simp add: p2 p1_def app_run_def app_perform_def push_effect_quiet mobile_logout_def mobile_setToken_def)
qed

definition signed_off_device :: push_app where
  "signed_off_device = \<lparr>dv_token = None, dv_user = None, dv_pendingRoute = None, dv_clock = 0, dv_uuids = 0, dv_alerts = [], dv_stack = [(''Onboarding'', None)],
     au_token = None, au_user = None, au_users = 0, au_pendingRoute = None, au_hydrated = True, qs_status = Idle, qs_estimated = None, qs_match = None,
     qs_tokenSpent = False, qs_usersSearching = None, qs_queueKey = None, ws_lastMessage = None, ws_lastSessionStart = None,
     pn_registered = False, pn_seen = Some None\<rparr>"

lemma push_stays_with_first_account_witness:
  "pg_server (app_run (push_token_effect plain_mobile True ''ExponentPushToken'') (\<lambda>t q n. (Inr (ok_response JNull), Suc n))
     [Started 3 (Upd mobile_logout Stop), Started 4 (Upd (mobile_setToken (Some ''tb'')) Stop)]
     (app_step (push_token_effect plain_mobile True ''ExponentPushToken'') (\<lambda>t q n. (Inr (ok_response JNull), Suc n)) (Answered 2 0)
       (app_step (push_token_effect plain_mobile True ''ExponentPushToken'') (\<lambda>t q n. (Inr (ok_response JNull), Suc n)) (Started 1 (Upd (mobile_setToken (Some ''ta'')) Stop))
         \<lparr>pg_browser = signed_off_device, pg_server = 0, pg_inflight = []\<rparr>))) = (1 :: nat)"
proof -
  let ?p = "\<lparr>pg_browser = signed_off_device, pg_server = 0 :: nat, pg_inflight = []\<rparr>"
  have "pg_inflight ?p = []" "\<not> pn_registered (pg_browser ?p)" "pn_seen (pg_browser ?p) = Some None" by (simp_all add: signed_off_device_def)
  from push_stays_with_first_account [OF this, of "''ta''" "''tb''" "\<lambda>t q n. (Inr (ok_response JNull), Suc n)" "ok_response JNull" Suc plain_mobile "''ExponentPushToken''" 1 2 3 4]
  show ?thesis by (simp add: Let_def del: app_step.simps)
qed

end
