(* ===== verification/Spec2Isabelle.thy ===== *)
theory Spec2Isabelle
  imports Queue_Props Moderation_Props Payments_Props Chat_Props Guards_Props Analytics_Props Flags Notifications Telemetry_Props Monitoring Refresh_Guard Http_Props Web_Props Web_Chat_Props Mobile_Props Mobile_Shop_Props Mobile_Chat_Props Request_Props Mobile_Device_Props
begin

text \<open>
  The Verity backend (\<open>src/src\<close>): a server of short anonymous video sessions. A user joins the queue
  of a region for one token (\<open>queue.service.ts\<close>); a worker takes pairs from the queue and creates their
  session (\<open>matching.worker.ts\<close>); the session runs for 45 seconds, both users choose within a minute, and
  two MATCH choices make a match (\<open>session.service.ts\<close>, with the tokens of \<open>video.service.ts\<close>); a match has
  a reveal that each user acknowledges, and then a chat (\<open>matches.service.ts\<close>, \<open>chat.service.ts\<close>). Around
  this stand the accounts and their refresh tokens (\<open>auth.service.ts\<close>), the purchase of tokens
  (\<open>payments.service.ts\<close>), and reports, blocks, bans and appeals (\<open>moderation.service.ts\<close>).

  The parts meet in the database (PostgreSQL through Prisma) and in Redis: the queues are sorted sets,
  the entries of waiting users, locks, the state, choices and decision of a session, bans and cooldowns are keys with a
  time to live. So the model is a set of programs over one state:

  \<^item> \<open>Verity_Prelude\<close>: exceptions, the state monad of programs that may throw (\<open>fprog\<close>), strings and numbers
    of JavaScript, lemmas on tables of rows. \<open>Json\<close> prints and parses JSON (the parser carries fuel; the length of the
    text is enough, as the round trip shows), \<open>JsDate\<close> prints and parses ISO dates.
  \<^item> \<open>Redis_Client\<close>: the commands of Redis that the code uses, as a record, and their laws, the locale
    \<open>redis_client\<close>. \<open>InMemoryRedis\<close> models \<open>test/mocks/redis.mock.ts\<close> and interprets the locale.
  \<^item> \<open>Prisma_Client\<close>: one record per model of \<open>prisma/schema.prisma\<close>, the operations of a delegate, their laws (locales
    \<open>delegate\<close> and \<open>prisma_client\<close>), and an interpretation on lists of rows.
  \<^item> \<open>Backend_Env\<close>: the \<open>world\<close> (Redis, database, clock, effects sent to sockets and services, timers) and the
    \<open>env\<close> (clients, environment variables, \<open>crypto\<close>); the locale \<open>backend\<close>; rules for programs that write few
    keys (\<open>touches\<close>), keep the database (\<open>keeps_db\<close>) or keep an invariant (\<open>preserves\<close>).
  \<^item> \<open>Video\<close>, \<open>Reveal\<close>, \<open>Security_Config\<close>: \<open>video.service.ts\<close>, \<open>reveal.types.ts\<close>, \<open>security-config.ts\<close>.
  \<^item> \<open>Session\<close> (operations), \<open>Session_Choice\<close> (choices, timers, recovery), \<open>Session_Steps\<close> (sequences of handlers).
  \<^item> \<open>Queue\<close> (operations), \<open>Queue_Keys\<close> (names of queues), \<open>Queue_Laws\<close>; \<open>Matching_Worker\<close> and
    \<open>Worker_Laws\<close>; \<open>Gateways\<close> (sockets of the queue); \<open>Queue_Props\<close>.
  \<^item> \<open>Moderation\<close>, \<open>Moderation_Laws\<close>, \<open>Moderation_Props\<close>; \<open>Payments\<close>, \<open>Payments_Props\<close>; \<open>Auth\<close>,
    \<open>Auth_Laws\<close>, \<open>Auth_Props\<close>; \<open>Chat\<close>, \<open>Matches\<close>, \<open>Chat_Props\<close>; \<open>Guards\<close> (\<open>jwt.strategy.ts\<close>,
    \<open>roles.guard.ts\<close>), \<open>Guards_Props\<close>; \<open>Analytics\<close>, \<open>Analytics_Props\<close>; \<open>Flags\<close>; \<open>Notifications\<close>.
  \<^item> \<open>JsFloat\<close> (binary64 numbers), \<open>Telemetry\<close> and \<open>Telemetry_Props\<close> (\<open>src/telemetry\<close>), \<open>Monitoring\<close>; \<open>Refresh_Guard\<close>,
    \<open>Http_Routes\<close> and \<open>Http_Props\<close> (the controllers: every route with its guards, over the services).
  \<^item> \<open>Web_Client\<close> (requests, refresh, \<open>useAuth.tsx\<close>), \<open>Web_Laws\<close>, \<open>Web_Props\<close>; \<open>Web_Session\<close> (the pages from the queue
    to the decision), \<open>Emissions\<close> (what the server emits in the steps around a start), \<open>Web_Session_Props\<close>; \<open>Web_Chat\<close>, \<open>Web_Chat_Props\<close>:
    \<open>src/verity-web/src\<close>.
  \<^item> \<open>Web_Pages\<close> (the other pages, the dialog of reports and the routes), \<open>Web_Pages_Props\<close>; \<open>Request_Dto\<close> (the classes of the
    bodies and the validation pipe, the locale \<open>class_validator\<close>), \<open>Request_Props\<close> (bodies of the clients against the pipe).
  \<^item> \<open>Mobile_Client\<close> (requests and stores), \<open>Mobile_Session\<close> (search, call, decision, navigation), \<open>Mobile_Account\<close> (shop and
    settings), \<open>Mobile_Chat\<close>; \<open>Mobile_Laws\<close>, \<open>Mobile_Props\<close>, \<open>Mobile_Shop_Props\<close>, \<open>Mobile_Chat_Props\<close>; \<open>Mobile_Device\<close> (the shared
    sockets and the push token), \<open>Mobile_Device_Props\<close>: \<open>src/verity-mobile/src\<close>.

  Definitions keep the names of the functions and methods they translate. A method that changes state is a program over
  the \<open>world\<close>; an exception of the framework (\<open>BadRequestException\<close>, ...) is a value \<open>Inl e\<close>; a transaction of
  the database is \<open>transaction\<close>, which rolls back on an exception. The clients are activities (\<open>act\<close>): programs with continuations that
  run until they wait for a response, over the state of a page or a screen; a schedule says which response, event of a socket or touch comes
  next, so that a property about every schedule covers every order. The effects of a render are an activity that runs after each step.

  What the groups of lemmas show. Queues: joining takes one token exactly when it queues the user, joining and
  leaving gives the database back, the locks of users exclude each other, and a pass of the worker refines an abstract
  matching in which every waiting user is in exactly one new session or still waits. Sessions: a session starts once, ends
  once, at the latest by its timer, also after a restart; the decision is mutual exactly when both chose MATCH, and once stored
  it does not change. Moderation: the block list refines a set of pairs, the third violation bans, reports are limited.
  Payments: a checkout is credited once and the ledger agrees with the balances. Accounts: a family of
  refresh tokens has one live token, and a reused token revokes its family. Chat: consent of the sender, and no
  block. Analytics: every stored event is well formed, and the counters agree with the table. Telemetry: the stage gates are exactly
  the conditions of the code. Routes: a route that needs a user or an administrator never runs without. Clients: a page that is connected
  in time joins its call and a later one never does, the web chat converges in every order of events, what the mobile application stores is restored, and a profile that is saved is stored as the form shows it. The properties of the kind error show behaviour that the code probably does not intend.

  Choices and bounds. A handler runs at one instant of the clock; time passes between handlers. Handlers run one after the
  other, and the interleavings that matter (two finalizers, the worker between popping and locking a pair) are stated on the
  steps themselves. A call that its caller does not wait for is an effect in the trace: so \<open>createSession\<close> leaves
  \<open>SessionCreated\<close>, and the start of the session is a step of its own, before or after the match is announced
  (\<open>pair_step\<close> of \<open>Emissions\<close>). The two numbers of the recovery after a restart (\<open>pages\<close> of the key scan and \<open>limit\<close> of
  the keys handled) stand for its time limit of some seconds, so every recovery is total; the pass over a queue makes ten rounds, as the
  code does.

  Not part of the repository, so parameters: Redis and Prisma (with the laws of the locales above), the package of JSON web
  tokens (locale \<open>jwt_service\<close>), class-validator (locale \<open>class_validator\<close>), Stripe, Twilio, \<open>fetch\<close>, and \<open>crypto\<close> (digests, random identifiers).
  Every locale is interpreted on a concrete instance, on which the witnesses run.

  \<open>analyticsService.trackServerEvent\<close> and \<open>notificationsService.notifyUsers\<close>, which no caller waits for, are effects in the
  trace of the other components; \<open>Analytics\<close> and \<open>Notifications\<close> say what they do.

  Not modelled: log messages; the foreign keys of the schema and their cascades; failures of a connection; the modules and the
  bootstrap of the framework; of the clients the markup of React, the retries and refetches of react-query, the fields of the forms, the link that has opened the mobile application (\<open>getInitialURL\<close>), the legal texts, the video engines, the
  delivery of notifications and the theme; the marketing pages, the load tests and the deployment scripts. They are calls of a
  platform that the repository does not contain, or text without behaviour of its own.
\<close>

end
